(* ===== verification/Prelude.thy ===== *)
theory Prelude
  imports Main "HOL-Library.Sublist"
begin

text \<open>
  The shared base of the development: Python exceptions as values, the result
  type in which every fallible operation of the scripts returns, its bind and
  its traversals, and the hint collections the component theories extend.

  A Python function that may raise is a function into \<open>'a result\<close>, that is
  \<open>exn + 'a\<close>: \<open>Inl\<close> is the exception raised, \<open>Inr\<close> the value returned.
  Exceptions the scripts raise themselves carry their message; exceptions the
  interpreter raises (a method on the wrong type, a missing key) carry no text.
\<close>

named_theorems py_simps \<open>evaluation rules for the Python operations of the model\<close>
named_theorems result_dests \<open>inversion rules for operations that returned\<close>

section \<open>Exceptions\<close>

datatype exn =
    ValueError string
  | JSONDecodeError
  | UnicodeError
  | TypeError
  | AttributeError
  | KeyError string
  | IndexError
  | StopIteration
  | OSError
  | HTTPError int
  | FileExistsError string
  | RuntimeError string
  | CalledProcessError int
  | TimeoutExpired
  | TarError
  | BadZipFile
  | EOFError
  | ZlibError
  | SystemExit string
  | ReleaseLookupError string
  | ReleaseAlreadyExistsError string
  | ReleaseLineageError string

text \<open>
  The class hierarchy behind the scripts' \<open>except\<close> clauses: \<open>HTTPError\<close>
  and \<open>FileExistsError\<close> are \<open>OSError\<close>s, a JSON or Unicode decoding failure is a
  \<open>ValueError\<close>, the release errors are \<open>RuntimeError\<close>s.
\<close>

fun is_OSError :: "exn \<Rightarrow> bool" where
  "is_OSError OSError = True"
| "is_OSError (HTTPError _) = True"
| "is_OSError (FileExistsError _) = True"
| "is_OSError _ = False"

fun is_ValueError :: "exn \<Rightarrow> bool" where
  "is_ValueError (ValueError _) = True"
| "is_ValueError JSONDecodeError = True"
| "is_ValueError UnicodeError = True"
| "is_ValueError _ = False"

fun is_RuntimeError :: "exn \<Rightarrow> bool" where
  "is_RuntimeError (RuntimeError _) = True"
| "is_RuntimeError (ReleaseLookupError _) = True"
| "is_RuntimeError (ReleaseAlreadyExistsError _) = True"
| "is_RuntimeError (ReleaseLineageError _) = True"
| "is_RuntimeError _ = False"

text \<open>\<open>SystemExit\<close> is a \<open>BaseException\<close> only: \<open>except Exception\<close> does not catch it.\<close>

fun is_Exception :: "exn \<Rightarrow> bool" where
  "is_Exception (SystemExit _) = False"
| "is_Exception _ = True"

section \<open>Results\<close>

type_synonym 'a result = "exn + 'a"

abbreviation raise :: "exn \<Rightarrow> 'a result" where "raise \<equiv> Inl"
abbreviation ret :: "'a \<Rightarrow> 'a result" where "ret \<equiv> Inr"

definition bindE :: "'e + 'a \<Rightarrow> ('a \<Rightarrow> 'e + 'b) \<Rightarrow> 'e + 'b" where
  "bindE m f = (case m of Inl e \<Rightarrow> Inl e | Inr x \<Rightarrow> f x)"

definition catchE :: "'e + 'a \<Rightarrow> ('e \<Rightarrow> 'f + 'a) \<Rightarrow> 'f + 'a" where
  "catchE m h = (case m of Inl e \<Rightarrow> h e | Inr x \<Rightarrow> Inr x)"

definition isOK :: "'e + 'a \<Rightarrow> bool" where
  "isOK m = (case m of Inl _ \<Rightarrow> False | Inr _ \<Rightarrow> True)"

lemma bindE_simps [simp, py_simps]:
  "bindE (Inl e) f = Inl e"
  "bindE (Inr x) f = f x"
  by (simp_all add: bindE_def)

lemma bindE_eq_Inr [simp]:
  "bindE m f = Inr y \<longleftrightarrow> (\<exists>x. m = Inr x \<and> f x = Inr y)"
  by (cases m) auto

lemma bindE_eq_Inl:
  "bindE m f = Inl e \<longleftrightarrow> m = Inl e \<or> (\<exists>x. m = Inr x \<and> f x = Inl e)"
  by (cases m) auto

lemma bindE_assoc: "bindE (bindE m f) g = bindE m (\<lambda>x. bindE (f x) g)"
  by (cases m) auto

lemma bindE_cong [fundef_cong]:
  assumes "m = m'" and "\<And>x. m' = Inr x \<Longrightarrow> f x = g x"
  shows "bindE m f = bindE m' g"
  using assms by (cases m') auto

lemma catchE_simps [simp, py_simps]:
  "catchE (Inl e) h = h e"
  "catchE (Inr x) h = Inr x"
  by (simp_all add: catchE_def)

lemma isOK_simps [simp]:
  "\<not> isOK (Inl e)"
  "isOK (Inr x)"
  by (simp_all add: isOK_def)

lemma isOK_iff: "isOK m \<longleftrightarrow> (\<exists>x. m = Inr x)"
  by (cases m) auto

lemma if_raise_eq_Inr [simp]:
  "(if c then Inl e else m) = Inr y \<longleftrightarrow> \<not> c \<and> m = Inr y"
  by auto

lemma option_cases_Inr:
  "(case x of None \<Rightarrow> Inl e | Some y \<Rightarrow> f y) = Inr z \<longleftrightarrow> (\<exists>y. x = Some y \<and> f y = Inr z)"
  by (cases x) auto

lemma ex_unit: "(\<exists>x :: unit. P x) \<longleftrightarrow> P ()"
  by auto

lemma not_OK_iff: "\<not> isOK m \<longleftrightarrow> (\<exists>e. m = Inl e)"
  by (cases m) auto

section \<open>Traversals\<close>

text \<open>
  \<open>mapE\<close> is a list comprehension (or a loop that appends one result per
  element), \<open>foldE\<close> a loop that threads a value; both stop at the first raise.
\<close>

fun mapE :: "('a \<Rightarrow> 'e + 'b) \<Rightarrow> 'a list \<Rightarrow> 'e + 'b list" where
  "mapE f [] = Inr []"
| "mapE f (x # xs) = bindE (f x) (\<lambda>y. bindE (mapE f xs) (\<lambda>ys. Inr (y # ys)))"

fun foldE :: "('s \<Rightarrow> 'a \<Rightarrow> 'e + 's) \<Rightarrow> 's \<Rightarrow> 'a list \<Rightarrow> 'e + 's" where
  "foldE f s [] = Inr s"
| "foldE f s (x # xs) = bindE (f s x) (\<lambda>s'. foldE f s' xs)"

lemma mapE_cong [fundef_cong]:
  assumes "xs = ys" and "\<And>x. x \<in> set ys \<Longrightarrow> f x = g x"
  shows "mapE f xs = mapE g ys"
  unfolding assms(1) using assms(2) by (induction ys) auto

lemma mapE_list_all2: "mapE f xs = Inr ys \<longleftrightarrow> list_all2 (\<lambda>x y. f x = Inr y) xs ys"
proof (induction xs arbitrary: ys)
  case Nil
  then show ?case by auto
next
  case (Cons x xs)
  show ?case by (cases ys) (auto simp: Cons.IH)
qed

lemma mapE_length: "mapE f xs = Inr ys \<Longrightarrow> length ys = length xs"
  by (auto simp: mapE_list_all2 dest: list_all2_lengthD)

lemma mapE_set_result: "mapE f xs = Inr ys \<Longrightarrow> y \<in> set ys \<Longrightarrow> \<exists>x\<in>set xs. f x = Inr y"
  by (induction xs arbitrary: ys) auto

lemma mapE_set_source: "mapE f xs = Inr ys \<Longrightarrow> x \<in> set xs \<Longrightarrow> \<exists>y\<in>set ys. f x = Inr y"
  by (induction xs arbitrary: ys) auto

lemma mapE_all:
  "mapE f xs = Inr ys \<Longrightarrow> (\<And>x y. x \<in> set xs \<Longrightarrow> f x = Inr y \<Longrightarrow> P y) \<Longrightarrow> list_all P ys"
  by (auto simp: list_all_iff dest: mapE_set_result)

lemma mapE_Inr_map: "(\<And>x. x \<in> set xs \<Longrightarrow> f x = Inr (g x)) \<Longrightarrow> mapE f xs = Inr (map g xs)"
  by (induction xs) auto

text \<open>A traversal whose step is a check and a value.\<close>

lemma mapE_check:
  assumes "\<And>x y. f x = Inr y \<longleftrightarrow> P x \<and> y = g x"
  shows "mapE f xs = Inr ys \<longleftrightarrow> list_all P xs \<and> ys = map g xs"
  by (induction xs arbitrary: ys) (auto simp: assms)

lemma list_ex_not: "list_ex (\<lambda>x. \<not> P x) xs \<longleftrightarrow> \<not> list_all P xs"
  by (induction xs) auto

lemma mapE_unit: "mapE f xs = Inr (ys :: unit list) \<longleftrightarrow> (\<forall>x\<in>set xs. f x = Inr ()) \<and> length ys = length xs"
proof (induction xs arbitrary: ys)
  case (Cons x xs)
  show ?case by (cases ys) (auto simp: Cons.IH)
qed auto

lemma one_match:
  "distinct (map f xs) \<Longrightarrow> n \<in> f ` set xs \<Longrightarrow> length (filter (\<lambda>x. f x = n) xs) = 1"
proof (induction xs)
  case (Cons x xs)
  then have "f x \<notin> f ` set xs" by simp
  then have "f x = n \<Longrightarrow> filter (\<lambda>x. f x = n) xs = []"
    unfolding filter_empty_conv by (metis imageI)
  with Cons show ?case by auto
qed simp

lemma foldE_append:
  "foldE f s (xs @ ys) = bindE (foldE f s xs) (\<lambda>s'. foldE f s' ys)"
  by (induction xs arbitrary: s) (auto simp: bindE_assoc)

text \<open>The loop rule: what each successful iteration keeps holds of the final value.\<close>

lemma foldE_invariant:
  assumes "foldE f s xs = Inr t"
    and "P s"
    and "\<And>s x s'. P s \<Longrightarrow> x \<in> set xs \<Longrightarrow> f s x = Inr s' \<Longrightarrow> P s'"
  shows "P t"
  using assms
proof (induction xs arbitrary: s)
  case Nil
  then show ?case by simp
next
  case (Cons x xs)
  from Cons.prems(1) obtain s' where "f s x = Inr s'" and rest: "foldE f s' xs = Inr t" by auto
  then have "P s'" using Cons.prems(2,3) by (metis list.set_intros(1))
  from Cons.IH [OF rest this] Cons.prems(3) show ?case by (metis list.set_intros(2))
qed

lemma foldE_mono:
  assumes "foldE f s xs = Inr t"
    and "\<And>s x s'. x \<in> set xs \<Longrightarrow> f s x = Inr s' \<Longrightarrow> le s s'"
    and "\<And>s. le s s" and "\<And>a b c. le a b \<Longrightarrow> le b c \<Longrightarrow> le a c"
  shows "le s t"
  using assms(1,2)
proof (induction xs arbitrary: s)
  case Nil
  then show ?case using assms(3) by simp
next
  case (Cons x xs)
  from Cons.prems(1) obtain s' where "f s x = Inr s'" and rest: "foldE f s' xs = Inr t" by auto
  then have "le s s'" using Cons.prems(2) by (metis list.set_intros(1))
  moreover have "le s' t"
    using Cons.IH [OF rest] Cons.prems(2) by (metis list.set_intros(2))
  ultimately show ?case by (rule assms(4))
qed

text \<open>What one iteration establishes and the later ones keep holds at the end.\<close>

lemma foldE_reaches:
  assumes run: "foldE f s xs = Inr t" and x: "x \<in> set xs"
    and est: "\<And>s s'. f s x = Inr s' \<Longrightarrow> Q s'"
    and keep: "\<And>s y s'. Q s \<Longrightarrow> y \<in> set xs \<Longrightarrow> f s y = Inr s' \<Longrightarrow> Q s'"
  shows "Q t"
proof -
  from x obtain as bs where xs: "xs = as @ x # bs" by (auto simp: in_set_conv_decomp)
  with run obtain u s' where s': "f u x = Inr s'" and rest: "foldE f s' bs = Inr t"
    by (auto simp: foldE_append)
  from rest est [OF s'] show ?thesis
  proof (rule foldE_invariant)
    fix s y s'
    assume "Q s" and "y \<in> set bs" and "f s y = Inr s'"
    moreover from \<open>y \<in> set bs\<close> have "y \<in> set xs" by (simp add: xs)
    ultimately show "Q s'" using keep by metis
  qed
qed

section \<open>Association lists as dictionaries\<close>

text \<open>
  A Python dictionary keeps the order in which its keys were first inserted.
  \<open>put\<close> is \<open>d[k] = v\<close>: it replaces the value where the key is, and appends
  otherwise; \<open>map_of\<close> is the look-up.
\<close>

fun put :: "'k \<Rightarrow> 'v \<Rightarrow> ('k \<times> 'v) list \<Rightarrow> ('k \<times> 'v) list" where
  "put k v [] = [(k, v)]"
| "put k v ((k', v') # kvs) = (if k = k' then (k, v) # kvs else (k', v') # put k v kvs)"

lemma map_of_put [simp]: "map_of (put k v kvs) = (map_of kvs)(k \<mapsto> v)"
  by (induction k v kvs rule: put.induct) (auto simp: fun_eq_iff)

lemma keys_put [simp]: "fst ` set (put k v kvs) = insert k (fst ` set kvs)"
  by (induction k v kvs rule: put.induct) auto

lemma distinct_put [simp]: "distinct (map fst (put k v kvs)) = distinct (map fst kvs)"
proof (induction k v kvs rule: put.induct)
  case (2 k v k' v' kvs)
  have "set (map fst (put k v kvs)) = insert k (set (map fst kvs))"
    by (simp only: set_map keys_put)
  with 2 show ?case by auto
qed auto

lemma set_put_subset: "set (put k v kvs) \<subseteq> insert (k, v) (set kvs)"
  by (induction k v kvs rule: put.induct) auto

lemma put_fresh: "k \<notin> fst ` set kvs \<Longrightarrow> put k v kvs = kvs @ [(k, v)]"
  by (induction k v kvs rule: put.induct) auto

lemma in_put: "(k, v) \<in> set (put k v kvs)"
  by (induction k v kvs rule: put.induct) auto

text \<open>\<open>{**a, **b}\<close>: the entries of \<open>b\<close> win, the order is that of first insertion.\<close>

definition merge :: "('k \<times> 'v) list \<Rightarrow> ('k \<times> 'v) list \<Rightarrow> ('k \<times> 'v) list" where
  "merge a b = fold (\<lambda>(k, v). put k v) b a"

lemma map_of_merge: "distinct (map fst b) \<Longrightarrow> map_of (merge a b) = map_of a ++ map_of b"
  unfolding merge_def
proof (induction b arbitrary: a)
  case Nil
  then show ?case by simp
next
  case (Cons kv b)
  obtain k v where kv: "kv = (k, v)" by (cases kv)
  with Cons.prems have "map_of b k = None" by (auto simp: map_of_eq_None_iff)
  then show ?case using Cons kv
    by (auto simp: fun_eq_iff map_add_def split: option.splits)
qed

lemma keys_merge: "fst ` set (merge a b) = fst ` set a \<union> fst ` set b"
  unfolding merge_def
proof (induction b arbitrary: a)
  case (Cons kv b)
  show ?case by (cases kv) (simp add: Cons.IH del: set_map)
qed simp

end
