(* ===== verification/Py_Str.thy ===== *)
theory Py_Str
  imports Prelude "HOL-Library.Word"
begin

text \<open>
  Python strings and bytes. A string is a list of \<open>char\<close>, one per code point, so
  the model speaks of text whose code points are below 256 (all identifiers, digests,
  URLs and log lines the scripts handle are); bytes are lists of \<open>8 word\<close>.
  The operations are those of \<open>str\<close> the scripts call, on that range of code points.
\<close>

type_synonym bytes = "8 word list"

section \<open>Character classes\<close>

definition code :: "char \<Rightarrow> nat" where
  "code c = of_char c"

definition is_digit :: "char \<Rightarrow> bool" where
  "is_digit c = (48 \<le> code c \<and> code c \<le> 57)"
definition is_lower :: "char \<Rightarrow> bool" where
  "is_lower c = (97 \<le> code c \<and> code c \<le> 122)"
definition is_upper :: "char \<Rightarrow> bool" where
  "is_upper c = (65 \<le> code c \<and> code c \<le> 90)"
definition is_lhex :: "char \<Rightarrow> bool" where
  "is_lhex c = (is_digit c \<or> (97 \<le> code c \<and> code c \<le> 102))"
definition is_alnum :: "char \<Rightarrow> bool" where
  "is_alnum c = (is_digit c \<or> is_lower c \<or> is_upper c)"

lemmas char_class_defs = code_def is_digit_def is_lower_def is_upper_def is_lhex_def is_alnum_def

text \<open>\<open>str.isspace\<close> and the regular-expression class \<open>\w\<close> on code points below 256.\<close>

definition is_space :: "char \<Rightarrow> bool" where
  "is_space c = (let n = code c in
     (9 \<le> n \<and> n \<le> 13) \<or> (28 \<le> n \<and> n \<le> 32) \<or> n = 133 \<or> n = 160)"

definition is_word :: "char \<Rightarrow> bool" where
  "is_word c = (let n = code c in is_alnum c \<or> n = 95 \<or> n = 170 \<or> n = 178 \<or> n = 179
     \<or> n = 181 \<or> n = 185 \<or> n = 186 \<or> (188 \<le> n \<and> n \<le> 190)
     \<or> (192 \<le> n \<and> n \<noteq> 215 \<and> n \<noteq> 247))"

definition lower_char :: "char \<Rightarrow> char" where
  "lower_char c = (let n = code c in
     if (65 \<le> n \<and> n \<le> 90) \<or> (192 \<le> n \<and> n \<le> 222 \<and> n \<noteq> 215) then char_of (n + 32) else c)"

definition upper_char :: "char \<Rightarrow> char" where
  "upper_char c = (if is_lower c then char_of (code c - 32) else c)"

definition py_lower :: "string \<Rightarrow> string" where
  "py_lower s = map lower_char s"

section \<open>Prefixes, suffixes, substrings\<close>

definition startswith :: "string \<Rightarrow> string \<Rightarrow> bool" where
  "startswith s p = (take (length p) s = p)"

definition endswith :: "string \<Rightarrow> string \<Rightarrow> bool" where
  "endswith s p = startswith (rev s) (rev p)"

definition removeprefix :: "string \<Rightarrow> string \<Rightarrow> string" where
  "removeprefix s p = (if startswith s p then drop (length p) s else s)"

definition removesuffix :: "string \<Rightarrow> string \<Rightarrow> string" where
  "removesuffix s p = (if p \<noteq> [] \<and> endswith s p then take (length s - length p) s else s)"

fun occurs_in :: "string \<Rightarrow> string \<Rightarrow> bool" where
  "occurs_in p [] = (p = [])"
| "occurs_in p (c # cs) = (startswith (c # cs) p \<or> occurs_in p cs)"

lemma startswith_iff: "startswith s p \<longleftrightarrow> (\<exists>t. s = p @ t)"
  unfolding startswith_def by (metis append_eq_conv_conj append_take_drop_id)

lemma startswith_append [simp]: "startswith (p @ t) p"
  by (simp add: startswith_def)

lemma endswith_iff: "endswith s p \<longleftrightarrow> (\<exists>t. s = t @ p)"
  unfolding endswith_def startswith_iff
  by (metis rev_append rev_rev_ident)

lemma removeprefix_append [simp]: "removeprefix (p @ t) p = t"
  by (simp add: removeprefix_def)

lemma occurs_in_iff: "occurs_in p s \<longleftrightarrow> (\<exists>a b. s = a @ p @ b)"
proof (induction s)
  case Nil
  then show ?case by auto
next
  case (Cons c cs)
  have "(\<exists>a b. c # cs = a @ p @ b) \<longleftrightarrow> startswith (c # cs) p \<or> (\<exists>a b. cs = a @ p @ b)"
    (is "?l \<longleftrightarrow> ?r")
  proof
    assume ?l
    then obtain a b where ab: "c # cs = a @ p @ b" by blast
    then show ?r by (cases a) (auto simp: startswith_iff)
  next
    assume ?r
    then show ?l
      by (metis append_Cons append_Nil startswith_iff)
  qed
  with Cons show ?case by simp
qed

section \<open>Splitting and joining\<close>

text \<open>\<open>s.split(c)\<close> on one separator character: always at least one part.\<close>

fun split_on :: "char \<Rightarrow> string \<Rightarrow> string list" where
  "split_on c [] = [[]]"
| "split_on c (x # xs) =
     (if x = c then [] # split_on c xs
      else (case split_on c xs of [] \<Rightarrow> [[x]] | p # ps \<Rightarrow> (x # p) # ps))"

fun join :: "string \<Rightarrow> string list \<Rightarrow> string" where
  "join sep [] = []"
| "join sep [x] = x"
| "join sep (x # y # ys) = x @ sep @ join sep (y # ys)"

lemma split_on_nonempty [simp]: "split_on c s \<noteq> []"
  by (induction c s rule: split_on.induct) (auto split: list.splits)

lemma split_on_no_sep: "p \<in> set (split_on c s) \<Longrightarrow> c \<notin> set p"
  by (induction c s arbitrary: p rule: split_on.induct) (auto split: if_splits list.splits)

lemma split_on_single: "c \<notin> set s \<Longrightarrow> split_on c s = [s]"
  by (induction c s rule: split_on.induct) auto

lemma join_split_on: "join [c] (split_on c s) = s"
proof (induction c s rule: split_on.induct)
  case (1 c)
  then show ?case by simp
next
  case (2 c x xs)
  obtain p ps where "split_on c xs = p # ps" by (cases "split_on c xs") auto
  with 2 show ?case by (cases ps) auto
qed

lemma split_on_join:
  "ps \<noteq> [] \<Longrightarrow> (\<And>p. p \<in> set ps \<Longrightarrow> c \<notin> set p) \<Longrightarrow> split_on c (join [c] ps) = ps"
proof (induction ps)
  case Nil
  then show ?case by simp
next
  case (Cons p ps)
  have app: "c \<notin> set p \<Longrightarrow> split_on c (p @ c # t) = p # split_on c t" for t
    by (induction p) auto
  show ?case
  proof (cases ps)
    case Nil
    with Cons.prems show ?thesis by (simp add: split_on_single)
  next
    case (Cons q qs)
    with Cons.IH Cons.prems app show ?thesis by simp
  qed
qed

text \<open>\<open>s.rsplit(c, 1)[-1]\<close>, \<open>s.split(c, 1)[0]\<close> and \<open>s.rsplit(c, 1)[1]\<close>.\<close>

definition after_last :: "char \<Rightarrow> string \<Rightarrow> string" where
  "after_last c s = last (split_on c s)"

definition before_first :: "char \<Rightarrow> string \<Rightarrow> string" where
  "before_first c s = takeWhile (\<lambda>x. x \<noteq> c) s"

definition rsplit_tail :: "char \<Rightarrow> string \<Rightarrow> string result" where
  "rsplit_tail c s = (if c \<in> set s then ret (after_last c s) else raise IndexError)"

lemma after_last_no_sep: "c \<notin> set (after_last c s)"
  unfolding after_last_def using split_on_no_sep last_in_set split_on_nonempty by blast

lemma before_first_append: "c \<notin> set a \<Longrightarrow> before_first c (a @ c # b) = a"
  unfolding before_first_def by (induction a) auto

lemma after_last_append: "c \<notin> set b \<Longrightarrow> after_last c (a @ c # b) = b"
  unfolding after_last_def
proof (induction a)
  case Nil
  then show ?case by (simp add: split_on_single)
next
  case (Cons x a)
  have "length (split_on c (a @ c # b)) \<ge> 2"
    by (induction a) (auto split: list.splits simp: Suc_le_eq)
  then obtain p q ps where "split_on c (a @ c # b) = p # q # ps"
    by (cases "split_on c (a @ c # b)"; cases "tl (split_on c (a @ c # b))") auto
  with Cons show ?case by auto
qed

text \<open>\<open>s.split(sep, 1)[0]\<close> for a separator of any length.\<close>

fun before_sub :: "string \<Rightarrow> string \<Rightarrow> string" where
  "before_sub p [] = []"
| "before_sub p (c # cs) = (if startswith (c # cs) p then [] else c # before_sub p cs)"

text \<open>\<open>s.rstrip(c)\<close>, \<open>s.strip(c)\<close>, \<open>s.strip()\<close>, \<open>s.split()\<close>, \<open>s.splitlines()\<close>.\<close>

definition rstrip_char :: "char \<Rightarrow> string \<Rightarrow> string" where
  "rstrip_char c s = rev (dropWhile (\<lambda>x. x = c) (rev s))"

definition strip_char :: "char \<Rightarrow> string \<Rightarrow> string" where
  "strip_char c s = rstrip_char c (dropWhile (\<lambda>x. x = c) s)"

definition strip :: "string \<Rightarrow> string" where
  "strip s = rev (dropWhile is_space (rev (dropWhile is_space s)))"

fun split_ws_aux :: "string \<Rightarrow> string \<Rightarrow> string list" where
  "split_ws_aux cur [] = (if cur = [] then [] else [rev cur])"
| "split_ws_aux cur (x # xs) =
     (if is_space x then (if cur = [] then split_ws_aux [] xs else rev cur # split_ws_aux [] xs)
      else split_ws_aux (x # cur) xs)"

definition split_ws :: "string \<Rightarrow> string list" where
  "split_ws s = split_ws_aux [] s"

text \<open>
  Line boundaries of \<open>splitlines\<close> below code point 256: LF, VT, FF, CR (and CR LF as
  one), FS, GS, RS and NEL.
\<close>

definition is_linebreak :: "char \<Rightarrow> bool" where
  "is_linebreak c = (let n = code c in (10 \<le> n \<and> n \<le> 13) \<or> (28 \<le> n \<and> n \<le> 30) \<or> n = 133)"

function splitlines_aux :: "string \<Rightarrow> string \<Rightarrow> string list" where
  "splitlines_aux cur [] = (if cur = [] then [] else [rev cur])"
| "splitlines_aux cur (x # xs) =
     (if code x = 13 \<and> (case xs of [] \<Rightarrow> False | y # _ \<Rightarrow> code y = 10)
      then rev cur # splitlines_aux [] (tl xs)
      else if is_linebreak x then rev cur # splitlines_aux [] xs
      else splitlines_aux (x # cur) xs)"
  by pat_completeness auto
termination
  by (relation "measure (\<lambda>(cur, s). length s)") (auto split: list.splits)

definition splitlines :: "string \<Rightarrow> string list" where
  "splitlines s = splitlines_aux [] s"

lemma split_ws_aux_parts:
  "list_all (\<lambda>c. \<not> is_space c) cur \<Longrightarrow> p \<in> set (split_ws_aux cur s) \<Longrightarrow>
     p \<noteq> [] \<and> list_all (\<lambda>c. \<not> is_space c) p"
  by (induction cur s rule: split_ws_aux.induct) (auto split: if_splits)

lemma split_ws_parts: "p \<in> set (split_ws s) \<Longrightarrow> p \<noteq> [] \<and> list_all (\<lambda>c. \<not> is_space c) p"
  unfolding split_ws_def by (rule split_ws_aux_parts) auto

text \<open>\<open>s.replace(c, t)\<close> for a one-character pattern, and \<open>s.capitalize()\<close>.\<close>

definition replace_char :: "char \<Rightarrow> string \<Rightarrow> string \<Rightarrow> string" where
  "replace_char c t s = concat (map (\<lambda>x. if x = c then t else [x]) s)"

definition capitalize :: "string \<Rightarrow> string" where
  "capitalize s = (case s of [] \<Rightarrow> [] | c # cs \<Rightarrow> upper_char c # py_lower cs)"

section \<open>Numbers as text, UTF-8, percent encoding\<close>

fun nat_digits :: "nat \<Rightarrow> string" where
  "nat_digits n = (if n < 10 then [char_of (48 + n)]
                   else nat_digits (n div 10) @ [char_of (48 + n mod 10)])"

declare nat_digits.simps [simp del]

definition decimal_value :: "string \<Rightarrow> nat" where
  "decimal_value s = fold (\<lambda>c n. 10 * n + (code c - 48)) s 0"

definition int_str :: "int \<Rightarrow> string" where
  "int_str i = (if i < 0 then CHR ''-'' # nat_digits (nat (- i)) else nat_digits (nat i))"

definition utf8_char :: "char \<Rightarrow> bytes" where
  "utf8_char c = (let n = code c in
     if n < 128 then [word_of_nat n]
     else [word_of_nat (192 + n div 64), word_of_nat (128 + n mod 64)])"

definition utf8 :: "string \<Rightarrow> bytes" where
  "utf8 s = concat (map utf8_char s)"

definition hex_digit :: "nat \<Rightarrow> char" where
  "hex_digit n = (if n < 10 then char_of (48 + n) else char_of (87 + n))"

definition hex_digit_upper :: "nat \<Rightarrow> char" where
  "hex_digit_upper n = (if n < 10 then char_of (48 + n) else char_of (55 + n))"

text \<open>\<open>urllib.parse.quote(s, safe='')\<close>: unreserved characters stay, every other byte is escaped.\<close>

definition unreserved :: "nat \<Rightarrow> bool" where
  "unreserved n = ((48 \<le> n \<and> n \<le> 57) \<or> (65 \<le> n \<and> n \<le> 90) \<or> (97 \<le> n \<and> n \<le> 122)
     \<or> n = 95 \<or> n = 46 \<or> n = 45 \<or> n = 126)"

definition quote_byte :: "8 word \<Rightarrow> string" where
  "quote_byte b = (let n = unat b in
     if unreserved n then [char_of n]
     else [CHR ''%'', hex_digit_upper (n div 16), hex_digit_upper (n mod 16)])"

definition quote :: "string \<Rightarrow> string" where
  "quote s = concat (map quote_byte (utf8 s))"

definition url_safe_char :: "char \<Rightarrow> bool" where
  "url_safe_char c = (unreserved (code c) \<or> c = CHR ''%'')"

lemma nat_digits_nonempty [simp]: "nat_digits n \<noteq> []"
  by (subst nat_digits.simps) simp

lemma code_char_of [simp]: "n < 256 \<Longrightarrow> code (char_of n) = n"
  by (simp add: code_def)

lemma code_less [simp]: "code c < 256"
  by (simp add: code_def)

lemma char_of_code [simp]: "char_of (code c) = c"
  by (simp add: code_def)

lemma code_inject: "code a = code b \<longleftrightarrow> a = b"
  by (metis char_of_code)

lemma hex_digit_lhex: "n < 16 \<Longrightarrow> is_lhex (hex_digit n)"
  by (auto simp: hex_digit_def is_lhex_def is_digit_def)

lemma nat_digits_all_digits: "list_all is_digit (nat_digits n)"
proof (induction n rule: nat_digits.induct)
  case (1 n)
  have "is_digit (char_of (48 + m))" if "m < 10" for m :: nat
    using that by (simp add: is_digit_def)
  with 1 show ?case by (subst nat_digits.simps) simp
qed

text \<open>Reading a number back from its digits: distinct numbers have distinct texts.\<close>

lemma decimal_value_digits: "decimal_value (nat_digits n) = n"
proof (induction n rule: nat_digits.induct)
  case (1 n)
  have digit: "code (char_of (48 + m)) = 48 + m" if "m < 10" for m
    using that by simp
  show ?case
  proof (cases "n < 10")
    case True
    then show ?thesis
      by (subst nat_digits.simps) (simp add: decimal_value_def digit)
  next
    case False
    with 1 have "decimal_value (nat_digits (n div 10)) = n div 10" by blast
    with False show ?thesis
      by (subst nat_digits.simps) (simp add: decimal_value_def digit)
  qed
qed

lemma nat_digits_inject [simp]: "nat_digits m = nat_digits n \<longleftrightarrow> m = n"
  by (metis decimal_value_digits)

lemma quote_byte_safe: "list_all url_safe_char (quote_byte b)"
proof -
  have "unat b < 256" using unsigned_less [of b] by simp
  moreover have "n < 16 \<Longrightarrow> unreserved (code (hex_digit_upper n))" for n
    by (auto simp: hex_digit_upper_def unreserved_def)
  ultimately show ?thesis
    by (auto simp: quote_byte_def Let_def url_safe_char_def)
qed

lemma quote_safe: "list_all url_safe_char (quote s)"
  unfolding quote_def list_all_iff using quote_byte_safe by (auto simp: list_all_iff)

lemma slash_not_in_quote: "CHR ''/'' \<notin> set (quote s)"
  using quote_safe [of s]
  by (auto simp: list_all_iff url_safe_char_def unreserved_def code_def)

text \<open>\<open>int(s)\<close> on text: surrounding space, a sign, digits with single underscores between them.\<close>

definition int_digits :: "string \<Rightarrow> bool" where
  "int_digits s = (s \<noteq> [] \<and> list_all (\<lambda>p. p \<noteq> [] \<and> list_all is_digit p) (split_on (CHR ''_'') s))"

definition py_int :: "string \<Rightarrow> int result" where
  "py_int s = (let t = strip s; neg = startswith t ''-''; u = (if neg \<or> startswith t ''+'' then tl t else t) in
     if \<not> int_digits u then raise (ValueError ''invalid literal for int()'')
     else let n = int (decimal_value (filter is_digit u)) in ret (if neg then - n else n))"

end
