(* ===== verification/Py_Json.thy ===== *)
theory Py_Json
  imports Py_Str "HOL-Library.Char_ord" "HOL-Library.List_Lexorder"
begin

text \<open>
  The values \<open>json.loads\<close> yields and the operations the scripts apply to them, with
  the exception Python raises where an operation does not fit the value.

  An object is an association list in insertion order (\<open>wf_json\<close>: no key twice, as
  in a \<open>dict\<close>). \<open>None\<close> is \<open>JNull\<close>. A float is opaque: \<open>JFloat r\<close> stands for a finite
  number that is not an integer, named by its \<open>repr\<close>; the documents of the program
  carry counters, states, names and digests, and no operation computes with floats.
\<close>

datatype json =
    JNull
  | JBool bool
  | JInt int
  | JFloat string
  | JStr string
  | JArr "json list"
  | JObj "(string \<times> json) list"

section \<open>Type tests and truth\<close>

definition is_dict :: "json \<Rightarrow> bool" where
  "is_dict j = (case j of JObj _ \<Rightarrow> True | _ \<Rightarrow> False)"
definition is_list :: "json \<Rightarrow> bool" where
  "is_list j = (case j of JArr _ \<Rightarrow> True | _ \<Rightarrow> False)"
definition is_str :: "json \<Rightarrow> bool" where
  "is_str j = (case j of JStr _ \<Rightarrow> True | _ \<Rightarrow> False)"
definition is_bool :: "json \<Rightarrow> bool" where
  "is_bool j = (case j of JBool _ \<Rightarrow> True | _ \<Rightarrow> False)"

text \<open>\<open>isinstance(x, int)\<close> holds of booleans, \<open>type(x) is int\<close> does not.\<close>

definition is_int :: "json \<Rightarrow> bool" where
  "is_int j = (case j of JInt _ \<Rightarrow> True | JBool _ \<Rightarrow> True | _ \<Rightarrow> False)"
definition type_is_int :: "json \<Rightarrow> bool" where
  "type_is_int j = (case j of JInt _ \<Rightarrow> True | _ \<Rightarrow> False)"

fun truthy :: "json \<Rightarrow> bool" where
  "truthy JNull = False"
| "truthy (JBool b) = b"
| "truthy (JInt i) = (i \<noteq> 0)"
| "truthy (JFloat _) = True"
| "truthy (JStr s) = (s \<noteq> [])"
| "truthy (JArr xs) = (xs \<noteq> [])"
| "truthy (JObj kvs) = (kvs \<noteq> [])"

lemma json_tests [simp]:
  "is_dict j \<longleftrightarrow> (\<exists>kvs. j = JObj kvs)"
  "is_list j \<longleftrightarrow> (\<exists>xs. j = JArr xs)"
  "is_str j \<longleftrightarrow> (\<exists>s. j = JStr s)"
  "is_bool j \<longleftrightarrow> (\<exists>b. j = JBool b)"
  "is_int j \<longleftrightarrow> (\<exists>i. j = JInt i) \<or> (\<exists>b. j = JBool b)"
  "type_is_int j \<longleftrightarrow> (\<exists>i. j = JInt i)"
  by (cases j; simp add: is_dict_def is_list_def is_str_def is_bool_def is_int_def type_is_int_def)+

section \<open>Access\<close>

text \<open>
  \<open>obj_get j k\<close> is \<open>j.get(k)\<close> where \<open>j\<close> is known to be an object (the code has tested
  it); \<open>py_get\<close> is the same call on any value. \<open>py_key\<close> is \<open>j[k]\<close> for a string \<open>k\<close>.
\<close>

definition obj_get :: "json \<Rightarrow> string \<Rightarrow> json" where
  "obj_get j k = (case j of
     JObj kvs \<Rightarrow> (case map_of kvs k of None \<Rightarrow> JNull | Some v \<Rightarrow> v) | _ \<Rightarrow> JNull)"

definition obj_get_default :: "json \<Rightarrow> string \<Rightarrow> json \<Rightarrow> json" where
  "obj_get_default j k d = (case j of
     JObj kvs \<Rightarrow> (case map_of kvs k of None \<Rightarrow> d | Some v \<Rightarrow> v) | _ \<Rightarrow> d)"

definition has_key :: "json \<Rightarrow> string \<Rightarrow> bool" where
  "has_key j k = (case j of JObj kvs \<Rightarrow> k \<in> fst ` set kvs | _ \<Rightarrow> False)"

definition obj_keys :: "json \<Rightarrow> string set" where
  "obj_keys j = (case j of JObj kvs \<Rightarrow> fst ` set kvs | _ \<Rightarrow> {})"

definition py_get :: "json \<Rightarrow> string \<Rightarrow> json \<Rightarrow> json result" where
  "py_get j k d = (case j of JObj _ \<Rightarrow> ret (obj_get_default j k d) | _ \<Rightarrow> raise AttributeError)"

definition py_key :: "json \<Rightarrow> string \<Rightarrow> json result" where
  "py_key j k = (case j of
     JObj kvs \<Rightarrow> (case map_of kvs k of None \<Rightarrow> raise (KeyError k) | Some v \<Rightarrow> ret v)
   | _ \<Rightarrow> raise TypeError)"

text \<open>\<open>for x in j\<close>: a list yields its elements, an object its keys, a string its characters.\<close>

definition py_iter :: "json \<Rightarrow> json list result" where
  "py_iter j = (case j of
     JArr xs \<Rightarrow> ret xs
   | JObj kvs \<Rightarrow> ret (map (JStr \<circ> fst) kvs)
   | JStr s \<Rightarrow> ret (map (\<lambda>c. JStr [c]) s)
   | _ \<Rightarrow> raise TypeError)"

definition py_len :: "json \<Rightarrow> nat result" where
  "py_len j = (case j of
     JArr xs \<Rightarrow> ret (length xs) | JObj kvs \<Rightarrow> ret (length kvs) | JStr s \<Rightarrow> ret (length s)
   | _ \<Rightarrow> raise TypeError)"

definition str_of :: "json \<Rightarrow> string" where
  "str_of j = (case j of JStr s \<Rightarrow> s | _ \<Rightarrow> [])"
definition arr_of :: "json \<Rightarrow> json list" where
  "arr_of j = (case j of JArr xs \<Rightarrow> xs | _ \<Rightarrow> [])"
definition fields_of :: "json \<Rightarrow> (string \<times> json) list" where
  "fields_of j = (case j of JObj kvs \<Rightarrow> kvs | _ \<Rightarrow> [])"

lemma json_parts [simp, py_simps]:
  "str_of (JStr s) = s" "arr_of (JArr xs) = xs" "fields_of (JObj kvs) = kvs"
  by (simp_all add: str_of_def arr_of_def fields_of_def)

lemma obj_get_JObj: "obj_get (JObj kvs) k = (case map_of kvs k of None \<Rightarrow> JNull | Some v \<Rightarrow> v)"
  by (simp add: obj_get_def)

lemma obj_get_simps [simp, py_simps]:
  "obj_get (JObj []) k = JNull"
  "obj_get (JObj ((k', v) # kvs)) k = (if k = k' then v else obj_get (JObj kvs) k)"
  "obj_get_default (JObj []) k d = d"
  "obj_get_default (JObj ((k', v) # kvs)) k d = (if k = k' then v else obj_get_default (JObj kvs) k d)"
  "has_key (JObj kvs) k = (k \<in> fst ` set kvs)"
  "obj_keys (JObj kvs) = fst ` set kvs"
  by (auto simp: obj_get_def obj_get_default_def has_key_def obj_keys_def)

lemma obj_get_default_JNull: "obj_get_default j k JNull = obj_get j k"
  by (simp add: obj_get_default_def obj_get_def split: json.split option.split)

lemma py_get_Inr [simp]:
  "py_get j k d = Inr v \<longleftrightarrow> (\<exists>kvs. j = JObj kvs) \<and> v = obj_get_default j k d"
  by (cases j) (auto simp: py_get_def)

lemma py_get_JObj [simp]: "py_get (JObj kvs) k d = Inr (obj_get_default (JObj kvs) k d)"
  by (simp add: py_get_def)

lemma py_key_Inr [simp]:
  "py_key j k = Inr v \<longleftrightarrow> (\<exists>kvs. j = JObj kvs \<and> map_of kvs k = Some v)"
  by (cases j) (auto simp: py_key_def split: option.splits)

text \<open>A type test that raises for every other shape.\<close>

lemma json_cases_Inr:
  "(case j of JArr xs \<Rightarrow> f xs | _ \<Rightarrow> Inl e) = Inr y \<longleftrightarrow> (\<exists>xs. j = JArr xs \<and> f xs = Inr y)"
  "(case j of JObj kvs \<Rightarrow> g kvs | _ \<Rightarrow> Inl e) = Inr y \<longleftrightarrow> (\<exists>kvs. j = JObj kvs \<and> g kvs = Inr y)"
  "(case j of JStr s \<Rightarrow> h s | _ \<Rightarrow> Inl e) = Inr y \<longleftrightarrow> (\<exists>s. j = JStr s \<and> h s = Inr y)"
  "(case j of JInt i \<Rightarrow> k i | _ \<Rightarrow> Inl e) = Inr y \<longleftrightarrow> (\<exists>i. j = JInt i \<and> k i = Inr y)"
  by (cases j; simp)+

lemma py_key_get: "py_key j k = Inr v \<Longrightarrow> obj_get j k = v"
  by (auto simp: obj_get_def)

lemma has_key_map_of: "has_key (JObj kvs) k \<longleftrightarrow> (\<exists>v. map_of kvs k = Some v)"
  by (simp flip: not_None_eq) (simp add: map_of_eq_None_iff)

lemma py_iter_simps [simp]:
  "py_iter (JArr xs) = Inr xs"
  "py_iter (JObj kvs) = Inr (map (JStr \<circ> fst) kvs)"
  "py_iter JNull = Inl TypeError" "py_iter (JBool b) = Inl TypeError"
  "py_iter (JInt i) = Inl TypeError" "py_iter (JFloat r) = Inl TypeError"
  by (simp_all add: py_iter_def)

section \<open>Well-formed values\<close>

fun wf_json :: "json \<Rightarrow> bool" where
  "wf_json (JArr xs) = list_all wf_json xs"
| "wf_json (JObj kvs) = (distinct (map fst kvs) \<and> list_all (\<lambda>(k, v). wf_json v) kvs)"
| "wf_json _ = True"

lemma wf_json_obj_get: "wf_json j \<Longrightarrow> wf_json (obj_get j k)"
  by (cases j) (auto simp: obj_get_def list_all_iff split: option.split dest: map_of_SomeD)

section \<open>Equality\<close>

text \<open>
  Python's \<open>==\<close>: \<open>True == 1\<close> and \<open>False == 0\<close>; objects compare by content, whatever
  the order of their keys; values of other different types are unequal.
\<close>

lemma size_nth [termination_simp]: "i < length xs \<Longrightarrow> size (xs ! i) < Suc (size_list size xs)"
  using size_list_estimation' [OF nth_mem order_refl] by (simp add: less_Suc_eq_le)

fun py_eq :: "json \<Rightarrow> json \<Rightarrow> bool" where
  "py_eq JNull w = (w = JNull)"
| "py_eq (JBool b) w = (w = JBool b \<or> w = JInt (of_bool b))"
| "py_eq (JInt i) w = (w = JInt i \<or> (\<exists>b\<in>{True, False}. w = JBool b \<and> i = of_bool b))"
| "py_eq (JFloat r) w = (w = JFloat r)"
| "py_eq (JStr s) w = (w = JStr s)"
| "py_eq (JArr xs) w = (case w of
     JArr ys \<Rightarrow> length xs = length ys \<and> list_all (\<lambda>i. py_eq (xs ! i) (ys ! i)) [0..<length xs]
   | _ \<Rightarrow> False)"
| "py_eq (JObj kvs) w = (case w of
     JObj kws \<Rightarrow> length kvs = length kws \<and>
       list_all (\<lambda>(k, v). case map_of kws k of None \<Rightarrow> False | Some v' \<Rightarrow> py_eq v v') kvs
   | _ \<Rightarrow> False)"

lemma py_eq_JStr [simp]: "py_eq v (JStr s) \<longleftrightarrow> v = JStr s"
  by (cases v) auto
lemma py_eq_JNull [simp]: "py_eq v JNull \<longleftrightarrow> v = JNull"
  by (cases v) auto
lemma py_eq_JArr_Nil [simp]: "py_eq v (JArr []) \<longleftrightarrow> v = JArr []"
  by (cases v) auto

lemma py_eq_refl: "wf_json v \<Longrightarrow> py_eq v v"
proof (induction v)
  case (JArr xs)
  then show ?case by (auto simp: list_all_iff)
next
  case (JObj kvs)
  have "py_eq v v \<and> map_of kvs k = Some v" if kv: "(k, v) \<in> set kvs" for k v
  proof -
    from kv have "v \<in> Basic_BNFs.snds (k, v)" by simp
    with JObj kv have "py_eq v v" by (auto simp: list_all_iff)
    with kv JObj.prems show ?thesis by simp
  qed
  then show ?case by (auto simp: list_all_iff)
qed auto

text \<open>A list of strings equals only itself: what makes comparing such fields exact.\<close>

lemma py_eq_str_list: "py_eq v (JArr (map JStr ss)) \<longleftrightarrow> v = JArr (map JStr ss)"
  by (cases v) (auto simp: list_all_iff intro!: nth_equalityI)

lemma py_eq_str_entry:
  assumes "py_eq (JObj kvs) (JObj kws)" and "map_of kws k = Some (JStr s)"
    and "distinct (map fst kvs)" and "distinct (map fst kws)"
  shows "map_of kvs k = Some (JStr s)"
proof -
  from assms(1) have len: "length kvs = length kws"
    and sub: "(k', v) \<in> set kvs \<Longrightarrow> \<exists>v'. map_of kws k' = Some v' \<and> py_eq v v'" for k' v
    by (auto simp: list_all_iff split: option.splits)
  have "fst ` set kvs \<subseteq> fst ` set kws"
    using sub by (force dest: map_of_SomeD)
  moreover have "card (fst ` set kvs) = length kvs" "card (fst ` set kws) = length kws"
    using assms(3,4) distinct_card by (fastforce simp flip: set_map)+
  ultimately have "fst ` set kvs = fst ` set kws"
    using len by (simp add: card_subset_eq)
  with assms(2) have "k \<in> fst ` set kvs" by (force dest: map_of_SomeD)
  then obtain v where v: "(k, v) \<in> set kvs" by auto
  from sub [OF v] assms(2) have "v = JStr s" by auto
  with v assms(3) show ?thesis by simp
qed

section \<open>Text of a value\<close>

text \<open>\<open>repr\<close> of a string: single quotes unless the text has one and no double quote.\<close>

definition bslash :: char where "bslash = CHR 0x5C"
definition dquote :: char where "dquote = CHR 0x22"
definition squote :: char where "squote = CHR 0x27"

definition repr_char :: "char \<Rightarrow> char \<Rightarrow> string" where
  "repr_char q c = (let n = code c in
     if c = q \<or> c = bslash then [bslash, c]
     else if n = 10 then [bslash, CHR ''n''] else if n = 13 then [bslash, CHR ''r'']
     else if n = 9 then [bslash, CHR ''t'']
     else if n < 32 \<or> (127 \<le> n \<and> n \<le> 160) \<or> n = 173
       then [bslash, CHR ''x'', hex_digit (n div 16), hex_digit (n mod 16)]
     else [c])"

definition str_repr :: "string \<Rightarrow> string" where
  "str_repr s = (let q = (if squote \<in> set s \<and> dquote \<notin> set s then dquote else squote)
     in q # concat (map (repr_char q) s) @ [q])"

fun py_repr :: "json \<Rightarrow> string" where
  "py_repr JNull = ''None''"
| "py_repr (JBool b) = (if b then ''True'' else ''False'')"
| "py_repr (JInt i) = int_str i"
| "py_repr (JFloat r) = r"
| "py_repr (JStr s) = str_repr s"
| "py_repr (JArr xs) = ''['' @ join '', '' (map py_repr xs) @ '']''"
| "py_repr (JObj kvs) =
     ''{'' @ join '', '' (map (\<lambda>(k, v). str_repr k @ '': '' @ py_repr v) kvs) @ ''}''"

definition py_str :: "json \<Rightarrow> string" where
  "py_str j = (case j of JStr s \<Rightarrow> s | _ \<Rightarrow> py_repr j)"

text \<open>\<open>json.dumps\<close> with its defaults, and with \<open>sort_keys=True\<close>.\<close>

definition dumps_char :: "char \<Rightarrow> string" where
  "dumps_char c = (let n = code c in
     if c = dquote \<or> c = bslash then [bslash, c]
     else if n = 10 then [bslash, CHR ''n''] else if n = 13 then [bslash, CHR ''r'']
     else if n = 9 then [bslash, CHR ''t''] else if n = 12 then [bslash, CHR ''f'']
     else if n = 8 then [bslash, CHR ''b'']
     else if n < 32 \<or> 126 < n
       then [bslash] @ ''u00'' @ [hex_digit (n div 16), hex_digit (n mod 16)]
     else [c])"

definition dumps_str :: "string \<Rightarrow> string" where
  "dumps_str s = dquote # concat (map dumps_char s) @ [dquote]"

fun json_dumps :: "json \<Rightarrow> string" where
  "json_dumps JNull = ''null''"
| "json_dumps (JBool b) = (if b then ''true'' else ''false'')"
| "json_dumps (JInt i) = int_str i"
| "json_dumps (JFloat r) = r"
| "json_dumps (JStr s) = dumps_str s"
| "json_dumps (JArr xs) = ''['' @ join '', '' (map json_dumps xs) @ '']''"
| "json_dumps (JObj kvs) =
     ''{'' @ join '', '' (map (\<lambda>(k, v). dumps_str k @ '': '' @ json_dumps v) kvs) @ ''}''"

fun sort_keys :: "json \<Rightarrow> json" where
  "sort_keys (JArr xs) = JArr (map sort_keys xs)"
| "sort_keys (JObj kvs) = JObj (sort_key fst (map (\<lambda>(k, v). (k, sort_keys v)) kvs))"
| "sort_keys j = j"

definition json_dumps_sorted :: "json \<Rightarrow> string" where
  "json_dumps_sorted j = json_dumps (sort_keys j)"

lemma py_str_JStr [simp]: "py_str (JStr s) = s"
  by (simp add: py_str_def)

text \<open>Text inside a value is text inside its serialisation: what a marker search sees.\<close>

lemma occurs_in_append: "occurs_in p s \<Longrightarrow> occurs_in p (a @ s @ b)"
  unfolding occurs_in_iff by (metis append.assoc)

lemma occurs_in_join: "x \<in> set xs \<Longrightarrow> occurs_in p x \<Longrightarrow> occurs_in p (join sep xs)"
proof (induction sep xs rule: join.induct)
  case (3 sep x' y ys)
  show ?case
  proof (cases "x = x'")
    case True
    with 3 show ?thesis using occurs_in_append [of p x' "[]"] by simp
  next
    case False
    with 3 have "occurs_in p (join sep (y # ys))" by simp
    then show ?thesis using occurs_in_append [of p _ "x' @ sep" "[]"] by simp
  qed
qed auto

end
