(* ===== verification/Py_IO.thy ===== *)
theory Py_IO
  imports Py_Json
begin

text \<open>
  Operations that talk to the outside: a computation takes the world and returns its
  result (or the exception) together with the world it leaves. The world is a type
  variable: what a server, a file system or a tool does to it is a parameter of the
  operations that call it. \<open>opener\<close> stands for \<open>urllib.request.urlopen\<close> followed by
  the decoding of its body.
\<close>

type_synonym ('w, 'a) io = "'w \<Rightarrow> 'a result \<times> 'w"

definition retIO :: "'a \<Rightarrow> ('w, 'a) io" where
  "retIO x = (\<lambda>w. (ret x, w))"

definition raiseIO :: "exn \<Rightarrow> ('w, 'a) io" where
  "raiseIO e = (\<lambda>w. (raise e, w))"

definition liftIO :: "'a result \<Rightarrow> ('w, 'a) io" where
  "liftIO r = (\<lambda>w. (r, w))"

definition bindIO :: "('w, 'a) io \<Rightarrow> ('a \<Rightarrow> ('w, 'b) io) \<Rightarrow> ('w, 'b) io" where
  "bindIO m f = (\<lambda>w. case m w of (Inl e, w') \<Rightarrow> (Inl e, w') | (Inr x, w') \<Rightarrow> f x w')"

text \<open>\<open>try: m except e: h e\<close>, where \<open>h\<close> may re-raise.\<close>

definition tryIO :: "('w, 'a) io \<Rightarrow> (exn \<Rightarrow> ('w, 'a) io) \<Rightarrow> ('w, 'a) io" where
  "tryIO m h = (\<lambda>w. case m w of (Inl e, w') \<Rightarrow> h e w' | (Inr x, w') \<Rightarrow> (Inr x, w'))"

lemma io_simps [simp, py_simps]:
  "retIO x w = (Inr x, w)"
  "raiseIO e w = (Inl e, w)"
  "liftIO r w = (r, w)"
  by (simp_all add: retIO_def raiseIO_def liftIO_def)

lemma bindIO_Inl: "m w = (Inl e, w') \<Longrightarrow> bindIO m f w = (Inl e, w')"
  by (simp add: bindIO_def)
lemma bindIO_Inr: "m w = (Inr x, w') \<Longrightarrow> bindIO m f w = f x w'"
  by (simp add: bindIO_def)
lemma tryIO_Inl: "m w = (Inl e, w') \<Longrightarrow> tryIO m h w = h e w'"
  by (simp add: tryIO_def)
lemma tryIO_Inr: "m w = (Inr x, w') \<Longrightarrow> tryIO m h w = (Inr x, w')"
  by (simp add: tryIO_def)

lemmas io_steps = bindIO_Inl bindIO_Inr tryIO_Inl tryIO_Inr

lemma bindIO_simps [simp]:
  "bindIO (retIO x) f = f x"
  "bindIO (raiseIO e) f = raiseIO e"
  "bindIO (liftIO (Inr x)) f = f x"
  "bindIO (liftIO (Inl e)) f = raiseIO e"
  by (simp_all add: fun_eq_iff bindIO_def)

lemma bindIO_OK:
  "bindIO m f w = (Inr y, w'') \<longleftrightarrow> (\<exists>x w'. m w = (Inr x, w') \<and> f x w' = (Inr y, w''))"
  by (cases "m w"; cases "fst (m w)") (auto simp: bindIO_def)

lemma tryIO_OK:
  "tryIO m h w = (Inr y, w'') \<longleftrightarrow>
     m w = (Inr y, w'') \<or> (\<exists>e w'. m w = (Inl e, w') \<and> h e w' = (Inr y, w''))"
  by (cases "m w"; cases "fst (m w)") (auto simp: tryIO_def)

lemma bindIO_raises:
  "bindIO m f w = (Inl e, w'') \<longleftrightarrow> m w = (Inl e, w'') \<or> (\<exists>x w'. m w = (Inr x, w') \<and> f x w' = (Inl e, w''))"
  by (cases "m w"; cases "fst (m w)") (auto simp: bindIO_def)

lemma tryIO_raises:
  "tryIO m h w = (Inl e, w'') \<longleftrightarrow> (\<exists>e' w'. m w = (Inl e', w') \<and> h e' w' = (Inl e, w''))"
  by (cases "m w"; cases "fst (m w)") (auto simp: tryIO_def)

section \<open>Requests\<close>

record request =
  url :: string
  meth :: string
  token :: string
  body :: "json option"

type_synonym 'w opener = "request \<Rightarrow> ('w, json) io"

definition GET :: "string \<Rightarrow> string \<Rightarrow> request" where
  "GET tok u = \<lparr>url = u, meth = ''GET'', token = tok, body = None\<rparr>"

lemma GET_simps [simp]:
  "url (GET tok u) = u" "meth (GET tok u) = ''GET''" "token (GET tok u) = tok" "body (GET tok u) = None"
  by (simp_all add: GET_def)

section \<open>What a computation keeps of the world\<close>

text \<open>
  \<open>keeps I m\<close>: whatever \<open>m\<close> returns or raises, a world that satisfied \<open>I\<close> still
  does. The rules follow the combinators, so a frame property of a script is the
  frame property of the requests it can make.
\<close>

definition keeps :: "('w \<Rightarrow> bool) \<Rightarrow> ('w, 'a) io \<Rightarrow> bool" where
  "keeps I m \<longleftrightarrow> (\<forall>w. I w \<longrightarrow> I (snd (m w)))"

lemma keepsD: "keeps I m \<Longrightarrow> I w \<Longrightarrow> m w = (r, w') \<Longrightarrow> I w'"
  unfolding keeps_def by (metis snd_conv)

lemma keeps_basic [intro!]: "keeps I (retIO x)" "keeps I (raiseIO e)" "keeps I (liftIO r)" "keeps I (Pair r)"
  by (simp_all add: keeps_def)

lemma keeps_bindIO [intro]: "keeps I m \<Longrightarrow> (\<And>x. keeps I (f x)) \<Longrightarrow> keeps I (bindIO m f)"
  unfolding keeps_def bindIO_def by (auto split: prod.split sum.split)

lemma keeps_tryIO [intro]: "keeps I m \<Longrightarrow> (\<And>e. keeps I (h e)) \<Longrightarrow> keeps I (tryIO m h)"
  unfolding keeps_def tryIO_def by (auto split: prod.split sum.split)

lemma keeps_if [intro]: "(c \<Longrightarrow> keeps I m) \<Longrightarrow> (\<not> c \<Longrightarrow> keeps I n) \<Longrightarrow> keeps I (if c then m else n)"
  by simp

definition reads_keep :: "('w \<Rightarrow> bool) \<Rightarrow> 'w opener \<Rightarrow> bool" where
  "reads_keep I op \<longleftrightarrow> (\<forall>req. meth req = ''GET'' \<longrightarrow> keeps I (op req))"

lemma reads_keepD [intro]: "reads_keep I op \<Longrightarrow> keeps I (op (GET tok u))"
  by (simp add: reads_keep_def)

text \<open>The same client with its requests counted: how many a call makes.\<close>

definition counted :: "'w opener \<Rightarrow> (nat \<times> 'w) opener" where
  "counted op req = (\<lambda>(n, w). case op req w of (r, w') \<Rightarrow> (r, (Suc n, w')))"

definition costs :: "nat \<Rightarrow> (nat \<times> 'w, 'a) io \<Rightarrow> bool" where
  "costs k m \<longleftrightarrow> (\<forall>n w. fst (snd (m (n, w))) \<le> n + k)"

lemma costsD: "costs k m \<Longrightarrow> m (n, w) = (r, (n', w')) \<Longrightarrow> n' \<le> n + k"
  unfolding costs_def by (metis fst_conv snd_conv)

lemma costs_counted [intro]: "costs 1 (counted op req)" "costs (Suc 0) (counted op req)"
  by (auto simp: costs_def counted_def split: prod.splits)

lemma costs_pure [intro!]: "costs k (retIO x)" "costs k (raiseIO e)" "costs k (liftIO r)" "costs k (Pair r)"
  by (simp_all add: costs_def)

lemma costs_bindIO:
  assumes "costs k m" and "\<And>x. costs l (f x)"
  shows "costs (k + l) (bindIO m f)"
  unfolding costs_def
proof (intro allI)
  fix n w
  obtain r n' w' where m: "m (n, w) = (r, (n', w'))" by (metis prod.exhaust)
  with assms(1) have n': "n' \<le> n + k" by (rule costsD)
  show "fst (snd (bindIO m f (n, w))) \<le> n + (k + l)"
  proof (cases r)
    case (Inl e)
    with m n' show ?thesis by (simp add: bindIO_def)
  next
    case (Inr x)
    have "fst (snd (f x (n', w'))) \<le> n' + l"
      using assms(2) by (simp add: costs_def)
    with m n' Inr show ?thesis by (simp add: bindIO_def)
  qed
qed

lemma costs_tryIO:
  assumes "costs k m" and "\<And>e. costs l (h e)"
  shows "costs (k + l) (tryIO m h)"
  unfolding costs_def
proof (intro allI)
  fix n w
  obtain r n' w' where m: "m (n, w) = (r, (n', w'))" by (metis prod.exhaust)
  with assms(1) have n': "n' \<le> n + k" by (rule costsD)
  show "fst (snd (tryIO m h (n, w))) \<le> n + (k + l)"
  proof (cases r)
    case (Inl e)
    have "fst (snd (h e (n', w'))) \<le> n' + l"
      using assms(2) by (simp add: costs_def)
    with m n' Inl show ?thesis by (simp add: tryIO_def)
  next
    case (Inr x)
    with m n' show ?thesis by (simp add: tryIO_def)
  qed
qed

lemma costs_lift_bind [intro]: "(\<And>x. costs k (f x)) \<Longrightarrow> costs k (bindIO (liftIO r) f)"
  by (cases r) auto

lemma costs_if [intro]: "costs k m \<Longrightarrow> costs k n \<Longrightarrow> costs k (if c then m else n)"
  by simp

lemma costs_mono: "costs k m \<Longrightarrow> k \<le> l \<Longrightarrow> costs l m"
  unfolding costs_def by (meson add_left_mono le_trans)

section \<open>Weakest preconditions\<close>

text \<open>
  \<open>wp m Q E w\<close>: run in world \<open>w\<close>, \<open>m\<close> either returns \<open>x\<close> in a world with \<open>Q x\<close>
  or raises in a world with \<open>E\<close>. The rules follow the combinators.
\<close>

definition wp :: "('w, 'a) io \<Rightarrow> ('a \<Rightarrow> 'w \<Rightarrow> bool) \<Rightarrow> ('w \<Rightarrow> bool) \<Rightarrow> 'w \<Rightarrow> bool" where
  "wp m Q E w = (case m w of (Inl e, w') \<Rightarrow> E w' | (Inr x, w') \<Rightarrow> Q x w')"

named_theorems wp_rules \<open>weakest preconditions of the operations\<close>

lemma wp_basic [simp]:
  "wp (retIO x) Q E = Q x"
  "wp (raiseIO e) Q E = E"
  "wp (Pair (Inr x)) Q E = Q x"
  "wp (Pair (Inl e)) Q E = E"
  by (simp_all add: wp_def fun_eq_iff)

lemma wp_bindIO [simp]: "wp (bindIO m f) Q E w = wp m (\<lambda>x. wp (f x) Q E) E w"
  by (cases "m w"; cases "fst (m w)") (auto simp: wp_def bindIO_def)

lemma wp_liftIO [wp_rules]: "E w \<Longrightarrow> (\<And>x. r = Inr x \<Longrightarrow> Q x w) \<Longrightarrow> wp (liftIO r) Q E w"
  by (cases r) (simp_all add: wp_def)

lemma wp_tryIO:
  assumes "wp m Q E w" and "\<And>e w. E w \<Longrightarrow> wp (h e) Q F w"
  shows "wp (tryIO m h) Q F w"
  using assms by (cases "m w"; cases "fst (m w)") (auto simp: wp_def tryIO_def)

lemma wp_if [wp_rules]: "(c \<Longrightarrow> wp m Q E w) \<Longrightarrow> (\<not> c \<Longrightarrow> wp n Q E w) \<Longrightarrow> wp (if c then m else n) Q E w"
  by simp

lemma wp_conseq:
  assumes "wp m Q E w" and "\<And>x w. Q x w \<Longrightarrow> Q' x w" and "\<And>w. E w \<Longrightarrow> E' w"
  shows "wp m Q' E' w"
  using assms by (cases "m w"; cases "fst (m w)") (auto simp: wp_def)

lemma wp_keeps: "keeps I m \<longleftrightarrow> (\<forall>w. I w \<longrightarrow> wp m (\<lambda>_. I) I w)"
proof -
  have "wp m (\<lambda>_. I) I w = I (snd (m w))" for w
    by (cases "m w"; cases "fst (m w)") (auto simp: wp_def)
  then show ?thesis by (simp add: keeps_def)
qed

lemma bindIO_assoc: "bindIO (bindIO m f) g = bindIO m (\<lambda>x. bindIO (f x) g)"
proof
  fix w
  show "bindIO (bindIO m f) g w = bindIO m (\<lambda>x. bindIO (f x) g) w"
    by (cases "m w"; cases "fst (m w)") (simp_all add: bindIO_def)
qed

text \<open>A client whose requests and answers are recorded, the newest first.\<close>

type_synonym exchange = "request \<times> json result"

definition logged :: "'w opener \<Rightarrow> (exchange list \<times> 'w) opener" where
  "logged op req = (\<lambda>(l, w). case op req w of (r, w') \<Rightarrow> (r, ((req, r) # l, w')))"

lemma logged_simp: "logged op req (l, w) = (fst (op req w), ((req, fst (op req w)) # l, snd (op req w)))"
  by (simp add: logged_def split: prod.split)

definition unlogged :: "('w, 'a) io \<Rightarrow> (exchange list \<times> 'w, 'a) io" where
  "unlogged m = (\<lambda>(l, w). case m w of (r, w') \<Rightarrow> (r, (l, w')))"

end
