(* ===== verification/Release_Absent.thy ===== *)
theory Release_Absent
  imports Py_IO
begin

text \<open>
  \<^verbatim>\<open>scripts/check_release_absent.py\<close>: a release tag may be published only when no draft
  and no published release owns it. The GitHub API is reached through \<open>opener\<close>, a
  parameter; \<open>env\<close> is the process environment. Every way the lookup can fail is an
  exception, so the check fails closed.
\<close>

type_synonym environ = "string \<rightharpoonup> string"

definition env_get :: "environ \<Rightarrow> string \<Rightarrow> string \<Rightarrow> string" where
  "env_get env k d = (case env k of None \<Rightarrow> d | Some v \<Rightarrow> v)"

section \<open>Definitions\<close>

definition release_context :: "environ \<Rightarrow> string \<Rightarrow> bool" where
  "release_context env pre = (
     (env ''GITHUB_JOB'' = Some ''verify-source'' \<or> env ''GITHUB_JOB'' = Some ''release'')
     \<and> env ''GITHUB_EVENT_NAME'' = Some ''push''
     \<and> startswith (env_get env ''GITHUB_REF'' []) ''refs/tags/''
     \<and> env ''GITHUB_WORKFLOW_REF'' = Some (pre @ ''release.yml@'' @ env_get env ''GITHUB_REF'' []))"

definition preflight_context :: "environ \<Rightarrow> string \<Rightarrow> bool" where
  "preflight_context env pre = (
     env ''GITHUB_JOB'' = Some ''release-lookup-probe''
     \<and> env ''GITHUB_EVENT_NAME'' = Some ''workflow_dispatch''
     \<and> env ''GITHUB_REF'' = Some ''refs/heads/main''
     \<and> env ''GITHUB_WORKFLOW_REF'' = Some (pre @ ''release-preflight.yml@refs/heads/main''))"

definition actions_write_context :: "environ \<Rightarrow> string \<Rightarrow> unit result" where
  "actions_write_context env repository = (let
       pre = repository @ ''/.github/workflows/''
     in if env ''GITHUB_ACTIONS'' \<noteq> Some ''true''
         \<or> env ''GITHUB_REPOSITORY'' \<noteq> Some repository
         \<or> \<not> (release_context env pre \<or> preflight_context env pre)
        then raise (ReleaseLookupError
          ''Actions write-token mode requires the trusted release workflow context'')
        else ret ())"

definition release_url :: "string \<Rightarrow> string \<Rightarrow> string result" where
  "release_url repository tag = (let parts = split_on (CHR ''/'') repository in
     if length parts \<noteq> 2 \<or> \<not> list_all (\<lambda>p. p \<noteq> []) parts \<or> tag = []
     then raise (ReleaseLookupError
       ''repository must use OWNER/REPO format and tag must be non-empty'')
     else ret (''https://api.github.com/repos/'' @ quote (parts ! 0) @ ''/'' @ quote (parts ! 1)
               @ ''/releases/tags/'' @ quote tag))"

definition listing_invalid :: exn where
  "listing_invalid = ReleaseLookupError ''GitHub release listing is invalid''"
definition listing_unbounded :: exn where
  "listing_unbounded = ReleaseLookupError ''GitHub release listing exceeded the lookup bound''"
definition response_invalid :: exn where
  "response_invalid = ReleaseLookupError ''GitHub release lookup returned an invalid response''"
definition push_required :: exn where
  "push_required = ReleaseLookupError ''Push visibility is required to exclude draft releases''"

text \<open>The loop over one page: an ill-typed item raises, the first item with the tag is the release.\<close>

definition item_ok :: "json \<Rightarrow> bool" where
  "item_ok item = (is_dict item \<and> is_str (obj_get item ''tag_name'') \<and> is_bool (obj_get item ''draft''))"

fun scan_items :: "string \<Rightarrow> json list \<Rightarrow> json option result" where
  "scan_items tag [] = ret None"
| "scan_items tag (item # items) =
     (if \<not> item_ok item then raise listing_invalid
      else if obj_get item ''tag_name'' = JStr tag then ret (Some item)
      else scan_items tag items)"

definition page_url :: "string \<Rightarrow> nat \<Rightarrow> string" where
  "page_url repository_url page = repository_url @ ''/releases?per_page=100&page='' @ nat_digits page"

text \<open>The loop over the pages, given the page numbers still to read.\<close>

fun list_pages :: "'w opener \<Rightarrow> string \<Rightarrow> string \<Rightarrow> string \<Rightarrow> nat list \<Rightarrow> ('w, json option) io" where
  "list_pages opener tok repository_url tag [] = raiseIO listing_unbounded"
| "list_pages opener tok repository_url tag (page # pages) =
     bindIO (opener (GET tok (page_url repository_url page))) (\<lambda>items.
       case items of
         JArr xs \<Rightarrow>
           if 100 < length xs then raiseIO listing_invalid
           else bindIO (liftIO (scan_items tag xs)) (\<lambda>found.
             case found of
               Some item \<Rightarrow> retIO (Some item)
             | None \<Rightarrow> if length xs < 100 then retIO None
                       else list_pages opener tok repository_url tag pages)
       | _ \<Rightarrow> raiseIO listing_invalid)"

definition require_push :: "'w opener \<Rightarrow> string \<Rightarrow> string \<Rightarrow> bool \<Rightarrow> ('w, unit) io" where
  "require_push opener tok repository_url actions_write_token =
     (if actions_write_token then retIO ()
      else bindIO (opener (GET tok repository_url)) (\<lambda>identity.
        let permissions = (if is_dict identity then obj_get identity ''permissions'' else JNull)
        in if \<not> is_dict permissions \<or> obj_get permissions ''push'' \<noteq> JBool True
           then raiseIO push_required else retIO ()))"

definition load_draft :: "'w opener \<Rightarrow> string \<Rightarrow> string \<Rightarrow> string \<Rightarrow> bool \<Rightarrow> ('w, json option) io" where
  "load_draft opener tok repository_url tag actions_write_token =
     bindIO (require_push opener tok repository_url actions_write_token) (\<lambda>_.
       list_pages opener tok repository_url tag [1..<101])"

text \<open>The outer \<open>except\<close> clauses; what they do not name propagates.\<close>

definition lookup_error :: "exn \<Rightarrow> exn" where
  "lookup_error e = (case e of
     HTTPError c \<Rightarrow> ReleaseLookupError (''GitHub release lookup failed with HTTP '' @ int_str c)
   | _ \<Rightarrow> if is_OSError e \<or> is_ValueError e then response_invalid else e)"

text \<open>
  The body of the outer \<open>try\<close>: the tag end point, and on a 404 the paginated listing.
  A payload of the tag end point must be an object; an item of the listing already is.
\<close>

definition load_body :: "'w opener \<Rightarrow> string \<Rightarrow> string \<Rightarrow> string \<Rightarrow> string \<Rightarrow> bool \<Rightarrow>
    ('w, json option) io" where
  "load_body opener tok tagged_url repository_url tag actions_write_token =
     bindIO
       (tryIO
         (tryIO (bindIO (opener (GET tok tagged_url)) (\<lambda>payload. retIO (Inl payload)))
                (\<lambda>e. if e \<noteq> HTTPError 404 then raiseIO e
                     else bindIO (load_draft opener tok repository_url tag actions_write_token)
                            (\<lambda>found. retIO (Inr found))))
         (\<lambda>e. raiseIO (lookup_error e)))
       (\<lambda>r. case r of
          Inl payload \<Rightarrow> if is_dict payload then retIO (Some payload) else raiseIO response_invalid
        | Inr found \<Rightarrow> retIO found)"

definition load_release :: "'w opener \<Rightarrow> environ \<Rightarrow> string \<Rightarrow> string \<Rightarrow> string \<Rightarrow> bool \<Rightarrow>
    ('w, json option) io" where
  "load_release opener env repository tag tok actions_write_token =
     (if tok = [] then raiseIO (ReleaseLookupError ''GH_TOKEN is required'')
      else bindIO (liftIO (if actions_write_token then actions_write_context env repository else ret ())) (\<lambda>_.
        bindIO (liftIO (release_url repository tag)) (\<lambda>tagged_url.
          load_body opener tok tagged_url (before_sub ''/releases/tags/'' tagged_url) tag actions_write_token)))"

definition release_mismatch :: exn where
  "release_mismatch = ReleaseLookupError ''GitHub release response did not match the requested tag''"

definition already_exists :: "string \<Rightarrow> bool \<Rightarrow> exn" where
  "already_exists tag draft = ReleaseAlreadyExistsError (''Release '' @ tag @ '' already exists as a ''
     @ (if draft then ''draft'' else ''published'')
     @ ''; refusing to rebuild or overwrite it. Publish corrections under a new version; ''
     @ ''this workflow does not modify existing releases.'')"

definition refuse_release :: "string \<Rightarrow> json option \<Rightarrow> unit result" where
  "refuse_release tag release = (case release of
     None \<Rightarrow> ret ()
   | Some r \<Rightarrow>
       if obj_get r ''tag_name'' \<noteq> JStr tag \<or> \<not> is_bool (obj_get r ''draft'') then raise release_mismatch
       else raise (already_exists tag (obj_get r ''draft'' = JBool True)))"

definition ensure_release_absent :: "'w opener \<Rightarrow> environ \<Rightarrow> string \<Rightarrow> string \<Rightarrow> string \<Rightarrow> bool \<Rightarrow>
    ('w, unit) io" where
  "ensure_release_absent opener env repository tag tok actions_write_token =
     bindIO (load_release opener env repository tag tok actions_write_token)
       (\<lambda>release. liftIO (refuse_release tag release))"

text \<open>\<open>main\<close> after argument parsing: exit status 1 on either release error; others propagate.\<close>

definition absent_main :: "'w opener \<Rightarrow> environ \<Rightarrow> string \<Rightarrow> string \<Rightarrow> bool \<Rightarrow> ('w, int) io" where
  "absent_main opener env repository tag actions_write_token =
     tryIO (bindIO (ensure_release_absent opener env repository tag (env_get env ''GH_TOKEN'' [])
                      actions_write_token) (\<lambda>_. retIO 0))
       (\<lambda>e. case e of ReleaseAlreadyExistsError _ \<Rightarrow> retIO 1 | ReleaseLookupError _ \<Rightarrow> retIO 1
            | _ \<Rightarrow> raiseIO e)"

section \<open>The URLs\<close>

lemma release_url_OK:
  "release_url repository tag = Inr u \<longleftrightarrow>
     (\<exists>owner name. split_on (CHR ''/'') repository = [owner, name] \<and> owner \<noteq> [] \<and> name \<noteq> [] \<and> tag \<noteq> []
       \<and> u = ''https://api.github.com/repos/'' @ quote owner @ ''/'' @ quote name
             @ ''/releases/tags/'' @ quote tag)"
  by (auto simp: release_url_def Let_def length_Suc_conv numeral_2_eq_2)

text \<open>
  Cutting the tagged URL at its first \<open>/releases/tags/\<close> gives the repository URL back,
  because an escaped owner or name holds no slash.
\<close>

lemma before_sub_no_head:
  "h \<notin> set a \<Longrightarrow> before_sub (h # p) (a @ (h # p) @ b) = a"
proof (induction a)
  case Nil
  then show ?case by (simp add: startswith_def)
next
  case (Cons x a)
  then show ?case by (auto simp: startswith_def)
qed

definition repo_url :: "string \<Rightarrow> string \<Rightarrow> string" where
  "repo_url owner name = ''https://api.github.com/repos/'' @ quote owner @ ''/'' @ quote name"

lemma slash_segment:
  assumes "CHR ''/'' \<notin> set a" and "CHR ''/'' \<notin> set p" and "a @ CHR ''/'' # s = p @ CHR ''/'' # y"
  shows "a = p \<and> s = y"
proof -
  have "takeWhile (\<lambda>c. c \<noteq> CHR ''/'') (a @ CHR ''/'' # s) = a"
    and "takeWhile (\<lambda>c. c \<noteq> CHR ''/'') (p @ CHR ''/'' # y) = p"
    using assms(1,2) by (simp_all add: takeWhile_tail takeWhile_append)
  with assms(3) show ?thesis by auto
qed

lemma before_sub_owner:
  assumes "CHR ''/'' \<notin> set a" and "CHR ''/'' \<notin> set b" and ab: "a \<noteq> ''releases'' \<or> b \<noteq> ''tags''"
  shows "before_sub ''/releases/tags/'' (''https://api.github.com/repos/'' @ a @ ''/'' @ b @ ''/releases/tags/'' @ t)
    = ''https://api.github.com/repos/'' @ a @ ''/'' @ b"
proof -
  let ?t = "''/releases/tags/'' @ t"
  have skip: "before_sub ''/releases/tags/'' (c @ CHR ''/'' # x) = c @ CHR ''/'' # before_sub ''/releases/tags/'' x"
    if "CHR ''/'' \<notin> set c" and "\<not> startswith (CHR ''/'' # x) ''/releases/tags/''" for c x
    using that by (induction c) (auto simp: startswith_def)
  have stop: "before_sub ''/releases/tags/'' (b @ ?t) = b"
    using before_sub_no_head [OF assms(2), of "''releases/tags/''" t] by simp
  have no_b: "\<not> startswith (CHR ''/'' # b @ ?t) ''/releases/tags/''"
  proof
    assume "startswith (CHR ''/'' # b @ ?t) ''/releases/tags/''"
    then obtain y where "b @ CHR ''/'' # ''releases/tags/'' @ t = ''releases'' @ CHR ''/'' # ''tags/'' @ y"
      by (auto simp: startswith_iff)
    from slash_segment [OF assms(2) _ this] show False by simp
  qed
  have no_a: "\<not> startswith (CHR ''/'' # a @ CHR ''/'' # b @ ?t) ''/releases/tags/''"
  proof
    assume "startswith (CHR ''/'' # a @ CHR ''/'' # b @ ?t) ''/releases/tags/''"
    then obtain y where "a @ CHR ''/'' # b @ ?t = ''releases'' @ CHR ''/'' # ''tags/'' @ y"
      by (auto simp: startswith_iff)
    from slash_segment [OF assms(1) _ this]
    have "a = ''releases''" and "b @ CHR ''/'' # ''releases/tags/'' @ t = ''tags'' @ CHR ''/'' # y" by simp_all
    with slash_segment [OF assms(2), of "''tags''"] ab show False by simp
  qed
  have "before_sub ''/releases/tags/'' (CHR ''/'' # a @ CHR ''/'' # b @ ?t) = CHR ''/'' # a @ CHR ''/'' # b"
    using skip [OF assms(1) no_b] no_a stop by (simp del: before_sub.simps add: before_sub.simps(2) [of _ "CHR ''/''"])
  moreover have "''https://api.github.com/repos/'' @ a @ ''/'' @ b @ ?t
      = ''https:'' @ ''/'' @ ''/api.github.com'' @ ''/repos'' @ (CHR ''/'' # a @ CHR ''/'' # b @ ?t)" by simp
  ultimately show ?thesis
    by (simp add: startswith_def)
qed

lemma before_sub_release_url:
  assumes "release_url repository tag = Inr u" and "split_on (CHR ''/'') repository = [owner, name]"
    and "quote owner \<noteq> ''releases'' \<or> quote name \<noteq> ''tags''"
  shows "before_sub ''/releases/tags/'' u = repo_url owner name"
    and "u = repo_url owner name @ ''/releases/tags/'' @ quote tag"
proof -
  show u: "u = repo_url owner name @ ''/releases/tags/'' @ quote tag"
    using assms(1,2) unfolding release_url_OK by (auto simp: repo_url_def)
  show "before_sub ''/releases/tags/'' u = repo_url owner name"
    using before_sub_owner [OF slash_not_in_quote slash_not_in_quote assms(3), of "quote tag"]
    unfolding u repo_url_def by simp
qed

section \<open>The listing loop\<close>

text \<open>
  Specification of the loop: a listing is clear of a tag when every page up to the
  first short one is well formed and holds no item with the tag.
\<close>

definition clear_items :: "string \<Rightarrow> json list \<Rightarrow> bool" where
  "clear_items tag xs = list_all (\<lambda>i. item_ok i \<and> obj_get i ''tag_name'' \<noteq> JStr tag) xs"

inductive cleared :: "'w opener \<Rightarrow> string \<Rightarrow> string \<Rightarrow> string \<Rightarrow> nat list \<Rightarrow> 'w \<Rightarrow> 'w \<Rightarrow> bool"
  for op tok base tag where
  last_page: "op (GET tok (page_url base p)) w = (Inr (JArr xs), w') \<Longrightarrow> length xs < 100 \<Longrightarrow>
    clear_items tag xs \<Longrightarrow> cleared op tok base tag (p # ps) w w'"
| full_page: "op (GET tok (page_url base p)) w = (Inr (JArr xs), w') \<Longrightarrow> length xs = 100 \<Longrightarrow>
    clear_items tag xs \<Longrightarrow> cleared op tok base tag ps w' w'' \<Longrightarrow> cleared op tok base tag (p # ps) w w''"

inductive_cases clearedE [elim!]: "cleared op tok base tag (p # ps) w w'"
inductive_simps cleared_Nil [simp]: "cleared op tok base tag [] w w'"

lemma scan_items_None: "scan_items tag xs = Inr None \<longleftrightarrow> clear_items tag xs"
  by (induction xs) (auto simp: clear_items_def)

lemma scan_items_Some:
  "scan_items tag xs = Inr (Some item) \<Longrightarrow>
     item \<in> set xs \<and> item_ok item \<and> obj_get item ''tag_name'' = JStr tag"
  by (induction xs) (auto split: if_splits)

lemma scan_items_Inl: "scan_items tag xs = Inl e \<Longrightarrow> e = listing_invalid"
  by (induction xs) (auto split: if_splits)

lemma scan_items_find:
  "list_all item_ok xs \<Longrightarrow> scan_items tag xs = Inr (find (\<lambda>i. obj_get i ''tag_name'' = JStr tag) xs)"
  by (induction xs) auto

lemma list_pages_step:
  "list_pages op tok base tag (p # ps) w = (Inr r, w'') \<longleftrightarrow>
     (\<exists>xs w' found. op (GET tok (page_url base p)) w = (Inr (JArr xs), w') \<and> length xs \<le> 100
        \<and> scan_items tag xs = Inr found
        \<and> (case found of Some i \<Rightarrow> r = Some i \<and> w'' = w'
           | None \<Rightarrow> if length xs < 100 then r = None \<and> w'' = w'
                     else list_pages op tok base tag ps w' = (Inr r, w'')))"
  (is "?l \<longleftrightarrow> ?r")
proof
  assume ?l
  then obtain items w' where page: "op (GET tok (page_url base p)) w = (Inr items, w')"
    and rest: "(case items of JArr xs \<Rightarrow> if 100 < length xs then raiseIO listing_invalid
           else bindIO (liftIO (scan_items tag xs)) (\<lambda>found. case found of Some item \<Rightarrow> retIO (Some item)
             | None \<Rightarrow> if length xs < 100 then retIO None else list_pages op tok base tag ps)
       | _ \<Rightarrow> raiseIO listing_invalid) w' = (Inr r, w'')"
    by (auto simp: bindIO_OK)
  from rest obtain xs where items: "items = JArr xs" by (cases items) auto
  with rest have "length xs \<le> 100" by (auto split: if_splits)
  with rest items page show ?r
    by (auto simp: bindIO_OK split: option.splits if_splits)
next
  assume ?r
  then show ?l by (auto simp: bindIO_OK split: option.splits if_splits)
qed

lemma list_pages_None:
  "list_pages op tok base tag ps w = (Inr None, w') \<longleftrightarrow> cleared op tok base tag ps w w'"
proof (induction ps arbitrary: w)
  case Nil
  then show ?case by simp
next
  case (Cons p ps)
  show ?case (is "?l \<longleftrightarrow> ?r")
  proof
    assume ?l
    then show ?r
      by (auto simp: list_pages_step Cons.IH scan_items_None simp del: list_pages.simps
          intro: cleared.intros split: option.splits if_splits)
  next
    assume ?r
    then show ?l
      by (elim clearedE)
         (auto simp: list_pages_step Cons.IH simp del: list_pages.simps simp flip: scan_items_None)
  qed
qed

lemma list_pages_Some:
  "list_pages op tok base tag ps w = (Inr (Some item), w') \<Longrightarrow>
     item_ok item \<and> obj_get item ''tag_name'' = JStr tag"
proof (induction ps arbitrary: w)
  case (Cons p ps)
  from Cons.prems show ?case
    unfolding list_pages_step using Cons.IH
    by (auto dest: scan_items_Some split: option.splits if_splits)
qed simp

lemma list_pages_keeps: "reads_keep I op \<Longrightarrow> keeps I (list_pages op tok base tag ps)"
  by (induction ps) (auto split: json.splits option.splits intro!: keeps_bindIO)

lemma costs_list_pages: "costs (length ps) (list_pages (counted op) tok base tag ps)"
proof (induction ps)
  case (Cons p ps)
  have "costs (length ps) (case found of Some item \<Rightarrow> retIO (Some item)
      | None \<Rightarrow> if length xs < 100 then retIO None else list_pages (counted op) tok base tag ps)"
    for found and xs :: "json list"
    using Cons by (auto split: option.splits)
  then have "costs (0 + length ps) (bindIO (liftIO (scan_items tag xs)) (\<lambda>found.
      case found of Some item \<Rightarrow> retIO (Some item)
      | None \<Rightarrow> if length xs < 100 then retIO None else list_pages (counted op) tok base tag ps))"
    for xs by (intro costs_bindIO) auto
  then have "costs (1 + length ps) (list_pages (counted op) tok base tag (p # ps))"
    unfolding list_pages.simps by (intro costs_bindIO) (auto split: json.splits)
  then show ?case by simp
qed auto

section \<open>The lookup\<close>

lemma actions_write_context_OK:
  "actions_write_context env repository = Inr () \<longleftrightarrow>
     env ''GITHUB_ACTIONS'' = Some ''true'' \<and> env ''GITHUB_REPOSITORY'' = Some repository
     \<and> (release_context env (repository @ ''/.github/workflows/'')
        \<or> preflight_context env (repository @ ''/.github/workflows/''))"
  by (auto simp: actions_write_context_def Let_def)

lemma require_push_keeps: "reads_keep I op \<Longrightarrow> keeps I (require_push op tok base actions)"
  by (auto simp: require_push_def Let_def intro!: keeps_bindIO)

lemma load_release_keeps:
  assumes "reads_keep I op" shows "keeps I (load_release op env repository tag tok actions)"
  using assms
  by (auto simp: load_release_def load_body_def load_draft_def
      intro!: keeps_bindIO keeps_tryIO list_pages_keeps require_push_keeps split: sum.splits)

lemma costs_load_draft: "costs (1 + 100) (load_draft (counted op) tok base tag actions)"
proof -
  have "costs (1 + 0) (bindIO (counted op (GET tok base)) (\<lambda>i. if c i then raiseIO e else retIO x))" for c e x
    by (intro costs_bindIO) auto
  then have "costs (1 + 0) (require_push (counted op) tok base actions)"
    unfolding require_push_def Let_def by auto
  then show ?thesis
    unfolding load_draft_def using costs_list_pages [of "[1..<101]" op tok base tag]
    by (intro costs_bindIO) auto
qed

lemma load_body_eq:
  "load_body op tok u base tag actions w = (case op (GET tok u) w of
     (Inr p, w1) \<Rightarrow> (if is_dict p then Inr (Some p) else Inl response_invalid, w1)
   | (Inl e, w1) \<Rightarrow> if e \<noteq> HTTPError 404 then (Inl (lookup_error e), w1)
       else (case load_draft op tok base tag actions w1 of
          (Inr f, w2) \<Rightarrow> (Inr f, w2)
        | (Inl e', w2) \<Rightarrow> (Inl (lookup_error e'), w2)))"
  by (simp add: load_body_def bindIO_def tryIO_def split: prod.split sum.split)

lemma load_draft_Some:
  "load_draft op tok base tag actions w = (Inr (Some r), w') \<Longrightarrow>
     item_ok r \<and> obj_get r ''tag_name'' = JStr tag"
  by (auto simp: load_draft_def bindIO_OK simp del: upt_rec_numeral dest: list_pages_Some)

lemma load_body_dict: "load_body op tok u base tag actions w = (Inr (Some r), w') \<Longrightarrow> is_dict r"
  by (auto simp: load_body_eq item_ok_def dest!: load_draft_Some split: prod.splits sum.splits if_splits)

text \<open>Nothing found means the tag end point answered 404 and the listing was clear.\<close>

lemma load_body_None:
  "load_body op tok u base tag actions w = (Inr None, w') \<longleftrightarrow>
    (\<exists>w1 w2. op (GET tok u) w = (Inl (HTTPError 404), w1)
      \<and> require_push op tok base actions w1 = (Inr (), w2)
      \<and> cleared op tok base tag [1..<101] w2 w')"
proof -
  have "load_body op tok u base tag actions w = (Inr None, w') \<longleftrightarrow>
    (\<exists>w1. op (GET tok u) w = (Inl (HTTPError 404), w1)
      \<and> load_draft op tok base tag actions w1 = (Inr None, w'))"
    unfolding load_body_eq by (auto split: prod.splits sum.splits if_splits)
  then show ?thesis by (simp add: load_draft_def bindIO_OK list_pages_None del: upt_rec_numeral)
qed

lemma load_release_unfold:
  "load_release op env repository tag tok actions w = (Inr x, w') \<longleftrightarrow>
     tok \<noteq> [] \<and> (actions \<longrightarrow> actions_write_context env repository = Inr ())
     \<and> (\<exists>u. release_url repository tag = Inr u
          \<and> load_body op tok u (before_sub ''/releases/tags/'' u) tag actions w = (Inr x, w'))"
  by (auto simp: load_release_def bindIO_OK)

text \<open>Whatever goes wrong in the body is reported as one of the exceptions the caller handles.\<close>

lemma lookup_error_class: "is_OSError e \<or> is_ValueError e \<or> is_RuntimeError e \<Longrightarrow> is_RuntimeError (lookup_error e)"
  by (cases e) (auto simp: lookup_error_def response_invalid_def)

end
