(* ===== verification/Release_Absent_Props.thy ===== *)
theory Release_Absent_Props
  imports Release_Absent
begin

text \<open>
  What the release guard of \<^verbatim>\<open>scripts/check_release_absent.py\<close> guarantees: the interface
  its two callers rely on, soundness of an accepting answer, exactness against a
  release server, its request bound, and that it only reads.
\<close>

section \<open>The look-up interface\<close>

text \<open>
  What \<open>ensure_release_absent\<close> and the preflight rely on: a look-up for a tag yields
  no release or an object, and leaves every read-stable property of the world alone.
\<close>

locale release_lookup =
  fixes lookup :: "('w, json option) io"
    and inv :: "'w \<Rightarrow> bool"
  assumes lookup_dict: "lookup w = (Inr (Some r), w') \<Longrightarrow> is_dict r"
    and lookup_keeps: "keeps inv lookup"
begin

text \<open>The guard built on a look-up: it returns exactly when the look-up found nothing.\<close>

lemma guard_OK:
  "bindIO lookup (\<lambda>r. liftIO (refuse_release tag r)) w = (Inr (), w') \<longleftrightarrow> lookup w = (Inr None, w')"
  by (auto simp: bindIO_OK refuse_release_def split: option.splits if_splits)

lemma guard_refuses:
  assumes "lookup w = (Inr (Some r), w')" and "obj_get r ''tag_name'' = JStr tag" and "obj_get r ''draft'' = JBool d"
  shows "bindIO lookup (\<lambda>r. liftIO (refuse_release tag r)) w = (Inl (already_exists tag d), w')"
  using assms by (simp add: bindIO_def refuse_release_def)

lemma guard_keeps: "keeps inv (bindIO lookup (\<lambda>r. liftIO (refuse_release tag r)))"
  using lookup_keeps by (intro keeps_bindIO) auto

text \<open>A found release never lets the guard return, whatever its fields are.\<close>

lemma guard_found:
  "lookup w = (Inr (Some r), w') \<Longrightarrow>
     \<exists>e. is_RuntimeError e \<and> bindIO lookup (\<lambda>r. liftIO (refuse_release tag r)) w = (Inl e, w')"
  by (auto simp: bindIO_def refuse_release_def release_mismatch_def already_exists_def)

end

lemma load_release_dict:
  "load_release op env repository tag tok actions w = (Inr (Some r), w') \<Longrightarrow> is_dict r"
  unfolding load_release_unfold by (elim conjE exE) (rule load_body_dict)

interpretation rl: release_lookup "load_release op env repository tag tok actions"
    "\<lambda>w. reads_keep I op \<and> I w"
  for op :: "'w opener" and env repository tag tok actions I
  by unfold_locales
     (auto simp: keeps_def dest: load_release_dict load_release_keeps [unfolded keeps_def, rule_format])

lemma ensure_release_absent_guard:
  "ensure_release_absent op env repository tag tok actions =
     bindIO (load_release op env repository tag tok actions) (\<lambda>r. liftIO (refuse_release tag r))"
  by (simp add: ensure_release_absent_def)

section \<open>A release server\<close>

text \<open>
  The documented behaviour of the two GitHub end points for a repository whose releases
  are \<open>rs\<close>: the tag end point knows published releases only, the listing gives pages
  of 100, the repository object shows push visibility. Nothing a GET does changes it.
\<close>

definition has_tag :: "string \<Rightarrow> json \<Rightarrow> bool" where
  "has_tag tag r = (obj_get r ''tag_name'' = JStr tag)"

definition published :: "string \<Rightarrow> json list \<Rightarrow> json option" where
  "published tag rs = find (\<lambda>r. has_tag tag r \<and> obj_get r ''draft'' = JBool False) rs"

definition page_of :: "json list \<Rightarrow> nat \<Rightarrow> json list" where
  "page_of rs p = take 100 (drop (100 * (p - 1)) rs)"

definition serves_releases :: "'w opener \<Rightarrow> string \<Rightarrow> string \<Rightarrow> string \<Rightarrow> json list \<Rightarrow> bool" where
  "serves_releases op tok base tag rs \<longleftrightarrow>
     (\<forall>w. op (GET tok (base @ ''/releases/tags/'' @ quote tag)) w =
        ((case published tag rs of Some r \<Rightarrow> Inr r | None \<Rightarrow> Inl (HTTPError 404)), w))
     \<and> (\<forall>p w. 1 \<le> p \<longrightarrow> op (GET tok (page_url base p)) w = (Inr (JArr (page_of rs p)), w))
     \<and> (\<forall>w. op (GET tok base) w = (Inr (JObj [(''permissions'', JObj [(''push'', JBool True)])]), w))"

lemma find_append: "find P (xs @ ys) = (case find P xs of None \<Rightarrow> find P ys | Some x \<Rightarrow> Some x)"
  by (induction xs) auto

lemma find_take_drop:
  "find P xs = (case find P (take n xs) of None \<Rightarrow> find P (drop n xs) | Some x \<Rightarrow> Some x)"
  by (metis append_take_drop_id find_append)

lemma list_pages_serves:
  assumes pages: "\<And>p w. 1 \<le> p \<Longrightarrow> op (GET tok (page_url base p)) w = (Inr (JArr (page_of rs p)), w)"
    and ok: "list_all item_ok rs" and bound: "length rs < 100 * n" and "k < n"
  shows "list_pages op tok base tag [Suc k..<Suc n] w = (Inr (find (has_tag tag) (drop (100 * k) rs)), w)"
  using \<open>k < n\<close>
proof (induction "n - k" arbitrary: k)
  case 0
  then show ?case by simp
next
  case (Suc m)
  let ?xs = "take 100 (drop (100 * k) rs)"
  have range: "[Suc k..<Suc n] = Suc k # [Suc (Suc k)..<Suc n]"
    using Suc.prems by (simp add: upt_conv_Cons)
  have page: "op (GET tok (page_url base (Suc k))) w = (Inr (JArr ?xs), w)"
    using pages [of "Suc k"] by (simp add: page_of_def)
  have "list_all item_ok ?xs" using ok by (auto simp: list_all_iff dest: in_set_takeD in_set_dropD)
  then have scan: "scan_items tag ?xs = Inr (find (has_tag tag) ?xs)"
    using scan_items_find [of ?xs tag] by (simp add: has_tag_def [abs_def])
  have rest: "find (has_tag tag) (drop (100 * k) rs) = (case find (has_tag tag) ?xs of
      None \<Rightarrow> find (has_tag tag) (drop (100 * Suc k) rs) | Some x \<Rightarrow> Some x)"
    using find_take_drop [of "has_tag tag" "drop (100 * k) rs" 100]
    by (simp only: drop_drop mult_Suc_right)
  show ?case
  proof (cases "length ?xs < 100")
    case True
    then have "drop (100 * Suc k) rs = []" by auto
    with True page scan rest show ?thesis
      unfolding range list_pages_step by (auto split: option.splits)
  next
    case False
    then have "100 * Suc k \<le> length rs" by auto
    with bound have "Suc k < n" by simp
    with Suc have "list_pages op tok base tag [Suc (Suc k)..<Suc n] w
        = (Inr (find (has_tag tag) (drop (100 * Suc k) rs)), w)" by simp
    with False page scan rest show ?thesis
      unfolding range list_pages_step by (auto split: option.splits)
  qed
qed

lemma load_body_serves:
  assumes "serves_releases op tok base tag rs" and "list_all item_ok rs" and "length rs < 10000"
  shows "\<exists>found. load_body op tok (base @ ''/releases/tags/'' @ quote tag) base tag actions w = (Inr found, w)
    \<and> (found = None \<longleftrightarrow> (\<forall>r\<in>set rs. \<not> has_tag tag r)) \<and> (\<forall>r. found = Some r \<longrightarrow> r \<in> set rs \<and> has_tag tag r)"
proof (cases "published tag rs")
  case (Some r)
  then have r: "r \<in> set rs" "has_tag tag r" by (auto simp: published_def find_Some_iff)
  with assms(2) have "is_dict r" by (auto simp: list_all_iff item_ok_def)
  with Some assms(1) r show ?thesis by (auto simp: serves_releases_def load_body_eq)
next
  case None
  have push: "require_push op tok base actions w = (Inr (), w)"
    using assms(1) by (simp add: serves_releases_def require_push_def bindIO_def)
  have "list_pages op tok base tag [Suc 0..<Suc 100] w = (Inr (find (has_tag tag) (drop (100 * 0) rs)), w)"
    using assms by (intro list_pages_serves) (auto simp: serves_releases_def)
  then have "load_draft op tok base tag actions w = (Inr (find (has_tag tag) rs), w)"
    using push by (simp add: load_draft_def bindIO_def del: upt_rec_numeral)
  with None assms(1)
  have "load_body op tok (base @ ''/releases/tags/'' @ quote tag) base tag actions w = (Inr (find (has_tag tag) rs), w)"
    by (simp add: serves_releases_def load_body_eq)
  then show ?thesis by (auto simp: find_None_iff find_Some_iff)
qed

section \<open>Properties\<close>

text \<open>
  When the guard accepts: \<open>ensure_release_absent\<close> returns exactly when the
  token and the inputs are valid, the tag end point answered 404, the token could see
  drafts (or the job is a trusted one), and every page of the listing up to its first
  short page was well formed and free of the tag, drafts included.
\<close>

theorem ensure_release_absent_accepts:
  "ensure_release_absent op env repository tag tok actions w = (Inr (), w') \<longleftrightarrow>
     (\<exists>u w1 w2. tok \<noteq> [] \<and> release_url repository tag = Inr u
        \<and> (if actions then actions_write_context env repository = Inr () else True)
        \<and> op (GET tok u) w = (Inl (HTTPError 404), w1)
        \<and> require_push op tok (before_sub ''/releases/tags/'' u) actions w1 = (Inr (), w2)
        \<and> cleared op tok (before_sub ''/releases/tags/'' u) tag [1..<101] w2 w')"
  unfolding ensure_release_absent_guard rl.guard_OK load_release_unfold load_body_None
  by (cases actions) (simp_all only: if_True if_False simp_thms, blast+)

definition demo_server :: "json list \<Rightarrow> unit opener" where
  "demo_server rs req w =
     (if url req = ''https://api.github.com/repos/o/n/releases/tags/v1''
      then ((case published ''v1'' rs of Some r \<Rightarrow> Inr r | None \<Rightarrow> Inl (HTTPError 404)), w)
      else if url req = ''https://api.github.com/repos/o/n''
      then (Inr (JObj [(''permissions'', JObj [(''push'', JBool True)])]), w)
      else if url req = page_url ''https://api.github.com/repos/o/n'' 1
      then (Inr (JArr (take 100 rs)), w)
      else (Inr (JArr []), w))"

definition demo_release :: "string \<Rightarrow> bool \<Rightarrow> json" where
  "demo_release t d = JObj [(''tag_name'', JStr t), (''draft'', JBool d)]"

text \<open>
  Claim C5. Exactness against a release server: for a repository with fewer than 10000
  well-formed releases, the guard returns when no draft and no published release has
  the tag, and otherwise raises \<open>ReleaseAlreadyExistsError\<close>; it changes nothing.
\<close>

theorem ensure_release_absent_exact:
  assumes "serves_releases op tok (repo_url owner name) tag rs"
    and "split_on (CHR ''/'') repository = [owner, name]" and "owner \<noteq> []" and "name \<noteq> []"
    and "quote owner \<noteq> ''releases'' \<or> quote name \<noteq> ''tags''"
    and "tag \<noteq> []" and "tok \<noteq> []" and "list_all item_ok rs" and "length rs < 10000"
  shows "if \<forall>r\<in>set rs. \<not> has_tag tag r
    then ensure_release_absent op env repository tag tok False w = (Inr (), w)
    else \<exists>d. ensure_release_absent op env repository tag tok False w = (Inl (already_exists tag d), w)"
proof -
  obtain u where u: "release_url repository tag = Inr u"
    using assms(2,3,4,6) by (auto simp: release_url_OK)
  from before_sub_release_url [OF u assms(2,5)] obtain found where
    body: "load_body op tok u (before_sub ''/releases/tags/'' u) tag False w = (Inr found, w)"
    and none: "found = None \<longleftrightarrow> (\<forall>r\<in>set rs. \<not> has_tag tag r)"
    and some: "\<And>r. found = Some r \<Longrightarrow> r \<in> set rs \<and> has_tag tag r"
    using load_body_serves [OF assms(1,8,9), of False w] by auto
  from u body assms(7) have load: "load_release op env repository tag tok False w = (Inr found, w)"
    by (simp add: load_release_unfold)
  show ?thesis
  proof (cases found)
    case None
    with load none show ?thesis by (simp add: ensure_release_absent_guard rl.guard_OK)
  next
    case (Some r)
    with some have r: "r \<in> set rs" "has_tag tag r" by auto
    with assms(8) obtain d where "obj_get r ''draft'' = JBool d" by (auto simp: list_all_iff item_ok_def)
    with load Some r none show ?thesis
      by (auto simp: ensure_release_absent_guard has_tag_def dest: rl.guard_refuses)
  qed
qed

lemma quote_demo: "quote ''o'' = ''o''" "quote ''n'' = ''n''" "quote ''v1'' = ''v1''"
  by code_simp+

lemma demo_serves:
  assumes "length rs < 100"
  shows "serves_releases (demo_server rs) ''t'' (repo_url ''o'' ''n'') ''v1'' rs"
proof -
  have base: "repo_url ''o'' ''n'' = ''https://api.github.com/repos/o/n''"
    by (simp add: repo_url_def quote_demo)
  have pages: "1 \<le> p \<Longrightarrow> page_url b p = page_url b 1 \<longleftrightarrow> p = 1" for b p
    by (simp add: page_url_def)
  have "page_of rs p = (if p = 1 then take 100 rs else [])" if "1 \<le> p" for p
    using that assms by (simp add: page_of_def)
  moreover have "page_url ''https://api.github.com/repos/o/n'' p \<noteq> ''https://api.github.com/repos/o/n''"
    and "page_url ''https://api.github.com/repos/o/n'' p
      \<noteq> ''https://api.github.com/repos/o/n/releases/tags/v1''" for p
    by (simp_all add: page_url_def)
  ultimately show ?thesis
    using pages by (simp add: serves_releases_def base quote_demo demo_server_def)
qed

theorem ensure_release_absent_exact_witness:
  "\<exists>d. ensure_release_absent (demo_server [demo_release ''v2'' False, demo_release ''v1'' True]) Map.empty
        ''o/n'' ''v1'' ''t'' False () = (Inl (already_exists ''v1'' d), ())"
  using ensure_release_absent_exact
    [OF demo_serves [of "[demo_release ''v2'' False, demo_release ''v1'' True]"], of "''o/n''" Map.empty "()"]
  by (simp add: quote_demo item_ok_def demo_release_def has_tag_def ex_bool_eq)

text \<open>
  The guard only reads: it issues GET requests alone, so whatever property of
  the world GET requests leave alone still holds after it, returned or raised.
\<close>

theorem ensure_release_absent_read_only:
  "keeps (\<lambda>w. reads_keep I op \<and> I w) (ensure_release_absent op env repository tag tok actions)"
  unfolding ensure_release_absent_guard by (rule rl.guard_keeps)

text \<open>
  The guard makes at most 102 requests (the tag, the repository, 100 pages),
  whatever the server answers.
\<close>

theorem ensure_release_absent_bounded:
  "fst (snd (ensure_release_absent (counted op) env repository tag tok actions (n, w))) \<le> n + 102"
proof -
  have draft: "costs 101 (load_draft (counted op) tok base tag actions)" for base
    using costs_load_draft [of op tok base tag actions] by simp
  have found: "costs (101 + 0) (bindIO (load_draft (counted op) tok base tag actions) (\<lambda>found. retIO (Inr found)))" for base
    by (rule costs_bindIO [OF draft]) auto
  have "costs (1 + 0 + 101) (tryIO (bindIO (counted op (GET tok u)) (\<lambda>payload. retIO (Inl payload)))
                (\<lambda>e. if e \<noteq> HTTPError 404 then raiseIO e
                     else bindIO (load_draft (counted op) tok base tag actions) (\<lambda>found. retIO (Inr found))))"
    for u base
    by (intro costs_tryIO costs_bindIO costs_counted) (use found in auto)
  then have "costs (102 + 0 + 0) (load_body (counted op) tok u base tag actions)" for u base
    unfolding load_body_def by (intro costs_bindIO costs_tryIO) (auto split: sum.split)
  then have "costs 102 (load_release (counted op) env repository tag tok actions)"
    unfolding load_release_def by (intro costs_if costs_lift_bind) auto
  then have "costs (102 + 0) (ensure_release_absent (counted op) env repository tag tok actions)"
    unfolding ensure_release_absent_def by (intro costs_bindIO) auto
  then show ?thesis by (simp add: costs_def)
qed

end
