(* ===== verification/Py_Regex.thy ===== *)
theory Py_Regex
  imports Py_Str
begin

text \<open>
  The part of Python's \<open>re\<close> the scripts use: a pattern is a value of \<open>rx\<close>, matching
  explores the alternatives in the order of the backtracking matcher (left branch of
  an alternation first, more repetitions first), and yields the positions it can end
  at. A position is the character before it (for \<open>^\<close> and \<open>\b\<close>), the rest of the text,
  and the groups captured so far.
\<close>

datatype rx =
    Lit string                    \<comment> \<open>the text itself\<close>
  | LitI string                   \<comment> \<open>the text, ignoring case (the pattern written in lower case)\<close>
  | Cls "char \<Rightarrow> bool"            \<comment> \<open>one character of a class\<close>
  | Seq rx rx
  | Alt rx rx
  | Rep nat nat rx                \<comment> \<open>between m and n times, greedy\<close>
  | Many nat rx                   \<comment> \<open>at least m times, greedy\<close>
  | Grp string rx                 \<comment> \<open>named group\<close>
  | Bos                           \<comment> \<open>start of text\<close>
  | Eos                           \<comment> \<open>\<open>$\<close>: end of text or before a final newline\<close>
  | Eot                           \<comment> \<open>\<open>\Z\<close>: end of text\<close>
  | WordB                         \<comment> \<open>\<open>\b\<close>\<close>

type_synonym pos = "char option \<times> string \<times> (string \<times> string) list"

fun last_or :: "char option \<Rightarrow> string \<Rightarrow> char option" where
  "last_or p [] = p"
| "last_or p (c # cs) = last_or (Some c) cs"

fun rep_match :: "(pos \<Rightarrow> pos list) \<Rightarrow> nat \<Rightarrow> nat \<Rightarrow> pos \<Rightarrow> pos list" where
  "rep_match f m 0 st = (if m = 0 then [st] else [])"
| "rep_match f m (Suc n) st =
     concat (map (rep_match f (m - 1) n) (f st)) @ (if m = 0 then [st] else [])"

fun rmatch :: "rx \<Rightarrow> pos \<Rightarrow> pos list" where
  "rmatch (Lit l) (p, s, g) =
     (if startswith s l then [(last_or p l, drop (length l) s, g)] else [])"
| "rmatch (LitI l) (p, s, g) =
     (if startswith (py_lower s) l then [(last_or p (take (length l) s), drop (length l) s, g)] else [])"
| "rmatch (Cls P) (p, s, g) = (case s of [] \<Rightarrow> [] | c # cs \<Rightarrow> if P c then [(Some c, cs, g)] else [])"
| "rmatch (Seq a b) st = concat (map (rmatch b) (rmatch a st))"
| "rmatch (Alt a b) st = rmatch a st @ rmatch b st"
| "rmatch (Rep m n r) st = rep_match (rmatch r) m n st"
| "rmatch (Many m r) (p, s, g) = rep_match (rmatch r) m (length s) (p, s, g)"
| "rmatch (Grp n r) (p, s, g) =
     map (\<lambda>(p', s', g'). (p', s', (n, take (length s - length s') s) # g')) (rmatch r (p, s, g))"
| "rmatch Bos (p, s, g) = (if p = None then [(p, s, g)] else [])"
| "rmatch Eos (p, s, g) = (if s = [] \<or> s = [CHR 0x0A] then [(p, s, g)] else [])"
| "rmatch Eot (p, s, g) = (if s = [] then [(p, s, g)] else [])"
| "rmatch WordB (p, s, g) =
     (let prev_word = (case p of None \<Rightarrow> False | Some c \<Rightarrow> is_word c);
          next_word = (case s of [] \<Rightarrow> False | c # _ \<Rightarrow> is_word c)
      in if prev_word \<noteq> next_word then [(p, s, g)] else [])"

fun seqs :: "rx list \<Rightarrow> rx" where
  "seqs [] = Lit []"
| "seqs [r] = r"
| "seqs (r # q # rs) = Seq r (seqs (q # rs))"

fun alts :: "rx list \<Rightarrow> rx" where
  "alts [] = Cls (\<lambda>_. False)"
| "alts [r] = r"
| "alts (r # q # rs) = Alt r (alts (q # rs))"

definition opt :: "rx \<Rightarrow> rx" where
  "opt r = Rep 0 1 r"

text \<open>\<open>p.fullmatch(s)\<close>, \<open>p.search(s)\<close> and \<open>p.finditer(s)\<close>.\<close>

definition fullmatch :: "rx \<Rightarrow> string \<Rightarrow> bool" where
  "fullmatch r s = list_ex (\<lambda>(p, s', g). s' = []) (rmatch r (None, s, []))"

fun search_from :: "rx \<Rightarrow> char option \<Rightarrow> string \<Rightarrow> pos option" where
  "search_from r p [] = (case rmatch r (p, [], []) of [] \<Rightarrow> None | st # _ \<Rightarrow> Some st)"
| "search_from r p (c # cs) =
     (case rmatch r (p, c # cs, []) of st # _ \<Rightarrow> Some st | [] \<Rightarrow> search_from r (Some c) cs)"

definition search :: "rx \<Rightarrow> string \<Rightarrow> pos option" where
  "search r s = search_from r None s"

definition searches :: "rx \<Rightarrow> string \<Rightarrow> bool" where
  "searches r s = (search r s \<noteq> None)"

definition group :: "pos \<Rightarrow> string \<Rightarrow> string" where
  "group st n = (case map_of (snd (snd st)) n of None \<Rightarrow> [] | Some v \<Rightarrow> v)"

text \<open>
  Successive non-overlapping matches, left to right. Patterns handed to it match no
  empty text, so the scan resumes where the match ended; the length guard keeps the
  definition total.
\<close>

function finditer_from :: "rx \<Rightarrow> char option \<Rightarrow> string \<Rightarrow> pos list" where
  "finditer_from r p s =
     (case search_from r p s of
        None \<Rightarrow> []
      | Some (p', s', g) \<Rightarrow>
          (p', s', g) # (if length s' < length s then finditer_from r p' s' else []))"
  by pat_completeness auto
termination
  by (relation "measure (\<lambda>(r, p, s). length s)") auto

declare finditer_from.simps [simp del]

definition finditer :: "rx \<Rightarrow> string \<Rightarrow> pos list" where
  "finditer r s = finditer_from r None s"

section \<open>What the patterns of the program accept\<close>

text \<open>The languages of the pattern shapes used for identifiers and digests.\<close>

lemma rmatch_class_rep:
  "rmatch (Rep n n (Cls P)) (p, s, g) =
     (if n \<le> length s \<and> list_all P (take n s) then [(last_or p (take n s), drop n s, g)] else [])"
proof (induction n arbitrary: p s)
  case 0
  then show ?case by simp
next
  case (Suc n)
  show ?case
  proof (cases s)
    case Nil
    then show ?thesis by simp
  next
    case (Cons c cs)
    with Suc [of "Some c" cs] show ?thesis by simp
  qed
qed

text \<open>The remainders a bounded or unbounded run of a class can leave.\<close>

lemma rep_class_rests:
  "(\<exists>p' g'. (p', s', g') \<in> set (rep_match (rmatch (Cls P)) m n (p, s, g))) \<longleftrightarrow>
     (\<exists>k. m \<le> k \<and> k \<le> n \<and> k \<le> length s \<and> list_all P (take k s) \<and> s' = drop k s)"
proof (induction n arbitrary: m p s)
  case 0
  then show ?case by auto
next
  case (Suc n)
  show ?case
  proof (cases s)
    case Nil
    then show ?thesis by auto
  next
    case (Cons c cs)
    have "(\<exists>k. m \<le> k \<and> k \<le> Suc n \<and> k \<le> length s \<and> list_all P (take k s) \<and> s' = drop k s)
      \<longleftrightarrow> (m = 0 \<and> s' = s) \<or>
        (P c \<and> (\<exists>k. m - 1 \<le> k \<and> k \<le> n \<and> k \<le> length cs \<and> list_all P (take k cs) \<and> s' = drop k cs))"
      (is "?l \<longleftrightarrow> ?a \<or> ?b")
    proof
      assume ?l
      then obtain k where k: "m \<le> k" "k \<le> Suc n" "k \<le> length s" "list_all P (take k s)" "s' = drop k s"
        by blast
      show "?a \<or> ?b"
      proof (cases k)
        case 0
        with k show ?thesis by simp
      next
        case (Suc j)
        with k Cons show ?thesis by (auto intro!: exI [of _ j])
      qed
    next
      assume "?a \<or> ?b"
      then show ?l
      proof
        assume ?a
        then show ?l by (intro exI [of _ 0]) simp
      next
        assume ?b
        then obtain k where "P c" "m - 1 \<le> k" "k \<le> n" "k \<le> length cs"
          "list_all P (take k cs)" "s' = drop k cs" by blast
        with Cons show ?l by (intro exI [of _ "Suc k"]) auto
      qed
    qed
    moreover have "(\<exists>p' g'. (p', s', g') \<in> set (rep_match (rmatch (Cls P)) m (Suc n) (p, s, g))) \<longleftrightarrow>
      (m = 0 \<and> s' = s) \<or>
      (P c \<and> (\<exists>p' g'. (p', s', g') \<in> set (rep_match (rmatch (Cls P)) (m - 1) n (Some c, cs, g))))"
      using Cons by auto
    ultimately show ?thesis using Suc.IH [of "m - 1" "Some c" cs] by simp
  qed
qed

lemma fullmatch_class_rep:
  "fullmatch (Rep m n (Cls P)) s \<longleftrightarrow> m \<le> length s \<and> length s \<le> n \<and> list_all P s"
proof -
  have "fullmatch (Rep m n (Cls P)) s \<longleftrightarrow>
    (\<exists>p' g'. (p', [], g') \<in> set (rep_match (rmatch (Cls P)) m n (None, s, [])))"
    by (auto simp: fullmatch_def list_ex_iff)
  also have "\<dots> \<longleftrightarrow> m \<le> length s \<and> length s \<le> n \<and> list_all P s"
    unfolding rep_class_rests by (auto intro: exI [of _ "length s"])
  finally show ?thesis .
qed

lemma fullmatch_class_many:
  "fullmatch (Many m (Cls P)) s \<longleftrightarrow> m \<le> length s \<and> list_all P s"
proof -
  have "fullmatch (Many m (Cls P)) s \<longleftrightarrow> fullmatch (Rep m (length s) (Cls P)) s"
    by (simp add: fullmatch_def)
  then show ?thesis by (simp add: fullmatch_class_rep)
qed

lemma fullmatch_Lit_Seq:
  "fullmatch (Seq (Lit l) (Rep n n (Cls P))) s \<longleftrightarrow>
     (\<exists>t. s = l @ t \<and> length t = n \<and> list_all P t)"
proof -
  have "fullmatch (Seq (Lit l) (Rep n n (Cls P))) s \<longleftrightarrow>
    startswith s l \<and> length (drop (length l) s) = n \<and> list_all P (drop (length l) s)"
    by (auto simp: fullmatch_def rmatch_class_rep simp del: rmatch.simps(6))
  then show ?thesis by (auto simp: startswith_iff)
qed

lemma fullmatch_Seq_Lit:
  "fullmatch (Seq a (Lit l)) s \<longleftrightarrow> (\<exists>p' g'. (p', l, g') \<in> set (rmatch a (None, s, [])))"
proof -
  have l: "list_ex (\<lambda>(p, s', g). s' = []) (rmatch (Lit l) st) \<longleftrightarrow> fst (snd st) = l" for st
    by (cases st) (auto simp: startswith_iff)
  have "fullmatch (Seq a (Lit l)) s \<longleftrightarrow>
    (\<exists>st\<in>set (rmatch a (None, s, [])). list_ex (\<lambda>(p, s', g). s' = []) (rmatch (Lit l) st))"
    by (simp add: fullmatch_def list_ex_iff del: rmatch.simps(1))
  also have "\<dots> \<longleftrightarrow> (\<exists>st\<in>set (rmatch a (None, s, [])). fst (snd st) = l)"
    by (simp only: l)
  finally show ?thesis by force
qed

lemma fullmatch_many_Lit:
  "fullmatch (Seq (Many m (Cls P)) (Lit l)) s \<longleftrightarrow> (\<exists>t. s = t @ l \<and> m \<le> length t \<and> list_all P t)"
proof -
  have "fullmatch (Seq (Many m (Cls P)) (Lit l)) s \<longleftrightarrow>
    (\<exists>p' g'. (p', l, g') \<in> set (rep_match (rmatch (Cls P)) m (length s) (None, s, [])))"
    by (simp add: fullmatch_Seq_Lit)
  also have "\<dots> \<longleftrightarrow> (\<exists>t. s = t @ l \<and> m \<le> length t \<and> list_all P t)"
    unfolding rep_class_rests
  proof
    assume "\<exists>k\<ge>m. k \<le> length s \<and> k \<le> length s \<and> list_all P (take k s) \<and> l = drop k s"
    then obtain k where "m \<le> k" "k \<le> length s" "list_all P (take k s)" "l = drop k s" by blast
    then show "\<exists>t. s = t @ l \<and> m \<le> length t \<and> list_all P t" by (intro exI [of _ "take k s"]) auto
  next
    assume "\<exists>t. s = t @ l \<and> m \<le> length t \<and> list_all P t"
    then obtain t where "s = t @ l" "m \<le> length t" "list_all P t" by blast
    then show "\<exists>k\<ge>m. k \<le> length s \<and> k \<le> length s \<and> list_all P (take k s) \<and> l = drop k s"
      by (intro exI [of _ "length t"]) auto
  qed
  finally show ?thesis .
qed

text \<open>\<open>sha256:\<close> and 64 lower-case hexadecimal digits; a full commit; a bare digest.\<close>

definition digest_rx :: rx where
  "digest_rx = Seq (Lit ''sha256:'') (Rep 64 64 (Cls is_lhex))"
definition commit_rx :: rx where
  "commit_rx = Rep 40 40 (Cls is_lhex)"
definition hex64_rx :: rx where
  "hex64_rx = Rep 64 64 (Cls is_lhex)"

definition is_digest :: "string \<Rightarrow> bool" where
  "is_digest s = (startswith s ''sha256:'' \<and> length s = 71 \<and> list_all is_lhex (drop 7 s))"
definition is_commit :: "string \<Rightarrow> bool" where
  "is_commit s = (length s = 40 \<and> list_all is_lhex s)"

lemma fullmatch_digest: "fullmatch digest_rx s \<longleftrightarrow> is_digest s"
  unfolding digest_rx_def fullmatch_Lit_Seq is_digest_def startswith_iff by auto

lemma fullmatch_commit: "fullmatch commit_rx s \<longleftrightarrow> is_commit s"
  unfolding commit_rx_def fullmatch_class_rep is_commit_def by auto

lemma fullmatch_hex64: "fullmatch hex64_rx s \<longleftrightarrow> length s = 64 \<and> list_all is_lhex s"
  unfolding hex64_rx_def fullmatch_class_rep by auto

lemma is_digest_append [simp]: "is_digest (''sha256:'' @ h) \<longleftrightarrow> length h = 64 \<and> list_all is_lhex h"
  by (auto simp: is_digest_def startswith_def)

lemma is_commit_nonempty: "is_commit s \<Longrightarrow> s \<noteq> []"
  by (auto simp: is_commit_def)

end
