(* ===== verification/Release_Lineage.thy ===== *)
theory Release_Lineage
  imports Py_IO Py_Regex
begin

text \<open>
  \<^verbatim>\<open>scripts/check_release_lineage.py\<close>: a release tag must resolve to the commit of the
  workflow event, and that commit must be an ancestor of protected \<open>main\<close>. The Git
  data come from the GitHub API (\<open>opener\<close>), one object per request.
\<close>

section \<open>Definitions\<close>

definition lineage_error :: "string \<Rightarrow> exn" where
  "lineage_error m = ReleaseLineageError m"

definition validate_sha :: "string \<Rightarrow> json \<Rightarrow> string result" where
  "validate_sha label value = (case value of
     JStr s \<Rightarrow> if fullmatch commit_rx s then ret s
               else raise (lineage_error (label @ '' response is malformed''))
   | _ \<Rightarrow> raise (lineage_error (label @ '' response is malformed'')))"

definition repository_root :: "string \<Rightarrow> string result" where
  "repository_root repository = (let parts = split_on (CHR ''/'') repository in
     if length parts \<noteq> 2 \<or> \<not> list_all (\<lambda>p. p \<noteq> []) parts
     then raise (lineage_error ''repository must use OWNER/REPO format'')
     else ret (''https://api.github.com/repos/'' @ quote (parts ! 0) @ ''/'' @ quote (parts ! 1)))"

definition load_error :: "string \<Rightarrow> exn \<Rightarrow> exn" where
  "load_error label e = (case e of
     HTTPError c \<Rightarrow> lineage_error (label @ '' lookup failed with HTTP '' @ int_str c)
   | _ \<Rightarrow> if is_OSError e \<or> is_ValueError e
         then lineage_error (label @ '' lookup returned an invalid response'') else e)"

definition load_object :: "'w opener \<Rightarrow> string \<Rightarrow> string \<Rightarrow> string \<Rightarrow> ('w, json) io" where
  "load_object opener tok label u =
     bindIO (tryIO (opener (GET tok u)) (\<lambda>e. raiseIO (load_error label e))) (\<lambda>payload.
       if is_dict payload then retIO payload
       else raiseIO (lineage_error (label @ '' response is malformed'')))"

definition object_target :: "string \<Rightarrow> json \<Rightarrow> (string \<times> string) result" where
  "object_target label payload = (let target = obj_get payload ''object'' in
     if \<not> is_dict target \<or> \<not> is_str (obj_get target ''type'')
     then raise (lineage_error (label @ '' response is malformed''))
     else bindE (validate_sha label (obj_get target ''sha'')) (\<lambda>sha.
       ret (str_of (obj_get target ''type''), sha)))"

definition resolve_annotated :: "'w opener \<Rightarrow> string \<Rightarrow> string \<Rightarrow> string \<Rightarrow> string \<Rightarrow> ('w, string) io" where
  "resolve_annotated opener tok root tag object_sha =
     bindIO (load_object opener tok ''annotated tag'' (root @ ''/git/tags/'' @ object_sha)) (\<lambda>annotated.
       if obj_get annotated ''sha'' \<noteq> JStr object_sha \<or> obj_get annotated ''tag'' \<noteq> JStr tag
       then raiseIO (lineage_error ''annotated tag response does not match the requested tag'')
       else bindIO (liftIO (object_target ''annotated tag'' annotated)) (\<lambda>(target_type, resolved).
         if target_type \<noteq> ''commit''
         then raiseIO (lineage_error ''annotated tag has an unsupported target type'')
         else retIO resolved))"

text \<open>From the type and SHA of the reference's object to the commit, checked against the event.\<close>

definition resolve_target ::
    "'w opener \<Rightarrow> string \<Rightarrow> string \<Rightarrow> string \<Rightarrow> string \<Rightarrow> string \<Rightarrow> string \<Rightarrow> ('w, string) io" where
  "resolve_target opener tok root tag expected_commit object_type object_sha =
     bindIO (if object_type = ''commit'' then retIO object_sha
             else if object_type = ''tag'' then resolve_annotated opener tok root tag object_sha
             else raiseIO (lineage_error ''tag ref has an unsupported target type'')) (\<lambda>resolved_commit.
       if resolved_commit \<noteq> expected_commit
       then raiseIO (lineage_error ((if object_type = ''tag'' then ''annotated tag'' else ''tag ref'')
              @ '' does not resolve to the workflow event commit''))
       else retIO resolved_commit)"

definition resolve_tag_commit ::
    "'w opener \<Rightarrow> string \<Rightarrow> string \<Rightarrow> string \<Rightarrow> string \<Rightarrow> ('w, string) io" where
  "resolve_tag_commit opener root tag expected_commit tok =
     bindIO (load_object opener tok ''tag ref'' (root @ ''/git/ref/tags/'' @ quote tag)) (\<lambda>tag_ref.
       bindIO (liftIO (if obj_get tag_ref ''ref'' \<noteq> JStr (''refs/tags/'' @ tag)
                       then raise (lineage_error ''tag ref response does not match the requested tag'')
                       else object_target ''tag ref'' tag_ref)) (\<lambda>target.
         resolve_target opener tok root tag expected_commit (fst target) (snd target)))"

definition main_branch_sha :: "json \<Rightarrow> string result" where
  "main_branch_sha branch = (let commit = obj_get branch ''commit'' in
     if obj_get branch ''name'' \<noteq> JStr ''main'' \<or> \<not> is_dict commit
     then raise (lineage_error ''protected main response is malformed'')
     else if obj_get branch ''protected'' \<noteq> JBool True then raise (lineage_error ''main is not protected'')
     else validate_sha ''protected main'' (obj_get commit ''sha''))"

definition capture_protected_main :: "'w opener \<Rightarrow> string \<Rightarrow> string \<Rightarrow> ('w, string) io" where
  "capture_protected_main opener root tok =
     bindIO (load_object opener tok ''protected main'' (root @ ''/branches/main''))
       (\<lambda>branch. liftIO (main_branch_sha branch))"

definition nonneg_int :: "json \<Rightarrow> bool" where
  "nonneg_int j = (case j of JInt i \<Rightarrow> 0 \<le> i | _ \<Rightarrow> False)"

definition positive_int :: "json \<Rightarrow> bool" where
  "positive_int j = (case j of JInt i \<Rightarrow> 0 < i | _ \<Rightarrow> False)"

definition comparison_malformed :: "json \<Rightarrow> bool" where
  "comparison_malformed c = (
     \<not> is_dict (obj_get c ''base_commit'') \<or> \<not> is_dict (obj_get c ''merge_base_commit'')
     \<or> \<not> is_str (obj_get c ''status'')
     \<or> \<not> nonneg_int (obj_get c ''ahead_by'') \<or> \<not> nonneg_int (obj_get c ''behind_by''))"

definition valid_counts :: "json \<Rightarrow> bool" where
  "valid_counts c = (
     (obj_get c ''status'' = JStr ''identical'' \<and> obj_get c ''ahead_by'' = JInt 0)
     \<or> (obj_get c ''status'' = JStr ''ahead'' \<and> positive_int (obj_get c ''ahead_by'')))"

definition check_comparison :: "string \<Rightarrow> json \<Rightarrow> unit result" where
  "check_comparison tagged_commit c =
     (if comparison_malformed c then raise (lineage_error ''comparison response is malformed'')
      else bindE (validate_sha ''comparison'' (obj_get (obj_get c ''base_commit'') ''sha'')) (\<lambda>base_sha.
        bindE (validate_sha ''comparison'' (obj_get (obj_get c ''merge_base_commit'') ''sha'')) (\<lambda>merge_base_sha.
          if base_sha \<noteq> tagged_commit \<or> merge_base_sha \<noteq> tagged_commit
             \<or> obj_get c ''behind_by'' \<noteq> JInt 0 \<or> \<not> valid_counts c
          then raise (lineage_error ''release tag commit is not an ancestor of protected main'')
          else ret ())))"

definition require_main_ancestor ::
    "'w opener \<Rightarrow> string \<Rightarrow> string \<Rightarrow> string \<Rightarrow> string \<Rightarrow> ('w, unit) io" where
  "require_main_ancestor opener root tagged_commit captured_main tok =
     bindIO (load_object opener tok ''comparison''
               (root @ ''/compare/'' @ tagged_commit @ ''...'' @ captured_main))
       (\<lambda>c. liftIO (check_comparison tagged_commit c))"

definition lineage_inputs :: "string \<Rightarrow> string \<Rightarrow> string \<Rightarrow> string \<Rightarrow> string result" where
  "lineage_inputs repository tag expected_commit tok =
     bindE (repository_root repository) (\<lambda>root.
       if tag = [] then raise (lineage_error ''tag must be non-empty'')
       else if \<not> fullmatch commit_rx expected_commit then raise (lineage_error ''expected commit is invalid'')
       else if tok = [] then raise (lineage_error ''GH_TOKEN is required'')
       else ret root)"

definition ensure_release_lineage ::
    "'w opener \<Rightarrow> string \<Rightarrow> string \<Rightarrow> string \<Rightarrow> string \<Rightarrow> ('w, string) io" where
  "ensure_release_lineage opener repository tag expected_commit tok =
     bindIO (liftIO (lineage_inputs repository tag expected_commit tok)) (\<lambda>root.
       bindIO (resolve_tag_commit opener root tag expected_commit tok) (\<lambda>tagged_commit.
         bindIO (capture_protected_main opener root tok) (\<lambda>captured_main.
           bindIO (require_main_ancestor opener root tagged_commit captured_main tok) (\<lambda>_.
             retIO captured_main))))"

definition lineage_main :: "'w opener \<Rightarrow> (string \<rightharpoonup> string) \<Rightarrow> string \<Rightarrow> string \<Rightarrow> string \<Rightarrow> ('w, int) io" where
  "lineage_main opener env repository tag expected_commit =
     tryIO (bindIO (ensure_release_lineage opener repository tag expected_commit
                      (case env ''GH_TOKEN'' of None \<Rightarrow> [] | Some t \<Rightarrow> t)) (\<lambda>_. retIO 0))
       (\<lambda>e. case e of ReleaseLineageError _ \<Rightarrow> retIO 1 | _ \<Rightarrow> raiseIO e)"

section \<open>Component lemmas\<close>

lemma validate_sha_OK [simp]: "validate_sha l v = Inr s \<longleftrightarrow> v = JStr s \<and> is_commit s"
  by (cases v) (auto simp: validate_sha_def fullmatch_commit)

lemma load_object_OK:
  "load_object op tok label u w = (Inr p, w') \<longleftrightarrow> op (GET tok u) w = (Inr p, w') \<and> is_dict p"
  by (auto simp: load_object_def bindIO_OK tryIO_OK split: if_splits)

lemma object_target_OK:
  "object_target l p = Inr (ty, sha) \<longleftrightarrow>
     (\<exists>kvs. obj_get p ''object'' = JObj kvs \<and> obj_get (JObj kvs) ''type'' = JStr ty
        \<and> obj_get (JObj kvs) ''sha'' = JStr sha \<and> is_commit sha)"
  by (auto simp: object_target_def Let_def)

lemma nonneg_int_iff: "nonneg_int j \<longleftrightarrow> (\<exists>i. j = JInt i \<and> 0 \<le> i)"
  by (cases j) (auto simp: nonneg_int_def)

lemma positive_int_iff: "positive_int j \<longleftrightarrow> (\<exists>i>0. j = JInt i)"
  by (cases j) (auto simp: positive_int_def)

lemma keeps_load_object [intro]: "reads_keep I op \<Longrightarrow> keeps I (load_object op tok label u)"
  by (auto simp: load_object_def intro!: keeps_bindIO keeps_tryIO)

text \<open>What a comparison must say to be accepted: the tagged commit is base and merge base.\<close>

definition proves_ancestor :: "string \<Rightarrow> json \<Rightarrow> bool" where
  "proves_ancestor c r \<longleftrightarrow>
     obj_get (obj_get r ''base_commit'') ''sha'' = JStr c
     \<and> obj_get (obj_get r ''merge_base_commit'') ''sha'' = JStr c
     \<and> obj_get r ''behind_by'' = JInt 0
     \<and> ((obj_get r ''status'' = JStr ''identical'' \<and> obj_get r ''ahead_by'' = JInt 0)
        \<or> (obj_get r ''status'' = JStr ''ahead'' \<and> (\<exists>n>0. obj_get r ''ahead_by'' = JInt n)))"

lemma check_comparison_OK:
  "is_commit c \<Longrightarrow> check_comparison c r = Inr () \<longleftrightarrow> proves_ancestor c r"
  unfolding check_comparison_def comparison_malformed_def valid_counts_def nonneg_int_iff positive_int_iff proves_ancestor_def
  by (auto simp: obj_get_def split: json.splits)

lemma check_comparison_ancestor: "check_comparison c r = Inr () \<Longrightarrow> proves_ancestor c r \<and> is_commit c"
  unfolding check_comparison_def comparison_malformed_def valid_counts_def nonneg_int_iff positive_int_iff proves_ancestor_def
  by auto

text \<open>
  What a tag reference must say: it points at the commit, or at an annotated tag object
  of that name whose target is the commit.
\<close>

inductive tag_resolves :: "'w opener \<Rightarrow> string \<Rightarrow> string \<Rightarrow> string \<Rightarrow> string \<Rightarrow> 'w \<Rightarrow> 'w \<Rightarrow> bool"
  for op tok root tag commit where
  direct: "op (GET tok (root @ ''/git/ref/tags/'' @ quote tag)) w = (Inr r, w') \<Longrightarrow>
    obj_get r ''ref'' = JStr (''refs/tags/'' @ tag) \<Longrightarrow>
    object_target ''tag ref'' r = Inr (''commit'', commit) \<Longrightarrow> is_dict r \<Longrightarrow>
    tag_resolves op tok root tag commit w w'"
| annotated: "op (GET tok (root @ ''/git/ref/tags/'' @ quote tag)) w = (Inr r, w') \<Longrightarrow>
    obj_get r ''ref'' = JStr (''refs/tags/'' @ tag) \<Longrightarrow>
    object_target ''tag ref'' r = Inr (''tag'', t) \<Longrightarrow> is_dict r \<Longrightarrow>
    op (GET tok (root @ ''/git/tags/'' @ t)) w' = (Inr a, w'') \<Longrightarrow>
    obj_get a ''sha'' = JStr t \<Longrightarrow> obj_get a ''tag'' = JStr tag \<Longrightarrow> is_dict a \<Longrightarrow>
    object_target ''annotated tag'' a = Inr (''commit'', commit) \<Longrightarrow>
    tag_resolves op tok root tag commit w w''"

inductive_cases tag_resolvesE: "tag_resolves op tok root tag commit w w'"

lemma resolve_annotated_OK:
  "resolve_annotated op tok root tag t w = (Inr c, w') \<longleftrightarrow>
     (\<exists>a. op (GET tok (root @ ''/git/tags/'' @ t)) w = (Inr a, w') \<and> is_dict a
        \<and> obj_get a ''sha'' = JStr t \<and> obj_get a ''tag'' = JStr tag
        \<and> object_target ''annotated tag'' a = Inr (''commit'', c))"
  by (auto simp: resolve_annotated_def bindIO_OK load_object_OK split: if_splits simp del: json_tests)

lemma resolve_target_OK:
  "resolve_target op tok root tag expected ty sha w = (Inr c, w') \<longleftrightarrow>
     c = expected \<and> (ty = ''commit'' \<and> sha = expected \<and> w' = w
       \<or> ty = ''tag'' \<and> resolve_annotated op tok root tag sha w = (Inr expected, w'))"
  by (auto simp: resolve_target_def bindIO_OK split: if_splits)

lemma resolve_tag_commit_OK:
  "resolve_tag_commit op root tag expected tok w = (Inr c, w') \<longleftrightarrow>
     c = expected \<and> tag_resolves op tok root tag expected w w'"
  unfolding resolve_tag_commit_def bindIO_OK load_object_OK io_simps resolve_target_OK
    resolve_annotated_OK tag_resolves.simps if_raise_eq_Inr prod.inject split_paired_Ex fst_conv snd_conv
  by blast

lemma main_branch_sha_OK:
  "main_branch_sha b = Inr s \<longleftrightarrow> obj_get b ''name'' = JStr ''main'' \<and> obj_get b ''protected'' = JBool True
     \<and> is_dict (obj_get b ''commit'') \<and> obj_get (obj_get b ''commit'') ''sha'' = JStr s \<and> is_commit s"
  by (auto simp: main_branch_sha_def Let_def)

lemma lineage_inputs_OK:
  "lineage_inputs repository tag expected tok = Inr root \<Longrightarrow>
     repository_root repository = Inr root \<and> tag \<noteq> [] \<and> is_commit expected \<and> tok \<noteq> []"
  by (auto simp: lineage_inputs_def fullmatch_commit)

lemma capture_protected_main_OK:
  "capture_protected_main op root tok w = (Inr m, w') \<longleftrightarrow>
     (\<exists>b. op (GET tok (root @ ''/branches/main'')) w = (Inr b, w') \<and> is_dict b \<and> main_branch_sha b = Inr m)"
  by (auto simp: capture_protected_main_def bindIO_OK load_object_OK)

lemma require_main_ancestor_OK:
  "require_main_ancestor op root c m tok w = (Inr u, w') \<longleftrightarrow>
     (\<exists>r. op (GET tok (root @ ''/compare/'' @ c @ ''...'' @ m)) w = (Inr r, w') \<and> is_dict r
        \<and> check_comparison c r = Inr ())"
  by (auto simp: require_main_ancestor_def bindIO_OK load_object_OK)

section \<open>Properties\<close>

text \<open>
  Claim C17. The lineage check returns a commit exactly when the inputs are valid, the
  tag resolved, directly or through one annotated tag of the same name, to the expected
  commit, \<open>main\<close> was protected at the returned commit, and the comparison of the two
  named the expected commit as base and merge base with nothing behind.
\<close>

theorem ensure_release_lineage_exact:
  "ensure_release_lineage op repository tag expected tok w = (Inr m, wf) \<longleftrightarrow>
     (\<exists>root w' w'' b r. lineage_inputs repository tag expected tok = Inr root \<and> is_commit expected
        \<and> tag_resolves op tok root tag expected w w'
        \<and> op (GET tok (root @ ''/branches/main'')) w' = (Inr b, w'') \<and> is_dict b \<and> main_branch_sha b = Inr m
        \<and> op (GET tok (root @ ''/compare/'' @ expected @ ''...'' @ m)) w'' = (Inr r, wf) \<and> is_dict r
        \<and> proves_ancestor expected r)"
  (is "?l \<longleftrightarrow> ?r")
proof -
  have "?l \<longleftrightarrow> (\<exists>root w' w'' b r. lineage_inputs repository tag expected tok = Inr root
        \<and> tag_resolves op tok root tag expected w w'
        \<and> op (GET tok (root @ ''/branches/main'')) w' = (Inr b, w'') \<and> is_dict b \<and> main_branch_sha b = Inr m
        \<and> op (GET tok (root @ ''/compare/'' @ expected @ ''...'' @ m)) w'' = (Inr r, wf) \<and> is_dict r
        \<and> check_comparison expected r = Inr ())"
    (is "_ \<longleftrightarrow> ?m")
  proof
    assume ?l
    then show ?m
      unfolding ensure_release_lineage_def bindIO_OK resolve_tag_commit_OK capture_protected_main_OK
        require_main_ancestor_OK io_simps prod.inject sum.inject
      by (elim exE conjE, hypsubst) (intro exI conjI; assumption)
  next
    assume ?m
    then show ?l
      unfolding ensure_release_lineage_def bindIO_OK resolve_tag_commit_OK capture_protected_main_OK
        require_main_ancestor_OK io_simps prod.inject sum.inject
      by (elim exE conjE) (intro exI conjI; (assumption | rule refl))
  qed
  also have "\<dots> \<longleftrightarrow> ?r"
    using check_comparison_OK [of expected] lineage_inputs_OK [of repository tag expected tok] by blast
  finally show ?thesis .
qed

text \<open>
  Nothing is taken from the state of \<open>main\<close> but its protected commit: the
  commit returned is a full SHA, and it is the one \<open>main\<close> was captured at.
\<close>

theorem captured_main_protected:
  "capture_protected_main op root tok w = (Inr m, w') \<longleftrightarrow>
     (\<exists>b. op (GET tok (root @ ''/branches/main'')) w = (Inr b, w') \<and> is_dict b
        \<and> obj_get b ''name'' = JStr ''main'' \<and> obj_get b ''protected'' = JBool True
        \<and> is_dict (obj_get b ''commit'') \<and> obj_get (obj_get b ''commit'') ''sha'' = JStr m \<and> is_commit m)"
  unfolding capture_protected_main_OK main_branch_sha_OK by blast

lemma lineage_handler:
  "(case e of ReleaseLineageError _ \<Rightarrow> retIO 1 | _ \<Rightarrow> raiseIO e) w = (Inr (0 :: int), w') \<longleftrightarrow> False"
  by (cases e) auto

text \<open>
  The command exits with status 0 exactly when the check returned: no
  refusal and no error of the API turns into success.
\<close>

theorem lineage_main_status:
  "lineage_main op env repository tag expected w = (Inr 0, w') \<longleftrightarrow>
     (\<exists>m. ensure_release_lineage op repository tag expected
            (case env ''GH_TOKEN'' of None \<Rightarrow> [] | Some t \<Rightarrow> t) w = (Inr m, w'))"
  by (auto simp: lineage_main_def tryIO_OK bindIO_OK lineage_handler)

end
