(* ===== verification/Release_Probe.thy ===== *)
theory Release_Probe
  imports Release_Absent_Props Py_Regex
begin

text \<open>
  \<^verbatim>\<open>scripts/probe_release_lookup.py\<close>: the preflight creates one owned draft release on an
  existing tag, waits until the look-up sees it, requires the absence guard to refuse
  it, and removes it only while it is still exactly the draft it created. The state is
  the server (a parameter), the receipt file and the record the function fills in; the
  record keeps what was written to it when an exception is raised.
\<close>

section \<open>State\<close>

datatype stage = Initial | InitialAbsence | CreateOwnedDraft | ObserveOwnedDraft | RefuseOwnedDraft | Cleanup

fun stage_rank :: "stage \<Rightarrow> nat" where
  "stage_rank Initial = 0"
| "stage_rank InitialAbsence = 1"
| "stage_rank CreateOwnedDraft = 2"
| "stage_rank ObserveOwnedDraft = 3"
| "stage_rank RefuseOwnedDraft = 4"
| "stage_rank Cleanup = 5"

instantiation stage :: linorder
begin

definition less_eq_stage :: "stage \<Rightarrow> stage \<Rightarrow> bool" where
  "less_eq_stage a b \<longleftrightarrow> stage_rank a \<le> stage_rank b"
definition less_stage :: "stage \<Rightarrow> stage \<Rightarrow> bool" where
  "less_stage a b \<longleftrightarrow> stage_rank a < stage_rank b"

instance
proof
  fix a b :: stage
  assume "a \<le> b" and "b \<le> a"
  then show "a = b" by (cases a; cases b) (simp_all add: less_eq_stage_def)
qed (auto simp: less_eq_stage_def less_stage_def)

end

record receipt =
  repository :: string
  fixture_tag :: string
  tag_ref :: string
  tag_commit :: string
  source_sha :: "string option"
  fixture_id :: "int option"
  owner_nonce :: string
  draft_refused :: bool
  owned_draft_removed :: bool
  tag_unchanged :: bool
  stage :: stage
  lookup_observations :: "json list"
  created_tag :: json
  created_draft :: json
  failure_stage :: "stage option"
  failure_type :: "exn option"
  cleanup_failure :: "exn option"
  outcome :: string

text \<open>The output path: nothing there, a symbolic link, another file (a JSON object
  with another nonce), or a receipt written here.\<close>

datatype out_file = Missing | Link | Other | Saved receipt

record 'w probe =
  server :: 'w
  out :: out_file
  rec :: receipt

section \<open>Definitions\<close>

definition on_server :: "('w, 'a) io \<Rightarrow> ('w probe, 'a) io" where
  "on_server m = (\<lambda>s. case m (server s) of (r, w) \<Rightarrow> (r, s\<lparr>server := w\<rparr>))"

definition set_rec :: "(receipt \<Rightarrow> receipt) \<Rightarrow> ('w probe, unit) io" where
  "set_rec f = (\<lambda>s. (Inr (), s\<lparr>rec := f (rec s)\<rparr>))"

definition get_rec :: "('w probe, receipt) io" where
  "get_rec = (\<lambda>s. (Inr (rec s), s))"

definition ownership_changed :: exn where
  "ownership_changed = ValueError ''Preflight receipt changed ownership''"

definition save :: "bool \<Rightarrow> ('w probe, unit) io" where
  "save initial = (\<lambda>s. case out s of
     Link \<Rightarrow> (Inl ownership_changed, s)
   | Missing \<Rightarrow> if initial then (Inr (), s\<lparr>out := Saved (rec s)\<rparr>) else (Inl OSError, s)
   | Other \<Rightarrow> if initial then (Inl (FileExistsError []), s) else (Inl ownership_changed, s)
   | Saved r \<Rightarrow> if initial then (Inl (FileExistsError []), s)
       else if owner_nonce r \<noteq> owner_nonce (rec s) then (Inl ownership_changed, s)
       else (Inr (), s\<lparr>out := Saved (rec s)\<rparr>))"

text \<open>\<open>api\<close>: an absent object is Python's \<open>None\<close> when \<open>missing\<close> allows a 404; a DELETE has no payload.\<close>

definition api :: "'w opener \<Rightarrow> string \<Rightarrow> string \<Rightarrow> string \<Rightarrow> string \<Rightarrow> json option \<Rightarrow> bool \<Rightarrow> ('w, json) io" where
  "api opener base tok m path value missing =
     tryIO (bindIO (opener \<lparr>url = base @ path, meth = m, token = tok, body = value\<rparr>)
              (\<lambda>payload. retIO (if m \<noteq> ''DELETE'' then payload else JNull)))
       (\<lambda>e. case e of
          HTTPError c \<Rightarrow> if missing \<and> c = 404 then retIO JNull
                         else raiseIO (RuntimeError ''Draft preflight API request failed'')
        | _ \<Rightarrow> raiseIO e)"

text \<open>\<open>api("GET", ref_path).get("object", {}).get("sha") == tag_ref\<close>\<close>

definition ref_is :: "json \<Rightarrow> string \<Rightarrow> bool result" where
  "ref_is payload tagref = bindE (py_get payload ''object'' (JObj [])) (\<lambda>obj.
     bindE (py_get obj ''sha'' JNull) (\<lambda>sha. ret (sha = JStr tagref)))"

definition check_ref :: "'w opener \<Rightarrow> string \<Rightarrow> string \<Rightarrow> string \<Rightarrow> string \<Rightarrow> ('w, bool) io" where
  "check_ref opener base tok tag tagref =
     bindIO (api opener base tok ''GET'' (''/git/ref/tags/'' @ quote tag) None False)
       (\<lambda>payload. liftIO (ref_is payload tagref))"

definition version_rx :: rx where
  "version_rx = seqs [Lit ''v'', Many 1 (Cls is_digit), Lit ''.'', Many 1 (Cls is_digit), Lit ''.'',
     Many 1 (Cls is_digit),
     opt (Seq (Lit ''-'') (Many 1 (Cls (\<lambda>c. is_alnum c \<or> c = CHR ''.'' \<or> c = CHR ''-''))))]"

definition probe_inputs :: "environ \<Rightarrow> string \<Rightarrow> string \<Rightarrow> string \<Rightarrow> string \<Rightarrow> string \<Rightarrow> bool \<Rightarrow> out_file \<Rightarrow> string result" where
  "probe_inputs env repo tag commit tagref tok absolute f =
     bindE (actions_write_context env repo) (\<lambda>_.
       if env ''GITHUB_JOB'' \<noteq> Some ''release-lookup-probe''
       then raise (ValueError ''Draft fixture is restricted to the manual preflight job'')
       else if \<not> fullmatch version_rx tag \<or> \<not> fullmatch commit_rx commit \<or> \<not> fullmatch commit_rx tagref
         \<or> \<not> absolute \<or> f \<noteq> Missing \<or> tok = []
       then raise (ValueError ''Preflight inputs or fresh receipt path are invalid'')
       else bindE (release_url repo tag) (\<lambda>u. ret (before_sub ''/releases/tags/'' u)))"

definition draft_request :: "string \<Rightarrow> string \<Rightarrow> json" where
  "draft_request tag marker = JObj [(''tag_name'', JStr tag), (''target_commitish'', JStr ''main''),
     (''draft'', JBool True), (''prerelease'', JBool True),
     (''name'', JStr ''Temporary release lookup preflight''), (''body'', JStr marker)]"

definition set_stage :: "stage \<Rightarrow> ('w probe, unit) io" where
  "set_stage st = set_rec (\<lambda>r. r\<lparr>stage := st\<rparr>)"

definition create_draft :: "'w opener \<Rightarrow> string \<Rightarrow> string \<Rightarrow> string \<Rightarrow> string \<Rightarrow> ('w probe, int) io" where
  "create_draft opener base tok tag marker =
     bindIO (on_server (api opener base tok ''POST'' ''/releases'' (Some (draft_request tag marker)) False)) (\<lambda>created.
       bindIO (liftIO (py_get created ''id'' JNull)) (\<lambda>identity.
         case identity of
           JInt i \<Rightarrow>
             if i \<le> 0 then raiseIO (ValueError ''Fixture creation did not return an owned release identity'')
             else bindIO (set_rec (\<lambda>r. r\<lparr>fixture_id := Some i\<rparr>)) (\<lambda>_.
               bindIO (save False) (\<lambda>_.
                 bindIO (set_rec (\<lambda>r. r\<lparr>created_tag := obj_get created ''tag_name'',
                                        created_draft := obj_get created ''draft''\<rparr>)) (\<lambda>_. retIO i)))
         | _ \<Rightarrow> raiseIO (ValueError ''Fixture creation did not return an owned release identity'')))"

definition observation :: "json option \<Rightarrow> json" where
  "observation observed = (case observed of None \<Rightarrow> JNull
     | Some r \<Rightarrow> JObj [(''id'', obj_get r ''id''), (''tag_name'', obj_get r ''tag_name''), (''draft'', obj_get r ''draft'')])"

text \<open>The wait: \<open>left\<close> attempts remain; there is no sleep after the last.\<close>

fun observe :: "('w, json option) io \<Rightarrow> ('w, unit) io \<Rightarrow> nat \<Rightarrow> ('w probe, json option) io" where
  "observe lookup sleeper 0 = retIO None"
| "observe lookup sleeper (Suc left) =
     bindIO (on_server lookup) (\<lambda>observed.
       bindIO (set_rec (\<lambda>r. r\<lparr>lookup_observations := lookup_observations r @ [observation observed]\<rparr>)) (\<lambda>_.
         bindIO (save False) (\<lambda>_.
           case observed of Some r \<Rightarrow> retIO (Some r)
           | None \<Rightarrow> if left = 0 then retIO None
               else bindIO (on_server sleeper) (\<lambda>_. observe lookup sleeper left))))"

definition require_observed :: "int \<Rightarrow> json option \<Rightarrow> unit result" where
  "require_observed identity observed = (case observed of
     None \<Rightarrow> raise (ValueError ''Actions lookup did not identify the exact owned draft'')
   | Some r \<Rightarrow> if \<not> py_eq (obj_get r ''id'') (JInt identity) \<or> obj_get r ''draft'' \<noteq> JBool True
       then raise (ValueError ''Actions lookup did not identify the exact owned draft'') else ret ())"

definition require_refusal :: "('w, unit) io \<Rightarrow> ('w probe, unit) io" where
  "require_refusal guard =
     bindIO (tryIO (bindIO (on_server guard) (\<lambda>_. retIO False))
               (\<lambda>e. case e of ReleaseAlreadyExistsError _ \<Rightarrow> retIO True | _ \<Rightarrow> raiseIO e)) (\<lambda>refused.
       if refused then set_rec (\<lambda>r. r\<lparr>draft_refused := True\<rparr>)
       else raiseIO (ValueError ''Actions lookup failed to see its owned draft''))"

definition probe_body :: "('w, json option) io \<Rightarrow> ('w, unit) io \<Rightarrow> ('w, unit) io \<Rightarrow> 'w opener \<Rightarrow>
    string \<Rightarrow> string \<Rightarrow> string \<Rightarrow> string \<Rightarrow> ('w probe, unit) io" where
  "probe_body lookup guard sleeper opener base tok tag marker =
     bindIO (set_stage InitialAbsence) (\<lambda>_. bindIO (on_server guard) (\<lambda>_.
     bindIO (set_stage CreateOwnedDraft) (\<lambda>_. bindIO (create_draft opener base tok tag marker) (\<lambda>identity.
     bindIO (set_stage ObserveOwnedDraft) (\<lambda>_. bindIO (observe lookup sleeper 10) (\<lambda>observed.
     bindIO (liftIO (require_observed identity observed)) (\<lambda>_.
     bindIO (set_stage RefuseOwnedDraft) (\<lambda>_. require_refusal guard))))))))"

text \<open>The draft still is exactly the one created: what licenses its removal.\<close>

definition owned_draft :: "int \<Rightarrow> string \<Rightarrow> string \<Rightarrow> json \<Rightarrow> bool" where
  "owned_draft i tag marker live = (
     py_eq (obj_get live ''id'') (JInt i) \<and> obj_get live ''tag_name'' = JStr tag
     \<and> obj_get live ''draft'' = JBool True \<and> obj_get live ''assets'' = JArr []
     \<and> obj_get live ''body'' = JStr marker \<and> obj_get live ''target_commitish'' = JStr ''main'')"

definition release_path :: "int \<Rightarrow> string" where
  "release_path i = ''/releases/'' @ int_str i"

definition remove_live :: "'w opener \<Rightarrow> string \<Rightarrow> string \<Rightarrow> string \<Rightarrow> string \<Rightarrow> int \<Rightarrow> json \<Rightarrow> ('w, unit) io" where
  "remove_live opener base tok tag marker i live =
     (if live = JNull then retIO ()
      else if \<not> is_dict live then raiseIO AttributeError
      else if \<not> owned_draft i tag marker live
      then raiseIO (ValueError ''Draft changed ownership, state or contents; preserving it'')
      else bindIO (api opener base tok ''DELETE'' (release_path i) None False) (\<lambda>_. retIO ()))"

definition remove_draft :: "'w opener \<Rightarrow> string \<Rightarrow> string \<Rightarrow> string \<Rightarrow> string \<Rightarrow> int \<Rightarrow> ('w, unit) io" where
  "remove_draft opener base tok tag marker i =
     bindIO (api opener base tok ''GET'' (release_path i) None True) (\<lambda>live.
     bindIO (remove_live opener base tok tag marker i live) (\<lambda>_.
     bindIO (api opener base tok ''GET'' (release_path i) None True) (\<lambda>left.
       if left \<noteq> JNull then raiseIO (ValueError ''Owned fixture draft remains after cleanup'')
       else retIO ())))"

definition cleanup :: "'w opener \<Rightarrow> string \<Rightarrow> string \<Rightarrow> string \<Rightarrow> string \<Rightarrow> string \<Rightarrow> ('w probe, unit) io" where
  "cleanup opener base tok tag tagref marker =
     bindIO get_rec (\<lambda>r.
     bindIO (case fixture_id r of None \<Rightarrow> retIO ()
             | Some i \<Rightarrow> bindIO (on_server (remove_draft opener base tok tag marker i)) (\<lambda>_.
                 set_rec (\<lambda>r. r\<lparr>owned_draft_removed := True\<rparr>))) (\<lambda>_.
     bindIO (on_server (check_ref opener base tok tag tagref)) (\<lambda>same.
     bindIO (set_rec (\<lambda>r. r\<lparr>tag_unchanged := same\<rparr>)) (\<lambda>_.
       if \<not> same then raiseIO (ValueError ''Existing fixture tag changed during preflight'') else retIO ()))))"

text \<open>The last \<open>finally\<close>: the record is completed and written whatever happened.\<close>

definition finish :: "exn option \<Rightarrow> ('w probe, unit) io" where
  "finish failure =
     bindIO (set_rec (\<lambda>r. let r' = (case failure of
                Some e \<Rightarrow> if failure_stage r = None then r\<lparr>failure_stage := Some Cleanup, failure_type := Some e\<rparr> else r
              | None \<Rightarrow> r)
              in r'\<lparr>outcome := (case failure of None \<Rightarrow> ''passed'' | Some _ \<Rightarrow> ''failed'')\<rparr>))
       (\<lambda>_. save False)"

definition attempt :: "('w probe, unit) io \<Rightarrow> ('w probe, exn option) io" where
  "attempt m = tryIO (bindIO m (\<lambda>_. retIO None)) (\<lambda>e. retIO (Some e))"

definition fresh_receipt :: "environ \<Rightarrow> string \<Rightarrow> string \<Rightarrow> string \<Rightarrow> string \<Rightarrow> string \<Rightarrow> receipt" where
  "fresh_receipt env repo tag commit tagref marker =
     \<lparr>repository = repo, fixture_tag = tag, tag_ref = tagref, tag_commit = commit,
      source_sha = env ''GITHUB_SHA'', fixture_id = None, owner_nonce = marker, draft_refused = False,
      owned_draft_removed = False, tag_unchanged = False, stage = Initial, lookup_observations = [],
      created_tag = JNull, created_draft = JNull, failure_stage = None, failure_type = None,
      cleanup_failure = None, outcome = []\<rparr>"

definition note_failure :: "exn option \<Rightarrow> ('w probe, unit) io" where
  "note_failure failure = (case failure of None \<Rightarrow> retIO ()
     | Some e \<Rightarrow> set_rec (\<lambda>r. r\<lparr>failure_stage := Some (stage r), failure_type := Some e\<rparr>))"

definition probe_failed :: exn where
  "probe_failed = RuntimeError ''Release lookup preflight failed; inspect the owned receipt''"

definition conclude :: "exn option \<Rightarrow> exn option \<Rightarrow> ('w probe, receipt) io" where
  "conclude failure cleanup_failed =
     bindIO (case cleanup_failed of None \<Rightarrow> retIO ()
             | Some e \<Rightarrow> set_rec (\<lambda>r. r\<lparr>cleanup_failure := Some e\<rparr>)) (\<lambda>_.
     let failed = (case cleanup_failed of Some e \<Rightarrow> Some e | None \<Rightarrow> failure)
     in bindIO (finish failed) (\<lambda>_. if failed \<noteq> None then raiseIO probe_failed else get_rec))"

definition run_probe :: "('w probe, unit) io \<Rightarrow> ('w probe, unit) io \<Rightarrow> ('w probe, receipt) io" where
  "run_probe main_part cleanup_part =
     bindIO (attempt main_part) (\<lambda>failure.
     bindIO (note_failure failure) (\<lambda>_.
     bindIO (attempt cleanup_part) (conclude failure)))"

definition exercise :: "'w opener \<Rightarrow> ('w, unit) io \<Rightarrow> environ \<Rightarrow> string \<Rightarrow> string \<Rightarrow> string \<Rightarrow> string \<Rightarrow>
    string \<Rightarrow> bool \<Rightarrow> string \<Rightarrow> ('w probe, receipt) io" where
  "exercise opener sleeper env repo tag commit tagref tok absolute marker = (\<lambda>s0.
     bindIO (liftIO (probe_inputs env repo tag commit tagref tok absolute (out s0))) (\<lambda>base.
     bindIO (set_rec (\<lambda>_. fresh_receipt env repo tag commit tagref marker)) (\<lambda>_.
     bindIO (on_server (check_ref opener base tok tag tagref)) (\<lambda>same.
       if \<not> same then raiseIO (ValueError ''Fixture tag differs from the frozen existing ref'')
       else bindIO (set_rec (\<lambda>r. r\<lparr>outcome := ''running''\<rparr>)) (\<lambda>_. bindIO (save True) (\<lambda>_.
         run_probe
           (probe_body (load_release opener env repo tag tok True)
              (ensure_release_absent opener env repo tag tok True) sleeper opener base tok tag marker)
           (cleanup opener base tok tag tagref marker)))))) s0)"

text \<open>
  \<open>main\<close>: Git is read only; \<open>rev_parse\<close> and \<open>is_ancestor\<close> stand for its two commands, which raise
  \<open>CalledProcessError\<close> when Git fails.
\<close>

fun probe_handled :: "exn \<Rightarrow> bool" where
  "probe_handled (KeyError _) = True"
| "probe_handled (CalledProcessError _) = True"
| "probe_handled TimeoutExpired = True"
| "probe_handled e = (is_OSError e \<or> is_RuntimeError e \<or> is_ValueError e)"

definition env_required :: "environ \<Rightarrow> string \<Rightarrow> string result" where
  "env_required env k = (case env k of None \<Rightarrow> raise (KeyError k) | Some v \<Rightarrow> ret v)"

definition probe_main :: "(string \<Rightarrow> string result) \<Rightarrow> (string \<Rightarrow> unit result) \<Rightarrow> 'w opener \<Rightarrow> ('w, unit) io \<Rightarrow>
    environ \<Rightarrow> string \<Rightarrow> bool \<Rightarrow> string \<Rightarrow> ('w probe, nat) io" where
  "probe_main rev_parse is_ancestor opener sleeper env fixture absolute marker = (let
       tag = ''refs/tags/'' @ fixture
     in tryIO
       (bindIO (liftIO (rev_parse tag)) (\<lambda>tagref.
        bindIO (liftIO (rev_parse (tag @ ''^{commit}''))) (\<lambda>commit.
        bindIO (liftIO (is_ancestor (strip commit))) (\<lambda>_.
        bindIO (liftIO (env_required env ''GITHUB_REPOSITORY'')) (\<lambda>repo.
        bindIO (exercise opener sleeper env repo fixture (strip commit) (strip tagref)
                  (env_get env ''GH_TOKEN'' []) absolute marker) (\<lambda>_. retIO 0))))))
       (\<lambda>e. if probe_handled e then retIO 1 else raiseIO e))"

end
