(* ===== verification/Release_Probe_Props.thy ===== *)
theory Release_Probe_Props
  imports Release_Probe
begin

text \<open>
  What the release-lookup preflight guarantees: its receipt tells what happened on every
  way out, and it deletes nothing but the draft it has just recognised as its own.
\<close>

section \<open>The receipt\<close>

text \<open>Once the receipt exists, it stays this run's; a save then always succeeds.\<close>

definition owned :: "string \<Rightarrow> 'w probe \<Rightarrow> bool" where
  "owned marker s \<longleftrightarrow> owner_nonce (rec s) = marker \<and> (\<exists>r. out s = Saved r \<and> owner_nonce r = marker)"

lemma owned_upd [simp]:
  "owned marker (s\<lparr>server := w\<rparr>) = owned marker s"
  "owned marker (s\<lparr>out := Saved (rec s)\<rparr>) = (owner_nonce (rec s) = marker)"
  "owner_nonce r = owner_nonce (rec s) \<Longrightarrow> owned marker (s\<lparr>rec := r\<rparr>) = owned marker s"
  by (auto simp: owned_def)

lemma owned_nonce: "owned marker s \<Longrightarrow> owner_nonce (rec s) = marker"
  by (simp add: owned_def)

lemma wp_save [wp_rules]:
  "owned marker s \<Longrightarrow> Q () (s\<lparr>out := Saved (rec s)\<rparr>) \<Longrightarrow> wp (save False) Q E s"
  by (auto simp: owned_def save_def wp_def)

lemma wp_on_server [wp_rules]:
  "(\<And>w x. Q x (s\<lparr>server := w\<rparr>)) \<Longrightarrow> (\<And>w. E (s\<lparr>server := w\<rparr>)) \<Longrightarrow> wp (on_server m) Q E s"
  by (auto simp: on_server_def wp_def split: prod.split sum.split)

lemma wp_rec [simp]:
  "wp (set_rec f) Q E s = Q () (s\<lparr>rec := f (rec s)\<rparr>)"
  "wp (set_stage st) Q E s = Q () (s\<lparr>rec := (rec s)\<lparr>stage := st\<rparr>\<rparr>)"
  "wp get_rec R E s = R (rec s) s"
  by (simp_all add: set_stage_def set_rec_def get_rec_def wp_def)

section \<open>The fixture phase\<close>

text \<open>Before the cleanup nothing has failed yet, and at most \<open>n\<close> observations were made.\<close>

definition running :: "string \<Rightarrow> nat \<Rightarrow> 'w probe \<Rightarrow> bool" where
  "running marker n s \<longleftrightarrow> owned marker s \<and> failure_stage (rec s) = None \<and> length (lookup_observations (rec s)) \<le> n"

lemma running_upd [simp]:
  "running marker n (s\<lparr>server := w\<rparr>) = running marker n s"
  "running marker n (s\<lparr>out := Saved (rec s)\<rparr>) =
     (owner_nonce (rec s) = marker \<and> failure_stage (rec s) = None \<and> length (lookup_observations (rec s)) \<le> n)"
  by (simp_all add: running_def)

lemma running_mono: "running marker m s \<Longrightarrow> m \<le> n \<Longrightarrow> running marker n s"
  by (simp add: running_def)

lemma running_owned: "running marker n s \<Longrightarrow> owned marker s"
  by (simp add: running_def)

lemma create_draft_wp:
  assumes "running marker 0 s"
  shows "wp (create_draft opener base tok tag marker)
     (\<lambda>i s. running marker 0 s \<and> fixture_id (rec s) = Some i) (running marker 0) s"
  unfolding create_draft_def
  using assms
  by (auto simp: running_def owned_def split: json.split
      intro!: wp_on_server wp_liftIO wp_if wp_save [where marker = marker])

lemma observe_wp:
  assumes "running marker n s" and "fixture_id (rec s) = i"
  shows "wp (observe lookup sleeper k) (\<lambda>_ s. running marker (n + k) s \<and> fixture_id (rec s) = i)
     (running marker (n + k)) s"
  using assms
proof (induction k arbitrary: n s)
  case 0
  then show ?case by simp
next
  case (Suc k)
  show ?case
    using Suc.prems Suc.IH [of "Suc n"]
    by (auto simp: running_def owned_def split: option.split intro!: wp_on_server wp_save [where marker = marker] wp_if)
qed

lemma require_refusal_wp:
  assumes "running marker n s" and "fixture_id (rec s) = i"
  shows "wp (require_refusal guard) (\<lambda>_ s. running marker n s \<and> fixture_id (rec s) = i \<and> draft_refused (rec s))
     (running marker n) s"
proof -
  have h: "wp (case e of ReleaseAlreadyExistsError x \<Rightarrow> retIO True | _ \<Rightarrow> raiseIO e) Q E w"
    if "Q True w" and "E w" for e Q E and w :: "'a probe"
    using that by (cases e) auto
  show ?thesis
    unfolding require_refusal_def wp_bindIO
    by (rule wp_tryIO [where E = "\<lambda>s. running marker n s \<and> fixture_id (rec s) = i"])
       (use assms in \<open>auto intro!: wp_on_server wp_if h simp: running_def\<close>)
qed

lemma probe_body_wp:
  assumes "running marker 0 s"
  shows "wp (probe_body lookup guard sleeper opener base tok tag marker)
     (\<lambda>_ s. running marker 10 s \<and> draft_refused (rec s) \<and> (\<exists>i. fixture_id (rec s) = Some i)) (running marker 10) s"
proof -
  let ?Q = "\<lambda>_ s. running marker 10 s \<and> draft_refused (rec s) \<and> (\<exists>i. fixture_id (rec s) = Some i)"
  have stage: "running marker n (s\<lparr>rec := rec s\<lparr>stage := st\<rparr>\<rparr>) = running marker n s"
    "running marker n (s\<lparr>server := w, rec := rec s\<lparr>stage := st\<rparr>\<rparr>) = running marker n s"
    for n st w and s :: "'a probe"
    by (simp_all add: running_def owned_def)
  have last: "wp (require_refusal guard) ?Q (running marker 10) s"
    if "running marker 10 s" and "fixture_id (rec s) = Some i" for i and s :: "'a probe"
    by (rule wp_conseq [OF require_refusal_wp [OF that]]) auto
  have observed: "wp (bindIO (observe lookup sleeper 10) (\<lambda>observed. bindIO (liftIO (require_observed i observed)) (\<lambda>_.
      bindIO (set_stage RefuseOwnedDraft) (\<lambda>_. require_refusal guard)))) ?Q (running marker 10) s"
    if "running marker 0 s" and "fixture_id (rec s) = Some i" for i and s :: "'a probe"
    unfolding wp_bindIO
    by (rule wp_conseq [OF observe_wp [OF that]])
       (auto simp: stage intro!: wp_liftIO last)
  have created: "wp (create_draft opener base tok tag marker) (\<lambda>i. wp (set_stage ObserveOwnedDraft)
       (\<lambda>_. wp (bindIO (observe lookup sleeper 10) (\<lambda>observed. bindIO (liftIO (require_observed i observed)) (\<lambda>_.
      bindIO (set_stage RefuseOwnedDraft) (\<lambda>_. require_refusal guard)))) ?Q (running marker 10)) (running marker 10))
       (running marker 10) s" if "running marker 0 s" for s :: "'a probe"
    by (rule wp_conseq [OF create_draft_wp [OF that]])
       (auto simp: stage simp del: wp_bindIO intro!: observed elim: running_mono)
  show ?thesis
    unfolding probe_body_def wp_bindIO wp_rec
    by (rule wp_on_server)
       (use assms in \<open>auto simp: stage elim: running_mono intro!: created [unfolded wp_bindIO wp_rec]\<close>)
qed

section \<open>Cleanup and the way out\<close>

lemma wp_attempt:
  assumes "wp m (\<lambda>_. Q None) (\<lambda>s. \<forall>e. Q (Some e) s) s"
  shows "wp (attempt m) Q E s"
  unfolding attempt_def
  by (rule wp_tryIO [where E = "\<lambda>s. \<forall>e. Q (Some e) s"]) (use assms in auto)

lemma cleanup_wp:
  assumes "owned marker s" and "C (rec s)"
    and "\<And>r b. C r \<Longrightarrow> C (r\<lparr>owned_draft_removed := b\<rparr>)" and "\<And>r b. C r \<Longrightarrow> C (r\<lparr>tag_unchanged := b\<rparr>)"
    and "fixture_id (rec s) = None \<Longrightarrow> D"
  shows "wp (cleanup opener base tok tag tagref marker)
     (\<lambda>_ s. owned marker s \<and> C (rec s) \<and> tag_unchanged (rec s) \<and> (owned_draft_removed (rec s) \<or> D))
     (\<lambda>s. owned marker s \<and> C (rec s)) s"
  unfolding cleanup_def
  using assms
  by (auto intro!: wp_on_server wp_if split: option.split)

text \<open>What a passing receipt says, and what a failing one says.\<close>

definition passed :: "receipt \<Rightarrow> bool" where
  "passed r = (outcome r = ''passed'' \<and> failure_stage r = None \<and> draft_refused r \<and> owned_draft_removed r
     \<and> tag_unchanged r \<and> length (lookup_observations r) \<le> 10)"

definition failed :: "receipt \<Rightarrow> bool" where
  "failed r = (outcome r = ''failed'' \<and> failure_stage r \<noteq> None \<and> failure_type r \<noteq> None)"

lemma conclude_failed:
  assumes "owned marker s" and "failure \<noteq> None \<or> cleanup_failed \<noteq> None"
    and "failure_stage (rec s) = None \<or> failure_type (rec s) \<noteq> None"
  shows "wp (conclude failure cleanup_failed) Q (\<lambda>s. \<exists>r. out s = Saved r \<and> owner_nonce r = marker \<and> failed r) s"
  using assms unfolding conclude_def finish_def
  by (cases cleanup_failed; cases failure; cases "failure_stage (rec s)")
     (auto simp: Let_def failed_def owned_nonce intro!: wp_save [where marker = marker])

lemma conclude_passed:
  assumes "owned marker s" and "failure_stage (rec s) = None" and "draft_refused (rec s)"
    and "owned_draft_removed (rec s)" and "tag_unchanged (rec s)" and "length (lookup_observations (rec s)) \<le> 10"
  shows "wp (conclude None None) (\<lambda>r s. out s = Saved r \<and> owner_nonce r = marker \<and> passed r) E s"
  using assms unfolding conclude_def finish_def
  by (auto simp: passed_def owned_nonce intro!: wp_save [where marker = marker])

lemma run_probe_wp:
  assumes main: "wp m (\<lambda>_ s. running marker 10 s \<and> draft_refused (rec s) \<and> (\<exists>i. fixture_id (rec s) = Some i))
                 (running marker 10) s"
  shows "wp (run_probe m (cleanup opener base tok tag tagref marker))
     (\<lambda>r s. out s = Saved r \<and> owner_nonce r = marker \<and> passed r)
     (\<lambda>s. \<exists>r. out s = Saved r \<and> owner_nonce r = marker \<and> failed r) s"
proof -
  let ?Q = "\<lambda>r s. out s = Saved r \<and> owner_nonce r = marker \<and> passed r"
  let ?E = "\<lambda>s. \<exists>r. out s = Saved r \<and> owner_nonce r = marker \<and> failed r"
  let ?clean = "cleanup opener base tok tag tagref marker"
  have good: "wp (bindIO (attempt ?clean) (conclude None)) ?Q ?E s"
    if "running marker 10 s" "draft_refused (rec s)" "fixture_id (rec s) = Some i" for i and s :: "'a probe"
    unfolding wp_bindIO
    by (rule wp_attempt, rule wp_conseq [OF cleanup_wp [where D = False and marker = marker and
          C = "\<lambda>r. failure_stage r = None \<and> draft_refused r \<and> length (lookup_observations r) \<le> 10"]])
       (use that in \<open>auto simp: running_def intro!: conclude_passed conclude_failed [where cleanup_failed = "Some e" for e]\<close>)
  have bad: "wp (bindIO (attempt ?clean) (conclude (Some e))) ?Q ?E s"
    if "owned marker s" "failure_type (rec s) \<noteq> None" for e and s :: "'a probe"
    unfolding wp_bindIO
    by (rule wp_attempt, rule wp_conseq [OF cleanup_wp [where D = True and marker = marker and
          C = "\<lambda>r. failure_type r \<noteq> None"]])
       (use that in \<open>auto intro!: conclude_failed\<close>)
  have main': "wp m (\<lambda>_ s. running marker 10 s \<and> draft_refused (rec s) \<and> (\<exists>i. fixture_id (rec s) = Some i))
     (\<lambda>s. \<forall>e. owned marker s) s"
    by (rule wp_conseq [OF main]) (auto simp: running_def)
  show ?thesis
    unfolding run_probe_def wp_bindIO [of "attempt m"]
    by (rule wp_attempt, rule wp_conseq [OF main'])
       (auto simp: note_failure_def simp del: wp_bindIO intro!: good bad iffD2 [OF wp_bindIO [of "set_rec f" for f]])
qed

section \<open>Deletions\<close>

text \<open>
  A log, newest exchange first, in which every DELETE directly follows a GET of the same
  release whose answer was the draft with this tag and this run's marker.
\<close>

fun licensed :: "string \<Rightarrow> string \<Rightarrow> exchange list \<Rightarrow> bool" where
  "licensed tag marker [] = True"
| "licensed tag marker ((req, r) # l) =
     ((if meth req = ''DELETE''
       then (case l of
               (g, Inr live) # _ \<Rightarrow> meth g = ''GET'' \<and> url g = url req
                 \<and> (\<exists>base i. url req = base @ release_path i \<and> owned_draft i tag marker live)
             | _ \<Rightarrow> False)
       else True) \<and> licensed tag marker l)"

abbreviation log_ok :: "string \<Rightarrow> string \<Rightarrow> exchange list \<times> 'w \<Rightarrow> bool" where
  "log_ok tag marker \<equiv> (\<lambda>w. licensed tag marker (fst w))"

lemma keeps_logged: "meth req \<noteq> ''DELETE'' \<Longrightarrow> keeps (log_ok tag marker) (logged op req)"
  by (auto simp: keeps_def logged_def split: prod.splits)

lemma reads_logged: "reads_keep (log_ok tag marker) (logged op)"
  by (simp add: reads_keep_def keeps_logged)

lemma keeps_unlogged: "keeps (log_ok tag marker) (unlogged m)"
  by (auto simp: keeps_def unlogged_def split: prod.splits)

lemma keeps_on_server: "keeps I m \<Longrightarrow> keeps (\<lambda>s. I (server s)) (on_server m)"
  by (fastforce simp: keeps_def on_server_def split: prod.splits)

lemma keeps_rec: "keeps (\<lambda>s. I (server s)) (set_rec f)" "keeps (\<lambda>s. I (server s)) get_rec"
    "keeps (\<lambda>s. I (server s)) (save b)" "keeps (\<lambda>s. I (server s)) (set_stage st)"
  by (auto simp: keeps_def set_rec_def get_rec_def save_def set_stage_def split: out_file.split)

lemma keeps_handler:
  "keeps I (case e of HTTPError c \<Rightarrow> if m \<and> c = 404 then retIO x else raiseIO e' | _ \<Rightarrow> raiseIO e)"
  by (cases e) auto

lemma api_keeps:
  assumes "m \<noteq> ''DELETE''"
  shows "keeps (log_ok tag marker) (api (logged op) base tok m path value missing)"
  unfolding api_def by (intro keeps_tryIO keeps_bindIO keeps_logged keeps_handler keeps_basic) (simp add: assms)

lemma api_GET_log:
  assumes "api (logged op) base tok ''GET'' path None True (l, w) = (Inr live, lw)" and "live \<noteq> JNull"
  shows "\<exists>w'. lw = ((\<lparr>url = base @ path, meth = ''GET'', token = tok, body = None\<rparr>, Inr live) # l, w')"
proof -
  have h: "(case e of HTTPError c \<Rightarrow> if True \<and> c = 404 then retIO JNull else raiseIO e' | _ \<Rightarrow> raiseIO e) w = (Inr live, lw)
      \<longleftrightarrow> e = HTTPError 404 \<and> live = JNull \<and> lw = w" for e e' and w :: "exchange list \<times> 'a"
    by (cases e) auto
  from assms show ?thesis
    by (auto simp: api_def tryIO_OK bindIO_OK h logged_simp)
qed

lemma api_DELETE_log:
  "snd (api (logged op) base tok ''DELETE'' path None False (l, w)) =
     ((\<lparr>url = base @ path, meth = ''DELETE'', token = tok, body = None\<rparr>,
       fst (op \<lparr>url = base @ path, meth = ''DELETE'', token = tok, body = None\<rparr> w)) # l,
      snd (op \<lparr>url = base @ path, meth = ''DELETE'', token = tok, body = None\<rparr> w))"
proof -
  let ?req = "\<lparr>url = base @ path, meth = ''DELETE'', token = tok, body = None\<rparr>"
  have h: "snd ((case e of HTTPError c \<Rightarrow> if False \<and> c = 404 then retIO JNull else raiseIO e' | _ \<Rightarrow> raiseIO e) w) = w"
    for e e' and w :: "exchange list \<times> 'a"
    by (cases e) auto
  show ?thesis
    by (cases "fst (op ?req w)") (simp_all add: api_def tryIO_def bindIO_def logged_simp h)
qed

lemma snd_bind_ret: "snd (bindIO m (\<lambda>_. retIO ()) w) = snd (m w)"
  by (cases "m w"; cases "fst (m w)") (simp_all add: bindIO_def)

lemma remove_draft_keeps: "keeps (log_ok tag marker) (remove_draft (logged op) base tok tag marker i)"
proof -
  let ?get = "api (logged op) base tok ''GET'' (release_path i) None True"
  have last: "keeps (log_ok tag marker) (bindIO ?get (\<lambda>left. if left \<noteq> JNull
      then raiseIO (ValueError ''Owned fixture draft remains after cleanup'') else retIO ()))"
    by (intro keeps_bindIO api_keeps keeps_if keeps_basic) simp
  have mid: "keeps (log_ok tag marker) (bindIO ?get (remove_live (logged op) base tok tag marker i))"
    unfolding keeps_def
  proof (intro allI impI)
    fix lw :: "exchange list \<times> 'a"
    assume ok: "log_ok tag marker lw"
    obtain l w where lw: "lw = (l, w)" by (cases lw)
    obtain r lw' where get: "?get lw = (r, lw')" by (cases "?get lw")
    have ok': "log_ok tag marker lw'"
      using api_keeps [of "''GET''" tag marker op base tok] ok get by (auto dest: keepsD)
    show "log_ok tag marker (snd (bindIO ?get (remove_live (logged op) base tok tag marker i) lw))"
    proof (cases r)
      case (Inl e)
      with get ok' show ?thesis by (simp add: bindIO_def)
    next
      case (Inr live)
      have step: "bindIO ?get (remove_live (logged op) base tok tag marker i) lw
          = remove_live (logged op) base tok tag marker i live lw'"
        using get Inr by (simp add: bindIO_def)
      show ?thesis
      proof (cases "live \<noteq> JNull \<and> is_dict live \<and> owned_draft i tag marker live")
        case True
        with api_GET_log [OF get [unfolded Inr lw]] obtain w' where lw': "lw' =
            ((\<lparr>url = base @ release_path i, meth = ''GET'', token = tok, body = None\<rparr>, Inr live) # l, w')"
          by blast
        from True have "snd (remove_live (logged op) base tok tag marker i live lw')
            = snd (api (logged op) base tok ''DELETE'' (release_path i) None False lw')"
          by (simp add: remove_live_def snd_bind_ret del: json_tests)
        with True ok' show ?thesis
          unfolding step lw' by (auto simp: api_DELETE_log)
      next
        case False
        then have "snd (remove_live (logged op) base tok tag marker i live lw') = lw'"
          by (auto simp: remove_live_def simp del: json_tests)
        with ok' show ?thesis by (simp add: step)
      qed
    qed
  qed
  have "keeps (log_ok tag marker) (bindIO (bindIO ?get (remove_live (logged op) base tok tag marker i))
      (\<lambda>_. bindIO ?get (\<lambda>left. if left \<noteq> JNull
        then raiseIO (ValueError ''Owned fixture draft remains after cleanup'') else retIO ())))"
    by (intro keeps_bindIO mid last)
  then show ?thesis by (simp only: remove_draft_def bindIO_assoc)
qed

lemmas probe_keeps_rules = keeps_bindIO keeps_tryIO keeps_basic keeps_if keeps_rec keeps_on_server keeps_unlogged

lemma check_ref_keeps: "keeps (log_ok tag marker) (check_ref (logged op) base tok t r)"
  unfolding check_ref_def by (intro probe_keeps_rules api_keeps) simp

lemma create_draft_keeps:
  "keeps (\<lambda>s. log_ok tag marker (server s)) (create_draft (logged op) base tok tag marker)"
proof -
  have h: "keeps I (case j of JInt i \<Rightarrow> f i | _ \<Rightarrow> raiseIO e)" if "\<And>i. keeps I (f i)" for I f e and j :: json
    using that by (cases j) auto
  show ?thesis
    unfolding create_draft_def by (intro probe_keeps_rules api_keeps h) simp
qed

lemma observe_keeps:
  assumes "keeps I lookup" and "keeps I sleeper"
  shows "keeps (\<lambda>s. I (server s)) (observe lookup sleeper n)"
proof (induction n)
  case (Suc n)
  have h: "keeps J (case x of Some r \<Rightarrow> f r | None \<Rightarrow> m)" if "\<And>r. keeps J (f r)" "keeps J m" for J f m and x :: "json option"
    using that by (cases x) auto
  show ?case unfolding observe.simps by (intro probe_keeps_rules h assms Suc)
qed auto

lemma require_refusal_keeps: "keeps I guard \<Longrightarrow> keeps (\<lambda>s. I (server s)) (require_refusal guard)"
proof -
  assume g: "keeps I guard"
  have h: "keeps J (case e of ReleaseAlreadyExistsError x \<Rightarrow> retIO True | _ \<Rightarrow> raiseIO e)" for J e
    by (cases e) auto
  show ?thesis unfolding require_refusal_def by (intro probe_keeps_rules h g)
qed

lemma cleanup_keeps:
  "keeps (\<lambda>s. log_ok tag marker (server s)) (cleanup (logged op) base tok tag tagref marker)"
proof -
  have h: "keeps J (case x of Some r \<Rightarrow> f r | None \<Rightarrow> m)" if "\<And>r. keeps J (f r)" "keeps J m" for J f m and x :: "int option"
    using that by (cases x) auto
  show ?thesis
    unfolding cleanup_def by (intro probe_keeps_rules h remove_draft_keeps check_ref_keeps)
qed

lemma run_probe_keeps: "keeps I m \<Longrightarrow> keeps I c \<Longrightarrow> (\<And>f. keeps I (set_rec f)) \<Longrightarrow> keeps I (save False)
    \<Longrightarrow> keeps I get_rec \<Longrightarrow> keeps I (run_probe m c)"
proof -
  assume a: "keeps I m" "keeps I c" "\<And>f. keeps I (set_rec f)" "keeps I (save False)" "keeps I get_rec"
  have "keeps I (conclude x y)" for x y
    unfolding conclude_def finish_def Let_def
    by (intro keeps_bindIO a keeps_if keeps_basic) (use a in \<open>auto split: option.split\<close>)
  moreover have "keeps I (note_failure x)" for x
    using a by (auto simp: note_failure_def split: option.split)
  ultimately show ?thesis
    unfolding run_probe_def attempt_def by (intro keeps_bindIO keeps_tryIO a keeps_basic)
qed

lemma exercise_keeps:
  "keeps (\<lambda>s. log_ok tag marker (server s))
     (exercise (logged op) (unlogged sleeper) env repo tag commit tagref tok absolute marker)"
proof -
  let ?lookup = "load_release (logged op) env repo tag tok True"
  have look: "keeps (log_ok tag marker) ?lookup"
    by (rule load_release_keeps [OF reads_logged])
  have guard: "keeps (log_ok tag marker) (ensure_release_absent (logged op) env repo tag tok True)"
    unfolding ensure_release_absent_guard
    using rl.guard_keeps [where op = "logged op" and I = "log_ok tag marker"] reads_logged [of tag marker op]
    by (simp add: keeps_def)
  have "keeps (\<lambda>s. log_ok tag marker (server s))
      (probe_body ?lookup (ensure_release_absent (logged op) env repo tag tok True) (unlogged sleeper) (logged op) base tok tag marker)"
    for base
    unfolding probe_body_def
    by (intro probe_keeps_rules create_draft_keeps observe_keeps require_refusal_keeps look guard)
  then have run: "keeps (\<lambda>s. log_ok tag marker (server s)) (run_probe
      (probe_body ?lookup (ensure_release_absent (logged op) env repo tag tok True) (unlogged sleeper) (logged op) base tok tag marker)
      (cleanup (logged op) base tok tag tagref marker))" for base
    by (intro run_probe_keeps cleanup_keeps keeps_rec)
  have "keeps (\<lambda>s. log_ok tag marker (server s)) (bindIO (liftIO r) (\<lambda>base.
     bindIO (set_rec (\<lambda>_. fresh_receipt env repo tag commit tagref marker)) (\<lambda>_.
     bindIO (on_server (check_ref (logged op) base tok tag tagref)) (\<lambda>same.
       if \<not> same then raiseIO (ValueError ''Fixture tag differs from the frozen existing ref'')
       else bindIO (set_rec (\<lambda>r. r\<lparr>outcome := ''running''\<rparr>)) (\<lambda>_. bindIO (save True) (\<lambda>_.
         run_probe (probe_body ?lookup (ensure_release_absent (logged op) env repo tag tok True)
              (unlogged sleeper) (logged op) base tok tag marker)
           (cleanup (logged op) base tok tag tagref marker)))))))" for r
    by (intro probe_keeps_rules run check_ref_keeps)
  then show ?thesis by (simp add: exercise_def keeps_def)
qed

lemma probe_inputs_OK: "probe_inputs env repo tag commit tagref tok absolute f = Inr base \<Longrightarrow> f = Missing"
  by (auto simp: probe_inputs_def split: if_splits)

lemma wp_save_initial: "out s = Missing \<Longrightarrow> Q () (s\<lparr>out := Saved (rec s)\<rparr>) \<Longrightarrow> wp (save True) Q E s"
  by (simp add: save_def wp_def)

lemma running_fresh:
  "owner_nonce (rec s) = marker \<Longrightarrow> out s = Saved (rec s) \<Longrightarrow> failure_stage (rec s) = None
    \<Longrightarrow> lookup_observations (rec s) = [] \<Longrightarrow> running marker 0 s"
  by (simp add: running_def owned_def)

lemma exercise_wp:
  "wp (exercise opener sleeper env repo tag commit tagref tok absolute marker)
     (\<lambda>r s. out s0 = Missing \<and> out s = Saved r \<and> owner_nonce r = marker \<and> passed r)
     (\<lambda>s. out s = out s0 \<or> (\<exists>r. out s0 = Missing \<and> out s = Saved r \<and> owner_nonce r = marker \<and> failed r)) s0"
proof -
  let ?Q = "\<lambda>r s. out s0 = Missing \<and> out s = Saved r \<and> owner_nonce r = marker \<and> passed r"
  let ?E = "\<lambda>s. out s = out s0 \<or> (\<exists>r. out s0 = Missing \<and> out s = Saved r \<and> owner_nonce r = marker \<and> failed r)"
  have run: "wp (run_probe (probe_body lookup guard sleeper opener base tok tag marker)
      (cleanup opener base tok tag tagref marker))
      (\<lambda>r s. out s = Saved r \<and> owner_nonce r = marker \<and> passed r)
      (\<lambda>s. out s = Missing \<or> (\<exists>r. out s = Saved r \<and> owner_nonce r = marker \<and> failed r)) s"
    if "running marker 0 s" for lookup guard base s
    by (rule wp_conseq [OF run_probe_wp [OF probe_body_wp [OF that]]]) auto
  have start: "wp (exercise opener sleeper env repo tag commit tagref tok absolute marker) ?Q ?E s0
    = wp (bindIO (liftIO (probe_inputs env repo tag commit tagref tok absolute (out s0))) (\<lambda>base.
     bindIO (set_rec (\<lambda>_. fresh_receipt env repo tag commit tagref marker)) (\<lambda>_.
     bindIO (on_server (check_ref opener base tok tag tagref)) (\<lambda>same.
       if \<not> same then raiseIO (ValueError ''Fixture tag differs from the frozen existing ref'')
       else bindIO (set_rec (\<lambda>r. r\<lparr>outcome := ''running''\<rparr>)) (\<lambda>_. bindIO (save True) (\<lambda>_.
         run_probe (probe_body (load_release opener env repo tag tok True)
              (ensure_release_absent opener env repo tag tok True) sleeper opener base tok tag marker)
           (cleanup opener base tok tag tagref marker))))))) ?Q ?E s0"
    by (simp add: wp_def exercise_def)
  show ?thesis
    unfolding start wp_bindIO wp_rec
    by (intro wp_liftIO wp_on_server wp_if)
       (auto dest!: probe_inputs_OK intro!: wp_save_initial run running_fresh simp: fresh_receipt_def)
qed

section \<open>Properties\<close>

text \<open>
  Claim C18. The preflight deletes nothing it does not own: in the log of its requests
  every DELETE directly follows a GET of the same release that answered with a draft of
  the fixture tag carrying this run's marker, no assets and the default branch as target,
  whatever the server does and on every way out.
\<close>

theorem exercise_deletes_own_draft:
  "licensed tag marker (fst (server (snd (exercise (logged op) (unlogged sleeper) env repo tag commit tagref
     tok absolute marker (s\<lparr>server := ([], w)\<rparr>)))))"
  using exercise_keeps [of tag marker op sleeper env repo commit tagref tok absolute]
  by (simp add: keeps_def)

text \<open>
  The receipt tells what happened: either nothing was written and the preflight
  raised, or the receipt on disk is this run's and it is either returned, passed, with the
  draft seen, refused and removed and the tag unchanged after at most ten observations, or
  marked failed with the stage and type of the failure while the preflight raises.
\<close>

theorem exercise_receipt:
  "case exercise opener sleeper env repo tag commit tagref tok absolute marker s0 of (res, s1) \<Rightarrow>
     (\<exists>e. res = Inl e \<and> out s1 = out s0)
     \<or> (\<exists>r. out s0 = Missing \<and> out s1 = Saved r \<and> owner_nonce r = marker
          \<and> (res = Inr r \<and> passed r \<or> (\<exists>e. res = Inl e \<and> failed r)))"
proof -
  have split: "case m s of (res, s1) \<Rightarrow> (\<exists>e. res = Inl e \<and> out s1 = out s)
     \<or> (\<exists>r. out s = Missing \<and> out s1 = Saved r \<and> owner_nonce r = marker
          \<and> (res = Inr r \<and> passed r \<or> (\<exists>e. res = Inl e \<and> failed r)))"
    if "wp m (\<lambda>r s'. out s = Missing \<and> out s' = Saved r \<and> owner_nonce r = marker \<and> passed r)
     (\<lambda>s'. out s' = out s \<or> (\<exists>r. out s = Missing \<and> out s' = Saved r \<and> owner_nonce r = marker \<and> failed r)) s"
    for m :: "('a probe, receipt) io" and s
    using that by (cases "m s"; cases "fst (m s)") (auto simp: wp_def)
  show ?thesis by (rule split [OF exercise_wp])
qed

end
