(* ===== verification/Py_Url.thy ===== *)
theory Py_Url
  imports Py_Str
begin

text \<open>
  \<open>urllib.parse\<close>, \<open>ipaddress\<close> and \<open>pathlib\<close> as the scripts use them, on text of code
  points below 256: splitting a URL, the host and credentials of its network
  location, IP address syntax, and the lexical operations of POSIX paths.
\<close>

section \<open>Partitions\<close>

definition mem :: "char \<Rightarrow> string \<Rightarrow> bool" where
  "mem c s = (c \<in> set s)"

text \<open>\<open>s.partition(c)\<close> without its separator, and the tail of \<open>s.rpartition(c)\<close>.\<close>

definition part_head :: "char \<Rightarrow> string \<Rightarrow> string" where
  "part_head c s = takeWhile (\<lambda>x. x \<noteq> c) s"
definition part_tail :: "char \<Rightarrow> string \<Rightarrow> string" where
  "part_tail c s = drop 1 (dropWhile (\<lambda>x. x \<noteq> c) s)"
definition rpart_tail :: "char \<Rightarrow> string \<Rightarrow> string" where
  "rpart_tail c s = after_last c s"
definition rpart_head :: "char \<Rightarrow> string \<Rightarrow> string" where
  "rpart_head c s = (if mem c s then take (length s - length (after_last c s) - 1) s else [])"

lemma part_append: "c \<notin> set a \<Longrightarrow> part_head c (a @ c # b) = a \<and> part_tail c (a @ c # b) = b"
  by (induction a) (auto simp: part_head_def part_tail_def)

lemma part_absent: "c \<notin> set s \<Longrightarrow> part_head c s = s \<and> part_tail c s = []"
  by (induction s) (auto simp: part_head_def part_tail_def)

section \<open>IP addresses\<close>

definition ipv4_octet :: "string \<Rightarrow> bool" where
  "ipv4_octet s = (s \<noteq> [] \<and> list_all is_digit s \<and> length s \<le> 3
     \<and> (length s = 1 \<or> hd s \<noteq> CHR ''0'') \<and> decimal_value s \<le> 255)"

definition is_ipv4 :: "string \<Rightarrow> bool" where
  "is_ipv4 s = (let ps = split_on (CHR ''.'') s in length ps = 4 \<and> list_all ipv4_octet ps)"

definition is_hex :: "char \<Rightarrow> bool" where
  "is_hex c = (is_lhex c \<or> (65 \<le> code c \<and> code c \<le> 70))"

definition ipv6_hextet :: "string \<Rightarrow> bool" where
  "ipv6_hextet s = (s \<noteq> [] \<and> length s \<le> 4 \<and> list_all is_hex s)"

text \<open>\<open>ipaddress.IPv6Address\<close>: an optional scope, an embedded IPv4 tail, at most one \<open>::\<close>.\<close>

definition ipv6_parts_ok :: "string list \<Rightarrow> bool" where
  "ipv6_parts_ok ps = (let n = length ps;
       skips = filter (\<lambda>i. ps ! i = []) [1..<n - 1]
     in case skips of
          [] \<Rightarrow> n = 8 \<and> list_all ipv6_hextet ps
        | [k] \<Rightarrow>
            (let hi = take k ps; lo = drop (k + 1) ps;
                 hi' = (if hi = [[]] then [] else hi);
                 lo' = (if lo = [[]] then [] else lo)
             in n \<le> 9 \<and> list_all ipv6_hextet hi' \<and> list_all ipv6_hextet lo'
                \<and> length hi' + length lo' < 8)
        | _ \<Rightarrow> False)"

definition is_ipv6 :: "string \<Rightarrow> bool" where
  "is_ipv6 s = (let addr = part_head (CHR ''%'') s; scope = part_tail (CHR ''%'') s;
       ps = split_on (CHR '':'') addr; l = last ps;
       ps' = (if mem (CHR ''.'') l then butlast ps @ [''0'', ''0''] else ps)
     in (mem (CHR ''%'') s \<longrightarrow> scope \<noteq> [] \<and> \<not> mem (CHR ''%'') scope)
        \<and> \<not> mem (CHR ''/'') s \<and> 3 \<le> length ps
        \<and> (mem (CHR ''.'') l \<longrightarrow> is_ipv4 l) \<and> ipv6_parts_ok ps')"

definition is_ip_address :: "string \<Rightarrow> bool" where
  "is_ip_address s = (is_ipv4 s \<or> is_ipv6 s)"

section \<open>Splitting a URL\<close>

record split_url =
  scheme :: string
  netloc :: string
  path :: string
  query :: string
  fragment :: string

definition scheme_char :: "char \<Rightarrow> bool" where
  "scheme_char c = (is_alnum c \<or> c = CHR ''+'' \<or> c = CHR ''-'' \<or> c = CHR ''.'')"

definition c0_or_space :: "char \<Rightarrow> bool" where
  "c0_or_space c = (code c \<le> 32)"

definition is_unsafe :: "char \<Rightarrow> bool" where
  "is_unsafe c = (let n = code c in n = 9 \<or> n = 10 \<or> n = 13)"

definition netloc_end :: "char \<Rightarrow> bool" where
  "netloc_end c = (c = CHR ''/'' \<or> c = CHR ''?'' \<or> c = CHR ''#'')"

text \<open>The host between brackets: \<open>v\<close> followed by a version, or an IPv6 address.\<close>

definition ipvfuture :: "string \<Rightarrow> bool" where
  "ipvfuture s = (let t = drop 1 s; v = takeWhile is_hex t; r = dropWhile is_hex t in
     startswith s ''v'' \<and> v \<noteq> [] \<and> startswith r ''.'' \<and> 1 < length r
     \<and> \<not> mem (CHR 0x0A) (drop 1 r))"

definition bracketed_netloc_ok :: "string \<Rightarrow> bool" where
  "bracketed_netloc_ok n = (let hp = rpart_tail (CHR ''@'') n in
     if mem (CHR ''['') hp then
       (let b = part_tail (CHR ''['') hp; host = part_head (CHR '']'') b; port = part_tail (CHR '']'') b
        in part_head (CHR ''['') hp = [] \<and> (port = [] \<or> startswith port '':'')
           \<and> (if startswith host ''v'' then ipvfuture host else is_ipv6 host))
     else (let host = part_head (CHR '':'') hp
        in if startswith host ''v'' then ipvfuture host else is_ipv6 host))"

definition url_clean :: "string \<Rightarrow> string" where
  "url_clean u = filter (\<lambda>c. \<not> is_unsafe c) (dropWhile c0_or_space u)"

definition url_has_scheme :: "string \<Rightarrow> bool" where
  "url_has_scheme u = (let pre = part_head (CHR '':'') u in
     mem (CHR '':'') u \<and> pre \<noteq> [] \<and> (is_lower (hd pre) \<or> is_upper (hd pre))
     \<and> list_all scheme_char pre)"

definition url_after_scheme :: "string \<Rightarrow> string" where
  "url_after_scheme u = (if url_has_scheme u then part_tail (CHR '':'') u else u)"

definition url_net :: "string \<Rightarrow> string" where
  "url_net u = (if startswith u ''//'' then takeWhile (\<lambda>c. \<not> netloc_end c) (drop 2 u) else [])"

definition url_after_net :: "string \<Rightarrow> string" where
  "url_after_net u = (if startswith u ''//'' then drop (2 + length (url_net u)) u else u)"

definition netloc_ok :: "string \<Rightarrow> bool" where
  "netloc_ok n = (mem (CHR ''['') n = mem (CHR '']'') n
     \<and> (mem (CHR ''['') n \<longrightarrow> bracketed_netloc_ok n))"

definition urlsplit :: "string \<Rightarrow> split_url result" where
  "urlsplit u = (let
       u1 = url_clean u;
       u2 = url_after_scheme u1;
       u3 = url_after_net u2;
       u4 = part_head (CHR ''#'') u3
     in if \<not> netloc_ok (url_net u2) then raise (ValueError ''Invalid IPv6 URL'')
        else ret \<lparr>scheme = (if url_has_scheme u1 then py_lower (part_head (CHR '':'') u1) else []),
                  netloc = url_net u2, path = part_head (CHR ''?'') u4,
                  query = part_tail (CHR ''?'') u4, fragment = part_tail (CHR ''#'') u3\<rparr>)"

definition userinfo :: "split_url \<Rightarrow> string option" where
  "userinfo u = (if mem (CHR ''@'') (netloc u) then Some (rpart_head (CHR ''@'') (netloc u)) else None)"

definition username :: "split_url \<Rightarrow> string option" where
  "username u = map_option (part_head (CHR '':'')) (userinfo u)"

definition password :: "split_url \<Rightarrow> string option" where
  "password u = (case userinfo u of None \<Rightarrow> None
     | Some i \<Rightarrow> if mem (CHR '':'') i then Some (part_tail (CHR '':'') i) else None)"

definition hostname :: "split_url \<Rightarrow> string option" where
  "hostname u = (let hi = rpart_tail (CHR ''@'') (netloc u);
       h = (if mem (CHR ''['') hi then part_head (CHR '']'') (part_tail (CHR ''['') hi)
            else part_head (CHR '':'') hi)
     in if h = [] then None
        else Some (py_lower (part_head (CHR ''%'') h) @ drop (length (part_head (CHR ''%'') h)) h))"

text \<open>\<open>urlunsplit((scheme, netloc, path, '', ''))\<close> for \<open>http\<close> and \<open>https\<close>.\<close>

definition urlunsplit_web :: "string \<Rightarrow> string \<Rightarrow> string \<Rightarrow> string" where
  "urlunsplit_web sch net p = (let
       p' = (if net \<noteq> [] \<or> \<not> startswith p ''//''
             then ''//'' @ net @ (if p \<noteq> [] \<and> \<not> startswith p ''/'' then CHR ''/'' # p else p)
             else p)
     in if sch \<noteq> [] then sch @ '':'' @ p' else p')"

lemma urlsplit_netloc_end: "urlsplit u = Inr r \<Longrightarrow> \<forall>c\<in>set (netloc r). \<not> netloc_end c"
  by (auto simp: urlsplit_def Let_def url_net_def dest: set_takeWhileD)

lemma no_userinfo_iff: "username u = None \<longleftrightarrow> \<not> mem (CHR ''@'') (netloc u)"
  by (simp add: username_def userinfo_def)

section \<open>POSIX paths\<close>

definition path_parts :: "string \<Rightarrow> string list" where
  "path_parts s = filter (\<lambda>p. p \<noteq> [] \<and> p \<noteq> ''.'') (split_on (CHR ''/'') s)"

definition path_root :: "string \<Rightarrow> string" where
  "path_root s = (if startswith s ''//'' \<and> \<not> startswith s ''///'' then ''//''
                  else if startswith s ''/'' then ''/'' else [])"

definition path_is_absolute :: "string \<Rightarrow> bool" where
  "path_is_absolute s = startswith s ''/''"

definition path_name :: "string \<Rightarrow> string" where
  "path_name s = (case path_parts s of [] \<Rightarrow> [] | ps \<Rightarrow> last ps)"

definition path_str :: "string \<Rightarrow> string" where
  "path_str s = (let t = path_root s @ join ''/'' (path_parts s) in if t = [] then ''.'' else t)"

definition path_parent :: "string \<Rightarrow> string" where
  "path_parent s = path_str (path_root s @ join ''/'' (butlast (path_parts s)))"

lemma path_parts_member: "p \<in> set (path_parts s) \<Longrightarrow> p \<noteq> [] \<and> p \<noteq> ''.'' \<and> CHR ''/'' \<notin> set p"
  by (auto simp: path_parts_def dest: split_on_no_sep)

lemma split_on_append: "split_on c (a @ c # b) = split_on c a @ split_on c b"
proof (induction a)
  case (Cons x a)
  then show ?case using split_on_nonempty [of c a] by (cases "split_on c a") auto
qed simp

text \<open>\<open>d / n\<close> for a plain name \<open>n\<close>.\<close>

definition path_join :: "string \<Rightarrow> string \<Rightarrow> string" where
  "path_join d n = path_str (d @ ''/'' @ n)"

definition plain_name :: "string \<Rightarrow> bool" where
  "plain_name n = (n \<noteq> [] \<and> n \<noteq> ''.'' \<and> CHR ''/'' \<notin> set n)"

lemma path_parts_join: "plain_name n \<Longrightarrow> path_parts (d @ CHR ''/'' # n) = path_parts d @ [n]"
  by (simp add: path_parts_def split_on_append plain_name_def split_on_single)

lemma join_snoc: "join sep (xs @ [x]) = (if xs = [] then x else join sep xs @ sep @ x)"
  by (induction sep xs rule: join.induct) auto

lemma last_path_join: "plain_name n \<Longrightarrow> last (path_join d n) = last n"
proof -
  assume n: "plain_name n"
  then have "n \<noteq> []" by (simp add: plain_name_def)
  then have "join ''/'' (path_parts d @ [n]) \<noteq> [] \<and> last (join ''/'' (path_parts d @ [n])) = last n"
    by (simp add: join_snoc)
  with n show ?thesis by (simp add: path_join_def path_str_def path_parts_join Let_def)
qed

lemma path_join_eqD: "path_join d m = path_join d' n \<Longrightarrow> plain_name m \<Longrightarrow> plain_name n \<Longrightarrow> last m = last n"
  by (metis last_path_join)

lemma path_name_relative: "\<not> path_is_absolute (path_name s)"
proof (cases "path_parts s")
  case Nil
  then show ?thesis by (simp add: path_name_def path_is_absolute_def startswith_def)
next
  case (Cons p ps)
  then have "path_name s \<in> set (path_parts s)" by (simp add: path_name_def)
  then have "CHR ''/'' \<notin> set (path_name s)" by (simp add: path_parts_member)
  then show ?thesis by (auto simp: path_is_absolute_def startswith_iff)
qed

text \<open>A path equal to its own normal form is the join of its parts.\<close>

lemma path_str_fixed:
  assumes "path_str s = s" and "\<not> path_is_absolute s" and "path_parts s \<noteq> []"
  shows "split_on (CHR ''/'') s = path_parts s"
proof -
  have root: "path_root s = []"
    using assms(2) by (auto simp: path_root_def path_is_absolute_def startswith_iff)
  have "s \<noteq> ''.''" using assms(3) by (auto simp: path_parts_def)
  then have "join ''/'' (path_parts s) = s"
    using assms(1) root by (simp add: path_str_def Let_def split: if_splits)
  moreover have "split_on (CHR ''/'') (join ''/'' (path_parts s)) = path_parts s"
    using assms(3) path_parts_member by (intro split_on_join) auto
  ultimately show ?thesis by simp
qed

end
