(* ===== verification/Stack_Env.thy ===== *)
theory Stack_Env
  imports Py_Json Py_Regex Py_Url
begin

text \<open>
  \<^verbatim>\<open>scripts/render_stack_env.py\<close>: the Compose inputs of a stack under test are rendered
  from its manifest, images by digest and Python wheels by an immutable release URL and
  digest. The manifest and the base images are JSON values; the text written and the
  images pulled are the result.
\<close>

section \<open>Definitions\<close>

definition forbidden_markers :: "string list" where
  "forbidden_markers = [''square'', ''subscription'', ''billing'', ''product-catalog'', ''product_catalog'']"

definition required_images :: "(string \<times> string) list" where
  "required_images =
    [(''MARTY_UI_IMAGE'', ''ui''), (''MARTY_SERVICES_IMAGE'', ''services''),
     (''MARTY_MIGRATIONS_IMAGE'', ''migrations''), (''MARTY_OPENBAO_DIDCOMM_IMAGE'', ''openbao-didcomm''),
     (''MARTY_KEYCLOAK_IMAGE'', ''keycloak''), (''MARTY_ISSUANCE_IMAGE'', ''services'')]"

definition required_python_artifacts :: "(string \<times> string \<times> string \<times> string) list" where
  "required_python_artifacts =
    [(''MARTY_RS'', ''marty-core-python'', ''python'', ''ElevenID/marty-core''),
     (''MARTY_VERIFICATION'', ''marty-verification-python'', ''python'', ''ElevenID/marty-core''),
     (''MARTY_ISO18013'', ''marty-iso18013-python'', ''python'', ''ElevenID/marty-core''),
     (''MARTY_COMMON'', ''marty-common'', ''python'', ''ElevenID/Marty'')]"

fun check_markers :: "string \<Rightarrow> string list \<Rightarrow> unit result" where
  "check_markers serialized [] = ret ()"
| "check_markers serialized (m # ms) =
     (if occurs_in m serialized then raise (ValueError (''forbidden commerce marker in manifest: '' @ m))
      else check_markers serialized ms)"

text \<open>\<open>load_manifest\<close> after its \<open>json.loads\<close>.\<close>

definition load_manifest :: "json \<Rightarrow> json result" where
  "load_manifest manifest = bindE (py_get manifest ''schema'' JNull) (\<lambda>schema.
     if schema \<noteq> JStr ''marty.stack/v1'' then raise (ValueError ''manifest schema must be marty.stack/v1'')
     else bindE (check_markers (py_lower (json_dumps manifest)) forbidden_markers) (\<lambda>_. ret manifest))"

definition oci_artifact :: "json \<Rightarrow> string list result" where
  "oci_artifact artifact = bindE (py_get artifact ''type'' JNull) (\<lambda>ty.
     if ty \<noteq> JStr ''oci'' then ret []
     else let uri = obj_get_default artifact ''uri'' (JStr []);
              digest = obj_get_default artifact ''digest'' (JStr [])
          in case digest of
               JStr d \<Rightarrow>
                 if \<not> fullmatch digest_rx d then raise (ValueError (''invalid OCI digest for '' @ py_str uri))
                 else (case uri of
                     JStr u \<Rightarrow>
                       if mem (CHR '':'') (after_last (CHR ''/'') u)
                       then raise (ValueError (''OCI URI must not contain a mutable tag: '' @ u))
                       else ret [u @ ''@'' @ d]
                   | _ \<Rightarrow> raise AttributeError)
             | _ \<Rightarrow> raise TypeError)"

definition component_images :: "json \<Rightarrow> string list result" where
  "component_images component = bindE (py_get component ''artifacts'' (JArr [])) (\<lambda>arts.
     bindE (py_iter arts) (\<lambda>arts. bindE (mapE oci_artifact arts) (\<lambda>xs. ret (concat xs))))"

definition oci_images :: "json \<Rightarrow> string list result" where
  "oci_images manifest = bindE (py_get manifest ''components'' (JArr [])) (\<lambda>cs.
     bindE (py_iter cs) (\<lambda>cs. bindE (mapE component_images cs) (\<lambda>xs. ret (concat xs))))"

definition image_name :: "string \<Rightarrow> string" where
  "image_name img = after_last (CHR ''/'') (rstrip_char (CHR ''/'') (before_first (CHR ''@'') img))"

definition pick_image :: "string list \<Rightarrow> string \<times> string \<Rightarrow> (string \<times> string) result" where
  "pick_image images = (\<lambda>(variable, repo). let matches = filter (\<lambda>i. image_name i = repo) images in
     if length matches \<noteq> 1
     then raise (ValueError (''expected exactly one image with repository name '' @ repo @ '', found ''
                  @ int_str (int (length matches))))
     else ret (variable, hd matches))"

definition image_map :: "json \<Rightarrow> bool \<Rightarrow> (string \<times> string) list result" where
  "image_map manifest allow_historical = bindE (oci_images manifest) (\<lambda>images. let
       actual = set (map image_name images);
       historical = (allow_historical \<and> length images = 3 \<and> actual = {''ui'', ''services'', ''migrations''});
       wanted = filter (\<lambda>(v, repo). \<not> (historical \<and> repo \<in> {''openbao-didcomm'', ''keycloak''})) required_images
     in bindE (mapE (pick_image images) wanted) (\<lambda>rendered.
          if \<not> historical \<and> (length images \<noteq> 5
              \<or> actual \<noteq> {''ui'', ''services'', ''migrations'', ''openbao-didcomm'', ''keycloak''})
          then raise (ValueError ''KMS-only stack requires exactly the UI, services, migrations, OpenBao DIDComm, and Keycloak images'')
          else ret rendered))"

definition segment_char :: "char \<Rightarrow> bool" where
  "segment_char c = (is_alnum c \<or> c = CHR ''.'' \<or> c = CHR ''_'' \<or> c = CHR ''+'' \<or> c = CHR ''-'')"

definition release_segment :: rx where
  "release_segment = Many 1 (Cls segment_char)"
definition wheel_segment :: rx where
  "wheel_segment = Seq (Many 1 (Cls segment_char)) (Lit ''.whl'')"

definition release_wheel_path :: "string \<Rightarrow> string \<Rightarrow> bool" where
  "release_wheel_path pre p =
     (if \<not> startswith p pre then False
      else let parts = split_on (CHR ''/'') (removeprefix p pre)
        in length parts = 2 \<and> fullmatch release_segment (parts ! 0) \<and> fullmatch wheel_segment (parts ! 1))"

definition immutable_wheel_uri :: "string \<Rightarrow> string \<Rightarrow> bool" where
  "immutable_wheel_uri uri repo = (case urlsplit uri of
     Inl _ \<Rightarrow> False
   | Inr parsed \<Rightarrow>
       if scheme parsed \<noteq> ''https'' \<or> netloc parsed \<noteq> ''github.com'' \<or> query parsed \<noteq> []
          \<or> fragment parsed \<noteq> [] \<or> username parsed \<noteq> None \<or> password parsed \<noteq> None then False
       else release_wheel_path (''/'' @ repo @ ''/releases/download/'') (path parsed))"

definition artifact_matches :: "json list \<Rightarrow> string \<Rightarrow> string \<Rightarrow> string \<Rightarrow> json list" where
  "artifact_matches components name ty repo = concat (map (\<lambda>c.
     if is_dict c \<and> obj_get c ''name'' = JStr name \<and> obj_get c ''repository'' = JStr repo
     then filter (\<lambda>a. is_dict a \<and> obj_get a ''type'' = JStr ty) (arr_of (obj_get c ''artifacts''))
     else []) components)"

definition check_artifact :: "string \<Rightarrow> string \<Rightarrow> json \<Rightarrow> (string \<times> string) result" where
  "check_artifact name repo artifact = (case obj_get artifact ''uri'' of
     JStr uri \<Rightarrow>
       if \<not> immutable_wheel_uri uri repo
       then raise (ValueError (name @ '' must use an immutable GitHub release wheel''))
       else (case obj_get artifact ''digest'' of
           JStr d \<Rightarrow> if \<not> fullmatch digest_rx d
             then raise (ValueError (name @ '' must use an immutable GitHub release artifact''))
             else ret (uri, d)
         | _ \<Rightarrow> raise (ValueError (name @ '' must use an immutable GitHub release artifact'')))
   | _ \<Rightarrow> raise (ValueError (name @ '' must use an immutable GitHub release wheel'')))"

definition pick_artifact :: "json list \<Rightarrow> string \<times> string \<times> string \<times> string \<Rightarrow> (string \<times> string) list result" where
  "pick_artifact components = (\<lambda>(variable, name, ty, repo).
     let matches = artifact_matches components name ty repo in
     if length matches \<noteq> 1
     then raise (ValueError (''expected exactly one '' @ ty @ '' artifact for '' @ name @ '' from '' @ repo
                  @ '', found '' @ int_str (int (length matches))))
     else bindE (check_artifact name repo (hd matches)) (\<lambda>(uri, d).
            ret [(variable @ ''_URI'', uri), (variable @ ''_DIGEST'', d)]))"

definition requires_marty_common :: "json \<Rightarrow> bool option \<Rightarrow> bool result" where
  "requires_marty_common manifest explicit = (case explicit of
     Some b \<Rightarrow> ret b
   | None \<Rightarrow> bindE (image_map manifest True) (\<lambda>images. ret (''MARTY_OPENBAO_DIDCOMM_IMAGE'' \<notin> fst ` set images)))"

definition python_artifact_map :: "json \<Rightarrow> bool option \<Rightarrow> (string \<times> string) list result" where
  "python_artifact_map manifest explicit = bindE (requires_marty_common manifest explicit) (\<lambda>common.
     bindE (py_get manifest ''components'' (JArr [])) (\<lambda>cs. case cs of
       JArr components \<Rightarrow>
         bindE (mapE (pick_artifact components)
                  (filter (\<lambda>(v, _). common \<or> v \<noteq> ''MARTY_COMMON'') required_python_artifacts))
           (\<lambda>xs. ret (concat xs))
     | _ \<Rightarrow> raise (ValueError ''stack manifest components must be a list'')))"

text \<open>\<open>main\<close>: the Keycloak digest, the base images, the check of every value, the lines.\<close>

definition with_kms_digest :: "(string \<times> string) list \<Rightarrow> (string \<times> string) list result" where
  "with_kms_digest images = (case map_of images ''MARTY_KEYCLOAK_IMAGE'' of
     Some img \<Rightarrow> if img = [] then ret images
       else bindE (rsplit_tail (CHR ''@'') img) (\<lambda>d. ret (put ''KEYCLOAK_KMS_IMAGE_DIGEST'' d images))
   | None \<Rightarrow> ret images)"

text \<open>\<open>s in value\<close> for a JSON value.\<close>

definition py_in_value :: "string \<Rightarrow> json \<Rightarrow> bool result" where
  "py_in_value s v = (case v of
     JStr t \<Rightarrow> ret (occurs_in s t)
   | JArr xs \<Rightarrow> ret (JStr s \<in> set xs)
   | JObj kvs \<Rightarrow> ret (s \<in> fst ` set kvs)
   | _ \<Rightarrow> raise TypeError)"

definition check_image :: "string \<times> json \<Rightarrow> unit result" where
  "check_image = (\<lambda>(variable, v).
     if variable = ''KEYCLOAK_KMS_IMAGE_DIGEST''
     then (if \<not> fullmatch digest_rx (str_of v)
           then raise (ValueError (''invalid Keycloak image digest: '' @ py_str v)) else ret ())
     else bindE (py_in_value ''@sha256:'' v) (\<lambda>pinned.
            if \<not> pinned then raise (ValueError (''image is not pinned by digest: '' @ py_str v)) else ret ()))"

definition env_text :: "(string \<times> json) list \<Rightarrow> string" where
  "env_text items = join [CHR 0x0A] (map (\<lambda>(k, v). k @ ''='' @ py_str v) (sort_key fst items)) @ [CHR 0x0A]"

definition stack_images :: "json \<Rightarrow> (string \<times> string) list \<Rightarrow> (string \<times> json) list result" where
  "stack_images base images =
     bindE (py_key base ''postgres'') (\<lambda>postgres. bindE (py_key base ''redis'') (\<lambda>redis. let
       all = put ''REDIS_IMAGE'' redis (put ''POSTGRES_IMAGE'' postgres (map (\<lambda>(k, v). (k, JStr v)) images))
     in bindE (mapE check_image all) (\<lambda>_. ret all)))"

text \<open>The file written and the images pulled.\<close>

definition render_main :: "json \<Rightarrow> json \<Rightarrow> bool \<Rightarrow> bool \<Rightarrow> (string \<times> json list) result" where
  "render_main manifest base allow_historical pull =
     bindE (load_manifest manifest) (\<lambda>m.
     bindE (image_map m allow_historical) (\<lambda>images.
     bindE (with_kms_digest images) (\<lambda>images.
     bindE (python_artifact_map m None) (\<lambda>artifacts.
     bindE (stack_images base images) (\<lambda>images.
       ret (env_text (merge images (map (\<lambda>(k, v). (k, JStr v)) artifacts)),
            if pull then map snd (filter (\<lambda>(k, v). k \<noteq> ''KEYCLOAK_KMS_IMAGE_DIGEST'') images) else []))))))"

section \<open>Images\<close>

text \<open>An image pinned by digest: a registry path without a tag, \<open>@\<close>, a SHA-256 digest.\<close>

definition pinned :: "string \<Rightarrow> bool" where
  "pinned img \<longleftrightarrow> (\<exists>u d. img = u @ ''@'' @ d \<and> is_digest d \<and> CHR '':'' \<notin> set (after_last (CHR ''/'') u))"

lemma oci_artifact_pinned: "oci_artifact a = Inr xs \<Longrightarrow> list_all pinned xs"
  by (auto simp: oci_artifact_def Let_def fullmatch_digest pinned_def mem_def split: if_splits json.splits) blast

lemma oci_images_pinned:
  assumes "oci_images m = Inr images" shows "list_all pinned images"
proof -
  have concat: "list_all pinned (concat xss)" if "mapE f xs = Inr xss" "\<And>x ys. f x = Inr ys \<Longrightarrow> list_all pinned ys"
    for f and xs :: "json list" and xss
  proof -
    have "list_all (list_all pinned) xss" by (rule mapE_all [OF that(1)]) (rule that(2))
    then show ?thesis by (simp add: list_all_iff)
  qed
  have comp: "list_all pinned ys" if "component_images c = Inr ys" for c ys
  proof -
    from that obtain as xs where "mapE oci_artifact as = Inr xs" and "ys = concat xs"
      by (auto simp: component_images_def)
    with concat oci_artifact_pinned show ?thesis by blast
  qed
  from assms obtain cs xs where "mapE component_images cs = Inr xs" and "images = concat xs"
    by (auto simp: oci_images_def)
  with concat comp show ?thesis by blast
qed

lemma pick_image_OK:
  "pick_image images x = Inr y \<longleftrightarrow> length (filter (\<lambda>i. image_name i = snd x) images) = 1
     \<and> y = (fst x, hd (filter (\<lambda>i. image_name i = snd x) images))"
  by (cases x) (auto simp: pick_image_def Let_def)

definition five_names :: "string set" where
  "five_names = {''ui'', ''services'', ''migrations'', ''openbao-didcomm'', ''keycloak''}"

lemma card_five: "card five_names = 5"
  by (simp add: five_names_def)

lemma required_names: "snd ` set required_images = five_names"
  by (auto simp: required_images_def five_names_def)

lemma five_images:
  "length images = 5 \<and> set (map image_name images) = five_names \<longleftrightarrow>
     distinct (map image_name images) \<and> set (map image_name images) = five_names"
  using card_five by (metis card_distinct distinct_card length_map)

text \<open>The image the code takes for a repository name.\<close>

definition image_of :: "string list \<Rightarrow> string \<Rightarrow> string" where
  "image_of images n = hd (filter (\<lambda>i. image_name i = n) images)"

lemma image_of_in: "n \<in> set (map image_name images) \<Longrightarrow> image_of images n \<in> set images \<and> image_name (image_of images n) = n"
proof -
  assume "n \<in> set (map image_name images)"
  then have "filter (\<lambda>i. image_name i = n) images \<noteq> []" by (auto simp: filter_empty_conv)
  then have "image_of images n \<in> set (filter (\<lambda>i. image_name i = n) images)"
    unfolding image_of_def by (rule hd_in_set)
  then show ?thesis by simp
qed

text \<open>
  The images of a stack: the renderer accepts a manifest exactly when its OCI
  artifacts, all pinned by digest and without a tag, are one each of the five repositories
  of the stack, and then every variable gets the image of its repository.
\<close>

theorem image_map_exact:
  "image_map manifest False = Inr rendered \<longleftrightarrow>
     (\<exists>images. oci_images manifest = Inr images \<and> list_all pinned images
        \<and> distinct (map image_name images)
        \<and> set (map image_name images) = {''ui'', ''services'', ''migrations'', ''openbao-didcomm'', ''keycloak''}
        \<and> rendered = map (\<lambda>(v, n). (v, image_of images n)) required_images)"
proof -
  have picks: "mapE (pick_image images) required_images = Inr rendered \<and> length images = 5
      \<and> set (map image_name images) = five_names
    \<longleftrightarrow> distinct (map image_name images) \<and> set (map image_name images) = five_names
      \<and> rendered = map (\<lambda>(v, n). (v, image_of images n)) required_images" (is "?l \<longleftrightarrow> ?r") for images
  proof -
    have map: "mapE (pick_image images) required_images = Inr rendered \<longleftrightarrow>
        list_all (\<lambda>x. length (filter (\<lambda>i. image_name i = snd x) images) = 1) required_images
        \<and> rendered = map (\<lambda>(v, n). (v, image_of images n)) required_images"
      unfolding mapE_check [OF pick_image_OK] by (auto simp: image_of_def split_def)
    have "list_all (\<lambda>x. length (filter (\<lambda>i. image_name i = snd x) images) = 1) required_images"
      if "distinct (map image_name images)" "set (map image_name images) = five_names"
      unfolding list_all_iff
    proof
      fix x assume "x \<in> set required_images"
      then have "snd x \<in> five_names" using required_names by blast
      with that show "length (filter (\<lambda>i. image_name i = snd x) images) = 1"
        by (intro one_match) auto
    qed
    with map five_images [of images] show ?thesis by blast
  qed
  have "image_map manifest False = Inr rendered \<longleftrightarrow> (\<exists>images. oci_images manifest = Inr images
      \<and> mapE (pick_image images) required_images = Inr rendered \<and> length images = 5
      \<and> set (map image_name images) = five_names)"
    by (auto simp: image_map_def Let_def five_names_def)
  also have "\<dots> \<longleftrightarrow> (\<exists>images. oci_images manifest = Inr images \<and> list_all pinned images
      \<and> distinct (map image_name images) \<and> set (map image_name images) = five_names
      \<and> rendered = map (\<lambda>(v, n). (v, image_of images n)) required_images)"
    using picks oci_images_pinned by blast
  finally show ?thesis by (simp add: five_names_def)
qed

section \<open>Wheels\<close>

lemma startswith_split: "startswith s p \<longleftrightarrow> (\<exists>t. s = p @ t)"
  by (auto simp: startswith_iff)

lemma segment_no_slash: "list_all segment_char s \<Longrightarrow> CHR ''/'' \<notin> set s"
  by (auto simp: list_all_iff segment_char_def is_alnum_def is_digit_def is_lower_def is_upper_def code_def)

lemma two_parts: "length (split_on c s) = 2 \<longleftrightarrow> (\<exists>a b. split_on c s = [a, b])"
  by (auto simp: length_Suc_conv numeral_2_eq_2)

lemma split_two: "split_on c s = [a, b] \<longleftrightarrow> s = a @ c # b \<and> c \<notin> set a \<and> c \<notin> set b"
proof
  assume l: "split_on c s = [a, b]"
  then have "s = join [c] [a, b]" using join_split_on [of c s] by simp
  moreover have "c \<notin> set a" "c \<notin> set b" using split_on_no_sep [of _ c s] l by auto
  ultimately show "s = a @ c # b \<and> c \<notin> set a \<and> c \<notin> set b" by simp
next
  assume r: "s = a @ c # b \<and> c \<notin> set a \<and> c \<notin> set b"
  then have "split_on c (join [c] [a, b]) = [a, b]" by (intro split_on_join) auto
  with r show "split_on c s = [a, b]" by simp
qed

lemma release_wheel_path_iff:
  "release_wheel_path pre x \<longleftrightarrow>
     (\<exists>tag wheel. x = pre @ tag @ ''/'' @ wheel @ ''.whl'' \<and> tag \<noteq> [] \<and> list_all segment_char tag
        \<and> wheel \<noteq> [] \<and> list_all segment_char wheel)" (is "?l \<longleftrightarrow> ?r")
proof -
  have seg: "fullmatch release_segment s \<longleftrightarrow> s \<noteq> [] \<and> list_all segment_char s" for s
    unfolding release_segment_def fullmatch_class_many by (cases s) auto
  have whl: "fullmatch wheel_segment s \<longleftrightarrow> (\<exists>w. s = w @ ''.whl'' \<and> w \<noteq> [] \<and> list_all segment_char w)" for s
    unfolding wheel_segment_def fullmatch_many_Lit by (auto simp: Suc_le_eq)
  show ?thesis
  proof
    assume ?l
    then obtain t a b where x: "x = pre @ t" and ab: "split_on (CHR ''/'') t = [a, b]"
      and ok: "fullmatch release_segment a" "fullmatch wheel_segment b"
      by (auto simp: release_wheel_path_def startswith_split removeprefix_def Let_def two_parts split: if_splits)
    with split_two [of "CHR ''/''" t a b] show ?r unfolding seg whl by auto
  next
    assume ?r
    then obtain tag wheel where x: "x = pre @ tag @ ''/'' @ wheel @ ''.whl''"
      and ok: "tag \<noteq> []" "list_all segment_char tag" "wheel \<noteq> []" "list_all segment_char wheel" by blast
    then have parts: "split_on (CHR ''/'') (tag @ ''/'' @ wheel @ ''.whl'') = [tag, wheel @ ''.whl'']"
      by (subst split_two) (auto dest!: segment_no_slash)
    have "removeprefix x pre = tag @ ''/'' @ wheel @ ''.whl''" and "startswith x pre"
      using x by (simp_all add: removeprefix_def startswith_def)
    with parts ok show ?l by (simp add: release_wheel_path_def Let_def seg whl)
  qed
qed

text \<open>
  The wheels of a stack: a URL is accepted exactly when it splits into the
  scheme \<open>https\<close>, the host \<open>github.com\<close> without credentials, no query, no fragment, and
  the path of one wheel of one release of the governed repository.
\<close>

theorem immutable_wheel_uri_exact:
  "immutable_wheel_uri uri repo \<longleftrightarrow>
     (\<exists>p tag wheel. urlsplit uri = Inr p \<and> scheme p = ''https'' \<and> netloc p = ''github.com''
        \<and> query p = [] \<and> fragment p = []
        \<and> path p = ''/'' @ repo @ ''/releases/download/'' @ tag @ ''/'' @ wheel @ ''.whl''
        \<and> tag \<noteq> [] \<and> list_all segment_char tag \<and> wheel \<noteq> [] \<and> list_all segment_char wheel)"
proof -
  have user: "netloc p = ''github.com'' \<Longrightarrow> username p = None \<and> password p = None" for p
    by (simp add: username_def password_def userinfo_def mem_def)
  have "immutable_wheel_uri uri repo \<longleftrightarrow>
     (\<exists>p. urlsplit uri = Inr p \<and> scheme p = ''https'' \<and> netloc p = ''github.com'' \<and> query p = [] \<and> fragment p = []
        \<and> release_wheel_path (''/'' @ repo @ ''/releases/download/'') (path p))"
    unfolding immutable_wheel_uri_def using user by (cases "urlsplit uri") auto
  then show ?thesis unfolding release_wheel_path_iff by (simp only: append_assoc) blast
qed

text \<open>
  What the URL check does not exclude: \<open>urlsplit\<close> drops line breaks, so a URL that holds one
  is accepted, and is then written to the environment file as two lines.
\<close>

lemma wheel_uri_line_break:
  "immutable_wheel_uri (''https://github.com/ElevenID/marty-core/releases/download/v1/a'' @ [CHR 0x0A] @ ''b.whl'')
     ''ElevenID/marty-core''"
  unfolding immutable_wheel_uri_exact
  by (intro exI [of _ "\<lparr>scheme = ''https'', netloc = ''github.com'',
        path = ''/ElevenID/marty-core/releases/download/v1/ab.whl'', query = [], fragment = []\<rparr>"]
      exI [of _ "''v1''"] exI [of _ "''ab''"]) code_simp

section \<open>Python artifacts\<close>

text \<open>A required artifact with exactly one entry in the manifest, immutable in both its fields.\<close>

definition wheel_entry :: "json list \<Rightarrow> string \<times> string \<times> string \<times> string \<Rightarrow> string \<Rightarrow> string \<Rightarrow> bool" where
  "wheel_entry components spec uri d \<longleftrightarrow> (case spec of (variable, name, ty, repo) \<Rightarrow>
     \<exists>a. artifact_matches components name ty repo = [a] \<and> obj_get a ''uri'' = JStr uri
       \<and> immutable_wheel_uri uri repo \<and> obj_get a ''digest'' = JStr d \<and> is_digest d)"

lemma check_artifact_OK:
  "check_artifact name repo a = Inr r \<longleftrightarrow> (\<exists>uri d. r = (uri, d) \<and> obj_get a ''uri'' = JStr uri
     \<and> immutable_wheel_uri uri repo \<and> obj_get a ''digest'' = JStr d \<and> is_digest d)"
  by (auto simp: check_artifact_def fullmatch_digest split: json.splits if_splits)

lemma pick_artifact_OK:
  "pick_artifact components spec = Inr r \<longleftrightarrow>
     (\<exists>uri d. wheel_entry components spec uri d \<and> r = [(fst spec @ ''_URI'', uri), (fst spec @ ''_DIGEST'', d)])"
  by (cases spec) (auto simp: pick_artifact_def wheel_entry_def Let_def check_artifact_OK length_Suc_conv)

definition required_for :: "bool \<Rightarrow> (string \<times> string \<times> string \<times> string) list" where
  "required_for common = filter (\<lambda>(v, _). common \<or> v \<noteq> ''MARTY_COMMON'') required_python_artifacts"

text \<open>
  The wheels written for a stack: they are rendered exactly when every required
  package has one matching artifact in the manifest with an immutable wheel URL and a
  digest, and the lines are that URL and that digest, in the order of the requirements.
\<close>

theorem python_artifact_map_exact:
  "python_artifact_map manifest explicit = Inr rendered \<longleftrightarrow>
     (\<exists>common components lines. requires_marty_common manifest explicit = Inr common \<and> is_dict manifest
        \<and> obj_get_default manifest ''components'' (JArr []) = JArr components
        \<and> list_all2 (\<lambda>spec entry. \<exists>uri d. wheel_entry components spec uri d
             \<and> entry = [(fst spec @ ''_URI'', uri), (fst spec @ ''_DIGEST'', d)]) (required_for common) lines
        \<and> rendered = concat lines)"
  unfolding python_artifact_map_def bindE_eq_Inr py_get_Inr json_cases_Inr mapE_list_all2 pick_artifact_OK
    required_for_def Inr_inject
  by (simp only: json_tests) blast

end
