(* ===== verification/Py_Hash.thy ===== *)
theory Py_Hash
  imports Py_Regex
begin

text \<open>
  \<open>hashlib.sha256\<close> on byte strings, executable, with the 32-bit arithmetic of the
  algorithm on \<open>32 word\<close>; \<open>hexdigest\<close> is its lower-case hexadecimal form, which every
  digest field of the evidence carries.
\<close>

unbundle bit_operations_syntax

type_synonym w32 = "32 word"

definition sha_k :: "w32 list" where
  "sha_k = [1116352408, 1899447441, 3049323471, 3921009573, 961987163, 1508970993, 2453635748, 2870763221,
     3624381080, 310598401, 607225278, 1426881987, 1925078388, 2162078206, 2614888103, 3248222580,
     3835390401, 4022224774, 264347078, 604807628, 770255983, 1249150122, 1555081692, 1996064986,
     2554220882, 2821834349, 2952996808, 3210313671, 3336571891, 3584528711, 113926993, 338241895,
     666307205, 773529912, 1294757372, 1396182291, 1695183700, 1986661051, 2177026350, 2456956037,
     2730485921, 2820302411, 3259730800, 3345764771, 3516065817, 3600352804, 4094571909, 275423344,
     430227734, 506948616, 659060556, 883997877, 958139571, 1322822218, 1537002063, 1747873779,
     1955562222, 2024104815, 2227730452, 2361852424, 2428436474, 2756734187, 3204031479, 3329325298]"

type_synonym sha_state = "w32 \<times> w32 \<times> w32 \<times> w32 \<times> w32 \<times> w32 \<times> w32 \<times> w32"

definition sha_init :: sha_state where
  "sha_init = (1779033703, 3144134277, 1013904242, 2773480762, 1359893119, 2600822924, 528734635, 1541459225)"

definition rotr :: "nat \<Rightarrow> w32 \<Rightarrow> w32" where
  "rotr n w = drop_bit n w OR push_bit (32 - n) w"

definition small0 :: "w32 \<Rightarrow> w32" where
  "small0 w = rotr 7 w XOR rotr 18 w XOR drop_bit 3 w"
definition small1 :: "w32 \<Rightarrow> w32" where
  "small1 w = rotr 17 w XOR rotr 19 w XOR drop_bit 10 w"
definition big0 :: "w32 \<Rightarrow> w32" where
  "big0 w = rotr 2 w XOR rotr 13 w XOR rotr 22 w"
definition big1 :: "w32 \<Rightarrow> w32" where
  "big1 w = rotr 6 w XOR rotr 11 w XOR rotr 25 w"

text \<open>The message schedule, newest word first: 48 words follow the 16 of the block.\<close>

fun schedule :: "nat \<Rightarrow> w32 list \<Rightarrow> w32 list" where
  "schedule 0 ws = ws"
| "schedule (Suc n) ws =
     schedule n ((small1 (ws ! 1) + ws ! 6 + small0 (ws ! 14) + ws ! 15) # ws)"

fun sha_round :: "w32 \<times> w32 \<Rightarrow> sha_state \<Rightarrow> sha_state" where
  "sha_round (k, w) (a, b, c, d, e, f, g, h) =
     (let t1 = h + big1 e + ((e AND f) XOR (NOT e AND g)) + k + w;
          t2 = big0 a + ((a AND b) XOR (a AND c) XOR (b AND c))
      in (t1 + t2, a, b, c, d + t1, e, f, g))"

definition word_of_bytes :: "bytes \<Rightarrow> w32" where
  "word_of_bytes bs = fold (\<lambda>b w. push_bit 8 w OR ucast b) bs 0"

fun chunks :: "nat \<Rightarrow> nat \<Rightarrow> 'a list \<Rightarrow> 'a list list" where
  "chunks 0 m xs = []"
| "chunks (Suc n) m xs = take m xs # chunks n m (drop m xs)"

fun add_state :: "sha_state \<Rightarrow> sha_state \<Rightarrow> sha_state" where
  "add_state (a, b, c, d, e, f, g, h) (a', b', c', d', e', f', g', h') =
     (a + a', b + b', c + c', d + d', e + e', f + f', g + g', h + h')"

definition sha_block :: "bytes \<Rightarrow> sha_state \<Rightarrow> sha_state" where
  "sha_block bs st =
     (let ws = rev (schedule 48 (rev (map word_of_bytes (chunks 16 4 bs))))
      in add_state st (fold sha_round (zip sha_k ws) st))"

definition sha_pad :: "bytes \<Rightarrow> bytes" where
  "sha_pad m = (let l = length m; z = (119 - l mod 64) mod 64
     in m @ [128] @ replicate z 0
        @ map (\<lambda>i. word_of_nat (8 * l div 2 ^ (8 * i))) [7, 6, 5, 4, 3, 2, 1, 0])"

definition bytes_of_word :: "w32 \<Rightarrow> bytes" where
  "bytes_of_word w = [ucast (drop_bit 24 w), ucast (drop_bit 16 w), ucast (drop_bit 8 w), ucast w]"

fun state_words :: "sha_state \<Rightarrow> w32 list" where
  "state_words (a, b, c, d, e, f, g, h) = [a, b, c, d, e, f, g, h]"

definition sha256 :: "bytes \<Rightarrow> bytes" where
  "sha256 m = (let p = sha_pad m
     in concat (map bytes_of_word (state_words (fold sha_block (chunks (length p div 64) 64 p) sha_init))))"

definition hex_byte :: "8 word \<Rightarrow> string" where
  "hex_byte b = [hex_digit (unat b div 16), hex_digit (unat b mod 16)]"

definition hexdigest :: "bytes \<Rightarrow> string" where
  "hexdigest m = concat (map hex_byte (sha256 m))"

text \<open>\<open>"sha256:" + hashlib.sha256(value).hexdigest()\<close>\<close>

definition sha_digest :: "bytes \<Rightarrow> string" where
  "sha_digest m = ''sha256:'' @ hexdigest m"

lemma length_state_words [simp]: "length (state_words st) = 8"
  by (cases st rule: state_words.cases) simp

lemma length_sha256 [simp]: "length (sha256 m) = 32"
proof -
  have "length (concat (map bytes_of_word ws)) = 4 * length ws" for ws
    by (induction ws) (auto simp: bytes_of_word_def)
  then show ?thesis by (simp add: sha256_def Let_def)
qed

lemma hex_byte_lhex: "list_all is_lhex (hex_byte b)"
proof -
  have "unat b < 256" using unsigned_less [of b] by simp
  then show ?thesis by (simp add: hex_byte_def hex_digit_lhex)
qed

lemma hexdigest_shape: "length (hexdigest m) = 64 \<and> list_all is_lhex (hexdigest m)"
proof -
  have "length (concat (map hex_byte bs)) = 2 * length bs \<and> list_all is_lhex (concat (map hex_byte bs))" for bs
    using hex_byte_lhex by (induction bs) (auto simp: hex_byte_def)
  from this [of "sha256 m"] show ?thesis by (simp add: hexdigest_def)
qed

lemma hexdigest_no_slash: "CHR ''/'' \<notin> set (hexdigest v)"
proof
  assume "CHR ''/'' \<in> set (hexdigest v)"
  moreover have "list_all is_lhex (hexdigest v)" using hexdigest_shape [of v] by blast
  moreover have "\<not> is_lhex (CHR ''/'')" by code_simp
  ultimately show False by (auto simp: list_all_iff)
qed

lemma is_digest_sha [simp]: "is_digest (sha_digest m)"
  using hexdigest_shape [of m] by (simp add: sha_digest_def is_digest_def startswith_def)

lemma drop_sha_digest [simp]: "drop 7 (sha_digest m) = hexdigest m"
  by (simp add: sha_digest_def)

end
