(* ===== verification/Py_Files.thy ===== *)
theory Py_Files
  imports Py_IO Py_Url Py_Hash
begin

text \<open>
  Files as the scripts use them: a host is a map from path names to files and
  directories, next to whatever else the outside holds. External commands are parameters
  that act on the whole host. \<open>pathlib\<close>'s operations raise \<open>OSError\<close> where the system
  refuses them.
\<close>

datatype node = File bytes | Dir

record 'x host =
  files :: "string \<rightharpoonup> node"
  outer :: 'x

definition is_file :: "string \<Rightarrow> 'x host \<Rightarrow> bool" where
  "is_file p w = (case files w p of Some (File b) \<Rightarrow> True | _ \<Rightarrow> False)"

definition path_exists :: "string \<Rightarrow> 'x host \<Rightarrow> bool" where
  "path_exists p w = (files w p \<noteq> None)"

definition set_node :: "string \<Rightarrow> node option \<Rightarrow> 'x host \<Rightarrow> 'x host" where
  "set_node p n w = w\<lparr>files := (files w)(p := n)\<rparr>"

lemma files_set_node [simp]: "files (set_node p n w) q = (if q = p then n else files w q)"
  by (simp add: set_node_def)

definition ask :: "('x host \<Rightarrow> 'a) \<Rightarrow> ('x host, 'a) io" where
  "ask f = (\<lambda>w. (Inr (f w), w))"

definition read_bytes :: "string \<Rightarrow> ('x host, bytes) io" where
  "read_bytes p = (\<lambda>w. case files w p of Some (File b) \<Rightarrow> (Inr b, w) | _ \<Rightarrow> (Inl OSError, w))"

definition write_bytes :: "string \<Rightarrow> bytes \<Rightarrow> ('x host, unit) io" where
  "write_bytes p b = (\<lambda>w.
     if files w (path_parent p) = Some Dir \<and> files w p \<noteq> Some Dir
     then (Inr (), set_node p (Some (File b)) w) else (Inl OSError, w))"

text \<open>\<open>unlink(missing_ok=True)\<close>\<close>

definition unlink :: "string \<Rightarrow> ('x host, unit) io" where
  "unlink p = (\<lambda>w. if files w p = Some Dir then (Inl OSError, w) else (Inr (), set_node p None w))"

definition ancestors :: "string \<Rightarrow> string list" where
  "ancestors p = map (\<lambda>n. path_str (path_root p @ join ''/'' (take n (path_parts p)))) [1..<length (path_parts p)]"

text \<open>\<open>mkdir(parents=True, exist_ok=b)\<close>\<close>

definition mkdirs :: "string \<Rightarrow> bool \<Rightarrow> ('x host, unit) io" where
  "mkdirs p exist_ok = (\<lambda>w. case files w p of
     Some Dir \<Rightarrow> if exist_ok then (Inr (), w) else (Inl (FileExistsError p), w)
   | Some (File b) \<Rightarrow> (Inl (FileExistsError p), w)
   | None \<Rightarrow>
       if list_ex (\<lambda>a. is_file a w) (ancestors p) then (Inl OSError, w)
       else (Inr (), w\<lparr>files := (\<lambda>q. if q = p \<or> (q \<in> set (ancestors p) \<and> files w q = None) then Some Dir
                                    else files w q)\<rparr>))"

lemma read_bytes_OK: "read_bytes p w = (Inr b, w') \<longleftrightarrow> files w p = Some (File b) \<and> w' = w"
  by (auto simp: read_bytes_def split: option.split node.split)

lemma write_bytes_OK:
  "write_bytes p b w = (Inr u, w') \<longleftrightarrow>
     files w (path_parent p) = Some Dir \<and> files w p \<noteq> Some Dir \<and> w' = set_node p (Some (File b)) w"
  by (auto simp: write_bytes_def)

lemma unlink_OK: "unlink p w = (Inr u, w') \<longleftrightarrow> files w p \<noteq> Some Dir \<and> w' = set_node p None w"
  by (auto simp: unlink_def)

lemma ask_OK: "ask f w = (Inr x, w') \<longleftrightarrow> x = f w \<and> w' = w"
  by (auto simp: ask_def)

lemma mkdirs_keeps_files: "mkdirs p ok w = (r, w') \<Longrightarrow> files w q = Some n \<Longrightarrow> files w' q = Some n"
  by (auto simp: mkdirs_def split: option.splits node.splits if_splits)

end
