(* ===== verification/Stack_Release.thy ===== *)
theory Stack_Release
  imports Py_Files Stack_Env
begin

text \<open>
  \<^verbatim>\<open>scripts/official_stack_release.py\<close>: the reviewed pin of the stack under test, the checks
  of the released manifest against it, and the two ways a manifest is obtained: a public
  release downloaded and attested, or a candidate handed in before publication. The
  GitHub CLI \<open>gh\<close> acts on the host and is a parameter, as is \<open>loads\<close>, which decodes the
  JSON text of a file (and \<open>decode\<close>, its text). Paths are those after \<open>resolve()\<close>.
\<close>

section \<open>The pin\<close>

record stack_pin =
  pin_repository :: string
  release_tag :: string
  manifest_asset :: string
  manifest_sha256 :: string
  marty_commit :: string

record loaded_pin =
  pin_state :: string
  loaded_tag :: string
  loaded_sha256 :: "string option"
  loaded_commit :: string
  checkout_commit :: string

definition stack_repository :: string where "stack_repository = ''ElevenID/marty-ui''"
definition stack_asset :: string where "stack_asset = ''stack-manifest.json''"

definition number_rx :: rx where
  "number_rx = Alt (Lit ''0'') (Seq (Cls (\<lambda>c. is_digit c \<and> c \<noteq> CHR ''0'')) (Many 0 (Cls is_digit)))"

definition semver_tag :: rx where
  "semver_tag = seqs [Lit ''v'', number_rx, Lit ''.'', number_rx, Lit ''.'', number_rx,
     opt (Seq (Lit ''-'') (Many 1 (Cls (\<lambda>c. is_alnum c \<or> c = CHR ''.'' \<or> c = CHR ''-''))))]"

definition repo_char :: "char \<Rightarrow> bool" where
  "repo_char c = (is_alnum c \<or> c = CHR ''_'' \<or> c = CHR ''.'' \<or> c = CHR ''-'')"

definition repository_name :: rx where
  "repository_name = seqs [Many 1 (Cls repo_char), Lit ''/'', Many 1 (Cls repo_char)]"

definition oci_uri :: rx where
  "oci_uri = seqs [Many 1 (Cls (\<lambda>c. is_lower c \<or> is_digit c \<or> c = CHR ''.'' \<or> c = CHR ''-'')), Lit ''/'',
     Many 1 (Cls (\<lambda>c. is_lower c \<or> is_digit c \<or> c = CHR ''.'' \<or> c = CHR ''_'' \<or> c = CHR ''/'' \<or> c = CHR ''-''))]"

text \<open>\<open>state not in {"ready", "awaiting_release"}\<close>: a list or a dictionary cannot be hashed.\<close>

definition pin_state_of :: "json \<Rightarrow> string result" where
  "pin_state_of j = (case j of
     JStr s \<Rightarrow> if s = ''ready'' \<or> s = ''awaiting_release'' then ret s
               else raise (ValueError ''stack pin state must be ready or awaiting_release'')
   | JArr _ \<Rightarrow> raise TypeError
   | JObj _ \<Rightarrow> raise TypeError
   | _ \<Rightarrow> raise (ValueError ''stack pin state must be ready or awaiting_release''))"

definition pin_commit_of :: "string \<Rightarrow> json \<Rightarrow> string result" where
  "pin_commit_of label j = (case j of
     JStr s \<Rightarrow> if fullmatch commit_rx s then ret s
               else raise (ValueError (''stack pin '' @ label @ '' must be a full lowercase SHA''))
   | _ \<Rightarrow> raise (ValueError (''stack pin '' @ label @ '' must be a full lowercase SHA'')))"

definition pin_digest_of :: "string \<Rightarrow> json \<Rightarrow> string option result" where
  "pin_digest_of state digest =
     (if state = ''ready'' then (case digest of
         JStr d \<Rightarrow> if fullmatch digest_rx d then ret (Some d)
           else raise (ValueError ''ready stack pin manifest_sha256 must be sha256:<64 lowercase hex>'')
       | _ \<Rightarrow> raise (ValueError ''ready stack pin manifest_sha256 must be sha256:<64 lowercase hex>''))
      else if digest \<noteq> JNull
      then raise (ValueError ''awaiting-release stack pin must not invent a manifest digest'')
      else ret None)"

definition load_pin :: "json \<Rightarrow> loaded_pin result" where
  "load_pin data = bindE (py_get data ''schema'' JNull) (\<lambda>schema.
     if schema \<noteq> JStr ''elevenid.official-stack-pin/v1''
     then raise (ValueError ''stack pin must use elevenid.official-stack-pin/v1'')
     else if obj_get data ''repository'' \<noteq> JStr stack_repository
     then raise (ValueError ''stack pin repository must be ElevenID/marty-ui'')
     else if obj_get data ''manifest_asset'' \<noteq> JStr stack_asset
     then raise (ValueError ''stack pin manifest_asset must be stack-manifest.json'')
     else if \<not> fullmatch semver_tag (py_str (obj_get_default data ''release_tag'' (JStr [])))
     then raise (ValueError ''stack pin release_tag must be a v-prefixed SemVer tag'')
     else bindE (pin_state_of (obj_get data ''state'')) (\<lambda>state.
          bindE (pin_digest_of state (obj_get data ''manifest_sha256'')) (\<lambda>digest.
          bindE (pin_commit_of ''marty_commit'' (obj_get data ''marty_commit'')) (\<lambda>commit.
          bindE (pin_commit_of ''marty_checkout_commit'' (obj_get data ''marty_checkout_commit'')) (\<lambda>checkout.
            ret \<lparr>pin_state = state, loaded_tag = py_str (obj_get data ''release_tag''),
                 loaded_sha256 = digest, loaded_commit = commit, checkout_commit = checkout\<rparr>)))))"

definition resolve_pin :: "loaded_pin \<Rightarrow> stack_pin result" where
  "resolve_pin p =
     (if pin_state p \<noteq> ''ready''
      then raise (ValueError (''stack pin is awaiting the signed '' @ loaded_tag p @ '' release and reviewed metadata''))
      else ret \<lparr>pin_repository = stack_repository, release_tag = loaded_tag p, manifest_asset = stack_asset,
                manifest_sha256 = (case loaded_sha256 p of Some d \<Rightarrow> d | None \<Rightarrow> ''None''),
                marty_commit = loaded_commit p\<rparr>)"

section \<open>The manifest\<close>

record stack_image =
  component :: string
  image_repository :: string
  reference :: string

definition release_artifact :: "string \<Rightarrow> string \<Rightarrow> json \<Rightarrow> stack_image list result" where
  "release_artifact name repo artifact =
     (if \<not> is_dict artifact \<or> obj_get artifact ''type'' \<noteq> JStr ''oci'' then ret []
      else if \<not> (is_str (obj_get artifact ''uri'') \<and> fullmatch oci_uri (str_of (obj_get artifact ''uri''))
                 \<and> CHR ''@'' \<notin> set (str_of (obj_get artifact ''uri'')))
      then raise (ValueError (name @ '': OCI URI must be an immutable registry path without tag or digest''))
      else if \<not> (is_str (obj_get artifact ''digest'') \<and> fullmatch digest_rx (str_of (obj_get artifact ''digest'')))
      then raise (ValueError (name @ '': OCI artifact must have a sha256 digest''))
      else ret [\<lparr>component = name, image_repository = repo,
                 reference = str_of (obj_get artifact ''uri'') @ ''@'' @ str_of (obj_get artifact ''digest'')\<rparr>])"

text \<open>One component: its name, the images it contributes, and whether it is the product itself.\<close>

definition release_component :: "string list \<Rightarrow> json \<Rightarrow> (string \<times> stack_image list \<times> json list) result" where
  "release_component names c =
     (if \<not> is_dict c then raise (ValueError ''every stack component must be an object'')
      else let name = str_of (obj_get c ''name''); repo = str_of (obj_get c ''repository'')
        in if \<not> (is_str (obj_get c ''name'') \<and> name \<noteq> [] \<and> name \<notin> set names)
           then raise (ValueError ''stack component names must be non-empty and unique'')
           else if \<not> (is_str (obj_get c ''repository'') \<and> fullmatch repository_name repo)
           then raise (ValueError (name @ '': repository must be owner/name''))
           else if \<not> (is_str (obj_get c ''commit'') \<and> fullmatch commit_rx (str_of (obj_get c ''commit'')))
           then raise (ValueError (name @ '': commit must be a full lowercase SHA''))
           else if arr_of (obj_get c ''artifacts'') = []
           then raise (ValueError (name @ '': at least one artifact is required''))
           else bindE (mapE (release_artifact name repo) (arr_of (obj_get c ''artifacts''))) (\<lambda>xs.
                  ret (name, concat xs, if name = ''marty-ui'' then [c] else [])))"

fun release_components :: "string list \<Rightarrow> json list \<Rightarrow> (stack_image list \<times> json list) result" where
  "release_components names [] = ret ([], [])"
| "release_components names (c # cs) =
     bindE (release_component names c) (\<lambda>(name, images, marty).
       bindE (release_components (names @ [name]) cs) (\<lambda>(images', marty').
         ret (images @ images', marty @ marty')))"

record stack_material =
  material_repository :: string
  material_tag :: string
  material_asset :: string
  manifest_path :: string
  material_sha256 :: string
  stack_release :: string
  material_commit :: string
  material_images :: "stack_image list"
  context_published :: "(string \<times> bool) option"

definition compose_error :: "exn \<Rightarrow> exn" where
  "compose_error e = (case e of
     ValueError s \<Rightarrow> ValueError (''released stack cannot render official Compose inputs: '' @ s) | _ \<Rightarrow> e)"

definition renders :: "json \<Rightarrow> unit result" where
  "renders manifest = catchE
     (bindE (image_map manifest True) (\<lambda>_. bindE (python_artifact_map manifest None) (\<lambda>_. ret ())))
     (\<lambda>e. raise (compose_error e))"

definition check_manifest :: "stack_pin \<Rightarrow> json \<Rightarrow> (stack_image list \<times> string) result" where
  "check_manifest pin manifest = bindE (py_get manifest ''schema'' JNull) (\<lambda>schema.
     if schema \<noteq> JStr ''marty.stack/v1''
     then raise (ValueError ''released stack manifest must use marty.stack/v1'')
     else if obj_get manifest ''release'' \<noteq> JStr (''marty-ui@'' @ drop 1 (release_tag pin))
     then raise (ValueError (''released stack is '' @ py_repr (obj_get manifest ''release'') @ ''; expected ''
                  @ str_repr (''marty-ui@'' @ drop 1 (release_tag pin))))
     else if arr_of (obj_get manifest ''components'') = []
     then raise (ValueError ''released stack manifest contains no components'')
     else bindE (release_components [] (arr_of (obj_get manifest ''components''))) (\<lambda>(images, marty).
       if length marty \<noteq> 1 \<or> obj_get (hd marty) ''repository'' \<noteq> JStr stack_repository
       then raise (ValueError ''released stack must contain exactly one ElevenID/marty-ui component'')
       else if obj_get (hd marty) ''commit'' \<noteq> JStr (marty_commit pin)
       then raise (ValueError (''released stack marty-ui commit is '' @ py_str (obj_get (hd marty) ''commit'')
                    @ ''; expected '' @ marty_commit pin))
       else if images = [] then raise (ValueError ''released stack manifest contains no OCI artifacts'')
       else bindE (renders manifest) (\<lambda>_. ret (images, py_str (obj_get (hd marty) ''commit'')))))"

definition validate_stack_manifest ::
    "(bytes \<Rightarrow> json result) \<Rightarrow> string \<Rightarrow> stack_pin \<Rightarrow> ('x host, stack_material) io" where
  "validate_stack_manifest loads p pin =
     bindIO (read_bytes p) (\<lambda>b.
       if sha_digest b \<noteq> manifest_sha256 pin
       then raiseIO (ValueError (''stack manifest digest mismatch: got '' @ sha_digest b @ '', expected '' @ manifest_sha256 pin))
       else bindIO (read_bytes p) (\<lambda>text. bindIO (liftIO (loads text)) (\<lambda>manifest.
         bindIO (liftIO (check_manifest pin manifest)) (\<lambda>(images, commit).
           retIO \<lparr>material_repository = pin_repository pin, material_tag = release_tag pin,
                  material_asset = manifest_asset pin, manifest_path = p, material_sha256 = sha_digest b,
                  stack_release = ''marty-ui@'' @ drop 1 (release_tag pin), material_commit = commit,
                  material_images = images, context_published = None\<rparr>))))"

section \<open>Obtaining a manifest\<close>

type_synonym 'x gh_tool = "string list \<Rightarrow> ('x host, unit) io"

definition require_gh :: "'x gh_tool option \<Rightarrow> ('x host, 'x gh_tool) io" where
  "require_gh gh = (case gh of
     None \<Rightarrow> raiseIO (ValueError ''GitHub CLI is required to download and attest the released stack manifest'')
   | Some tool \<Rightarrow> retIO tool)"

definition candidate_pin :: "string \<Rightarrow> string \<Rightarrow> string \<Rightarrow> stack_pin" where
  "candidate_pin tag source_sha sha = \<lparr>pin_repository = stack_repository, release_tag = tag,
     manifest_asset = stack_asset, manifest_sha256 = sha, marty_commit = source_sha\<rparr>"

definition candidate_attestation :: "string \<Rightarrow> string \<Rightarrow> string list" where
  "candidate_attestation p source_sha = [''attestation'', ''verify'', p, ''--repo'', stack_repository,
     ''--signer-workflow'', stack_repository @ ''/.github/workflows/cd.yml'', ''--source-digest'', source_sha,
     ''--source-ref'', ''refs/heads/main'', ''--deny-self-hosted-runners'']"

definition write_material :: "string \<Rightarrow> string \<Rightarrow> bytes \<Rightarrow> ('x host, unit) io" where
  "write_material out sha payload =
     bindIO (write_bytes (path_join out stack_asset) payload) (\<lambda>_.
       write_bytes (path_join out ''SHA256SUMS'')
         (utf8 (removeprefix sha ''sha256:'' @ ''  '' @ stack_asset @ [CHR 0x0A])))"

definition materialize_candidate :: "'x gh_tool option \<Rightarrow> (bytes \<Rightarrow> json result) \<Rightarrow> string \<Rightarrow> string \<Rightarrow>
    string \<Rightarrow> string \<Rightarrow> string \<Rightarrow> ('x host, stack_material) io" where
  "materialize_candidate gh loads p tag source_sha sha out =
     (if \<not> fullmatch semver_tag tag \<or> \<not> fullmatch commit_rx source_sha
      then raiseIO (ValueError ''candidate requires an exact version and source commit'')
      else if \<not> fullmatch digest_rx sha
      then raiseIO (ValueError ''candidate requires an independent manifest sha256 digest'')
      else let pin = candidate_pin tag source_sha sha
        in bindIO (validate_stack_manifest loads p pin) (\<lambda>metadata.
           bindIO (read_bytes p) (\<lambda>text. bindIO (liftIO (bindE (loads text) (\<lambda>m. image_map m False))) (\<lambda>_.
           bindIO (require_gh gh) (\<lambda>tool. bindIO (tool (candidate_attestation p source_sha)) (\<lambda>_.
           bindIO (validate_stack_manifest loads p pin) (\<lambda>again.
             if again \<noteq> metadata
             then raiseIO (ValueError ''candidate manifest changed during attestation verification'')
             else bindIO (mkdirs out False) (\<lambda>_. bindIO (read_bytes p) (\<lambda>payload.
               if sha_digest payload \<noteq> sha
               then raiseIO (ValueError ''candidate manifest changed before materialization'')
               else bindIO (write_material out sha payload) (\<lambda>_.
                 retIO (metadata\<lparr>manifest_path := path_join out stack_asset,
                                  context_published := Some (''PRE_PUBLICATION_CANDIDATE'', False)\<rparr>)))))))))))"

definition download :: "'x gh_tool \<Rightarrow> stack_pin \<Rightarrow> string \<Rightarrow> string \<Rightarrow> ('x host, unit) io" where
  "download tool pin asset out = tool [''release'', ''download'', release_tag pin, ''--repo'', pin_repository pin,
     ''--pattern'', asset, ''--dir'', out]"

text \<open>The first field of every line of \<open>SHA256SUMS\<close> that names the manifest.\<close>

definition bound_sums :: "string \<Rightarrow> string \<Rightarrow> string list result" where
  "bound_sums name text = mapE (\<lambda>line. case split_ws line of [] \<Rightarrow> raise IndexError | f # _ \<Rightarrow> ret f)
     (filter (\<lambda>line. endswith line (''  '' @ name)) (splitlines text))"

definition check_sums :: "(bytes \<Rightarrow> string result) \<Rightarrow> string \<Rightarrow> string \<Rightarrow> string \<Rightarrow> ('x host, unit) io" where
  "check_sums decode sums name sha =
     bindIO (ask (is_file sums)) (\<lambda>there.
       if \<not> there then raiseIO (ValueError ''GitHub release download did not produce SHA256SUMS'')
       else bindIO (read_bytes sums) (\<lambda>b. bindIO (liftIO (decode b)) (\<lambda>text.
         bindIO (liftIO (bound_sums name text)) (\<lambda>matching.
           if matching \<noteq> [removeprefix sha ''sha256:'']
           then raiseIO (ValueError ''release checksums do not bind the reviewed stack manifest'')
           else retIO ()))))"

definition check_download :: "string \<Rightarrow> stack_pin \<Rightarrow> ('x host, string) io" where
  "check_download p pin =
     bindIO (ask (is_file p)) (\<lambda>there.
       if \<not> there then raiseIO (ValueError ''GitHub release download did not produce stack-manifest.json'')
       else bindIO (read_bytes p) (\<lambda>b.
         if sha_digest b \<noteq> manifest_sha256 pin
         then bindIO (unlink p) (\<lambda>_. raiseIO (ValueError (''downloaded stack manifest digest is '' @ sha_digest b
                @ ''; expected '' @ manifest_sha256 pin)))
         else retIO (sha_digest b)))"

definition attest_download :: "'x gh_tool \<Rightarrow> (bytes \<Rightarrow> string result) \<Rightarrow> stack_pin \<Rightarrow> string \<Rightarrow> string \<Rightarrow> string \<Rightarrow>
    ('x host, string) io" where
  "attest_download tool decode pin p out actual =
     bindIO (tool [''attestation'', ''verify'', p, ''--repo'', pin_repository pin]) (\<lambda>_.
     bindIO (ask (path_exists (path_join out ''SHA256SUMS''))) (\<lambda>there.
       if there then raiseIO (FileExistsError (''refusing to reuse existing release checksums: '' @ path_join out ''SHA256SUMS''))
       else bindIO (download tool pin ''SHA256SUMS'' out) (\<lambda>_.
         bindIO (check_sums decode (path_join out ''SHA256SUMS'') (path_name p) actual) (\<lambda>_. retIO p))))"

definition download_and_attest :: "'x gh_tool option \<Rightarrow> (bytes \<Rightarrow> string result) \<Rightarrow> stack_pin \<Rightarrow> string \<Rightarrow>
    ('x host, string) io" where
  "download_and_attest gh decode pin out =
     bindIO (require_gh gh) (\<lambda>tool. bindIO (mkdirs out True) (\<lambda>_. let p = path_join out (manifest_asset pin) in
     bindIO (ask (path_exists p)) (\<lambda>there.
       if there then raiseIO (FileExistsError (''refusing to reuse an existing stack manifest: '' @ p))
       else bindIO (download tool pin (manifest_asset pin) out) (\<lambda>_.
            bindIO (check_download p pin) (\<lambda>actual. attest_download tool decode pin p out actual)))))"

end
