(* ===== verification/Stack_Release_Props.thy ===== *)
theory Stack_Release_Props
  imports Stack_Release
begin

text \<open>
  What the release checks establish: the shape of a pin that may be used, the components
  of an accepted manifest, and the bytes a materialised manifest holds.
\<close>

section \<open>The components of a manifest\<close>

definition artifact_ok :: "json \<Rightarrow> bool" where
  "artifact_ok a \<longleftrightarrow> (if is_dict a \<and> obj_get a ''type'' = JStr ''oci''
     then \<exists>u d. obj_get a ''uri'' = JStr u \<and> fullmatch oci_uri u \<and> CHR ''@'' \<notin> set u
        \<and> obj_get a ''digest'' = JStr d \<and> is_digest d
     else True)"

definition artifact_images :: "json \<Rightarrow> json \<Rightarrow> stack_image list" where
  "artifact_images c a = (if is_dict a \<and> obj_get a ''type'' = JStr ''oci''
     then [\<lparr>component = str_of (obj_get c ''name''), image_repository = str_of (obj_get c ''repository''),
            reference = str_of (obj_get a ''uri'') @ ''@'' @ str_of (obj_get a ''digest'')\<rparr>]
     else [])"

definition component_ok :: "json \<Rightarrow> bool" where
  "component_ok c \<longleftrightarrow> is_dict c
     \<and> (\<exists>n r s as. obj_get c ''name'' = JStr n \<and> n \<noteq> [] \<and> obj_get c ''repository'' = JStr r
          \<and> fullmatch repository_name r \<and> obj_get c ''commit'' = JStr s \<and> is_commit s
          \<and> obj_get c ''artifacts'' = JArr as \<and> as \<noteq> [] \<and> list_all artifact_ok as)"

definition component_name :: "json \<Rightarrow> string" where
  "component_name c = str_of (obj_get c ''name'')"

definition images_of :: "json \<Rightarrow> stack_image list" where
  "images_of c = concat (map (artifact_images c) (arr_of (obj_get c ''artifacts'')))"

lemma release_artifact_OK:
  "release_artifact (str_of (obj_get c ''name'')) (str_of (obj_get c ''repository'')) a = Inr xs
     \<longleftrightarrow> artifact_ok a \<and> xs = artifact_images c a"
  by (auto simp: release_artifact_def artifact_ok_def artifact_images_def fullmatch_digest)

lemma arr_of_nonempty: "arr_of j \<noteq> [] \<longleftrightarrow> (\<exists>as. j = JArr as \<and> as \<noteq> [])"
  by (cases j) (auto simp: arr_of_def)

lemma release_component_OK:
  "release_component names c = Inr r \<longleftrightarrow> component_ok c \<and> component_name c \<notin> set names
     \<and> r = (component_name c, images_of c, if component_name c = ''marty-ui'' then [c] else [])"
proof (cases "is_dict c \<and> is_str (obj_get c ''name'') \<and> is_str (obj_get c ''repository'')
    \<and> is_str (obj_get c ''commit'') \<and> arr_of (obj_get c ''artifacts'') \<noteq> []")
  case True
  from True obtain n r s as where
    f: "obj_get c ''name'' = JStr n" "obj_get c ''repository'' = JStr r" "obj_get c ''commit'' = JStr s"
       "obj_get c ''artifacts'' = JArr as" "as \<noteq> []" and d: "is_dict c"
    unfolding arr_of_nonempty json_tests(3) by blast
  have m: "mapE (release_artifact n r) as = Inr xs \<longleftrightarrow> list_all artifact_ok as \<and> xs = map (artifact_images c) as" for xs
    using mapE_check [OF release_artifact_OK [where c = c], where xs = as and ys = xs] f by simp
  have L: "component_ok c \<longleftrightarrow> n \<noteq> [] \<and> fullmatch repository_name r \<and> is_commit s \<and> list_all artifact_ok as"
    using f d by (simp add: component_ok_def del: json_tests)
  show ?thesis
    unfolding L release_component_def Let_def
    using d f by (auto simp: component_name_def images_of_def m fullmatch_commit is_str_def simp del: json_tests)
next
  case False
  then have "\<not> component_ok c" by (auto simp: component_ok_def arr_of_def simp del: json_tests simp: is_str_def)
  moreover have "release_component names c \<noteq> Inr r"
    using False by (auto simp: release_component_def Let_def simp del: json_tests split: if_splits)
  ultimately show ?thesis by simp
qed

text \<open>
  A manifest's components are accepted exactly when each is well formed (a name,
  an owner and repository, a full commit, artifacts whose OCI entries are a registry path
  and a digest) and no name occurs twice; then the images and the product component are
  those of the manifest, in its order.
\<close>

theorem release_components_exact:
  "release_components [] cs = Inr (images, marty) \<longleftrightarrow>
     list_all component_ok cs \<and> distinct (map component_name cs)
     \<and> images = concat (map images_of cs) \<and> marty = filter (\<lambda>c. component_name c = ''marty-ui'') cs"
proof -
  have "release_components names cs = Inr (images, marty) \<longleftrightarrow>
     list_all component_ok cs \<and> distinct (map component_name cs) \<and> set names \<inter> component_name ` set cs = {}
     \<and> images = concat (map images_of cs) \<and> marty = filter (\<lambda>c. component_name c = ''marty-ui'') cs" for names
  proof (induction cs arbitrary: names images marty)
    case (Cons c cs)
    show ?case
      unfolding release_components.simps bindE_eq_Inr release_component_OK
      by (auto simp: Cons.IH)
  qed auto
  from this [of "[]"] show ?thesis by simp
qed

section \<open>The pin\<close>

lemma pin_state_OK: "pin_state_of j = Inr s \<longleftrightarrow> j = JStr s \<and> (s = ''ready'' \<or> s = ''awaiting_release'')"
  by (cases j) (auto simp: pin_state_of_def)

lemma pin_commit_OK: "pin_commit_of l j = Inr s \<longleftrightarrow> j = JStr s \<and> is_commit s"
  by (cases j) (auto simp: pin_commit_of_def fullmatch_commit)

lemma pin_digest_ready: "pin_digest_of ''ready'' j = Inr d \<longleftrightarrow> (\<exists>s. d = Some s \<and> j = JStr s \<and> is_digest s)"
  by (cases j) (auto simp: pin_digest_of_def fullmatch_digest)

text \<open>
  A pin is usable exactly when it is ready and names the product repository, the
  manifest asset, a SemVer tag, a SHA-256 digest and two full commits; an awaiting pin is
  never resolved.
\<close>

theorem resolved_pin_exact:
  "bindE (load_pin data) resolve_pin = Inr p \<longleftrightarrow>
     (\<exists>tag d c k. obj_get data ''schema'' = JStr ''elevenid.official-stack-pin/v1''
        \<and> obj_get data ''repository'' = JStr ''ElevenID/marty-ui''
        \<and> obj_get data ''manifest_asset'' = JStr ''stack-manifest.json''
        \<and> fullmatch semver_tag (py_str (obj_get_default data ''release_tag'' (JStr [])))
        \<and> tag = py_str (obj_get data ''release_tag'')
        \<and> obj_get data ''state'' = JStr ''ready'' \<and> obj_get data ''manifest_sha256'' = JStr d \<and> is_digest d
        \<and> obj_get data ''marty_commit'' = JStr c \<and> is_commit c
        \<and> obj_get data ''marty_checkout_commit'' = JStr k \<and> is_commit k
        \<and> p = \<lparr>pin_repository = ''ElevenID/marty-ui'', release_tag = tag, manifest_asset = ''stack-manifest.json'',
               manifest_sha256 = d, marty_commit = c\<rparr>)"
proof (cases "is_dict data")
  case True
  then obtain kvs where "data = JObj kvs" by auto
  then show ?thesis
    by (auto simp: load_pin_def resolve_pin_def stack_repository_def stack_asset_def obj_get_default_JNull
        pin_state_OK pin_commit_OK pin_digest_ready simp del: obj_get_simps)
next
  case False
  then have "load_pin data = Inl AttributeError" and "obj_get data ''schema'' = JNull"
    by (cases data; simp add: load_pin_def py_get_def obj_get_def)+
  then show ?thesis by simp
qed

section \<open>Materialised manifests\<close>

lemma validate_OK:
  "validate_stack_manifest loads p pin w = (Inr m, w') \<longleftrightarrow> w' = w \<and>
     (\<exists>b manifest images commit. files w p = Some (File b) \<and> sha_digest b = manifest_sha256 pin
        \<and> loads b = Inr manifest \<and> check_manifest pin manifest = Inr (images, commit)
        \<and> m = \<lparr>material_repository = pin_repository pin, material_tag = release_tag pin,
               material_asset = manifest_asset pin, manifest_path = p, material_sha256 = sha_digest b,
               stack_release = ''marty-ui@'' @ drop 1 (release_tag pin), material_commit = commit,
               material_images = images, context_published = None\<rparr>)"
  by (auto simp: validate_stack_manifest_def bindIO_OK read_bytes_OK split: if_splits)

lemma asset_names: "path_join out stack_asset \<noteq> path_join out ''SHA256SUMS''"
  using path_join_eqD [of out stack_asset out "''SHA256SUMS''"]
  by (auto simp: plain_name_def stack_asset_def)

lemma write_material_OK:
  assumes "write_material out sha payload w = (Inr u, w')"
  shows "files w' (path_join out stack_asset) = Some (File payload)
     \<and> files w' (path_join out ''SHA256SUMS'') = Some (File (utf8 (removeprefix sha ''sha256:'' @ ''  '' @ stack_asset @ [CHR 0x0A])))"
  using assms asset_names by (auto simp: write_material_def bindIO_OK write_bytes_OK)

text \<open>
  Claim C19. A candidate is materialised only when its bytes have the digest the producer
  announced, its manifest renders every current image, and the attestation command for
  that file and commit succeeded on the host as it was found; the file written and its
  checksum line then are those bytes and that digest.
\<close>

theorem materialize_candidate_bytes:
  "case materialize_candidate gh loads p tag source_sha sha out w of
     (Inl e, w') \<Rightarrow> True
   | (Inr meta, w') \<Rightarrow>
       is_commit source_sha \<and> fullmatch semver_tag tag
       \<and> (\<exists>b manifest r tool w1. files w p = Some (File b) \<and> sha_digest b = sha \<and> loads b = Inr manifest
            \<and> image_map manifest False = Inr r
            \<and> gh = Some tool \<and> tool (candidate_attestation p source_sha) w = (Inr (), w1))
       \<and> (\<exists>payload. sha_digest payload = sha \<and> files w' (path_join out stack_asset) = Some (File payload)
            \<and> files w' (path_join out ''SHA256SUMS'') =
                Some (File (utf8 (removeprefix sha ''sha256:'' @ ''  '' @ stack_asset @ [CHR 0x0A]))))
       \<and> material_sha256 meta = sha \<and> context_published meta = Some (''PRE_PUBLICATION_CANDIDATE'', False)"
proof -
  obtain r w' where run: "materialize_candidate gh loads p tag source_sha sha out w = (r, w')"
    by (cases "materialize_candidate gh loads p tag source_sha sha out w")
  show ?thesis
  proof (cases r)
    case (Inl e)
    with run show ?thesis by simp
  next
    case (Inr meta)
    let ?pin = "candidate_pin tag source_sha sha"
    from run Inr obtain m wv tx man tool w1 w3 payload rr where
      ok: "fullmatch semver_tag tag" "fullmatch commit_rx source_sha"
      and v: "validate_stack_manifest loads p ?pin w = (Inr m, wv)"
      and t: "files wv p = Some (File tx)" "loads tx = Inr man" "image_map man False = Inr rr"
      and tool: "gh = Some tool" "tool (candidate_attestation p source_sha) wv = (Inr (), w1)"
      and pay: "sha_digest payload = sha" "write_material out sha payload w3 = (Inr (), w')"
      and meta: "meta = m\<lparr>manifest_path := path_join out stack_asset,
                       context_published := Some (''PRE_PUBLICATION_CANDIDATE'', False)\<rparr>"
      unfolding materialize_candidate_def Let_def
      by (auto simp: bindIO_OK read_bytes_OK require_gh_def split: if_splits option.splits)
    from v obtain b where b: "wv = w" "files w p = Some (File b)" "sha_digest b = sha" "material_sha256 m = sha"
      by (auto simp: validate_OK candidate_pin_def)
    with t tool have "\<exists>b manifest r tool w1. files w p = Some (File b) \<and> sha_digest b = sha \<and> loads b = Inr manifest
            \<and> image_map manifest False = Inr r
            \<and> gh = Some tool \<and> tool (candidate_attestation p source_sha) w = (Inr (), w1)"
      by auto
    moreover have "\<exists>payload. sha_digest payload = sha \<and> files w' (path_join out stack_asset) = Some (File payload)
            \<and> files w' (path_join out ''SHA256SUMS'') =
                Some (File (utf8 (removeprefix sha ''sha256:'' @ ''  '' @ stack_asset @ [CHR 0x0A])))"
      using pay write_material_OK [OF pay(2)] by blast
    ultimately show ?thesis
      using run Inr ok b(4) meta by (simp add: fullmatch_commit)
  qed
qed

lemma check_download_cases:
  "check_download p pin w = (case files w p of
     Some (File b) \<Rightarrow>
       (if sha_digest b = manifest_sha256 pin then (Inr (sha_digest b), w)
        else (Inl (ValueError (''downloaded stack manifest digest is '' @ sha_digest b
                @ ''; expected '' @ manifest_sha256 pin)), set_node p None w))
   | _ \<Rightarrow> (Inl (ValueError ''GitHub release download did not produce stack-manifest.json''), w))"
  by (simp add: check_download_def bindIO_def ask_def is_file_def read_bytes_def unlink_def
      split: option.split node.split)

lemma check_download_OK:
  "check_download p pin w = (Inr a, w') \<longleftrightarrow>
     (\<exists>b. files w p = Some (File b) \<and> sha_digest b = manifest_sha256 pin \<and> a = manifest_sha256 pin \<and> w' = w)"
  unfolding check_download_cases by (auto split: option.splits node.splits if_splits)

text \<open>
  A downloaded manifest is returned only after the attestation command succeeded
  on a host where its bytes had the pinned digest, and the release checksums name exactly
  that digest for it at the end.
\<close>

theorem download_and_attest_checked:
  "case download_and_attest gh decode pin out w of
     (Inl e, w') \<Rightarrow> True
   | (Inr p, w') \<Rightarrow> p = path_join out (manifest_asset pin) \<and> \<not> path_exists p (snd (mkdirs out True w))
       \<and> (\<exists>tool w1 w2 b. gh = Some tool \<and> files w1 p = Some (File b) \<and> sha_digest b = manifest_sha256 pin
            \<and> tool [''attestation'', ''verify'', p, ''--repo'', pin_repository pin] w1 = (Inr (), w2))
       \<and> (\<exists>s text. files w' (path_join out ''SHA256SUMS'') = Some (File s) \<and> decode s = Inr text
            \<and> bound_sums (path_name p) text = Inr [removeprefix (manifest_sha256 pin) ''sha256:''])"
proof -
  obtain r w' where run: "download_and_attest gh decode pin out w = (r, w')"
    by (cases "download_and_attest gh decode pin out w")
  show ?thesis
  proof (cases r)
    case (Inl e)
    with run show ?thesis by simp
  next
    case (Inr q)
    let ?p = "path_join out (manifest_asset pin)"
    from run Inr obtain tool wm wd wc actual where
      tool: "gh = Some tool" and m: "mkdirs out True w = (Inr (), wm)" and fresh: "\<not> path_exists ?p wm"
      and c: "check_download ?p pin wd = (Inr actual, wc)"
      and a: "attest_download tool decode pin ?p out actual wc = (Inr q, w')"
      unfolding download_and_attest_def Let_def
      by (auto simp: bindIO_OK ask_OK require_gh_def split: if_splits option.splits)
    from c obtain b where b: "files wc ?p = Some (File b)" "sha_digest b = manifest_sha256 pin" "actual = manifest_sha256 pin"
      unfolding check_download_OK by blast
    from a obtain w2 wx where t: "tool [''attestation'', ''verify'', ?p, ''--repo'', pin_repository pin] wc = (Inr (), w2)"
      and s: "check_sums decode (path_join out ''SHA256SUMS'') (path_name ?p) actual wx = (Inr (), w')" and q: "q = ?p"
      unfolding attest_download_def
      by (auto simp: bindIO_OK ask_OK split: if_splits)
    from s have "\<exists>s text. files w' (path_join out ''SHA256SUMS'') = Some (File s) \<and> decode s = Inr text
            \<and> bound_sums (path_name ?p) text = Inr [removeprefix (manifest_sha256 pin) ''sha256:'']"
      unfolding check_sums_def b(3)
      by (auto simp: bindIO_OK ask_OK read_bytes_OK split: if_splits)
    moreover have "\<exists>tool w1 w2 b. gh = Some tool \<and> files w1 ?p = Some (File b) \<and> sha_digest b = manifest_sha256 pin
            \<and> tool [''attestation'', ''verify'', ?p, ''--repo'', pin_repository pin] w1 = (Inr (), w2)"
      using tool b t by blast
    ultimately show ?thesis using run Inr q m fresh by simp
  qed
qed

text \<open>
  A download with another digest is never kept: the check raises and the file is
  gone, so a replaced release asset cannot stay behind.
\<close>

theorem check_download_removes:
  "case files w p of
     Some (File b) \<Rightarrow>
       (if sha_digest b = manifest_sha256 pin then check_download p pin w = (Inr (sha_digest b), w)
        else \<exists>msg. check_download p pin w = (Inl (ValueError msg), set_node p None w))
   | _ \<Rightarrow> \<exists>msg. check_download p pin w = (Inl (ValueError msg), w)"
  unfolding check_download_cases by (simp split: option.split node.split)

end
