(* ===== verification/Suite_Checkout.thy ===== *)
theory Suite_Checkout
  imports Py_Files Py_Json Py_Regex
begin

text \<open>
  \<^verbatim>\<open>scripts/official_suite_checkout.py\<close> and \<^verbatim>\<open>scripts/official_suite_updates.py\<close>: an official
  test suite is checked out at the commit its manifest pins and proved unmodified; a
  separate check reports when upstream has moved. Git is a parameter that acts on the
  host and returns its standard output, manifests are JSON values.
\<close>

section \<open>Pinned sources\<close>

record suite =
  manifest_section :: string
  suite_repository :: string

text \<open>\<open>SUITES\<close>; the manifest file of each is the argument \<open>manifests\<close> below.\<close>

definition suites :: "(string \<times> suite) list" where
  "suites =
    [(''oidf'', \<lparr>manifest_section = ''official_runner'',
        suite_repository = ''https://gitlab.com/openid/conformance-suite.git''\<rparr>),
     (''w3c'', \<lparr>manifest_section = ''official_suite'',
        suite_repository = ''https://github.com/w3c/vc-data-model-2.0-test-suite.git''\<rparr>)]"

definition suite_of :: "string \<Rightarrow> suite result" where
  "suite_of name = (case map_of suites name of None \<Rightarrow> raise (KeyError name) | Some s \<Rightarrow> ret s)"

definition pinned_source :: "(string \<Rightarrow> json result) \<Rightarrow> string \<Rightarrow> (string \<times> string) result" where
  "pinned_source manifests name = bindE (suite_of name) (\<lambda>s. bindE (manifests name) (\<lambda>data.
     bindE (py_get data (manifest_section s) (JObj [])) (\<lambda>sec.
     bindE (py_get sec ''repository'' JNull) (\<lambda>repo. let
       commit = obj_get sec ''commit''
     in if repo \<noteq> JStr (suite_repository s)
        then raise (ValueError (name @ '' manifest does not use the reviewed official repository''))
        else if \<not> (is_str commit \<and> fullmatch commit_rx (str_of commit))
        then raise (ValueError (name @ '' manifest does not pin a full lowercase commit''))
        else if obj_get sec ''source_policy'' \<noteq> JStr ''unmodified''
        then raise (ValueError (name @ '' manifest source policy must be unmodified''))
        else ret (suite_repository s, str_of commit)))))"

section \<open>Checkout\<close>

type_synonym 'x git_tool = "string list \<Rightarrow> string \<Rightarrow> ('x host, string) io"

definition run_git :: "'x git_tool \<Rightarrow> string list \<Rightarrow> string \<Rightarrow> ('x host, unit) io" where
  "run_git git arguments cwd = bindIO (git arguments cwd) (\<lambda>_. retIO ())"

definition verify_checkout :: "'x git_tool \<Rightarrow> (string \<Rightarrow> json result) \<Rightarrow> string \<Rightarrow> string \<Rightarrow> ('x host, string) io" where
  "verify_checkout git manifests name out =
     bindIO (liftIO (pinned_source manifests name)) (\<lambda>(_, commit).
     bindIO (git [''rev-parse'', ''HEAD''] out) (\<lambda>head.
       if strip head \<noteq> commit
       then raiseIO (ValueError (name @ '' checkout resolved '' @ strip head @ ''; expected '' @ commit))
       else bindIO (git [''status'', ''--porcelain=v1'', ''--untracked-files=all''] out) (\<lambda>status.
         if splitlines status \<noteq> []
         then raiseIO (ValueError (name @ '' official checkout is not byte-for-byte clean: ''
                @ join '', '' (map (drop 3) (splitlines status))))
         else retIO commit)))"

text \<open>\<open>output.exists() and any(output.iterdir())\<close>\<close>

definition has_entries :: "string \<Rightarrow> 'x host \<Rightarrow> bool" where
  "has_entries p w \<longleftrightarrow> (\<exists>q. files w q \<noteq> None \<and> startswith q (p @ ''/''))"

definition occupied :: "string \<Rightarrow> ('x host, bool) io" where
  "occupied p = (\<lambda>w. case files w p of
     None \<Rightarrow> (Inr False, w) | Some (File _) \<Rightarrow> (Inl OSError, w) | Some Dir \<Rightarrow> (Inr (has_entries p w), w))"

definition checkout :: "'x git_tool \<Rightarrow> (string \<Rightarrow> json result) \<Rightarrow> string \<Rightarrow> string \<Rightarrow> ('x host, string) io" where
  "checkout git manifests name out =
     bindIO (liftIO (pinned_source manifests name)) (\<lambda>(repo, commit).
     bindIO (occupied out) (\<lambda>busy.
       if busy then raiseIO (FileExistsError (''refusing to reuse a non-empty official-suite checkout: '' @ out))
       else bindIO (mkdirs out True) (\<lambda>_.
            bindIO (run_git git [''init''] out) (\<lambda>_.
            bindIO (run_git git [''config'', ''core.autocrlf'', ''false''] out) (\<lambda>_.
            bindIO (run_git git [''remote'', ''add'', ''origin'', repo] out) (\<lambda>_.
            bindIO (run_git git [''fetch'', ''--depth'', ''1'', ''origin'', commit] out) (\<lambda>_.
            bindIO (run_git git [''-c'', ''advice.detachedHead=false'', ''checkout'', ''--detach'', ''FETCH_HEAD''] out) (\<lambda>_.
              verify_checkout git manifests name out))))))))"

section \<open>Upstream drift\<close>

type_synonym ls_remote = "string list \<Rightarrow> string result"

definition full_sha :: "string \<Rightarrow> string \<Rightarrow> string \<Rightarrow> string result" where
  "full_sha sha repo ref = (if length sha \<noteq> 40
     then raise (RuntimeError (''no full commit SHA returned for '' @ repo @ '' '' @ ref)) else ret sha)"

definition git_head :: "ls_remote \<Rightarrow> string \<Rightarrow> string \<Rightarrow> string result" where
  "git_head ls repo ref = bindE (ls [repo, ref]) (\<lambda>out.
     full_sha (case split_ws out of [] \<Rightarrow> [] | sha # _ \<Rightarrow> sha) repo ref)"

text \<open>One line of \<open>git ls-remote\<close>: a later line for the same ref wins.\<close>

definition ref_lines :: "string \<Rightarrow> (string \<times> string) list" where
  "ref_lines out = fold (\<lambda>line d. case split_ws line of [sha, ref] \<Rightarrow> put ref sha d | _ \<Rightarrow> d) (splitlines out) []"

definition git_tag_commit :: "ls_remote \<Rightarrow> string \<Rightarrow> string \<Rightarrow> string result" where
  "git_tag_commit ls repo tag = (let ref = ''refs/tags/'' @ tag; peeled = ref @ ''^{}''
     in bindE (ls [repo, ref, peeled]) (\<lambda>out. let
          candidates = map_of (ref_lines out);
          direct = (case candidates ref of None \<Rightarrow> [] | Some s \<Rightarrow> s)
        in full_sha (case candidates peeled of None \<Rightarrow> direct | Some s \<Rightarrow> if s = [] then direct else s) repo tag))"

definition latest_oidf_release :: "json \<Rightarrow> string result" where
  "latest_oidf_release payload =
     (if \<not> is_dict payload then raise (RuntimeError ''OIDF latest-release response is not a JSON object'')
      else case obj_get payload ''tag_name'' of
        JStr v \<Rightarrow> if \<not> startswith v ''release-v''
          then raise (RuntimeError ''OIDF latest-release response has no release-v tag'') else ret v
      | _ \<Rightarrow> raise (RuntimeError ''OIDF latest-release response has no string tag_name''))"

text \<open>\<open>urlparse\<close> moves what follows a \<open>;\<close> of the last segment out of the path.\<close>

definition drop_params :: "string \<Rightarrow> string" where
  "drop_params p = (let seg = after_last (CHR ''/'') p in
     if mem (CHR '';'') seg then take (length p - length seg) p @ before_first (CHR '';'') seg else p)"

definition github_release_path :: "string \<Rightarrow> (string \<times> string) result" where
  "github_release_path repo = bindE (urlsplit repo) (\<lambda>parsed.
     if scheme parsed \<noteq> ''https'' \<or> py_lower (netloc parsed) \<noteq> ''github.com''
     then raise (RuntimeError (''interoperability repository is not on GitHub: '' @ repo))
     else let parts = split_on (CHR ''/'') (strip_char (CHR ''/'') (removesuffix (drop_params (path parsed)) ''.git''))
       in if length parts \<noteq> 2 \<or> \<not> list_all (\<lambda>p. p \<noteq> []) parts
          then raise (RuntimeError (''official GitHub repository URL is invalid: '' @ repo))
          else ret (parts ! 0, parts ! 1))"

definition latest_github_release :: "(string \<Rightarrow> json result) \<Rightarrow> string \<Rightarrow> string result" where
  "latest_github_release fetch repo = bindE (github_release_path repo) (\<lambda>(owner, name).
     bindE (fetch (''https://api.github.com/repos/'' @ owner @ ''/'' @ name @ ''/releases/latest'')) (\<lambda>payload.
       if \<not> is_dict payload then raise (RuntimeError ''GitHub latest-release response is not a JSON object'')
       else case obj_get payload ''tag_name'' of
         JStr v \<Rightarrow> if v = [] then raise (RuntimeError ''GitHub latest-release response has no string tag_name'') else ret v
       | _ \<Rightarrow> raise (RuntimeError ''GitHub latest-release response has no string tag_name'')))"

definition load_object_file :: "(string \<Rightarrow> json result) \<Rightarrow> string \<Rightarrow> json result" where
  "load_object_file repo_json relative = bindE (repo_json relative) (\<lambda>v.
     if is_dict v then ret v else raise (RuntimeError (relative @ '' must contain a JSON object'')))"

text \<open>\<open>component["repository"]\<close> and the like, for values the tools take as text.\<close>

definition text_key :: "json \<Rightarrow> string \<Rightarrow> string result" where
  "text_key j k = bindE (py_key j k) (\<lambda>v. case v of JStr s \<Rightarrow> ret s | _ \<Rightarrow> raise TypeError)"

definition released_upstream :: "ls_remote \<Rightarrow> (string \<Rightarrow> json result) \<Rightarrow> json \<Rightarrow> json result" where
  "released_upstream ls fetch c =
     bindE (text_key c ''repository'') (\<lambda>repo. bindE (latest_github_release fetch repo) (\<lambda>latest.
     bindE (py_key c ''release'') (\<lambda>release. bindE (py_key c ''commit'') (\<lambda>commit.
     bindE (git_tag_commit ls repo latest) (\<lambda>head.
       ret (JObj [(''pinned_release'', release), (''latest_release'', JStr latest),
                  (''pinned_commit'', commit), (''latest_commit'', JStr head)]))))))"

definition observe_upstreams :: "ls_remote \<Rightarrow> (string \<Rightarrow> json result) \<Rightarrow> (string \<Rightarrow> json result) \<Rightarrow> json result" where
  "observe_upstreams ls fetch repo_json =
     bindE (bindE (load_object_file repo_json ''conformance/oidf-runner.json'') (\<lambda>j. py_key j ''official_runner'')) (\<lambda>oidf.
     bindE (bindE (load_object_file repo_json ''conformance/w3c-vc-data-model-v2.json'') (\<lambda>j. py_key j ''official_suite'')) (\<lambda>w3c.
     bindE (bindE (load_object_file repo_json ''conformance/eudi-reference-interop.json'') (\<lambda>j. py_key j ''components'')) (\<lambda>eudi.
     bindE (bindE (load_object_file repo_json ''conformance/didcomm-interoperability.json'') (\<lambda>j. py_key j ''independent_implementation'')) (\<lambda>didcomm.
     bindE (bindE (fetch ''https://gitlab.com/api/v4/projects/openid%2Fconformance-suite/releases/permalink/latest'') latest_oidf_release) (\<lambda>latest.
     bindE (py_key oidf ''release'') (\<lambda>oidf_release. bindE (py_key oidf ''commit'') (\<lambda>oidf_commit.
     bindE (bindE (text_key oidf ''repository'') (\<lambda>r. git_tag_commit ls r latest)) (\<lambda>oidf_head.
     bindE (py_key w3c ''commit'') (\<lambda>w3c_commit.
     bindE (bindE (text_key w3c ''repository'') (\<lambda>r. git_head ls r ''refs/heads/main'')) (\<lambda>w3c_head.
     bindE (released_upstream ls fetch didcomm) (\<lambda>didcomm_row.
     bindE (bindE (py_key eudi ''verifier_endpoint'') (released_upstream ls fetch)) (\<lambda>verifier_row.
     bindE (bindE (py_key eudi ''wallet_kit'') (\<lambda>k. py_key k ''libraries'')) (\<lambda>libs. case libs of
       JObj libraries \<Rightarrow>
         bindE (mapE (\<lambda>(name, lib). bindE (released_upstream ls fetch lib) (\<lambda>row.
                  ret (''eudi_wallet_kit_'' @ name, row))) libraries) (\<lambda>rows.
           ret (JObj [(''schema'', JStr ''elevenid.official-suite-upstream-review/v1''),
             (''upstreams'', JObj (merge
               [(''oidf'', JObj [(''pinned_release'', oidf_release), (''latest_release'', JStr latest),
                                 (''pinned_commit'', oidf_commit), (''latest_commit'', JStr oidf_head)]),
                (''w3c_vc_data_model_v2'', JObj [(''pinned_commit'', w3c_commit), (''latest_commit'', JStr w3c_head)]),
                (''didcomm_independent_implementation'', didcomm_row),
                (''eudi_verifier_endpoint'', verifier_row)] rows))]))
     | _ \<Rightarrow> raise AttributeError)))))))))))))"

definition entry_drift :: "json \<Rightarrow> bool" where
  "entry_drift e = (\<not> py_eq (obj_get e ''pinned_release'') (obj_get e ''latest_release'')
     \<or> \<not> py_eq (obj_get e ''pinned_commit'') (obj_get e ''latest_commit''))"

definition has_drift :: "json \<Rightarrow> bool result" where
  "has_drift observation = bindE (py_key observation ''upstreams'') (\<lambda>u. case u of
     JObj rows \<Rightarrow> ret (list_ex (entry_drift \<circ> snd) rows) | _ \<Rightarrow> raise AttributeError)"

text \<open>\<open>main\<close>: the exit status, and whether the review record is rewritten.\<close>

definition updates_main :: "ls_remote \<Rightarrow> (string \<Rightarrow> json result) \<Rightarrow> (string \<Rightarrow> json result) \<Rightarrow> bool \<Rightarrow> (nat \<times> bool) result" where
  "updates_main ls fetch repo_json do_write =
     bindE (observe_upstreams ls fetch repo_json) (\<lambda>ob. bindE (has_drift ob) (\<lambda>drift.
       ret (if drift then 3 else 0, do_write \<and> drift)))"

section \<open>Properties\<close>

lemma pinned_source_OK:
  "pinned_source manifests name = Inr (repo, commit) \<longleftrightarrow>
     (\<exists>s data. map_of suites name = Some s \<and> manifests name = Inr data \<and> repo = suite_repository s
        \<and> is_dict data \<and> is_dict (obj_get_default data (manifest_section s) (JObj []))
        \<and> obj_get (obj_get_default data (manifest_section s) (JObj [])) ''repository'' = JStr repo
        \<and> obj_get (obj_get_default data (manifest_section s) (JObj [])) ''commit'' = JStr commit \<and> is_commit commit
        \<and> obj_get (obj_get_default data (manifest_section s) (JObj [])) ''source_policy'' = JStr ''unmodified'')"
proof -
  have chk: "(if r \<noteq> JStr sr then raise e1 else if \<not> (is_str c \<and> fullmatch commit_rx (str_of c)) then raise e2
      else if pol \<noteq> JStr ''unmodified'' then raise e3 else ret (sr, str_of c)) = Inr (repo, commit)
    \<longleftrightarrow> r = JStr sr \<and> sr = repo \<and> c = JStr commit \<and> is_commit commit \<and> pol = JStr ''unmodified''"
    for r sr c pol e1 e2 e3
    by (cases c) (auto simp: fullmatch_commit)
  show ?thesis
    unfolding pinned_source_def suite_of_def Let_def bindE_eq_Inr chk py_get_Inr obj_get_default_JNull
    by (auto split: option.splits)
qed

text \<open>
  A checkout is reported only when it is the reviewed one: the suite is a known
  one whose manifest names the official repository, an unmodified policy and a full
  commit; \<open>git fetch\<close> of that commit was run in an unoccupied directory, HEAD then is that
  commit and the working tree has no change.
\<close>

theorem checkout_reviewed:
  "case checkout git manifests name out w of
     (Inl e, w') \<Rightarrow> True
   | (Inr commit, w') \<Rightarrow> \<exists>repo head st w1 w2 w3 w4.
       pinned_source manifests name = Inr (repo, commit) \<and> is_commit commit
       \<and> (files w out = None \<or> files w out = Some Dir \<and> \<not> has_entries out w)
       \<and> git [''fetch'', ''--depth'', ''1'', ''origin'', commit] out w1 = (Inr st, w2)
       \<and> git [''rev-parse'', ''HEAD''] out w3 = (Inr head, w4) \<and> strip head = commit
       \<and> (\<exists>status. git [''status'', ''--porcelain=v1'', ''--untracked-files=all''] out w4 = (Inr status, w')
            \<and> splitlines status = [])"
proof -
  obtain r w' where run: "checkout git manifests name out w = (r, w')" by (cases "checkout git manifests name out w")
  show ?thesis
  proof (cases r)
    case (Inl e)
    with run show ?thesis by simp
  next
    case (Inr c)
    from run Inr obtain repo commit wv w1 w2 st where
      pin: "pinned_source manifests name = Inr (repo, commit)"
      and free: "occupied out w = (Inr False, w)"
      and fetch: "git [''fetch'', ''--depth'', ''1'', ''origin'', commit] out w1 = (Inr st, w2)"
      and v: "verify_checkout git manifests name out wv = (Inr c, w')"
      unfolding checkout_def
      by (auto simp: bindIO_OK run_git_def occupied_def split: if_splits option.splits node.splits)
    from v pin obtain head w4 status where
      "c = commit" "git [''rev-parse'', ''HEAD''] out wv = (Inr head, w4)" "strip head = commit"
      "git [''status'', ''--porcelain=v1'', ''--untracked-files=all''] out w4 = (Inr status, w')" "splitlines status = []"
      unfolding verify_checkout_def by (auto simp: bindIO_OK split: if_splits)
    moreover have "files w out = None \<or> files w out = Some Dir \<and> \<not> has_entries out w"
      using free by (auto simp: occupied_def split: option.splits node.splits)
    moreover have "is_commit commit" using pin by (auto simp: pinned_source_OK)
    ultimately show ?thesis using run Inr pin fetch by auto
  qed
qed

end
