(* ===== verification/Docker_Context.thy ===== *)
theory Docker_Context
  imports Py_IO Py_Json Py_Regex Py_Url
begin

text \<open>
  \<^verbatim>\<open>scripts/docker_context.py\<close>, \<^verbatim>\<open>scripts/oidf_runner_compose.py\<close> and
  \<^verbatim>\<open>scripts/official_process_environment.py\<close>: which Docker endpoint the tools talk to,
  whether its bind mounts live on this host, which Compose project a container belongs
  to, and the checked invocation of the official runner. The environment is an
  association list; \<open>docker\<close> stands for the Docker CLI (exit status and standard output)
  and \<open>loads\<close> for \<open>json.loads\<close> of a command's output.
\<close>

type_synonym environment = "(string \<times> string) list"

definition env_text_of :: "environment \<Rightarrow> string \<Rightarrow> string" where
  "env_text_of env k = (case map_of env k of None \<Rightarrow> [] | Some v \<Rightarrow> v)"

text \<open>\<open>environ.get(k, "").strip()\<close>\<close>

definition env_value :: "environment \<Rightarrow> string \<Rightarrow> string" where
  "env_value env k = strip (env_text_of env k)"

type_synonym 'w docker = "string list \<Rightarrow> environment \<Rightarrow> 'w \<Rightarrow> (int \<times> string) \<times> 'w"

definition run_docker :: "'w docker \<Rightarrow> string list \<Rightarrow> environment \<Rightarrow> ('w, int \<times> string) io" where
  "run_docker docker args env = (\<lambda>w. case docker args env w of (r, w') \<Rightarrow> (Inr r, w'))"

section \<open>Subprocess environment\<close>

definition github_auth_keys :: "string set" where
  "github_auth_keys = {''GH_TOKEN'', ''GITHUB_TOKEN'', ''GH_ENTERPRISE_TOKEN'', ''GITHUB_ENTERPRISE_TOKEN''}"

text \<open>\<open>own\<close> is the environment of the process itself.\<close>

definition subprocess_environment :: "environment \<Rightarrow> environment \<Rightarrow> bool \<Rightarrow> environment" where
  "subprocess_environment own environment native_attestation = (let
       result = filter (\<lambda>(k, v). k \<notin> github_auth_keys) environment;
       token = (if env_text_of own ''GH_TOKEN'' \<noteq> [] then env_text_of own ''GH_TOKEN'' else env_text_of own ''GITHUB_TOKEN'')
     in if native_attestation \<and> token \<noteq> [] then put ''GH_TOKEN'' token result else result)"

section \<open>Endpoint and project\<close>

definition context_env :: string where "context_env = ''MARTY_CONFORMANCE_DOCKER_CONTEXT''"
definition project_env :: string where "project_env = ''MARTY_CONFORMANCE_PROJECT''"
definition network_bind_override_env :: string where
  "network_bind_override_env = ''MARTY_CONFORMANCE_ALLOW_NETWORK_BINDS''"

definition docker_command :: "'w docker \<Rightarrow> environment \<Rightarrow> string list \<Rightarrow> ('w, string list) io" where
  "docker_command docker env arguments = (let ctx = env_value env context_env in
     if ctx = [] then retIO (''docker'' # arguments)
     else bindIO (run_docker docker [''docker'', ''context'', ''inspect'', ctx] env) (\<lambda>(status, out).
            if status \<noteq> 0 then raiseIO (ValueError (''Docker context '' @ str_repr ctx @ '' cannot be inspected''))
            else retIO ([''docker'', ''--context'', ctx] @ arguments)))"

text \<open>\<open>documents[0]["Endpoints"]["docker"]["Host"]\<close>\<close>

definition py_index0 :: "json \<Rightarrow> json result" where
  "py_index0 j = (case j of
     JArr [] \<Rightarrow> raise IndexError
   | JArr (x # _) \<Rightarrow> ret x
   | JStr [] \<Rightarrow> raise IndexError
   | JStr (c # _) \<Rightarrow> ret (JStr [c])
   | JObj _ \<Rightarrow> raise (KeyError ''0'')
   | _ \<Rightarrow> raise TypeError)"

definition endpoint_host :: "json \<Rightarrow> json result" where
  "endpoint_host documents = bindE (py_index0 documents) (\<lambda>d. bindE (py_key d ''Endpoints'') (\<lambda>e.
     bindE (py_key e ''docker'') (\<lambda>k. py_key k ''Host'')))"

definition no_endpoint :: exn where
  "no_endpoint = ValueError ''Docker context inspection did not return a Docker endpoint''"

fun index_failure :: "exn \<Rightarrow> bool" where
  "index_failure IndexError = True"
| "index_failure (KeyError _) = True"
| "index_failure TypeError = True"
| "index_failure JSONDecodeError = True"
| "index_failure _ = False"

definition parse_endpoint :: "(string \<Rightarrow> json result) \<Rightarrow> string \<Rightarrow> string result" where
  "parse_endpoint loads out =
     bindE (catchE (bindE (loads out) endpoint_host)
              (\<lambda>e. if index_failure e then raise no_endpoint else raise e)) (\<lambda>endpoint.
       case endpoint of
         JStr s \<Rightarrow> if strip s = [] then raise (ValueError ''Docker context has no Docker endpoint'') else ret (strip s)
       | _ \<Rightarrow> raise (ValueError ''Docker context has no Docker endpoint''))"

definition chosen_context :: "environment \<Rightarrow> string" where
  "chosen_context env = (if env_value env context_env \<noteq> [] then env_value env context_env
                         else env_value env ''DOCKER_CONTEXT'')"

definition selected_docker_endpoint ::
    "'w docker \<Rightarrow> (string \<Rightarrow> json result) \<Rightarrow> environment \<Rightarrow> ('w, string) io" where
  "selected_docker_endpoint docker loads env = (let ctx = chosen_context env in
     if env_value env ''DOCKER_HOST'' \<noteq> [] \<and> ctx = [] then retIO (env_value env ''DOCKER_HOST'')
     else bindIO (run_docker docker ([''docker'', ''context'', ''inspect''] @ (if ctx = [] then [] else [ctx])) env)
       (\<lambda>(status, out).
          if status \<noteq> 0
          then raiseIO (ValueError (''Docker context'' @ (if ctx = [] then [] else '' '' @ str_repr ctx)
                  @ '' cannot be inspected''))
          else liftIO (parse_endpoint loads out)))"

text \<open>The scheme \<open>urlparse\<close> yields; it raises \<open>ValueError\<close> for a malformed network location.\<close>

definition endpoint_local :: "environment \<Rightarrow> string \<Rightarrow> bool result" where
  "endpoint_local env endpoint = bindE (urlsplit endpoint) (\<lambda>parsed.
     if scheme parsed \<in> {''unix'', ''npipe'', ''fd''} then ret True
     else if scheme parsed \<in> {''tcp'', ''http'', ''https'', ''ssh''}
     then ret (env_value env network_bind_override_env = ''1'')
     else ret False)"

definition docker_endpoint_is_local ::
    "'w docker \<Rightarrow> (string \<Rightarrow> json result) \<Rightarrow> environment \<Rightarrow> ('w, bool) io" where
  "docker_endpoint_is_local docker loads env =
     bindIO (selected_docker_endpoint docker loads env) (\<lambda>e. liftIO (endpoint_local env e))"

definition project_char :: "char \<Rightarrow> bool" where
  "project_char c = (is_lower c \<or> is_digit c \<or> c = CHR ''_'' \<or> c = CHR ''-'')"

definition project_rx :: rx where
  "project_rx = Seq (Cls (\<lambda>c. is_lower c \<or> is_digit c)) (Rep 1 62 (Cls project_char))"

definition project_name :: "environment \<Rightarrow> string \<Rightarrow> string result" where
  "project_name env variable = (let project = env_value env variable in
     if project = [] then raise (ValueError (variable @ '' is required''))
     else if \<not> fullmatch project_rx project
     then raise (ValueError (variable @ '' contains an invalid Compose project name''))
     else if variable = project_env \<and> \<not> startswith project ''marty-conformance-''
     then raise (ValueError (project_env @ '' must start with marty-conformance-''))
     else ret project)"

definition label_format :: string where
  "label_format = ''{{ index .Config.Labels '' @ [dquote] @ ''com.docker.compose.project'' @ [dquote] @ '' }}''"

definition require_project_container :: "'w docker \<Rightarrow> environment \<Rightarrow> string \<Rightarrow> string \<Rightarrow> ('w, unit) io" where
  "require_project_container docker env container variable =
     bindIO (liftIO (project_name env variable)) (\<lambda>expected.
     bindIO (docker_command docker env [''inspect'', ''--format'', label_format, container]) (\<lambda>cmd.
     bindIO (run_docker docker cmd env) (\<lambda>(status, out).
       if status \<noteq> 0 then raiseIO (ValueError (''container '' @ str_repr container @ '' cannot be inspected''))
       else if strip out \<noteq> expected
       then raiseIO (ValueError (''container '' @ str_repr container @ '' belongs to Compose project ''
              @ str_repr (strip out) @ '', expected '' @ str_repr expected))
       else retIO ())))"

section \<open>The official runner\<close>

definition alnum_dash :: "char \<Rightarrow> bool" where
  "alnum_dash c = (is_lower c \<or> is_digit c \<or> c = CHR ''-'')"

definition oidf_project :: rx where
  "oidf_project = Seq (Lit ''oidf-runner'')
     (opt (seqs [Lit ''-'', Cls (\<lambda>c. is_lower c \<or> is_digit c), Rep 0 46 (Cls alnum_dash)]))"

definition marty_project :: rx where
  "marty_project = seqs [Lit ''marty-conformance-'', Cls (\<lambda>c. is_lower c \<or> is_digit c),
     opt (Seq (Rep 0 46 (Cls alnum_dash)) (Cls (\<lambda>c. is_lower c \<or> is_digit c)))]"

definition runner_tls_paths :: "string list" where
  "runner_tls_paths = [''OIDF_RUNNER_TLS_CERT_FILE'', ''OIDF_RUNNER_TLS_KEY_FILE'', ''OIDF_RUNNER_TRUSTSTORE_FILE'']"

text \<open>\<open>PureWindowsPath(s).is_absolute()\<close>: a drive letter with a root, or a UNC share.\<close>

definition unc_absolute :: "string \<Rightarrow> bool" where
  "unc_absolute t = (case split_on bslash (drop 2 t) of
     [server, share] \<Rightarrow> server \<noteq> [] \<and> server \<noteq> ''?'' \<and> server \<noteq> ''.'' \<and> server \<noteq> ''?.'' \<and> share \<noteq> []
   | _ # _ # _ # _ \<Rightarrow> True
   | _ \<Rightarrow> False)"

definition windows_absolute :: "string \<Rightarrow> bool" where
  "windows_absolute s = (let t = map (\<lambda>c. if c = CHR ''/'' then bslash else c) s in
     if startswith t [bslash, bslash] then unc_absolute t
     else 3 \<le> length t \<and> t ! 1 = CHR '':'' \<and> t ! 2 = bslash)"

definition daemon_absolute :: "string \<Rightarrow> string \<Rightarrow> string result" where
  "daemon_absolute v field = (let normalized = strip v in
     if normalized = [] \<or> \<not> (path_is_absolute normalized \<or> windows_absolute normalized)
     then raise (SystemExit (field @ '' must be an absolute path on the Docker daemon host''))
     else ret normalized)"

text \<open>
  \<open>mode_of p\<close> is the permission mode of the regular file \<open>p\<close>, if there is one; the check
  of the key applies on POSIX hosts.
\<close>

definition local_tls_file :: "(string \<Rightarrow> nat option) \<Rightarrow> environment \<Rightarrow> string \<Rightarrow> unit result" where
  "local_tls_file mode_of env name = (let p = path_str (env_text_of env name) in
     if \<not> path_is_absolute (env_text_of env name) then raise (SystemExit (name @ '' must be an absolute path''))
     else if mode_of p = None
     then raise (SystemExit (name @ '' does not identify a readable file: '' @ p))
     else ret ())"

definition private_key_mode :: "nat \<Rightarrow> bool" where
  "private_key_mode m = (m mod 64 = 0)"

definition local_tls :: "(string \<Rightarrow> nat option) \<Rightarrow> bool \<Rightarrow> environment \<Rightarrow> unit result" where
  "local_tls mode_of posix env = bindE (mapE (local_tls_file mode_of env) runner_tls_paths) (\<lambda>_.
     case mode_of (path_str (env_text_of env ''OIDF_RUNNER_TLS_KEY_FILE'')) of
       Some m \<Rightarrow> if posix \<and> \<not> private_key_mode m
         then raise (SystemExit ''OIDF_RUNNER_TLS_KEY_FILE must not be accessible by group or other users'') else ret ()
     | None \<Rightarrow> raise OSError)"

definition remote_tls :: "environment \<Rightarrow> unit result" where
  "remote_tls env =
     (if env_value env ''OIDF_RUNNER_TLS_MODE'' = ''generated''
      then raise (SystemExit (''generated OIDF runner TLS material is local to this host and cannot be bind-mounted ''
             @ ''through a remote Docker context''))
      else bindE (mapE (\<lambda>name. daemon_absolute (env_text_of env name) name) runner_tls_paths) (\<lambda>_. ret ()))"

definition validate_runner_tls :: "'w docker \<Rightarrow> (string \<Rightarrow> json result) \<Rightarrow> (string \<Rightarrow> nat option) \<Rightarrow> bool \<Rightarrow>
    environment \<Rightarrow> ('w, unit) io" where
  "validate_runner_tls docker loads mode_of posix env = (let
       required = runner_tls_paths @ [''OIDF_RUNNER_TRUSTSTORE_PASSWORD'', ''OIDF_RUNNER_TLS_MODE''];
       missing = filter (\<lambda>n. env_value env n = []) required;
       mode = env_value env ''OIDF_RUNNER_TLS_MODE''
     in if missing \<noteq> [] then raiseIO (SystemExit (''missing OIDF runner TLS environment: '' @ join '', '' missing))
        else if mode \<noteq> ''generated'' \<and> mode \<noteq> ''external''
        then raiseIO (SystemExit ''OIDF_RUNNER_TLS_MODE must be generated or external'')
        else bindIO (docker_endpoint_is_local docker loads env) (\<lambda>here.
               liftIO (if here then local_tls mode_of posix env else remote_tls env)))"

record runner_args =
  runner :: string
  prebuilt :: bool
  project :: string
  marty :: "string option"
  arguments :: "string list"

definition check_runner_args :: "runner_args \<Rightarrow> (string \<times> string list) result" where
  "check_runner_args a = (case marty a of
     None \<Rightarrow> raise (SystemExit ''--marty-project or MARTY_CONFORMANCE_PROJECT is required'')
   | Some m \<Rightarrow>
       if m = [] then raise (SystemExit ''--marty-project or MARTY_CONFORMANCE_PROJECT is required'')
       else if \<not> fullmatch marty_project m
       then raise (SystemExit ''--marty-project must be an isolated marty-conformance-<run-id> project'')
       else if \<not> fullmatch oidf_project (project a)
       then raise (SystemExit ''--project must be oidf-runner or oidf-runner-<run-id>'')
       else let args = (case arguments a of x # xs \<Rightarrow> if x = ''--'' then xs else x # xs | [] \<Rightarrow> [])
         in if args = [] then raise (SystemExit ''pass a docker compose command, for example: -- up --detach'')
            else ret (m, args))"

text \<open>\<open>--no-build\<close> is given and the first \<open>--pull\<close> is followed by \<open>never\<close>.\<close>

definition offline_up :: "string list \<Rightarrow> bool" where
  "offline_up args = (''--no-build'' \<in> set args \<and> ''--pull'' \<in> set args
     \<and> take 1 (drop 1 (dropWhile (\<lambda>x. x \<noteq> ''--pull'') args)) = [''never''])"

definition pinned_image_rx :: rx where
  "pinned_image_rx = seqs [Lit ''@sha256:'', Rep 64 64 (Cls is_lhex), Eos]"

definition runner_images :: "json \<Rightarrow> string list result" where
  "runner_images model = bindE (py_get model ''services'' (JObj [])) (\<lambda>services.
     if fields_of services = [] then raise (ValueError ''official runner Compose services are missing'')
     else let refs = map (\<lambda>(_, row). obj_get row ''image'') (filter (\<lambda>(_, row). is_dict row) (fields_of services))
       in if list_ex (\<lambda>r. is_list r \<or> is_dict r) refs then raise TypeError
          else if list_ex (\<lambda>r. \<not> is_str r \<or> \<not> searches pinned_image_rx (str_of r)) refs
          then raise (ValueError ''official runner images must be immutable'')
          else ret (sort (remdups (map str_of refs))))"

fun cached_images :: "'w docker \<Rightarrow> environment \<Rightarrow> string list \<Rightarrow> ('w, unit) io" where
  "cached_images docker env [] = retIO ()"
| "cached_images docker env (i # is) =
     bindIO (docker_command docker env [''image'', ''inspect'', i, ''--format'', ''{{.Id}}'']) (\<lambda>cmd.
     bindIO (run_docker docker cmd env) (\<lambda>(status, out).
       if status \<noteq> 0 \<or> \<not> fullmatch digest_rx (strip out)
       then raiseIO (ValueError ''an official runner image is not cached locally'')
       else cached_images docker env is))"

definition overlay_files :: "string \<Rightarrow> bool \<Rightarrow> string list" where
  "overlay_files root pre = (if pre then [''--file'', root @ ''/conformance/oidf-runner-prebuilt.compose.yml''] else [])
     @ [''--file'', root @ ''/conformance/oidf-runner-bridge.compose.yml'']"

definition compose_base :: "string \<Rightarrow> runner_args \<Rightarrow> string \<Rightarrow> string list" where
  "compose_base root a compose =
     [''compose'', ''--project-name'', project a, ''--file'', compose] @ overlay_files root (prebuilt a)"

text \<open>The gate of the local functional suite: immutable images, all in the local cache.\<close>

definition local_gate :: "'w docker \<Rightarrow> (string \<Rightarrow> json result) \<Rightarrow> string \<Rightarrow> runner_args \<Rightarrow> string \<Rightarrow>
    environment \<Rightarrow> string list \<Rightarrow> ('w, unit) io" where
  "local_gate docker loads root a compose env args =
     bindIO (if \<not> prebuilt a then retIO False else docker_endpoint_is_local docker loads env) (\<lambda>here.
       if \<not> here then raiseIO (ValueError ''local native functional suite requires a prebuilt local Docker runner'')
       else if hd args = ''up'' \<and> \<not> offline_up args
       then raiseIO (ValueError ''local native functional suite must disable image builds and pulls'')
       else bindIO (docker_command docker env (compose_base root a compose @ [''config'', ''--format'', ''json''])) (\<lambda>cmd.
            bindIO (run_docker docker cmd env) (\<lambda>(status, out).
              if status \<noteq> 0 then raiseIO (ValueError ''official runner Compose model cannot be rendered'')
              else bindIO (liftIO (bindE (loads out) runner_images)) (\<lambda>images. cached_images docker env images))))"

definition bridge_environment :: "environment \<Rightarrow> string \<Rightarrow> environment" where
  "bridge_environment env m = put ''OIDF_MARTY_BRIDGE_NETWORK'' (m @ ''_oidf-runner'') env"

definition runner_main :: "'w docker \<Rightarrow> (string \<Rightarrow> json result) \<Rightarrow> (string \<Rightarrow> nat option) \<Rightarrow> bool \<Rightarrow> string \<Rightarrow>
    environment \<Rightarrow> runner_args \<Rightarrow> ('w, int) io" where
  "runner_main docker loads mode_of posix root own a =
     bindIO (liftIO (check_runner_args a)) (\<lambda>(m, args). let
       compose = path_join (runner a) (if prebuilt a then ''docker-compose-prebuilt.yml'' else ''docker-compose.yml'');
       env = bridge_environment own m
     in if mode_of compose = None
        then raiseIO (SystemExit (''official runner Compose file is missing: '' @ compose))
        else bindIO (validate_runner_tls docker loads mode_of posix env) (\<lambda>_. let
          gated = (env_value env ''MARTY_LOCAL_NATIVE_FUNCTIONAL_BINDING'' \<noteq> [] \<and> (hd args = ''up'' \<or> hd args = ''cache-check''))
        in bindIO (if gated then local_gate docker loads root a compose env args else retIO ()) (\<lambda>_.
             if gated \<and> hd args = ''cache-check'' then retIO 0
             else bindIO (docker_command docker env (compose_base root a compose @ args)) (\<lambda>cmd.
                  bindIO (run_docker docker cmd env) (\<lambda>(status, _). retIO status)))))"

section \<open>Properties\<close>

lemma map_of_filter_keys: "map_of (filter (\<lambda>(k, v). P k) kvs) k = (if P k then map_of kvs k else None)"
  by (induction kvs) auto

text \<open>
  No GitHub credential reaches an imported suite: the environment handed to a
  subprocess has none of the four keys, except the one token a native attestation asks
  for, and every other variable is unchanged.
\<close>

theorem subprocess_environment_exact:
  "map_of (subprocess_environment own env native) k =
     (let token = (if env_text_of own ''GH_TOKEN'' \<noteq> [] then env_text_of own ''GH_TOKEN'' else env_text_of own ''GITHUB_TOKEN'')
      in if native \<and> token \<noteq> [] \<and> k = ''GH_TOKEN'' then Some token
         else if k \<in> github_auth_keys then None else map_of env k)"
proof -
  let ?t = "if env_text_of own ''GH_TOKEN'' \<noteq> [] then env_text_of own ''GH_TOKEN'' else env_text_of own ''GITHUB_TOKEN''"
  have f: "map_of (filter (\<lambda>(k, v). k \<notin> github_auth_keys) env) k = (if k \<in> github_auth_keys then None else map_of env k)"
    using map_of_filter_keys [of "\<lambda>k. k \<notin> github_auth_keys" env k] by simp
  show ?thesis
  proof (cases "native \<and> ?t \<noteq> []")
    case True
    then have "subprocess_environment own env native = put ''GH_TOKEN'' ?t (filter (\<lambda>(k, v). k \<notin> github_auth_keys) env)"
      by (simp add: subprocess_environment_def Let_def)
    with True f show ?thesis by (simp only: map_of_put Let_def fun_upd_apply) auto
  next
    case False
    then have "subprocess_environment own env native = filter (\<lambda>(k, v). k \<notin> github_auth_keys) env"
      by (auto simp: subprocess_environment_def Let_def)
    with False f show ?thesis by (simp only: Let_def) auto
  qed
qed

lemma endpoint_local_True:
  "endpoint_local env e = Inr True \<longleftrightarrow>
     (\<exists>p. urlsplit e = Inr p \<and> (scheme p \<in> {''unix'', ''npipe'', ''fd''}
        \<or> scheme p \<in> {''tcp'', ''http'', ''https'', ''ssh''} \<and> env_value env network_bind_override_env = ''1''))"
  by (auto simp: endpoint_local_def)

lemma selected_endpoint_OK:
  "selected_docker_endpoint docker loads env w = (Inr e, w') \<longleftrightarrow>
     (if env_value env ''DOCKER_HOST'' \<noteq> [] \<and> chosen_context env = [] then e = env_value env ''DOCKER_HOST'' \<and> w' = w
      else \<exists>out. docker ([''docker'', ''context'', ''inspect''] @ (if chosen_context env = [] then [] else [chosen_context env])) env w
                    = ((0, out), w') \<and> parse_endpoint loads out = Inr e)"
  by (auto simp: selected_docker_endpoint_def Let_def bindIO_OK run_docker_def split: prod.splits if_splits)

text \<open>
  Bind mounts are trusted only on this host: the endpoint counts as local exactly
  when the one Docker itself would use (\<open>DOCKER_HOST\<close> unless a context overrides it) is a
  local socket, or a network endpoint for which the override was set.
\<close>

theorem docker_endpoint_is_local_exact:
  "docker_endpoint_is_local docker loads env w = (Inr True, w') \<longleftrightarrow>
     (\<exists>e p. urlsplit e = Inr p
        \<and> (if env_value env ''DOCKER_HOST'' \<noteq> [] \<and> chosen_context env = []
           then e = env_value env ''DOCKER_HOST'' \<and> w' = w
           else \<exists>out. docker ([''docker'', ''context'', ''inspect''] @ (if chosen_context env = [] then [] else [chosen_context env]))
                        env w = ((0, out), w') \<and> parse_endpoint loads out = Inr e)
        \<and> (scheme p \<in> {''unix'', ''npipe'', ''fd''}
           \<or> scheme p \<in> {''tcp'', ''http'', ''https'', ''ssh''} \<and> env_value env network_bind_override_env = ''1''))"
  unfolding docker_endpoint_is_local_def bindIO_OK selected_endpoint_OK io_simps prod.inject endpoint_local_True
  by blast

lemma docker_command_OK:
  "docker_command docker env args w = (Inr cmd, w') \<longleftrightarrow>
     (if env_value env context_env = [] then cmd = ''docker'' # args \<and> w' = w
      else (\<exists>out. docker [''docker'', ''context'', ''inspect'', env_value env context_env] env w = ((0, out), w'))
         \<and> cmd = [''docker'', ''--context'', env_value env context_env] @ args)"
  by (auto simp: docker_command_def Let_def bindIO_OK run_docker_def split: prod.splits if_splits)

text \<open>
  A container is accepted only in its own project: the check returns exactly when
  the configured project name is valid and Docker, asked through the selected context,
  reports that name as the container's Compose project.
\<close>

theorem require_project_container_exact:
  "require_project_container docker env container variable w = (Inr (), w') \<longleftrightarrow>
     (\<exists>cmd w1 out. docker_command docker env [''inspect'', ''--format'', label_format, container] w = (Inr cmd, w1)
        \<and> docker cmd env w1 = ((0, out), w')
        \<and> strip out = env_value env variable \<and> env_value env variable \<noteq> []
        \<and> fullmatch project_rx (env_value env variable)
        \<and> (if variable = project_env then startswith (env_value env variable) ''marty-conformance-'' else True))"
proof -
  have name: "project_name env variable = Inr p \<longleftrightarrow> p = env_value env variable \<and> p \<noteq> []
      \<and> fullmatch project_rx p \<and> (if variable = project_env then startswith p ''marty-conformance-'' else True)" for p
    by (auto simp: project_name_def Let_def)
  have run: "bindIO (run_docker docker cmd env) (\<lambda>(status, out).
       if status \<noteq> 0 then raiseIO e1 else if strip out \<noteq> p then raiseIO (e2 out) else retIO ()) w1 = (Inr (), w')
    \<longleftrightarrow> (\<exists>out. docker cmd env w1 = ((0, out), w') \<and> strip out = p)" for cmd w1 p e1 e2
    by (auto simp: bindIO_OK run_docker_def split: prod.splits if_splits)
  show ?thesis
    unfolding require_project_container_def bindIO_OK [of "liftIO _"] bindIO_OK [of "docker_command _ _ _"] run
      io_simps prod.inject name
    by blast
qed

end
