(* ===== verification/Runner_Hosts.thy ===== *)
theory Runner_Hosts
  imports Py_IO Py_Json Py_Regex Py_Url
begin

text \<open>
  \<^verbatim>\<open>scripts/official_runner_hosts.py\<close> and \<^verbatim>\<open>scripts/local_hostname_resolution.py\<close>: the host
  names of a generated test setup are added to the hosts file of a disposable runner, or
  resolved to one address inside one process for the length of a block.
\<close>

section \<open>Host aliases\<close>

definition host_char :: "char \<Rightarrow> bool" where
  "host_char c = (is_lower c \<or> is_digit c)"
definition host_inner :: "char \<Rightarrow> bool" where
  "host_inner c = (host_char c \<or> c = CHR ''-'')"

definition label_rx :: rx where
  "label_rx = Seq (Cls host_char) (opt (Seq (Rep 0 61 (Cls host_inner)) (Cls host_char)))"

definition host_rx :: rx where
  "host_rx = seqs [label_rx, Many 0 (Seq (Lit ''.'') label_rx), Eot]"

definition valid_alias :: "string \<Rightarrow> bool" where
  "valid_alias h = (fullmatch host_rx h \<and> length h \<le> 253)"

text \<open>The text appended to the hosts file; \<open>canonical\<close> is \<open>str(ipaddress.ip_address(a))\<close>.\<close>

definition alias_line :: "(string \<Rightarrow> string) \<Rightarrow> string \<Rightarrow> string list \<Rightarrow> string result" where
  "alias_line canonical address aliases =
     (if \<not> is_ip_address address then raise (ValueError (str_repr address @ '' does not appear to be an IPv4 or IPv6 address''))
      else if aliases = [] \<or> list_ex (\<lambda>h. \<not> valid_alias h) aliases
      then raise (ValueError ''disposable runner host alias is invalid'')
      else ret ([CHR 0x0A] @ canonical address @ '' '' @ join '' '' aliases @ [CHR 0x0A]))"

text \<open>\<open>tee\<close> appends its input to \<open>/etc/hosts\<close> and returns its status.\<close>

definition append_host_aliases :: "(string \<Rightarrow> string) \<Rightarrow> (string \<Rightarrow> ('w, int) io) \<Rightarrow> string \<Rightarrow> string list \<Rightarrow> ('w, unit) io" where
  "append_host_aliases canonical tee address aliases =
     bindIO (liftIO (alias_line canonical address aliases)) (\<lambda>line. bindIO (tee line) (\<lambda>status.
       if status \<noteq> 0 then raiseIO (RuntimeError ''runner cannot stage disposable host aliases'') else retIO ()))"

definition url_invalid :: exn where
  "url_invalid = ValueError ''generated material URL is invalid''"

text \<open>The host a material URL contributes: none for an address or \<open>localhost\<close>.\<close>

definition url_alias :: "json \<Rightarrow> string option result" where
  "url_alias v = (case v of
     JStr s \<Rightarrow>
       if list_ex is_space s then raise url_invalid
       else bindE (urlsplit s) (\<lambda>u. case hostname u of
         None \<Rightarrow> raise url_invalid
       | Some host \<Rightarrow>
           if \<not> (scheme u = ''http'' \<or> scheme u = ''https'') \<or> username u \<noteq> None \<or> password u \<noteq> None
           then raise url_invalid
           else if is_ip_address host \<or> host = ''localhost'' then ret None
           else if \<not> valid_alias host then raise (ValueError ''generated material hostname is invalid'')
           else ret (Some host))
   | _ \<Rightarrow> raise url_invalid)"

definition suite_host :: string where "suite_host = ''localhost.emobix.co.uk''"

definition material_aliases :: "json \<Rightarrow> string list result" where
  "material_aliases report = bindE (py_get report ''schema'' JNull) (\<lambda>schema. let urls = obj_get report ''urls'' in
     if schema \<noteq> JStr ''elevenid.eudi-test-material-report/v1'' \<or> \<not> is_dict urls \<or> \<not> has_key urls ''gateway''
     then raise (ValueError ''disposable runner requires its generated material report'')
     else bindE (mapE (url_alias \<circ> snd) (fields_of urls)) (\<lambda>hosts.
            ret (sort (remdups (suite_host # concat (map (\<lambda>h. case h of None \<Rightarrow> [] | Some a \<Rightarrow> [a]) hosts))))))"

section \<open>The hosts file\<close>

definition host_records :: "string \<Rightarrow> string list list" where
  "host_records existing = map (\<lambda>line. split_ws (part_head (CHR ''#'') line)) (splitlines existing)"

definition addresses_of :: "string list list \<Rightarrow> string \<Rightarrow> string list" where
  "addresses_of records host = map hd (filter (\<lambda>r. 1 < length r \<and> host \<in> set (tl r)) records)"

fun missing_from :: "string list list \<Rightarrow> string list \<Rightarrow> string list result" where
  "missing_from records [] = ret []"
| "missing_from records (h # hs) = (let addresses = addresses_of records h in
     if list_ex (\<lambda>a. a \<noteq> ''127.0.0.1'') addresses
     then raise (ValueError ''disposable runner hostname has a conflicting existing address'')
     else bindE (missing_from records hs) (\<lambda>rest. ret (if addresses = [] then h # rest else rest)))"

definition missing_aliases :: "string \<Rightarrow> string list \<Rightarrow> string list result" where
  "missing_aliases existing aliases = missing_from (host_records existing) aliases"

text \<open>\<open>main --install\<close> on a POSIX host, and its printed line otherwise.\<close>

definition hosts_main :: "(string \<Rightarrow> string) \<Rightarrow> (string \<Rightarrow> ('w, int) io) \<Rightarrow> ('w, string) io \<Rightarrow> bool \<Rightarrow> bool \<Rightarrow> json \<Rightarrow>
    ('w, string) io" where
  "hosts_main canonical tee etc_hosts posix install report =
     bindIO (liftIO (material_aliases report)) (\<lambda>aliases.
       if \<not> install then retIO (''127.0.0.1 '' @ join '' '' aliases)
       else if \<not> posix then raiseIO (RuntimeError ''disposable runner host installation requires Linux'')
       else bindIO etc_hosts (\<lambda>existing. bindIO (liftIO (missing_aliases existing aliases)) (\<lambda>pending.
              if pending = [] then retIO []
              else bindIO (append_host_aliases canonical tee ''127.0.0.1'' pending) (\<lambda>_. retIO []))))"

section \<open>Resolution inside a process\<close>

text \<open>
  \<open>socket.getaddrinfo\<close> is a field of the process: \<open>resolve_hosts_to\<close> replaces it by a
  wrapper while its block runs and restores it whatever the block does.
\<close>

record 'p process =
  getaddrinfo :: "string option \<Rightarrow> 'p"

text \<open>\<open>casefold\<close> on code points below 256 (the micro sign, which folds outside them, is kept).\<close>

definition casefold :: "string \<Rightarrow> string" where
  "casefold s = concat (map (\<lambda>c. if code c = 223 then ''ss'' else [lower_char c]) s)"

text \<open>Host names are text or \<open>None\<close>; byte strings are outside the model.\<close>

definition normalized_host :: "string option \<Rightarrow> string option" where
  "normalized_host v = map_option (\<lambda>s. casefold (rstrip_char (CHR ''.'') s)) v"

definition host_set :: "string list \<Rightarrow> string list" where
  "host_set hosts = filter (\<lambda>h. h \<noteq> []) (map (\<lambda>h. casefold (rstrip_char (CHR ''.'') (strip h))) hosts)"

definition redirected :: "string \<Rightarrow> string list \<Rightarrow> (string option \<Rightarrow> 'p) \<Rightarrow> string option \<Rightarrow> 'p" where
  "redirected address hosts original host =
     original (case normalized_host host of
        None \<Rightarrow> host | Some h \<Rightarrow> if h \<in> set (host_set hosts) then Some (strip address) else host)"

definition resolve_hosts_to :: "string \<Rightarrow> string list \<Rightarrow> ('p process, 'a) io \<Rightarrow> ('p process, 'a) io" where
  "resolve_hosts_to address hosts block = (\<lambda>s.
     if strip address = [] \<or> host_set hosts = [] then block s
     else let original = getaddrinfo s
       in case block (s\<lparr>getaddrinfo := redirected address hosts original\<rparr>) of
            (r, s') \<Rightarrow> (r, s'\<lparr>getaddrinfo := original\<rparr>))"

section \<open>Properties\<close>

lemma missing_from_OK:
  "missing_from records hs = Inr pending \<longleftrightarrow>
     list_all (\<lambda>h. list_all (\<lambda>a. a = ''127.0.0.1'') (addresses_of records h)) hs
     \<and> pending = filter (\<lambda>h. addresses_of records h = []) hs"
  by (induction records hs arbitrary: pending rule: missing_from.induct)
     (auto simp: Let_def list_ex_iff list_all_iff)

lemma addresses_of_iff:
  "a \<in> set (addresses_of records h) \<longleftrightarrow> (\<exists>names. a # names \<in> set records \<and> h \<in> set names)"
proof
  assume "a \<in> set (addresses_of records h)"
  then obtain r where "r \<in> set records" "1 < length r" "h \<in> set (tl r)" "a = hd r"
    by (auto simp: addresses_of_def)
  moreover have "r = a # tl r"
    using \<open>1 < length r\<close> \<open>a = hd r\<close> by (metis less_nat_zero_code list.collapse list.size(3))
  ultimately show "\<exists>names. a # names \<in> set records \<and> h \<in> set names" by metis
next
  assume "\<exists>names. a # names \<in> set records \<and> h \<in> set names"
  then obtain names where n: "a # names \<in> set records" "h \<in> set names" by blast
  then have "a # names \<in> set (filter (\<lambda>r. 1 < length r \<and> h \<in> set (tl r)) records)" by (cases names) auto
  then have "hd (a # names) \<in> set (addresses_of records h)"
    unfolding addresses_of_def set_map by (rule imageI)
  then show "a \<in> set (addresses_of records h)" by simp
qed

lemma addresses_of_none:
  "addresses_of records h = [] \<longleftrightarrow> (\<nexists>a names. a # names \<in> set records \<and> h \<in> set names)"
proof -
  have "addresses_of records h = [] \<longleftrightarrow> (\<forall>a. a \<notin> set (addresses_of records h))" by auto
  then show ?thesis unfolding addresses_of_iff by blast
qed

text \<open>
  What the hosts file still needs: the call returns exactly when no alias is bound
  to an address other than 127.0.0.1 in any record of the file, and it then returns, in
  order, the aliases no record binds.
\<close>

theorem missing_aliases_exact:
  "missing_aliases existing aliases = Inr pending \<longleftrightarrow>
     (\<nexists>h a names. h \<in> set aliases \<and> a # names \<in> set (host_records existing) \<and> h \<in> set names \<and> a \<noteq> ''127.0.0.1'')
     \<and> pending = filter (\<lambda>h. \<nexists>a names. a # names \<in> set (host_records existing) \<and> h \<in> set names) aliases"
  unfolding missing_aliases_def missing_from_OK addresses_of_none list_all_iff Ball_def addresses_of_iff
  by blast

text \<open>
  The redirection is scoped: after the block the resolver is the original one,
  whatever the block returned, raised or installed; inside it a look-up of a listed name
  goes to the given address and any other look-up is unchanged.
\<close>

theorem resolve_hosts_restores:
  fixes s :: "'p process"
  shows "resolve_hosts_to address hosts block s =
     (if strip address = [] \<or> host_set hosts = [] then block s
      else case block (s\<lparr>getaddrinfo := (\<lambda>host. if host \<noteq> None \<and> the (normalized_host host) \<in> set (host_set hosts)
                            then getaddrinfo s (Some (strip address)) else getaddrinfo s host)\<rparr>) of
        (r, s') \<Rightarrow> (r, s'\<lparr>getaddrinfo := getaddrinfo s\<rparr>))"
proof -
  have "redirected address hosts f = (\<lambda>host. if host \<noteq> None \<and> the (normalized_host host) \<in> set (host_set hosts)
        then f (Some (strip address)) else f host)" for f :: "string option \<Rightarrow> 'p"
    by (auto simp: fun_eq_iff redirected_def normalized_host_def split: option.split)
  then show ?thesis unfolding resolve_hosts_to_def Let_def by (simp only:)
qed

text \<open>
  Only valid names are staged: the aliases of a material report are sorted,
  without repetition, the suite's own host among them, and every other one is a valid
  DNS name of at most 253 characters that is no IP address.
\<close>

theorem material_aliases_valid:
  "case material_aliases report of
     Inl e \<Rightarrow> True
   | Inr aliases \<Rightarrow> sorted aliases \<and> distinct aliases \<and> suite_host \<in> set aliases
       \<and> list_all (\<lambda>h. h = suite_host \<or> valid_alias h \<and> \<not> is_ip_address h \<and> h \<noteq> ''localhost'') aliases"
proof (cases "material_aliases report")
  case (Inr aliases)
  have ok: "valid_alias h \<and> \<not> is_ip_address h \<and> h \<noteq> ''localhost''" if "url_alias v = Inr (Some h)" for v h
  proof -
    have skip: "(if c then ret None else m) = Inr (Some h) \<longleftrightarrow> \<not> c \<and> m = Inr (Some h)" for c and m :: "string option result"
      by auto
    from that show ?thesis
      unfolding url_alias_def json_cases_Inr bindE_eq_Inr if_raise_eq_Inr option_cases_Inr skip sum.inject option.inject
      by blast
  qed
  define names where "names hosts = sort (remdups (suite_host # concat (map (\<lambda>h. case h of None \<Rightarrow> [] | Some a \<Rightarrow> [a]) hosts)))"
    for hosts
  have "\<exists>hosts. mapE (url_alias \<circ> snd) (fields_of (obj_get report ''urls'')) = Inr hosts \<and> names hosts = aliases"
    using Inr unfolding material_aliases_def Let_def names_def [symmetric] bindE_eq_Inr if_raise_eq_Inr sum.inject
    by (elim exE conjE) (intro exI conjI; assumption)
  then obtain hosts where m: "mapE (url_alias \<circ> snd) (fields_of (obj_get report ''urls'')) = Inr hosts"
    and a: "aliases = sort (remdups (suite_host # concat (map (\<lambda>h. case h of None \<Rightarrow> [] | Some a \<Rightarrow> [a]) hosts)))"
    unfolding names_def by blast
  have "list_all (\<lambda>h. h = suite_host \<or> valid_alias h \<and> \<not> is_ip_address h \<and> h \<noteq> ''localhost'') aliases"
    unfolding list_all_iff
  proof
    fix h assume "h \<in> set aliases"
    then have "h = suite_host \<or> Some h \<in> set hosts"
      unfolding a set_sort set_remdups list.set by (auto split: option.splits)
    then show "h = suite_host \<or> valid_alias h \<and> \<not> is_ip_address h \<and> h \<noteq> ''localhost''"
    proof
      assume "Some h \<in> set hosts"
      from mapE_set_result [OF m this] obtain v where "url_alias v = Inr (Some h)" by auto
      with ok show ?thesis by blast
    qed simp
  qed
  moreover have "suite_host \<in> set aliases" unfolding a by simp
  moreover have "sorted aliases" "distinct aliases" unfolding a by (rule sorted_sort, simp only: distinct_sort distinct_remdups)
  ultimately show ?thesis using Inr by simp
qed simp

end
