(* ===== verification/Evidence_Contracts.thy ===== *)
theory Evidence_Contracts
  imports Py_Json Py_Regex Py_Hash
begin

text \<open>
  The closed contracts of public evidence: \<^verbatim>\<open>scripts/oidf_marty_automated_assessment.py\<close>
  (the automated observations and the one review obligation they may discharge),
  \<^verbatim>\<open>scripts/eudi_runtime_diagnostic_contract.py\<close> (its categories) and the two report
  validators of \<^verbatim>\<open>scripts/sanitize_official_evidence.py\<close>. Each takes a JSON value and
  returns it, or raises.
\<close>

section \<open>Python idioms\<close>

text \<open>\<open>set(value) == keys\<close>, and \<open>value in allowed\<close> for a set of strings (a list or an object cannot be hashed).\<close>

definition keys_are :: "json \<Rightarrow> string list \<Rightarrow> bool" where
  "keys_are v ks = (is_dict v \<and> set (map fst (fields_of v)) = set ks)"

definition in_strings :: "json \<Rightarrow> string list \<Rightarrow> bool" where
  "in_strings v ss = (case v of JStr s \<Rightarrow> s \<in> set ss | _ \<Rightarrow> False)"

definition hashable :: "json \<Rightarrow> bool" where
  "hashable v = (\<not> is_list v \<and> \<not> is_dict v)"

definition hash_in :: "json \<Rightarrow> string list \<Rightarrow> bool result" where
  "hash_in v ss = (if hashable v then ret (in_strings v ss) else raise TypeError)"

lemma in_strings_iff: "in_strings v ss \<longleftrightarrow> (\<exists>s\<in>set ss. v = JStr s)"
  by (cases v) (auto simp: in_strings_def)

lemma hash_in_True: "hash_in v ss = Inr True \<longleftrightarrow> in_strings v ss"
  by (cases v) (auto simp: hash_in_def hashable_def in_strings_def)

section \<open>Automated assessment\<close>

definition policy :: string where "policy = ''marty.official-verifier-outcome/v1''"
definition upstream_commit :: string where "upstream_commit = ''7d420f716e49d44f8a6b04f0a3e240ad6d68ab55''"
definition upstream_condition :: string where
  "upstream_condition = ''ExpectVerifierSuccessfulVerificationPage''"
definition allowed_log_results :: "string list" where
  "allowed_log_results = [''INFO'', ''SUCCESS'', ''REVIEW'', ''FINISHED'']"
definition success_outcome :: "(string \<times> string) list" where
  "success_outcome = [(''status'', ''completed''), (''result'', ''passed''), (''decision'', ''allow'')]"

definition happy :: string where "happy = ''oid4vp-1final-verifier-happy-flow''"
definition minimal_cnf :: string where "minimal_cnf = ''oid4vp-1final-verifier-minimal-cnf-jwk''"
definition uri_post :: string where "uri_post = ''oid4vp-1final-verifier-request-uri-method-post''"
definition uri_twice :: string where "uri_twice = ''oid4vp-1final-verifier-request-uri-fetched-twice''"

definition allowed_modules :: "(string \<times> string list) list" where
  "allowed_modules =
    [(''oid4vp-verifier'', [happy, minimal_cnf, uri_post, uri_twice]),
     (''oid4vp-url-query-verifier'', [happy, minimal_cnf]),
     (''oid4vp-mdoc-verifier'', [happy, uri_post, uri_twice]),
     (''oid4vp-haip-verifier'', [happy, minimal_cnf, uri_post, uri_twice])]"

definition identity_rx :: rx where "identity_rx = Seq (Rep 1 180 (Cls is_alnum)) Eot"
definition flow_id_rx :: rx where
  "flow_id_rx = seqs [Rep 8 8 (Cls is_lhex), Rep 3 3 (Seq (Lit ''-'') (Rep 4 4 (Cls is_lhex))), Lit ''-'',
     Rep 12 12 (Cls is_lhex), Eot]"

definition observation_keys :: "string list" where
  "observation_keys = [''api_outcome'', ''browser_result_match'', ''ui_instance_match'', ''ui_decision'',
     ''ui_verified_visible'', ''ui_error_absent'', ''flow_instance_sha256'']"

definition flow_instance_digest :: "string \<Rightarrow> string result" where
  "flow_instance_digest flow_id =
     (if \<not> fullmatch flow_id_rx flow_id
      then raise (ValueError ''automated verification requires the exact flow identity'')
      else ret (sha_digest (utf8 flow_id)))"

text \<open>The observed facts, apart from the digest of the flow they belong to.\<close>

definition outcome_ok :: "json \<Rightarrow> bool" where
  "outcome_ok outcome = (keys_are outcome (map fst success_outcome)
     \<and> list_all (\<lambda>(k, expected). obj_get outcome k = JStr expected) success_outcome)"

definition facts_ok :: "json \<Rightarrow> bool" where
  "facts_ok v = (outcome_ok (obj_get v ''api_outcome'') \<and> obj_get v ''ui_decision'' = JStr ''allow''
     \<and> list_all (\<lambda>k. obj_get v k = JBool True)
          [''browser_result_match'', ''ui_instance_match'', ''ui_verified_visible'', ''ui_error_absent'']
     \<and> is_str (obj_get v ''flow_instance_sha256'') \<and> fullmatch digest_rx (str_of (obj_get v ''flow_instance_sha256'')))"

definition facts_error :: exn where
  "facts_error = ValueError ''automated verification lacks matching successful API and UI observations''"

definition validate_observations :: "string option \<Rightarrow> json \<Rightarrow> json result" where
  "validate_observations flow_id v =
     (if \<not> keys_are v observation_keys
      then raise (ValueError ''automated verification observations have an invalid schema'')
      else if \<not> facts_ok v then raise facts_error
      else case flow_id of
             None \<Rightarrow> ret v
           | Some f \<Rightarrow> bindE (flow_instance_digest f) (\<lambda>d.
               if obj_get v ''flow_instance_sha256'' \<noteq> JStr d then raise facts_error else ret v))"

definition observations_of :: "json \<Rightarrow> json" where
  "observations_of v = JObj (map (\<lambda>k. (k, obj_get v k)) observation_keys)"

definition assessment_of :: "json \<Rightarrow> json" where
  "assessment_of v = JObj ([(''policy'', JStr policy), (''upstream_condition'', JStr upstream_condition)] @ fields_of v)"

definition validate_assessment :: "string option \<Rightarrow> json \<Rightarrow> json result" where
  "validate_assessment flow_id v =
     (if \<not> keys_are v (observation_keys @ [''policy'', ''upstream_condition''])
      then raise (ValueError ''automated verification assessment has an invalid schema'')
      else if obj_get v ''policy'' \<noteq> JStr policy \<or> obj_get v ''upstream_condition'' \<noteq> JStr upstream_condition
      then raise (ValueError ''automated verification assessment uses an unknown policy or obligation'')
      else bindE (validate_observations flow_id (observations_of v)) (\<lambda>ob. ret (assessment_of ob)))"

section \<open>The review obligation\<close>

definition identity_ok :: "json \<Rightarrow> string \<Rightarrow> bool" where
  "identity_ok info k = (is_str (obj_get info k) \<and> fullmatch identity_rx (str_of (obj_get info k)))"

definition not_positive :: exn where
  "not_positive = ValueError ''automated verification is not an allowed finished positive REVIEW case''"

definition check_test_info :: "string list \<Rightarrow> json \<Rightarrow> json \<Rightarrow> unit result" where
  "check_test_info modules expected_variant info =
     (if \<not> is_dict info then raise not_positive
      else bindE (hash_in (obj_get info ''testName'') modules) (\<lambda>known.
        if \<not> known \<or> obj_get info ''status'' \<noteq> JStr ''FINISHED'' \<or> obj_get info ''result'' \<noteq> JStr ''REVIEW''
           \<or> \<not> is_dict (obj_get info ''variant'') \<or> \<not> py_eq (obj_get info ''variant'') expected_variant
           \<or> \<not> identity_ok info ''testId'' \<or> \<not> identity_ok info ''planId''
           \<or> \<not> py_eq (obj_get info ''_id'') (obj_get info ''testId'')
        then raise not_positive else ret ()))"

definition unknown_obligation :: exn where
  "unknown_obligation = ValueError ''automated verification encountered an unknown REVIEW obligation''"

text \<open>One row of the log: 1 for the obligation, 0 for any other admissible row.\<close>

definition log_row :: "json \<Rightarrow> json \<Rightarrow> nat result" where
  "log_row test_id row =
     (if \<not> py_eq (obj_get row ''testId'') test_id
      then raise (ValueError ''automated verification result log belongs to another test instance'')
      else if has_key row ''result'' \<and> \<not> is_str (obj_get row ''result'')
      then raise (ValueError ''automated verification has a malformed original result log'')
      else if in_strings (obj_get row ''result'') [''WARNING'', ''FAILURE'', ''FAILED'', ''ERROR'']
      then raise (ValueError ''automated verification cannot conceal an upstream warning or failure'')
      else if has_key row ''result'' \<and> \<not> in_strings (obj_get row ''result'') allowed_log_results
      then raise (ValueError ''automated verification encountered an unknown or incomplete log result'')
      else if obj_get row ''result'' = JStr ''REVIEW''
      then (if obj_get row ''src'' \<noteq> JStr upstream_condition
               \<or> \<not> py_eq (obj_get row ''requirements'') (JArr [JStr ''OID4VP-1FINAL-8.2''])
               \<or> obj_get row ''image_no_longer_required'' = JBool True
            then raise unknown_obligation else ret 1)
      else ret 0)"

definition positive_review_obligation :: "string \<Rightarrow> json \<Rightarrow> string \<Rightarrow> json \<Rightarrow> string result" where
  "positive_review_obligation profile expected_variant runner_commit document =
     (if runner_commit \<noteq> upstream_commit \<or> map_of allowed_modules profile = None \<or> \<not> is_dict document
      then raise (ValueError ''automated verification has no reviewed upstream source policy'')
      else let info = obj_get document ''testInfo''; rows = obj_get document ''results''
        in bindE (check_test_info (the (map_of allowed_modules profile)) expected_variant info) (\<lambda>_.
           if arr_of rows = [] \<or> list_ex (\<lambda>r. \<not> is_dict r) (arr_of rows)
           then raise (ValueError ''automated verification requires the complete original result log'')
           else bindE (mapE (log_row (obj_get info ''testId'')) (arr_of rows)) (\<lambda>ns.
             if sum_list ns \<noteq> 1
             then raise (ValueError ''automated verification requires exactly one successful-verification obligation'')
             else ret upstream_condition)))"

section \<open>Diagnostic reports\<close>

definition eudi_runtime_diagnostic_schema :: string where
  "eudi_runtime_diagnostic_schema = ''elevenid.eudi-runtime-diagnostics/v1''"

definition mdoc_device_auth_error_kinds :: "string list" where
  "mdoc_device_auth_error_kinds =
    [''detached-issuer-auth'', ''device-response-parse-failed'', ''session-transcript-parse-failed'',
     ''device-response-status-invalid'', ''device-response-documents-missing'',
     ''device-response-version-unsupported'', ''mso-parse-failed'', ''device-key-coordinates-missing'',
     ''device-key-type-unsupported'', ''device-auth-method-unsupported'', ''device-signature-invalid'',
     ''device-signature-processing-error'', ''device-signature-malformed'',
     ''device-signature-algorithm-mismatch'', ''device-key-invalid'', ''device-auth-cbor-error'',
     ''issuer-disclosure-digest-mismatch'', ''issuer-disclosure-commitment-missing'',
     ''issuer-certificate-profile-invalid'', ''issuer-algorithm-unprotected'',
     ''issuer-algorithm-unsupported'', ''mso-document-type-mismatch'', ''mso-validity-contradictory'',
     ''mso-not-yet-valid'', ''mso-expired'', ''unclassified'']"

definition eudi_runtime_diagnostic_categories :: "string list" where
  "eudi_runtime_diagnostic_categories =
    [''tls-trust'', ''hostname-resolution'', ''connect-failure'', ''metadata-deserialization'',
     ''metadata-missing-required-field'', ''metadata-json-type-mismatch'',
     ''metadata-field-credential-configurations-supported'', ''metadata-field-credential-definition'',
     ''metadata-field-cryptographic-binding-methods'', ''metadata-field-proof-types'',
     ''metadata-field-signing-algorithms'', ''metadata-field-claims'', ''metadata-field-doctype'',
     ''metadata-field-vct'', ''credential-offer'', ''invalid-proof'', ''invalid-nonce'', ''unsupported-format'',
     ''issuer-profile'', ''issuer-profile-not-found'', ''issuer-profile-binding-incomplete'',
     ''issuer-profile-identity-mismatch'', ''issuer-profile-algorithm-mismatch'', ''mdoc-namespace'',
     ''mdoc-certificate-chain'', ''mdoc-signature-missing'', ''mdoc-signature-length'',
     ''mdoc-signature-encoding'', ''mdoc-signature-der'', ''mdoc-claims'', ''mdoc-prepare'', ''mdoc-assemble'',
     ''mdoc-credential-id-mismatch'', ''upstream-http-4xx'', ''upstream-http-5xx'', ''verifier-invalid-request'',
     ''verifier-invalid-vp-token'', ''verifier-presentation-submission'', ''verifier-dcql'', ''verifier-vct'',
     ''verifier-key-binding'', ''marty-sd-jwt-verification'', ''marty-sd-jwt-issuer-key'',
     ''marty-sd-jwt-holder-key'', ''marty-sd-jwt-key-binding-required'', ''marty-sd-jwt-key-binding-signature'',
     ''marty-sd-jwt-signature'', ''marty-sd-jwt-key-binding-sd-hash'', ''marty-sd-jwt-key-binding-audience'',
     ''marty-sd-jwt-key-binding-nonce'', ''marty-sd-jwt-key-binding-freshness'',
     ''marty-sd-jwt-key-binding-header'', ''marty-sd-jwt-issuer-validity'', ''marty-sd-jwt-disclosure'',
     ''marty-sd-jwt-native-backend'', ''marty-mdoc-device-authentication'', ''marty-mdoc-session-transcript'',
     ''marty-mdoc-issuer-signature'', ''marty-mdoc-issuer-trust'', ''marty-mdoc-parse'',
     ''runtime-log-unavailable'', ''unclassified-runtime-failure'']
    @ map (\<lambda>kind. ''marty-mdoc-error-kind-'' @ kind) mdoc_device_auth_error_kinds"

definition eudi_runtime_diagnostic_report :: "json \<Rightarrow> json result" where
  "eudi_runtime_diagnostic_report v = (let cs = obj_get v ''categories'' in
     if \<not> keys_are v [''schema'', ''categories'']
     then raise (ValueError ''EUDI runtime diagnostic report has an invalid shape'')
     else if obj_get v ''schema'' \<noteq> JStr eudi_runtime_diagnostic_schema
     then raise (ValueError ''EUDI runtime diagnostic report has an unsupported schema'')
     else if arr_of cs = [] then raise (ValueError ''EUDI runtime diagnostic report must contain categories'')
     else if \<not> distinct (map py_str (arr_of cs))
     then raise (ValueError ''EUDI runtime diagnostic categories must be unique'')
     else if list_ex (\<lambda>c. \<not> in_strings c eudi_runtime_diagnostic_categories) (arr_of cs)
     then raise (ValueError ''EUDI runtime diagnostic category is not allowlisted'')
     else ret v)"

definition sd_jwt_diagnostic_schema :: string where
  "sd_jwt_diagnostic_schema = ''elevenid.oidf-sd-jwt-diagnostic-audit/v2''"

definition sd_jwt_failure_categories :: "string list" where
  "sd_jwt_failure_categories =
    [''did-resolution-failed'', ''disclosure-invalid'', ''holder-key-missing-or-invalid'',
     ''issuer-audience-invalid'', ''issuer-key-invalid'', ''issuer-required-claim-missing'',
     ''issuer-signature-invalid'', ''issuer-token-expired'', ''issuer-token-invalid'',
     ''issuer-trust-material-missing'', ''key-binding-audience-invalid'', ''key-binding-hash-invalid'',
     ''key-binding-nonce-invalid'', ''key-binding-required'', ''key-binding-signature-invalid'',
     ''key-binding-time-invalid'', ''key-binding-type-invalid'', ''native-verifier-unavailable'',
     ''sd-jwt-verification-unclassified'', ''unsupported-format'', ''verification-denied-unclassified'']"

definition diagnostic_module_char :: "char \<Rightarrow> bool" where
  "diagnostic_module_char c = (is_alnum c \<or> c \<in> set ''_.:[]=,+/-'')"
definition safe_diagnostic_module :: rx where
  "safe_diagnostic_module = Seq (Lit ''oid4vp-'') (Rep 1 292 (Cls diagnostic_module_char))"
definition safe_diagnostic_category :: rx where
  "safe_diagnostic_category = Rep 1 100 (Cls (\<lambda>c. is_lower c \<or> is_digit c \<or> c = CHR ''-''))"

definition diagnostic_module_keys :: "string list" where
  "diagnostic_module_keys = [''test_name'', ''marty_flow_result'', ''marty_flow_decision'', ''marty_flow_category'',
     ''official_failure_stage'', ''official_http_status'']"
definition allowed_results :: "string list" where
  "allowed_results = [''passed'', ''failed'', ''partial'', ''unavailable'']"
definition allowed_decisions :: "string list" where
  "allowed_decisions = [''allow'', ''deny'', ''manual_review'', ''unavailable'']"
definition allowed_stages :: "string list" where
  "allowed_stages = [''direct-post-callback-response'', ''no-official-failure-observed'', ''other-official-failure'']"

definition http_status_ok :: "json \<Rightarrow> bool" where
  "http_status_ok status = (case status of JNull \<Rightarrow> True | JInt i \<Rightarrow> 100 \<le> i \<and> i \<le> 599 | _ \<Rightarrow> False)"

text \<open>Which combinations of result, decision and category a module may report.\<close>

definition outcome_allowed :: "json \<Rightarrow> json \<Rightarrow> json \<Rightarrow> bool" where
  "outcome_allowed result decision category =
     ((result = JStr ''passed'' \<and> decision = JStr ''allow'' \<and> category = JStr ''accepted'')
      \<or> (result = JStr ''unavailable'' \<and> decision = JStr ''unavailable''
          \<and> category = JStr ''runtime-outcome-unavailable'')
      \<or> (in_strings result [''failed'', ''partial''] \<and> in_strings decision [''deny'', ''manual_review'']
          \<and> in_strings category sd_jwt_failure_categories))"

definition diagnostic_module :: "json \<Rightarrow> unit result" where
  "diagnostic_module m = (let stage = obj_get m ''official_failure_stage''; status = obj_get m ''official_http_status'' in
     if \<not> keys_are m diagnostic_module_keys
     then raise (ValueError ''SD-JWT diagnostic module has an invalid shape'')
     else if \<not> (is_str (obj_get m ''test_name'') \<and> fullmatch safe_diagnostic_module (str_of (obj_get m ''test_name'')))
     then raise (ValueError ''SD-JWT diagnostic module name is unsafe'')
     else bindE (hash_in (obj_get m ''marty_flow_result'') allowed_results) (\<lambda>result_ok.
       if \<not> result_ok then raise (ValueError ''SD-JWT diagnostic Marty flow result is not allowlisted'')
       else bindE (hash_in (obj_get m ''marty_flow_decision'') allowed_decisions) (\<lambda>decision_ok.
         if \<not> decision_ok then raise (ValueError ''SD-JWT diagnostic Marty flow decision is not allowlisted'')
         else if \<not> (is_str (obj_get m ''marty_flow_category'')
                     \<and> fullmatch safe_diagnostic_category (str_of (obj_get m ''marty_flow_category'')))
         then raise (ValueError ''SD-JWT diagnostic Marty flow category is unsafe'')
         else bindE (hash_in stage allowed_stages) (\<lambda>stage_ok.
           if \<not> stage_ok then raise (ValueError ''SD-JWT diagnostic Official failure stage is not allowlisted'')
           else if \<not> http_status_ok status
           then raise (ValueError ''SD-JWT diagnostic Official HTTP status is invalid'')
           else if (stage = JStr ''direct-post-callback-response'') \<noteq> (status \<noteq> JNull)
           then raise (ValueError ''SD-JWT diagnostic Official stage and HTTP status are inconsistent'')
           else if \<not> outcome_allowed (obj_get m ''marty_flow_result'') (obj_get m ''marty_flow_decision'')
                        (obj_get m ''marty_flow_category'')
           then raise (ValueError ''SD-JWT diagnostic outcome is inconsistent or not allowlisted'')
           else ret ()))))"

definition sd_jwt_diagnostic_report :: "json \<Rightarrow> json result" where
  "sd_jwt_diagnostic_report v =
     (if \<not> keys_are v [''schema'', ''source_policy'', ''modules'']
      then raise (ValueError ''SD-JWT diagnostic report has an invalid shape'')
      else if obj_get v ''schema'' \<noteq> JStr sd_jwt_diagnostic_schema
      then raise (ValueError ''SD-JWT diagnostic report has an unsupported schema'')
      else if obj_get v ''source_policy'' \<noteq> JStr ''unmodified''
      then raise (ValueError ''SD-JWT diagnostic report does not preserve the upstream source policy'')
      else if arr_of (obj_get v ''modules'') = []
      then raise (ValueError ''SD-JWT diagnostic report must contain at least one module'')
      else bindE (mapE diagnostic_module (arr_of (obj_get v ''modules''))) (\<lambda>_. ret v))"

end
