(* ===== verification/Evidence_Contracts_Props.thy ===== *)
theory Evidence_Contracts_Props
  imports Evidence_Contracts
begin

text \<open>
  What the contracts promise to their readers: a value that was accepted is accepted
  again, as it is, by the same validator (the summary and the delivery both revalidate),
  and what an accepted assessment, obligation or report contains.
\<close>

section \<open>The validator interface\<close>

locale validator =
  fixes validate :: "json \<Rightarrow> json result"
  assumes stable: "validate v = Inr r \<Longrightarrow> validate r = Inr r"
begin

lemma twice: "bindE (validate v) validate = validate v"
  by (cases "validate v") (auto dest: stable)

lemma all_stable: "mapE validate vs = Inr rs \<Longrightarrow> mapE validate rs = Inr rs"
proof (induction vs arbitrary: rs)
  case (Cons v vs)
  then show ?case by (auto dest: stable)
qed simp

lemma catch_stable: "catchE (bindE (validate v) validate) h = catchE (validate v) h"
  by (simp add: twice)

end

text \<open>A validator that returns its argument has the contract.\<close>

lemma validator_identity: "(\<And>v r. validate v = Inr r \<Longrightarrow> r = v) \<Longrightarrow> validator validate"
  by unfold_locales (metis)

lemma validate_observations_same: "validate_observations f v = Inr r \<Longrightarrow> r = v"
  by (auto simp: validate_observations_def split: if_splits option.splits)

interpretation observations: validator "validate_observations f" for f
  by (rule validator_identity) (rule validate_observations_same)

interpretation eudi: validator eudi_runtime_diagnostic_report
  by (rule validator_identity) (auto simp: eudi_runtime_diagnostic_report_def Let_def split: if_splits)

interpretation sd_jwt: validator sd_jwt_diagnostic_report
  by (rule validator_identity) (auto simp: sd_jwt_diagnostic_report_def split: if_splits)

section \<open>Assessments\<close>

lemma observations_of_keys: "map fst (fields_of (observations_of v)) = observation_keys"
  by (simp add: observations_of_def comp_def)

lemma obj_get_map: "k \<in> set ks \<Longrightarrow> obj_get (JObj (map (\<lambda>k. (k, f k)) ks)) k = f k"
  by (induction ks) auto

lemma obj_get_observations: "k \<in> set observation_keys \<Longrightarrow> obj_get (observations_of v) k = obj_get v k"
  unfolding observations_of_def by (rule obj_get_map)

lemma observations_of_assessment: "observations_of (assessment_of (observations_of v)) = observations_of v"
proof -
  have "obj_get (assessment_of (observations_of v)) k = obj_get v k" if "k \<in> set observation_keys" for k
  proof -
    from that have "k \<noteq> ''policy''" "k \<noteq> ''upstream_condition''" by (auto simp: observation_keys_def)
    then have "obj_get (assessment_of (observations_of v)) k = obj_get (observations_of v) k"
      by (simp add: assessment_of_def observations_of_def)
    with that show ?thesis by (simp add: obj_get_observations)
  qed
  then show ?thesis by (simp add: observations_of_def)
qed

lemma validate_assessment_OK:
  "validate_assessment f v = Inr r \<longleftrightarrow>
     keys_are v (observation_keys @ [''policy'', ''upstream_condition''])
     \<and> obj_get v ''policy'' = JStr policy \<and> obj_get v ''upstream_condition'' = JStr upstream_condition
     \<and> validate_observations f (observations_of v) = Inr (observations_of v) \<and> r = assessment_of (observations_of v)"
  by (auto simp: validate_assessment_def dest: validate_observations_same)

interpretation assessments: validator "validate_assessment f" for f
proof unfold_locales
  fix v r assume "validate_assessment f v = Inr r"
  then have ok: "validate_observations f (observations_of v) = Inr (observations_of v)"
    and r: "r = assessment_of (observations_of v)" by (auto simp: validate_assessment_OK)
  have "keys_are r (observation_keys @ [''policy'', ''upstream_condition''])"
    unfolding r assessment_of_def keys_are_def by (auto simp: observations_of_keys)
  moreover have "obj_get r ''policy'' = JStr policy" "obj_get r ''upstream_condition'' = JStr upstream_condition"
    by (simp_all add: r assessment_of_def)
  ultimately show "validate_assessment f r = Inr r"
    using ok by (simp add: validate_assessment_OK r observations_of_assessment)
qed

lemma assessment_content:
  "case validate_assessment f v of
     Inl e \<Rightarrow> True
   | Inr r \<Rightarrow> obj_get r ''policy'' = JStr policy \<and> obj_get r ''upstream_condition'' = JStr upstream_condition
       \<and> facts_ok r
       \<and> (case f of None \<Rightarrow> True
          | Some flow \<Rightarrow> fullmatch flow_id_rx flow \<and> obj_get r ''flow_instance_sha256'' = JStr (sha_digest (utf8 flow)))"
proof (cases "validate_assessment f v")
  case (Inr r)
  then have ok: "validate_observations f (observations_of v) = Inr (observations_of v)"
    and r: "r = assessment_of (observations_of v)" by (auto simp: validate_assessment_OK)
  have get: "obj_get r k = obj_get (observations_of v) k" if "k \<in> set observation_keys" for k
  proof -
    from that have "k \<noteq> ''policy''" "k \<noteq> ''upstream_condition''" by (auto simp: observation_keys_def)
    then show ?thesis by (simp add: r assessment_of_def observations_of_def)
  qed
  have pol: "obj_get r ''policy'' = JStr policy \<and> obj_get r ''upstream_condition'' = JStr upstream_condition"
    by (simp add: r assessment_of_def)
  have "facts_ok (observations_of v)"
    using ok by (auto simp: validate_observations_def split: if_splits)
  then have facts: "facts_ok r"
    by (simp add: facts_ok_def get observation_keys_def)
  have flow: "case f of None \<Rightarrow> True
     | Some flow \<Rightarrow> fullmatch flow_id_rx flow \<and> obj_get r ''flow_instance_sha256'' = JStr (sha_digest (utf8 flow))"
    using ok get [of "''flow_instance_sha256''"]
    by (auto simp: validate_observations_def flow_instance_digest_def observation_keys_def
        split: option.splits if_splits)
  show ?thesis using Inr pol facts flow by simp
qed simp

text \<open>
  A published assessment stands on its own: validating it again accepts it
  unchanged, it carries the policy and the obligation, and when it was checked against a
  flow its digest is the SHA-256 of that flow's identity.
\<close>

theorem assessment_revalidates:
  "bindE (validate_assessment f v) (validate_assessment f) = validate_assessment f v
   \<and> (case validate_assessment f v of
        Inl e \<Rightarrow> True
      | Inr r \<Rightarrow> obj_get r ''policy'' = JStr policy \<and> obj_get r ''upstream_condition'' = JStr upstream_condition
          \<and> facts_ok r
          \<and> (case f of None \<Rightarrow> True
             | Some flow \<Rightarrow> fullmatch flow_id_rx flow \<and> obj_get r ''flow_instance_sha256'' = JStr (sha_digest (utf8 flow))))"
  by (rule conjI [OF assessments.twice assessment_content])

section \<open>The review obligation\<close>

lemma hash_check:
  "bindE (hash_in v ss) (\<lambda>b. if \<not> b then raise e else m) = Inr y \<longleftrightarrow> in_strings v ss \<and> m = Inr y"
  by (cases v) (auto simp: hash_in_def hashable_def in_strings_def)

lemma hash_check_if:
  "(if c then raise e else bindE (hash_in v ss) (\<lambda>b. if \<not> b \<or> d then raise e' else m)) = Inr y
     \<longleftrightarrow> \<not> c \<and> in_strings v ss \<and> \<not> d \<and> m = Inr y"
  by (cases v) (auto simp: hash_in_def hashable_def in_strings_def)


text \<open>A row of the log that neither hides a problem nor belongs to another test.\<close>

definition review_row :: "json \<Rightarrow> bool" where
  "review_row row \<longleftrightarrow> obj_get row ''result'' = JStr ''REVIEW''"

definition row_admissible :: "json \<Rightarrow> json \<Rightarrow> bool" where
  "row_admissible test_id row \<longleftrightarrow> py_eq (obj_get row ''testId'') test_id
     \<and> (if has_key row ''result'' then in_strings (obj_get row ''result'') allowed_log_results else True)
     \<and> (if review_row row
        then obj_get row ''src'' = JStr upstream_condition
          \<and> obj_get row ''requirements'' = JArr [JStr ''OID4VP-1FINAL-8.2'']
          \<and> obj_get row ''image_no_longer_required'' \<noteq> JBool True
        else True)"

lemma missing_key_JNull: "\<not> has_key row k \<Longrightarrow> obj_get row k = JNull"
  by (cases row) (force simp: has_key_def obj_get_def dest: map_of_SomeD split: option.split)+

lemma py_eq_one: "py_eq v (JArr [JStr s]) \<longleftrightarrow> v = JArr [JStr s]"
  using py_eq_str_list [of v "[s]"] by simp

lemma log_row_OK:
  "log_row t row = Inr n \<longleftrightarrow> row_admissible t row \<and> n = (if review_row row then 1 else 0)"
proof (cases "obj_get row ''result''")
  case (JStr s)
  then have "has_key row ''result''" by (metis missing_key_JNull json.distinct(7))
  with JStr show ?thesis
    by (auto simp: log_row_def row_admissible_def review_row_def in_strings_def allowed_log_results_def py_eq_one)
qed (auto simp: log_row_def row_admissible_def review_row_def in_strings_def dest: missing_key_JNull)

lemma mapE_count:
  assumes "\<And>x n. f x = Inr n \<longleftrightarrow> P x \<and> n = (if Q x then 1 else (0 :: nat))"
  shows "mapE f xs = Inr ns \<and> sum_list ns = m \<longleftrightarrow>
    list_all P xs \<and> length (filter Q xs) = m \<and> ns = map (\<lambda>x. if Q x then 1 else 0) xs"
proof -
  have "sum_list (map (\<lambda>x. if Q x then 1 else (0 :: nat)) xs) = length (filter Q xs)" by (induction xs) auto
  then show ?thesis unfolding mapE_check [OF assms] by auto
qed

lemma log_rows_OK:
  "mapE (log_row t) rows = Inr ns \<and> sum_list ns = m \<longleftrightarrow>
     list_all (row_admissible t) rows \<and> length (filter review_row rows) = m
     \<and> ns = map (\<lambda>x. if review_row x then 1 else 0) rows"
  by (rule mapE_count) (rule log_row_OK)

lemma check_test_info_OK:
  "check_test_info ms v info = Inr () \<longleftrightarrow> is_dict info \<and> in_strings (obj_get info ''testName'') ms
     \<and> obj_get info ''status'' = JStr ''FINISHED'' \<and> obj_get info ''result'' = JStr ''REVIEW''
     \<and> is_dict (obj_get info ''variant'') \<and> py_eq (obj_get info ''variant'') v
     \<and> identity_ok info ''testId'' \<and> identity_ok info ''planId''
     \<and> py_eq (obj_get info ''_id'') (obj_get info ''testId'')"
  unfolding check_test_info_def hash_check_if by (auto simp del: json_tests)

text \<open>
  The review obligation is discharged only for the reviewed suite and a positive
  module of the profile, finished with REVIEW in the expected variant and with its own
  identity, when every row of the complete log belongs to that test and has an admissible
  result, and exactly one row asks for the successful-verification page.
\<close>

theorem positive_review_obligation_exact:
  "positive_review_obligation profile variant commit document = Inr condition \<longleftrightarrow>
     (\<exists>modules rows. commit = upstream_commit \<and> map_of allowed_modules profile = Some modules \<and> is_dict document
        \<and> check_test_info modules variant (obj_get document ''testInfo'') = Inr ()
        \<and> obj_get document ''results'' = JArr rows \<and> rows \<noteq> [] \<and> list_all is_dict rows
        \<and> list_all (row_admissible (obj_get (obj_get document ''testInfo'') ''testId'')) rows
        \<and> length (filter review_row rows) = 1 \<and> condition = upstream_condition)"
proof -
  let ?t = "obj_get (obj_get document ''testInfo'') ''testId''"
  have split_rows: "arr_of j \<noteq> [] \<and> list_all is_dict (arr_of j) \<and> X (arr_of j) \<longleftrightarrow>
      (\<exists>rows. j = JArr rows \<and> rows \<noteq> [] \<and> list_all is_dict rows \<and> X rows)" for j X
    by (cases j) (auto simp: arr_of_def simp del: json_tests)
  have count: "bindE (mapE (log_row ?t) rows) (\<lambda>ns. if sum_list ns \<noteq> 1 then raise e else ret c) = Inr condition \<longleftrightarrow>
      list_all (row_admissible ?t) rows \<and> length (filter review_row rows) = 1 \<and> condition = c" for rows e c
    using log_rows_OK [of ?t rows _ 1] by auto
  show ?thesis
    unfolding positive_review_obligation_def Let_def if_raise_eq_Inr count bindE_eq_Inr [of "check_test_info _ _ _"]
      ex_unit de_Morgan_disj not_not
    using split_rows [of "obj_get document ''results''" "\<lambda>rows. list_all (row_admissible ?t) rows \<and> length (filter review_row rows) = 1"]
    by (cases "map_of allowed_modules profile") (simp_all add: count list_ex_not del: json_tests bindE_eq_Inr, blast)
qed

section \<open>Diagnostic reports\<close>

definition report_module_ok :: "json \<Rightarrow> bool" where
  "report_module_ok m \<longleftrightarrow> keys_are m diagnostic_module_keys
     \<and> (\<exists>n. obj_get m ''test_name'' = JStr n \<and> fullmatch safe_diagnostic_module n)
     \<and> (\<exists>stage. obj_get m ''official_failure_stage'' = JStr stage \<and> stage \<in> set allowed_stages
          \<and> (if stage = ''direct-post-callback-response''
             then \<exists>i. obj_get m ''official_http_status'' = JInt i \<and> 100 \<le> i \<and> i \<le> 599
             else obj_get m ''official_http_status'' = JNull))
     \<and> outcome_allowed (obj_get m ''marty_flow_result'') (obj_get m ''marty_flow_decision'') (obj_get m ''marty_flow_category'')"

lemma diagnostic_module_sound: "diagnostic_module m = Inr () \<Longrightarrow> report_module_ok m"
proof -
  assume m: "diagnostic_module m = Inr ()"
  have status: "http_status_ok s \<Longrightarrow> s \<noteq> JNull \<Longrightarrow> \<exists>i. s = JInt i \<and> 100 \<le> i \<and> i \<le> 599" for s
    by (cases s) (auto simp: http_status_ok_def)
  from m have k: "keys_are m diagnostic_module_keys"
    and n: "is_str (obj_get m ''test_name'')" "fullmatch safe_diagnostic_module (str_of (obj_get m ''test_name''))"
    and st: "in_strings (obj_get m ''official_failure_stage'') allowed_stages"
    and h: "http_status_ok (obj_get m ''official_http_status'')"
    and c: "(obj_get m ''official_failure_stage'' = JStr ''direct-post-callback-response'')
        = (obj_get m ''official_http_status'' \<noteq> JNull)"
    and o: "outcome_allowed (obj_get m ''marty_flow_result'') (obj_get m ''marty_flow_decision'') (obj_get m ''marty_flow_category'')"
    unfolding diagnostic_module_def Let_def if_raise_eq_Inr hash_check not_not by - (elim conjE, assumption)+
  from n have "\<exists>n. obj_get m ''test_name'' = JStr n \<and> fullmatch safe_diagnostic_module n" by auto
  moreover have "\<exists>stage. obj_get m ''official_failure_stage'' = JStr stage \<and> stage \<in> set allowed_stages
          \<and> (if stage = ''direct-post-callback-response''
             then \<exists>i. obj_get m ''official_http_status'' = JInt i \<and> 100 \<le> i \<and> i \<le> 599
             else obj_get m ''official_http_status'' = JNull)"
  proof -
    from st obtain stage where s: "obj_get m ''official_failure_stage'' = JStr stage" "stage \<in> set allowed_stages"
      unfolding in_strings_iff by blast
    show ?thesis
    proof (cases "stage = ''direct-post-callback-response''")
      case True
      then have "obj_get m ''official_http_status'' \<noteq> JNull" using s c by metis
      with status [OF h] True s show ?thesis by simp
    next
      case False
      then have "obj_get m ''official_http_status'' = JNull" using s c by (metis json.inject(4))
      with False s show ?thesis by simp
    qed
  qed
  ultimately show ?thesis using k o unfolding report_module_ok_def by blast
qed

text \<open>
  A published verifier diagnostic holds fixed fields only: an accepted report is
  returned unchanged, and each of its modules has exactly the six keys, a safe module name,
  an allowed combination of result, decision and category, and an HTTP status exactly when
  the failure was in the direct-post response.
\<close>

theorem sd_jwt_report_closed:
  "case sd_jwt_diagnostic_report v of
     Inl e \<Rightarrow> True
   | Inr r \<Rightarrow> r = v \<and> keys_are v [''schema'', ''source_policy'', ''modules'']
       \<and> (\<exists>modules. obj_get v ''modules'' = JArr modules \<and> modules \<noteq> [] \<and> list_all report_module_ok modules)"
proof (cases "sd_jwt_diagnostic_report v")
  case (Inr r)
  then have *: "keys_are v [''schema'', ''source_policy'', ''modules'']" "r = v" "arr_of (obj_get v ''modules'') \<noteq> []"
    "\<exists>us. mapE diagnostic_module (arr_of (obj_get v ''modules'')) = Inr us"
    by (auto simp: sd_jwt_diagnostic_report_def split: if_splits)
  then have "list_all report_module_ok (arr_of (obj_get v ''modules''))"
    unfolding list_all_iff using mapE_set_source diagnostic_module_sound by (metis (full_types) unit.exhaust)
  with * Inr show ?thesis by (cases "obj_get v ''modules''") (auto simp: arr_of_def)
qed simp

end
