(* ===== verification/Py_Glob.thy ===== *)
theory Py_Glob
  imports Py_Json Py_Regex
begin

text \<open>
  \<open>fnmatch.fnmatchcase\<close>, \<open>re.findall\<close> of a pattern with two groups, short-circuit \<open>any\<close>, and
  dictionaries with string values, as the conformance scripts use them.
\<close>

section \<open>Shell patterns\<close>

text \<open>
  The items between the brackets of a set: \<open>a-b\<close> is a range (an empty one admits nothing),
  every other character stands for itself.
\<close>

fun set_items :: "string \<Rightarrow> (char \<times> char) list" where
  "set_items (a # d # b # cs) = (if d = CHR ''-'' then (a, b) # set_items cs else (a, a) # set_items (d # b # cs))"
| "set_items (a # cs) = (a, a) # set_items cs"
| "set_items [] = []"

definition in_items :: "(char \<times> char) list \<Rightarrow> char \<Rightarrow> bool" where
  "in_items items c = list_ex (\<lambda>(a, b). code a \<le> code c \<and> code c \<le> code b) items"

text \<open>
  A set after its opening bracket: \<open>!\<close> negates, a first \<open>]\<close> is a member, and a set that is
  never closed makes the bracket an ordinary character.
\<close>

definition set_body :: "string \<Rightarrow> (bool \<times> string \<times> string) option" where
  "set_body p = (let neg = startswith p ''!''; q = (if neg then tl p else p);
       first = (if startswith q '']'' then '']'' else []); r = drop (length first) q
     in if CHR '']'' \<in> set r
        then Some (neg, first @ takeWhile (\<lambda>c. c \<noteq> CHR '']'') r, drop 1 (dropWhile (\<lambda>c. c \<noteq> CHR '']'') r))
        else None)"

lemma set_body_shorter: "set_body p = Some (neg, body, rest) \<Longrightarrow> length rest < length p"
proof -
  assume a: "set_body p = Some (neg, body, rest)"
  define q where "q = (if startswith p ''!'' then tl p else p)"
  define r where "r = drop (length (if startswith q '']'' then '']'' else [])) q"
  from a have r: "CHR '']'' \<in> set r" and rest: "rest = drop 1 (dropWhile (\<lambda>c. c \<noteq> CHR '']'') r)"
    unfolding set_body_def Let_def q_def r_def by (auto split: if_splits)
  have "length r \<le> length p" by (simp add: r_def q_def)
  moreover have "length (dropWhile (\<lambda>c. c \<noteq> CHR '']'') r) \<le> length r" by (rule length_dropWhile_le)
  moreover have "r \<noteq> []" using r by auto
  ultimately show ?thesis using rest by (cases r) auto
qed

function glob :: "string \<Rightarrow> string \<Rightarrow> bool" where
  "glob [] s = (s = [])"
| "glob (p # ps) s =
     (if p = CHR ''*'' then glob ps s \<or> (case s of [] \<Rightarrow> False | _ # cs \<Rightarrow> glob (p # ps) cs)
      else case s of
        [] \<Rightarrow> False
      | c # cs \<Rightarrow>
         (if p = CHR ''?'' then glob ps cs
          else if p = CHR ''['' then (case set_body ps of
             None \<Rightarrow> c = p \<and> glob ps cs
           | Some (neg, body, rest) \<Rightarrow> in_items (set_items body) c \<noteq> neg \<and> glob rest cs)
          else c = p \<and> glob ps cs))"
  by pat_completeness auto
termination
  by (relation "measures [\<lambda>(p, s). length p, \<lambda>(p, s). length s]") (auto dest: set_body_shorter)

declare glob.simps(2) [simp del]

definition glob_magic :: "char \<Rightarrow> bool" where
  "glob_magic c = (c = CHR ''*'' \<or> c = CHR ''?'' \<or> c = CHR ''['')"

lemma glob_step:
  "glob (CHR ''*'' # ps) [] = glob ps []"
  "glob (CHR ''*'' # ps) (c # cs) = (glob ps (c # cs) \<or> glob (CHR ''*'' # ps) cs)"
  "\<not> glob_magic p \<Longrightarrow> glob (p # ps) s = (case s of [] \<Rightarrow> False | c # cs \<Rightarrow> c = p \<and> glob ps cs)"
  by (subst glob.simps(2); simp add: glob_magic_def split: list.split)+

lemma glob_literal: "list_all (\<lambda>c. \<not> glob_magic c) p \<Longrightarrow> glob p s \<longleftrightarrow> s = p"
proof (induction p arbitrary: s)
  case (Cons c p)
  then show ?case by (cases s) (simp_all add: glob_step)
qed simp

lemma glob_star: "glob (CHR ''*'' # p) s \<longleftrightarrow> (\<exists>a b. s = a @ b \<and> glob p b)"
proof (induction s)
  case (Cons c s)
  have "(\<exists>a b. c # s = a @ b \<and> glob p b) \<longleftrightarrow> glob p (c # s) \<or> (\<exists>a b. s = a @ b \<and> glob p b)"
    by (simp add: Cons_eq_append_conv) blast
  with Cons show ?case by (simp add: glob_step)
qed (simp add: glob_step)

section \<open>Short-circuit any\<close>

fun anyE :: "('a \<Rightarrow> bool result) \<Rightarrow> 'a list \<Rightarrow> bool result" where
  "anyE f [] = ret False"
| "anyE f (x # xs) = bindE (f x) (\<lambda>b. if b then ret True else anyE f xs)"

lemma anyE_False: "anyE f xs = Inr False \<longleftrightarrow> (\<forall>x\<in>set xs. f x = Inr False)"
  by (induction xs) auto

lemma anyE_TrueD: "anyE f xs = Inr True \<Longrightarrow> \<exists>x\<in>set xs. f x = Inr True"
proof (induction xs)
  case (Cons x xs)
  then obtain b where "f x = Inr b" and "(if b then ret True else anyE f xs) = Inr True" by auto
  with Cons.IH show ?case by (cases b) auto
qed simp

lemma anyE_total: "(\<And>x. x \<in> set xs \<Longrightarrow> f x = Inr (P x)) \<Longrightarrow> anyE f xs = Inr (list_ex P xs)"
  by (induction xs) auto

section \<open>A greedy run of a class before a delimiter\<close>

text \<open>
  What follows a run of a class is tried first after the whole run; a continuation that
  cannot start with a character of the class succeeds there or nowhere.
\<close>

lemma greedy_run:
  assumes stop: "\<And>q u h. u \<noteq> [] \<Longrightarrow> P (hd u) \<Longrightarrow> f (q, u, h) = []"
    and run: "list_all P k" and len: "length k \<le> n" and m: "m \<le> length k"
    and edge: "t = [] \<or> \<not> P (hd t)"
  shows "concat (map f (rep_match (rmatch (Cls P)) m n (p, k @ t, g))) = f (last_or p k, t, g)"
  using run len m
proof (induction k arbitrary: p m n)
  case Nil
  show ?case
  proof (cases n)
    case 0
    with Nil show ?thesis by simp
  next
    case (Suc n')
    have "rmatch (Cls P) (p, t, g) = []" using edge by (cases t) auto
    with Suc Nil show ?thesis by simp
  qed
next
  case (Cons c k)
  then obtain n' where n: "n = Suc n'" by (cases n) auto
  have c: "P c" using Cons.prems by simp
  have IH: "concat (map f (rep_match (rmatch (Cls P)) (m - 1) n' (Some c, k @ t, g))) = f (last_or (Some c) k, t, g)"
    using Cons.prems n by (intro Cons.IH) auto
  have f: "f (p, c # k @ t, g) = []" using c by (intro stop) auto
  from c n IH f show ?case by simp
qed

text \<open>\<open>\[key=value\]\<close> with its two groups.\<close>

definition pair_rx :: "(char \<Rightarrow> bool) \<Rightarrow> (char \<Rightarrow> bool) \<Rightarrow> rx" where
  "pair_rx K V = seqs [Lit ''['', Grp ''1'' (Many 1 (Cls K)), Lit ''='', Grp ''2'' (Many 1 (Cls V)), Lit '']'']"

definition pair_text :: "string \<times> string \<Rightarrow> string" where
  "pair_text kv = ''['' @ fst kv @ ''='' @ snd kv @ '']''"

definition pairs_text :: "(string \<times> string) list \<Rightarrow> string" where
  "pairs_text kvs = concat (map pair_text kvs)"

definition findall_pairs :: "rx \<Rightarrow> string \<Rightarrow> (string \<times> string) list" where
  "findall_pairs r s = map (\<lambda>st. (group st ''1'', group st ''2'')) (finditer r s)"

text \<open>What a match of a class run leaves: the text is split, the groups are untouched.\<close>

lemma run_split:
  "(q, u, h) \<in> set (rep_match (rmatch (Cls P)) m n (p, s, g)) \<Longrightarrow>
     h = g \<and> (\<exists>k. s = k @ u \<and> m \<le> length k \<and> list_all P k)"
proof (induction n arbitrary: m p s)
  case 0
  then show ?case by (simp split: if_splits)
next
  case (Suc n)
  from Suc.prems consider "m = 0" "u = s" "h = g"
    | c cs where "s = c # cs" "P c" "(q, u, h) \<in> set (rep_match (rmatch (Cls P)) (m - 1) n (Some c, cs, g))"
    by (cases s) (auto split: if_splits)
  then show ?case
  proof cases
    case 1
    then show ?thesis by simp
  next
    case 2
    from Suc.IH [OF 2(3)] obtain k where k: "h = g" "cs = k @ u" "m - 1 \<le> length k" "list_all P k" by blast
    then show ?thesis using 2 by (intro conjI exI [of _ "c # k"]) auto
  qed
qed

lemma class_group:
  "st \<in> set (rmatch (Grp n (Many m (Cls P))) (p, s, g)) \<Longrightarrow>
     \<exists>k. m \<le> length k \<and> list_all P k \<and> snd (snd st) = (n, k) # g"
proof -
  assume "st \<in> set (rmatch (Grp n (Many m (Cls P))) (p, s, g))"
  then obtain q u h where "(q, u, h) \<in> set (rep_match (rmatch (Cls P)) m (length s) (p, s, g))"
    and st: "st = (q, u, (n, take (length s - length u) s) # h)" by auto
  from run_split [OF this(1)] obtain k where "h = g" "s = k @ u" "m \<le> length k" "list_all P k" by blast
  with st show ?thesis by auto
qed

lemma pair_rx_groups:
  assumes "st \<in> set (rmatch (pair_rx K V) (p, s, g))"
  shows "\<exists>k v. snd (snd st) = (''2'', v) # (''1'', k) # g \<and> k \<noteq> [] \<and> v \<noteq> [] \<and> list_all K k \<and> list_all V v"
proof -
  have lit: "st \<in> set (rmatch (Lit l) st0) \<Longrightarrow> snd (snd st) = snd (snd st0)" for st st0 l
    by (cases st0) (auto split: if_splits)
  have grp: "st \<in> set (rmatch (Grp n (Many 1 (Cls P))) st0) \<Longrightarrow>
      \<exists>k. k \<noteq> [] \<and> list_all P k \<and> snd (snd st) = (n, k) # snd (snd st0)" for st st0 n P
    using class_group [of st n 1 P] by (cases st0) (fastforce simp del: rmatch.simps)
  from assms obtain s1 s2 s3 s4 where
    "s1 \<in> set (rmatch (Lit ''['') (p, s, g))" "s2 \<in> set (rmatch (Grp ''1'' (Many 1 (Cls K))) s1)"
    "s3 \<in> set (rmatch (Lit ''='') s2)" "s4 \<in> set (rmatch (Grp ''2'' (Many 1 (Cls V))) s3)"
    "st \<in> set (rmatch (Lit '']'') s4)"
    unfolding pair_rx_def seqs.simps rmatch.simps(4) by (auto simp del: rmatch.simps)
  with lit grp show ?thesis by (metis snd_conv)
qed

lemma search_from_rmatch: "search_from r p s = Some st \<Longrightarrow> \<exists>q u. st \<in> set (rmatch r (q, u, []))"
proof (induction r p s rule: search_from.induct)
  case (1 r p)
  then show ?case by (auto split: list.splits intro!: exI [of _ p] exI [of _ "[]"])
next
  case (2 r p c cs)
  then show ?case by (cases "rmatch r (p, c # cs, [])") (auto intro!: exI [of _ p] exI [of _ "c # cs"])
qed

lemma finditer_from_rmatch: "st \<in> set (finditer_from r p s) \<Longrightarrow> \<exists>q u. st \<in> set (rmatch r (q, u, []))"
proof (induction r p s rule: finditer_from.induct)
  case (1 r p s)
  show ?case
  proof (cases "search_from r p s")
    case None
    with "1.prems" show ?thesis by (simp add: finditer_from.simps [of r p s])
  next
    case (Some t)
    obtain p' s' g' where t: "t = (p', s', g')" by (cases t)
    show ?thesis
    proof (cases "st = t")
      case True
      with Some show ?thesis by (auto dest: search_from_rmatch)
    next
      case False
      with "1.prems" Some t have "length s' < length s" "st \<in> set (finditer_from r p' s')"
        by (auto simp: finditer_from.simps [of r p s] split: if_splits)
      with "1.IH" [OF Some t [symmetric] refl] show ?thesis by blast
    qed
  qed
qed

lemma findall_pairs_valid:
  "kv \<in> set (findall_pairs (pair_rx K V) s) \<Longrightarrow>
     fst kv \<noteq> [] \<and> snd kv \<noteq> [] \<and> list_all K (fst kv) \<and> list_all V (snd kv)"
proof -
  assume "kv \<in> set (findall_pairs (pair_rx K V) s)"
  then obtain st where st: "st \<in> set (finditer_from (pair_rx K V) None s)"
    and kv: "kv = (group st ''1'', group st ''2'')" by (auto simp: findall_pairs_def finditer_def)
  from finditer_from_rmatch [OF st] pair_rx_groups obtain k v where
    "snd (snd st) = [(''2'', v), (''1'', k)]" "k \<noteq> []" "v \<noteq> []" "list_all K k" "list_all V v" by metis
  with kv show ?thesis by (simp add: group_def)
qed

text \<open>And the other direction: rendered pairs are found again, in order.\<close>

definition pair_ok :: "(char \<Rightarrow> bool) \<Rightarrow> (char \<Rightarrow> bool) \<Rightarrow> string \<times> string \<Rightarrow> bool" where
  "pair_ok K V kv = (fst kv \<noteq> [] \<and> snd kv \<noteq> [] \<and> list_all K (fst kv) \<and> list_all V (snd kv))"

lemma group_run:
  assumes "list_all P k" "k \<noteq> []" "\<not> P c"
    and stop: "\<And>q u h. u \<noteq> [] \<Longrightarrow> hd u \<noteq> c \<Longrightarrow> rmatch r (q, u, h) = []"
  shows "concat (map (rmatch r) (rmatch (Grp n (Many 1 (Cls P))) (p, k @ c # t, g)))
    = rmatch r (last_or p k, c # t, (n, k) # g)"
proof -
  let ?s = "k @ c # t"
  define f where "f = (\<lambda>(q, u, h). rmatch r (q, u, (n, take (length ?s - length u) ?s) # h))"
  have "concat (map (rmatch r) (rmatch (Grp n (Many 1 (Cls P))) (p, ?s, g)))
    = concat (map f (rep_match (rmatch (Cls P)) 1 (length ?s) (p, ?s, g)))"
    by (simp add: f_def comp_def case_prod_unfold del: rep_match.simps)
  also have "\<dots> = f (last_or p k, c # t, g)"
    using assms(1,2,3) stop by (intro greedy_run) (auto simp: f_def Suc_le_eq)
  finally show ?thesis by (simp add: f_def)
qed

lemma rmatch_pair_text:
  assumes "pair_ok K V kv" "\<not> K (CHR ''='')" "\<not> V (CHR '']'')"
  shows "rmatch (pair_rx K V) (p, pair_text kv @ t, []) = [(Some (CHR '']''), t, [(''2'', snd kv), (''1'', fst kv)])]"
proof -
  have lit: "u \<noteq> [] \<Longrightarrow> hd u \<noteq> c \<Longrightarrow> rmatch (Lit [c]) (q, u, h) = []" for u c q h
    by (cases u) (auto simp: startswith_def)
  then have stop: "u \<noteq> [] \<Longrightarrow> hd u \<noteq> c \<Longrightarrow> rmatch (Seq (Lit [c]) r) (q, u, h) = []" for u c q h r
    by (simp del: rmatch.simps add: rmatch.simps(4))
  have one: "rmatch (Seq (Lit [c]) r) (q, c # u, h) = rmatch r (Some c, u, h)" for c r q u h
    by (simp add: startswith_def)
  from assms(1) have ok: "list_all K (fst kv)" "fst kv \<noteq> []" "list_all V (snd kv)" "snd kv \<noteq> []"
    by (simp_all add: pair_ok_def)
  have "rmatch (pair_rx K V) (p, pair_text kv @ t, [])
    = rmatch (Seq (Grp ''1'' (Many 1 (Cls K))) (Seq (Lit ''='') (Seq (Grp ''2'' (Many 1 (Cls V))) (Lit '']''))))
        (Some (CHR ''[''), fst kv @ CHR ''='' # snd kv @ CHR '']'' # t, [])"
    unfolding pair_rx_def seqs.simps pair_text_def by (simp only: append.assoc append_Cons append_Nil one)
  also have "\<dots> = concat (map (rmatch (Seq (Lit ''='') (Seq (Grp ''2'' (Many 1 (Cls V))) (Lit '']''))))
        (rmatch (Grp ''1'' (Many 1 (Cls K))) (Some (CHR ''[''), fst kv @ CHR ''='' # snd kv @ CHR '']'' # t, [])))"
    by (simp only: rmatch.simps(4))
  also have "\<dots> = rmatch (Seq (Grp ''2'' (Many 1 (Cls V))) (Lit '']''))
      (Some (CHR ''=''), snd kv @ CHR '']'' # t, [(''1'', fst kv)])"
    by (subst group_run [OF ok(1,2) assms(2) stop]) (auto simp only: one append_Cons append_Nil)
  also have "\<dots> = concat (map (rmatch (Lit '']'')) (rmatch (Grp ''2'' (Many 1 (Cls V)))
      (Some (CHR ''=''), snd kv @ CHR '']'' # t, [(''1'', fst kv)])))"
    by (simp only: rmatch.simps(4))
  also have "\<dots> = rmatch (Lit '']'') (last_or (Some (CHR ''='')) (snd kv), CHR '']'' # t, [(''2'', snd kv), (''1'', fst kv)])"
    by (rule group_run [OF ok(3,4) assms(3) lit])
  finally show ?thesis by (simp add: startswith_def)
qed

lemma findall_pairs_text:
  assumes "list_all (pair_ok K V) kvs" "\<not> K (CHR ''='')" "\<not> V (CHR '']'')"
  shows "findall_pairs (pair_rx K V) (pairs_text kvs) = kvs"
proof -
  let ?r = "pair_rx K V"
  have "map (\<lambda>st. (group st ''1'', group st ''2'')) (finditer_from ?r p (pairs_text kvs)) = kvs" for p
    using assms(1)
  proof (induction kvs arbitrary: p)
    case Nil
    have "rmatch ?r (p, [], []) = []"
      by (simp add: pair_rx_def startswith_def)
    then show ?case by (simp add: pairs_text_def finditer_from.simps [of _ _ "[]"])
  next
    case (Cons kv kvs)
    let ?t = "pairs_text kvs"
    obtain c u where u: "pair_text kv @ ?t = c # u" by (simp add: pair_text_def)
    have "search_from ?r p (pairs_text (kv # kvs)) = Some (Some (CHR '']''), ?t, [(''2'', snd kv), (''1'', fst kv)])"
      using rmatch_pair_text [of K V kv p ?t] Cons.prems assms(2,3) by (simp add: pairs_text_def pair_text_def)
    moreover have "length ?t < length (pairs_text (kv # kvs))" by (simp add: pairs_text_def pair_text_def)
    ultimately have "finditer_from ?r p (pairs_text (kv # kvs))
      = (Some (CHR '']''), ?t, [(''2'', snd kv), (''1'', fst kv)]) # finditer_from ?r (Some (CHR '']'')) ?t"
      by (simp add: finditer_from.simps [of ?r p "pairs_text (kv # kvs)"])
    with Cons show ?case by (simp add: group_def)
  qed
  then show ?thesis by (simp add: findall_pairs_def finditer_def)
qed

end
