(* ===== verification/Conformance_Plan.thy ===== *)
theory Conformance_Plan
  imports Py_Glob Py_Url Py_Hash Evidence_Contracts
begin

text \<open>
  The reading of official results in \<^verbatim>\<open>scripts/oidf_conformance.py\<close>: the exported module
  documents, the strict summary of their results, the plan selection with its variant, and
  the comparison of an export with the live plan or with the coverage recorded for it.
\<close>

section \<open>Exports\<close>

definition safe_module_char :: "char \<Rightarrow> bool" where
  "safe_module_char c = (is_alnum c \<or> c \<in> set ''_.:-'')"

definition safe_module :: rx where "safe_module = Rep 1 180 (Cls safe_module_char)"

definition safe_module_states :: "string list" where
  "safe_module_states = [''CONFIGURED'', ''RUNNING'', ''WAITING'', ''FINISHED'', ''INTERRUPTED'']"
definition safe_module_results :: "string list" where
  "safe_module_results = [''UNKNOWN'', ''PASSED'', ''WARNING'', ''REVIEW'', ''SKIPPED'', ''FAILED'']"

text \<open>
  The archives of an output directory: for each its name and what opening it yields, its
  members, each with its name and what \<open>json.loads\<close> makes of its content (read only where
  the name asks for it).
\<close>

type_synonym member = "string \<times> json result"
type_synonym export = "(string \<times> member list result) list"

definition archives :: "export \<Rightarrow> export" where
  "archives out = sort_key fst (filter (\<lambda>(n, _). endswith n ''.zip'') out)"

definition module_document :: "json \<Rightarrow> bool" where
  "module_document raw = (is_dict raw \<and> is_dict (obj_get raw ''testInfo''))"

fun exported_members :: "member list \<Rightarrow> json list result" where
  "exported_members [] = ret []"
| "exported_members ((nm, content) # ms) =
     (if \<not> endswith nm ''.json'' then exported_members ms
      else bindE content (\<lambda>raw. bindE (exported_members ms) (\<lambda>ds.
        ret (if module_document raw then raw # ds else ds))))"

definition exported_module_documents :: "export \<Rightarrow> json list result" where
  "exported_module_documents out =
     bindE (mapE (\<lambda>(n, ms). bindE ms exported_members) (archives out)) (\<lambda>dss. ret (concat dss))"

definition exported_module_info :: "export \<Rightarrow> json list result" where
  "exported_module_info out = bindE (exported_module_documents out) (\<lambda>ds.
     ret (map (\<lambda>d. obj_get d ''testInfo'') ds))"

section \<open>The strict summary\<close>

record module_row =
  row_name :: string
  row_status :: string
  row_result :: string

definition known :: "json \<Rightarrow> string list \<Rightarrow> string" where
  "known v allowed = (if in_strings v allowed then str_of v else ''UNKNOWN'')"

definition safe_name :: "json \<Rightarrow> bool" where
  "safe_name v = (is_str v \<and> fullmatch safe_module (str_of v))"

definition summary_step :: "module_row list \<Rightarrow> json \<Rightarrow> module_row list result" where
  "summary_step rows info = (let name = obj_get info ''testName'' in
     if \<not> safe_name name then raise (ValueError ''official export has an invalid module name'')
     else if str_of name \<in> row_name ` set rows
     then raise (ValueError ''official export has ambiguous duplicate module results'')
     else ret (rows @ [\<lparr>row_name = str_of name, row_status = known (obj_get info ''status'') safe_module_states,
                       row_result = known (obj_get info ''result'') safe_module_results\<rparr>]))"

text \<open>An entry of the expected skips whose pattern admits the module; the patterns must be strings.\<close>

definition skip_matches :: "string \<Rightarrow> json \<Rightarrow> bool result" where
  "skip_matches name entry = bindE (py_key entry ''test-name'') (\<lambda>pat.
     case pat of JStr p \<Rightarrow> ret (glob p name) | _ \<Rightarrow> raise TypeError)"

definition unexpected_skip :: "json \<Rightarrow> module_row \<Rightarrow> bool result" where
  "unexpected_skip skips r =
     (if row_result r = ''SKIPPED''
      then bindE (py_iter skips) (\<lambda>es. bindE (anyE (skip_matches (row_name r)) es) (\<lambda>b. ret (\<not> b)))
      else ret False)"

definition unexpected_skips :: "json \<Rightarrow> module_row list \<Rightarrow> string list result" where
  "unexpected_skips skips rows =
     bindE (mapE (\<lambda>r. bindE (unexpected_skip skips r) (\<lambda>b. ret (if b then [row_name r] else []))) rows)
       (\<lambda>nss. ret (concat nss))"

definition summary_passed :: "module_row list \<Rightarrow> string list \<Rightarrow> bool" where
  "summary_passed rows unexpected =
     (list_ex (\<lambda>r. row_result r = ''PASSED'') rows \<and> unexpected = []
      \<and> list_all (\<lambda>r. row_status r = ''FINISHED'' \<and> row_result r \<in> {''PASSED'', ''SKIPPED''}) rows)"

definition count_results :: "module_row list \<Rightarrow> (string \<times> int) list" where
  "count_results rows = fold (\<lambda>r cs.
     put (row_result r) (case map_of cs (row_result r) of None \<Rightarrow> 1 | Some n \<Rightarrow> n + 1) cs) rows []"

definition row_json :: "module_row \<Rightarrow> json" where
  "row_json r = JObj [(''test_name'', JStr (row_name r)), (''status'', JStr (row_status r)),
     (''result'', JStr (row_result r))]"

definition pending_review :: "module_row list \<Rightarrow> string list" where
  "pending_review rows = map row_name (filter (\<lambda>r. row_result r = ''REVIEW'') rows)"

definition summary_json :: "module_row list \<Rightarrow> string list \<Rightarrow> json" where
  "summary_json rows unexpected = JObj
     [(''schema'', JStr ''elevenid.official-oidf-module-results/v1''),
      (''source_policy'', JStr ''unmodified''),
      (''modules'', JArr (map row_json rows)),
      (''counts'', JObj (map (\<lambda>(k, n). (k, JInt n)) (count_results rows))),
      (''pending_review'', JArr (map JStr (pending_review rows))),
      (''unexpected_skips'', JArr (map JStr unexpected)),
      (''passed'', JBool (summary_passed rows unexpected))]"

definition strict_module_summary :: "export \<Rightarrow> json \<Rightarrow> json result" where
  "strict_module_summary out skips =
     bindE (exported_module_info out) (\<lambda>infos. bindE (foldE summary_step [] infos) (\<lambda>rows.
       bindE (unexpected_skips skips rows) (\<lambda>unexpected. ret (summary_json rows unexpected))))"

section \<open>Plan selections\<close>

type_synonym variant = "(string \<times> string) list"

definition variant_key_char :: "char \<Rightarrow> bool" where
  "variant_key_char c = (is_alnum c \<or> c = CHR ''_'')"

definition variant_rx :: rx where
  "variant_rx = pair_rx variant_key_char safe_module_char"

definition parse_variant_selection :: "string \<Rightarrow> (string \<times> variant) result" where
  "parse_variant_selection selection =
     (let name = part_head (CHR ''['') selection; suffix = part_tail (CHR ''['') selection;
          pairs = findall_pairs variant_rx (if suffix \<noteq> [] then ''['' @ suffix else [])
      in if selection \<noteq> name @ pairs_text pairs \<or> \<not> distinct (map fst pairs)
         then raise (ValueError ''invalid official plan selection'') else ret (name, pairs))"

definition variant_json :: "variant \<Rightarrow> json" where
  "variant_json v = JObj (map (\<lambda>(k, x). (k, JStr x)) v)"

section \<open>Coverage of a plan\<close>

record plan_module =
  pm_name :: string
  pm_id :: string
  pm_extra :: variant

definition plan_id_rx :: rx where "plan_id_rx = Rep 1 180 (Cls is_alnum)"
definition variant_key_rx :: rx where "variant_key_rx = Rep 1 80 (Cls variant_key_char)"
definition variant_value_rx :: rx where "variant_value_rx = Rep 1 120 (Cls safe_module_char)"

definition identity_value :: "json \<Rightarrow> bool" where
  "identity_value v = (is_str v \<and> fullmatch plan_id_rx (str_of v))"

definition variant_entry_ok :: "string \<times> json \<Rightarrow> bool" where
  "variant_entry_ok kv = (fullmatch variant_key_rx (fst kv) \<and> is_str (snd kv)
     \<and> fullmatch variant_value_rx (str_of (snd kv)))"

definition variant_of :: "json \<Rightarrow> variant" where
  "variant_of v = map (\<lambda>(k, x). (k, str_of x)) (fields_of v)"

definition plan_module :: "string list \<Rightarrow> json \<Rightarrow> plan_module result" where
  "plan_module seen m =
     (let name = obj_get m ''testModule''; instances = obj_get m ''instances''; extra = obj_get m ''variant'' in
      if \<not> is_dict m then raise (ValueError ''invalid official plan module'')
      else if \<not> safe_name name \<or> str_of name \<in> set seen \<or> \<not> is_dict extra
           \<or> \<not> list_all variant_entry_ok (fields_of extra)
           \<or> \<not> is_list instances \<or> length (arr_of instances) \<noteq> 1 \<or> \<not> identity_value (hd (arr_of instances))
      then raise (ValueError ''official plan has missing or ambiguous module instances'')
      else ret \<lparr>pm_name = str_of name, pm_id = str_of (hd (arr_of instances)), pm_extra = variant_of extra\<rparr>)"

definition plan_modules :: "json list \<Rightarrow> plan_module list result" where
  "plan_modules ms = foldE (\<lambda>pms m. bindE (plan_module (map pm_name pms) m) (\<lambda>pm. ret (pms @ [pm]))) [] ms"

definition expected_modules :: "variant \<Rightarrow> plan_module list \<Rightarrow> (string \<times> string \<times> variant) list" where
  "expected_modules variant pms = map (\<lambda>pm. (pm_name pm, (pm_id pm, merge variant (pm_extra pm)))) pms"

definition interaction_name :: "plan_module \<Rightarrow> string" where
  "interaction_name pm = pm_name pm @ pairs_text (sort_key fst (pm_extra pm))"

definition binding_json :: "plan_module \<Rightarrow> json" where
  "binding_json pm = JObj [(''test_name'', JStr (pm_name pm)), (''test_id'', JStr (pm_id pm)),
     (''interaction_name'', JStr (interaction_name pm))]"

definition check_export :: "string \<Rightarrow> (string \<times> string \<times> variant) list \<Rightarrow> string list \<Rightarrow> json \<Rightarrow> string list result" where
  "check_export plan_id expected exported info =
     (let name = obj_get info ''testName'' in
      case (if is_str name then map_of expected (str_of name) else None) of
        None \<Rightarrow> raise (ValueError ''official export has unexpected or duplicate modules'')
      | Some (identity, v) \<Rightarrow>
          if str_of name \<in> set exported
          then raise (ValueError ''official export has unexpected or duplicate modules'')
          else if obj_get info ''planId'' \<noteq> JStr plan_id \<or> obj_get info ''testId'' \<noteq> JStr identity
               \<or> obj_get info ''_id'' \<noteq> JStr identity \<or> \<not> py_eq (obj_get info ''variant'') (variant_json v)
          then raise (ValueError ''official export does not match its live plan instance'')
          else ret (exported @ [str_of name]))"

definition plan_binding :: "string \<Rightarrow> string \<Rightarrow> (string \<times> string \<times> variant) list \<Rightarrow> json" where
  "plan_binding plan_id selection expected = JObj
     [(''plan_id'', JStr plan_id), (''selection'', JStr selection),
      (''modules'', JObj (map (\<lambda>(n, i, v). (n, JArr [JStr i, variant_json v])) expected))]"

definition coverage_json :: "string \<Rightarrow> string \<Rightarrow> variant \<Rightarrow> plan_module list \<Rightarrow> string list \<Rightarrow> json" where
  "coverage_json plan_id selection variant pms exported =
     (let names = map pm_name pms; missing = sort (filter (\<lambda>n. n \<notin> set exported) names) in JObj
     [(''complete'', JBool (missing = [])),
      (''expected_modules'', JArr (map JStr (sort names))),
      (''missing_modules'', JArr (map JStr missing)),
      (''exported_module_count'', JInt (int (length exported))),
      (''module_bindings'', JArr (map binding_json (sort_key pm_name pms))),
      (''binding_sha256'', JStr (hexdigest (utf8 (json_dumps_sorted
          (plan_binding plan_id selection (expected_modules variant pms))))))])"

definition compare_plan_coverage :: "json list \<Rightarrow> json \<Rightarrow> string \<Rightarrow> json result" where
  "compare_plan_coverage infos plan selection =
     bindE (parse_variant_selection selection) (\<lambda>(name, variant).
     if \<not> is_dict plan \<or> obj_get plan ''planName'' \<noteq> JStr name
        \<or> \<not> py_eq (obj_get plan ''variant'') (variant_json variant)
     then raise (ValueError ''live official plan does not match the selected profile'')
     else if \<not> identity_value (obj_get plan ''_id'')
     then raise (ValueError ''invalid official plan identity'')
     else if arr_of (obj_get plan ''modules'') = []
     then raise (ValueError ''official plan contains no modules'')
     else bindE (plan_modules (arr_of (obj_get plan ''modules''))) (\<lambda>pms.
       if \<not> distinct (map pm_id pms)
       then raise (ValueError ''official plan reuses an instance identity'')
       else let plan_id = str_of (obj_get plan ''_id'') in
         bindE (foldE (check_export plan_id (expected_modules variant pms)) [] infos) (\<lambda>exported.
           ret (coverage_json plan_id selection variant pms exported))))"

section \<open>Recorded and live coverage\<close>

text \<open>A set of JSON values: equal values once, the first inserted kept.\<close>

definition json_set :: "json list \<Rightarrow> json list result" where
  "json_set vs = foldE (\<lambda>s v. if \<not> hashable v then raise TypeError
     else ret (if list_ex (py_eq v) s then s else s @ [v])) [] vs"

definition recorded_module :: "json \<Rightarrow> json result" where
  "recorded_module row = (case obj_get row ''interaction_name'' of
     JStr label \<Rightarrow> bindE (parse_variant_selection label) (\<lambda>(name, extra).
       if obj_get row ''test_name'' \<noteq> JStr name
       then raise (ValueError ''recorded official interaction belongs to another module'')
       else ret (JObj [(''testModule'', JStr name), (''instances'', JArr [obj_get row ''test_id'']),
                       (''variant'', variant_json extra)]))
   | _ \<Rightarrow> raise (ValueError ''recorded official interaction label is missing''))"

definition recorded_coverage_of :: "json list \<Rightarrow> json \<Rightarrow> string \<Rightarrow> json result" where
  "recorded_coverage_of infos recorded selection =
     bindE (json_set (map (\<lambda>i. obj_get i ''planId'') infos)) (\<lambda>plan_ids.
     if length plan_ids \<noteq> 1 \<or> \<not> is_dict recorded
     then raise (ValueError ''recorded official plan identity is missing'')
     else bindE (parse_variant_selection selection) (\<lambda>(name, variant).
       let bindings = obj_get recorded ''module_bindings'' in
       if \<not> is_list bindings \<or> list_ex (\<lambda>r. \<not> is_dict r) (arr_of bindings)
       then raise (ValueError ''recorded official module bindings are missing'')
       else bindE (mapE recorded_module (arr_of bindings)) (\<lambda>modules.
         bindE (compare_plan_coverage infos (JObj [(''_id'', hd plan_ids), (''planName'', JStr name),
             (''variant'', variant_json variant), (''modules'', JArr modules)]) selection) (\<lambda>observed.
           if \<not> py_eq observed recorded
           then raise (ValueError ''recorded official coverage differs from the unchanged export'')
           else ret observed))))"

definition recorded_plan_coverage :: "export \<Rightarrow> json \<Rightarrow> string \<Rightarrow> json result" where
  "recorded_plan_coverage out recorded selection =
     bindE (exported_module_info out) (\<lambda>infos. recorded_coverage_of infos recorded selection)"

end
