(* ===== verification/Conformance_Diagnostics.thy ===== *)
theory Conformance_Diagnostics
  imports Conformance_Plan "HOL-Library.While_Combinator"
begin

text \<open>
  The public diagnostics \<^verbatim>\<open>scripts/oidf_conformance.py\<close> derives from the official exports:
  failures and blocking warnings with allow-listed details, and the life cycle of the scripted
  browser. \<open>order\<close> is the position at which \<open>next(iter(s))\<close> finds an element of a set of strings:
  Python leaves it open.
\<close>

section \<open>Error categories\<close>

text \<open>\<open>casefold\<close> below code point 256 (the micro sign, whose folding lies above, is kept).\<close>

definition casefold :: "string \<Rightarrow> string" where
  "casefold s = concat (map (\<lambda>c. if code c = 223 then ''ss'' else [lower_char c]) s)"

definition category_phrases :: "(string \<times> string) list" where
  "category_phrases =
    [(''key attestation nonce'', ''key-attestation-nonce''),
     (''has no resolved tenant issuer policy'', ''key-attestation-policy-unresolved''),
     (''issuer profile requires a key-attestation-bound proof'', ''key-attestation-missing''),
     (''proof key_attestation header'', ''key-attestation-header''),
     (''certificate chain is not trusted'', ''key-attestation-untrusted-certificate''),
     (''key attestation certificate'', ''key-attestation-certificate''),
     (''key attestation algorithm'', ''key-attestation-algorithm''),
     (''key attestation typ'', ''key-attestation-type''),
     (''key attestation signature'', ''key-attestation-signature''),
     (''key-storage requirements'', ''key-attestation-storage''),
     (''user-authentication requirements'', ''key-attestation-user-authentication''),
     (''attested public key'', ''key-attestation-holder-binding''),
     (''proof signature'', ''proof-signature''),
     (''proof nonce'', ''proof-nonce''),
     (''proof of possession'', ''proof-of-possession'')]"

definition error_category :: "string \<Rightarrow> string option" where
  "error_category description =
     map_option snd (find (\<lambda>(phrase, category). occurs_in phrase (casefold description)) category_phrases)"

text \<open>The explicit stack (its top first) and the categories found, each once.\<close>

definition add_new :: "'a \<Rightarrow> 'a list \<Rightarrow> 'a list" where
  "add_new x xs = (if x \<in> set xs then xs else xs @ [x])"

definition field_category :: "string \<times> json \<Rightarrow> string option" where
  "field_category kv = (if fst kv = ''error_description'' \<and> is_str (snd kv) then error_category (str_of (snd kv)) else None)"

definition add_category :: "string \<times> json \<Rightarrow> string list \<Rightarrow> string list" where
  "add_category kv cs = (case field_category kv of None \<Rightarrow> cs | Some c \<Rightarrow> add_new c cs)"

fun walk_step :: "json list \<times> string list \<Rightarrow> json list \<times> string list" where
  "walk_step (JObj kvs # stack, cs) = (rev (map snd kvs) @ stack, fold add_category kvs cs)"
| "walk_step (JArr xs # stack, cs) = (rev xs @ stack, cs)"
| "walk_step (_ # stack, cs) = (stack, cs)"
| "walk_step ([], cs) = ([], cs)"

definition walk :: "json \<Rightarrow> (json list \<times> string list) option" where
  "walk v = while_option (\<lambda>(stack, cs). stack \<noteq> []) walk_step ([v], [])"

definition error_categories :: "json \<Rightarrow> string list" where
  "error_categories v = (case walk v of None \<Rightarrow> [] | Some (stack, cs) \<Rightarrow> cs)"

section \<open>Safe details\<close>

definition status_keys :: "string list" where "status_keys = [''http_status'', ''expected_status_codes'']"
definition allowed_detail_keys :: "string list" where
  "allowed_detail_keys = status_keys @ [''error'', ''expected_error'']"

definition detail_code_rx :: rx where
  "detail_code_rx = Rep 1 80 (Cls (\<lambda>c. is_lower c \<or> is_digit c \<or> c = CHR ''_''))"

definition safe_detail :: "string \<Rightarrow> json \<Rightarrow> bool" where
  "safe_detail key child =
     (if key \<in> set status_keys then is_int child \<or> (is_list child \<and> list_all is_int (arr_of child))
      else key \<in> set allowed_detail_keys \<and> is_str child \<and> fullmatch detail_code_rx (str_of child))"

definition add_absent :: "(string \<times> json) list \<Rightarrow> (string \<times> json) list \<Rightarrow> (string \<times> json) list" where
  "add_absent sub found = found @ filter (\<lambda>(n, d). n \<notin> fst ` set found) sub"

fun safe_details :: "json \<Rightarrow> (string \<times> json) list" where
  "safe_details (JObj kvs) = fold (\<lambda>(key, child, sub) found.
       add_absent sub (if safe_detail key child then put key child found else found))
     (map (\<lambda>(key, child). (key, child, safe_details child)) kvs) []"
| "safe_details (JArr xs) = fold add_absent (map safe_details xs) []"
| "safe_details _ = []"

section \<open>Failures\<close>

text \<open>A step for each JSON member of an export, in the order of archives and of member names.\<close>

definition per_document :: "(json \<Rightarrow> 'a list result) \<Rightarrow> export \<Rightarrow> 'a list result" where
  "per_document f out = bindE (mapE (\<lambda>(n, opened). bindE opened (\<lambda>ms.
       mapE (\<lambda>(nm, content). bindE content f) (filter (\<lambda>(nm, content). endswith nm ''.json'') (sort_key fst ms))))
     (archives out)) (\<lambda>dsss. ret (concat (concat dsss)))"

definition metadata_condition :: string where
  "metadata_condition = ''VP1FinalCheckForUnexpectedParametersInVpClientMetadata''"

definition parameter_rx :: rx where
  "parameter_rx = Seq (Cls is_lower) (Rep 0 63 (Cls (\<lambda>c. is_lower c \<or> is_digit c \<or> c = CHR ''_'')))"

definition unexpected_parameters :: "json \<Rightarrow> string list" where
  "unexpected_parameters parameters = sort (remdups
     (map str_of (filter (\<lambda>v. is_str v \<and> fullmatch parameter_rx (str_of v)) (arr_of parameters))))"

definition warning_diagnostic :: "string \<Rightarrow> json \<Rightarrow> json" where
  "warning_diagnostic module entry = JObj
     [(''module'', JStr module), (''condition'', JStr metadata_condition), (''result'', JStr ''WARNING''),
      (''error_category'', JStr ''unexpected-client-metadata''),
      (''unexpected_parameters'', JArr (map JStr (unexpected_parameters (obj_get entry ''unknown_params''))))]"

definition failure_category :: "(string list \<Rightarrow> nat) \<Rightarrow> string list \<Rightarrow> json \<Rightarrow> string option" where
  "failure_category order module_categories entry = (let cs = error_categories entry in
     if cs \<noteq> [] then Some (cs ! (order cs mod length cs))
     else if length module_categories = 1 then Some (hd module_categories) else None)"

definition failure_diagnostic :: "(string list \<Rightarrow> nat) \<Rightarrow> string \<Rightarrow> string list \<Rightarrow> (string \<times> string) list \<Rightarrow> json \<Rightarrow> json" where
  "failure_diagnostic order module module_categories blocks entry =
     (let base = [(''module'', JStr module), (''condition'', obj_get entry ''src'')]
          @ (case obj_get entry ''blockId'' of
               JStr b \<Rightarrow> (case map_of blocks b of None \<Rightarrow> [] | Some msg \<Rightarrow> [(''block'', JStr msg)])
             | _ \<Rightarrow> []);
          details = merge base (safe_details entry)
      in JObj (case failure_category order module_categories entry of
           None \<Rightarrow> details | Some c \<Rightarrow> put ''error_category'' (JStr c) details))"

definition starts_block :: "json \<Rightarrow> bool" where
  "starts_block entry = (obj_get entry ''startBlock'' = JBool True \<and> obj_get entry ''src'' = JStr ''-START-BLOCK-'')"

definition log_entry :: "(string list \<Rightarrow> nat) \<Rightarrow> string \<Rightarrow> string list \<Rightarrow> json
    \<Rightarrow> (string \<times> string) list \<times> json list \<Rightarrow> (string \<times> string) list \<times> json list" where
  "log_entry order module module_categories entry st = (case st of (blocks, ds) \<Rightarrow>
     if \<not> is_dict entry then (blocks, ds)
     else if starts_block entry
     then (if is_str (obj_get entry ''blockId'') \<and> is_str (obj_get entry ''msg'')
           then (put (str_of (obj_get entry ''blockId'')) (str_of (obj_get entry ''msg'')) blocks, ds) else (blocks, ds))
     else if obj_get entry ''result'' = JStr ''WARNING'' \<and> obj_get entry ''src'' = JStr metadata_condition
             \<and> fullmatch safe_module module
     then (blocks, ds @ [warning_diagnostic module entry])
     else if obj_get entry ''result'' \<noteq> JStr ''FAILURE'' then (blocks, ds)
     else if \<not> is_str (obj_get entry ''src'') \<or> str_of (obj_get entry ''src'') = [] then (blocks, ds)
     else (blocks, ds @ [failure_diagnostic order module module_categories blocks entry]))"

definition module_of :: "json \<Rightarrow> json" where
  "module_of raw = obj_get (obj_get raw ''testInfo'') ''testName''"

definition failure_diagnostics_of :: "(string list \<Rightarrow> nat) \<Rightarrow> json \<Rightarrow> json list" where
  "failure_diagnostics_of order raw = (let results = obj_get raw ''results''; module = module_of raw in
     if is_dict raw \<and> is_dict (obj_get raw ''testInfo'') \<and> is_list results \<and> is_str module \<and> str_of module \<noteq> []
     then snd (fold (log_entry order (str_of module) (error_categories results)) (arr_of results) ([], []))
     else [])"

definition failure_diagnostics :: "(string list \<Rightarrow> nat) \<Rightarrow> export \<Rightarrow> json list result" where
  "failure_diagnostics order out = per_document (\<lambda>raw. ret (failure_diagnostics_of order raw)) out"

section \<open>The scripted browser\<close>

definition browser_automation_messages :: "(string \<times> string) list" where
  "browser_automation_messages =
    [(''Scripted browser HTTP request'', ''request-started''),
     (''Scripted browser HTTP response'', ''response-received''),
     (''Waiting'', ''wait-started''),
     (''Updated placeholder from scripted browser'', ''placeholder-updated''),
     (''All placeholders filled by scripted browser'', ''all-placeholders-filled''),
     (''Completed processing of webpage'', ''task-completed''),
     (''Unexpected URL for non-optional task'', ''task-url-mismatch'')]"

definition browser_automation_sources :: "string list" where
  "browser_automation_sources = [''BROWSER'', ''WebRunner'']"

definition browser_entry_categories :: "json \<Rightarrow> string list \<Rightarrow> string list" where
  "browser_entry_categories entry cs =
     (let cs' = (case obj_get entry ''msg'' of
          JStr m \<Rightarrow> (case map_of browser_automation_messages m of None \<Rightarrow> cs | Some c \<Rightarrow> add_new c cs)
        | _ \<Rightarrow> cs)
      in if obj_get entry ''result'' = JStr ''FAILURE'' then add_new ''browser-runner-failure'' cs' else cs')"

text \<open>\<open>entry.get("src") in BROWSER_AUTOMATION_SOURCES\<close> raises for a value that cannot be hashed; so do the two look-ups below.\<close>

definition browser_entries :: "json list \<Rightarrow> json list result" where
  "browser_entries entries = bindE (mapE (\<lambda>e.
       if \<not> is_dict e then ret []
       else bindE (hash_in (obj_get e ''src'') browser_automation_sources) (\<lambda>b. ret (if b then [e] else []))) entries)
     (\<lambda>ess. ret (concat ess))"

definition browser_events :: "json list \<Rightarrow> string list" where
  "browser_events entries = (let cs = fold browser_entry_categories entries [] in
     sort (if cs \<noteq> [] then cs
           else if entries = [] then [''automation-not-observed''] else [''unclassified-browser-event'']))"

definition listed_field :: "string \<Rightarrow> json \<Rightarrow> string list \<Rightarrow> (string \<times> json) list result" where
  "listed_field k v allowed = bindE (hash_in v allowed) (\<lambda>b. ret (if b then [(k, v)] else []))"

definition browser_diagnostics_of :: "json \<Rightarrow> json list result" where
  "browser_diagnostics_of raw = (let info = obj_get raw ''testInfo''; results = obj_get raw ''results'' in
     if \<not> (is_dict raw \<and> is_dict info \<and> is_list results \<and> safe_name (obj_get info ''testName'')) then ret []
     else bindE (browser_entries (arr_of results)) (\<lambda>entries.
       if entries = [] \<and> obj_get info ''status'' \<noteq> JStr ''WAITING'' then ret []
       else bindE (listed_field ''status'' (obj_get info ''status'') safe_module_states) (\<lambda>status.
            bindE (listed_field ''result'' (obj_get info ''result'') safe_module_results) (\<lambda>result.
              ret [JObj ([(''module'', obj_get info ''testName''), (''events'', JArr (map JStr (browser_events entries)))]
                     @ status @ result)]))))"

definition browser_diagnostics :: "export \<Rightarrow> json list result" where
  "browser_diagnostics out = per_document browser_diagnostics_of out"

end
