(* ===== verification/Conformance_Config.thy ===== *)
theory Conformance_Config
  imports Py_Glob Py_Url Docker_Context Evidence_Contracts
begin

text \<open>
  What \<^verbatim>\<open>scripts/oidf_conformance.py\<close> demands before it starts the official runner: the pinned
  manifest, no expected failures, complete expected-skip entries, a clean checkout at the
  pinned commit, a profile configuration without test bypasses, and the transport its
  interaction hook will drive.
\<close>

section \<open>The runner manifest\<close>

definition oidf_verifier_alias :: string where "oidf_verifier_alias = ''oidf-vp-test-wallet''"
definition suite_url :: string where "suite_url = ''https://gitlab.com/openid/conformance-suite.git''"

text \<open>\<open>pattern.fullmatch(v)\<close> and \<open>v.startswith(p)\<close> on a value that must be a string.\<close>

definition re_fullmatch :: "rx \<Rightarrow> json \<Rightarrow> bool result" where
  "re_fullmatch r v = (case v of JStr s \<Rightarrow> ret (fullmatch r s) | _ \<Rightarrow> raise TypeError)"

definition js_startswith :: "json \<Rightarrow> string \<Rightarrow> bool result" where
  "js_startswith v p = (case v of JStr s \<Rightarrow> ret (startswith s p) | _ \<Rightarrow> raise AttributeError)"

definition check_manifest_runner :: "json \<Rightarrow> unit result" where
  "check_manifest_runner rn =
     bindE (py_get rn ''repository'' JNull) (\<lambda>repository.
     if repository \<noteq> JStr suite_url
     then raise (ValueError ''official runner repository must be the OIDF conformance suite'')
     else bindE (re_fullmatch commit_rx (obj_get_default rn ''commit'' (JStr []))) (\<lambda>pinned.
       if \<not> pinned then raise (ValueError ''official runner commit must be a full lowercase SHA'')
       else if obj_get rn ''source_policy'' \<noteq> JStr ''unmodified''
       then raise (ValueError ''official runner source policy must be unmodified'')
       else bindE (js_startswith (obj_get_default rn ''release'' (JStr [])) ''release-v'') (\<lambda>tagged.
         if \<not> tagged then raise (ValueError ''official runner release must be an immutable release tag'')
         else ret ())))"

definition load_manifest :: "json result \<Rightarrow> json result" where
  "load_manifest content = bindE content (\<lambda>data.
     if \<not> is_dict data then raise (ValueError ''OIDF runner manifest must be a JSON object'')
     else if obj_get data ''schema'' \<noteq> JStr ''elevenid.oidf-conformance-runner/v1''
     then raise (ValueError ''unsupported OIDF runner manifest schema'')
     else bindE (check_manifest_runner (obj_get_default data ''official_runner'' (JObj []))) (\<lambda>_. ret data))"

section \<open>Expected failures and skips\<close>

definition skip_fields :: "string list" where
  "skip_fields = [''test-name'', ''configuration-filename'', ''variant'', ''reason'', ''owner'', ''expires'']"

definition skip_entry_ok :: "json \<Rightarrow> bool" where
  "skip_entry_ok e = (is_dict e \<and> list_all (has_key e) skip_fields)"

definition validate_expected_failures :: "json result \<Rightarrow> json result \<Rightarrow> unit result" where
  "validate_expected_failures failures skips =
     bindE failures (\<lambda>entries.
     if \<not> is_list entries then raise (ValueError ''expected failures must be a JSON list'')
     else if truthy entries then raise (ValueError ''official OIDF evidence must not accept expected failures'')
     else bindE skips (\<lambda>entries.
       if \<not> is_list entries then raise (ValueError ''expected skips must be a JSON list'')
       else if list_ex (\<lambda>e. \<not> skip_entry_ok e) (arr_of entries)
       then raise (ValueError ''each expected skip requires test-name, configuration-filename, variant, reason, owner, and expires'')
       else ret ()))"

text \<open>The date is required, not read: an entry that expired long ago is accepted.\<close>

lemma expired_skip_accepted:
  "validate_expected_failures (Inr (JArr [])) (Inr (JArr [JObj
     [(''test-name'', JStr ''m''), (''configuration-filename'', JStr ''c''), (''variant'', JStr ''v''),
      (''reason'', JStr ''r''), (''owner'', JStr ''o''), (''expires'', JStr ''1999-01-01'')]])) = Inr ()"
  by code_simp

definition applicable_expected_skips :: "string \<Rightarrow> json list \<Rightarrow> json list result" where
  "applicable_expected_skips config_name entries =
     bindE (mapE (\<lambda>e. bindE (py_key e ''configuration-filename'') (\<lambda>pat.
       ret (if glob (py_str pat) config_name then [e] else []))) entries) (\<lambda>ess. ret (concat ess))"

definition requires_interaction_hook :: "string \<Rightarrow> json list \<Rightarrow> bool" where
  "requires_interaction_hook test_name skips = (\<not> list_ex (\<lambda>e. obj_get e ''test-name'' = JStr test_name) skips)"

section \<open>The runner checkout\<close>

text \<open>\<open>git\<close> returns the standard output of \<open>git -C runner ...\<close>; \<open>has_script\<close> is the test for the runner script.\<close>

type_synonym 'w git = "string list \<Rightarrow> ('w, string) io"

definition git_revision :: "'w git \<Rightarrow> ('w, string) io" where
  "git_revision git = bindIO (git [''rev-parse'', ''HEAD'']) (\<lambda>out. retIO (strip out))"

definition validate_runner :: "('w \<Rightarrow> bool) \<Rightarrow> 'w git \<Rightarrow> string \<Rightarrow> json \<Rightarrow> ('w, unit) io" where
  "validate_runner has_script git script manifest = bindIO (\<lambda>w. (Inr (has_script w), w)) (\<lambda>present.
     if \<not> present then raiseIO (ValueError (''OIDF runner script is missing: '' @ script))
     else bindIO (git_revision git) (\<lambda>actual.
       bindIO (liftIO (bindE (py_key manifest ''official_runner'') (\<lambda>r. py_key r ''commit''))) (\<lambda>expected.
         if expected \<noteq> JStr actual
         then raiseIO (ValueError (''OIDF runner is '' @ actual @ ''; expected pinned '' @ py_str expected))
         else bindIO (git [''status'', ''--porcelain=v1'', ''--untracked-files=all'']) (\<lambda>status.
           if splitlines status \<noteq> []
           then raiseIO (ValueError (''OIDF runner source is not byte-for-byte clean: ''
                  @ join '', '' (map (drop 3) (splitlines status))))
           else retIO ()))))"

section \<open>The profile configuration\<close>

definition validate_absolute_url :: "json \<Rightarrow> string \<Rightarrow> unit result" where
  "validate_absolute_url v field =
     (if \<not> is_str v then raise (ValueError (field @ '' must be an absolute http(s) URL''))
      else bindE (urlsplit (str_of v)) (\<lambda>parsed.
        if scheme parsed \<notin> {''http'', ''https''} \<or> netloc parsed = []
        then raise (ValueError (field @ '' must be an absolute http(s) URL''))
        else if occurs_in ''example.invalid'' (netloc parsed) \<or> occurs_in ''REPLACE_'' (str_of v)
        then raise (ValueError ''OIDF configuration still contains example values'')
        else ret ()))"

definition validate_issuer_config :: "json \<Rightarrow> unit result" where
  "validate_issuer_config data = (let vci = obj_get_default data ''vci'' (JObj []) in
     bindE (py_get vci ''credential_issuer_url'' (JStr [])) (\<lambda>issuer.
     bindE (validate_absolute_url issuer ''vci.credential_issuer_url'') (\<lambda>_.
     bindE (mapE (\<lambda>field. if \<not> truthy (obj_get vci field)
         then raise (ValueError (''vci.'' @ field @ '' is required by the official issuer plan'')) else ret ())
       [''authorization_server'', ''credential_configuration_id'']) (\<lambda>_. ret ()))))"

definition evidence_pattern :: string where "evidence_pattern = ''https://*/test/a/*/verification-evidence''"

definition verification_evidence_browser_automation :: json where
  "verification_evidence_browser_automation = JArr [JObj
     [(''comment'', JStr (''Capture the suite-served verification-evidence page so an automated ''
         @ ''official run can satisfy OIDF'' @ [squote] @ ''s required review screenshot'')),
      (''match'', JStr evidence_pattern),
      (''tasks'', JArr [JObj
        [(''task'', JStr ''Capture verification evidence''),
         (''match'', JStr evidence_pattern),
         (''commands'', JArr [JArr [JStr ''wait'', JStr ''xpath'', JStr ''//*'', JInt 10,
            JStr ''.*Deferred verification evidence.*'', JStr ''update-image-placeholder'']])]])]]"

definition verifier_profiles :: "(string \<times> string) list" where
  "verifier_profiles =
     [(''oid4vp-verifier'', ''oid4vp-1.0-final''), (''oid4vp-url-query-verifier'', ''oid4vp-1.0-final''),
      (''oid4vp-mdoc-verifier'', ''oid4vp-1.0-final''), (''oid4vp-haip-verifier'', ''oid4vp-haip-1.0'')]"

definition jwk_complete :: "json \<Rightarrow> bool" where
  "jwk_complete jwk = (is_dict jwk \<and> list_all (\<lambda>k. is_str (obj_get jwk k) \<and> str_of (obj_get jwk k) \<noteq> [])
     [''kty'', ''crv'', ''x'', ''y'', ''d''])"

definition check_anchor :: "json \<Rightarrow> unit result" where
  "check_anchor data = bindE (py_get (obj_get_default data ''client'' (JObj [])) ''request_object_trust_anchor_pem'' JNull) (\<lambda>anchor.
     if \<not> is_str anchor \<or> strip (str_of anchor) = [] \<or> occurs_in ''REPLACE_'' (str_of anchor)
     then raise (ValueError ''client.request_object_trust_anchor_pem is required by the signed request_uri verifier plan'')
     else ret ())"

definition validate_verifier_config :: "string \<Rightarrow> string \<Rightarrow> json \<Rightarrow> unit result" where
  "validate_verifier_config profile_name expected_profile data =
     (if obj_get data ''alias'' \<noteq> JStr oidf_verifier_alias
      then raise (ValueError (''verifier configuration alias must be '' @ str_repr oidf_verifier_alias))
      else bindE (py_get (obj_get_default data ''credential'' (JObj [])) ''signing_jwk'' JNull) (\<lambda>jwk.
        if \<not> jwk_complete jwk
        then raise (ValueError (''credential.signing_jwk must contain the complete private EC JWK required by the ''
               @ ''official verifier plans''))
        else if obj_get jwk ''kty'' \<noteq> JStr ''EC'' \<or> obj_get jwk ''crv'' \<noteq> JStr ''P-256''
        then raise (ValueError ''credential.signing_jwk must be an EC P-256 private JWK'')
        else let verifier = obj_get_default data ''verifier'' (JObj []) in
        bindE (py_get verifier ''gateway_url'' JNull) (\<lambda>gateway.
        bindE (validate_absolute_url gateway ''verifier.gateway_url'') (\<lambda>_.
          if obj_get verifier ''profile'' \<noteq> JStr expected_profile
          then raise (ValueError (''verifier.profile must be '' @ str_repr expected_profile @ '' for '' @ profile_name
                 @ ''; a mismatched profile cannot produce authoritative evidence''))
          else bindE (if profile_name \<noteq> ''oid4vp-url-query-verifier'' then check_anchor data else ret ()) (\<lambda>_.
            if \<not> py_eq (obj_get data ''browser'') verification_evidence_browser_automation
            then raise (ValueError (''verifier configuration must use only the reviewed OIDF verification-evidence ''
                   @ ''screenshot automation''))
            else ret ())))))"

definition validate_config :: "json result \<Rightarrow> string \<Rightarrow> unit result" where
  "validate_config content profile_name = bindE content (\<lambda>data.
     if \<not> is_dict data then raise (ValueError ''OIDF configuration must be a JSON object'')
     else if profile_name = ''oid4vci-issuer'' then validate_issuer_config data
     else case map_of verifier_profiles profile_name of
       None \<Rightarrow> raise (ValueError (''unknown OIDF configuration profile: '' @ profile_name))
     | Some expected_profile \<Rightarrow> validate_verifier_config profile_name expected_profile data)"

section \<open>Mode and transport of a run\<close>

definition execution_mode :: "string \<Rightarrow> json \<Rightarrow> bool \<Rightarrow> bool \<Rightarrow> string result" where
  "execution_mode profile_name profile allow_planned has_stack_manifest =
     bindE (py_get profile ''status'' JNull) (\<lambda>status.
     if status = JStr ''active'' then ret ''active''
     else if status \<noteq> JStr ''planned''
     then raise (ValueError (''profile '' @ profile_name @ '' has unsupported status '' @ py_repr status))
     else if \<not> allow_planned
     then raise (ValueError (''profile '' @ profile_name @ '' is not active: ''
            @ py_str (obj_get_default profile ''reason'' (JStr ''no reason recorded''))))
     else if \<not> has_stack_manifest
     then raise (ValueError ''--stack-manifest is required for an evidence-only planned-profile run'')
     else ret ''pre-activation'')"

definition verifier_transports :: "(string \<times> string \<times> string) list" where
  "verifier_transports =
     [(''oid4vp-verifier'', ''standard'', ''request_uri_signed''), (''oid4vp-url-query-verifier'', ''standard'', ''url_query''),
      (''oid4vp-mdoc-verifier'', ''standard'', ''request_uri_signed''), (''oid4vp-haip-verifier'', ''haip'', ''request_uri_signed'')]"

definition env_default :: "environment \<Rightarrow> string \<Rightarrow> string \<Rightarrow> string" where
  "env_default env k d = (case map_of env k of None \<Rightarrow> d | Some v \<Rightarrow> v)"

definition validate_verifier_interaction_environment :: "environment \<Rightarrow> string \<Rightarrow> unit result" where
  "validate_verifier_interaction_environment env profile_name = (case map_of verifier_transports profile_name of
     None \<Rightarrow> ret ()
   | Some (expected_profile, expected_method) \<Rightarrow>
      (let actual_profile = strip (env_default env ''OIDF_MARTY_VERIFIER_PROFILE'' ''standard'');
           actual_method = strip (env_default env ''OIDF_VERIFIER_REQUEST_METHOD'' ''request_uri_signed'')
       in if actual_profile \<noteq> expected_profile \<or> actual_method \<noteq> expected_method
          then raise (ValueError (profile_name @ '' requires OIDF_MARTY_VERIFIER_PROFILE='' @ str_repr expected_profile
                 @ '' and OIDF_VERIFIER_REQUEST_METHOD='' @ str_repr expected_method @ ''; got ''
                 @ str_repr actual_profile @ '' and '' @ str_repr actual_method))
          else ret ()))"

section \<open>Paths handed to the runner\<close>

text \<open>\<open>os.path.relpath\<close> on the parts of two absolute paths.\<close>

definition relpath_parts :: "string list \<Rightarrow> string list \<Rightarrow> string list" where
  "relpath_parts target start = (let i = length (longest_common_prefix target start)
     in replicate (length start - i) ''..'' @ drop i target)"

definition runner_relative_path :: "string \<Rightarrow> string \<Rightarrow> string" where
  "runner_relative_path resolved_path resolved_runner =
     (let p = path_parts resolved_path; r = path_parts resolved_runner in
      path_str (join ''/'' (if prefix r p then drop (length r) p else relpath_parts p r)))"

end
