(* ===== verification/Conformance_Evidence.thy ===== *)
theory Conformance_Evidence
  imports Conformance_Plan Conformance_Config
begin

text \<open>
  The evidence of a run in \<^verbatim>\<open>scripts/oidf_conformance.py\<close>: the inventory of the output
  directory, the evidence document with its qualified exit code, its later finalisation with
  late receipts, and the binding of a local native run. The output directory is a tree of
  entries under relative POSIX names; opening an archive, parsing JSON, the HTTP client and
  git are parameters.
\<close>

section \<open>The output directory\<close>

text \<open>A link carries the content it leads to, when that is a regular file.\<close>

datatype entry = Regular bytes | Folder | Link "bytes option" | Special

type_synonym tree = "(string \<times> entry) list"

definition entry_at :: "tree \<Rightarrow> string \<Rightarrow> entry option" where "entry_at t p = map_of t p"

definition remove_at :: "string \<Rightarrow> tree \<Rightarrow> tree" where
  "remove_at p t = filter (\<lambda>(n, e). n \<noteq> p) t"

definition file_sha256 :: "bytes \<Rightarrow> string" where "file_sha256 b = sha_digest b"

definition artifact_step :: "(string \<times> string) list \<Rightarrow> string \<times> entry \<Rightarrow> (string \<times> string) list result" where
  "artifact_step rows pe = (case pe of (p, e) \<Rightarrow> (case e of
       Regular b \<Rightarrow> ret (if p \<noteq> ''evidence.json'' then rows @ [(p, file_sha256 b)] else rows)
     | Folder \<Rightarrow> ret rows
     | _ \<Rightarrow> raise (ValueError ''official artifacts must be regular files or directories'')))"

text \<open>\<open>linked\<close>: the directory itself is a symbolic link. Paths sort by their parts.\<close>

definition artifact_inventory :: "bool \<Rightarrow> tree \<Rightarrow> (string \<times> string) list result" where
  "artifact_inventory linked t =
     (if linked then raise (ValueError ''official artifact directory must not be a symlink'')
      else foldE artifact_step [] (sort_key (\<lambda>(p, e). split_on (CHR ''/'') p) t))"

definition artifact_rows :: "(string \<times> string) list \<Rightarrow> json" where
  "artifact_rows rows = JArr (map (\<lambda>(p, d). JObj [(''path'', JStr p), (''sha256'', JStr d)]) rows)"

text \<open>\<open>json.dumps(v, indent=2, sort_keys=True)\<close> and the newline after it, as bytes.\<close>

definition newline :: char where "newline = CHR 0x0A"

fun pretty :: "nat \<Rightarrow> json \<Rightarrow> string" where
  "pretty n (JArr xs) = (if xs = [] then ''[]'' else
     ''['' @ [newline] @ join ('','' @ [newline]) (map (\<lambda>x. replicate (n + 2) (CHR '' '') @ pretty (n + 2) x) xs)
     @ [newline] @ replicate n (CHR '' '') @ '']'')"
| "pretty n (JObj kvs) = (if kvs = [] then ''{}'' else
     ''{'' @ [newline] @ join ('','' @ [newline])
       (map (\<lambda>(k, v). replicate (n + 2) (CHR '' '') @ dumps_str k @ '': '' @ pretty (n + 2) v) kvs)
     @ [newline] @ replicate n (CHR '' '') @ ''}'')"
| "pretty n v = json_dumps v"

definition json_file :: "json \<Rightarrow> bytes" where
  "json_file v = utf8 (pretty 0 (sort_keys v) @ [newline])"

section \<open>Finalisation\<close>

text \<open>Where the host may fail while the new document is written beside the old one.\<close>

datatype fault = NoFault | CreateFails | WriteFails | ReplaceFails

text \<open>
  A temporary file under the fresh name \<open>tmp\<close>, then the replacement; whatever happens the
  temporary file is gone afterwards.
\<close>

definition replace_evidence :: "fault \<Rightarrow> string \<Rightarrow> bytes \<Rightarrow> tree \<Rightarrow> unit result \<times> tree" where
  "replace_evidence fault tmp content t =
     (if fault = CreateFails \<or> tmp \<in> fst ` set t then (raise OSError, t)
      else let t1 = put tmp (Regular []) t in
        if fault = WriteFails then (raise OSError, remove_at tmp t1)
        else let t2 = put tmp (Regular content) t1 in
          if fault = ReplaceFails then (raise OSError, remove_at tmp t2)
          else (ret (), remove_at tmp (put ''evidence.json'' (Regular content) (remove_at tmp t2))))"

definition inventory_row_ok :: "json \<Rightarrow> bool" where
  "inventory_row_ok r = (is_dict r \<and> is_str (obj_get r ''path'') \<and> is_str (obj_get r ''sha256''))"

definition row_pair :: "json \<Rightarrow> string \<times> string" where
  "row_pair r = (str_of (obj_get r ''path''), str_of (obj_get r ''sha256''))"

definition as_dict :: "('k \<times> 'v) list \<Rightarrow> ('k \<times> 'v) list" where
  "as_dict kvs = fold (\<lambda>(k, v). put k v) kvs []"

definition read_evidence :: "(bytes \<Rightarrow> json result) \<Rightarrow> tree \<Rightarrow> json result" where
  "read_evidence loads t = (case entry_at t ''evidence.json'' of
     Some (Regular b) \<Rightarrow> bindE (loads b) (\<lambda>evidence.
       if \<not> is_dict evidence \<or> obj_get evidence ''schema'' \<noteq> JStr ''elevenid.official-interop-evidence/v1''
       then raise (ValueError ''official evidence schema is invalid'') else ret evidence)
   | _ \<Rightarrow> raise (ValueError ''official evidence must be a regular file''))"

definition original_inventory :: "json \<Rightarrow> (string \<times> string) list result" where
  "original_inventory evidence = (let original = arr_of (obj_get evidence ''artifacts'') in
     if original = [] \<or> \<not> list_all inventory_row_ok original
     then raise (ValueError ''original official artifact inventory is invalid'') else ret (map row_pair original))"

definition with_artifacts :: "json \<Rightarrow> (string \<times> string) list \<Rightarrow> json" where
  "with_artifacts evidence rows = JObj (put ''artifacts'' (artifact_rows rows) (fields_of evidence))"

definition finalized_evidence :: "(bytes \<Rightarrow> json result) \<Rightarrow> bool \<Rightarrow> tree \<Rightarrow> json result" where
  "finalized_evidence loads linked t = bindE (read_evidence loads t) (\<lambda>evidence.
     bindE (original_inventory evidence) (\<lambda>original.
     bindE (artifact_inventory linked t) (\<lambda>rows.
       if \<not> distinct (map fst original)
          \<or> list_ex (\<lambda>(p, d). map_of (as_dict rows) p \<noteq> Some d) (as_dict original)
       then raise (ValueError ''an original official artifact changed or disappeared'')
       else ret (with_artifacts evidence rows))))"

definition finalize_evidence_artifacts ::
    "(bytes \<Rightarrow> json result) \<Rightarrow> fault \<Rightarrow> string \<Rightarrow> bool \<Rightarrow> tree \<Rightarrow> json result \<times> tree" where
  "finalize_evidence_artifacts loads fault tmp linked t = (case finalized_evidence loads linked t of
     Inl e \<Rightarrow> (Inl e, t)
   | Inr evidence \<Rightarrow> (case replace_evidence fault tmp (json_file evidence) t of
       (Inl e, t') \<Rightarrow> (Inl e, t')
     | (Inr _, t') \<Rightarrow> (ret evidence, t')))"

section \<open>A local native run\<close>

definition local_role :: "string \<times> json \<Rightarrow> (string \<times> json) result" where
  "local_role kv = (case kv of (role, row) \<Rightarrow>
     if \<not> is_dict row \<or> \<not> fullmatch commit_rx (py_str (obj_get_default row ''sourceRevision'' (JStr [])))
     then raise (ValueError ''local functional source revision is not bound'')
     else let binary = obj_get row ''binary'' in
       if \<not> is_dict binary \<or> \<not> fullmatch hex64_rx (py_str (obj_get_default binary ''sha256'' (JStr [])))
       then raise (ValueError ''local functional binary digest is not bound'')
       else ret (role, JObj [(''source_revision'', obj_get row ''sourceRevision''),
                             (''binary_sha256'', obj_get binary ''sha256'')]))"

text \<open>\<open>lookup\<close> is what the host holds at an absolute path.\<close>

definition local_native_functional_evidence ::
    "(bytes \<Rightarrow> json result) \<Rightarrow> (string \<Rightarrow> entry option) \<Rightarrow> string \<Rightarrow> json result" where
  "local_native_functional_evidence loads lookup p =
     (case (if path_is_absolute p then lookup p else None) of
        Some (Regular b) \<Rightarrow> bindE (loads b) (\<lambda>binding. let roles = obj_get binding ''roles'' in
          if \<not> is_dict binding \<or> obj_get binding ''schema'' \<noteq> JStr ''elevenid.local-native-functional-binding/v1''
             \<or> obj_get binding ''state'' \<noteq> JStr ''FUNCTIONAL_ONLY''
             \<or> \<not> keys_are roles [''auth'', ''gateway'', ''signing-keys'']
          then raise (ValueError ''local functional binding is not closed'')
          else bindE (mapE local_role (fields_of roles)) (\<lambda>rs.
            ret (JObj [(''path'', JStr p), (''sha256'', JStr (file_sha256 b)), (''roles'', JObj rs)])))
      | _ \<Rightarrow> raise (ValueError ''local functional binding path is not an absolute regular file''))"

section \<open>The live plan\<close>

text \<open>\<open>type(error).__name__\<close>; the class of \<open>zlib\<close>'s errors is called \<open>error\<close>.\<close>

fun error_class :: "exn \<Rightarrow> string" where
  "error_class (ValueError _) = ''ValueError''"
| "error_class JSONDecodeError = ''JSONDecodeError''"
| "error_class UnicodeError = ''UnicodeDecodeError''"
| "error_class TypeError = ''TypeError''"
| "error_class AttributeError = ''AttributeError''"
| "error_class (KeyError _) = ''KeyError''"
| "error_class IndexError = ''IndexError''"
| "error_class StopIteration = ''StopIteration''"
| "error_class OSError = ''OSError''"
| "error_class (HTTPError _) = ''HTTPError''"
| "error_class (FileExistsError _) = ''FileExistsError''"
| "error_class (RuntimeError _) = ''RuntimeError''"
| "error_class (CalledProcessError _) = ''CalledProcessError''"
| "error_class TimeoutExpired = ''TimeoutExpired''"
| "error_class TarError = ''TarError''"
| "error_class BadZipFile = ''BadZipFile''"
| "error_class EOFError = ''EOFError''"
| "error_class ZlibError = ''error''"
| "error_class (SystemExit _) = ''SystemExit''"
| "error_class (ReleaseLookupError _) = ''ReleaseLookupError''"
| "error_class (ReleaseAlreadyExistsError _) = ''ReleaseAlreadyExistsError''"
| "error_class (ReleaseLineageError _) = ''ReleaseLineageError''"

type_synonym 'w requester = "string \<Rightarrow> (string \<times> string) list \<Rightarrow> bool \<Rightarrow> ('w, int \<times> json) io"

definition live_plan_id :: "json list \<Rightarrow> string result" where
  "live_plan_id infos = bindE (json_set (map (\<lambda>i. obj_get i ''planId'') infos)) (\<lambda>plan_ids.
     if length plan_ids \<noteq> 1 then raise (ValueError ''official exports do not identify one plan'')
     else if \<not> identity_value (hd plan_ids) then raise (ValueError ''invalid official plan identity'')
     else ret (str_of (hd plan_ids)))"

definition bearer_headers :: "environment \<Rightarrow> (string \<times> string) list" where
  "bearer_headers env = (if env_text_of env ''CONFORMANCE_TOKEN'' \<noteq> []
     then [(''Authorization'', ''Bearer '' @ env_text_of env ''CONFORMANCE_TOKEN'')] else [])"

definition insecure_mode :: "environment \<Rightarrow> bool" where
  "insecure_mode env = (''CONFORMANCE_DEV_MODE'' \<in> fst ` set env \<or> ''DISABLE_SSL_VERIFY'' \<in> fst ` set env)"

definition read_live_plan :: "'w requester \<Rightarrow> environment \<Rightarrow> json list \<Rightarrow> ('w, json) io" where
  "read_live_plan request_json env infos = bindIO (liftIO (live_plan_id infos)) (\<lambda>plan_id.
     let server = env_text_of env ''CONFORMANCE_SERVER'' in
     bindIO (liftIO (validate_absolute_url (JStr server) ''CONFORMANCE_SERVER'')) (\<lambda>_.
     bindIO (request_json (rstrip_char (CHR ''/'') server @ ''/api/plan/'' @ plan_id)
               (bearer_headers env) (insecure_mode env)) (\<lambda>(status, plan).
       if status \<noteq> 200 then raiseIO (ValueError ''official plan readback failed'') else retIO plan)))"

definition official_plan_coverage :: "'w requester \<Rightarrow> environment \<Rightarrow> export \<Rightarrow> string \<Rightarrow> ('w, json) io" where
  "official_plan_coverage request_json env out selection =
     tryIO (bindIO (liftIO (exported_module_info out)) (\<lambda>infos.
            bindIO (read_live_plan request_json env infos) (\<lambda>plan.
              liftIO (compare_plan_coverage infos plan selection))))
       (\<lambda>e. if is_Exception e
            then retIO (JObj [(''complete'', JBool False), (''error_class'', JStr (error_class e))])
            else raiseIO e)"

end
