(* ===== verification/Conformance_Run.thy ===== *)
theory Conformance_Run
  imports Conformance_Diagnostics Conformance_Evidence
begin

text \<open>
  \<open>write_evidence\<close> and \<open>cmd_run\<close> of \<^verbatim>\<open>scripts/oidf_conformance.py\<close>: the official runner is
  checked, started and checked again, product interactions are hooked onto the modules it
  announces, and the evidence decides the exit code. The site is the output directory next to
  whatever else the host holds; every tool the script starts acts on it.
\<close>

section \<open>Site and tools\<close>

record 'x site =
  tree_of :: tree
  outside :: 'x

record 'x tools =
  parse :: "bytes \<Rightarrow> json result"                          \<comment> \<open>\<open>json.loads\<close>\<close>
  open_zip :: "entry \<Rightarrow> member list result"                \<comment> \<open>\<open>zipfile.ZipFile\<close>\<close>
  requester_of :: "'x site requester"                     \<comment> \<open>\<open>request_json\<close>\<close>
  git_of :: "'x site git"                                  \<comment> \<open>git in the runner checkout\<close>
  script_present :: "'x site \<Rightarrow> bool"
  make_output :: "('x site, unit) io"                      \<comment> \<open>\<open>output.mkdir(parents=True, exist_ok=True)\<close>\<close>
  writable :: "'x site \<Rightarrow> string \<Rightarrow> bool"                 \<comment> \<open>whether a file of the output can be written\<close>
  run_plan :: "string list \<Rightarrow> ('x site, int) io"           \<comment> \<open>\<open>subprocess.run\<close>\<close>
  start_plan :: "string list \<Rightarrow> ('x site, string list) io" \<comment> \<open>\<open>subprocess.Popen\<close> and the lines it prints\<close>
  wait_plan :: "('x site, int) io"
  spawn :: "string list \<Rightarrow> ('x site, nat) io"              \<comment> \<open>\<open>subprocess.Popen\<close> of a hook\<close>
  wait_hook :: "nat \<Rightarrow> ('x site, int) io"
  set_order :: "string list \<Rightarrow> nat"

text \<open>The invocation: the arguments, the environment and the files read once.\<close>

record invocation =
  profile_arg :: string
  manifest_text :: "json result"
  failures_text :: "json result"
  skips_text :: "json result"
  config_path :: string
  config_bytes :: bytes
  runner_path :: string
  output_path :: string
  output_linked :: bool
  stack_manifest :: "(string \<times> bytes) option"
  allow_planned :: bool
  rerun :: "string option"
  interaction :: "string option"
  browser_interaction :: "string option"
  run_env :: environment
  host_entry :: "string \<Rightarrow> entry option"
  python :: string
  repo_root :: string

definition export_of :: "'x tools \<Rightarrow> 'x site \<Rightarrow> export" where
  "export_of T s = map (\<lambda>(n, e). (n, open_zip T e)) (filter (\<lambda>(n, e). CHR ''/'' \<notin> set n) (tree_of s))"

definition reading :: "('x site \<Rightarrow> 'a result) \<Rightarrow> ('x site, 'a) io" where
  "reading f = (\<lambda>s. (f s, s))"

definition write_json :: "'x tools \<Rightarrow> string \<Rightarrow> json \<Rightarrow> ('x site, unit) io" where
  "write_json T p v = (\<lambda>s. if writable T s p then (Inr (), s\<lparr>tree_of := put p (Regular (json_file v)) (tree_of s)\<rparr>)
     else (Inl OSError, s))"

section \<open>Evidence\<close>

definition stack_record :: "'x tools \<Rightarrow> (string \<times> bytes) option \<Rightarrow> json result" where
  "stack_record T manifest = (case manifest of
     None \<Rightarrow> ret JNull
   | Some (p, b) \<Rightarrow> bindE (parse T b) (\<lambda>raw. bindE (py_get raw ''schema'' JNull) (\<lambda>schema.
       if schema \<noteq> JStr ''marty.stack/v1'' then raise (ValueError ''stack manifest must use marty.stack/v1'')
       else ret (JObj [(''path'', JStr p), (''sha256'', JStr (file_sha256 b)), (''release'', obj_get raw ''release'')]))))"

definition test_plan_of :: "json \<Rightarrow> string \<Rightarrow> string result" where
  "test_plan_of manifest profile = bindE (py_key manifest ''profiles'') (\<lambda>ps. bindE (py_key ps profile) (\<lambda>p.
     bindE (py_key p ''test_plan'') (\<lambda>plan. case plan of JStr t \<Rightarrow> ret t | _ \<Rightarrow> raise TypeError)))"

text \<open>\<open>module_summary["plan_coverage"] = coverage\<close>, and its verdict narrowed by \<open>and\<close>.\<close>

definition with_coverage :: "json \<Rightarrow> json \<Rightarrow> json result" where
  "with_coverage summary coverage = bindE (py_key summary ''passed'') (\<lambda>passed. bindE (py_key coverage ''complete'') (\<lambda>complete.
     ret (JObj (put ''passed'' (if truthy passed then complete else passed)
       (put ''plan_coverage'' coverage (fields_of summary))))))"

definition qualify_exit :: "int \<Rightarrow> json \<Rightarrow> int" where
  "qualify_exit exit_code summary = (if exit_code \<noteq> 0 then exit_code else if truthy (obj_get summary ''passed'') then 0 else 1)"

definition evidence_json :: "invocation \<Rightarrow> json \<Rightarrow> string \<Rightarrow> string \<Rightarrow> json \<Rightarrow> json \<Rightarrow> json list \<Rightarrow> json \<Rightarrow> int \<Rightarrow> int
    \<Rightarrow> (string \<times> string) list \<Rightarrow> (string \<times> json) list" where
  "evidence_json job official_runner mode commit stack failures skips summary exit_code qualified_exit artifacts =
     [(''schema'', JStr ''elevenid.official-interop-evidence/v1''),
      (''official_runner'', official_runner),
      (''profile'', JStr (profile_arg job)),
      (''execution_mode'', JStr mode),
      (''runner'', JObj [(''path'', JStr (runner_path job)), (''commit'', JStr commit)]),
      (''marty'', JObj [(''commit'', JStr (env_default (run_env job) ''MARTY_COMMIT'' ''unrecorded'')), (''stack_manifest'', stack)]),
      (''configuration'', JObj [(''path'', JStr (config_path job)), (''sha256'', JStr (file_sha256 (config_bytes job)))]),
      (''exclusions'', JObj [(''expected_failures'', failures), (''expected_skips'', JArr skips)]),
      (''result'', JObj [(''exit_code'', JInt qualified_exit), (''process_exit_code'', JInt exit_code),
                        (''passed'', JBool (qualified_exit = 0))]),
      (''module_results'', summary),
      (''artifacts'', artifact_rows artifacts)]"

text \<open>A local binding marks the evidence as functional only.\<close>

definition with_local_binding :: "'x tools \<Rightarrow> invocation \<Rightarrow> (string \<times> json) list \<Rightarrow> json result" where
  "with_local_binding T job evidence = (let binding = env_value (run_env job) ''MARTY_LOCAL_NATIVE_FUNCTIONAL_BINDING'' in
     if binding = [] then ret (JObj evidence)
     else bindE (local_native_functional_evidence (parse T) (host_entry job) (path_str binding)) (\<lambda>local.
       ret (JObj (put ''marty'' (JObj (put ''local_native_functional_binding'' local (fields_of (obj_get (JObj evidence) ''marty''))))
         (put ''release_qualified'' (JBool False)
           (put ''runtime_scope'' (JStr ''LOCAL_FUNCTIONAL_ONLY'') evidence))))))"

definition write_evidence :: "'x tools \<Rightarrow> invocation \<Rightarrow> json \<Rightarrow> int \<Rightarrow> string \<Rightarrow> json list \<Rightarrow> ('x site, int) io" where
  "write_evidence T job manifest exit_code mode skips =
     bindIO (liftIO (stack_record T (stack_manifest job))) (\<lambda>stack.
     bindIO (reading (\<lambda>s. strict_module_summary (export_of T s) (JArr skips))) (\<lambda>summary.
     bindIO (liftIO (test_plan_of manifest (profile_arg job))) (\<lambda>plan.
     bindIO (\<lambda>s. official_plan_coverage (requester_of T) (run_env job) (export_of T s) plan s) (\<lambda>coverage.
     bindIO (liftIO (with_coverage summary coverage)) (\<lambda>summary.
     bindIO (write_json T ''module-results.json'' summary) (\<lambda>_.
     let qualified_exit = qualify_exit exit_code summary in
     bindIO (reading (\<lambda>s. artifact_inventory (output_linked job) (tree_of s))) (\<lambda>artifacts.
     bindIO (liftIO (py_key manifest ''official_runner'')) (\<lambda>official_runner.
     bindIO (git_revision (git_of T)) (\<lambda>commit.
     bindIO (liftIO (failures_text job)) (\<lambda>failures.
     bindIO (liftIO (with_local_binding T job
         (evidence_json job official_runner mode commit stack failures skips summary exit_code qualified_exit artifacts)))
       (\<lambda>evidence.
     bindIO (write_json T ''evidence.json'' evidence) (\<lambda>_. retIO qualified_exit))))))))))))"

section \<open>Hooks\<close>

definition running_rx :: rx where
  "running_rx = Seq (Lit ''Running test module: '') (Grp ''1'' (Many 1 (Cls (\<lambda>c. c \<noteq> newline))))"
definition created_rx :: rx where
  "created_rx = Seq (Lit ''Created test module, new id: '') (Grp ''1'' (Many 1 (Cls is_alnum)))"

definition hook_command :: "invocation \<Rightarrow> string \<Rightarrow> string \<Rightarrow> string \<Rightarrow> string list" where
  "hook_command job script test_id module =
     [python job, script, ''--test-id'', test_id, ''--test-name'', module, ''--server'', env_text_of (run_env job) ''CONFORMANCE_SERVER'']"

definition hook_commands :: "invocation \<Rightarrow> string \<Rightarrow> string \<times> string \<Rightarrow> string list list" where
  "hook_commands job script mi = hook_command job script (snd mi) (fst mi)
     # (case browser_interaction job of None \<Rightarrow> [] | Some b \<Rightarrow> [hook_command job b (snd mi) (fst mi)])"

fun spawn_all :: "'x tools \<Rightarrow> string list list \<Rightarrow> ('x site, nat list) io" where
  "spawn_all T [] = retIO []"
| "spawn_all T (c # cs) = bindIO (spawn T c) (\<lambda>h. bindIO (spawn_all T cs) (\<lambda>hs. retIO (h # hs)))"

text \<open>The loop over the runner's output: the module last announced, and the hooks started so far.\<close>

fun read_lines :: "'x tools \<Rightarrow> invocation \<Rightarrow> json list \<Rightarrow> string \<Rightarrow> string \<Rightarrow> nat list \<Rightarrow> string list \<Rightarrow> ('x site, nat list) io" where
  "read_lines T job skips script current hooks [] = retIO hooks"
| "read_lines T job skips script current hooks (line # lines) = (case search running_rx line of
     Some m \<Rightarrow> read_lines T job skips script (strip (group m ''1'')) hooks lines
   | None \<Rightarrow> (case search created_rx line of
       None \<Rightarrow> read_lines T job skips script current hooks lines
     | Some m \<Rightarrow>
         if \<not> requires_interaction_hook current skips then read_lines T job skips script current hooks lines
         else bindIO (spawn_all T (hook_commands job script (current, group m ''1''))) (\<lambda>hs.
           read_lines T job skips script current (hooks @ hs) lines)))"

text \<open>\<open>hook_result = hook.wait() or hook_result\<close>\<close>

fun wait_all :: "'x tools \<Rightarrow> int \<Rightarrow> nat list \<Rightarrow> ('x site, int) io" where
  "wait_all T acc [] = retIO acc"
| "wait_all T acc (h # hs) = bindIO (wait_hook T h) (\<lambda>r. wait_all T (if r \<noteq> 0 then r else acc) hs)"

section \<open>The run\<close>

definition plan_command :: "invocation \<Rightarrow> string \<Rightarrow> string list" where
  "plan_command job test_plan =
     [python job, ''scripts/run-test-plan.py'', ''--no-parallel'']
     @ (case rerun job of None \<Rightarrow> [] | Some r \<Rightarrow> if r = [] then [] else [''--rerun'', r])
     @ [''--verbose'', ''--export-dir'', output_path job,
        ''--expected-failures-file'', path_join (repo_root job) ''conformance/expected-failures.json'',
        ''--expected-skips-file'', path_join (output_path job) ''expected-skips-effective.json'',
        test_plan, runner_relative_path (config_path job) (runner_path job)]"

definition unbuffered :: "string list \<Rightarrow> string list" where
  "unbuffered command = [hd command, ''-u''] @ tl command"

definition script_checked :: "invocation \<Rightarrow> string \<Rightarrow> string \<Rightarrow> unit result" where
  "script_checked job what p = (case host_entry job p of
     Some (Regular b) \<Rightarrow> ret () | _ \<Rightarrow> raise (ValueError (what @ '' is missing: '' @ p)))"

definition run_interactive :: "'x tools \<Rightarrow> invocation \<Rightarrow> json list \<Rightarrow> string \<Rightarrow> string list \<Rightarrow> ('x site, int) io" where
  "run_interactive T job skips script command =
     bindIO (liftIO (script_checked job ''OIDF interaction script'' script)) (\<lambda>_.
     bindIO (liftIO (case browser_interaction job of None \<Rightarrow> ret ()
               | Some b \<Rightarrow> script_checked job ''OIDF browser interaction script'' b)) (\<lambda>_.
     bindIO (start_plan T (unbuffered command)) (\<lambda>lines.
     bindIO (read_lines T job skips script [] [] lines) (\<lambda>hooks.
     bindIO (wait_plan T) (\<lambda>runner_result.
     bindIO (wait_all T 0 hooks) (\<lambda>hook_result.
       retIO (if runner_result \<noteq> 0 then runner_result else hook_result)))))))"

definition check_runner :: "'x tools \<Rightarrow> invocation \<Rightarrow> json \<Rightarrow> ('x site, unit) io" where
  "check_runner T job manifest =
     validate_runner (script_present T) (git_of T) (path_join (runner_path job) ''scripts/run-test-plan.py'') manifest"

definition write_diagnostics :: "'x tools \<Rightarrow> ('x site, unit) io" where
  "write_diagnostics T =
     bindIO (reading (\<lambda>s. failure_diagnostics (set_order T) (export_of T s))) (\<lambda>ds.
     bindIO (write_json T ''failure-diagnostics.json'' (JArr ds)) (\<lambda>_.
     bindIO (reading (\<lambda>s. browser_diagnostics (export_of T s))) (\<lambda>ds.
       write_json T ''browser-automation-diagnostics.json'' (JArr ds))))"

definition run_setup :: "invocation \<Rightarrow> (json \<times> string \<times> json list) result" where
  "run_setup job = bindE (load_manifest (manifest_text job)) (\<lambda>manifest.
     bindE (validate_expected_failures (failures_text job) (skips_text job)) (\<lambda>_.
     bindE (py_key manifest ''profiles'') (\<lambda>profiles.
     bindE (py_get profiles (profile_arg job) JNull) (\<lambda>profile.
       if profile = JNull then raise (ValueError (''unknown profile: '' @ profile_arg job))
       else bindE (execution_mode (profile_arg job) profile (allow_planned job) (stack_manifest job \<noteq> None)) (\<lambda>mode.
         bindE (skips_text job) (\<lambda>skips. ret (manifest, mode, arr_of skips)))))))"

definition cmd_run :: "'x tools \<Rightarrow> invocation \<Rightarrow> ('x site, int) io" where
  "cmd_run T job = bindIO (liftIO (run_setup job)) (\<lambda>(manifest, mode, entries).
     bindIO (check_runner T job manifest) (\<lambda>_.
     bindIO (liftIO (validate_config (parse T (config_bytes job)) (profile_arg job))) (\<lambda>_.
     bindIO (liftIO (if interaction job = None then ret ()
               else validate_verifier_interaction_environment (run_env job) (profile_arg job))) (\<lambda>_.
     bindIO (make_output T) (\<lambda>_.
     bindIO (liftIO (applicable_expected_skips (path_name (config_path job)) entries)) (\<lambda>skips.
     bindIO (write_json T ''expected-skips-effective.json'' (JArr skips)) (\<lambda>_.
     bindIO (liftIO (test_plan_of manifest (profile_arg job))) (\<lambda>plan.
     bindIO (case interaction job of
               None \<Rightarrow> run_plan T (plan_command job plan)
             | Some script \<Rightarrow> run_interactive T job skips script (plan_command job plan)) (\<lambda>exit_code.
     bindIO (check_runner T job manifest) (\<lambda>_.
     bindIO (write_diagnostics T) (\<lambda>_.
       write_evidence T job manifest exit_code mode skips)))))))))))"

end
