(* ===== verification/Conformance_Plan_Props.thy ===== *)
theory Conformance_Plan_Props
  imports Conformance_Plan "HOL-Library.Multiset"
begin

text \<open>
  What the reading of official results guarantees: selections round-trip, a passing summary
  means finished passes and expected skips only, complete coverage is a bijection between
  the plan and the export, and coverage recorded live is accepted again later.
\<close>

section \<open>Selections\<close>

lemma pairs_text_Nil [simp]: "pairs_text [] = []" by (simp add: pairs_text_def)
lemma pairs_text_Cons: "pairs_text (kv # kvs) = CHR ''['' # fst kv @ ''='' @ snd kv @ '']'' @ pairs_text kvs"
  by (simp add: pairs_text_def pair_text_def)

lemma delimiters: "\<not> variant_key_char (CHR ''='')" "\<not> safe_module_char (CHR '']'')" "\<not> safe_module_char (CHR ''['')"
  by (auto simp: variant_key_char_def safe_module_char_def is_alnum_def is_digit_def is_lower_def is_upper_def code_def)

abbreviation selection_pair :: "string \<times> string \<Rightarrow> bool" where
  "selection_pair \<equiv> pair_ok variant_key_char safe_module_char"

text \<open>
  Round trip of plan selections: the parser returns a name and a variant exactly
  for the text those two render to, the name without a bracket, the keys distinct, keys and
  values non-empty words of their alphabets.
\<close>

theorem parse_variant_selection_exact:
  "parse_variant_selection s = Inr (n, kvs) \<longleftrightarrow>
     s = n @ pairs_text kvs \<and> CHR ''['' \<notin> set n \<and> list_all selection_pair kvs \<and> distinct (map fst kvs)"
proof
  assume "parse_variant_selection s = Inr (n, kvs)"
  then have s: "s = n @ pairs_text kvs" and d: "distinct (map fst kvs)" and n: "n = part_head (CHR ''['') s"
    and kvs: "kvs = findall_pairs variant_rx (if part_tail (CHR ''['') s \<noteq> [] then ''['' @ part_tail (CHR ''['') s else [])"
    by (auto simp: parse_variant_selection_def Let_def simp del: append_Cons)
  from n have "CHR ''['' \<notin> set n" by (auto simp: part_head_def dest: set_takeWhileD)
  moreover have "list_all selection_pair kvs"
    unfolding kvs variant_rx_def list_all_iff pair_ok_def
    using findall_pairs_valid [unfolded list_all_iff] by blast
  ultimately show "s = n @ pairs_text kvs \<and> CHR ''['' \<notin> set n \<and> list_all selection_pair kvs \<and> distinct (map fst kvs)"
    using s d by simp
next
  assume "s = n @ pairs_text kvs \<and> CHR ''['' \<notin> set n \<and> list_all selection_pair kvs \<and> distinct (map fst kvs)"
  then have s: "s = n @ pairs_text kvs" and n: "CHR ''['' \<notin> set n" and ok: "list_all selection_pair kvs"
    and d: "distinct (map fst kvs)" by auto
  have found: "findall_pairs variant_rx (pairs_text kvs) = kvs"
    unfolding variant_rx_def using ok delimiters by (intro findall_pairs_text)
  show "parse_variant_selection s = Inr (n, kvs)"
  proof (cases kvs)
    case Nil
    with s n have "part_head (CHR ''['') s = n" "part_tail (CHR ''['') s = []" by (simp_all add: part_absent)
    with s Nil found show ?thesis by (simp add: parse_variant_selection_def)
  next
    case (Cons kv rest)
    define u where "u = fst kv @ ''='' @ snd kv @ '']'' @ pairs_text rest"
    have u: "pairs_text kvs = CHR ''['' # u" by (simp only: Cons pairs_text_Cons u_def)
    with s n have "part_head (CHR ''['') s = n" "part_tail (CHR ''['') s = u" by (simp_all add: part_append)
    moreover have "u \<noteq> []" by (simp add: u_def)
    ultimately show ?thesis using s d found u by (simp add: parse_variant_selection_def)
  qed
qed

section \<open>The summary\<close>

definition info_name :: "json \<Rightarrow> string" where "info_name info = str_of (obj_get info ''testName'')"
definition info_row :: "json \<Rightarrow> module_row" where
  "info_row info = \<lparr>row_name = info_name info, row_status = known (obj_get info ''status'') safe_module_states,
     row_result = known (obj_get info ''result'') safe_module_results\<rparr>"

lemma summary_rows:
  "distinct (map row_name rows) \<Longrightarrow> foldE summary_step rows infos = Inr rows' \<longleftrightarrow>
     rows' = rows @ map info_row infos \<and> list_all (\<lambda>i. safe_name (obj_get i ''testName'')) infos
     \<and> distinct (map row_name rows @ map info_name infos)"
proof (induction infos arbitrary: rows)
  case Nil
  then show ?case by auto
next
  case (Cons i infos)
  let ?rows = "rows @ [info_row i]"
  have name: "row_name (info_row i) = info_name i" by (simp add: info_row_def)
  have step: "summary_step rows i = Inr r \<longleftrightarrow>
    safe_name (obj_get i ''testName'') \<and> info_name i \<notin> row_name ` set rows \<and> r = ?rows" for r
    by (auto simp: summary_step_def Let_def info_name_def info_row_def)
  have "foldE summary_step rows (i # infos) = Inr rows' \<longleftrightarrow>
    safe_name (obj_get i ''testName'') \<and> info_name i \<notin> row_name ` set rows \<and> foldE summary_step ?rows infos = Inr rows'"
    by (auto simp: step)
  also have "\<dots> \<longleftrightarrow> safe_name (obj_get i ''testName'') \<and> info_name i \<notin> row_name ` set rows
      \<and> rows' = ?rows @ map info_row infos \<and> list_all (\<lambda>i. safe_name (obj_get i ''testName'')) infos
      \<and> distinct (map row_name ?rows @ map info_name infos)"
  proof (cases "info_name i \<in> row_name ` set rows")
    case False
    with Cons.prems name have "distinct (map row_name ?rows)" by simp
    from Cons.IH [OF this] show ?thesis by simp
  qed simp
  also have "\<dots> \<longleftrightarrow> rows' = rows @ map info_row (i # infos) \<and> list_all (\<lambda>i. safe_name (obj_get i ''testName'')) (i # infos)
     \<and> distinct (map row_name rows @ map info_name (i # infos))"
    using Cons.prems name by auto
  finally show ?case .
qed

definition expected_skip :: "json \<Rightarrow> string \<Rightarrow> bool" where
  "expected_skip skips name = list_ex (\<lambda>e. case obj_get e ''test-name'' of JStr p \<Rightarrow> glob p name | _ \<Rightarrow> False) (arr_of skips)"

lemma skip_matches_Inr: "skip_matches name e = Inr b \<longleftrightarrow>
    (\<exists>p. py_key e ''test-name'' = Inr (JStr p) \<and> b = glob p name)"
proof -
  have "(case pat of JStr p \<Rightarrow> ret (glob p name) | _ \<Rightarrow> raise TypeError) = Inr b \<longleftrightarrow> (\<exists>p. pat = JStr p \<and> b = glob p name)"
    for pat by (cases pat) auto
  then show ?thesis by (auto simp: skip_matches_def simp del: py_key_Inr)
qed

lemma unexpected_skip_exact:
  assumes "unexpected_skip skips r = Inr b"
  shows "b \<longleftrightarrow> row_result r = ''SKIPPED'' \<and> \<not> expected_skip skips (row_name r)"
proof (cases "row_result r = ''SKIPPED''")
  case False
  with assms show ?thesis by (simp add: unexpected_skip_def)
next
  case True
  with assms obtain es where es: "py_iter skips = Inr es" and any: "anyE (skip_matches (row_name r)) es = Inr (\<not> b)"
    by (auto simp: unexpected_skip_def)
  have key: "obj_get e ''test-name'' = JStr p" if "py_key e ''test-name'' = Inr (JStr p)" for e p
    using that by (rule py_key_get)
  show ?thesis
  proof (cases skips)
    case (JArr xs)
    with es have xs: "es = xs" by simp
    show ?thesis
    proof (cases b)
      case True
      with any have "\<forall>e\<in>set xs. skip_matches (row_name r) e = Inr False" by (simp add: anyE_False xs)
      then have "\<not> expected_skip skips (row_name r)"
        using key JArr by (fastforce simp: expected_skip_def list_ex_iff skip_matches_Inr simp del: py_key_Inr)
      with True \<open>row_result r = _\<close> show ?thesis by simp
    next
      case False
      with any xs obtain e where "e \<in> set xs" "skip_matches (row_name r) e = Inr True" by (auto dest: anyE_TrueD)
      then obtain p where "e \<in> set xs" "obj_get e ''test-name'' = JStr p" "glob p (row_name r)"
        using key by (auto simp: skip_matches_Inr simp del: py_key_Inr)
      then have "expected_skip skips (row_name r)"
        using JArr by (auto simp: expected_skip_def list_ex_iff intro: bexI [of _ e])
      with False show ?thesis by simp
    qed
  next
    case (JObj kvs)
    with es have es': "es = map (JStr \<circ> fst) kvs" by simp
    have "b"
    proof (rule ccontr)
      assume "\<not> b"
      with any obtain e where "e \<in> set es" "skip_matches (row_name r) e = Inr True" by (auto dest: anyE_TrueD)
      with es' show False by (auto simp: skip_matches_Inr)
    qed
    with JObj True show ?thesis by (simp add: expected_skip_def arr_of_def)
  next
    case (JStr s)
    with es have es': "es = map (\<lambda>c. JStr [c]) s" by (simp add: py_iter_def)
    have "b"
    proof (rule ccontr)
      assume "\<not> b"
      with any obtain e where "e \<in> set es" "skip_matches (row_name r) e = Inr True" by (auto dest: anyE_TrueD)
      with es' show False by (auto simp: skip_matches_Inr)
    qed
    with JStr True show ?thesis by (simp add: expected_skip_def arr_of_def)
  qed (use es in simp_all)
qed

lemma unexpected_skips_none:
  assumes "unexpected_skips skips rows = Inr us"
  shows "us = [] \<longleftrightarrow> list_all (\<lambda>r. \<not> (row_result r = ''SKIPPED'' \<and> \<not> expected_skip skips (row_name r))) rows"
proof -
  from assms obtain nss where "mapE (\<lambda>r. bindE (unexpected_skip skips r) (\<lambda>b. ret (if b then [row_name r] else []))) rows = Inr nss"
    and us: "us = concat nss" by (auto simp: unexpected_skips_def)
  then have "concat nss = [] \<longleftrightarrow> list_all (\<lambda>r. \<not> (row_result r = ''SKIPPED'' \<and> \<not> expected_skip skips (row_name r))) rows"
    by (induction rows arbitrary: nss us) (auto dest!: unexpected_skip_exact split: if_splits)
  with us show ?thesis by simp
qed

text \<open>
  The strict summary passes exactly when some module passed, every module is
  finished, and each of them passed or was skipped under an expected-skip pattern; it
  exists only if all names are safe and no module occurs twice.
\<close>

theorem strict_summary_exact:
  "case strict_module_summary out skips of
     Inl e \<Rightarrow> True
   | Inr s \<Rightarrow> \<exists>infos. exported_module_info out = Inr infos
       \<and> list_all (\<lambda>i. safe_name (obj_get i ''testName'')) infos \<and> distinct (map info_name infos)
       \<and> (obj_get s ''passed'' = JBool True \<longleftrightarrow>
            list_ex (\<lambda>i. obj_get i ''result'' = JStr ''PASSED'') infos
            \<and> list_all (\<lambda>i. obj_get i ''status'' = JStr ''FINISHED''
                \<and> (obj_get i ''result'' = JStr ''PASSED''
                    \<or> (obj_get i ''result'' = JStr ''SKIPPED'' \<and> expected_skip skips (info_name i)))) infos)"
proof (cases "strict_module_summary out skips")
  case (Inr s)
  then obtain infos rows us where infos: "exported_module_info out = Inr infos"
    and rows: "foldE summary_step [] infos = Inr rows" and us: "unexpected_skips skips rows = Inr us"
    and s: "s = summary_json rows us" by (auto simp: strict_module_summary_def)
  from rows have r: "rows = map info_row infos" and safe: "list_all (\<lambda>i. safe_name (obj_get i ''testName'')) infos"
    and d: "distinct (map info_name infos)" by (simp_all add: summary_rows)
  have known: "known v allowed = x \<longleftrightarrow> v = JStr x" if "x \<in> set allowed" "x \<noteq> ''UNKNOWN''" for v allowed x
    using that by (cases v) (auto simp: known_def in_strings_def)
  have "row_status (info_row i) = ''FINISHED'' \<longleftrightarrow> obj_get i ''status'' = JStr ''FINISHED''" for i
    by (simp add: info_row_def known safe_module_states_def)
  moreover have "row_result (info_row i) = ''PASSED'' \<longleftrightarrow> obj_get i ''result'' = JStr ''PASSED''"
    and "row_result (info_row i) = ''SKIPPED'' \<longleftrightarrow> obj_get i ''result'' = JStr ''SKIPPED''" for i
    by (simp_all add: info_row_def known safe_module_results_def)
  moreover have "row_name (info_row i) = info_name i" for i by (simp add: info_row_def)
  ultimately have "obj_get s ''passed'' = JBool True \<longleftrightarrow>
      list_ex (\<lambda>i. obj_get i ''result'' = JStr ''PASSED'') infos
      \<and> list_all (\<lambda>i. obj_get i ''status'' = JStr ''FINISHED''
          \<and> (obj_get i ''result'' = JStr ''PASSED''
              \<or> (obj_get i ''result'' = JStr ''SKIPPED'' \<and> expected_skip skips (info_name i)))) infos"
    unfolding s summary_json_def summary_passed_def unexpected_skips_none [OF us] r
    by (auto simp: list_all_iff list_ex_iff)
  with Inr infos safe d show ?thesis by auto
qed simp

section \<open>Coverage\<close>

lemma plan_module_Inr:
  "plan_module seen m = Inr pm \<longleftrightarrow>
     is_dict m \<and> safe_name (obj_get m ''testModule'') \<and> str_of (obj_get m ''testModule'') \<notin> set seen
     \<and> is_dict (obj_get m ''variant'') \<and> list_all variant_entry_ok (fields_of (obj_get m ''variant''))
     \<and> (\<exists>x. obj_get m ''instances'' = JArr [x] \<and> identity_value x
          \<and> pm = \<lparr>pm_name = str_of (obj_get m ''testModule''), pm_id = str_of x, pm_extra = variant_of (obj_get m ''variant'')\<rparr>)"
proof -
  have one: "is_list v \<and> length (arr_of v) = 1 \<longleftrightarrow> (\<exists>x. v = JArr [x])" for v
    by (cases v) (auto simp: length_Suc_conv arr_of_def)
  have "plan_module seen m = Inr pm \<longleftrightarrow>
     is_dict m \<and> safe_name (obj_get m ''testModule'') \<and> str_of (obj_get m ''testModule'') \<notin> set seen
     \<and> is_dict (obj_get m ''variant'') \<and> list_all variant_entry_ok (fields_of (obj_get m ''variant''))
     \<and> (is_list (obj_get m ''instances'') \<and> length (arr_of (obj_get m ''instances'')) = 1)
     \<and> identity_value (hd (arr_of (obj_get m ''instances'')))
     \<and> pm = \<lparr>pm_name = str_of (obj_get m ''testModule''), pm_id = str_of (hd (arr_of (obj_get m ''instances''))),
             pm_extra = variant_of (obj_get m ''variant'')\<rparr>"
    unfolding plan_module_def Let_def by (auto simp del: json_tests)
  then show ?thesis unfolding one by (auto simp del: json_tests)
qed

lemma plan_modules_snoc:
  "plan_modules (ms @ [m]) = bindE (plan_modules ms) (\<lambda>pms. bindE (plan_module (map pm_name pms) m) (\<lambda>pm. ret (pms @ [pm])))"
  unfolding plan_modules_def foldE_append by (rule bindE_cong) (auto simp: bindE_assoc)

text \<open>A loop that appends one result per element, each computed knowing the earlier ones.\<close>

lemma plan_modules_distinct: "plan_modules ms = Inr pms \<Longrightarrow> distinct (map pm_name pms)"
proof (induction ms arbitrary: pms rule: rev_induct)
  case Nil
  then show ?case by (simp add: plan_modules_def)
next
  case (snoc m ms)
  then obtain ps pm where "plan_modules ms = Inr ps" "plan_module (map pm_name ps) m = Inr pm" "pms = ps @ [pm]"
    by (auto simp: plan_modules_snoc)
  with snoc.IH show ?case by (auto simp: plan_module_Inr simp del: json_tests)
qed

definition export_matches :: "string \<Rightarrow> string \<times> variant \<Rightarrow> json \<Rightarrow> bool" where
  "export_matches plan_id iv info =
     (obj_get info ''planId'' = JStr plan_id \<and> obj_get info ''testId'' = JStr (fst iv)
      \<and> obj_get info ''_id'' = JStr (fst iv) \<and> py_eq (obj_get info ''variant'') (variant_json (snd iv)))"

lemma check_export_Inr:
  "check_export plan_id expected exported info = Inr ex \<longleftrightarrow>
     is_str (obj_get info ''testName'') \<and> info_name info \<notin> set exported \<and> ex = exported @ [info_name info]
     \<and> (\<exists>iv. map_of expected (info_name info) = Some iv \<and> export_matches plan_id iv info)"
proof (cases "is_str (obj_get info ''testName'')")
  case True
  show ?thesis
  proof (cases "map_of expected (info_name info)")
    case None
    with True show ?thesis by (simp add: check_export_def info_name_def del: json_tests)
  next
    case (Some iv)
    with True show ?thesis
      by (cases iv) (auto simp: check_export_def info_name_def export_matches_def Let_def simp del: json_tests)
  qed
qed (simp add: check_export_def del: json_tests)

definition info_ok :: "string \<Rightarrow> (string \<times> string \<times> variant) list \<Rightarrow> json \<Rightarrow> bool" where
  "info_ok plan_id expected info = (is_str (obj_get info ''testName'')
     \<and> (case map_of expected (info_name info) of None \<Rightarrow> False | Some iv \<Rightarrow> export_matches plan_id iv info))"

lemma check_exports_Inr:
  "foldE (check_export plan_id expected) ex0 infos = Inr ex \<longleftrightarrow>
     ex = ex0 @ map info_name infos \<and> list_all (info_ok plan_id expected) infos
     \<and> distinct (map info_name infos) \<and> set ex0 \<inter> set (map info_name infos) = {}"
proof (induction infos arbitrary: ex0)
  case (Cons i infos)
  have "foldE (check_export plan_id expected) ex0 (i # infos) = Inr ex \<longleftrightarrow>
    info_ok plan_id expected i \<and> info_name i \<notin> set ex0
    \<and> foldE (check_export plan_id expected) (ex0 @ [info_name i]) infos = Inr ex"
    by (auto simp: check_export_Inr info_ok_def split: option.splits simp del: json_tests)
  with Cons.IH [of "ex0 @ [info_name i]"] show ?case by auto
qed auto

lemma compare_Inr:
  "compare_plan_coverage infos plan selection = Inr c \<longleftrightarrow>
     (\<exists>name variant pms plan_id. parse_variant_selection selection = Inr (name, variant) \<and> is_dict plan
        \<and> obj_get plan ''planName'' = JStr name \<and> py_eq (obj_get plan ''variant'') (variant_json variant)
        \<and> obj_get plan ''_id'' = JStr plan_id \<and> fullmatch plan_id_rx plan_id
        \<and> arr_of (obj_get plan ''modules'') \<noteq> [] \<and> plan_modules (arr_of (obj_get plan ''modules'')) = Inr pms
        \<and> distinct (map pm_id pms)
        \<and> list_all (info_ok plan_id (expected_modules variant pms)) infos \<and> distinct (map info_name infos)
        \<and> c = coverage_json plan_id selection variant pms (map info_name infos))"
proof -
  have ident: "identity_value v \<longleftrightarrow> (\<exists>p. v = JStr p \<and> fullmatch plan_id_rx p)" for v
    by (auto simp: identity_value_def)
  show ?thesis
    unfolding compare_plan_coverage_def ident
    by (auto simp: Let_def check_exports_Inr simp del: json_tests)
qed

text \<open>
  Claim C4. Coverage is complete only for a bijection: the compared export holds no module
  twice, each exported module is one of the plan's with the plan's identity, its own
  instance and the merged variant, no two modules share an instance, and the coverage is
  complete exactly when the exported names are all the names of the plan.
\<close>

theorem coverage_complete_exact:
  "case compare_plan_coverage infos plan selection of
     Inl e \<Rightarrow> True
   | Inr c \<Rightarrow> \<exists>name variant pms plan_id.
       parse_variant_selection selection = Inr (name, variant)
       \<and> plan_modules (arr_of (obj_get plan ''modules'')) = Inr pms
       \<and> obj_get plan ''planName'' = JStr name \<and> obj_get plan ''_id'' = JStr plan_id
       \<and> distinct (map pm_name pms) \<and> distinct (map pm_id pms) \<and> distinct (map info_name infos)
       \<and> list_all (info_ok plan_id (expected_modules variant pms)) infos
       \<and> set (map info_name infos) \<subseteq> set (map pm_name pms)
       \<and> (obj_get c ''complete'' = JBool True \<longleftrightarrow> set (map info_name infos) = set (map pm_name pms))"
proof (cases "compare_plan_coverage infos plan selection")
  case (Inr c)
  then obtain name variant pms plan_id where
    parse: "parse_variant_selection selection = Inr (name, variant)"
    and plan: "obj_get plan ''planName'' = JStr name" "obj_get plan ''_id'' = JStr plan_id"
    and pms: "plan_modules (arr_of (obj_get plan ''modules'')) = Inr pms" "distinct (map pm_id pms)"
    and infos: "list_all (info_ok plan_id (expected_modules variant pms)) infos" "distinct (map info_name infos)"
    and c: "c = coverage_json plan_id selection variant pms (map info_name infos)"
    unfolding compare_Inr by blast
  have keys: "map_of (expected_modules variant pms) n = Some iv \<Longrightarrow> n \<in> pm_name ` set pms" for n iv
    by (force simp: expected_modules_def dest: map_of_SomeD)
  have sub: "set (map info_name infos) \<subseteq> set (map pm_name pms)"
    using infos(1) keys by (fastforce simp: list_all_iff info_ok_def split: option.splits simp del: json_tests)
  have "obj_get c ''complete'' = JBool True \<longleftrightarrow> filter (\<lambda>n. n \<notin> set (map info_name infos)) (map pm_name pms) = []"
    unfolding c coverage_json_def Let_def by (simp del: filter_map set_map) (metis set_empty2 set_sort)
  also have "\<dots> \<longleftrightarrow> set (map pm_name pms) \<subseteq> set (map info_name infos)" by (auto simp: filter_empty_conv)
  finally have "obj_get c ''complete'' = JBool True \<longleftrightarrow> set (map info_name infos) = set (map pm_name pms)"
    using sub by blast
  with Inr parse plan pms infos sub plan_modules_distinct [OF pms(1)] show ?thesis by auto
qed simp

text \<open>The comparison on a plan of one module and its export: accepted, and complete.\<close>

definition sample_info :: json where
  "sample_info = JObj [(''testName'', JStr ''m1''), (''planId'', JStr ''p1''), (''testId'', JStr ''t1''),
     (''_id'', JStr ''t1''), (''variant'', JObj [(''c'', JStr ''d''), (''a'', JStr ''b'')])]"

definition sample_plan :: json where
  "sample_plan = JObj [(''_id'', JStr ''p1''), (''planName'', JStr ''plan''), (''variant'', JObj [(''a'', JStr ''b'')]),
     (''modules'', JArr [JObj [(''testModule'', JStr ''m1''), (''instances'', JArr [JStr ''t1'']),
        (''variant'', JObj [(''c'', JStr ''d'')])]])]"

lemma sample_coverage:
  "\<exists>c. compare_plan_coverage [sample_info] sample_plan ''plan[a=b]'' = Inr c \<and> obj_get c ''complete'' = JBool True"
proof -
  let ?pms = "[\<lparr>pm_name = ''m1'', pm_id = ''t1'', pm_extra = [(''c'', ''d'')]\<rparr>]" and ?v = "[(''a'', ''b'')]"
  have "compare_plan_coverage [sample_info] sample_plan ''plan[a=b]''
      = Inr (coverage_json ''p1'' ''plan[a=b]'' ?v ?pms (map info_name [sample_info]))"
    unfolding compare_Inr
  proof (intro exI conjI)
    show "parse_variant_selection ''plan[a=b]'' = Inr (''plan'', ?v)" by code_simp
    show "plan_modules (arr_of (obj_get sample_plan ''modules'')) = Inr ?pms" by code_simp
    show "fullmatch plan_id_rx ''p1''" by code_simp
    show "list_all (info_ok ''p1'' (expected_modules ?v ?pms)) [sample_info]" by code_simp
  qed (simp_all add: sample_plan_def variant_json_def)
  moreover have "map info_name [sample_info] = [''m1'']" by (simp add: info_name_def sample_info_def)
  ultimately show ?thesis by (simp add: coverage_json_def Let_def)
qed

section \<open>Recorded coverage\<close>

text \<open>Dictionaries with the same entries: sorted alike, looked up alike, equal as JSON.\<close>

lemma dict_mset: "distinct (map f xs) \<Longrightarrow> distinct (map f ys) \<Longrightarrow> set xs = set ys \<Longrightarrow> mset xs = mset ys"
  by (metis distinct_map set_eq_iff_mset_eq_distinct)

lemma sort_key_canonical:
  assumes "distinct (map f xs)" "distinct (map f ys)" "set xs = set ys"
  shows "sort_key f xs = sort_key f ys"
proof -
  have "mset xs = mset (sort_key f ys)" using dict_mset [OF assms] by simp
  moreover have "inj_on f (set xs)" using assms(1) by (simp add: distinct_map)
  ultimately show ?thesis by (rule sort_key_inj_key_eq) simp
qed

lemma sort_key_twice [simp]: "sort_key f (sort_key f xs) = sort_key f xs"
  by (simp add: sort_key_id_if_sorted)

lemma distinct_sort_key [simp]: "distinct (map f (sort_key g xs)) = distinct (map f xs)"
  by (metis mset_map mset_sort mset_eq_imp_distinct_iff)

lemma sort_mset_eq: "mset xs = mset ys \<Longrightarrow> sort xs = sort ys"
  by (metis sorted_list_of_multiset_mset)

lemma same_dict:
  assumes "distinct (map fst xs)" "distinct (map fst ys)" "map_of xs = map_of ys"
  shows "set xs = set ys"
proof -
  have "(k, v) \<in> set xs \<longleftrightarrow> (k, v) \<in> set ys" for k v
    using assms by (metis map_of_eq_Some_iff)
  then show ?thesis by auto
qed

lemma py_eq_same_dict:
  assumes "distinct (map fst xs)" "distinct (map fst ys)" "set xs = set ys"
  shows "py_eq v (JObj xs) = py_eq v (JObj ys)"
proof -
  have "map_of xs = map_of ys" using assms by (metis map_of_eq_Some_iff map_of_inject_set)
  moreover have "length xs = length ys" using dict_mset [OF assms] by (metis size_mset)
  ultimately show ?thesis by (cases v) auto
qed

lemma distinct_merge: "distinct (map fst a) \<Longrightarrow> distinct (map fst (merge a b))"
  unfolding merge_def by (induction b arbitrary: a) (auto split: prod.splits)

lemma map_of_sort_key: "distinct (map fst xs) \<Longrightarrow> map_of (sort_key fst xs) = map_of xs"
  by (metis distinct_sort_key map_of_inject_set set_sort)

lemma merge_sorted:
  assumes "distinct (map fst a)" "distinct (map fst b)"
  shows "set (merge a (sort_key fst b)) = set (merge a b)"
  using assms by (intro same_dict) (simp_all add: distinct_merge map_of_merge map_of_sort_key)

lemma keys_variant_json: "map fst (map (\<lambda>(k, x). (k, JStr x)) v) = map fst v"
  by (induction v) auto

text \<open>A module as the plan names it, and with its variant in the order of the label.\<close>

definition canon :: "plan_module \<Rightarrow> plan_module" where
  "canon pm = pm\<lparr>pm_extra := sort_key fst (pm_extra pm)\<rparr>"

definition module_json :: "plan_module \<Rightarrow> json" where
  "module_json pm = JObj [(''testModule'', JStr (pm_name pm)), (''instances'', JArr [JStr (pm_id pm)]),
     (''variant'', variant_json (pm_extra pm))]"

definition module_ok :: "plan_module \<Rightarrow> bool" where
  "module_ok pm = (fullmatch safe_module (pm_name pm) \<and> fullmatch plan_id_rx (pm_id pm)
     \<and> (\<forall>(k, x)\<in>set (pm_extra pm). fullmatch variant_key_rx k \<and> fullmatch variant_value_rx x)
     \<and> distinct (map fst (pm_extra pm)))"

lemma canon_simps [simp]:
  "pm_name (canon pm) = pm_name pm" "pm_id (canon pm) = pm_id pm"
  "pm_extra (canon pm) = sort_key fst (pm_extra pm)" "module_ok (canon pm) = module_ok pm"
  "binding_json (canon pm) = binding_json pm"
  by (simp_all add: canon_def module_ok_def binding_json_def interaction_name_def)

lemma plan_module_json:
  "module_ok pm \<Longrightarrow> pm_name pm \<notin> set seen \<Longrightarrow> plan_module seen (module_json pm) = Inr pm"
proof -
  assume "module_ok pm" "pm_name pm \<notin> set seen"
  moreover have "variant_of (variant_json v) = v" for v
    by (simp add: variant_of_def variant_json_def case_prod_unfold comp_def)
  ultimately show ?thesis
    by (auto simp: plan_module_Inr module_json_def module_ok_def variant_json_def identity_value_def list_all_iff
        variant_entry_ok_def safe_name_def)
qed

lemma plan_modules_json:
  "list_all module_ok pms \<Longrightarrow> distinct (map pm_name pms) \<Longrightarrow> plan_modules (map module_json pms) = Inr pms"
proof (induction pms rule: rev_induct)
  case Nil
  then show ?case by (simp add: plan_modules_def)
next
  case (snoc pm pms)
  then show ?case by (simp add: plan_modules_snoc plan_module_json)
qed

lemma plan_modules_ok:
  "plan_modules ms = Inr pms \<Longrightarrow> list_all wf_json ms \<Longrightarrow> list_all module_ok pms"
proof (induction ms arbitrary: pms rule: rev_induct)
  case Nil
  then show ?case by (simp add: plan_modules_def)
next
  case (snoc m ms)
  then obtain ps pm where ps: "plan_modules ms = Inr ps" and pm: "plan_module (map pm_name ps) m = Inr pm"
    and pms: "pms = ps @ [pm]" by (auto simp: plan_modules_snoc)
  from pm obtain kvs x where v: "obj_get m ''variant'' = JObj kvs" "list_all variant_entry_ok kvs"
    and x: "identity_value x" "safe_name (obj_get m ''testModule'')"
    and rec: "pm = \<lparr>pm_name = str_of (obj_get m ''testModule''), pm_id = str_of x, pm_extra = variant_of (JObj kvs)\<rparr>"
    unfolding plan_module_Inr by auto
  from snoc.prems have "wf_json m" by simp
  then have "wf_json (JObj kvs)" using wf_json_obj_get [of m "''variant''"] by (simp only: v(1))
  then have "distinct (map fst (variant_of (JObj kvs)))" by (simp add: variant_of_def comp_def case_prod_unfold)
  with v(2) x rec have "module_ok pm"
    by (auto simp: module_ok_def variant_of_def list_all_iff variant_entry_ok_def identity_value_def safe_name_def)
  with snoc ps pms show ?case by simp
qed

lemma expected_canon:
  assumes ok: "list_all module_ok pms" and d: "distinct (map pm_name pms)" and v: "distinct (map fst variant)"
  shows "info_ok plan_id (expected_modules variant (map canon (sort_key pm_name pms))) info
       = info_ok plan_id (expected_modules variant pms) info"
proof -
  let ?E = "expected_modules variant pms" and ?E' = "expected_modules variant (map canon (sort_key pm_name pms))"
  have names: "map fst (expected_modules variant qs) = map pm_name qs" for qs
    by (simp add: expected_modules_def comp_def)
  have "map fst ?E' = map pm_name (sort_key pm_name pms)" by (simp add: names comp_def)
  then have d': "distinct (map fst ?E')" "distinct (map fst ?E)" using d names by (simp_all add: comp_def)
  have entry: "map_of ?E n = Some (pm_id pm, merge variant (pm_extra pm))
      \<and> map_of ?E' n = Some (pm_id pm, merge variant (sort_key fst (pm_extra pm)))"
    if "pm \<in> set pms" "pm_name pm = n" for pm n
    using that d' by (intro conjI map_of_is_SomeI) (force simp: expected_modules_def)+
  show ?thesis
  proof (cases "info_name info \<in> pm_name ` set pms")
    case True
    then obtain pm where pm: "pm \<in> set pms" "pm_name pm = info_name info" by auto
    then have "distinct (map fst (pm_extra pm))" using ok by (auto simp: list_all_iff module_ok_def)
    with v have "set (merge variant (sort_key fst (pm_extra pm))) = set (merge variant (pm_extra pm))"
      by (rule merge_sorted)
    then have "py_eq w (variant_json (merge variant (sort_key fst (pm_extra pm))))
        = py_eq w (variant_json (merge variant (pm_extra pm)))" for w
      unfolding variant_json_def using v by (intro py_eq_same_dict) (simp_all only: keys_variant_json distinct_merge set_map)
    with entry [OF pm] show ?thesis by (simp add: info_ok_def export_matches_def del: json_tests)
  next
    case False
    then have "map_of ?E (info_name info) = None" "map_of ?E' (info_name info) = None"
      by (force simp: map_of_eq_None_iff expected_modules_def)+
    then show ?thesis by (simp add: info_ok_def)
  qed
qed

lemma sort_keys_same_dict:
  "distinct (map fst xs) \<Longrightarrow> distinct (map fst ys) \<Longrightarrow>
   (\<lambda>(k, v). (k, sort_keys v)) ` set xs = (\<lambda>(k, v). (k, sort_keys v)) ` set ys \<Longrightarrow>
   sort_keys (JObj xs) = sort_keys (JObj ys)"
proof -
  assume a: "distinct (map fst xs)" "distinct (map fst ys)"
    "(\<lambda>(k, v). (k, sort_keys v)) ` set xs = (\<lambda>(k, v). (k, sort_keys v)) ` set ys"
  have keys: "map fst (map (\<lambda>(k, v). (k, sort_keys v)) zs) = map fst zs" for zs
    by (induction zs) auto
  show ?thesis
    unfolding sort_keys.simps using a by (intro arg_cong [where f = JObj] sort_key_canonical) (simp_all only: keys set_map)
qed

lemma binding_canon:
  assumes ok: "list_all module_ok pms" and d: "distinct (map pm_name pms)" and v: "distinct (map fst variant)"
  shows "sort_keys (plan_binding plan_id selection (expected_modules variant (map canon (sort_key pm_name pms))))
       = sort_keys (plan_binding plan_id selection (expected_modules variant pms))"
proof -
  define entry where "entry = (\<lambda>(n :: string, i, w). (n, JArr [JStr i, variant_json w]))"
  let ?E = "map entry (expected_modules variant pms)"
  let ?E' = "map entry (expected_modules variant (map canon (sort_key pm_name pms)))"
  have names: "map fst (map entry (expected_modules variant qs)) = map pm_name qs" for qs
    by (induction qs) (auto simp: expected_modules_def entry_def)
  have "sort_keys (variant_json (merge variant (sort_key fst (pm_extra pm))))
      = sort_keys (variant_json (merge variant (pm_extra pm)))" if "pm \<in> set pms" for pm
  proof -
    have "distinct (map fst (pm_extra pm))" using ok that by (auto simp: list_all_iff module_ok_def)
    with v have "set (merge variant (sort_key fst (pm_extra pm))) = set (merge variant (pm_extra pm))"
      by (rule merge_sorted)
    then show ?thesis unfolding variant_json_def using v
      by (intro sort_keys_same_dict) (simp_all only: keys_variant_json distinct_merge set_map)
  qed
  then have "(\<lambda>(k, v). (k, sort_keys v)) ` set ?E' = (\<lambda>(k, v). (k, sort_keys v)) ` set ?E"
    by (auto simp: expected_modules_def entry_def image_image intro!: image_cong)
  moreover have "distinct (map fst ?E)" "distinct (map fst ?E')"
    using d unfolding names by (simp_all add: comp_def)
  ultimately have "sort_keys (JObj ?E') = sort_keys (JObj ?E)" by (intro sort_keys_same_dict)
  then show ?thesis by (simp add: plan_binding_def entry_def del: sort_keys.simps(2) add: sort_keys.simps(2) [of "[_, _, _]"])
qed

lemma coverage_canon:
  assumes "list_all module_ok pms" "distinct (map pm_name pms)" "distinct (map fst variant)"
  shows "coverage_json plan_id selection variant (map canon (sort_key pm_name pms)) exported
       = coverage_json plan_id selection variant pms exported"
proof -
  let ?qs = "map canon (sort_key pm_name pms)"
  have names: "mset (map pm_name ?qs) = mset (map pm_name pms)" by (simp add: comp_def multiset.map_comp)
  then have "sort (map pm_name ?qs) = sort (map pm_name pms)" by (rule sort_mset_eq)
  moreover have "sort (filter (\<lambda>n. n \<notin> set exported) (map pm_name ?qs)) = sort (filter (\<lambda>n. n \<notin> set exported) (map pm_name pms))"
    using names by (intro sort_mset_eq) (metis mset_filter)
  moreover have "sort_key pm_name ?qs = ?qs" by (intro sort_key_id_if_sorted) (simp add: comp_def)
  then have "map binding_json (sort_key pm_name ?qs) = map binding_json (sort_key pm_name pms)" by simp
  ultimately show ?thesis unfolding coverage_json_def Let_def json_dumps_sorted_def binding_canon [OF assms] by simp
qed

lemma plan_modules_length: "plan_modules ms = Inr pms \<Longrightarrow> length pms = length ms"
proof (induction ms arbitrary: pms rule: rev_induct)
  case Nil
  then show ?case by (simp add: plan_modules_def)
next
  case (snoc m ms)
  then show ?case by (auto simp: plan_modules_snoc)
qed

lemma json_set_same:
  assumes "\<And>v. v \<in> set vs \<Longrightarrow> v = JStr s" and "vs \<noteq> []"
  shows "json_set vs = Inr [JStr s]"
proof -
  let ?f = "\<lambda>t v. if \<not> hashable v then raise TypeError else ret (if list_ex (py_eq v) t then t else t @ [v])"
  have fold: "(\<And>v. v \<in> set us \<Longrightarrow> v = JStr s) \<Longrightarrow> foldE ?f [JStr s] us = Inr [JStr s]" for us
  proof (induction us)
    case (Cons u us)
    have "u = JStr s" by (rule Cons.prems) simp
    moreover have "foldE ?f [JStr s] us = Inr [JStr s]" using Cons by simp
    ultimately show ?case by (simp add: hashable_def)
  qed simp
  from assms obtain us where "vs = JStr s # us" and "\<And>v. v \<in> set us \<Longrightarrow> v = JStr s" by (cases vs) auto
  with fold show ?thesis by (simp add: json_set_def hashable_def)
qed

lemma recorded_module_binding: "module_ok pm \<Longrightarrow> recorded_module (binding_json pm) = Inr (module_json (canon pm))"
proof -
  assume ok: "module_ok pm"
  have "CHR ''['' \<notin> set (pm_name pm)"
    using ok delimiters by (auto simp: module_ok_def safe_module_def fullmatch_class_rep list_all_iff)
  moreover have "list_all selection_pair (sort_key fst (pm_extra pm))"
    using ok by (fastforce simp: module_ok_def list_all_iff pair_ok_def variant_key_rx_def variant_value_rx_def fullmatch_class_rep)
  moreover have "distinct (map fst (sort_key fst (pm_extra pm)))" using ok by (simp add: module_ok_def)
  ultimately have "parse_variant_selection (interaction_name pm) = Inr (pm_name pm, sort_key fst (pm_extra pm))"
    unfolding parse_variant_selection_exact interaction_name_def by blast
  then show ?thesis by (simp add: recorded_module_def binding_json_def module_json_def)
qed

lemma recorded_modules:
  "(\<And>pm. pm \<in> set pms \<Longrightarrow> module_ok pm) \<Longrightarrow>
   mapE recorded_module (map binding_json pms) = Inr (map (\<lambda>pm. module_json (canon pm)) pms)"
  by (induction pms) (auto simp: recorded_module_binding)

lemma wf_variant_json: "distinct (map fst v) \<Longrightarrow> wf_json (variant_json v)"
  by (auto simp: variant_json_def list_all_iff comp_def case_prod_unfold)

text \<open>
  Claim C2. What the live comparison recorded is accepted later: coverage computed from a
  non-empty export and a well-formed plan, read back from the evidence, validates again
  against the same export, although the plan is rebuilt from the recorded labels only.
\<close>

theorem recorded_accepts_live:
  "case compare_plan_coverage infos plan selection of
     Inl e \<Rightarrow> True
   | Inr c \<Rightarrow> (if infos \<noteq> [] \<and> wf_json plan then recorded_coverage_of infos c selection = Inr c else True)"
proof (cases "compare_plan_coverage infos plan selection")
  case (Inr c)
  have "recorded_coverage_of infos c selection = Inr c" if ne: "infos \<noteq> []" and wf: "wf_json plan"
  proof -
    from Inr obtain name variant pms plan_id where
      parse: "parse_variant_selection selection = Inr (name, variant)"
      and id: "fullmatch plan_id_rx plan_id"
      and ms: "arr_of (obj_get plan ''modules'') \<noteq> []"
      and pms: "plan_modules (arr_of (obj_get plan ''modules'')) = Inr pms" and ids: "distinct (map pm_id pms)"
      and infos: "list_all (info_ok plan_id (expected_modules variant pms)) infos" and di: "distinct (map info_name infos)"
      and c: "c = coverage_json plan_id selection variant pms (map info_name infos)"
      unfolding compare_Inr by blast
    let ?qs = "map canon (sort_key pm_name pms)"
    from parse have v: "distinct (map fst variant)" unfolding parse_variant_selection_exact by blast
    have "wf_json (obj_get plan ''modules'')" using wf by (rule wf_json_obj_get)
    then have "list_all wf_json (arr_of (obj_get plan ''modules''))"
      by (cases "obj_get plan ''modules''") (simp_all add: arr_of_def)
    with pms have ok: "list_all module_ok pms" by (rule plan_modules_ok)
    from pms have d: "distinct (map pm_name pms)" by (rule plan_modules_distinct)
    have "length pms = length (arr_of (obj_get plan ''modules''))"
      using pms by (rule plan_modules_length)
    with ms have "sort_key pm_name pms \<noteq> []" by (metis length_0_conv length_sort)
    have "json_set (map (\<lambda>i. obj_get i ''planId'') infos) = Inr [JStr plan_id]"
      using infos ne by (intro json_set_same) (auto simp: list_all_iff info_ok_def export_matches_def split: option.splits simp del: json_tests)
    moreover have "mapE recorded_module (map binding_json (sort_key pm_name pms)) = Inr (map module_json ?qs)"
      using ok by (auto simp: comp_def list_all_iff intro!: recorded_modules)
    moreover have "compare_plan_coverage infos (JObj [(''_id'', JStr plan_id), (''planName'', JStr name),
        (''variant'', variant_json variant), (''modules'', JArr (map module_json ?qs))]) selection = Inr c"
      unfolding compare_Inr
    proof (intro exI conjI)
      show "parse_variant_selection selection = Inr (name, variant)" by (rule parse)
      show "py_eq (obj_get (JObj [(''_id'', JStr plan_id), (''planName'', JStr name),
          (''variant'', variant_json variant), (''modules'', JArr (map module_json ?qs))]) ''variant'') (variant_json variant)"
        using v by (simp add: py_eq_refl wf_variant_json)
      show "plan_modules (arr_of (obj_get (JObj [(''_id'', JStr plan_id), (''planName'', JStr name),
          (''variant'', variant_json variant), (''modules'', JArr (map module_json ?qs))]) ''modules'')) = Inr ?qs"
        using ok d plan_modules_json [of ?qs] by (simp add: comp_def list_all_iff)
      show "list_all (info_ok plan_id (expected_modules variant ?qs)) infos"
        using infos unfolding list_all_iff expected_canon [OF ok d v] .
      show "c = coverage_json plan_id selection variant ?qs (map info_name infos)"
        by (simp only: c coverage_canon [OF ok d v])
      show "distinct (map pm_id ?qs)" using ids by (simp add: comp_def)
    qed (use id di \<open>sort_key pm_name pms \<noteq> []\<close> in simp_all)
    moreover have "py_eq c c" by (intro py_eq_refl) (simp add: c coverage_json_def Let_def list_all_iff binding_json_def)
    ultimately show ?thesis
      unfolding recorded_coverage_of_def using parse
      by (simp add: c coverage_json_def Let_def binding_json_def list_ex_iff)
  qed
  with Inr show ?thesis by simp
qed simp

end
