(* ===== verification/Conformance_Run_Props.thy ===== *)
theory Conformance_Run_Props
  imports Conformance_Run Conformance_Plan_Props
begin

text \<open>
  What a run guarantees: exit code 0 needs a clean pinned runner before and after, a passing
  strict summary and complete live coverage; hooks follow the runner's announcements; and
  finalising the evidence later changes nothing but the inventory.
\<close>

section \<open>Reading the parts of a run back\<close>

lemma reading_OK [simp]: "reading f s = (Inr x, s') \<longleftrightarrow> f s = Inr x \<and> s' = s"
  by (auto simp: reading_def)

lemma write_json_OK: "write_json T p v s = (Inr u, s') \<longleftrightarrow>
    writable T s p \<and> s' = s\<lparr>tree_of := put p (Regular (json_file v)) (tree_of s)\<rparr>"
  by (auto simp: write_json_def)

lemma liftIO_OK [simp]: "liftIO r s = (Inr x, s') \<longleftrightarrow> r = Inr x \<and> s' = s"
  by auto

lemma retIO_OK [simp]: "retIO y s = (Inr x, s') \<longleftrightarrow> x = y \<and> s' = s"
  by auto

text \<open>A summary is narrowed by the coverage: it passes only if both do.\<close>

lemma with_coverage_passed:
  assumes "with_coverage summary coverage = Inr s" and "truthy (obj_get s ''passed'')"
  shows "truthy (obj_get summary ''passed'') \<and> truthy (obj_get coverage ''complete'')"
proof -
  from assms(1) obtain p c where p: "py_key summary ''passed'' = Inr p" and c: "py_key coverage ''complete'' = Inr c"
    and s: "s = JObj (put ''passed'' (if truthy p then c else p) (put ''plan_coverage'' coverage (fields_of summary)))"
    unfolding with_coverage_def by (auto simp del: py_key_Inr)
  have "obj_get s ''passed'' = (if truthy p then c else p)" by (simp add: s obj_get_JObj)
  with assms(2) py_key_get [OF p] py_key_get [OF c] show ?thesis by (auto split: if_splits)
qed

lemma summary_passed_bool: "strict_module_summary out skips = Inr s \<Longrightarrow> \<exists>b. obj_get s ''passed'' = JBool b"
  by (auto simp: strict_module_summary_def summary_json_def)

lemma coverage_complete_bool: "compare_plan_coverage infos plan sel = Inr c \<Longrightarrow> \<exists>b. obj_get c ''complete'' = JBool b"
  unfolding compare_Inr coverage_json_def Let_def by auto

text \<open>Complete coverage was compared with a plan the server returned with status 200.\<close>

definition live_coverage :: "'w requester \<Rightarrow> environment \<Rightarrow> export \<Rightarrow> string \<Rightarrow> 'w \<Rightarrow> json \<Rightarrow> bool" where
  "live_coverage request_json env out selection w coverage \<longleftrightarrow>
     (\<exists>infos plan_id headers plan w'. exported_module_info out = Inr infos \<and> live_plan_id infos = Inr plan_id
        \<and> request_json (rstrip_char (CHR ''/'') (env_text_of env ''CONFORMANCE_SERVER'') @ ''/api/plan/'' @ plan_id)
            headers (insecure_mode env) w = (Inr (200, plan), w')
        \<and> compare_plan_coverage infos plan selection = Inr coverage \<and> obj_get coverage ''complete'' = JBool True)"

lemma read_live_plan_OK:
  "read_live_plan request_json env infos w = (Inr plan, w') \<longleftrightarrow>
     (\<exists>plan_id. live_plan_id infos = Inr plan_id
        \<and> validate_absolute_url (JStr (env_text_of env ''CONFORMANCE_SERVER'')) ''CONFORMANCE_SERVER'' = Inr ()
        \<and> request_json (rstrip_char (CHR ''/'') (env_text_of env ''CONFORMANCE_SERVER'') @ ''/api/plan/'' @ plan_id)
            (bearer_headers env) (insecure_mode env) w = (Inr (200, plan), w'))"
  unfolding read_live_plan_def Let_def bindIO_OK by (auto split: if_splits)

lemma official_plan_coverage_live:
  assumes "official_plan_coverage request_json env out selection w = (Inr c, w')" and "truthy (obj_get c ''complete'')"
  shows "live_coverage request_json env out selection w c"
proof -
  from assms(1) consider
      e w1 where "(if is_Exception e then retIO (JObj [(''complete'', JBool False), (''error_class'', JStr (error_class e))])
        else raiseIO e) w1 = (Inr c, w')"
    | infos plan w1 where "exported_module_info out = Inr infos" "read_live_plan request_json env infos w = (Inr plan, w1)"
        "compare_plan_coverage infos plan selection = Inr c"
    unfolding official_plan_coverage_def tryIO_OK bindIO_OK by auto
  then show ?thesis
  proof cases
    case 1
    with assms(2) show ?thesis by (auto split: if_splits)
  next
    case 2
    with coverage_complete_bool [OF 2(3)] assms(2) have "obj_get c ''complete'' = JBool True" by auto
    with 2 show ?thesis unfolding live_coverage_def read_live_plan_OK by blast
  qed
qed

section \<open>The evidence\<close>

definition evidence_written :: "'x tools \<Rightarrow> 'x site \<Rightarrow> int \<Rightarrow> bool" where
  "evidence_written T s n \<longleftrightarrow> (\<exists>evidence. entry_at (tree_of s) ''evidence.json'' = Some (Regular (json_file evidence))
     \<and> obj_get (obj_get evidence ''result'') ''passed'' = JBool (n = 0)
     \<and> obj_get (obj_get evidence ''result'') ''exit_code'' = JInt n)"

lemma local_binding_result:
  assumes "with_local_binding T job (evidence_json job r m c st f sk su n q a) = Inr e"
  shows "obj_get e ''result'' = JObj [(''exit_code'', JInt q), (''process_exit_code'', JInt n), (''passed'', JBool (q = 0))]"
  using assms by (auto simp: with_local_binding_def Let_def evidence_json_def split: if_splits)

lemma write_evidence_OK:
  assumes "write_evidence T job manifest exit_code mode skips s = (Inr n, s')"
  shows "evidence_written T s' n
     \<and> (if n = 0 then exit_code = 0
          \<and> (\<exists>summary coverage plan. strict_module_summary (export_of T s) (JArr skips) = Inr summary
               \<and> obj_get summary ''passed'' = JBool True \<and> test_plan_of manifest (profile_arg job) = Inr plan
               \<and> live_coverage (requester_of T) (run_env job) (export_of T s) plan s coverage)
        else True)"
proof -
  from assms obtain summary plan coverage s1 summary' s2 artifacts rn cm s3 stack failures evidence s4 where
    summary: "strict_module_summary (export_of T s) (JArr skips) = Inr summary"
    and plan: "test_plan_of manifest (profile_arg job) = Inr plan"
    and cov: "official_plan_coverage (requester_of T) (run_env job) (export_of T s) plan s = (Inr coverage, s1)"
    and narrowed: "with_coverage summary coverage = Inr summary'"
    and n: "n = qualify_exit exit_code summary'"
    and ev: "with_local_binding T job (evidence_json job rn mode cm stack failures skips summary' exit_code n artifacts) = Inr evidence"
    and w: "write_json T ''evidence.json'' evidence s4 = (Inr (), s')"
    unfolding write_evidence_def bindIO_OK Let_def by (auto simp del: py_key_Inr)
  have "evidence_written T s' n"
    using w local_binding_result [OF ev]
    by (auto simp: evidence_written_def write_json_OK entry_at_def intro!: exI [of _ evidence])
  moreover have "exit_code = 0 \<and> obj_get summary ''passed'' = JBool True
      \<and> live_coverage (requester_of T) (run_env job) (export_of T s) plan s coverage" if "n = 0"
  proof -
    from that n have "exit_code = 0" "truthy (obj_get summary' ''passed'')"
      by (auto simp: qualify_exit_def split: if_splits)
    with with_coverage_passed [OF narrowed] summary_passed_bool [OF summary] official_plan_coverage_live [OF cov]
    show ?thesis by auto
  qed
  ultimately show ?thesis using summary plan by auto
qed

section \<open>The run\<close>

text \<open>The runner checkout as git reports it in a site: the pinned commit, nothing changed.\<close>

definition runner_clean :: "'x tools \<Rightarrow> json \<Rightarrow> 'x site \<Rightarrow> bool" where
  "runner_clean T manifest s \<longleftrightarrow> (\<exists>head status s1 s2. script_present T s
     \<and> git_of T [''rev-parse'', ''HEAD''] s = (Inr head, s1)
     \<and> obj_get (obj_get manifest ''official_runner'') ''commit'' = JStr (strip head)
     \<and> git_of T [''status'', ''--porcelain=v1'', ''--untracked-files=all''] s1 = (Inr status, s2)
     \<and> splitlines status = [])"

lemma check_runner_OK: "check_runner T job manifest s = (Inr u, s') \<Longrightarrow> runner_clean T manifest s"
proof -
  assume "check_runner T job manifest s = (Inr u, s')"
  then obtain head s1 rn where "script_present T s" "git_of T [''rev-parse'', ''HEAD''] s = (Inr head, s1)"
    "py_key manifest ''official_runner'' = Inr rn" "py_key rn ''commit'' = Inr (JStr (strip head))"
    "\<exists>status s2. git_of T [''status'', ''--porcelain=v1'', ''--untracked-files=all''] s1 = (Inr status, s2) \<and> splitlines status = []"
    unfolding check_runner_def validate_runner_def git_revision_def bindIO_OK
    by (auto simp: bindIO_OK split: if_splits simp del: py_key_Inr)
  then show ?thesis unfolding runner_clean_def by (metis py_key_get)
qed

text \<open>
  Claim C1. Exit code 0 is earned: whenever the command returns, the evidence file is there
  and records that code and its verdict; and 0 is returned only if the set-up and the
  configuration validated, the runner was at its pinned commit and clean both before and
  after the run, runner and hooks ended with 0, the summary that is strict about exactly the
  expected skips applicable to this configuration passed, and the plan of the profile the live
  server returned is covered completely.
\<close>

theorem run_zero_qualified:
  "case cmd_run T job s of
     (Inl e, s') \<Rightarrow> True
   | (Inr n, s') \<Rightarrow> evidence_written T s' n
       \<and> (if n = 0 then
            \<exists>manifest mode entries skips plan summary coverage s1 s2 s3.
              run_setup job = Inr (manifest, mode, entries)
              \<and> validate_config (parse T (config_bytes job)) (profile_arg job) = Inr ()
              \<and> applicable_expected_skips (path_name (config_path job)) entries = Inr skips
              \<and> test_plan_of manifest (profile_arg job) = Inr plan
              \<and> runner_clean T manifest s \<and> runner_clean T manifest s2
              \<and> (case interaction job of None \<Rightarrow> run_plan T (plan_command job plan)
                 | Some script \<Rightarrow> run_interactive T job skips script (plan_command job plan)) s1 = (Inr 0, s2)
              \<and> strict_module_summary (export_of T s3) (JArr skips) = Inr summary
              \<and> obj_get summary ''passed'' = JBool True
              \<and> live_coverage (requester_of T) (run_env job) (export_of T s3) plan s3 coverage
          else True)"
proof (cases "cmd_run T job s")
  case (Pair r s')
  show ?thesis
  proof (cases r)
    case (Inr n)
    with Pair obtain manifest mode entries skips plan exit_code sa s1 s2 sb s3 u1 u2 where
      su: "run_setup job = Inr (manifest, mode, entries)"
      and before: "check_runner T job manifest s = (Inr u1, sa)"
      and config: "validate_config (parse T (config_bytes job)) (profile_arg job) = Inr ()"
      and skips: "applicable_expected_skips (path_name (config_path job)) entries = Inr skips"
      and plan: "test_plan_of manifest (profile_arg job) = Inr plan"
      and run: "(case interaction job of None \<Rightarrow> run_plan T (plan_command job plan)
                 | Some script \<Rightarrow> run_interactive T job skips script (plan_command job plan)) s1 = (Inr exit_code, s2)"
      and after: "check_runner T job manifest s2 = (Inr u2, sb)"
      and evidence: "write_evidence T job manifest exit_code mode skips s3 = (Inr n, s')"
      unfolding cmd_run_def bindIO_OK by (auto simp: bindIO_OK)
    from write_evidence_OK [OF evidence] have written: "evidence_written T s' n"
      and zero: "n = 0 \<Longrightarrow> exit_code = 0 \<and> (\<exists>summary coverage plan.
            strict_module_summary (export_of T s3) (JArr skips) = Inr summary
               \<and> obj_get summary ''passed'' = JBool True \<and> test_plan_of manifest (profile_arg job) = Inr plan
               \<and> live_coverage (requester_of T) (run_env job) (export_of T s3) plan s3 coverage)"
      by (auto split: if_splits)
    show ?thesis
    proof (cases "n = 0")
      case True
      from zero [OF this] plan obtain summary coverage where "exit_code = 0"
        "strict_module_summary (export_of T s3) (JArr skips) = Inr summary" "obj_get summary ''passed'' = JBool True"
        "live_coverage (requester_of T) (run_env job) (export_of T s3) plan s3 coverage" by auto
      with True su config skips plan run check_runner_OK [OF before] check_runner_OK [OF after] written Pair Inr
      show ?thesis by simp blast
    next
      case False
      with written Pair Inr show ?thesis by simp
    qed
  qed (use Pair in simp)
qed

section \<open>Hooks\<close>

text \<open>
  The reference, by position: what follows the first occurrence of a marker with at least one
  character of a class behind it, as far as the class goes; the name last announced before a
  line; and the commands a line makes start, written out.
\<close>

definition following :: "string \<Rightarrow> (char \<Rightarrow> bool) \<Rightarrow> string \<Rightarrow> string option" where
  "following marker P line = map_option (\<lambda>s. takeWhile P (drop (length marker) s))
     (find (\<lambda>s. startswith s marker \<and> takeWhile P (drop (length marker) s) \<noteq> []) (rev (suffixes line)))"

definition running_name :: "string \<Rightarrow> string option" where
  "running_name line = map_option strip (following ''Running test module: '' (\<lambda>c. c \<noteq> newline) line)"
definition created_id :: "string \<Rightarrow> string option" where
  "created_id line = following ''Created test module, new id: '' is_alnum line"

definition name_at :: "string \<Rightarrow> string list \<Rightarrow> nat \<Rightarrow> string" where
  "name_at current lines i = last (current # List.map_filter running_name (take i lines))"

definition interaction_command :: "invocation \<Rightarrow> string \<Rightarrow> string \<Rightarrow> string \<Rightarrow> string list" where
  "interaction_command job script i name =
     [python job, script, ''--test-id'', i, ''--test-name'', name,
      ''--server'', env_text_of (run_env job) ''CONFORMANCE_SERVER'']"

definition started_by :: "invocation \<Rightarrow> json list \<Rightarrow> string \<Rightarrow> string \<Rightarrow> string list \<Rightarrow> nat \<Rightarrow> string list list" where
  "started_by job skips script current lines i = (case created_id (lines ! i) of
     None \<Rightarrow> []
   | Some new \<Rightarrow>
       if running_name (lines ! i) \<noteq> None
          \<or> list_ex (\<lambda>e. obj_get e ''test-name'' = JStr (name_at current lines i)) skips then []
       else interaction_command job script new (name_at current lines i)
         # (case browser_interaction job of None \<Rightarrow> []
            | Some browser \<Rightarrow> [interaction_command job browser new (name_at current lines i)]))"

text \<open>A greedy run of a class takes what \<open>takeWhile\<close> takes.\<close>

lemma rep_class_first:
  "length s \<le> n \<Longrightarrow>
     if m \<le> length (takeWhile P s)
     then \<exists>sts. rep_match (rmatch (Cls P)) m n (p, s, g) = (last_or p (takeWhile P s), dropWhile P s, g) # sts
     else rep_match (rmatch (Cls P)) m n (p, s, g) = []"
proof (induction n arbitrary: m p s)
  case (Suc n)
  show ?case
  proof (cases s)
    case (Cons c cs)
    with Suc.prems have "length cs \<le> n" by simp
    from Suc.IH [OF this, of "m - 1" "Some c"] Cons show ?thesis
      by (cases "P c") (auto split: if_splits)
  qed simp
qed simp

lemma marked_match:
  "map_option (\<lambda>m. group m n) (case rmatch (Seq (Lit marker) (Grp n (Many 1 (Cls P)))) (p, s, []) of [] \<Rightarrow> None | st # sts \<Rightarrow> Some st)
     = (if startswith s marker \<and> takeWhile P (drop (length marker) s) \<noteq> [] then Some (takeWhile P (drop (length marker) s)) else None)"
proof -
  let ?t = "drop (length marker) s"
  have "take (length ?t - length (dropWhile P ?t)) ?t = takeWhile P ?t"
    by (metis append_eq_conv_conj diff_add_inverse2 length_append takeWhile_dropWhile_id)
  moreover have "1 \<le> length (takeWhile P ?t) \<longleftrightarrow> takeWhile P ?t \<noteq> []" by (cases "takeWhile P ?t") auto
  ultimately show ?thesis
    using rep_class_first [of ?t "length ?t" 1 P "last_or p marker" "[]"]
    by (auto simp: group_def split: if_splits)
qed

lemma search_following:
  "map_option (\<lambda>m. group m n) (search (Seq (Lit marker) (Grp n (Many 1 (Cls P)))) line) = following marker P line"
proof -
  have "map_option (\<lambda>m. group m n) (search_from (Seq (Lit marker) (Grp n (Many 1 (Cls P)))) p line) = following marker P line" for p
  proof (induction line arbitrary: p)
    case Nil
    show ?case using marked_match [of n marker P p "[]"] by (simp add: following_def del: rmatch.simps)
  next
    case (Cons c cs)
    from marked_match [of n marker P p "c # cs"] Cons.IH [of "Some c"] show ?case
      by (auto simp: following_def simp del: rmatch.simps split: list.splits if_splits)
  qed
  then show ?thesis unfolding search_def .
qed

lemma line_search:
  "running_name line = map_option (\<lambda>m. strip (group m ''1'')) (search running_rx line)"
  "created_id line = map_option (\<lambda>m. group m ''1'') (search created_rx line)"
  unfolding running_name_def created_id_def running_rx_def created_rx_def search_following [of "''1''", symmetric]
  by (simp_all add: option.map_comp comp_def)

lemma bindIO_units [simp]:
  "bindIO (Pair (Inr x)) f = f x"
  "bindIO m (\<lambda>x. Pair (Inr x)) = m"
  by (auto simp: bindIO_def fun_eq_iff split: prod.split sum.split)

lemma spawn_all_append:
  "spawn_all T (a @ b) = bindIO (spawn_all T a) (\<lambda>x. bindIO (spawn_all T b) (\<lambda>y. retIO (x @ y)))"
  by (induction a) (simp_all add: bindIO_assoc)

lemma name_at_Cons: "name_at current (line # lines) (Suc i)
    = name_at (case running_name line of None \<Rightarrow> current | Some n \<Rightarrow> n) lines i"
  by (cases "running_name line") (simp_all add: name_at_def List.map_filter_def)

lemma started_by_Suc: "started_by job skips script current (line # lines) (Suc i)
    = started_by job skips script (case running_name line of None \<Rightarrow> current | Some n \<Rightarrow> n) lines i"
  unfolding started_by_def name_at_Cons nth_Cons_Suc ..

lemma started_by_Cons:
  "concat (map (started_by job skips script current (line # lines)) [0..<length (line # lines)])
     = started_by job skips script current (line # lines) 0
       @ concat (map (started_by job skips script (case running_name line of None \<Rightarrow> current | Some n \<Rightarrow> n) lines) [0..<length lines])"
proof -
  have "[0..<length (line # lines)] = 0 # map Suc [0..<length lines]"
    by (simp only: list.size(4) add_Suc_right add_0_right map_Suc_upt upt_conv_Cons zero_less_Suc)
  then show ?thesis by (simp add: comp_def started_by_Suc)
qed

text \<open>
  Claim C22. Hooks follow the announcements: reading the runner's output starts, line by line,
  for a line that announces a module as created under an id (and does not announce one as
  running) the product hook and, where one is given, the browser hook, each with that id, the
  name last announced as running, stripped, and the configured server; none for a name with an
  expected skip; and nothing else. The announcements are read off the line by the text behind
  the two markers.
\<close>

theorem hooks_follow_announcements:
  "read_lines T job skips script current hooks lines
     = bindIO (spawn_all T (concat (map (started_by job skips script current lines) [0..<length lines])))
         (\<lambda>hs. retIO (hooks @ hs))"
proof (induction lines arbitrary: current hooks)
  case (Cons line lines)
  have here: "started_by job skips script current (line # lines) 0 = (case search created_rx line of
      None \<Rightarrow> []
    | Some m \<Rightarrow> if search running_rx line \<noteq> None \<or> \<not> requires_interaction_hook current skips then []
        else hook_commands job script (current, group m ''1''))"
    by (cases "search created_rx line"; cases "search running_rx line"; cases "browser_interaction job")
      (simp_all add: started_by_def line_search name_at_def List.map_filter_def requires_interaction_hook_def
        hook_commands_def hook_command_def interaction_command_def)
  show ?case unfolding started_by_Cons here line_search
    by (cases "search running_rx line"; cases "search created_rx line")
      (simp_all add: Cons.IH spawn_all_append bindIO_assoc)
qed (simp add: fun_eq_iff)

section \<open>Finalisation\<close>

lemma artifact_rows_OK:
  "foldE artifact_step rows es = Inr rows' \<Longrightarrow> (p, d) \<in> set rows' \<Longrightarrow>
     (p, d) \<in> set rows \<or> (\<exists>b. (p, Regular b) \<in> set es \<and> d = file_sha256 b \<and> p \<noteq> ''evidence.json'')"
proof (induction es arbitrary: rows)
  case (Cons x es)
  obtain q e where x: "x = (q, e)" by (cases x)
  from Cons.prems(1) obtain rows1 where step: "artifact_step rows x = Inr rows1" and rest: "foldE artifact_step rows1 es = Inr rows'"
    by auto
  from Cons.IH [OF rest Cons.prems(2)] step x show ?case
    by (cases e) (auto simp: artifact_step_def split: if_splits)
qed simp

lemma inventory_rows:
  assumes "artifact_inventory linked t = Inr rows" and "map_of (as_dict rows) p = Some d"
  shows "\<exists>b. (p, Regular b) \<in> set t \<and> d = file_sha256 b \<and> p \<noteq> ''evidence.json''"
proof -
  have dict: "set (fold (\<lambda>(k, v). put k v) kvs acc) \<subseteq> set kvs \<union> set acc" for kvs acc :: "(string \<times> string) list"
    by (induction kvs arbitrary: acc) (auto dest!: set_mp [OF set_put_subset] split: prod.splits)
  from assms(2) have "(p, d) \<in> set rows" using dict [of rows "[]"] by (auto simp: as_dict_def dest: map_of_SomeD)
  moreover from assms(1) have "foldE artifact_step [] (sort_key (\<lambda>(p, e). split_on (CHR ''/'') p) t) = Inr rows"
    by (auto simp: artifact_inventory_def split: if_splits)
  ultimately show ?thesis using artifact_rows_OK by fastforce
qed

lemma remove_put_fresh: "p \<notin> fst ` set t \<Longrightarrow> remove_at p (put p e t) = t"
  by (induction p e t rule: put.induct) (auto simp: remove_at_def filter_id_conv)

lemma remove_fresh: "p \<notin> fst ` set t \<Longrightarrow> remove_at p t = t"
  by (force simp: remove_at_def filter_id_conv)

lemma put_put [simp]: "put p a (put p b t) = put p a t"
  by (induction p b t rule: put.induct) auto

lemma replace_evidence_result:
  assumes "''evidence.json'' \<in> fst ` set t"
  shows "case replace_evidence fault tmp content t of
    (Inl e, t') \<Rightarrow> t' = t | (Inr u, t') \<Rightarrow> t' = put ''evidence.json'' (Regular content) t"
proof (cases "tmp \<in> fst ` set t")
  case True
  then show ?thesis by (simp add: replace_evidence_def)
next
  case False
  with assms have "tmp \<noteq> ''evidence.json''" by auto
  with False have "tmp \<notin> fst ` set (put ''evidence.json'' (Regular content) t)" by simp
  with False show ?thesis
    by (simp add: replace_evidence_def Let_def remove_put_fresh remove_fresh del: keys_put)
qed

text \<open>
  Finalisation only extends the inventory: if it raises, the output directory is
  as it was, wherever the host failed; if it returns, the evidence file alone has changed,
  every field but the inventory is the recorded one, and each artifact listed before still
  has its recorded digest.
\<close>

theorem finalize_only_inventory:
  "case finalize_evidence_artifacts loads fault tmp linked t of
     (Inl e, t') \<Rightarrow> t' = t
   | (Inr evidence, t') \<Rightarrow> \<exists>old original rows. read_evidence loads t = Inr old
       \<and> original_inventory old = Inr original \<and> artifact_inventory linked t = Inr rows
       \<and> t' = put ''evidence.json'' (Regular (json_file evidence)) t
       \<and> (\<forall>k. obj_get evidence k = (if k = ''artifacts'' then artifact_rows rows else obj_get old k))
       \<and> list_all (\<lambda>(p, d). \<exists>b. (p, Regular b) \<in> set t \<and> d = file_sha256 b \<and> p \<noteq> ''evidence.json'') original"
proof (cases "finalized_evidence loads linked t")
  case (Inl e)
  then show ?thesis by (simp add: finalize_evidence_artifacts_def)
next
  case (Inr ev)
  then obtain old original rows where old: "read_evidence loads t = Inr old"
    and original: "original_inventory old = Inr original" and rows: "artifact_inventory linked t = Inr rows"
    and d: "distinct (map fst original)" and same: "\<not> list_ex (\<lambda>(p, d). map_of (as_dict rows) p \<noteq> Some d) (as_dict original)"
    and ev: "ev = with_artifacts old rows"
    unfolding finalized_evidence_def by (auto split: if_splits)
  from old have ev_json: "''evidence.json'' \<in> fst ` set t" and dict: "is_dict old"
    by (auto simp: read_evidence_def entry_at_def image_iff simp del: json_tests
        split: option.splits entry.splits if_splits dest!: map_of_SomeD) force+
  have keep: "set (fold (\<lambda>(k, v). put k v) kvs acc) = set acc \<union> set kvs"
    if "distinct (map fst acc @ map fst kvs)" for kvs acc :: "(string \<times> string) list"
    using that
  proof (induction kvs arbitrary: acc)
    case (Cons kv kvs)
    obtain k v where kv: "kv = (k, v)" by (cases kv)
    from Cons.prems kv have "put k v acc = acc @ [(k, v)]"
      by (auto intro!: put_fresh)
    with Cons kv show ?case by auto
  qed simp
  from d keep [of "[]" original] have "set (as_dict original) = set original" by (simp add: as_dict_def)
  with same have "list_all (\<lambda>(p, d). map_of (as_dict rows) p = Some d) original"
    by (auto simp: list_ex_iff list_all_iff)
  then have "list_all (\<lambda>(p, d). \<exists>b. (p, Regular b) \<in> set t \<and> d = file_sha256 b \<and> p \<noteq> ''evidence.json'') original"
    using inventory_rows [OF rows] by (fastforce simp: list_all_iff)
  moreover have "obj_get ev k = (if k = ''artifacts'' then artifact_rows rows else obj_get old k)" for k
    using dict by (auto simp: ev with_artifacts_def obj_get_JObj)
  ultimately show ?thesis
    using Inr old original rows replace_evidence_result [OF ev_json, where fault = fault and tmp = tmp and content = "json_file ev"]
    by (auto simp: finalize_evidence_artifacts_def split: prod.splits sum.splits)
qed

end
