(* ===== verification/Py_Regex_Lang.thy ===== *)
theory Py_Regex_Lang
  imports Py_Regex
begin

text \<open>
  What the backtracking matcher accepts, without its search order: for patterns without anchors,
  groups and case folding, a full match is membership in the language of the pattern.
\<close>

fun lang_pow :: "(string \<Rightarrow> bool) \<Rightarrow> nat \<Rightarrow> string \<Rightarrow> bool" where
  "lang_pow L 0 s = (s = [])"
| "lang_pow L (Suc k) s = (\<exists>a b. s = a @ b \<and> L a \<and> lang_pow L k b)"

fun lang :: "rx \<Rightarrow> string \<Rightarrow> bool" where
  "lang (Lit l) s = (s = l)"
| "lang (Cls P) s = (\<exists>c. s = [c] \<and> P c)"
| "lang (Seq a b) s = (\<exists>s1 s2. s = s1 @ s2 \<and> lang a s1 \<and> lang b s2)"
| "lang (Alt a b) s = (lang a s \<or> lang b s)"
| "lang (Rep m n r) s = (\<exists>k\<in>{m..n}. lang_pow (lang r) k s)"
| "lang (Many m r) s = (\<exists>k\<ge>m. lang_pow (lang r) k s)"
| "lang _ s = False"

fun plain :: "rx \<Rightarrow> bool" where
  "plain (Lit l) = True"
| "plain (Cls P) = True"
| "plain (Seq a b) = (plain a \<and> plain b)"
| "plain (Alt a b) = (plain a \<and> plain b)"
| "plain (Rep m n r) = plain r"
| "plain (Many m (Cls P)) = True"
| "plain _ = False"

lemma last_or_append [simp]: "last_or p (a @ b) = last_or (last_or p a) b"
  by (induction p a rule: last_or.induct) auto

text \<open>The positions a pattern can end at are those behind a word of its language.\<close>

definition ends_lang :: "(string \<Rightarrow> bool) \<Rightarrow> (pos \<Rightarrow> pos list) \<Rightarrow> bool" where
  "ends_lang L f \<longleftrightarrow> (\<forall>p s g. set (f (p, s, g)) = {(last_or p w, s', g) |w s'. s = w @ s' \<and> L w})"

lemma ends_langD: "ends_lang L f \<Longrightarrow> set (f (p, s, g)) = {(last_or p w, s', g) |w s'. s = w @ s' \<and> L w}"
  by (simp add: ends_lang_def)

lemma ends_lang_concat:
  assumes "ends_lang L f" and "ends_lang M h"
  shows "ends_lang (\<lambda>s. \<exists>a b. s = a @ b \<and> L a \<and> M b) (\<lambda>st. concat (map h (f st)))"
  unfolding ends_lang_def
proof (intro allI set_eqI)
  fix p s g x
  have "x \<in> set (concat (map h (f (p, s, g)))) \<longleftrightarrow> (\<exists>y\<in>set (f (p, s, g)). x \<in> set (h y))" by simp
  also have "\<dots> \<longleftrightarrow> (\<exists>a s1. s = a @ s1 \<and> L a \<and> x \<in> set (h (last_or p a, s1, g)))"
    unfolding ends_langD [OF assms(1)] by blast
  also have "\<dots> \<longleftrightarrow> (\<exists>a b s2. s = a @ b @ s2 \<and> L a \<and> M b \<and> x = (last_or p (a @ b), s2, g))"
    unfolding ends_langD [OF assms(2)] by auto
  also have "\<dots> \<longleftrightarrow> x \<in> {(last_or p w, s', g) |w s'. s = w @ s' \<and> (\<exists>a b. w = a @ b \<and> L a \<and> M b)}"
    by (auto; metis append.assoc last_or_append)
  finally show "x \<in> set (concat (map h (f (p, s, g)))) \<longleftrightarrow> \<dots>" .
qed

lemma ends_lang_rep:
  assumes "ends_lang L f"
  shows "ends_lang (\<lambda>s. \<exists>k\<in>{m..n}. lang_pow L k s) (rep_match f m n)"
proof (induction n arbitrary: m)
  case 0
  show ?case by (auto simp: ends_lang_def)
next
  case (Suc n)
  have step: "(\<exists>k\<in>{m..Suc n}. lang_pow L k s) \<longleftrightarrow>
      (\<exists>a b. s = a @ b \<and> L a \<and> (\<exists>k\<in>{m - 1..n}. lang_pow L k b)) \<or> m = 0 \<and> s = []" for s
  proof
    assume "\<exists>k\<in>{m..Suc n}. lang_pow L k s"
    then obtain k where "m \<le> k" "k \<le> Suc n" "lang_pow L k s" by auto
    then show "(\<exists>a b. s = a @ b \<and> L a \<and> (\<exists>k\<in>{m - 1..n}. lang_pow L k b)) \<or> m = 0 \<and> s = []"
    proof (cases k)
      case (Suc j)
      with \<open>lang_pow L k s\<close> obtain a b where "s = a @ b" "L a" "lang_pow L j b" by auto
      moreover have "j \<in> {m - 1..n}" using Suc \<open>m \<le> k\<close> \<open>k \<le> Suc n\<close> by auto
      ultimately show ?thesis by blast
    qed auto
  next
    assume "(\<exists>a b. s = a @ b \<and> L a \<and> (\<exists>k\<in>{m - 1..n}. lang_pow L k b)) \<or> m = 0 \<and> s = []"
    then show "\<exists>k\<in>{m..Suc n}. lang_pow L k s"
    proof
      assume "\<exists>a b. s = a @ b \<and> L a \<and> (\<exists>k\<in>{m - 1..n}. lang_pow L k b)"
      then obtain a b k where "s = a @ b" "L a" "m - 1 \<le> k" "k \<le> n" "lang_pow L k b" by auto
      then have "lang_pow L (Suc k) s" "Suc k \<in> {m..Suc n}" by auto
      then show ?thesis by blast
    qed (rule bexI [of _ 0], auto)
  qed
  have "ends_lang (\<lambda>s. \<exists>a b. s = a @ b \<and> L a \<and> (\<exists>k\<in>{m - 1..n}. lang_pow L k b))
      (\<lambda>st. concat (map (rep_match f (m - 1) n) (f st)))"
    by (rule ends_lang_concat [OF assms Suc.IH])
  then show ?case unfolding ends_lang_def step by (auto split: if_splits) 
qed

text \<open>Characters one by one: the fuel, the length of the text, is enough.\<close>

lemma lang_pow_class: "lang_pow (lang (Cls P)) k s \<Longrightarrow> length s = k"
  by (induction k arbitrary: s) auto

lemma ends_lang_rmatch: "plain r \<Longrightarrow> ends_lang (lang r) (rmatch r)"
proof (induction r rule: plain.induct)
  case (1 l)
  show ?case by (auto simp: ends_lang_def startswith_iff)
next
  case (2 P)
  show ?case by (auto simp: ends_lang_def split: list.splits)
next
  case (3 a b)
  then show ?case using ends_lang_concat [of "lang a" "rmatch a" "lang b" "rmatch b"] by (simp add: ends_lang_def)
next
  case (4 a b)
  then show ?case by (auto simp: ends_lang_def)
next
  case (5 m n r)
  then show ?case using ends_lang_rep [of "lang r" "rmatch r" m n] by (simp add: ends_lang_def)
next
  case (6 m P)
  have "ends_lang (lang (Cls P)) (rmatch (Cls P))" by (auto simp: ends_lang_def split: list.splits)
  from ends_lang_rep [OF this] have r: "ends_lang (\<lambda>s. \<exists>k\<in>{m..n}. lang_pow (lang (Cls P)) k s) (rep_match (rmatch (Cls P)) m n)" for n .
  show ?case unfolding ends_lang_def
  proof (intro allI)
    fix p s g
    have "set (rmatch (Many m (Cls P)) (p, s, g))
        = {(last_or p w, s', g) |w s'. s = w @ s' \<and> (\<exists>k\<in>{m..length s}. lang_pow (lang (Cls P)) k w)}"
      using ends_langD [OF r] by simp
    also have "\<dots> = {(last_or p w, s', g) |w s'. s = w @ s' \<and> lang (Many m (Cls P)) w}"
    proof -
      have "k \<le> length s" if "s = w @ s'" "lang_pow (lang (Cls P)) k w" for k w s'
        using lang_pow_class [OF that(2)] that(1) by simp
      then have "s = w @ s' \<and> (\<exists>k\<in>{m..length s}. lang_pow (lang (Cls P)) k w)
          \<longleftrightarrow> s = w @ s' \<and> lang (Many m (Cls P)) w" for w s' by (auto simp del: lang.simps(2))
      then show ?thesis by presburger
    qed
    finally show "set (rmatch (Many m (Cls P)) (p, s, g)) = \<dots>" .
  qed
qed auto

theorem fullmatch_lang: "plain r \<Longrightarrow> fullmatch r s \<longleftrightarrow> lang r s"
  using ends_langD [OF ends_lang_rmatch, of r None s "[]"]
  by (auto simp: fullmatch_def list_ex_iff)

section \<open>Pieces\<close>

lemma lang_pow_Cls: "lang_pow (lang (Cls P)) k s \<longleftrightarrow> length s = k \<and> list_all P s"
proof (induction k arbitrary: s)
  case (Suc k)
  have "lang_pow (lang (Cls P)) (Suc k) s \<longleftrightarrow> (\<exists>c b. s = c # b \<and> P c \<and> lang_pow (lang (Cls P)) k b)"
    by (auto simp: append_eq_Cons_conv) (metis append_Cons append_Nil)
  also have "\<dots> \<longleftrightarrow> length s = Suc k \<and> list_all P s"
    unfolding Suc.IH by (cases s) auto
  finally show ?case .
qed auto

lemma lang_Many_Cls: "lang (Many m (Cls P)) s \<longleftrightarrow> m \<le> length s \<and> list_all P s"
  by (auto simp: lang_pow_Cls simp del: lang.simps(2))

lemma lang_Rep_Cls: "lang (Rep m n (Cls P)) s \<longleftrightarrow> m \<le> length s \<and> length s \<le> n \<and> list_all P s"
  by (auto simp: lang_pow_Cls simp del: lang.simps(2))

lemma lang_Lit_Seq: "lang (Seq (Lit l) r) s \<longleftrightarrow> (\<exists>t. s = l @ t \<and> lang r t)"
  by simp

lemma lang_Cls_Seq: "lang (Seq (Cls P) r) s \<longleftrightarrow> (\<exists>c t. s = c # t \<and> P c \<and> lang r t)"
  by (auto simp: append_eq_Cons_conv) (metis append_Cons append_Nil)

lemma lang_opt: "lang (opt r) s \<longleftrightarrow> s = [] \<or> lang r s"
proof -
  have "{0..1} = {0, Suc 0}" by auto
  then show ?thesis by (auto simp: opt_def)
qed

end
