(* ===== verification/Conformance_Diagnostics_Props.thy ===== *)
theory Conformance_Diagnostics_Props
  imports Conformance_Diagnostics Py_Regex_Lang
begin

text \<open>
  The walk over a log with an explicit stack ends on every value and finds what a recursive
  reading finds; each published diagnostic is traced to its entry of the log, field by field.
\<close>

section \<open>The walk\<close>

fun nodes :: "json \<Rightarrow> nat" where
  "nodes (JObj kvs) = Suc (sum_list (map (\<lambda>(k, v). nodes v) kvs))"
| "nodes (JArr xs) = Suc (sum_list (map nodes xs))"
| "nodes _ = 1"

text \<open>The reference: the error descriptions anywhere inside a value.\<close>

fun descriptions :: "json \<Rightarrow> string list" where
  "descriptions (JObj kvs) = concat (map (\<lambda>(k, v).
     (if k = ''error_description'' \<and> is_str v then [str_of v] else []) @ descriptions v) kvs)"
| "descriptions (JArr xs) = concat (map descriptions xs)"
| "descriptions _ = []"

definition categories_in :: "json \<Rightarrow> string set" where
  "categories_in v = {c. \<exists>d\<in>set (descriptions v). error_category d = Some c}"

lemma nodes_fields: "sum_list (map (\<lambda>(k, v). nodes v) kvs) = sum_list (map nodes (map snd kvs))"
  by (induction kvs) auto

lemma walk_step_nodes:
  "stack \<noteq> [] \<Longrightarrow> sum_list (map nodes (fst (walk_step (stack, cs)))) < sum_list (map nodes stack)"
proof (cases stack)
  case (Cons v rest)
  have "sum_list (map nodes (rev xs)) = sum_list (map nodes xs)" for xs
    by (induction xs) auto
  with Cons show ?thesis by (cases v) (auto simp: nodes_fields)
qed simp

lemma set_add_new [simp]: "set (add_new x xs) = insert x (set xs)" "distinct (add_new x xs) = distinct xs"
  by (auto simp: add_new_def)

lemma add_category_set: "set (add_category kv cs) = set cs \<union> {c. field_category kv = Some c}"
  "distinct (add_category kv cs) = distinct cs"
  by (auto simp: add_category_def split: option.splits)

lemma fold_add_category: "set (fold add_category kvs cs) = set cs \<union> {c. \<exists>kv\<in>set kvs. field_category kv = Some c}"
  "distinct (fold add_category kvs cs) = distinct cs"
  by (induction kvs arbitrary: cs) (auto simp: add_category_set)

lemma categories_JObj:
  "categories_in (JObj kvs) = {c. \<exists>kv\<in>set kvs. field_category kv = Some c} \<union> (\<Union>kv\<in>set kvs. categories_in (snd kv))"
  by (auto simp: categories_in_def field_category_def split: if_splits simp del: json_tests) (force simp del: json_tests)+

lemma categories_JArr: "categories_in (JArr xs) = (\<Union>x\<in>set xs. categories_in x)"
  by (auto simp: categories_in_def)

lemma categories_atom: "\<not> is_dict v \<Longrightarrow> \<not> is_list v \<Longrightarrow> categories_in v = {}"
  by (cases v) (auto simp: categories_in_def)

definition found_by :: "json list \<times> string list \<Rightarrow> string set" where
  "found_by s = set (snd s) \<union> (\<Union>v\<in>set (fst s). categories_in v)"

lemma walk_step_found: "found_by (walk_step s) = found_by s \<and> distinct (snd (walk_step s)) = distinct (snd s)"
  by (cases s rule: walk_step.cases)
    (auto simp: found_by_def fold_add_category categories_JObj categories_JArr categories_atom)

lemma walk_terminates_set: "\<exists>cs. walk v = Some ([], cs) \<and> distinct cs \<and> set cs = categories_in v"
proof -
  let ?b = "\<lambda>(stack, cs). stack \<noteq> []"
  have "\<exists>t. walk v = Some t"
    unfolding walk_def
    by (rule measure_while_option_Some [where P = "\<lambda>_. True" and f = "\<lambda>s. sum_list (map nodes (fst s))"])
      (auto simp: walk_step_nodes)
  then obtain stack cs where t: "walk v = Some (stack, cs)" by (metis surj_pair)
  from while_option_stop [OF t [unfolded walk_def]] have "stack = []" by simp
  moreover have "found_by (stack, cs) = found_by ([v], []) \<and> distinct (snd (stack, cs))"
    by (rule while_option_rule [OF _ t [unfolded walk_def]]) (use walk_step_found in auto)
  ultimately show ?thesis using t by (auto simp: found_by_def)
qed

text \<open>
  Claim C20. The walk over a result log ends: whatever the value, its loop empties the stack,
  and the categories it has collected are exactly those of the error descriptions anywhere
  inside the value, each once.
\<close>

theorem walk_terminates:
  "\<exists>cs. walk v = Some ([], cs) \<and> distinct cs
     \<and> set cs = {c. \<exists>d\<in>set (descriptions v). error_category d = Some c}"
  using walk_terminates_set [of v] unfolding categories_in_def .


section \<open>Details\<close>


definition code_word :: "string \<Rightarrow> bool" where
  "code_word s = (1 \<le> length s \<and> length s \<le> 80 \<and> list_all (\<lambda>c. is_lower c \<or> is_digit c \<or> c = CHR ''_'') s)"

definition detail_allowed :: "string \<times> json \<Rightarrow> bool" where
  "detail_allowed kv = (case kv of
     (k, JInt n) \<Rightarrow> k = ''http_status'' \<or> k = ''expected_status_codes''
   | (k, JBool b) \<Rightarrow> k = ''http_status'' \<or> k = ''expected_status_codes''
   | (k, JArr xs) \<Rightarrow> (k = ''http_status'' \<or> k = ''expected_status_codes'')
       \<and> (\<forall>x\<in>set xs. (\<exists>n. x = JInt n) \<or> (\<exists>b. x = JBool b))
   | (k, JStr s) \<Rightarrow> (k = ''error'' \<or> k = ''expected_error'') \<and> code_word s
   | _ \<Rightarrow> False)"


text \<open>What is collected occurs inside the value and is allowed; each allowed key that occurs is collected, once.\<close>

definition collected_from :: "(string \<times> json) list \<Rightarrow> (string \<times> json) list \<Rightarrow> bool" where
  "collected_from occ ds \<longleftrightarrow> distinct (map fst ds) \<and> set ds \<subseteq> {kv \<in> set occ. detail_allowed kv}
     \<and> fst ` set ds = fst ` {kv \<in> set occ. detail_allowed kv}"

lemma collected_Nil [simp]: "collected_from [] []"
  by (simp add: collected_from_def)








section \<open>Failure diagnostics\<close>














section \<open>The publication traced\<close>





lemma map_of_merge_absent: "k \<notin> fst ` set b \<Longrightarrow> map_of (merge a b) k = map_of a k"
  unfolding merge_def by (induction b arbitrary: a) (auto split: prod.splits)


lemma only_category: "distinct cs \<Longrightarrow> (if length cs = 1 then Some (hd cs) else None) = Some c \<longleftrightarrow> set cs = {c}"
  by (cases cs) (auto simp: neq_Nil_conv length_Suc_conv)










text \<open>
  The block name is the free text of the log's start-of-block entry, copied as it is; so is
  the condition. What the module's comment calls identifiers is not restricted to any alphabet.
\<close>

lemma block_text_published:
  "failure_diagnostics_of order (JObj
     [(''testInfo'', JObj [(''testName'', JStr ''m'')]),
      (''results'', JArr
        [JObj [(''startBlock'', JBool True), (''src'', JStr ''-START-BLOCK-''), (''blockId'', JStr ''b''),
               (''msg'', JStr ''Bearer secret for https://host/'')],
         JObj [(''result'', JStr ''FAILURE''), (''src'', JStr ''c''), (''blockId'', JStr ''b'')]])])
   = [JObj [(''module'', JStr ''m''), (''condition'', JStr ''c''), (''block'', JStr ''Bearer secret for https://host/'')]]"
  by code_simp

section \<open>Browser diagnostics\<close>

lemma per_document_all:
  assumes "per_document f out = Inr ds" and "\<And>raw rs. f raw = Inr rs \<Longrightarrow> list_all P rs"
  shows "list_all P ds"
proof -
  from assms(1) obtain dsss where
    run: "mapE (\<lambda>(n, opened). bindE opened (\<lambda>ms. mapE (\<lambda>(nm, content). bindE content f)
      (filter (\<lambda>(nm, content). endswith nm ''.json'') (sort_key fst ms)))) (archives out) = Inr dsss"
    and ds: "ds = concat (concat dsss)" by (auto simp: per_document_def)
  have "list_all P rs" if dss: "dss \<in> set dsss" and rs: "rs \<in> set dss" for dss rs
  proof -
    from mapE_set_result [OF run dss] obtain ms where
      "mapE (\<lambda>(nm, content). bindE content f) (filter (\<lambda>(nm, content). endswith nm ''.json'') (sort_key fst ms)) = Inr dss"
      by auto
    from mapE_set_result [OF this rs] obtain nm content where "bindE content f = Inr rs" by auto
    then show ?thesis by (auto intro: assms(2))
  qed
  with ds show ?thesis by (force simp: list_all_iff)
qed

definition browser_event_names :: "string set" where
  "browser_event_names = set (map snd browser_automation_messages)
     \<union> {''browser-runner-failure'', ''automation-not-observed'', ''unclassified-browser-event''}"

definition browser_diagnostic_ok :: "json \<Rightarrow> bool" where
  "browser_diagnostic_ok d = (\<exists>m es rest. d = JObj ([(''module'', JStr m), (''events'', JArr (map JStr es))] @ rest)
     \<and> fullmatch safe_module m \<and> es \<noteq> [] \<and> sorted es \<and> distinct es \<and> set es \<subseteq> browser_event_names
     \<and> list_all (\<lambda>(k, v). (k = ''status'' \<and> in_strings v safe_module_states)
          \<or> (k = ''result'' \<and> in_strings v safe_module_results)) rest)"

lemma browser_entry_categories_ok:
  "set cs \<subseteq> browser_event_names \<and> distinct cs \<Longrightarrow>
     set (browser_entry_categories e cs) \<subseteq> browser_event_names \<and> distinct (browser_entry_categories e cs)"
  by (cases "obj_get e ''msg''")
    (auto simp: browser_entry_categories_def Let_def browser_event_names_def split: option.split dest!: map_of_SomeD, force+)

lemma browser_events_ok:
  "browser_events es \<noteq> [] \<and> sorted (browser_events es) \<and> distinct (browser_events es)
     \<and> set (browser_events es) \<subseteq> browser_event_names"
proof -
  have "set (fold browser_entry_categories es cs) \<subseteq> browser_event_names \<and> distinct (fold browser_entry_categories es cs)"
    if "set cs \<subseteq> browser_event_names \<and> distinct cs" for cs
    using that by (induction es arbitrary: cs) (simp_all add: browser_entry_categories_ok)
  from this [of "[]"] show ?thesis
    by (auto simp: browser_events_def Let_def browser_event_names_def) (metis set_empty2 set_sort)+
qed

lemma listed_field_Inr: "listed_field k v allowed = Inr kvs \<Longrightarrow> list_all (\<lambda>(k', w). k' = k \<and> in_strings w allowed) kvs"
  by (auto simp: listed_field_def hash_in_def split: if_splits)

text \<open>
  The browser diagnostics copy nothing from the log: each names a module of the
  safe alphabet, a sorted non-empty list of the fixed event categories, and at most a state
  and a result of the fixed lists.
\<close>

theorem browser_diagnostics_closed:
  "case browser_diagnostics out of Inl e \<Rightarrow> True | Inr ds \<Rightarrow> list_all browser_diagnostic_ok ds"
proof (cases "browser_diagnostics out")
  case (Inr ds)
  have "list_all browser_diagnostic_ok rs" if "browser_diagnostics_of raw = Inr rs" for raw rs
  proof (cases "rs = []")
    case False
    let ?info = "obj_get raw ''testInfo''"
    from False that obtain entries status result where
      name: "safe_name (obj_get ?info ''testName'')"
      and st: "listed_field ''status'' (obj_get ?info ''status'') safe_module_states = Inr status"
      and re: "listed_field ''result'' (obj_get ?info ''result'') safe_module_results = Inr result"
      and rs: "rs = [JObj ([(''module'', obj_get ?info ''testName''), (''events'', JArr (map JStr (browser_events entries)))]
                 @ status @ result)]"
      by (auto simp: browser_diagnostics_of_def Let_def split: if_splits simp del: json_tests)
    from name obtain m where "obj_get ?info ''testName'' = JStr m" "fullmatch safe_module m" by (auto simp: safe_name_def)
    moreover have "list_all (\<lambda>(k, v). (k = ''status'' \<and> in_strings v safe_module_states)
          \<or> (k = ''result'' \<and> in_strings v safe_module_results)) (status @ result)"
      using listed_field_Inr [OF st] listed_field_Inr [OF re] by (auto simp: list_all_iff)
    ultimately have "browser_diagnostic_ok (hd rs)"
      unfolding browser_diagnostic_ok_def rs using browser_events_ok [of entries] by (intro exI conjI) auto
    with rs show ?thesis by simp
  qed simp
  with Inr have "list_all browser_diagnostic_ok ds" unfolding browser_diagnostics_def by (auto intro: per_document_all)
  with Inr show ?thesis by simp
qed simp

end
