(* ===== verification/Evidence_Review.thy ===== *)
theory Evidence_Review
  imports Conformance_Evidence Evidence_Contracts
begin

text \<open>
  \<open>pending_review_request\<close> of \<^verbatim>\<open>scripts/sanitize_official_evidence.py\<close>: the inputs of a human
  review, projected from the directory of an evidence file. Parsing JSON and opening an
  archive are parameters; the directory is a tree as in the evidence of a run.
\<close>

section \<open>The receipt\<close>

definition readable :: "entry \<Rightarrow> bytes result" where
  "readable e = (case e of Regular b \<Rightarrow> ret b | Link (Some b) \<Rightarrow> ret b | _ \<Rightarrow> raise OSError)"

definition entry_exists :: "entry option \<Rightarrow> bool" where
  "entry_exists e = (case e of None \<Rightarrow> False | Some (Link None) \<Rightarrow> False | _ \<Rightarrow> True)"

definition receipt_name :: string where "receipt_name = ''official-real-ui-images.json''"
definition receipt_limit :: nat where "receipt_limit = 512 * 1024"

definition official_id_rx :: rx where "official_id_rx = Seq (Rep 1 180 (Cls is_alnum)) Eot"

text \<open>The receipt's bytes and their JSON object, or none.\<close>

definition read_receipt :: "(bytes \<Rightarrow> json result) \<Rightarrow> tree \<Rightarrow> (bytes \<times> json) option result" where
  "read_receipt loads dir = (case entry_at dir receipt_name of
     Some (Regular b) \<Rightarrow>
       if receipt_limit < length b then raise (ValueError ''review receipt exceeds its size limit'')
       else bindE (loads b) (\<lambda>receipt.
         if \<not> is_dict receipt then raise (ValueError ''review receipt is malformed'') else ret (Some (b, receipt)))
   | e \<Rightarrow> if entry_exists e then raise (ValueError ''review receipt must be a regular owned file'') else ret None)"

section \<open>Bindings to the original evidence\<close>

text \<open>\<open>[row for row in artifacts if row.get("path") == name]\<close>\<close>

definition rows_where :: "(json \<Rightarrow> bool) \<Rightarrow> json list \<Rightarrow> json list result" where
  "rows_where P rows = bindE (mapE (\<lambda>r. bindE (py_get r ''path'' JNull) (\<lambda>_. ret (if P r then [r] else []))) rows)
     (\<lambda>rss. ret (concat rss))"

definition bound_once :: "json list \<Rightarrow> string \<Rightarrow> bool" where
  "bound_once rows digest = (case rows of [r] \<Rightarrow> obj_get r ''sha256'' = JStr digest | _ \<Rightarrow> False)"

definition receipt_pending :: "json \<Rightarrow> bool" where
  "receipt_pending receipt =
     (obj_get receipt ''schema'' = JStr ''elevenid.official-real-ui-images/v1''
      \<and> obj_get receipt ''state'' = JStr ''ATTACHED'' \<and> obj_get receipt ''review_status'' = JStr ''PENDING''
      \<and> obj_get receipt ''original_exports_unchanged'' = JBool True
      \<and> obj_get receipt ''module_outcomes_unchanged'' = JBool True
      \<and> is_str (obj_get receipt ''official_export_sha256'')
      \<and> fullmatch (Seq hex64_rx Eot) (str_of (obj_get receipt ''official_export_sha256'')))"

definition pinned_evidence :: "json \<Rightarrow> json \<Rightarrow> bool result" where
  "pinned_evidence evidence manifest =
     (if obj_get evidence ''schema'' \<noteq> JStr ''elevenid.official-interop-evidence/v1''
         \<or> obj_get evidence ''execution_mode'' \<noteq> JStr ''active'' then ret False
      else bindE (py_key manifest ''official_runner'') (\<lambda>official. ret (py_eq (obj_get evidence ''official_runner'') official)))"

definition review_profile :: "json \<Rightarrow> json \<Rightarrow> json result" where
  "review_profile evidence manifest = bindE (py_key manifest ''profiles'') (\<lambda>profiles.
     if \<not> is_dict profiles then raise AttributeError
     else let name = obj_get evidence ''profile'' in
       if \<not> hashable name then raise TypeError
       else let profile = (if is_str name then obj_get profiles (str_of name) else JNull) in
         if \<not> is_dict profile then raise (ValueError ''review evidence has an unknown official profile'') else ret profile)"

definition zip_entries :: "tree \<Rightarrow> tree" where
  "zip_entries dir = sort_key fst (filter (\<lambda>(n, e). CHR ''/'' \<notin> set n \<and> endswith n ''.zip'') dir)"

text \<open>Every archive is a regular file, bound exactly once, to its own digest.\<close>

definition archive_bound :: "json list \<Rightarrow> string \<times> entry \<Rightarrow> bool" where
  "archive_bound rows ne = (case ne of (n, e) \<Rightarrow> (case e of
     Regular b \<Rightarrow> bound_once (filter (\<lambda>r. obj_get r ''path'' = JStr n) rows) (file_sha256 b) | _ \<Rightarrow> False))"

definition check_exports :: "json list \<Rightarrow> tree \<Rightarrow> unit result" where
  "check_exports artifacts dir = (let archs = zip_entries dir in
     bindE (rows_where (\<lambda>r. endswith (py_str (obj_get_default r ''path'' (JStr []))) ''.zip'') artifacts) (\<lambda>rows.
       if archs = [] \<or> set (map (JStr \<circ> fst) archs) \<noteq> set (map (\<lambda>r. obj_get r ''path'') rows)
       then raise (ValueError ''review evidence has missing or foreign original exports'')
       else if list_ex (\<lambda>ne. \<not> archive_bound rows ne) archs
       then raise (ValueError ''review original export differs from its evidence hash'') else ret ()))"

section \<open>The modules under review\<close>

definition official_identity :: "json \<Rightarrow> bool" where
  "official_identity v = (is_str v \<and> fullmatch official_id_rx (str_of v))"

definition review_row_ok :: "json \<Rightarrow> json \<Rightarrow> bool" where
  "review_row_ok row info =
     (obj_get row ''readback_hash_matched'' = JBool True \<and> obj_get row ''review_status'' = JStr ''PENDING''
      \<and> is_str (obj_get row ''screenshot_sha256'')
      \<and> fullmatch (Seq hex64_rx Eot) (str_of (obj_get row ''screenshot_sha256''))
      \<and> official_identity (obj_get info ''testId'') \<and> official_identity (obj_get info ''planId'')
      \<and> obj_get info ''_id'' = obj_get info ''testId''
      \<and> obj_get_default row ''test_id'' (obj_get info ''testId'') = obj_get info ''testId''
      \<and> obj_get_default row ''plan_id'' (obj_get info ''planId'') = obj_get info ''planId'')"

definition review_module :: "json \<Rightarrow> json \<Rightarrow> (string \<times> json) list" where
  "review_module row info =
     [(''test_name'', obj_get info ''testName''), (''test_id'', obj_get info ''testId''), (''plan_id'', obj_get info ''planId''),
      (''official_result'', JStr ''REVIEW''),
      (''screenshot_sha256'', JStr (''sha256:'' @ str_of (obj_get row ''screenshot_sha256'')))]"

record review_context =
  rc_documents :: "json list"
  rc_plan_variant :: variant
  rc_labels :: "(string \<times> string) list"
  rc_profile :: string
  rc_commit :: "json result"

definition assessed :: "review_context \<Rightarrow> json \<Rightarrow> json \<Rightarrow> string list \<Rightarrow> (json \<times> string) result" where
  "assessed rc row info flows =
     bindE (validate_assessment None (obj_get row ''automated_assessment'')) (\<lambda>assessment.
     case filter (\<lambda>d. obj_get (obj_get d ''testInfo'') ''testName'' = obj_get info ''testName'') (rc_documents rc) of
       [doc] \<Rightarrow>
         bindE (case map_of (rc_labels rc) (str_of (obj_get info ''testName'')) of
                  None \<Rightarrow> raise (KeyError (str_of (obj_get info ''testName''))) | Some l \<Rightarrow> parse_variant_selection l) (\<lambda>(name, extra).
         bindE (rc_commit rc) (\<lambda>commit.
         bindE (positive_review_obligation (rc_profile rc) (variant_json (merge (rc_plan_variant rc) extra)) (str_of commit) doc) (\<lambda>condition.
           let flow = str_of (obj_get assessment ''flow_instance_sha256'') in
           if obj_get assessment ''upstream_condition'' \<noteq> JStr condition \<or> flow \<in> set flows
           then raise (ValueError ''automated verification has inconsistent or reused flow bindings'')
           else ret (assessment, flow))))
     | _ \<Rightarrow> raise (ValueError ''automated verification has ambiguous original module logs''))"

definition review_step :: "review_context \<Rightarrow> (string \<times> json) list \<Rightarrow> json list \<times> string list \<Rightarrow> json
    \<Rightarrow> (json list \<times> string list) result" where
  "review_step rc infos st row = (case st of (modules, flows) \<Rightarrow>
     let name = str_of (obj_get row ''test_name'') in
     case map_of infos name of
       None \<Rightarrow> raise (KeyError name)
     | Some info \<Rightarrow>
         if \<not> review_row_ok row info then raise (ValueError ''review image lacks its exact official identity and readback'')
         else if \<not> has_key row ''automated_assessment''
         then ret (modules @ [JObj (review_module row info)], flows)
         else bindE (assessed rc row info flows) (\<lambda>(assessment, flow).
           ret (modules @ [JObj (review_module row info @ [(''automated_assessment'', assessment)])], flows @ [flow])))"

text \<open>The images cover exactly the modules the unchanged export leaves for review.\<close>

definition covers_pending :: "string list \<Rightarrow> json \<Rightarrow> bool" where
  "covers_pending pending rows =
     (pending \<noteq> [] \<and> is_list rows \<and> list_all is_dict (arr_of rows)
      \<and> list_all (\<lambda>r. is_str (obj_get r ''test_name'')) (arr_of rows)
      \<and> length (arr_of rows) = length (remdups pending)
      \<and> set (map (\<lambda>r. str_of (obj_get r ''test_name'')) (arr_of rows)) = set pending)"

definition name_key :: "json \<Rightarrow> string" where "name_key m = str_of (obj_get m ''test_name'')"

definition review_request :: "bytes \<Rightarrow> bytes \<Rightarrow> json \<Rightarrow> json \<Rightarrow> json list \<Rightarrow> json" where
  "review_request evidence_bytes receipt_bytes receipt coverage modules = JObj
     [(''schema'', JStr ''elevenid.official-review-request/v1''), (''status'', JStr ''PENDING''),
      (''original_evidence_sha256'', JStr (sha_digest evidence_bytes)),
      (''capture_receipt_sha256'', JStr (sha_digest receipt_bytes)),
      (''official_export_sha256'', JStr (''sha256:'' @ str_of (obj_get receipt ''official_export_sha256''))),
      (''plan_binding_sha256'', JStr (''sha256:'' @ str_of (obj_get coverage ''binding_sha256''))),
      (''modules'', JArr (sort_key name_key modules))]"

definition plan_text :: "json \<Rightarrow> string result" where
  "plan_text profile = bindE (py_key profile ''test_plan'') (\<lambda>p. case p of JStr s \<Rightarrow> ret s | _ \<Rightarrow> raise AttributeError)"

definition strings_of :: "json \<Rightarrow> string list" where
  "strings_of v = map str_of (arr_of v)"

text \<open>The recorded summary with its coverage, read again from the export.\<close>

definition observed_results :: "export \<Rightarrow> json \<Rightarrow> json \<Rightarrow> (string \<times> json \<times> json) result" where
  "observed_results out evidence profile =
     bindE (py_get (obj_get_default evidence ''exclusions'' (JObj [])) ''expected_skips'' (JArr [])) (\<lambda>skips.
     bindE (strict_module_summary out skips) (\<lambda>observed.
     bindE (py_get (obj_get_default evidence ''module_results'' (JObj [])) ''plan_coverage'' JNull) (\<lambda>recorded.
     bindE (plan_text profile) (\<lambda>plan.
     bindE (recorded_plan_coverage out recorded plan) (\<lambda>coverage.
       let observed = JObj (put ''plan_coverage'' coverage (fields_of observed)) in
       if \<not> py_eq (obj_get evidence ''module_results'') observed \<or> \<not> truthy (obj_get coverage ''complete'')
       then raise (ValueError ''review evidence differs from its complete original module export'')
       else ret (plan, observed, coverage))))))"

definition attached_review :: "export \<Rightarrow> tree \<Rightarrow> json \<Rightarrow> bytes \<Rightarrow> json result \<Rightarrow> bytes \<Rightarrow> json \<Rightarrow> json result" where
  "attached_review out dir evidence evidence_bytes manifest_file receipt_bytes receipt =
     bindE (py_iter (obj_get_default evidence ''artifacts'' (JArr []))) (\<lambda>artifacts.
     bindE (rows_where (\<lambda>r. obj_get r ''path'' = JStr receipt_name) artifacts) (\<lambda>bindings.
     if \<not> bound_once bindings (sha_digest receipt_bytes)
     then raise (ValueError ''review receipt is not bound to the original evidence inventory'')
     else if \<not> receipt_pending receipt
     then raise (ValueError ''review receipt does not establish unchanged pending evidence'')
     else bindE (load_manifest manifest_file) (\<lambda>manifest.
     bindE (pinned_evidence evidence manifest) (\<lambda>pinned.
     if \<not> pinned then raise (ValueError ''review evidence does not use the pinned unmodified official runner'')
     else bindE (review_profile evidence manifest) (\<lambda>profile.
     bindE (check_exports artifacts dir) (\<lambda>_.
     bindE (observed_results out evidence profile) (\<lambda>(plan, observed, coverage).
     if obj_get receipt ''plan_binding_sha256'' \<noteq> obj_get coverage ''binding_sha256''
     then raise (ValueError ''review receipt belongs to another official plan'')
     else bindE (exported_module_info out) (\<lambda>infos.
     if \<not> covers_pending (strings_of (obj_get observed ''pending_review'')) (obj_get receipt ''modules'')
     then raise (ValueError ''review images do not cover the exact pending module set'')
     else bindE (exported_module_documents out) (\<lambda>documents.
     bindE (parse_variant_selection plan) (\<lambda>(name, plan_variant).
     let rc = \<lparr>rc_documents = documents, rc_plan_variant = plan_variant,
               rc_labels = map (\<lambda>b. (str_of (obj_get b ''test_name''), str_of (obj_get b ''interaction_name'')))
                 (arr_of (obj_get coverage ''module_bindings'')),
               rc_profile = str_of (obj_get evidence ''profile''),
               rc_commit = bindE (py_key manifest ''official_runner'') (\<lambda>r. py_key r ''commit'')\<rparr> in
     bindE (foldE (review_step rc (map (\<lambda>i. (str_of (obj_get i ''testName''), i)) infos)) ([], []) (arr_of (obj_get receipt ''modules'')))
       (\<lambda>(modules, flows). ret (review_request evidence_bytes receipt_bytes receipt coverage modules))))))))))))"

definition pending_review_request ::
    "(bytes \<Rightarrow> json result) \<Rightarrow> (entry \<Rightarrow> member list result) \<Rightarrow> json result \<Rightarrow> tree \<Rightarrow> bytes \<Rightarrow> json \<Rightarrow> json option result" where
  "pending_review_request loads zips manifest_file dir evidence_bytes evidence =
     bindE (read_receipt loads dir) (\<lambda>found. case found of
       None \<Rightarrow> ret None
     | Some (receipt_bytes, receipt) \<Rightarrow>
         if obj_get receipt ''state'' = JStr ''FAILED'' then ret None
         else if obj_get receipt ''state'' = JStr ''NO_REVIEW_IMAGES_REQUIRED''
         then bindE (py_get (obj_get_default evidence ''module_results'' (JObj [])) ''pending_review'' JNull) (\<lambda>pending.
           if truthy pending then raise (ValueError ''review receipt omits pending modules'') else ret None)
         else bindE (attached_review (map (\<lambda>(n, e). (n, zips e)) (filter (\<lambda>(n, e). CHR ''/'' \<notin> set n) dir))
                dir evidence evidence_bytes manifest_file receipt_bytes receipt) (\<lambda>r. ret (Some r)))"

end
