(* ===== verification/Evidence_Summary.thy ===== *)
theory Evidence_Summary
  imports Evidence_Review Evidence_Sanitize
begin

text \<open>
  \<open>junit_summary\<close>, \<open>build_summary\<close> and \<open>main\<close> of \<^verbatim>\<open>scripts/sanitize_official_evidence.py\<close>: the
  public summary of a private run. The XML parser is a parameter that yields an element tree.
\<close>

section \<open>JUnit totals\<close>

datatype xml = Element (tag: string) (attributes: "(string \<times> string) list") (children: "xml list")

fun elements :: "xml \<Rightarrow> xml list" where
  "elements (Element t as cs) = Element t as cs # concat (map elements cs)"

definition junit_names :: "string list" where "junit_names = [''tests'', ''failures'', ''errors'', ''skipped'']"

definition suite_counts :: "xml \<Rightarrow> int list result" where
  "suite_counts suite = mapE (\<lambda>n. py_int (case map_of (attributes suite) n of None \<Rightarrow> ''0'' | Some v \<Rightarrow> v)) junit_names"

definition junit_summary :: "xml \<Rightarrow> (string \<times> int) list result" where
  "junit_summary root =
     (let suites = (if tag root = ''testsuite'' then [root] else filter (\<lambda>e. tag e = ''testsuite'') (elements root)) in
      bindE (foldE (\<lambda>totals suite. bindE (suite_counts suite) (\<lambda>cs. ret (map2 (+) totals cs))) (map (\<lambda>_. 0) junit_names) suites)
        (\<lambda>totals. ret (zip junit_names totals)))"

section \<open>The summary\<close>

definition lanes :: "string list" where
  "lanes = [''oid4vci-issuer'', ''oid4vp-final'', ''oid4vp-url-query'', ''oid4vp-mdoc'', ''haip'', ''w3c-v2'', ''eudi'']"
definition sd_jwt_diagnostic_lanes :: "string list" where
  "sd_jwt_diagnostic_lanes = [''oid4vp-final'', ''oid4vp-url-query'', ''haip'']"
definition browser_schema :: string where "browser_schema = ''elevenid.released-browser-smoke/v1''"
definition summary_schema :: string where "summary_schema = ''elevenid.sanitized-official-interop/v1''"

record readers =
  rd_json :: "bytes \<Rightarrow> json result"
  rd_zip :: "entry \<Rightarrow> member list result"
  rd_xml :: "entry \<Rightarrow> xml option result"     \<comment> \<open>\<open>None\<close>: not well-formed (\<open>ParseError\<close>)\<close>
  rd_manifest :: "json result"

definition load_json :: "readers \<Rightarrow> entry \<Rightarrow> json result" where
  "load_json R e = bindE (readable e) (rd_json R)"

text \<open>\<open>sorted(input_dir.rglob(name))\<close>, and what lies below the directory of a path.\<close>

definition by_parts :: "tree \<Rightarrow> tree" where
  "by_parts t = sort_key (\<lambda>(p, e). split_on (CHR ''/'') p) t"
definition named :: "string \<Rightarrow> tree \<Rightarrow> tree" where
  "named n t = by_parts (filter (\<lambda>(p, e). after_last (CHR ''/'') p = n) t)"
definition with_suffix :: "string \<Rightarrow> tree \<Rightarrow> tree" where
  "with_suffix x t = by_parts (filter (\<lambda>(p, e). endswith (after_last (CHR ''/'') p) x) t)"

definition directory_of :: "string \<Rightarrow> string" where
  "directory_of p = take (length p - length (after_last (CHR ''/'') p)) p"

definition below :: "string \<Rightarrow> tree \<Rightarrow> tree" where
  "below d t = map (\<lambda>(p, e). (drop (length d) p, e)) (filter (\<lambda>(p, e). startswith p d \<and> p \<noteq> d) t)"

text \<open>A sanitised document and its count; an absent file is \<open>None\<close>.\<close>

definition clean_json :: "json \<Rightarrow> (json \<times> nat) result" where "clean_json v = sanitize [] v"

definition optional_report :: "readers \<Rightarrow> entry option \<Rightarrow> (json \<times> nat) result" where
  "optional_report R e = (case e of
     None \<Rightarrow> ret (JNull, 0)
   | Some e \<Rightarrow> (case readable e of Inl _ \<Rightarrow> ret (JNull, 0) | Inr b \<Rightarrow> bindE (rd_json R b) clean_json))"

definition check_browser :: "json \<Rightarrow> unit result" where
  "check_browser v =
     (if \<not> is_dict v then raise (ValueError ''browser evidence must be a JSON object'')
      else if obj_get v ''schema'' \<noteq> JStr browser_schema then raise (ValueError ''browser evidence has an unsupported schema'')
      else if obj_get v ''status'' \<noteq> JStr ''passed'' then raise (ValueError ''browser evidence does not record a passing run'')
      else if obj_get v ''private_selectors_observed'' \<noteq> JBool False
      then raise (ValueError ''browser evidence does not prove private-selector absence'')
      else ret ())"

definition browser_part :: "readers \<Rightarrow> string \<Rightarrow> tree \<Rightarrow> (json \<times> nat) result" where
  "browser_part R lane t = (case named ''browser-evidence.json'' t of
     [] \<Rightarrow> ret (JNull, 0)
   | [(p, e)] \<Rightarrow>
       if lane \<noteq> ''oid4vp-final'' then raise (ValueError ''browser evidence is permitted only for the oid4vp-final lane'')
       else bindE (load_json R e) (\<lambda>raw. bindE (check_browser raw) (\<lambda>_. clean_json raw))
   | _ \<Rightarrow> raise (ValueError ''official evidence contains multiple browser evidence files''))"

definition sd_jwt_part :: "readers \<Rightarrow> string \<Rightarrow> tree \<Rightarrow> (json \<times> nat) result" where
  "sd_jwt_part R lane t = (case named ''oidf-sd-jwt-diagnostic-audit.json'' t of
     [] \<Rightarrow> ret (JNull, 0)
   | [(p, e)] \<Rightarrow>
       if lane \<notin> set sd_jwt_diagnostic_lanes
       then raise (ValueError ''SD-JWT diagnostic evidence is not permitted for this lane'')
       else bindE (load_json R e) (\<lambda>raw. bindE (sd_jwt_diagnostic_report raw) clean_json)
   | _ \<Rightarrow> raise (ValueError ''official evidence contains multiple SD-JWT diagnostic reports''))"

definition eudi_part :: "readers \<Rightarrow> string \<Rightarrow> tree \<Rightarrow> (json \<times> nat) option result" where
  "eudi_part R lane t = (case named ''eudi-runtime-diagnostics.json'' t of
     [] \<Rightarrow> ret None
   | [(p, e)] \<Rightarrow>
       if lane \<noteq> ''eudi''
       then raise (ValueError ''EUDI runtime diagnostic evidence is permitted only for the eudi lane'')
       else bindE (load_json R e) (\<lambda>raw. bindE (eudi_runtime_diagnostic_report raw) (\<lambda>r.
         bindE (clean_json r) (\<lambda>c. ret (Some c))))
   | _ \<Rightarrow> raise (ValueError ''official evidence contains multiple EUDI diagnostic reports''))"

text \<open>Evidence of a local native run, by its scope, its release mark or its binding.\<close>

definition local_functional :: "json \<Rightarrow> bool" where
  "local_functional v = (obj_get v ''runtime_scope'' = JStr ''LOCAL_FUNCTIONAL_ONLY''
     \<or> obj_get v ''release_qualified'' = JBool False
     \<or> (is_dict (obj_get v ''marty'') \<and> truthy (obj_get (obj_get v ''marty'') ''local_native_functional_binding'')))"

definition review_part :: "readers \<Rightarrow> string \<Rightarrow> tree \<Rightarrow> string \<Rightarrow> bytes \<Rightarrow> json \<Rightarrow> json list result" where
  "review_part R lane t p b raw =
     (if \<not> is_dict raw then ret []
      else if local_functional raw
      then raise (ValueError ''local native functional evidence cannot enter the official release summary'')
      else bindE (pending_review_request (rd_json R) (rd_zip R) (rd_manifest R) (below (directory_of p) t) b raw) (\<lambda>request.
        case request of
          None \<Rightarrow> ret []
        | Some r \<Rightarrow>
            if lane \<in> {''w3c-v2'', ''eudi'', ''oid4vci-issuer''}
            then raise (ValueError ''review image evidence is not permitted for this lane'')
            else ret [JObj (put ''source'' (JStr p) [] @ fields_of r)]))"

definition evidence_part :: "readers \<Rightarrow> string \<Rightarrow> tree \<Rightarrow> string \<times> entry \<Rightarrow> (json list \<times> json \<times> nat) result" where
  "evidence_part R lane t pe = (case pe of (p, e) \<Rightarrow>
     bindE (readable e) (\<lambda>b. bindE (rd_json R b) (\<lambda>raw.
     bindE (review_part R lane t p b raw) (\<lambda>reviews.
     bindE (clean_json raw) (\<lambda>(v, n). ret (reviews, JObj [(''source'', JStr p), (''evidence'', v)], n))))))"

definition junit_part :: "readers \<Rightarrow> string \<times> entry \<Rightarrow> json list result" where
  "junit_part R pe = (case pe of (p, e) \<Rightarrow> bindE (rd_xml R e) (\<lambda>root. case root of
     None \<Rightarrow> ret []
   | Some x \<Rightarrow> (case junit_summary x of
       Inl err \<Rightarrow> if is_ValueError err then ret [] else raise err
     | Inr counts \<Rightarrow> ret [JObj ([(''source'', JStr p)] @ map (\<lambda>(k, n). (k, JInt n)) counts)])))"

record reports =
  stack_file :: "entry option"
  material_file :: "entry option"
  image_file :: "entry option"

text \<open>\<open>found\<close> is the input directory, if it is one.\<close>

definition build_summary :: "readers \<Rightarrow> reports \<Rightarrow> tree option \<Rightarrow> string \<Rightarrow> string \<Rightarrow> int \<Rightarrow> json result" where
  "build_summary R F found lane harness_commit exit_code =
     (if lane \<notin> set lanes then raise (ValueError (''unknown official interoperability lane: '' @ lane))
      else if \<not> fullmatch commit_rx harness_commit then raise (ValueError ''harness commit must be a full lowercase SHA'')
      else
       bindE (optional_report R (stack_file F)) (\<lambda>(stack, n1).
       bindE (optional_report R (material_file F)) (\<lambda>(material, n2).
       bindE (optional_report R (image_file F)) (\<lambda>(image, n3).
       let t = (case found of None \<Rightarrow> [] | Some t \<Rightarrow> t) in
       bindE (browser_part R lane t) (\<lambda>(browser, n4).
       bindE (sd_jwt_part R lane t) (\<lambda>(sd_jwt, n5).
       bindE (eudi_part R lane t) (\<lambda>eudi.
       bindE (mapE (evidence_part R lane t) (named ''evidence.json'' t)) (\<lambda>parts.
       bindE (mapE (junit_part R) (with_suffix ''.xml'' t)) (\<lambda>junit.
       ret (JObj
         [(''schema'', JStr summary_schema), (''lane'', JStr lane), (''harness_commit'', JStr harness_commit),
          (''result'', JObj [(''exit_code'', JInt exit_code), (''passed'', JBool (exit_code = 0))]),
          (''stack'', stack), (''material'', material), (''eudi_harness_image'', image),
          (''browser_evidence'', browser),
          (''verifier_diagnostics'', case eudi of None \<Rightarrow> sd_jwt | Some (v, n) \<Rightarrow> v),
          (''official_evidence'', JArr (map (\<lambda>(rs, v, n). v) parts)),
          (''review_requests'', JArr (concat (map (\<lambda>(rs, v, n). rs) parts))),
          (''junit'', JArr (concat junit)),
          (''redactions'', JInt (int (n1 + n2 + n3 + n4 + n5 + (case eudi of None \<Rightarrow> 0 | Some (v, n) \<Rightarrow> n)
             + sum_list (map (\<lambda>(rs, v, n). n) parts))))]))))))))))"

text \<open>\<open>main\<close>: the summary file and the line for the workflow.\<close>

definition has_reviews_line :: "json \<Rightarrow> string" where
  "has_reviews_line summary = ''has_reviews='' @ (if truthy (obj_get summary ''review_requests'') then ''true'' else ''false'') @ [newline]"

definition summary_main :: "readers \<Rightarrow> reports \<Rightarrow> tree option \<Rightarrow> string \<Rightarrow> string \<Rightarrow> int \<Rightarrow> bool \<Rightarrow> (bytes \<times> string) result" where
  "summary_main R F found lane harness_commit exit_code to_github =
     bindE (build_summary R F found lane harness_commit exit_code) (\<lambda>summary.
       ret (json_file summary, if to_github then has_reviews_line summary else []))"

end
