(* ===== verification/Evidence_Review_Props.thy ===== *)
theory Evidence_Review_Props
  imports Evidence_Summary Conformance_Plan_Props
begin

text \<open>
  A review request is a projection of unchanged, hash-bound evidence and never a verdict; the
  public summary admits no local evidence and embeds sanitised documents only.
\<close>

section \<open>Review requests\<close>

lemma review_module_simps [simp]:
  "obj_get (JObj (review_module row info @ r)) ''official_result'' = JStr ''REVIEW''"
  "obj_get (JObj (review_module row info @ r)) ''test_name'' = obj_get info ''testName''"
  by (simp_all add: review_module_def)

text \<open>One module per image row, under the row's name, marked REVIEW.\<close>

definition module_for :: "json \<Rightarrow> json \<Rightarrow> bool" where
  "module_for row m = (name_key m = str_of (obj_get row ''test_name'') \<and> obj_get m ''official_result'' = JStr ''REVIEW'')"

lemma review_step_OK:
  assumes "review_step rc infos (ms, fs) row = Inr (ms', fs')"
    and infos: "\<And>n i. map_of infos n = Some i \<Longrightarrow> str_of (obj_get i ''testName'') = n"
  shows "\<exists>m. ms' = ms @ [m] \<and> module_for row m"
proof -
  from assms(1) obtain info where i: "map_of infos (str_of (obj_get row ''test_name'')) = Some info"
    by (auto simp: review_step_def Let_def split: option.splits)
  from infos [OF i] have name: "str_of (obj_get info ''testName'') = str_of (obj_get row ''test_name'')" .
  show ?thesis
  proof (cases "has_key row ''automated_assessment''")
    case True
    with assms(1) i obtain a where "ms' = ms @ [JObj (review_module row info @ [(''automated_assessment'', a)])]"
      by (auto simp: review_step_def Let_def split: if_splits)
    with name show ?thesis by (auto simp: module_for_def name_key_def)
  next
    case False
    with assms(1) i have "ms' = ms @ [JObj (review_module row info @ [])]"
      by (auto simp: review_step_def Let_def split: if_splits)
    with name show ?thesis by (auto simp: module_for_def name_key_def simp del: append_Nil2)
  qed
qed

lemma review_steps_OK:
  assumes "foldE (review_step rc infos) (ms, fs) rows = Inr (ms', fs')"
    and infos: "\<And>n i. map_of infos n = Some i \<Longrightarrow> str_of (obj_get i ''testName'') = n"
  shows "\<exists>us. ms' = ms @ us \<and> list_all2 module_for rows us"
  using assms(1)
proof (induction rows arbitrary: ms fs)
  case (Cons row rows)
  then obtain ms1 fs1 where step: "review_step rc infos (ms, fs) row = Inr (ms1, fs1)"
    and rest: "foldE (review_step rc infos) (ms1, fs1) rows = Inr (ms', fs')" by auto
  from review_step_OK [OF step infos] obtain m where m: "ms1 = ms @ [m]" "module_for row m" by blast
  from Cons.IH [OF rest] obtain us where "ms' = ms1 @ us" "list_all2 module_for rows us" by blast
  with m show ?case by (intro exI [of _ "m # us"]) simp
qed simp

definition export_in :: "(entry \<Rightarrow> member list result) \<Rightarrow> tree \<Rightarrow> export" where
  "export_in zips dir = map (\<lambda>(n, e). (n, zips e)) (filter (\<lambda>(n, e). CHR ''/'' \<notin> set n) dir)"

text \<open>
  The inventory names the file once and with this digest; the archives beside the evidence, at
  least one, are regular files it names so, and it names no other archive.
\<close>

definition bound_in :: "json list \<Rightarrow> string \<Rightarrow> string \<Rightarrow> bool" where
  "bound_in artifacts n digest \<longleftrightarrow> (\<exists>a. filter (\<lambda>a. obj_get a ''path'' = JStr n) artifacts = [a] \<and> obj_get a ''sha256'' = JStr digest)"

definition archive_name :: "string \<Rightarrow> bool" where
  "archive_name n = (CHR ''/'' \<notin> set n \<and> endswith n ''.zip'')"

definition exports_in_inventory :: "json list \<Rightarrow> tree \<Rightarrow> bool" where
  "exports_in_inventory artifacts dir \<longleftrightarrow>
     (\<exists>n e. (n, e) \<in> set dir \<and> archive_name n)
     \<and> (\<forall>n e. (n, e) \<in> set dir \<longrightarrow> archive_name n \<longrightarrow> (\<exists>b. e = Regular b \<and> bound_in artifacts n (sha_digest b)))
     \<and> (\<forall>a n. a \<in> set artifacts \<longrightarrow> obj_get a ''path'' = JStr n \<longrightarrow> endswith n ''.zip'' \<longrightarrow> (\<exists>e. (n, e) \<in> set dir \<and> archive_name n))"

definition review_bound :: "(entry \<Rightarrow> member list result) \<Rightarrow> json result \<Rightarrow> tree \<Rightarrow> bytes \<Rightarrow> json \<Rightarrow> json \<Rightarrow> bool" where
  "review_bound zips manifest_file dir evidence_bytes evidence r \<longleftrightarrow>
     (\<exists>receipt artifacts manifest profile skips summary recorded plan coverage modules.
        entry_at dir receipt_name = Some (Regular receipt)
        \<and> py_iter (obj_get_default evidence ''artifacts'' (JArr [])) = Inr artifacts
        \<and> bound_in artifacts receipt_name (sha_digest receipt)
        \<and> exports_in_inventory artifacts dir
        \<and> load_manifest manifest_file = Inr manifest
        \<and> obj_get evidence ''execution_mode'' = JStr ''active''
        \<and> py_eq (obj_get evidence ''official_runner'') (obj_get manifest ''official_runner'')
        \<and> review_profile evidence manifest = Inr profile \<and> plan_text profile = Inr plan
        \<and> py_get (obj_get_default evidence ''exclusions'' (JObj [])) ''expected_skips'' (JArr []) = Inr skips
        \<and> strict_module_summary (export_in zips dir) skips = Inr summary
        \<and> py_get (obj_get_default evidence ''module_results'' (JObj [])) ''plan_coverage'' JNull = Inr recorded
        \<and> recorded_plan_coverage (export_in zips dir) recorded plan = Inr coverage
        \<and> py_eq (obj_get evidence ''module_results'') (JObj (put ''plan_coverage'' coverage (fields_of summary)))
        \<and> truthy (obj_get coverage ''complete'')
        \<and> obj_get r ''original_evidence_sha256'' = JStr (sha_digest evidence_bytes)
        \<and> obj_get r ''capture_receipt_sha256'' = JStr (sha_digest receipt)
        \<and> obj_get r ''modules'' = JArr modules
        \<and> set (map name_key modules) = set (strings_of (obj_get summary ''pending_review''))
        \<and> distinct (map name_key modules)
        \<and> list_all (\<lambda>m. obj_get m ''official_result'' = JStr ''REVIEW'') modules)"

lemma bound_once_in: "bound_once (filter (\<lambda>a. obj_get a ''path'' = JStr n) artifacts) d \<Longrightarrow> bound_in artifacts n d"
  by (auto simp: bound_once_def bound_in_def split: list.splits)

lemma rows_where_OK: "rows_where P rows = Inr rs \<Longrightarrow> rs = filter P rows"
proof -
  assume "rows_where P rows = Inr rs"
  then obtain rss where "mapE (\<lambda>r. bindE (py_get r ''path'' JNull) (\<lambda>_. ret (if P r then [r] else []))) rows = Inr rss"
    and rs: "rs = concat rss" by (auto simp: rows_where_def)
  then have "concat rss = filter P rows" by (induction rows arbitrary: rss rs) auto
  with rs show ?thesis by simp
qed

lemma default_field: "obj_get a k = JStr n \<Longrightarrow> obj_get_default a k d = JStr n"
  by (cases a) (auto simp: obj_get_default_def obj_get_def split: option.splits)

lemma check_exports_inventory:
  assumes "check_exports artifacts dir = Inr ()"
  shows "exports_in_inventory artifacts dir"
proof -
  let ?zip = "\<lambda>r. endswith (py_str (obj_get_default r ''path'' (JStr []))) ''.zip''"
  from assms obtain rs where rs: "rows_where ?zip artifacts = Inr rs" and some: "zip_entries dir \<noteq> []"
    and same_rs: "set (map (JStr \<circ> fst) (zip_entries dir)) = set (map (\<lambda>r. obj_get r ''path'') rs)"
    and all_rs: "list_all (archive_bound rs) (zip_entries dir)"
    unfolding check_exports_def Let_def bindE_eq_Inr if_raise_eq_Inr
    by (auto simp only: list_ex_iff list_all_iff)
  from same_rs all_rs have same: "set (map (JStr \<circ> fst) (zip_entries dir)) = set (map (\<lambda>r. obj_get r ''path'') (filter ?zip artifacts))"
    and all: "list_all (archive_bound (filter ?zip artifacts)) (zip_entries dir)"
    unfolding rows_where_OK [OF rs] .
  have entries: "(n, e) \<in> set (zip_entries dir) \<longleftrightarrow> (n, e) \<in> set dir \<and> archive_name n" for n e
    by (auto simp: zip_entries_def archive_name_def)
  have "\<exists>b. e = Regular b \<and> bound_in artifacts n (sha_digest b)" if ne: "(n, e) \<in> set dir" "archive_name n" for n e
  proof -
    from ne entries all have "archive_bound (filter ?zip artifacts) (n, e)" by (auto simp: list_all_iff)
    then obtain b where e: "e = Regular b"
      and once: "bound_once (filter (\<lambda>a. obj_get a ''path'' = JStr n) (filter ?zip artifacts)) (sha_digest b)"
      by (auto simp: archive_bound_def file_sha256_def split: entry.splits)
    from ne(2) have "endswith n ''.zip''" by (simp add: archive_name_def)
    then have "filter (\<lambda>a. obj_get a ''path'' = JStr n) (filter ?zip artifacts) = filter (\<lambda>a. obj_get a ''path'' = JStr n) artifacts"
      by (auto simp: filter_filter default_field intro!: filter_cong)
    with once e show ?thesis using bound_once_in by auto
  qed
  moreover have "\<exists>e. (n, e) \<in> set dir \<and> archive_name n"
    if a: "a \<in> set artifacts" "obj_get a ''path'' = JStr n" "endswith n ''.zip''" for a n
  proof -
    from a have "JStr n \<in> set (map (\<lambda>r. obj_get r ''path'') (filter ?zip artifacts))"
      by (auto simp: default_field intro!: image_eqI [of _ _ a])
    then have "JStr n \<in> set (map (JStr \<circ> fst) (zip_entries dir))" unfolding same .
    then show ?thesis using entries by auto
  qed
  moreover from some obtain n e where "(n, e) \<in> set (zip_entries dir)" by (cases "zip_entries dir") auto
  then have "\<exists>n e. (n, e) \<in> set dir \<and> archive_name n" using entries by blast
  ultimately show ?thesis unfolding exports_in_inventory_def by blast
qed

lemma read_receipt_OK: "read_receipt loads dir = Inr (Some (b, r)) \<Longrightarrow> entry_at dir receipt_name = Some (Regular b)"
  by (auto simp: read_receipt_def split: option.splits entry.splits if_splits)

lemma infos_named:
  "map_of (map (\<lambda>i. (str_of (obj_get i ''testName''), i)) infos) n = Some i \<Longrightarrow> str_of (obj_get i ''testName'') = n"
  by (induction infos) (auto split: if_splits)

lemma covers_pending_distinct:
  assumes "covers_pending pending rows"
  shows "distinct (map (\<lambda>r. str_of (obj_get r ''test_name'')) (arr_of rows))"
    and "set (map (\<lambda>r. str_of (obj_get r ''test_name'')) (arr_of rows)) = set pending"
proof -
  let ?names = "map (\<lambda>r. str_of (obj_get r ''test_name'')) (arr_of rows)"
  from assms have s: "set ?names = set pending" and "length ?names = length (remdups pending)"
    by (simp_all add: covers_pending_def)
  moreover have "length (remdups pending) = card (set pending)" by (simp add: length_remdups_card_conv)
  ultimately show "distinct ?names" by (simp only: card_distinct)
  show "set ?names = set pending" by (rule s)
qed

lemma modules_named: "list_all2 module_for rows us \<Longrightarrow>
    map name_key us = map (\<lambda>r. str_of (obj_get r ''test_name'')) rows
    \<and> list_all (\<lambda>m. obj_get m ''official_result'' = JStr ''REVIEW'') us"
  by (induction rows us rule: list_all2_induct) (auto simp: module_for_def)

lemma attached_review_bound:
  assumes run: "attached_review (export_in zips dir) dir evidence eb mf rb receipt = Inr r"
    and receipt: "entry_at dir receipt_name = Some (Regular rb)"
  shows "obj_get r ''status'' = JStr ''PENDING'' \<and> review_bound zips mf dir eb evidence r"
    and "\<exists>artifacts. py_iter (obj_get_default evidence ''artifacts'' (JArr [])) = Inr artifacts \<and> check_exports artifacts dir = Inr ()"
proof -
  from run obtain artifacts bindings profile plan infos rc modules flows manifest observed coverage where
    artifacts: "py_iter (obj_get_default evidence ''artifacts'' (JArr [])) = Inr artifacts"
    and bindings: "rows_where (\<lambda>a. obj_get a ''path'' = JStr receipt_name) artifacts = Inr bindings"
    and once: "bound_once bindings (sha_digest rb)"
    and manifest: "load_manifest mf = Inr manifest" and pinned: "pinned_evidence evidence manifest = Inr True"
    and profile: "review_profile evidence manifest = Inr profile"
    and exports: "check_exports artifacts dir = Inr ()"
    and results: "observed_results (export_in zips dir) evidence profile = Inr (plan, observed, coverage)"
    and covers: "covers_pending (strings_of (obj_get observed ''pending_review'')) (obj_get receipt ''modules'')"
    and steps: "foldE (review_step rc (map (\<lambda>i. (str_of (obj_get i ''testName''), i)) infos)) ([], [])
       (arr_of (obj_get receipt ''modules'')) = Inr (modules, flows)"
    and r: "r = review_request eb rb receipt coverage modules"
    unfolding attached_review_def Let_def bindE_eq_Inr if_raise_eq_Inr case_prod_unfold
    by (elim exE conjE) (auto simp: prod_eq_iff)
  from results obtain skips summary recorded where
    skips: "py_get (obj_get_default evidence ''exclusions'' (JObj [])) ''expected_skips'' (JArr []) = Inr skips"
    and summary: "strict_module_summary (export_in zips dir) skips = Inr summary"
    and recorded: "py_get (obj_get_default evidence ''module_results'' (JObj [])) ''plan_coverage'' JNull = Inr recorded"
    and plan: "plan_text profile = Inr plan"
    and coverage: "recorded_plan_coverage (export_in zips dir) recorded plan = Inr coverage"
    and observed: "observed = JObj (put ''plan_coverage'' coverage (fields_of summary))"
    and same: "py_eq (obj_get evidence ''module_results'') observed" "truthy (obj_get coverage ''complete'')"
    unfolding observed_results_def Let_def bindE_eq_Inr if_raise_eq_Inr by (elim exE conjE) auto
  from pinned have active: "obj_get evidence ''execution_mode'' = JStr ''active''"
    and official: "py_eq (obj_get evidence ''official_runner'') (obj_get manifest ''official_runner'')"
    by (auto simp: pinned_evidence_def split: if_splits dest: py_key_get simp del: py_key_Inr)
  from review_steps_OK [OF steps infos_named] have "list_all2 module_for (arr_of (obj_get receipt ''modules'')) modules" by simp
  from modules_named [OF this] covers_pending_distinct [OF covers]
  have modules: "distinct (map name_key modules)" "set (map name_key modules) = set (strings_of (obj_get observed ''pending_review''))"
    "list_all (\<lambda>m. obj_get m ''official_result'' = JStr ''REVIEW'') modules" by simp_all
  from summary obtain kvs where "summary = JObj kvs"
    by (auto simp: strict_module_summary_def summary_json_def)
  then have "obj_get observed ''pending_review'' = obj_get summary ''pending_review''"
    by (simp add: observed obj_get_JObj)
  with modules have "set (map name_key (sort_key name_key modules)) = set (strings_of (obj_get summary ''pending_review''))"
    and "distinct (map name_key (sort_key name_key modules))"
    and "list_all (\<lambda>m. obj_get m ''official_result'' = JStr ''REVIEW'') (sort_key name_key modules)"
    by (simp_all add: list_all_iff)
  moreover have "bound_in artifacts receipt_name (sha_digest rb)"
    using once bound_once_in unfolding rows_where_OK [OF bindings] by blast
  moreover have "obj_get r ''original_evidence_sha256'' = JStr (sha_digest eb)"
    "obj_get r ''capture_receipt_sha256'' = JStr (sha_digest rb)"
    "obj_get r ''modules'' = JArr (sort_key name_key modules)" "obj_get r ''status'' = JStr ''PENDING''"
    by (simp_all add: r review_request_def)
  ultimately show "obj_get r ''status'' = JStr ''PENDING'' \<and> review_bound zips mf dir eb evidence r"
    unfolding review_bound_def using receipt artifacts check_exports_inventory [OF exports] manifest active official profile plan
      skips summary recorded coverage same observed by blast
  show "\<exists>artifacts. py_iter (obj_get_default evidence ''artifacts'' (JArr [])) = Inr artifacts \<and> check_exports artifacts dir = Inr ()"
    using artifacts exports by blast
qed

lemma pending_review_bound:
  assumes "pending_review_request loads zips manifest_file dir evidence_bytes evidence = Inr (Some r)"
  shows "obj_get r ''status'' = JStr ''PENDING'' \<and> review_bound zips manifest_file dir evidence_bytes evidence r"
    and "\<exists>artifacts. py_iter (obj_get_default evidence ''artifacts'' (JArr [])) = Inr artifacts \<and> check_exports artifacts dir = Inr ()"
    and "is_dict r \<and> distinct (map fst (fields_of r))"
proof -
  from assms obtain b receipt where read: "read_receipt loads dir = Inr (Some (b, receipt))"
    and run: "attached_review (export_in zips dir) dir evidence evidence_bytes manifest_file b receipt = Inr r"
    unfolding pending_review_request_def export_in_def
    by (auto split: option.splits if_splits simp del: py_get_Inr)
  from attached_review_bound [OF run read_receipt_OK [OF read]]
  show "obj_get r ''status'' = JStr ''PENDING'' \<and> review_bound zips manifest_file dir evidence_bytes evidence r"
    and "\<exists>artifacts. py_iter (obj_get_default evidence ''artifacts'' (JArr [])) = Inr artifacts \<and> check_exports artifacts dir = Inr ()" .
  from run obtain coverage modules where "r = review_request evidence_bytes b receipt coverage modules"
    unfolding attached_review_def Let_def bindE_eq_Inr if_raise_eq_Inr case_prod_unfold by (elim exE conjE) (auto simp: prod_eq_iff)
  then show "is_dict r \<and> distinct (map fst (fields_of r))" by (simp add: review_request_def)
qed

text \<open>
  Claim C3. A review request is never an approval: what is projected is marked PENDING, names
  each module as REVIEW, exactly the modules the strict summary of the export leaves pending
  under the skips the evidence records, each once. It rests on bytes the original inventory
  holds: the receipt and each archive beside the evidence are regular files whose SHA-256 is
  the one the inventory's only row of that name states, and no row names an archive that is
  not there. The pinned runner was in active mode, and the coverage recomputed from those
  archives against the profile's plan is complete and equal to what the evidence recorded.
\<close>

theorem review_request_pending:
  "case pending_review_request loads zips manifest_file dir evidence_bytes evidence of
     Inl e \<Rightarrow> True
   | Inr None \<Rightarrow> True
   | Inr (Some r) \<Rightarrow> obj_get r ''status'' = JStr ''PENDING''
       \<and> review_bound zips manifest_file dir evidence_bytes evidence r"
proof (cases "pending_review_request loads zips manifest_file dir evidence_bytes evidence")
  case (Inr res)
  then show ?thesis using pending_review_bound(1) by (cases res) auto
qed simp

section \<open>The public summary\<close>

lemma clean_json_clean: "clean_json v = Inr (w, n) \<Longrightarrow> clean [] w"
  unfolding clean_json_def by (rule sanitize_result_clean)

lemma not_sensitive_Nil [simp]: "\<not> sensitive []"
  by (simp add: sensitive_def)

lemma bindE_pair_Inr: "bindE m (\<lambda>(a, b). f a b) = Inr y \<longleftrightarrow> (\<exists>a b. m = Inr (a, b) \<and> f a b = Inr y)"
  by (cases m) auto

lemma optional_report_clean: "optional_report R e = Inr (w, n) \<Longrightarrow> clean [] w"
  by (auto simp: optional_report_def split: option.splits sum.splits dest: clean_json_clean)

lemma browser_part_clean: "browser_part R lane t = Inr (w, n) \<Longrightarrow> clean [] w"
  by (auto simp: browser_part_def split: list.splits if_splits dest: clean_json_clean)

lemma sd_jwt_part_clean: "sd_jwt_part R lane t = Inr (w, n) \<Longrightarrow> clean [] w"
  by (auto simp: sd_jwt_part_def split: list.splits if_splits dest: clean_json_clean)

lemma eudi_part_clean: "eudi_part R lane t = Inr (Some (w, n)) \<Longrightarrow> clean [] w"
  by (auto simp: eudi_part_def split: list.splits if_splits dest: clean_json_clean)

definition release_evidence :: "readers \<Rightarrow> string \<times> entry \<Rightarrow> bool" where
  "release_evidence R pe = (case load_json R (snd pe) of Inl e \<Rightarrow> False | Inr raw \<Rightarrow> \<not> local_functional raw)"

lemma not_dict_not_local: "\<not> is_dict v \<Longrightarrow> \<not> local_functional v"
  by (cases v) (simp_all add: local_functional_def obj_get_def)

lemma evidence_part_OK:
  assumes "evidence_part R lane t pe = Inr (rs, v, n)"
  shows "release_evidence R pe \<and> clean [] (obj_get v ''evidence'')
     \<and> (if rs \<noteq> [] then lane \<notin> {''w3c-v2'', ''eudi'', ''oid4vci-issuer''} else True)"
proof -
  obtain p e where pe: "pe = (p, e)" by (cases pe)
  from assms pe obtain b raw w where b: "readable e = Inr b" and raw: "rd_json R b = Inr raw"
    and rs: "review_part R lane t p b raw = Inr rs" and w: "clean_json raw = Inr (w, n)"
    and v: "v = JObj [(''source'', JStr p), (''evidence'', w)]"
    unfolding evidence_part_def by auto
  have "\<not> local_functional raw"
    using rs not_dict_not_local [of raw] by (auto simp: review_part_def split: if_splits)
  with b raw pe have "release_evidence R pe" by (simp add: release_evidence_def load_json_def)
  moreover have "if rs \<noteq> [] then lane \<notin> {''w3c-v2'', ''eudi'', ''oid4vci-issuer''} else True"
    using rs unfolding review_part_def bindE_eq_Inr if_raise_eq_Inr
    by (auto split: if_splits option.splits)
  ultimately show ?thesis using clean_json_clean [OF w] v by simp
qed

text \<open>
  The public summary is a release summary: it names a known lane and a full commit,
  its verdict is the exit code's, every report it embeds is sanitised, none of the evidence
  it read belongs to a local native run, and only the presentation lanes carry review requests.
\<close>

theorem summary_release_only:
  "case build_summary R F found lane harness_commit exit_code of
     Inl e \<Rightarrow> True
   | Inr s \<Rightarrow> lane \<in> set lanes \<and> is_commit harness_commit
       \<and> obj_get (obj_get s ''result'') ''passed'' = JBool (exit_code = 0)
       \<and> list_all (\<lambda>k. clean [] (obj_get s k))
           [''stack'', ''material'', ''eudi_harness_image'', ''browser_evidence'', ''verifier_diagnostics'']
       \<and> list_all (\<lambda>d. clean [] (obj_get d ''evidence'')) (arr_of (obj_get s ''official_evidence''))
       \<and> list_all (release_evidence R) (named ''evidence.json'' (case found of None \<Rightarrow> [] | Some t \<Rightarrow> t))
       \<and> (if arr_of (obj_get s ''review_requests'') \<noteq> [] then lane \<in> {''oid4vp-final'', ''oid4vp-url-query'', ''oid4vp-mdoc'', ''haip''}
          else True)"
proof (cases "build_summary R F found lane harness_commit exit_code")
  case (Inr s)
  let ?t = "case found of None \<Rightarrow> [] | Some t \<Rightarrow> t"
  from Inr obtain stack n1 material n2 image n3 browser n4 sd_jwt n5 eudi parts junit where
    lane: "lane \<in> set lanes" and commit: "fullmatch commit_rx harness_commit"
    and embedded: "optional_report R (stack_file F) = Inr (stack, n1)" "optional_report R (material_file F) = Inr (material, n2)"
      "optional_report R (image_file F) = Inr (image, n3)" "browser_part R lane ?t = Inr (browser, n4)"
      "sd_jwt_part R lane ?t = Inr (sd_jwt, n5)" "eudi_part R lane ?t = Inr eudi"
    and parts: "mapE (evidence_part R lane ?t) (named ''evidence.json'' ?t) = Inr parts"
    and s: "s = JObj
         [(''schema'', JStr summary_schema), (''lane'', JStr lane), (''harness_commit'', JStr harness_commit),
          (''result'', JObj [(''exit_code'', JInt exit_code), (''passed'', JBool (exit_code = 0))]),
          (''stack'', stack), (''material'', material), (''eudi_harness_image'', image),
          (''browser_evidence'', browser),
          (''verifier_diagnostics'', case eudi of None \<Rightarrow> sd_jwt | Some (v, n) \<Rightarrow> v),
          (''official_evidence'', JArr (map (\<lambda>(rs, v, n). v) parts)),
          (''review_requests'', JArr (concat (map (\<lambda>(rs, v, n). rs) parts))),
          (''junit'', JArr (concat junit)),
          (''redactions'', JInt (int (n1 + n2 + n3 + n4 + n5 + (case eudi of None \<Rightarrow> 0 | Some (v, n) \<Rightarrow> n)
             + sum_list (map (\<lambda>(rs, v, n). n) parts))))]"
    unfolding build_summary_def Let_def if_raise_eq_Inr not_not bindE_pair_Inr
    unfolding bindE_eq_Inr sum.inject by blast
  have "clean [] (case eudi of None \<Rightarrow> sd_jwt | Some (v, n) \<Rightarrow> v)"
    using sd_jwt_part_clean [OF embedded(5)] embedded(6) eudi_part_clean by (auto split: option.split)
  moreover have "clean [] stack" "clean [] material" "clean [] image" "clean [] browser"
    using embedded optional_report_clean browser_part_clean by blast+
  moreover have part: "release_evidence R pe \<and> (\<exists>pt\<in>set parts. evidence_part R lane ?t pe = Inr pt)"
    if "pe \<in> set (named ''evidence.json'' ?t)" for pe
  proof -
    from mapE_set_source [OF parts that] obtain pt where "pt \<in> set parts" "evidence_part R lane ?t pe = Inr pt" by blast
    with evidence_part_OK show ?thesis by (cases pt) blast
  qed
  moreover have docs: "clean [] (obj_get v ''evidence'')
      \<and> (if rs \<noteq> [] then lane \<notin> {''w3c-v2'', ''eudi'', ''oid4vci-issuer''} else True)"
    if "(rs, v, n) \<in> set parts" for rs v n
    using mapE_set_result [OF parts that] evidence_part_OK by blast
  moreover have "lane \<in> {''oid4vp-final'', ''oid4vp-url-query'', ''oid4vp-mdoc'', ''haip''}"
    if "concat (map (\<lambda>(rs, v, n). rs) parts) \<noteq> []"
  proof -
    from that obtain rs v n where "(rs, v, n) \<in> set parts" "rs \<noteq> []" by auto
    with docs [OF this(1)] lane show ?thesis by (auto simp: lanes_def)
  qed
  ultimately show ?thesis
    using Inr lane commit unfolding s by (auto simp: fullmatch_commit list_all_iff)
qed simp

end
