(* ===== verification/Write_Once.thy ===== *)
theory Write_Once
  imports Prelude
begin

text \<open>
  Dictionaries written once per key: a loop that stores one entry per element and raises when
  a key already holds another value. The audits and the review archive build their tables
  this way. The abstract contract is a relation: the loop ends exactly when the elements are
  acceptable and their entries form a function, and the dictionary is that function.
\<close>

definition bind_once :: "exn \<Rightarrow> 'k \<Rightarrow> 'v \<Rightarrow> ('k \<times> 'v) list \<Rightarrow> ('k \<times> 'v) list result" where
  "bind_once e k v d = (case map_of d k of
     None \<Rightarrow> ret (put k v d) | Some v' \<Rightarrow> if v' \<noteq> v then raise e else ret (put k v d))"

lemma bind_once_Inr: "bind_once e k v d = Inr d' \<longleftrightarrow> map_of d k \<in> {None, Some v} \<and> d' = put k v d"
  by (auto simp: bind_once_def split: option.split)

definition single_valued_list :: "('k \<times> 'v) list \<Rightarrow> bool" where
  "single_valued_list es = list_all (\<lambda>(k, v). list_all (\<lambda>(k', v'). k' = k \<longrightarrow> v' = v) es) es"

lemma single_valued_list_iff: "single_valued_list es \<longleftrightarrow> (\<forall>k v w. (k, v) \<in> set es \<longrightarrow> (k, w) \<in> set es \<longrightarrow> v = w)"
  by (auto simp: single_valued_list_def list_all_iff)

locale write_once =
  fixes step :: "('k \<times> 'v) list \<Rightarrow> 'a \<Rightarrow> ('k \<times> 'v) list result"
    and ok :: "'a \<Rightarrow> bool"
    and entry :: "'a \<Rightarrow> 'k \<times> 'v"
  assumes step_Inr: "step d x = Inr d' \<longleftrightarrow>
    ok x \<and> map_of d (fst (entry x)) \<in> {None, Some (snd (entry x))} \<and> d' = put (fst (entry x)) (snd (entry x)) d"
begin

lemma run_from:
  "foldE step d xs = Inr d' \<Longrightarrow>
     list_all ok xs \<and> (distinct (map fst d') \<longleftrightarrow> distinct (map fst d))
     \<and> (\<forall>k v. map_of d' k = Some v \<longleftrightarrow> map_of d k = Some v \<or> (k, v) \<in> entry ` set xs)"
proof (induction xs arbitrary: d)
  case (Cons x xs)
  obtain k0 v0 where e: "entry x = (k0, v0)" by (cases "entry x")
  from Cons.prems obtain d1 where "step d x = Inr d1" and rest: "foldE step d1 xs = Inr d'" by auto
  then have ok: "ok x" and free: "map_of d k0 \<in> {None, Some v0}" and d1: "d1 = put k0 v0 d"
    by (auto simp: step_Inr e)
  have "map_of d1 k = Some v \<longleftrightarrow> map_of d k = Some v \<or> (k, v) = entry x" for k v
    using free by (auto simp: d1 e)
  with Cons.IH [OF rest] ok d1 show ?case by auto
qed simp

text \<open>Refinement: the dictionary is the relation of the entries.\<close>

lemma run_table:
  "foldE step [] xs = Inr d \<Longrightarrow>
     list_all ok xs \<and> distinct (map fst d) \<and> set d = entry ` set xs \<and> single_valued_list (map entry xs)"
proof -
  assume "foldE step [] xs = Inr d"
  from run_from [OF this] have ok: "list_all ok xs" and dist: "distinct (map fst d)"
    and m: "map_of d k = Some v \<longleftrightarrow> (k, v) \<in> entry ` set xs" for k v by auto
  from dist m have "(k, v) \<in> set d \<longleftrightarrow> (k, v) \<in> entry ` set xs" for k v by simp
  then have s: "set d = entry ` set xs" by (metis prod.exhaust subsetI subset_antisym)
  moreover have "single_valued_list (map entry xs)"
    unfolding single_valued_list_iff using m by (metis option.inject set_map)
  ultimately show ?thesis using ok dist by blast
qed

text \<open>And it is built whenever the entries are a function.\<close>

lemma run_total:
  assumes "list_all ok xs" and "single_valued_list (map entry xs)"
  shows "\<exists>d. foldE step [] xs = Inr d"
proof -
  have "\<exists>d'. foldE step d ys = Inr d'"
    if "list_all ok ys" "set ys \<subseteq> set xs" "\<forall>k v. map_of d k = Some v \<longrightarrow> (k, v) \<in> entry ` set xs" for d ys
    using that
  proof (induction ys arbitrary: d)
    case (Cons y ys)
    obtain k v where e: "entry y = (k, v)" by (cases "entry y")
    then have kv: "(k, v) \<in> entry ` set xs" using Cons.prems(2) by force
    have "w = v" if "map_of d k = Some w" for w
      using Cons.prems(3) that kv assms(2) unfolding single_valued_list_iff set_map by blast
    then have "map_of d k \<in> {None, Some v}" by (cases "map_of d k") simp_all
    then have "step d y = Inr (put k v d)" using Cons.prems(1) by (simp add: step_Inr e)
    moreover have "\<forall>k' v'. map_of (put k v d) k' = Some v' \<longrightarrow> (k', v') \<in> entry ` set xs"
      using Cons.prems(3) kv by auto
    ultimately show ?case using Cons.IH [of "put k v d"] Cons.prems by auto
  qed simp
  from this [of xs "[]"] assms(1) show ?thesis by simp
qed

lemma run_ends: "isOK (foldE step [] xs) \<longleftrightarrow> list_all ok xs \<and> single_valued_list (map entry xs)"
  using run_table run_total by (metis isOK_iff)

end

end
