(* ===== verification/Sd_Jwt_Audit.thy ===== *)
theory Sd_Jwt_Audit
  imports Conformance_Plan Write_Once
begin

text \<open>
  \<^verbatim>\<open>scripts/oidf_sd_jwt_diagnostic_audit.py\<close>: the flows the deployment recorded are joined with
  the policy outcomes of the product's log and with the safe view of the official failures.
  Files are their contents: the records as JSON, the log as text.
\<close>

section \<open>Patterns\<close>

definition flow_pattern :: "(char \<Rightarrow> bool) \<Rightarrow> rx" where
  "flow_pattern hex = seqs [Rep 8 8 (Cls hex), Lit ''-'', Rep 4 4 (Cls hex), Lit ''-'', Rep 4 4 (Cls hex), Lit ''-'',
     Rep 4 4 (Cls hex), Lit ''-'', Rep 12 12 (Cls hex)]"

definition audit_flow_rx :: rx where "audit_flow_rx = flow_pattern is_lhex"

definition not_break :: "char \<Rightarrow> bool" where
  "not_break c = (code c \<noteq> 10 \<and> code c \<noteq> 13)"
definition any_char :: "char \<Rightarrow> bool" where "any_char c = (code c \<noteq> 10)"

text \<open>\<open>IGNORECASE\<close>: literals and hexadecimal digits in either case.\<close>

definition policy_outcome :: rx where
  "policy_outcome = seqs
     [LitI ''policy evaluation for '', Grp ''flow'' (flow_pattern is_hex), LitI '': result='',
      Grp ''result'' (alts [LitI ''passed'', LitI ''failed'', LitI ''partial'']), LitI '' decision='',
      Grp ''decision'' (alts [LitI ''allow'', LitI ''deny'', LitI ''manual_review'']), LitI '' reason='',
      Grp ''reason'' (Many 0 (Cls not_break))]"

definition gap :: "nat \<Rightarrow> rx" where "gap n = Rep 0 n (Cls any_char)"

definition failure_categories :: "(string \<times> rx) list" where
  "failure_categories =
    [(''issuer-signature-invalid'', seqs [LitI ''cannot decode jwt:'', gap 160, LitI ''invalidsignature'']),
     (''issuer-token-expired'', seqs [LitI ''cannot decode jwt:'', gap 160, LitI ''expiredsignature'']),
     (''issuer-audience-invalid'', seqs [LitI ''cannot decode jwt:'', gap 160, LitI ''invalidaudience'']),
     (''issuer-required-claim-missing'', seqs [LitI ''cannot decode jwt:'', gap 160, LitI ''missingrequiredclaim'']),
     (''issuer-key-invalid'', alts [LitI ''invalid issuer jwk'', LitI ''failed to create decoding key'']),
     (''issuer-token-invalid'', LitI ''cannot decode jwt''),
     (''disclosure-invalid'', alts [seqs [LitI ''invalid '', opt (LitI ''array ''), LitI ''disclosure''],
        seqs [LitI ''digest '', gap 120, LitI '' appears multiple times''],
        seqs [LitI ''key '', gap 120, LitI '' appears multiple times''], LitI ''invalid path'',
        seqs [LitI ''index '', gap 120, LitI '' is out of bounds'']]),
     (''holder-key-missing-or-invalid'', alts [LitI ''no holder public key in sd-jwt'', LitI ''sd-jwt has no cnf.jwk'',
        LitI ''holder_public_key_payload is malformed'',
        seqs [LitI ''cannot parse '', alts [LitI ''jwk'', LitI ''decodingkey'']],
        LitI ''invalid cnf.jwk'', LitI ''key binding jwk is unusable'']),
     (''key-binding-required'', alts [LitI ''key binding jwt is required'', LitI ''cannot take key binding jwk from string'']),
     (''key-binding-type-invalid'', alts [LitI ''invalid header type'', LitI ''key binding jwt header parse failed'']),
     (''key-binding-signature-invalid'', LitI ''key binding jwt signature validation failed''),
     (''key-binding-hash-invalid'', alts [LitI ''invalid digest in kb-jwt'', LitI ''sd_hash does not bind this sd-jwt'']),
     (''key-binding-audience-invalid'', alts [LitI ''invalid audience'', LitI ''key binding jwt audience does not match'']),
     (''key-binding-nonce-invalid'', alts [LitI ''invalid nonce'', LitI ''key binding jwt nonce does not match'', LitI ''nonce mismatch'']),
     (''key-binding-time-invalid'', alts [LitI ''key binding jwt is missing a numeric iat'', LitI ''iat is outside the five-minute'']),
     (''did-resolution-failed'', LitI ''did resolution failed''),
     (''issuer-trust-material-missing'', LitI ''issuer is not a did and has no pinned trust-profile jwk''),
     (''native-verifier-unavailable'', LitI ''marty-rs sd-jwt verification bindings are not installed''),
     (''unsupported-format'', LitI ''unsupported credential format''),
     (''sd-jwt-verification-unclassified'', LitI ''sd-jwt verification failed'')]"

definition classify_failure :: "string \<Rightarrow> string" where
  "classify_failure reason = (case find (\<lambda>(category, pattern). searches pattern reason) failure_categories of
     None \<Rightarrow> ''verification-denied-unclassified'' | Some (category, pattern) \<Rightarrow> category)"

section \<open>The recorded flows\<close>

definition record_ok :: "json \<Rightarrow> bool" where
  "record_ok v = (is_dict v \<and> obj_get v ''schema'' = JStr ''elevenid.oidf-flow-correlation/private-v1''
     \<and> is_str (obj_get v ''flow_instance_id'') \<and> fullmatch audit_flow_rx (str_of (obj_get v ''flow_instance_id''))
     \<and> is_str (obj_get v ''test_name'') \<and> fullmatch safe_diagnostic_module (str_of (obj_get v ''test_name'')))"

definition record_error :: "json \<Rightarrow> exn" where
  "record_error v = ValueError
     (if \<not> is_dict v \<or> obj_get v ''schema'' \<noteq> JStr ''elevenid.oidf-flow-correlation/private-v1''
      then ''invalid private OIDF flow-correlation record''
      else if \<not> (is_str (obj_get v ''flow_instance_id'') \<and> fullmatch audit_flow_rx (str_of (obj_get v ''flow_instance_id'')))
      then ''private OIDF flow-correlation record has an invalid flow identifier''
      else ''private OIDF flow-correlation record has an unsafe module name'')"

definition record_entry :: "json \<Rightarrow> string \<times> string" where
  "record_entry v = (str_of (obj_get v ''flow_instance_id''), str_of (obj_get v ''test_name''))"

definition map_record :: "(string \<times> string) list \<Rightarrow> json \<Rightarrow> (string \<times> string) list result" where
  "map_record d v = (if \<not> record_ok v then raise (record_error v)
     else bind_once (ValueError ''one Marty flow is mapped to conflicting official modules'')
            (fst (record_entry v)) (snd (record_entry v)) d)"

definition private_mappings :: "json result list \<Rightarrow> (string \<times> string) list result" where
  "private_mappings sources = bindE (foldE (\<lambda>d src. bindE src (map_record d)) [] sources) (\<lambda>d.
     if d = [] then raise (ValueError ''no private OIDF flow-correlation records were found'') else ret d)"

section \<open>The product's outcomes\<close>

record outcome =
  flow_result :: string
  flow_decision :: string
  flow_category :: string

definition match_outcome :: "pos \<Rightarrow> outcome" where
  "match_outcome m = (let r = py_lower (group m ''result''); d = py_lower (group m ''decision'') in
     \<lparr>flow_result = r, flow_decision = d,
      flow_category = (if r = ''passed'' \<and> d = ''allow'' then ''accepted'' else classify_failure (group m ''reason''))\<rparr>)"

definition map_outcome :: "(string \<times> outcome) list \<Rightarrow> pos \<Rightarrow> (string \<times> outcome) list result" where
  "map_outcome d m = bind_once (ValueError ''one Marty flow emitted conflicting policy outcomes'')
     (py_lower (group m ''flow'')) (match_outcome m) d"

definition runtime_outcomes :: "string \<Rightarrow> (string \<times> outcome) list result" where
  "runtime_outcomes log = foldE map_outcome [] (finditer policy_outcome log)"

section \<open>The official failures\<close>

definition direct_post_condition :: string where "direct_post_condition = ''EnsureHttpStatusCodeIs200''"
definition direct_post_block :: string where "direct_post_block = ''Authorization endpoint''"

definition failure_entry :: "json \<Rightarrow> string result" where
  "failure_entry e =
     (if \<not> is_dict e then raise (ValueError ''Official failure diagnostic has an invalid shape'')
      else if \<not> (is_str (obj_get e ''module'') \<and> fullmatch safe_diagnostic_module (str_of (obj_get e ''module'')))
      then raise (ValueError ''Official failure diagnostic has an unsafe module name'')
      else if \<not> is_str (obj_get e ''condition'') \<or> str_of (obj_get e ''condition'') = []
      then raise (ValueError ''Official failure diagnostic has no condition'')
      else ret (str_of (obj_get e ''module'')))"

definition group_failures :: "json list \<Rightarrow> (string \<times> json list) list result" where
  "group_failures es = foldE (\<lambda>d e. bindE (failure_entry e) (\<lambda>m.
     ret (put m ((case map_of d m of None \<Rightarrow> [] | Some xs \<Rightarrow> xs) @ [e]) d))) [] es"

definition is_direct_post :: "json \<Rightarrow> bool" where
  "is_direct_post e = (obj_get e ''condition'' = JStr direct_post_condition \<and> obj_get e ''block'' = JStr direct_post_block)"

text \<open>The set of statuses must hold one number that is not a boolean.\<close>

definition direct_status :: "json list \<Rightarrow> int result" where
  "direct_status es = bindE (json_set (map (\<lambda>e. obj_get e ''http_status'') es)) (\<lambda>statuses.
     case statuses of
       [JInt i] \<Rightarrow> if i < 100 \<or> 599 < i
         then raise (ValueError ''Official direct-post failure HTTP status is out of range'') else ret i
     | _ \<Rightarrow> raise (ValueError ''Official direct-post failures have conflicting or invalid HTTP status''))"

datatype stage = DirectPost int | OtherFailure | NoFailure

definition stage_of :: "json list \<Rightarrow> stage result" where
  "stage_of es = (let direct = filter is_direct_post es in
     if direct = [] then ret OtherFailure else bindE (direct_status direct) (\<lambda>i. ret (DirectPost i)))"

definition official_failure_outcomes :: "json result \<Rightarrow> (string \<times> stage) list result" where
  "official_failure_outcomes content = bindE content (\<lambda>raw.
     if \<not> is_list raw then raise (ValueError ''Official failure diagnostics must be a list'')
     else bindE (group_failures (arr_of raw)) (\<lambda>groups.
       mapE (\<lambda>(m, es). bindE (stage_of es) (\<lambda>s. ret (m, s))) groups))"

section \<open>The report\<close>

definition unavailable_outcome :: outcome where
  "unavailable_outcome = \<lparr>flow_result = ''unavailable'', flow_decision = ''unavailable'', flow_category = ''runtime-outcome-unavailable''\<rparr>"

fun stage_fields :: "stage \<Rightarrow> (string \<times> json) list" where
  "stage_fields (DirectPost i) = [(''official_failure_stage'', JStr ''direct-post-callback-response''), (''official_http_status'', JInt i)]"
| "stage_fields OtherFailure = [(''official_failure_stage'', JStr ''other-official-failure''), (''official_http_status'', JNull)]"
| "stage_fields NoFailure = [(''official_failure_stage'', JStr ''no-official-failure-observed''), (''official_http_status'', JNull)]"

definition report_row :: "string \<Rightarrow> outcome \<Rightarrow> stage \<Rightarrow> json" where
  "report_row test_name outcome stage = JObj ([(''test_name'', JStr test_name),
     (''marty_flow_result'', JStr (flow_result outcome)), (''marty_flow_decision'', JStr (flow_decision outcome)),
     (''marty_flow_category'', JStr (flow_category outcome))] @ stage_fields stage)"

definition lookup_or :: "'v \<Rightarrow> (string \<times> 'v) list \<Rightarrow> string \<Rightarrow> 'v" where
  "lookup_or x d k = (case map_of d k of None \<Rightarrow> x | Some v \<Rightarrow> v)"

definition report_of :: "json list \<Rightarrow> json" where
  "report_of rows = JObj [(''schema'', JStr sd_jwt_diagnostic_schema), (''source_policy'', JStr ''unmodified''), (''modules'', JArr rows)]"

definition sd_jwt_audit :: "json result list \<Rightarrow> string \<Rightarrow> json result \<Rightarrow> json result" where
  "sd_jwt_audit sources log diagnostics = bindE (private_mappings sources) (\<lambda>mappings.
     bindE (runtime_outcomes log) (\<lambda>outcomes.
     bindE (official_failure_outcomes diagnostics) (\<lambda>official.
       if \<not> list_all (\<lambda>m. m \<in> snd ` set mappings) (map fst official)
       then raise (ValueError ''Official failures contain modules with no private flow correlation'')
       else ret (report_of (map (\<lambda>(flow, test_name).
              report_row test_name (lookup_or unavailable_outcome outcomes flow) (lookup_or NoFailure official test_name))
            (sort_key snd mappings))))))"

end
