(* ===== verification/Sd_Jwt_Audit_Props.thy ===== *)
theory Sd_Jwt_Audit_Props
  imports Sd_Jwt_Audit Evidence_Contracts_Props
begin

text \<open>
  The audit's tables are write-once dictionaries, and its report is what the public summary's
  validator accepts, except where the product reported a verdict that contradicts itself.
\<close>

section \<open>The tables\<close>

definition source_ok :: "json result \<Rightarrow> bool" where
  "source_ok src = (case src of Inl e \<Rightarrow> False | Inr v \<Rightarrow> record_ok v)"
definition source_entry :: "json result \<Rightarrow> string \<times> string" where
  "source_entry src = (case src of Inl e \<Rightarrow> ([], []) | Inr v \<Rightarrow> record_entry v)"

interpretation flow_table: write_once "\<lambda>d src. bindE src (map_record d)" source_ok source_entry
proof
  fix d src and d' :: "(string \<times> string) list"
  show "bindE src (map_record d) = Inr d' \<longleftrightarrow> source_ok src
      \<and> map_of d (fst (source_entry src)) \<in> {None, Some (snd (source_entry src))}
      \<and> d' = put (fst (source_entry src)) (snd (source_entry src)) d"
    by (cases src) (auto simp: source_ok_def source_entry_def map_record_def bind_once_Inr)
qed

definition outcome_entry :: "pos \<Rightarrow> string \<times> outcome" where
  "outcome_entry m = (py_lower (group m ''flow''), match_outcome m)"

interpretation outcome_table: write_once map_outcome "\<lambda>m. True" outcome_entry
  by unfold_locales (auto simp: map_outcome_def bind_once_Inr outcome_entry_def)

lemma mappings_ok:
  assumes "private_mappings sources = Inr d" and "(flow, name) \<in> set d"
  shows "fullmatch safe_diagnostic_module name"
proof -
  from assms(1) have "foldE (\<lambda>d src. bindE src (map_record d)) [] sources = Inr d"
    by (auto simp: private_mappings_def split: if_splits)
  from flow_table.run_table [OF this] have ok: "list_all source_ok sources" and "set d = source_entry ` set sources" by blast+
  with assms(2) obtain src where src: "src \<in> set sources" "source_entry src = (flow, name)" by (metis imageE)
  with ok have "source_ok src" by (auto simp: list_all_iff)
  with src(2) show ?thesis
    by (cases src) (auto simp: source_ok_def source_entry_def record_ok_def record_entry_def)
qed

section \<open>Outcomes\<close>

definition known_outcome :: "outcome \<Rightarrow> bool" where
  "known_outcome oc = (flow_result oc \<in> {''passed'', ''failed'', ''partial''}
     \<and> flow_decision oc \<in> {''allow'', ''deny'', ''manual_review''}
     \<and> (if flow_result oc = ''passed'' \<and> flow_decision oc = ''allow'' then flow_category oc = ''accepted''
        else flow_category oc \<in> set sd_jwt_failure_categories))"

lemma classify_known: "classify_failure r \<in> set sd_jwt_failure_categories"
proof -
  have all: "list_all (\<lambda>c. c \<in> set sd_jwt_failure_categories) (''verification-denied-unclassified'' # map fst failure_categories)"
    by code_simp
  show ?thesis
  proof (cases "find (\<lambda>(category, pattern). searches pattern r) failure_categories")
    case None
    with all show ?thesis by (simp add: classify_failure_def)
  next
    case (Some cp)
    then have "cp \<in> set failure_categories" by (auto simp: find_Some_iff simp del: split_paired_All) (metis nth_mem)
    with all Some show ?thesis by (cases cp) (force simp: classify_failure_def list_all_iff)
  qed
qed

text \<open>What a group over literals in either case captures.\<close>

lemma LitI_match: "(q, t, h) \<in> set (rmatch (LitI l) (p, s, g)) \<Longrightarrow> h = g \<and> (\<exists>u. s = u @ t \<and> py_lower u = l)"
proof -
  assume "(q, t, h) \<in> set (rmatch (LitI l) (p, s, g))"
  then have "startswith (py_lower s) l" "t = drop (length l) s" "h = g" by (auto split: if_splits)
  moreover from this(1) have "py_lower (take (length l) s) = l"
    by (simp add: startswith_def py_lower_def take_map)
  ultimately show ?thesis by (intro conjI exI [of _ "take (length l) s"]) simp_all
qed

lemma Grp_alts:
  assumes "(q, t, h) \<in> set (rmatch (Grp n (alts [LitI a, LitI b, LitI c])) (p, s, g))"
  shows "\<exists>u. h = (n, u) # g \<and> py_lower u \<in> {a, b, c}"
proof -
  have alt: "x \<in> set (rmatch (Alt r1 r2) y) \<longleftrightarrow> x \<in> set (rmatch r1 y) \<or> x \<in> set (rmatch r2 y)" for x r1 r2 y
    by simp
  from assms obtain h' where m: "(q, t, h') \<in> set (rmatch (alts [LitI a, LitI b, LitI c]) (p, s, g))"
    and h: "h = (n, take (length s - length t) s) # h'" by (auto simp del: alts.simps)
  have "h' = g \<and> (\<exists>u. s = u @ t \<and> py_lower u \<in> {a, b, c})"
    using m LitI_match [of q t h' _ p s g] unfolding alts.simps alt by blast
  with h show ?thesis by auto
qed

text \<open>A pattern without groups leaves the groups alone.\<close>

fun plain_rx :: "rx \<Rightarrow> bool" where
  "plain_rx (Seq a b) = (plain_rx a \<and> plain_rx b)"
| "plain_rx (Alt a b) = (plain_rx a \<and> plain_rx b)"
| "plain_rx (Rep m n r) = plain_rx r"
| "plain_rx (Many m r) = plain_rx r"
| "plain_rx (Grp n r) = False"
| "plain_rx _ = True"

definition keeps_groups :: "(pos \<Rightarrow> pos list) \<Rightarrow> bool" where
  "keeps_groups f \<longleftrightarrow> (\<forall>st st'. st' \<in> set (f st) \<longrightarrow> snd (snd st') = snd (snd st))"

lemma keeps_rep: "keeps_groups f \<Longrightarrow> st' \<in> set (rep_match f m n st) \<Longrightarrow> snd (snd st') = snd (snd st)"
proof (induction n arbitrary: m st)
  case (Suc n)
  from Suc.prems(2) consider "st' = st" | st1 where "st1 \<in> set (f st)" "st' \<in> set (rep_match f (m - 1) n st1)"
    by (auto split: if_splits)
  then show ?case
  proof cases
    case 2
    from Suc.prems(1) 2(1) have "snd (snd st1) = snd (snd st)" unfolding keeps_groups_def by blast
    with Suc.IH [OF Suc.prems(1) 2(2)] show ?thesis by simp
  qed simp
qed (simp split: if_splits)

lemma keeps_plain: "plain_rx r \<Longrightarrow> keeps_groups (rmatch r)"
proof (induction r)
  case (Seq a b)
  then have a: "keeps_groups (rmatch a)" and b: "keeps_groups (rmatch b)" by simp_all
  show ?case
    unfolding keeps_groups_def
  proof (intro allI impI)
    fix st st' assume "st' \<in> set (rmatch (Seq a b) st)"
    then obtain st1 where "st1 \<in> set (rmatch a st)" "st' \<in> set (rmatch b st1)" by auto
    with a b show "snd (snd st') = snd (snd st)" unfolding keeps_groups_def by metis
  qed
next
  case (Rep m n r)
  then show ?case by (auto simp: keeps_groups_def dest: keeps_rep [rotated])
next
  case (Many m r)
  then have r: "keeps_groups (rmatch r)" by simp
  show ?case
    unfolding keeps_groups_def
  proof (intro allI impI)
    fix st st' assume "st' \<in> set (rmatch (Many m r) st)"
    then show "snd (snd st') = snd (snd st)" using keeps_rep [OF r] by (cases st) auto
  qed
qed (auto simp: keeps_groups_def Let_def split: if_splits list.splits)

lemma Grp_plain: "plain_rx r \<Longrightarrow> (q, t, h) \<in> set (rmatch (Grp n r) (p, s, g)) \<Longrightarrow> \<exists>u. h = (n, u) # g"
  using keeps_plain [of r] by (force simp: keeps_groups_def)

lemma plain_match: "plain_rx r \<Longrightarrow> (q, t, h) \<in> set (rmatch r (p, s, g)) \<Longrightarrow> h = g"
  using keeps_plain [of r] by (force simp: keeps_groups_def)

lemma policy_outcome_groups:
  assumes "(q, t, h) \<in> set (rmatch policy_outcome (p, s, []))"
  shows "\<exists>f r d x. h = [(''reason'', x), (''decision'', d), (''result'', r), (''flow'', f)]
    \<and> py_lower r \<in> {''passed'', ''failed'', ''partial''} \<and> py_lower d \<in> {''allow'', ''deny'', ''manual_review''}"
proof -
  have sq: "(q, t, h) \<in> set (rmatch (Seq a b) st) \<longleftrightarrow> (\<exists>p' s' g'. (p', s', g') \<in> set (rmatch a st) \<and> (q, t, h) \<in> set (rmatch b (p', s', g')))"
    for q t h a b st by force
  have flow: "plain_rx (flow_pattern is_hex)" and rest: "plain_rx (Many 0 (Cls not_break))"
    by (simp_all add: flow_pattern_def)
  from assms obtain p1 s1 g1 p2 s2 g2 p3 s3 g3 p4 s4 g4 p5 s5 g5 p6 s6 g6 p7 s7 g7 where
    m1: "(p1, s1, g1) \<in> set (rmatch (LitI ''policy evaluation for '') (p, s, []))"
    and m2: "(p2, s2, g2) \<in> set (rmatch (Grp ''flow'' (flow_pattern is_hex)) (p1, s1, g1))"
    and m3: "(p3, s3, g3) \<in> set (rmatch (LitI '': result='') (p2, s2, g2))"
    and m4: "(p4, s4, g4) \<in> set (rmatch (Grp ''result'' (alts [LitI ''passed'', LitI ''failed'', LitI ''partial''])) (p3, s3, g3))"
    and m5: "(p5, s5, g5) \<in> set (rmatch (LitI '' decision='') (p4, s4, g4))"
    and m6: "(p6, s6, g6) \<in> set (rmatch (Grp ''decision'' (alts [LitI ''allow'', LitI ''deny'', LitI ''manual_review''])) (p5, s5, g5))"
    and m7: "(p7, s7, g7) \<in> set (rmatch (LitI '' reason='') (p6, s6, g6))"
    and m8: "(q, t, h) \<in> set (rmatch (Grp ''reason'' (Many 0 (Cls not_break))) (p7, s7, g7))"
    unfolding policy_outcome_def seqs.simps sq by (elim exE conjE) (rule that, assumption+)
  from LitI_match [OF m1] LitI_match [OF m3] LitI_match [OF m5] LitI_match [OF m7]
    Grp_plain [OF flow m2] Grp_alts [OF m4] Grp_alts [OF m6] Grp_plain [OF rest m8]
  show ?thesis by (elim exE conjE) simp
qed

lemma match_outcome_known:
  assumes "m \<in> set (finditer policy_outcome log)"
  shows "known_outcome (match_outcome m)"
proof -
  obtain q t h where m: "m = (q, t, h)" by (cases m)
  from assms finditer_from_rmatch obtain p s where "m \<in> set (rmatch policy_outcome (p, s, []))"
    unfolding finditer_def by blast
  with m policy_outcome_groups obtain f r d x where
    "h = [(''reason'', x), (''decision'', d), (''result'', r), (''flow'', f)]"
    "py_lower r \<in> {''passed'', ''failed'', ''partial''}" "py_lower d \<in> {''allow'', ''deny'', ''manual_review''}" by blast
  with m classify_known [of x] show ?thesis
    by (auto simp: known_outcome_def match_outcome_def group_def Let_def)
qed

lemma runtime_outcomes_known:
  assumes "runtime_outcomes log = Inr d" and "map_of d k = Some oc"
  shows "known_outcome oc"
proof -
  from assms(1) have "foldE map_outcome [] (finditer policy_outcome log) = Inr d" by (simp add: runtime_outcomes_def)
  from outcome_table.run_table [OF this] have "set d = outcome_entry ` set (finditer policy_outcome log)" by blast
  moreover from assms(2) have "(k, oc) \<in> set d" by (rule map_of_SomeD)
  ultimately show ?thesis using match_outcome_known by (auto simp: outcome_entry_def)
qed

section \<open>The report and its validator\<close>

definition stage_in_range :: "stage \<Rightarrow> bool" where
  "stage_in_range st = (case st of DirectPost i \<Rightarrow> 100 \<le> i \<and> i \<le> 599 | _ \<Rightarrow> True)"

lemma direct_status_range:
  assumes "direct_status es = Inr i"
  shows "100 \<le> i \<and> i \<le> 599"
proof -
  from assms obtain x xs where "(case x # xs of
       [JInt i] \<Rightarrow> if i < 100 \<or> 599 < i
         then raise (ValueError ''Official direct-post failure HTTP status is out of range'') else ret i
     | _ \<Rightarrow> raise (ValueError ''Official direct-post failures have conflicting or invalid HTTP status'')) = Inr i"
    unfolding direct_status_def bindE_eq_Inr by (elim exE conjE, rename_tac statuses) (case_tac statuses; auto)
  then show ?thesis by (cases x; cases xs) auto
qed

lemma official_in_range:
  assumes "official_failure_outcomes content = Inr d" and "map_of d m = Some st"
  shows "stage_in_range st"
proof -
  from assms(1) obtain groups where "mapE (\<lambda>(m, es). bindE (stage_of es) (\<lambda>s. ret (m, s))) groups = Inr d"
    by (auto simp: official_failure_outcomes_def split: if_splits)
  from mapE_set_result [OF this map_of_SomeD [OF assms(2)]] obtain es where "stage_of es = Inr st" by auto
  then show ?thesis
    by (auto simp: stage_of_def stage_in_range_def Let_def dest: direct_status_range split: if_splits)
qed

text \<open>A verdict that does not contradict itself: passed is allowed, anything else is not.\<close>

definition consistent :: "outcome \<Rightarrow> bool" where
  "consistent oc = ((flow_result oc = ''passed'' \<and> flow_decision oc = ''allow'')
     \<or> (flow_result oc \<in> {''failed'', ''partial''} \<and> flow_decision oc \<in> {''deny'', ''manual_review''})
     \<or> oc = unavailable_outcome)"

definition category_safe :: "string \<Rightarrow> bool" where
  "category_safe c = fullmatch safe_diagnostic_category c"

lemma categories_safe: "c \<in> set (''accepted'' # ''runtime-outcome-unavailable'' # sd_jwt_failure_categories) \<Longrightarrow> category_safe c"
proof -
  have "list_all category_safe (''accepted'' # ''runtime-outcome-unavailable'' # sd_jwt_failure_categories)"
    unfolding category_safe_def by code_simp
  moreover assume "c \<in> set (''accepted'' # ''runtime-outcome-unavailable'' # sd_jwt_failure_categories)"
  ultimately show ?thesis by (simp only: list_all_iff)
qed

lemma failure_not_special:
  "''accepted'' \<notin> set sd_jwt_failure_categories" "''runtime-outcome-unavailable'' \<notin> set sd_jwt_failure_categories"
  by (simp_all add: sd_jwt_failure_categories_def)

lemma report_row_fields:
  "obj_get (report_row n oc st) ''test_name'' = JStr n"
  "obj_get (report_row n oc st) ''marty_flow_result'' = JStr (flow_result oc)"
  "obj_get (report_row n oc st) ''marty_flow_decision'' = JStr (flow_decision oc)"
  "obj_get (report_row n oc st) ''marty_flow_category'' = JStr (flow_category oc)"
  "keys_are (report_row n oc st) diagnostic_module_keys"
  by (cases st; simp add: report_row_def keys_are_def diagnostic_module_keys_def)+

lemma report_row_stage:
  "stage_in_range st \<Longrightarrow> in_strings (obj_get (report_row n oc st) ''official_failure_stage'') allowed_stages
     \<and> http_status_ok (obj_get (report_row n oc st) ''official_http_status'')
     \<and> (obj_get (report_row n oc st) ''official_failure_stage'' = JStr ''direct-post-callback-response'')
       = (obj_get (report_row n oc st) ''official_http_status'' \<noteq> JNull)"
  by (cases st) (simp_all add: report_row_def in_strings_def allowed_stages_def http_status_ok_def stage_in_range_def)

lemma allowed_consistent:
  assumes "known_outcome oc \<or> oc = unavailable_outcome"
  shows "outcome_allowed (JStr (flow_result oc)) (JStr (flow_decision oc)) (JStr (flow_category oc)) \<longleftrightarrow> consistent oc"
  using assms
proof
  assume un: "oc = unavailable_outcome"
  show ?thesis unfolding un consistent_def by (simp add: unavailable_outcome_def outcome_allowed_def)
next
  assume known: "known_outcome oc"
  then have ne: "oc \<noteq> unavailable_outcome" by (auto simp: known_outcome_def unavailable_outcome_def)
  have str: "in_strings (JStr x) xs = (x \<in> set xs)" for x xs by (simp add: in_strings_def)
  have un: "flow_result oc \<noteq> ''unavailable''" using known by (auto simp: known_outcome_def)
  show ?thesis
  proof (cases "flow_result oc = ''passed'' \<and> flow_decision oc = ''allow''")
    case True
    with known show ?thesis by (simp add: known_outcome_def outcome_allowed_def consistent_def)
  next
    case False
    with known have "flow_category oc \<in> set sd_jwt_failure_categories" by (simp only: known_outcome_def if_False)
    with False un ne show ?thesis unfolding outcome_allowed_def consistent_def str by simp blast
  qed
qed

lemma report_row_accepted:
  assumes name: "fullmatch safe_diagnostic_module n" and st: "stage_in_range st"
    and oc: "known_outcome oc \<or> oc = unavailable_outcome"
  shows "diagnostic_module (report_row n oc st) = Inr () \<longleftrightarrow> consistent oc"
proof -
  have "flow_category oc \<in> set (''accepted'' # ''runtime-outcome-unavailable'' # sd_jwt_failure_categories)"
    using oc by (auto simp: known_outcome_def unavailable_outcome_def split: if_splits)
  then have cat: "fullmatch safe_diagnostic_category (flow_category oc)"
    using categories_safe by (simp only: category_safe_def)
  have res: "in_strings (JStr (flow_result oc)) allowed_results" "in_strings (JStr (flow_decision oc)) allowed_decisions"
    using oc by (auto simp: known_outcome_def unavailable_outcome_def in_strings_def allowed_results_def allowed_decisions_def)
  have hash: "hash_in (JStr x) xs = Inr (in_strings (JStr x) xs)" for x xs
    by (simp add: hash_in_def hashable_def)
  from report_row_stage [OF st, of n oc] obtain x where
    stage: "obj_get (report_row n oc st) ''official_failure_stage'' = JStr x" by (cases st) (auto simp: report_row_def)
  have tests: "is_str (JStr y)" "str_of (JStr y) = y" for y by simp_all
  have "diagnostic_module (report_row n oc st) = Inr () \<longleftrightarrow>
      outcome_allowed (JStr (flow_result oc)) (JStr (flow_decision oc)) (JStr (flow_category oc))"
    unfolding diagnostic_module_def Let_def report_row_fields hash tests
    using name cat res report_row_stage [OF st, of n oc] report_row_fields(5)
    by (simp only: stage hash tests bindE_simps if_raise_eq_Inr not_not simp_thms if_True if_False)
  also have "\<dots> \<longleftrightarrow> consistent oc"
    using allowed_consistent [OF oc] .
  finally show ?thesis .
qed

lemma mapE_unit_OK: "isOK (mapE f xs) \<longleftrightarrow> (\<forall>x\<in>set xs. f x = Inr ())" for f :: "'a \<Rightarrow> unit result"
  unfolding isOK_iff mapE_unit by (metis length_replicate)

lemma report_modules: "arr_of (obj_get (report_of rows) ''modules'') = rows"
  by (simp add: report_of_def)

lemma report_accepted:
  assumes "rows \<noteq> []"
  shows "sd_jwt_diagnostic_report (report_of rows) = Inr (report_of rows) \<longleftrightarrow> isOK (mapE diagnostic_module rows)"
proof -
  have fields: "keys_are (report_of rows) [''schema'', ''source_policy'', ''modules'']"
    "obj_get (report_of rows) ''schema'' = JStr sd_jwt_diagnostic_schema"
    "obj_get (report_of rows) ''source_policy'' = JStr ''unmodified''" "obj_get (report_of rows) ''modules'' = JArr rows"
    by (simp_all add: report_of_def keys_are_def)
  have arr: "arr_of (JArr rows) = rows" "is_list (JArr rows)" by simp_all
  show ?thesis
    unfolding sd_jwt_diagnostic_report_def fields arr using fields(1) assms
    by (cases "mapE diagnostic_module rows") (simp_all add: arr del: json_tests)
qed

section \<open>The rows\<close>

text \<open>
  The reference, stated on the inputs. The flows the records name; what the log states of a flow; and
  the stage of a module, read off its entries among the official failures.
\<close>

definition recorded_flows :: "json result list \<Rightarrow> (string \<times> string) set" where
  "recorded_flows sources = {(flow, name). \<exists>v. Inr v \<in> set sources
     \<and> obj_get v ''flow_instance_id'' = JStr flow \<and> obj_get v ''test_name'' = JStr name}"

definition logged :: "string \<Rightarrow> string \<Rightarrow> string \<Rightarrow> string \<Rightarrow> string \<Rightarrow> bool" where
  "logged log flow result decision category \<longleftrightarrow>
     (let statements = filter (\<lambda>m. py_lower (group m ''flow'') = flow) (finditer policy_outcome log) in
      if statements = [] then result = ''unavailable'' \<and> decision = ''unavailable'' \<and> category = ''runtime-outcome-unavailable''
      else list_all (\<lambda>m. result = py_lower (group m ''result'') \<and> decision = py_lower (group m ''decision'')
        \<and> category = (if result = ''passed'' \<and> decision = ''allow'' then ''accepted'' else classify_failure (group m ''reason'')))
        statements)"

definition staged :: "json list \<Rightarrow> string \<Rightarrow> string \<Rightarrow> json \<Rightarrow> bool" where
  "staged entries name stage status \<longleftrightarrow>
     (let failures = filter (\<lambda>e. obj_get e ''module'' = JStr name) entries;
          direct = filter (\<lambda>e. obj_get e ''condition'' = JStr ''EnsureHttpStatusCodeIs200''
                       \<and> obj_get e ''block'' = JStr ''Authorization endpoint'') failures in
      if failures = [] then stage = ''no-official-failure-observed'' \<and> status = JNull
      else if direct = [] then stage = ''other-official-failure'' \<and> status = JNull
      else stage = ''direct-post-callback-response''
        \<and> (\<exists>i. status = JInt i \<and> 100 \<le> i \<and> i \<le> 599 \<and> obj_get (hd direct) ''http_status'' = status
             \<and> list_all (\<lambda>e. py_eq (obj_get e ''http_status'') status) direct))"

definition row_states :: "string \<Rightarrow> json list \<Rightarrow> string \<times> string \<Rightarrow> json \<Rightarrow> bool" where
  "row_states log entries fn row \<longleftrightarrow> (\<exists>result decision category stage status. row = JObj
     [(''test_name'', JStr (snd fn)), (''marty_flow_result'', JStr result), (''marty_flow_decision'', JStr decision),
      (''marty_flow_category'', JStr category), (''official_failure_stage'', JStr stage), (''official_http_status'', status)]
     \<and> logged log (fst fn) result decision category \<and> staged entries (snd fn) stage status)"

lemma mappings_exact:
  assumes "private_mappings sources = Inr d"
  shows "set d = recorded_flows sources \<and> distinct (map fst d)"
proof -
  from assms have "foldE (\<lambda>d src. bindE src (map_record d)) [] sources = Inr d"
    by (auto simp: private_mappings_def split: if_splits)
  from flow_table.run_table [OF this] have ok: "list_all source_ok sources" and d: "distinct (map fst d)"
    and s: "set d = source_entry ` set sources" by blast+
  have "source_entry ` set sources = recorded_flows sources"
  proof (intro set_eqI iffI)
    fix fn assume "fn \<in> source_entry ` set sources"
    then obtain src where src: "src \<in> set sources" "fn = source_entry src" by blast
    with ok obtain v where v: "src = Inr v" "record_ok v"
      by (cases src) (auto simp: list_all_iff source_ok_def dest: bspec)
    with src show "fn \<in> recorded_flows sources"
      by (auto simp: recorded_flows_def source_entry_def record_entry_def record_ok_def intro!: exI [of _ v])
  next
    fix fn assume "fn \<in> recorded_flows sources"
    then obtain v where "Inr v \<in> set sources" "fn = source_entry (Inr v)"
      by (auto simp: recorded_flows_def source_entry_def record_entry_def)
    then show "fn \<in> source_entry ` set sources" by blast
  qed
  with s d show ?thesis by simp
qed

lemma outcome_logged:
  assumes "runtime_outcomes log = Inr outcomes" and "oc = lookup_or unavailable_outcome outcomes flow"
  shows "logged log flow (flow_result oc) (flow_decision oc) (flow_category oc)"
proof -
  let ?ms = "filter (\<lambda>m. py_lower (group m ''flow'') = flow) (finditer policy_outcome log)"
  from assms(1) have "foldE map_outcome [] (finditer policy_outcome log) = Inr outcomes" by (simp add: runtime_outcomes_def)
  from outcome_table.run_table [OF this] have d: "distinct (map fst outcomes)"
    and s: "set outcomes = outcome_entry ` set (finditer policy_outcome log)" by blast+
  have at: "map_of outcomes flow = Some (match_outcome m)" if "m \<in> set ?ms" for m
  proof -
    from that s have "(flow, match_outcome m) \<in> set outcomes" by (auto simp: outcome_entry_def image_iff)
    with d show ?thesis by simp
  qed
  have none: "map_of outcomes flow = None" if "?ms = []"
    using that s by (auto simp: map_of_eq_None_iff outcome_entry_def filter_empty_conv)
  show ?thesis
  proof (cases "?ms = []")
    case True
    with none [OF True] assms(2) show ?thesis by (simp add: logged_def Let_def lookup_or_def unavailable_outcome_def)
  next
    case False
    have "oc = match_outcome m" if "m \<in> set ?ms" for m
      using at [OF that] assms(2) by (simp add: lookup_or_def)
    with False show ?thesis unfolding logged_def Let_def if_not_P [OF False] list_all_iff
      by (auto simp: match_outcome_def Let_def)
  qed
qed

lemma group_failures_exact:
  "foldE (\<lambda>d e. bindE (failure_entry e) (\<lambda>m. ret (put m ((case map_of d m of None \<Rightarrow> [] | Some xs \<Rightarrow> xs) @ [e]) d))) d es = Inr d'
   \<Longrightarrow> map_of d' m = (let new = filter (\<lambda>e. obj_get e ''module'' = JStr m) es in
         case map_of d m of None \<Rightarrow> if new = [] then None else Some new | Some old \<Rightarrow> Some (old @ new))"
proof (induction es arbitrary: d)
  case (Cons e es)
  then obtain n where n: "failure_entry e = Inr n"
    and rest: "foldE (\<lambda>d e. bindE (failure_entry e) (\<lambda>m. ret (put m ((case map_of d m of None \<Rightarrow> [] | Some xs \<Rightarrow> xs) @ [e]) d)))
      (put n ((case map_of d n of None \<Rightarrow> [] | Some xs \<Rightarrow> xs) @ [e]) d) es = Inr d'" by auto
  from n have "obj_get e ''module'' = JStr n" by (auto simp: failure_entry_def split: if_splits)
  with Cons.IH [OF rest] show ?case by (auto simp: Let_def split: option.split)
qed (simp add: Let_def split: option.split)

lemma stages_exact:
  "mapE (\<lambda>(m, es). bindE (stage_of es) (\<lambda>s. ret (m, s))) groups = Inr d \<Longrightarrow>
     case map_of groups m of None \<Rightarrow> map_of d m = None | Some es \<Rightarrow> \<exists>s. stage_of es = Inr s \<and> map_of d m = Some s"
  by (induction groups arbitrary: d) (auto split: option.splits)

lemma set_grows:
  "foldE (\<lambda>s v. if \<not> hashable v then raise TypeError else ret (if list_ex (py_eq v) s then s else s @ [v])) s vs = Inr t
   \<Longrightarrow> \<exists>u. t = s @ u \<and> (if u = [] then list_all (\<lambda>v. list_ex (py_eq v) s) vs else True)"
proof (induction vs arbitrary: s)
  case (Cons v vs)
  then have rest: "foldE (\<lambda>s v. if \<not> hashable v then raise TypeError else ret (if list_ex (py_eq v) s then s else s @ [v]))
      (if list_ex (py_eq v) s then s else s @ [v]) vs = Inr t" by (auto split: if_splits)
  show ?case
  proof (cases "list_ex (py_eq v) s")
    case True
    with Cons.IH [OF rest] obtain u where "t = s @ u" "if u = [] then list_all (\<lambda>v. list_ex (py_eq v) s) vs else True"
      by (simp only: if_True) blast
    with True show ?thesis by (intro exI [of _ u]) simp
  next
    case False
    with Cons.IH [OF rest] obtain u where "t = (s @ [v]) @ u" by (simp only: if_False) blast
    then show ?thesis by (intro exI [of _ "v # u"]) simp
  qed
qed simp

lemma json_set_single:
  assumes "json_set (v # vs) = Inr [x]"
  shows "v = x \<and> list_all (\<lambda>w. py_eq w x) vs"
proof -
  from assms have "foldE (\<lambda>s v. if \<not> hashable v then raise TypeError else ret (if list_ex (py_eq v) s then s else s @ [v])) [v] vs = Inr [x]"
    by (auto simp: json_set_def split: if_splits)
  from set_grows [OF this] obtain u where "[x] = [v] @ u" "if u = [] then list_all (\<lambda>w. list_ex (py_eq w) [v]) vs else True" by blast
  then show ?thesis by simp
qed

lemma direct_status_exact:
  assumes "direct_status es = Inr i" and "es \<noteq> []"
  shows "obj_get (hd es) ''http_status'' = JInt i \<and> list_all (\<lambda>e. py_eq (obj_get e ''http_status'') (JInt i)) es \<and> 100 \<le> i \<and> i \<le> 599"
proof -
  from assms(1) obtain statuses where s: "json_set (map (\<lambda>e. obj_get e ''http_status'') es) = Inr statuses"
    and c: "(case statuses of [JInt i] \<Rightarrow> if i < 100 \<or> 599 < i
         then raise (ValueError ''Official direct-post failure HTTP status is out of range'') else ret i
     | _ \<Rightarrow> raise (ValueError ''Official direct-post failures have conflicting or invalid HTTP status'')) = Inr i"
    by (auto simp: direct_status_def)
  from c have x: "statuses = [JInt i]" "100 \<le> i" "i \<le> 599"
    by (auto split: list.splits json.splits if_splits)
  obtain e es' where es: "es = e # es'" using assms(2) by (cases es) auto
  from json_set_single [of "obj_get e ''http_status''" "map (\<lambda>e. obj_get e ''http_status'') es'" "JInt i"] s x(1) es
  have "obj_get e ''http_status'' = JInt i" "list_all (\<lambda>w. py_eq w (JInt i)) (map (\<lambda>e. obj_get e ''http_status'') es')" by auto
  with es x(2,3) show ?thesis by (simp add: list.pred_map comp_def)
qed

definition stage_name :: "stage \<Rightarrow> string \<times> json" where
  "stage_name st = (case st of DirectPost i \<Rightarrow> (''direct-post-callback-response'', JInt i)
     | OtherFailure \<Rightarrow> (''other-official-failure'', JNull) | NoFailure \<Rightarrow> (''no-official-failure-observed'', JNull))"

lemma official_staged:
  assumes "official_failure_outcomes (Inr (JArr entries)) = Inr official" and "st = lookup_or NoFailure official name"
  shows "staged entries name (fst (stage_name st)) (snd (stage_name st))"
proof -
  let ?es = "filter (\<lambda>e. obj_get e ''module'' = JStr name) entries"
  from assms(1) obtain groups where g: "group_failures entries = Inr groups"
    and o: "mapE (\<lambda>(m, es). bindE (stage_of es) (\<lambda>s. ret (m, s))) groups = Inr official"
    by (auto simp: official_failure_outcomes_def)
  from group_failures_exact [OF g [unfolded group_failures_def], of name]
  have m: "map_of groups name = (if ?es = [] then None else Some ?es)" by (simp add: Let_def)
  show ?thesis
  proof (cases "?es = []")
    case True
    with m stages_exact [OF o, of name] assms(2) have "st = NoFailure" by (simp add: lookup_or_def)
    with True show ?thesis by (simp add: staged_def stage_name_def Let_def)
  next
    case False
    with m stages_exact [OF o, of name] assms(2) have s: "stage_of ?es = Inr st" by (auto simp: lookup_or_def)
    show ?thesis
    proof (cases "filter is_direct_post ?es = []")
      case True
      with s have "st = OtherFailure" by (simp add: stage_of_def)
      with True False show ?thesis
        unfolding staged_def Let_def is_direct_post_def direct_post_condition_def direct_post_block_def
        by (simp only: if_True if_False stage_name_def stage.case fst_conv snd_conv simp_thms)
    next
      case d: False
      with s obtain i where i: "direct_status (filter is_direct_post ?es) = Inr i" "st = DirectPost i" by (auto simp: stage_of_def Let_def)
      from direct_status_exact [OF i(1) d] d False i(2) show ?thesis
        unfolding staged_def Let_def is_direct_post_def direct_post_condition_def direct_post_block_def
        by (simp only: if_True if_False stage_name_def stage.case fst_conv snd_conv simp_thms) blast
    qed
  qed
qed

lemma grouped_modules:
  "foldE (\<lambda>d e. bindE (failure_entry e) (\<lambda>m. ret (put m ((case map_of d m of None \<Rightarrow> [] | Some xs \<Rightarrow> xs) @ [e]) d))) d es = Inr d'
   \<Longrightarrow> list_all (\<lambda>e. \<exists>n. obj_get e ''module'' = JStr n) es"
  by (induction es arbitrary: d) (auto simp: failure_entry_def split: if_splits)

lemma official_named:
  assumes "official_failure_outcomes (Inr (JArr entries)) = Inr official" and "e \<in> set entries"
  shows "\<exists>n. obj_get e ''module'' = JStr n \<and> n \<in> fst ` set official"
proof -
  from assms(1) obtain groups where g: "group_failures entries = Inr groups"
    and o: "mapE (\<lambda>(m, es). bindE (stage_of es) (\<lambda>s. ret (m, s))) groups = Inr official"
    by (auto simp: official_failure_outcomes_def)
  from grouped_modules [OF g [unfolded group_failures_def]] assms(2) obtain n where n: "obj_get e ''module'' = JStr n"
    by (auto simp: list_all_iff)
  with assms(2) have "filter (\<lambda>e. obj_get e ''module'' = JStr n) entries \<noteq> []" by (auto simp: filter_empty_conv)
  with group_failures_exact [OF g [unfolded group_failures_def], of n] stages_exact [OF o, of n]
  have "map_of official n \<noteq> None" by (auto simp: Let_def)
  with n show ?thesis by (auto simp: map_of_eq_None_iff)
qed

lemma report_row_states:
  assumes "runtime_outcomes log = Inr outcomes" and "official_failure_outcomes (Inr (JArr entries)) = Inr official"
  shows "row_states log entries (flow, name)
    (report_row name (lookup_or unavailable_outcome outcomes flow) (lookup_or NoFailure official name))"
proof -
  let ?oc = "lookup_or unavailable_outcome outcomes flow" and ?st = "lookup_or NoFailure official name"
  have "stage_fields st = [(''official_failure_stage'', JStr (fst (stage_name st))), (''official_http_status'', snd (stage_name st))]" for st
    by (cases st) (simp_all add: stage_name_def)
  then have "report_row name ?oc ?st = JObj
     [(''test_name'', JStr name), (''marty_flow_result'', JStr (flow_result ?oc)), (''marty_flow_decision'', JStr (flow_decision ?oc)),
      (''marty_flow_category'', JStr (flow_category ?oc)), (''official_failure_stage'', JStr (fst (stage_name ?st))),
      (''official_http_status'', snd (stage_name ?st))]" by (simp add: report_row_def)
  with outcome_logged [OF assms(1) refl] official_staged [OF assms(2) refl] show ?thesis
    unfolding row_states_def fst_conv snd_conv by blast
qed

text \<open>A row contradicts itself when it is passed but not allowed, or allowed without having passed.\<close>

definition coherent :: "json \<Rightarrow> bool" where
  "coherent row = ((obj_get row ''marty_flow_result'' = JStr ''passed'') = (obj_get row ''marty_flow_decision'' = JStr ''allow''))"

lemma consistent_coherent:
  assumes "known_outcome oc \<or> oc = unavailable_outcome"
  shows "consistent oc \<longleftrightarrow> coherent (report_row n oc st)"
proof -
  have "consistent oc \<longleftrightarrow> (flow_result oc = ''passed'') = (flow_decision oc = ''allow'')"
    using assms by (auto simp: consistent_def known_outcome_def unavailable_outcome_def)
  then show ?thesis by (simp add: coherent_def report_row_fields)
qed

text \<open>
  Claim C23. The audit reports what was recorded: its modules are one row for each recorded flow, in
  the order of the official names, and each row states the flow's own verdict, taken from the log's
  statements of that flow (or unavailable if there is none), and the stage of its module, taken from the
  official failures of that module: none observed, a failure elsewhere, or the direct post with the one
  HTTP status its failures carry. No official failure is of a module without a recorded flow. And the
  public summary's validator accepts the report, unchanged, exactly when no row has a verdict that
  contradicts itself (passed but not allowed, or allowed without having passed).
\<close>

theorem sd_jwt_audit_accepted:
  "case sd_jwt_audit sources log diagnostics of
     Inl e \<Rightarrow> True
   | Inr report \<Rightarrow> \<exists>flows entries rows.
       set flows = recorded_flows sources \<and> distinct (map fst flows) \<and> sorted (map snd flows)
       \<and> diagnostics = Inr (JArr entries)
       \<and> report = JObj [(''schema'', JStr ''elevenid.oidf-sd-jwt-diagnostic-audit/v2''), (''source_policy'', JStr ''unmodified''),
           (''modules'', JArr rows)]
       \<and> list_all2 (row_states log entries) flows rows
       \<and> list_all (\<lambda>e. \<exists>flow name. obj_get e ''module'' = JStr name \<and> (flow, name) \<in> set flows) entries
       \<and> (sd_jwt_diagnostic_report report = Inr report \<longleftrightarrow> list_all coherent rows)"
proof (cases "sd_jwt_audit sources log diagnostics")
  case (Inr report)
  then obtain mappings outcomes official where
    maps: "private_mappings sources = Inr mappings" and outs: "runtime_outcomes log = Inr outcomes"
    and off: "official_failure_outcomes diagnostics = Inr official"
    and covered: "list_all (\<lambda>m. m \<in> snd ` set mappings) (map fst official)"
    and report: "report = report_of (map (\<lambda>(flow, test_name).
              report_row test_name (lookup_or unavailable_outcome outcomes flow) (lookup_or NoFailure official test_name))
            (sort_key snd mappings))"
    unfolding sd_jwt_audit_def by (auto split: if_splits)
  from off obtain entries where diag: "diagnostics = Inr (JArr entries)"
    by (cases diagnostics) (auto simp: official_failure_outcomes_def split: if_splits)
  note off = off [unfolded diag]
  let ?row = "\<lambda>(flow, test_name).
              report_row test_name (lookup_or unavailable_outcome outcomes flow) (lookup_or NoFailure official test_name)"
  have ne: "mappings \<noteq> []" using maps by (auto simp: private_mappings_def split: if_splits)
  have row: "diagnostic_module (?row fn) = Inr () \<longleftrightarrow> coherent (?row fn)"
    if "fn \<in> set mappings" for fn
  proof -
    have "fullmatch safe_diagnostic_module (snd fn)" using mappings_ok [OF maps] that by (cases fn) simp
    moreover have "stage_in_range (lookup_or NoFailure official (snd fn))"
      using official_in_range [OF off] by (auto simp: lookup_or_def stage_in_range_def split: option.split)
    moreover have "known_outcome (lookup_or unavailable_outcome outcomes (fst fn))
        \<or> lookup_or unavailable_outcome outcomes (fst fn) = unavailable_outcome"
      using runtime_outcomes_known [OF outs] by (auto simp: lookup_or_def split: option.split)
    ultimately show ?thesis using report_row_accepted consistent_coherent by (cases fn) simp
  qed
  have "map ?row (sort_key snd mappings) \<noteq> []" 
    using ne length_sort [of snd mappings] by (simp only: length_0_conv [symmetric] length_map not_False_eq_True)
  from report_accepted [OF this] have "sd_jwt_diagnostic_report report = Inr report
      \<longleftrightarrow> isOK (mapE diagnostic_module (map ?row (sort_key snd mappings)))" unfolding report .
  also have "\<dots> \<longleftrightarrow> (\<forall>fn\<in>set mappings. diagnostic_module (?row fn) = Inr ())"
    by (simp only: mapE_unit_OK list.set_map set_sort ball_simps)
  also have "\<dots> \<longleftrightarrow> list_all coherent (map ?row (sort_key snd mappings))"
    using row by (simp add: list_all_iff)
  finally have accepted: "sd_jwt_diagnostic_report report = Inr report \<longleftrightarrow> list_all coherent (map ?row (sort_key snd mappings))" .
  have rows: "list_all2 (row_states log entries) (sort_key snd mappings) (map ?row (sort_key snd mappings))"
    using report_row_states [OF outs off] by (auto simp: list_all2_conv_all_nth split: prod.split)
  have "list_all (\<lambda>e. \<exists>flow name. obj_get e ''module'' = JStr name \<and> (flow, name) \<in> set (sort_key snd mappings)) entries"
    using official_named [OF off] covered by (fastforce simp: list_all_iff)
  moreover have "distinct (map fst (sort_key snd mappings))"
    using mappings_exact [OF maps] unfolding distinct_map distinct_sort set_sort by blast
  moreover have "report = JObj [(''schema'', JStr ''elevenid.oidf-sd-jwt-diagnostic-audit/v2''), (''source_policy'', JStr ''unmodified''),
      (''modules'', JArr (map ?row (sort_key snd mappings)))]"
    unfolding report by (simp add: report_of_def sd_jwt_diagnostic_schema_def)
  ultimately show ?thesis unfolding Inr sum.case using mappings_exact [OF maps] diag rows accepted
    by (intro exI [of _ "sort_key snd mappings"] exI [of _ entries] exI [of _ "map ?row (sort_key snd mappings)"]) simp
qed simp

end
