(* ===== verification/Review_Crypto.thy ===== *)
theory Review_Crypto
  imports Py_Files Conformance_Evidence
begin

text \<open>
  \<^verbatim>\<open>scripts/official_review_crypto.py\<close>: installing the pinned encryption tool. The host is a map
  of files; \<open>linked\<close> says which paths are symbolic links. Opening an archive, parsing JSON and
  the download are parameters. File modes are left out.
\<close>

definition max_archive :: nat where "max_archive = 64 * 1024 * 1024"

definition read_regular :: "nat \<Rightarrow> entry option \<Rightarrow> bytes result" where
  "read_regular maximum found = (case found of
     Some (Regular b) \<Rightarrow>
       if maximum < length b then raise (ValueError ''review input must be a bounded regular file'')
       else let v = take (maximum + 1) b in
         if maximum < length v then raise (ValueError ''review input exceeds its size limit'') else ret v
   | _ \<Rightarrow> raise (ValueError ''review input must be a bounded regular file''))"

lemma read_regular_Inr: "read_regular m found = Inr b \<longleftrightarrow> found = Some (Regular b) \<and> length b \<le> m"
  by (auto simp: read_regular_def Let_def split: option.split entry.split)

definition found_at :: "(string \<Rightarrow> bool) \<Rightarrow> string \<Rightarrow> 'x host \<Rightarrow> entry option" where
  "found_at linked p w = (if linked p then Some (Link None) else case files w p of
     None \<Rightarrow> None | Some (File b) \<Rightarrow> Some (Regular b) | Some Dir \<Rightarrow> Some Folder)"

section \<open>The pinned asset\<close>

definition fullmatch_json :: "rx \<Rightarrow> json \<Rightarrow> bool result" where
  "fullmatch_json r v = (case v of JStr s \<Rightarrow> ret (fullmatch r s) | _ \<Rightarrow> raise TypeError)"

definition tool_version_rx :: rx where
  "tool_version_rx = seqs [Lit ''v'', Many 1 (Cls is_digit), Lit ''.'', Many 1 (Cls is_digit), Lit ''.'', Many 1 (Cls is_digit)]"

definition tool_repository :: string where "tool_repository = ''https://github.com/FiloSottile/age''"

definition asset_name :: "json \<Rightarrow> string \<Rightarrow> string" where
  "asset_name manifest target = ''age-'' @ str_of (obj_get manifest ''version'') @ ''-'' @ target
     @ (if target = ''windows-amd64'' then ''.zip'' else ''.tar.gz'')"

definition asset :: "json \<Rightarrow> string \<Rightarrow> json result" where
  "asset manifest target =
     (if \<not> is_dict manifest then raise AttributeError
      else if obj_get manifest ''schema'' \<noteq> JStr ''elevenid.review-encryption-tool/v1''
         \<or> obj_get manifest ''repository'' \<noteq> JStr tool_repository
      then raise (ValueError ''review encryptor manifest is invalid'')
      else bindE (fullmatch_json tool_version_rx (obj_get_default manifest ''version'' (JStr []))) (\<lambda>ok.
        if \<not> ok then raise (ValueError ''review encryptor manifest is invalid'')
        else bindE (py_key manifest ''assets'') (\<lambda>assets. bindE (py_key assets target) (\<lambda>selected.
          if \<not> is_dict selected then raise AttributeError
          else if obj_get selected ''name'' \<noteq> JStr (asset_name manifest target)
          then raise (ValueError ''review encryptor asset is not pinned'')
          else bindE (fullmatch_json hex64_rx (obj_get_default selected ''sha256'' (JStr []))) (\<lambda>ok.
            if \<not> ok then raise (ValueError ''review encryptor asset is not pinned'') else ret selected)))))"

section \<open>The archive's members\<close>

text \<open>A member as the archive libraries show it; a later member of the same name wins.\<close>

datatype kind = PlainFile | Directory | Symlink | OtherKind

record packed =
  pk_kind :: kind
  pk_size :: nat
  pk_data :: "bytes result"

type_synonym opened = "(string \<times> packed) list"

definition member_named :: "opened \<Rightarrow> string \<Rightarrow> packed result" where
  "member_named a n = (case map_of (rev a) n of None \<Rightarrow> raise (KeyError n) | Some m \<Rightarrow> ret m)"

definition tool_names :: "string \<Rightarrow> string list" where
  "tool_names target = (if target = ''windows-amd64'' then [''age.exe'', ''age-keygen.exe''] else [''age'', ''age-keygen''])"

definition zip_tool :: "opened \<Rightarrow> string \<Rightarrow> (string \<times> bytes) result" where
  "zip_tool a n = bindE (member_named a (''age/'' @ n)) (\<lambda>m.
     if pk_kind m = Directory \<or> pk_kind m = Symlink \<or> max_archive < pk_size m
     then raise (ValueError ''review encryptor archive member is not a bounded regular file'')
     else bindE (pk_data m) (\<lambda>b. ret (n, b)))"

text \<open>\<open>extractfile\<close> returns no stream for what is not a file.\<close>

definition tar_tool :: "opened \<Rightarrow> string \<Rightarrow> (string \<times> bytes) result" where
  "tar_tool a n = bindE (member_named a (''age/'' @ n)) (\<lambda>m.
     if pk_kind m \<noteq> PlainFile \<or> max_archive < pk_size m
     then raise (ValueError ''review encryptor archive member is not a bounded regular file'')
     else bindE (pk_data m) (\<lambda>b. ret (n, take (max_archive + 1) b)))"

record archive_tools =
  open_zip :: "bytes \<Rightarrow> opened result"
  open_tar_gz :: "bytes \<Rightarrow> opened result"

definition binary_members :: "archive_tools \<Rightarrow> bytes \<Rightarrow> string \<Rightarrow> (string \<times> bytes) list result" where
  "binary_members lib archive target =
     bindE (if target = ''windows-amd64''
            then bindE (open_zip lib archive) (\<lambda>a. mapE (zip_tool a) (tool_names target))
            else bindE (open_tar_gz lib archive) (\<lambda>a. mapE (tar_tool a) (tool_names target))) (\<lambda>result.
       if list_ex (\<lambda>(n, b). b = [] \<or> max_archive < length b) result
       then raise (ValueError ''review encryptor binary size is invalid'') else ret result)"

section \<open>Installation\<close>

text \<open>\<open>open(p, "x")\<close>: a file that must not exist yet.\<close>

definition create_file :: "(string \<Rightarrow> bool) \<Rightarrow> string \<Rightarrow> bytes \<Rightarrow> ('x host, unit) io" where
  "create_file linked p b = (\<lambda>w. if linked p \<or> path_exists p w then (Inl (FileExistsError p), w) else write_bytes p b w)"

definition tool_url :: "json \<Rightarrow> json \<Rightarrow> string" where
  "tool_url manifest selected = str_of (obj_get manifest ''repository'') @ ''/releases/download/''
     @ str_of (obj_get manifest ''version'') @ ''/'' @ str_of (obj_get selected ''name'')"

definition tool_archive :: "(string \<Rightarrow> bytes result) \<Rightarrow> (string \<Rightarrow> bool) \<Rightarrow> string \<Rightarrow> string \<Rightarrow> ('x host, bytes) io" where
  "tool_archive download linked cache u = bindIO (ask (found_at linked cache)) (\<lambda>found. liftIO (case found of
     Some e \<Rightarrow> read_regular max_archive (Some e)
   | None \<Rightarrow> bindE (download u) (\<lambda>b. ret (take (max_archive + 1) b))))"

definition keep_or_create :: "(string \<Rightarrow> bool) \<Rightarrow> (bytes \<Rightarrow> bool result) \<Rightarrow> exn \<Rightarrow> string \<Rightarrow> bytes \<Rightarrow> ('x host, unit) io" where
  "keep_or_create linked same e p b = bindIO (ask (found_at linked p)) (\<lambda>found. case found of
     None \<Rightarrow> create_file linked p b
   | Some _ \<Rightarrow> liftIO (bindE (read_regular max_archive found) (\<lambda>old.
       bindE (same old) (\<lambda>eq. if \<not> eq then raise e else ret ()))))"

fun place_tools :: "(string \<Rightarrow> bool) \<Rightarrow> string \<Rightarrow> (string \<times> bytes) list \<Rightarrow> ('x host, unit) io" where
  "place_tools linked destination [] = retIO ()"
| "place_tools linked destination ((n, b) # ms) =
     bindIO (keep_or_create linked (\<lambda>old. ret (old = b))
        (ValueError ''existing review encryptor was changed; preserving it'') (path_join destination n) b)
       (\<lambda>_. place_tools linked destination ms)"

definition install_receipt :: "json \<Rightarrow> string \<Rightarrow> json \<Rightarrow> (string \<times> bytes) list \<Rightarrow> json" where
  "install_receipt manifest target selected members = JObj
     [(''schema'', JStr ''elevenid.review-encryptor-install/v1''), (''version'', obj_get manifest ''version''),
      (''target'', JStr target), (''archive_sha256'', obj_get selected ''sha256''),
      (''binaries'', JObj (map (\<lambda>(n, b). (n, JStr (hexdigest b))) members))]"

record install_env =
  ie_download :: "string \<Rightarrow> bytes result"
  ie_loads :: "bytes \<Rightarrow> json result"
  ie_lib :: archive_tools
  ie_linked :: "string \<Rightarrow> bool"

definition install :: "install_env \<Rightarrow> json \<Rightarrow> string \<Rightarrow> string \<Rightarrow> ('x host, json) io" where
  "install ie manifest target destination =
     bindIO (liftIO (asset manifest target)) (\<lambda>selected.
     if ie_linked ie destination then raiseIO (ValueError ''review encryptor destination must not be a symlink'')
     else bindIO (mkdirs destination True) (\<lambda>_.
       let cache = path_join destination (str_of (obj_get selected ''name'')) in
       bindIO (tool_archive (ie_download ie) (ie_linked ie) cache (tool_url manifest selected)) (\<lambda>archive.
       if max_archive < length archive \<or> JStr (hexdigest archive) \<noteq> obj_get selected ''sha256''
       then raiseIO (ValueError ''review encryptor archive differs from its pinned digest'')
       else bindIO (liftIO (binary_members (ie_lib ie) archive target)) (\<lambda>members.
       bindIO (ask (path_exists cache)) (\<lambda>cached.
       bindIO (if cached then retIO () else create_file (ie_linked ie) cache archive) (\<lambda>_.
       bindIO (place_tools (ie_linked ie) destination members) (\<lambda>_.
       let receipt = install_receipt manifest target selected members in
       bindIO (keep_or_create (ie_linked ie) (\<lambda>old. bindE (ie_loads ie old) (\<lambda>v. ret (py_eq v receipt)))
          (ValueError ''existing review encryptor custody differs; preserving it'')
          (path_join destination ''install-receipt.json'') (json_file receipt)) (\<lambda>_. retIO receipt))))))))"

section \<open>The script\<close>

definition tool_target :: "string \<Rightarrow> string \<Rightarrow> string option" where
  "tool_target system machine =
     (if py_lower machine \<notin> {''amd64'', ''x86_64''} then None
      else map_of [(''linux'', ''linux-amd64''), (''windows'', ''windows-amd64'')] (py_lower system))"

definition install_failure :: "exn \<Rightarrow> bool" where
  "install_failure e = (is_OSError e \<or> is_ValueError e \<or> (case e of KeyError _ \<Rightarrow> True | TarError \<Rightarrow> True | BadZipFile \<Rightarrow> True | _ \<Rightarrow> False))"

definition install_main :: "install_env \<Rightarrow> string \<Rightarrow> string \<Rightarrow> entry option \<Rightarrow> string \<Rightarrow> ('x host, int) io" where
  "install_main ie system machine manifest_file destination = (case tool_target system machine of
     None \<Rightarrow> raiseIO (SystemExit ''review encryptor supports only the pinned amd64 platforms'')
   | Some target \<Rightarrow> tryIO
       (bindIO (liftIO (bindE (read_regular max_archive manifest_file) (ie_loads ie))) (\<lambda>manifest.
        bindIO (install ie manifest target destination) (\<lambda>_. retIO 0)))
       (\<lambda>e. if install_failure e then retIO 1 else raiseIO e))"

end
