(* ===== verification/Review_Crypto_Props.thy ===== *)
theory Review_Crypto_Props
  imports Review_Crypto
begin

text \<open>
  The installer never changes what is there, installs the members of the pinned archive, and
  a second installation finds everything in place without a download.
\<close>

section \<open>Nothing is overwritten\<close>

abbreviation extends :: "(string \<rightharpoonup> node) \<Rightarrow> 'x host \<Rightarrow> bool" where
  "extends fs w \<equiv> fs \<subseteq>\<^sub>m files w"

lemma extends_set: "extends fs w \<Longrightarrow> files w p = None \<Longrightarrow> extends fs (set_node p n w)"
  unfolding map_le_def by (metis domIff files_set_node)

lemma extends_create: "keeps (extends fs) (create_file linked p b)"
  unfolding keeps_def create_file_def
  by (auto simp: path_exists_def write_bytes_def extends_set)

lemma extends_mkdirs: "keeps (extends fs) (mkdirs p ok)"
  unfolding keeps_def
proof (intro allI impI)
  fix w :: "'x host" assume fs: "extends fs w"
  obtain r w' where m: "mkdirs p ok w = (r, w')" by (cases "mkdirs p ok w")
  from fs mkdirs_keeps_files [OF m] show "extends fs (snd (mkdirs p ok w))"
    unfolding m map_le_def by (metis domD snd_conv)
qed

lemma extends_ask: "keeps I (ask f)"
  by (simp add: keeps_def ask_def)

lemma extends_keep_or_create: "keeps (extends fs) (keep_or_create linked same e p b)"
  unfolding keep_or_create_def
  by (intro keeps_bindIO extends_ask) (auto intro: extends_create split: option.split)

lemma extends_place_tools: "keeps (extends fs) (place_tools linked d ms)"
  by (induction ms) (auto intro!: extends_keep_or_create)

lemma extends_archive: "keeps (extends fs) (tool_archive dl linked cache u)"
  unfolding tool_archive_def by (intro keeps_bindIO extends_ask) auto

lemma extends_install: "keeps (extends fs) (install ie manifest target d)"
  unfolding install_def Let_def
  by (intro keeps_bindIO keeps_if extends_mkdirs extends_archive extends_ask extends_create extends_place_tools
      extends_keep_or_create keeps_basic)

lemma extends_file: "extends fs w \<Longrightarrow> fs p = Some n \<Longrightarrow> files w p = Some n"
  unfolding map_le_def by (metis domI)

lemma kept: "keeps (extends (files w)) m \<Longrightarrow> m w = (r, w') \<Longrightarrow> files w p = Some n \<Longrightarrow> files w' p = Some n"
  using extends_file keepsD [of "extends (files w)" m w r w'] map_le_refl by metis

section \<open>What a successful installation leaves\<close>

definition in_place :: "(string \<Rightarrow> bool) \<Rightarrow> string \<Rightarrow> bytes \<Rightarrow> 'x host \<Rightarrow> bool" where
  "in_place linked p b w = (\<not> linked p \<and> files w p = Some (File b))"

lemma in_place_kept: "in_place linked p b w \<Longrightarrow> keeps (extends (files w)) m \<Longrightarrow> m w = (r, w') \<Longrightarrow> in_place linked p b w'"
  by (auto simp: in_place_def intro: kept)

lemma found_in_place: "found_at linked p w = Some (Regular b) \<longleftrightarrow> in_place linked p b w"
  by (auto simp: found_at_def in_place_def split: option.split node.split)

lemma create_ok: "create_file linked p b w = (Inr u, w') \<Longrightarrow> in_place linked p b w'"
  by (auto simp: create_file_def in_place_def write_bytes_OK split: if_splits)

lemma keep_or_create_ok:
  assumes "keep_or_create linked same e p b w = (Inr u, w')"
  shows "\<exists>old. in_place linked p old w' \<and> (old = b \<or> length old \<le> max_archive \<and> same old = Inr True)"
proof (cases "found_at linked p w")
  case None
  with assms have "create_file linked p b w = (Inr u, w')"
    by (auto simp: keep_or_create_def bindIO_OK ask_OK)
  then show ?thesis using create_ok by blast
next
  case (Some found)
  with assms obtain old where "read_regular max_archive (Some found) = Inr old" "same old = Inr True" "w' = w"
    by (auto simp: keep_or_create_def bindIO_OK ask_OK)
  with Some show ?thesis by (auto simp: read_regular_Inr found_in_place)
qed

lemma place_tools_ok:
  "place_tools linked d ms w = (Inr u, w') \<Longrightarrow> list_all (\<lambda>(n, b). in_place linked (path_join d n) b w') ms"
proof (induction ms arbitrary: w)
  case (Cons m ms)
  obtain n b where m: "m = (n, b)" by (cases m)
  from Cons.prems m obtain w1 where
    first: "keep_or_create linked (\<lambda>old. ret (old = b))
        (ValueError ''existing review encryptor was changed; preserving it'') (path_join d n) b w = (Inr (), w1)"
    and rest: "place_tools linked d ms w1 = (Inr u, w')"
    by (auto simp: bindIO_OK)
  from keep_or_create_ok [OF first] have "in_place linked (path_join d n) b w1" by auto
  then have "in_place linked (path_join d n) b w'" using in_place_kept extends_place_tools rest by blast
  with Cons.IH [OF rest] m show ?case by simp
qed simp

lemma archive_ok:
  assumes "tool_archive dl linked cache u w = (Inr a, w')"
  shows "w' = w \<and> (in_place linked cache a w \<or> found_at linked cache w = None)"
  using assms by (auto simp: tool_archive_def bindIO_OK ask_OK read_regular_Inr found_in_place split: option.splits)

lemma cache_ok:
  assumes "tool_archive dl linked cache u w = (Inr a, w)"
    and "(if path_exists cache w then retIO () else create_file linked cache a) w = (Inr x, w')"
  shows "in_place linked cache a w'"
proof (cases "in_place linked cache a w")
  case True
  with assms(2) show ?thesis by (simp add: path_exists_def in_place_def)
next
  case False
  with archive_ok [OF assms(1)] have "\<not> path_exists cache w"
    by (auto simp: found_at_def path_exists_def split: if_splits option.splits node.splits)
  with assms(2) show ?thesis by (simp add: create_ok)
qed

lemma if_raiseIO_OK: "(if c then raiseIO e else m) w = (Inr x, w') \<longleftrightarrow> \<not> c \<and> m w = (Inr x, w')"
  by simp

record installed =
  in_selected :: json
  in_archive :: bytes
  in_members :: "(string \<times> bytes) list"

definition installed_ok :: "install_env \<Rightarrow> json \<Rightarrow> string \<Rightarrow> string \<Rightarrow> 'x host \<Rightarrow> json \<Rightarrow> installed \<Rightarrow> bool" where
  "installed_ok ie manifest target d w receipt i =
     (asset manifest target = Inr (in_selected i) \<and> \<not> ie_linked ie d \<and> files w d = Some Dir
      \<and> in_place (ie_linked ie) (path_join d (str_of (obj_get (in_selected i) ''name''))) (in_archive i) w
      \<and> length (in_archive i) \<le> max_archive \<and> JStr (hexdigest (in_archive i)) = obj_get (in_selected i) ''sha256''
      \<and> binary_members (ie_lib ie) (in_archive i) target = Inr (in_members i)
      \<and> list_all (\<lambda>(n, b). in_place (ie_linked ie) (path_join d n) b w) (in_members i)
      \<and> receipt = install_receipt manifest target (in_selected i) (in_members i))"

lemma mkdirs_Dir: "mkdirs p True w = (Inr u, w') \<Longrightarrow> files w' p = Some Dir"
  by (auto simp: mkdirs_def split: option.splits node.splits if_splits)

lemma install_ok:
  assumes "install ie manifest target d w = (Inr receipt, w')"
  shows "\<exists>i old. installed_ok ie manifest target d w' receipt i
    \<and> in_place (ie_linked ie) (path_join d ''install-receipt.json'') old w'
    \<and> (old = json_file receipt \<or> length old \<le> max_archive \<and> bindE (ie_loads ie old) (\<lambda>v. ret (py_eq v receipt)) = Inr True)"
proof -
  let ?l = "ie_linked ie"
  from assms obtain sel w1 a ms w2 w3 w4 where
    sel: "asset manifest target = Inr sel" and nl: "\<not> ?l d" and mk: "mkdirs d True w = (Inr (), w1)"
    and arch: "tool_archive (ie_download ie) ?l (path_join d (str_of (obj_get sel ''name''))) (tool_url manifest sel) w1 = (Inr a, w2)"
    and size: "\<not> max_archive < length a" and dig: "JStr (hexdigest a) = obj_get sel ''sha256''"
    and ms: "binary_members (ie_lib ie) a target = Inr ms"
    and cache: "(if path_exists (path_join d (str_of (obj_get sel ''name''))) w2 then retIO ()
        else create_file ?l (path_join d (str_of (obj_get sel ''name''))) a) w2 = (Inr (), w3)"
    and tools: "place_tools ?l d ms w3 = (Inr (), w4)"
    and rec: "keep_or_create ?l (\<lambda>old. bindE (ie_loads ie old) (\<lambda>v. ret (py_eq v receipt)))
          (ValueError ''existing review encryptor custody differs; preserving it'')
          (path_join d ''install-receipt.json'') (json_file receipt) w4 = (Inr (), w')"
    and receipt: "receipt = install_receipt manifest target sel ms"
    unfolding install_def Let_def by (auto simp: bindIO_OK ask_OK if_raiseIO_OK)
  have w2: "w2 = w1" using archive_ok [OF arch] by blast
  from cache_ok [OF arch [unfolded w2] cache [unfolded w2]] have c3: "in_place ?l (path_join d (str_of (obj_get sel ''name''))) a w3" .
  have d1: "files w1 d = Some Dir" using mkdirs_Dir [OF mk] .
  have d3: "files w3 d = Some Dir"
  proof (rule kept)
    show "keeps (extends (files w1)) (if path_exists (path_join d (str_of (obj_get sel ''name''))) w1 then retIO ()
        else create_file ?l (path_join d (str_of (obj_get sel ''name''))) a)"
      by (intro keeps_if keeps_basic extends_create)
  qed (use cache d1 in \<open>simp_all only: w2\<close>)
  have fin: "in_place ?l p b w'" if "in_place ?l p b w4" for p b using in_place_kept [OF that extends_keep_or_create rec] .
  have c': "in_place ?l (path_join d (str_of (obj_get sel ''name''))) a w'"
    using fin in_place_kept [OF c3 extends_place_tools tools] by blast
  have d': "files w' d = Some Dir"
    using kept [OF extends_keep_or_create rec kept [OF extends_place_tools tools d3]] .
  have t': "list_all (\<lambda>(n, b). in_place ?l (path_join d n) b w') ms"
    using place_tools_ok [OF tools] fin by (auto simp: list_all_iff)
  let ?i = "\<lparr>in_selected = sel, in_archive = a, in_members = ms\<rparr>"
  have "installed_ok ie manifest target d w' receipt ?i"
    using sel nl d' c' size dig ms t' receipt by (simp add: installed_ok_def)
  with keep_or_create_ok [OF rec] show ?thesis by blast
qed

text \<open>
  The review encryptor is installed without overwriting anything: whatever happens
  during an installation, every file and directory that existed is still there unchanged.
  When it succeeds, the archive kept in the cache has the digest the manifest pins, and the
  tools that stand in the destination are byte for byte the two members of that archive
  which the receipt names.
\<close>

theorem install_preserves_and_pins:
  "case install ie manifest target d w of (r, w') \<Rightarrow>
     files w \<subseteq>\<^sub>m files w' \<and>
     (case r of Inl e \<Rightarrow> True
      | Inr receipt \<Rightarrow> \<exists>selected archive members.
          asset manifest target = Inr selected
          \<and> JStr (hexdigest archive) = obj_get selected ''sha256''
          \<and> files w' (path_join d (str_of (obj_get selected ''name''))) = Some (File archive)
          \<and> binary_members (ie_lib ie) archive target = Inr members
          \<and> list_all (\<lambda>(n, b). files w' (path_join d n) = Some (File b)) members
          \<and> receipt = install_receipt manifest target selected members)"
proof -
  obtain r w' where run: "install ie manifest target d w = (r, w')" by (cases "install ie manifest target d w")
  have grow: "files w \<subseteq>\<^sub>m files w'"
    using keepsD [OF extends_install _ run, of "files w"] map_le_refl by blast
  show ?thesis
  proof (cases r)
    case (Inr receipt)
    with install_ok run obtain i where "installed_ok ie manifest target d w' receipt i" by blast
    then show ?thesis
      using grow run Inr unfolding installed_ok_def in_place_def
      by (auto simp: list_all_iff intro!: exI [of _ "in_selected i"] exI [of _ "in_archive i"] exI [of _ "in_members i"])
  qed (use grow run in simp)
qed

section \<open>A second installation\<close>

lemma keep_in_place:
  assumes "in_place linked p old w" and "length old \<le> max_archive" and "same old = Inr True"
  shows "keep_or_create linked same e p b w = (Inr (), w)"
  using assms found_in_place [of linked p w old]
  by (simp add: keep_or_create_def bindIO_def ask_def read_regular_def)

lemma place_in_place:
  "list_all (\<lambda>(n, b). in_place linked (path_join d n) b w) ms \<Longrightarrow> list_all (\<lambda>(n, b). length b \<le> max_archive) ms
     \<Longrightarrow> place_tools linked d ms w = (Inr (), w)"
proof (induction ms)
  case (Cons m ms)
  obtain n b where m: "m = (n, b)" by (cases m)
  with Cons.prems have "keep_or_create linked (\<lambda>old. ret (old = b))
      (ValueError ''existing review encryptor was changed; preserving it'') (path_join d n) b w = (Inr (), w)"
    by (intro keep_in_place) auto
  with Cons m show ?case by (simp add: bindIO_OK)
qed simp

lemma members_bounded: "binary_members lib a target = Inr ms \<Longrightarrow> list_all (\<lambda>(n, b). length b \<le> max_archive) ms"
  unfolding binary_members_def bindE_eq_Inr if_raise_eq_Inr by (auto simp: list_ex_iff list_all_iff)

text \<open>The receipt is read back as what was written.\<close>

definition reads_back :: "install_env \<Rightarrow> json \<Rightarrow> bool" where
  "reads_back ie receipt = (length (json_file receipt) \<le> max_archive
     \<and> (case ie_loads ie (json_file receipt) of Inl e \<Rightarrow> False | Inr v \<Rightarrow> py_eq v receipt))"

text \<open>
  Installing is idempotent and needs the network once: after a successful
  installation (whose receipt the JSON parser reads back), installing again returns the same
  receipt and changes nothing, whatever a download would now return.
\<close>

theorem reinstall_same:
  "case install ie manifest target d w of
     (Inl e, w') \<Rightarrow> True
   | (Inr receipt, w') \<Rightarrow>
       (if reads_back ie receipt
        then install (ie\<lparr>ie_download := other\<rparr>) manifest target d w' = (Inr receipt, w') else True)"
proof -
  obtain r w' where run: "install ie manifest target d w = (r, w')" by (cases "install ie manifest target d w")
  show ?thesis
  proof (cases r)
    case (Inr receipt)
    let ?l = "ie_linked ie"
    from install_ok run Inr obtain i old where i: "installed_ok ie manifest target d w' receipt i"
      and old: "in_place ?l (path_join d ''install-receipt.json'') old w'"
      and same: "old = json_file receipt \<or> length old \<le> max_archive \<and> bindE (ie_loads ie old) (\<lambda>v. ret (py_eq v receipt)) = Inr True"
      by blast
    have "install (ie\<lparr>ie_download := other\<rparr>) manifest target d w' = (Inr receipt, w')" if reads: "reads_back ie receipt"
    proof -
      define a where "a = in_archive i"
      define cache where "cache = path_join d (str_of (obj_get (in_selected i) ''name''))"
      from i have sel: "asset manifest target = Inr (in_selected i)" "\<not> ?l d" "files w' d = Some Dir"
        and c: "in_place ?l cache a w'" "length a \<le> max_archive" "JStr (hexdigest a) = obj_get (in_selected i) ''sha256''"
        and ms: "binary_members (ie_lib ie) a target = Inr (in_members i)"
        and placed: "list_all (\<lambda>(n, b). in_place ?l (path_join d n) b w') (in_members i)"
        and rc: "receipt = install_receipt manifest target (in_selected i) (in_members i)"
        unfolding installed_ok_def cache_def a_def by blast+
      have mk: "mkdirs d True w' = (Inr (), w')" using sel(3) by (simp add: mkdirs_def)
      have arch: "tool_archive other ?l cache u w' = (Inr a, w')" for u
        using c(1,2) found_in_place [of ?l cache w' a] by (simp add: tool_archive_def bindIO_OK ask_OK read_regular_Inr)
      have cached: "path_exists cache w'" using c(1) by (simp add: path_exists_def in_place_def)
      have tools: "place_tools ?l d (in_members i) w' = (Inr (), w')"
        using place_in_place [OF placed members_bounded [OF ms]] .
      have rec: "keep_or_create ?l (\<lambda>old. bindE (ie_loads ie old) (\<lambda>v. ret (py_eq v receipt)))
          (ValueError ''existing review encryptor custody differs; preserving it'')
          (path_join d ''install-receipt.json'') (json_file receipt) w' = (Inr (), w')"
        using old same reads by (intro keep_in_place [OF old]) (auto simp: reads_back_def split: sum.splits)
      show ?thesis
        unfolding install_def Let_def cache_def [symmetric]
        using sel mk arch cached c ms tools rec
        by (simp add: bindIO_OK ask_OK if_raiseIO_OK cache_def [symmetric] rc [symmetric])
    qed
    with run Inr show ?thesis by simp
  qed (use run in simp)
qed

end
