(* ===== verification/Review_Delivery.thy ===== *)
theory Review_Delivery
  imports Review_Crypto Evidence_Review
begin

text \<open>
  \<^verbatim>\<open>scripts/official_review_delivery.py\<close>: review inputs are bound, packed and encrypted, and
  later opened again. The input directories are trees as in the evidence of a run, the output
  directory is on the host. JSON parsing, the tar library and the age tool are parameters.
\<close>

section \<open>Paths, the summary and the scope\<close>

definition delivery_schema :: string where "delivery_schema = ''elevenid.official-review-delivery/v1''"
definition private_review_schema :: string where "private_review_schema = ''elevenid.private-official-review/v1''"

definition recipient_rx :: rx where
  "recipient_rx = seqs [Lit ''age1'', Rep 58 58 (Cls (\<lambda>c. is_digit c \<or> is_lower c)), Eot]"
definition delivery_digest_rx :: rx where "delivery_digest_rx = Seq digest_rx Eot"
definition execution_id_rx :: rx where
  "execution_id_rx = Seq (Rep 1 180 (Cls (\<lambda>c. is_alnum c \<or> c \<in> set ''._-''))) Eot"
definition image_path_rx :: rx where
  "image_path_rx = seqs [Lit ''images/'', Rep 64 64 (Cls is_lhex), Lit ''.png'', Eot]"

definition safe_path :: "string \<Rightarrow> string result" where
  "safe_path name =
     (if name = [] \<or> path_is_absolute name \<or> bslash \<in> set name \<or> CHR '':'' \<in> set name
         \<or> list_ex (\<lambda>part. part \<in> {''.'', ''..''}) (path_parts name) \<or> path_str name \<noteq> name
      then raise (ValueError ''private review archive contains an unsafe path'') else ret name)"

definition safe_path_of :: "json \<Rightarrow> string result" where
  "safe_path_of v = (case v of JStr s \<Rightarrow> safe_path s | _ \<Rightarrow> raise TypeError)"

definition summary_input :: "(bytes \<Rightarrow> json result) \<Rightarrow> entry option \<Rightarrow> (bytes \<times> json) result" where
  "summary_input loads found = bindE (read_regular (8 * 1024 * 1024) found) (\<lambda>raw. bindE (loads raw) (\<lambda>summary.
     if \<not> is_dict summary \<or> obj_get summary ''schema'' \<noteq> JStr ''elevenid.sanitized-official-interop/v1''
        \<or> \<not> is_list (obj_get summary ''review_requests'')
     then raise (ValueError ''private review requires the exact current public summary'') else ret (raw, summary)))"

definition local_origin_ok :: "json \<Rightarrow> string \<Rightarrow> bool" where
  "local_origin_ok binding execution_id = (binding = JNull \<or>
     (is_dict binding \<and> obj_get binding ''runId'' = JStr execution_id \<and> obj_get binding ''releaseQualified'' = JBool False))"

definition str_or_none :: "string option \<Rightarrow> string" where
  "str_or_none v = (case v of None \<Rightarrow> ''None'' | Some s \<Rightarrow> s)"

definition trusted_actions :: "(string \<rightharpoonup> string) \<Rightarrow> json \<Rightarrow> string \<Rightarrow> int \<Rightarrow> bool result" where
  "trusted_actions env summary execution_id attempt =
     (if env ''GITHUB_ACTIONS'' = Some ''true''
         \<and> env ''GITHUB_REPOSITORY'' \<in> {Some ''ElevenID/marty-ui'', Some ''ElevenID/marty-integration-tests''}
         \<and> env ''GITHUB_REF'' = Some ''refs/heads/main''
      then bindE (py_key summary ''lane'') (\<lambda>lane. ret
        (execution_id = py_str lane @ ''-'' @ str_or_none (env ''GITHUB_RUN_ID'') @ ''-'' @ int_str attempt
         \<and> env ''GITHUB_RUN_ATTEMPT'' = Some (int_str attempt)))
      else ret False)"

definition delivery_scope :: "(string \<rightharpoonup> string) \<Rightarrow> json \<Rightarrow> string \<Rightarrow> int \<Rightarrow> string result" where
  "delivery_scope env summary execution_id attempt =
     (let binding = obj_get summary ''local_runtime_binding'' in
      if \<not> local_origin_ok binding execution_id
      then raise (ValueError ''private local review origin does not match its actual runtime'')
      else bindE (trusted_actions env summary execution_id attempt) (\<lambda>trusted.
        ret (if binding = JNull \<and> trusted then ''OFFICIAL_RUN_REVIEW_ONLY'' else ''LOCAL_DEVELOPER_FEEDBACK'')))"

section \<open>Collecting the members\<close>

type_synonym members = "(string \<times> bytes) list"

definition total_size :: "members \<Rightarrow> nat" where
  "total_size members = sum_list (map (length \<circ> snd) members)"

definition add_member :: "members \<Rightarrow> string \<Rightarrow> bytes \<Rightarrow> json \<Rightarrow> members result" where
  "add_member members name v expected = bindE (safe_path name) (\<lambda>_.
     if expected \<noteq> JNull \<and> JStr (sha_digest v) \<noteq> expected
     then raise (ValueError ''private review input differs from its public binding'')
     else if map_of members name \<notin> {None, Some v}
     then raise (ValueError ''private review archive has conflicting members'')
     else let members' = put name v members in
       if max_archive < total_size members' then raise (ValueError ''private review archive exceeds its size limit'')
       else ret members')"

record review_site =
  rs_loads :: "bytes \<Rightarrow> json result"
  rs_zips :: "entry \<Rightarrow> member list result"
  rs_manifest :: "json result"
  rs_raw :: tree
  rs_inside :: "string \<Rightarrow> bool"
  rs_exports :: tree
  rs_images :: tree

definition subtree :: "string \<Rightarrow> tree \<Rightarrow> tree" where
  "subtree parent t = (if parent = ''.'' then t
     else map (\<lambda>(n, e). (drop (length parent + 1) n, e)) (filter (\<lambda>(n, e). startswith n (parent @ ''/'')) t))"

definition original_digests :: "json \<Rightarrow> (json \<times> json) list result" where
  "original_digests evidence = bindE (py_key evidence ''artifacts'') (\<lambda>artifacts. bindE (py_iter artifacts) (\<lambda>rows.
     mapE (\<lambda>row. bindE (py_key row ''path'') (\<lambda>p. bindE (py_key row ''sha256'') (\<lambda>d.
       if \<not> hashable p then raise TypeError else ret (p, d)))) rows))"

definition original_digest :: "(json \<times> json) list \<Rightarrow> string \<Rightarrow> json result" where
  "original_digest original n = (case map_of (rev original) (JStr n) of None \<Rightarrow> raise (KeyError n) | Some d \<Rightarrow> ret d)"

definition export_step :: "string \<Rightarrow> (json \<times> json) list \<Rightarrow> members \<Rightarrow> string \<times> entry \<Rightarrow> members result" where
  "export_step parent original members ne = (case ne of (n, e) \<Rightarrow>
     bindE (read_regular max_archive (Some e)) (\<lambda>v. bindE (original_digest original n) (\<lambda>d.
       add_member members (''raw/'' @ parent @ ''/'' @ n) v d)))"

definition png_signature :: bytes where
  "png_signature = [137, 80, 78, 71, 13, 10, 26, 10]"
definition is_png :: "bytes \<Rightarrow> bool" where "is_png v = (take 8 v = png_signature)"

definition capture_name :: "string \<Rightarrow> string" where
  "capture_name screenshot = ''images/'' @ drop 7 screenshot @ ''.png''"

definition image_step :: "tree \<Rightarrow> members \<Rightarrow> json \<Rightarrow> members result" where
  "image_step images members m = bindE (py_key m ''test_name'') (\<lambda>test_name.
     if \<not> is_str test_name then raise AttributeError
     else bindE (read_regular (500 * 1024) (entry_at images (hexdigest (utf8 (str_of test_name)) @ ''.png''))) (\<lambda>pixels.
       if \<not> is_png pixels then raise (ValueError ''private review image violates the actual capture contract'')
       else bindE (py_key m ''screenshot_sha256'') (\<lambda>d. bindE (fullmatch_json delivery_digest_rx d) (\<lambda>ok.
         if \<not> ok then raise (ValueError ''private review image violates the actual capture contract'')
         else add_member members (capture_name (str_of d)) pixels d))))"

text \<open>The request of the summary is the one the original evidence still projects to.\<close>

definition requested_evidence :: "review_site \<Rightarrow> string \<Rightarrow> json \<Rightarrow> (bytes \<times> json) result" where
  "requested_evidence site source request =
     (if \<not> rs_inside site source then raise (ValueError ''private review evidence is outside its owned directory'')
      else bindE (read_regular max_archive (entry_at (rs_raw site) source)) (\<lambda>raw. bindE (rs_loads site raw) (\<lambda>evidence.
        if \<not> is_dict evidence then raise (ValueError ''private review original evidence is malformed'')
        else bindE (pending_review_request (rs_loads site) (rs_zips site) (rs_manifest site)
               (subtree (path_parent source) (rs_raw site)) raw evidence) (\<lambda>projected. case projected of
          None \<Rightarrow> raise (ValueError ''private review inventory differs from the actual original evidence'')
        | Some p \<Rightarrow>
            if \<not> py_eq (JObj (merge [(''source'', JStr source)] (fields_of p))) request
            then raise (ValueError ''private review inventory differs from the actual original evidence'')
            else ret (raw, evidence)))))"

definition reexport :: "members \<Rightarrow> json \<Rightarrow> bytes result" where
  "reexport exports expected = (case filter (\<lambda>(n, v). JStr (sha_digest v) = expected) exports of
     [(n, v)] \<Rightarrow> ret v | _ \<Rightarrow> raise (ValueError ''private review has no unique unchanged stock re-export''))"

definition request_step :: "review_site \<Rightarrow> members \<Rightarrow> members \<Rightarrow> json \<Rightarrow> members result" where
  "request_step site exports members request =
     bindE (py_key request ''source'') (\<lambda>src. bindE (safe_path_of src) (\<lambda>source.
     bindE (requested_evidence site source request) (\<lambda>(raw, evidence).
     let parent = path_parent source; dir = subtree parent (rs_raw site) in
     bindE (py_key request ''original_evidence_sha256'') (\<lambda>d.
     bindE (add_member members (''raw/'' @ source) raw d) (\<lambda>members.
     bindE (read_regular max_archive (entry_at dir receipt_name)) (\<lambda>receipt.
     bindE (py_key request ''capture_receipt_sha256'') (\<lambda>d.
     bindE (add_member members (''raw/'' @ parent @ ''/official-real-ui-images.json'') receipt d) (\<lambda>members.
     bindE (original_digests evidence) (\<lambda>original.
     bindE (foldE (export_step parent original) members (zip_entries dir)) (\<lambda>members.
     bindE (py_key request ''official_export_sha256'') (\<lambda>d.
     bindE (reexport exports d) (\<lambda>enriched.
     bindE (add_member members (''private/'' @ drop 7 (str_of d) @ ''.zip'') enriched d) (\<lambda>members.
     bindE (py_key request ''modules'') (\<lambda>modules. bindE (py_iter modules) (\<lambda>modules.
     foldE (image_step (rs_images site)) members modules)))))))))))))))"

definition review_members :: "review_site \<Rightarrow> bytes \<Rightarrow> json list \<Rightarrow> members result" where
  "review_members site summary_bytes requests =
     bindE (add_member [] ''summary.json'' summary_bytes JNull) (\<lambda>members.
     bindE (mapE (\<lambda>(n, e). bindE (read_regular max_archive (Some e)) (\<lambda>v. ret (n, v))) (zip_entries (rs_exports site))) (\<lambda>exports.
     foldE (request_step site exports) members requests))"

section \<open>Encryption\<close>

definition member_table :: "members \<Rightarrow> json" where
  "member_table members = JObj (map (\<lambda>(n, v). (n, JObj [(''sha256'', JStr (sha_digest v)), (''size'', JInt (int (length v)))]))
     (sort_key fst members))"

record origin =
  og_recipient :: string
  og_execution :: string
  og_attempt :: int

definition delivery_manifest :: "json \<Rightarrow> json \<Rightarrow> bytes \<Rightarrow> origin \<Rightarrow> string \<Rightarrow> members \<Rightarrow> json" where
  "delivery_manifest lane requests summary_bytes og scope members = JObj
     [(''schema'', JStr private_review_schema), (''execution_id'', JStr (og_execution og)), (''attempt'', JInt (og_attempt og)),
      (''lane'', lane), (''scope'', JStr scope), (''summary_sha256'', JStr (sha_digest summary_bytes)),
      (''review_requests'', requests), (''release_qualified'', JBool False), (''members'', member_table members)]"

definition payloads :: "json \<Rightarrow> members \<Rightarrow> members" where
  "payloads manifest members = sort_key fst (merge [(''manifest.json'', utf8 (json_dumps_sorted manifest))] members)"

text \<open>\<open>sum(len(r["modules"]) for r in requests)\<close>\<close>

definition image_total :: "json list \<Rightarrow> int result" where
  "image_total requests = bindE (mapE (\<lambda>r. bindE (py_key r ''modules'') (\<lambda>ms. bindE (py_len ms) (\<lambda>n. ret (int n)))) requests)
     (\<lambda>ns. ret (sum_list ns))"

definition delivery_receipt :: "json \<Rightarrow> bytes \<Rightarrow> origin \<Rightarrow> string \<Rightarrow> bytes \<Rightarrow> int \<Rightarrow> json" where
  "delivery_receipt lane summary_bytes og scope ciphertext count = JObj
     [(''schema'', JStr delivery_schema), (''state'', JStr ''ENCRYPTED''), (''scope'', JStr scope),
      (''execution_id'', JStr (og_execution og)), (''attempt'', JInt (og_attempt og)), (''lane'', lane),
      (''recipient'', JStr (og_recipient og)), (''summary_sha256'', JStr (sha_digest summary_bytes)),
      (''ciphertext_sha256'', JStr (sha_digest ciphertext)), (''ciphertext_bytes'', JInt (int (length ciphertext))),
      (''image_count'', JInt count), (''release_qualified'', JBool False)]"

definition no_inputs_receipt :: json where
  "no_inputs_receipt = JObj [(''schema'', JStr delivery_schema), (''state'', JStr ''NO_REVIEW_INPUTS''), (''release_qualified'', JBool False)]"

definition age_header :: bytes where "age_header = utf8 (''age-encryption.org/v1'' @ [newline])"

definition origin_ok :: "origin \<Rightarrow> bool" where
  "origin_ok og = (fullmatch recipient_rx (og_recipient og) \<and> fullmatch execution_id_rx (og_execution og) \<and> 0 < og_attempt og)"

text \<open>The plaintext archive, with the receipt's lane.\<close>

definition plaintext :: "review_site \<Rightarrow> (members \<Rightarrow> bytes) \<Rightarrow> bytes \<Rightarrow> json \<Rightarrow> origin \<Rightarrow> string \<Rightarrow> (json \<times> bytes) result" where
  "plaintext site tar summary_bytes summary og scope =
     bindE (review_members site summary_bytes (arr_of (obj_get summary ''review_requests''))) (\<lambda>members.
     bindE (py_key summary ''lane'') (\<lambda>lane.
     let archive = tar (payloads (delivery_manifest lane (obj_get summary ''review_requests'') summary_bytes og scope members) members) in
     if max_archive < length archive then raise (ValueError ''private review plaintext exceeds its size limit'')
     else ret (lane, archive)))"

definition age_encrypt :: "(string \<Rightarrow> bytes \<Rightarrow> string \<Rightarrow> ('x host, int) io) \<Rightarrow> string \<Rightarrow> string \<Rightarrow> bytes \<Rightarrow> ('x host, bytes) io" where
  "age_encrypt age recipient output archive =
     (let encrypted = path_join output ''review.tar.age'' in
      bindIO (age recipient archive encrypted) (\<lambda>code.
      if code \<noteq> 0 then raiseIO (ValueError ''standard review encryption failed'')
      else bindIO (ask (found_at (\<lambda>_. False) encrypted)) (\<lambda>found.
           bindIO (liftIO (read_regular (max_archive + 1024 * 1024) found)) (\<lambda>ciphertext.
             if take (length age_header) ciphertext \<noteq> age_header
             then raiseIO (ValueError ''review output is not a native age encrypted file'') else retIO ciphertext))))"

definition encrypt :: "review_site \<Rightarrow> (string \<rightharpoonup> string) \<Rightarrow> (members \<Rightarrow> bytes)
    \<Rightarrow> (string \<Rightarrow> bytes \<Rightarrow> string \<Rightarrow> ('x host, int) io) \<Rightarrow> entry option \<Rightarrow> origin \<Rightarrow> string \<Rightarrow> ('x host, json) io" where
  "encrypt site env tar age summary_file og output =
     bindIO (liftIO (summary_input (rs_loads site) summary_file)) (\<lambda>(summary_bytes, summary).
     if \<not> origin_ok og then raiseIO (ValueError ''private review recipient/origin is invalid'')
     else bindIO (liftIO (delivery_scope env summary (og_execution og) (og_attempt og))) (\<lambda>scope.
     if arr_of (obj_get summary ''review_requests'') = [] then retIO no_inputs_receipt
     else bindIO (ask (path_exists output)) (\<lambda>taken.
     if taken then raiseIO (ValueError ''private review delivery destination already exists'')
     else bindIO (liftIO (plaintext site tar summary_bytes summary og scope)) (\<lambda>(lane, archive).
       bindIO (mkdirs output False) (\<lambda>_.
       bindIO (age_encrypt age (og_recipient og) output archive) (\<lambda>ciphertext.
       bindIO (liftIO (image_total (arr_of (obj_get summary ''review_requests'')))) (\<lambda>count.
       let receipt = delivery_receipt lane summary_bytes og scope ciphertext count in
       bindIO (write_bytes (path_join output ''review-delivery.json'') (json_file receipt)) (\<lambda>_. retIO receipt))))))))"

end
