(* ===== verification/Review_Viewer.thy ===== *)
theory Review_Viewer
  imports Review_Delivery
begin

text \<open>
  The other half of \<^verbatim>\<open>scripts/official_review_delivery.py\<close>: unpacking a decrypted archive,
  checking it against the public summary, and writing the viewer with the verified images.
\<close>

section \<open>Unpacking\<close>

text \<open>
  A member as \<open>tarfile\<close> iterates over it; \<open>extractfile\<close> has no stream for what is not a file or a
  link. Opening may raise, and so may the iteration after the members it has shown.
\<close>

record tar_entry =
  te_name :: string
  te_file :: bool
  te_size :: nat
  te_data :: "bytes option"

definition unpack_step :: "members \<Rightarrow> tar_entry \<Rightarrow> members result" where
  "unpack_step result entry = bindE (safe_path (te_name entry)) (\<lambda>name.
     if \<not> te_file entry \<or> name \<in> fst ` set result \<or> max_archive < te_size entry \<or> 1024 < length result
     then raise (ValueError ''private review archive has invalid or duplicate members'')
     else case te_data entry of
       None \<Rightarrow> raise (ValueError ''private review archive member is unavailable'')
     | Some data \<Rightarrow>
         let v = take (max_archive + 1) data; result' = result @ [(name, v)] in
         if length v \<noteq> te_size entry \<or> max_archive < total_size result'
         then raise (ValueError ''private review archive member size is invalid'') else ret result')"

type_synonym untar = "bytes \<Rightarrow> (tar_entry list \<times> exn option) result"

definition unpack :: "untar \<Rightarrow> bytes \<Rightarrow> members result" where
  "unpack untar v =
     (if max_archive < length v then raise (ValueError ''decrypted review archive exceeds its size limit'')
      else bindE (untar v) (\<lambda>(entries, broken). bindE (foldE unpack_step [] entries) (\<lambda>result.
        case broken of None \<Rightarrow> ret result | Some e \<Rightarrow> raise e)))"

section \<open>The checks\<close>

definition receipt_matches :: "json \<Rightarrow> bytes \<Rightarrow> bytes \<Rightarrow> bool" where
  "receipt_matches receipt summary_bytes ciphertext =
     (is_dict receipt \<and> obj_get receipt ''schema'' = JStr delivery_schema \<and> obj_get receipt ''state'' = JStr ''ENCRYPTED''
      \<and> obj_get receipt ''summary_sha256'' = JStr (sha_digest summary_bytes)
      \<and> obj_get receipt ''ciphertext_sha256'' = JStr (sha_digest ciphertext)
      \<and> py_eq (obj_get receipt ''ciphertext_bytes'') (JInt (int (length ciphertext)))
      \<and> obj_get receipt ''release_qualified'' = JBool False)"

definition manifest_bound :: "json \<Rightarrow> bytes \<Rightarrow> json \<Rightarrow> members \<Rightarrow> bool" where
  "manifest_bound manifest summary_bytes requests members =
     (is_dict manifest \<and> obj_get manifest ''schema'' = JStr private_review_schema
      \<and> obj_get manifest ''summary_sha256'' = JStr (sha_digest summary_bytes)
      \<and> py_eq (obj_get manifest ''review_requests'') requests
      \<and> obj_get manifest ''release_qualified'' = JBool False
      \<and> py_eq (obj_get manifest ''members'') (member_table members)
      \<and> map_of members ''summary.json'' = Some summary_bytes)"

definition manifest_origin :: "json \<Rightarrow> json \<Rightarrow> json \<Rightarrow> json \<Rightarrow> bool" where
  "manifest_origin manifest receipt summary lane =
     (py_eq (obj_get manifest ''lane'') lane
      \<and> (obj_get summary ''local_runtime_binding'' = JNull \<or> obj_get manifest ''scope'' = JStr ''LOCAL_DEVELOPER_FEEDBACK'')
      \<and> list_all (\<lambda>key. py_eq (obj_get manifest key) (obj_get receipt key)) [''scope'', ''execution_id'', ''attempt''])"

definition mismatch :: exn where
  "mismatch = ValueError ''decrypted review manifest or members differ from their bound evidence''"

definition take_manifest :: "(bytes \<Rightarrow> json result) \<Rightarrow> members \<Rightarrow> (json \<times> members) result" where
  "take_manifest loads members = (case map_of members ''manifest.json'' of
     None \<Rightarrow> raise (KeyError ''manifest.json'')
   | Some raw \<Rightarrow> bindE (loads raw) (\<lambda>manifest. ret (manifest, filter (\<lambda>(n, v). n \<noteq> ''manifest.json'') members)))"

section \<open>Cards\<close>

definition html_escape :: "string \<Rightarrow> string" where
  "html_escape s = concat (map (\<lambda>c.
     if c = CHR ''&'' then ''&amp;'' else if c = CHR ''<'' then ''&lt;'' else if c = CHR ''>'' then ''&gt;''
     else if c = dquote then ''&quot;'' else if c = squote then ''&#x27;'' else [c]) s)"

definition friendly :: "(string \<times> string) list" where
  "friendly = [(''happy-flow'', ''Happy path''), (''minimal-cnf-jwk'', ''Minimal holder key''),
     (''request-uri-method-post'', ''Request URI using POST''), (''request-uri-fetched-twice'', ''Request URI fetched twice'')]"

definition card_title :: "string \<Rightarrow> string" where
  "card_title test_name = (let short = removeprefix test_name ''oid4vp-1final-verifier-'' in
     html_escape (case map_of friendly short of Some t \<Rightarrow> t | None \<Rightarrow> capitalize (replace_char (CHR ''-'') '' '' short)))"

definition quoted :: "string \<Rightarrow> string" where "quoted s = dquote # s @ [dquote]"

definition card :: "string \<Rightarrow> string \<Rightarrow> json \<Rightarrow> string" where
  "card title img m = ''<article><h2>'' @ title @ ''</h2><a href='' @ quoted img @ ''>''
     @ ''<img src='' @ quoted img @ '' alt='' @ quoted (''Actual verifier result for '' @ title) @ ''></a>''
     @ ''<details><summary>Case reference and image binding</summary><pre>'' @ html_escape (pretty 0 m)
     @ ''</pre></details></article>''"

definition image_verified :: "members \<Rightarrow> json \<Rightarrow> string \<Rightarrow> bytes \<Rightarrow> bool" where
  "image_verified members d img v =
     (fullmatch image_path_rx img \<and> map_of members img = Some v \<and> JStr (sha_digest v) = d \<and> is_png v)"

type_synonym gallery = "members \<times> string list"

definition view_module :: "members \<Rightarrow> gallery \<Rightarrow> json \<Rightarrow> gallery result" where
  "view_module members st m = bindE (py_key m ''screenshot_sha256'') (\<lambda>d.
     if \<not> is_str d then raise TypeError
     else let img = capture_name (str_of d) in
       case map_of members img of
         None \<Rightarrow> raise (ValueError ''private review image differs from its exact official case'')
       | Some v \<Rightarrow>
           if \<not> image_verified members d img v
           then raise (ValueError ''private review image differs from its exact official case'')
           else bindE (py_key m ''test_name'') (\<lambda>name.
             if \<not> is_str name then raise AttributeError
             else ret (put img v (fst st), snd st @ [card (card_title (str_of name)) img m])))"

definition view_request :: "members \<Rightarrow> gallery \<Rightarrow> json \<Rightarrow> gallery result" where
  "view_request members st request = bindE (py_key request ''modules'') (\<lambda>ms. bindE (py_iter ms) (\<lambda>ms.
     foldE (view_module members) st ms))"

section \<open>The page\<close>

text \<open>The title's dash is the source's: the bytes of a dash decoded as Windows-1252 and encoded again.\<close>

definition title_dash :: bytes where "title_dash = [195, 162, 226, 130, 172, 226, 128, 157]"

definition page_title :: "string \<Rightarrow> bytes" where
  "page_title lane = utf8 (html_escape (lane @ '' '')) @ title_dash @ utf8 (html_escape '' review required'')"

definition page_head :: string where
  "page_head = ''</title>'' @ ''<style>body{font:16px system-ui;max-width:1100px;margin:40px auto;padding:0 24px;''
     @ ''color:#19324b;background:#f5f7fa}''
     @ ''article{background:white;padding:24px;margin:28px 0;border-radius:12px}''
     @ ''img{width:100%;height:auto}pre{white-space:pre-wrap;overflow-wrap:anywhere}''
     @ ''details{margin-top:16px}h1{margin-bottom:8px}</style><h1>''"

definition page :: "string \<Rightarrow> string \<Rightarrow> string list \<Rightarrow> bytes" where
  "page lane context cards = utf8 (''<!doctype html><html lang='' @ quoted ''en'' @ ''><meta charset='' @ quoted ''utf-8'' @ ''><title>'')
     @ page_title lane @ utf8 page_head @ page_title lane
     @ utf8 (''</h1><p>'' @ html_escape context @ ''</p>''
         @ ''<p>Actual bound screenshots. Review remains pending; original official results are unchanged.</p>''
         @ concat cards @ ''</html>'')"

definition opened_receipt :: "bytes \<Rightarrow> nat \<Rightarrow> json" where
  "opened_receipt summary_bytes count = JObj
     [(''schema'', JStr ''elevenid.private-review-opened/v1''), (''state'', JStr ''DECRYPTED_FOR_REVIEW''),
      (''summary_sha256'', JStr (sha_digest summary_bytes)), (''images_verified'', JInt (int count)),
      (''review_status'', JStr ''PENDING''), (''release_qualified'', JBool False), (''plaintext_exports_written'', JBool False)]"

fun write_images :: "string \<Rightarrow> members \<Rightarrow> ('x host, unit) io" where
  "write_images output [] = retIO ()"
| "write_images output ((n, v) # ms) = bindIO (write_bytes (path_join output n) v) (\<lambda>_. write_images output ms)"

definition text_value :: "json \<Rightarrow> string result" where
  "text_value v = (case v of JStr s \<Rightarrow> ret s | _ \<Rightarrow> raise TypeError)"

definition page_texts :: "json \<Rightarrow> json \<Rightarrow> (string \<times> string) result" where
  "page_texts summary manifest =
     bindE (py_key summary ''lane'') (\<lambda>l. bindE (text_value l) (\<lambda>lane.
     bindE (py_key manifest ''scope'') (\<lambda>s. bindE (text_value s) (\<lambda>scope.
     bindE (py_key manifest ''execution_id'') (\<lambda>i. bindE (text_value i) (\<lambda>execution.
       ret (lane, scope @ '': '' @ execution)))))))"

section \<open>Opening a delivery\<close>

record viewer_site =
  vs_loads :: "bytes \<Rightarrow> json result"
  vs_artifact :: tree
  vs_decrypt :: "bytes \<Rightarrow> (int \<times> bytes) result"
  vs_untar :: untar

record review_packet =
  rp_summary_bytes :: bytes
  rp_summary :: json
  rp_receipt :: json
  rp_manifest :: json
  rp_members :: members

definition read_packet :: "viewer_site \<Rightarrow> entry option \<Rightarrow> review_packet result" where
  "read_packet site summary_file =
     bindE (summary_input (vs_loads site) summary_file) (\<lambda>(summary_bytes, summary).
     bindE (read_regular max_archive (entry_at (vs_artifact site) ''review-delivery.json'')) (\<lambda>raw.
     bindE (vs_loads site raw) (\<lambda>receipt.
     bindE (read_regular (max_archive + 1024 * 1024) (entry_at (vs_artifact site) ''review.tar.age'')) (\<lambda>ciphertext.
     if \<not> receipt_matches receipt summary_bytes ciphertext
     then raise (ValueError ''encrypted review delivery does not match the exact public summary'')
     else bindE (vs_decrypt site ciphertext) (\<lambda>(code, out).
     if code \<noteq> 0 then raise (ValueError ''private review decryption failed; no images were opened'')
     else bindE (unpack (vs_untar site) out) (\<lambda>all. bindE (take_manifest (vs_loads site) all) (\<lambda>(manifest, members).
     if \<not> manifest_bound manifest summary_bytes (obj_get summary ''review_requests'') members then raise mismatch
     else bindE (py_key summary ''lane'') (\<lambda>lane.
     if \<not> manifest_origin manifest receipt summary lane then raise mismatch
     else ret \<lparr>rp_summary_bytes = summary_bytes, rp_summary = summary, rp_receipt = receipt,
               rp_manifest = manifest, rp_members = members\<rparr>))))))))"

definition requests_of :: "json \<Rightarrow> json list" where
  "requests_of summary = arr_of (obj_get summary ''review_requests'')"

definition gallery_of :: "review_packet \<Rightarrow> gallery result" where
  "gallery_of p = bindE (foldE (view_request (rp_members p)) ([], []) (requests_of (rp_summary p))) (\<lambda>(images, cards).
     if cards = [] \<or> \<not> py_eq (obj_get (rp_receipt p) ''image_count'') (JInt (int (length cards)))
     then raise (ValueError ''private review does not cover its exact case count'') else ret (images, cards))"

definition open_review :: "viewer_site \<Rightarrow> entry option \<Rightarrow> string \<Rightarrow> ('x host, json) io" where
  "open_review site summary_file output =
     bindIO (liftIO (read_packet site summary_file)) (\<lambda>p.
     bindIO (liftIO (gallery_of p)) (\<lambda>(images, cards).
     bindIO (ask (path_exists output)) (\<lambda>taken.
     if taken then raiseIO (ValueError ''private review viewer destination already exists'')
     else bindIO (mkdirs output False) (\<lambda>_.
       bindIO (mkdirs (path_join output ''images'') False) (\<lambda>_.
       bindIO (write_images output images) (\<lambda>_.
       bindIO (liftIO (page_texts (rp_summary p) (rp_manifest p))) (\<lambda>(lane, context).
       bindIO (write_bytes (path_join output ''index.html'') (page lane context cards)) (\<lambda>_.
       let opened = opened_receipt (rp_summary_bytes p) (length cards) in
       bindIO (write_bytes (path_join output ''review-readback.json'') (utf8 (pretty 0 opened @ [newline]))) (\<lambda>_.
       retIO opened)))))))))"

section \<open>The script\<close>

definition delivery_failure :: "exn \<Rightarrow> bool" where
  "delivery_failure e = (is_OSError e \<or> is_ValueError e
     \<or> (case e of KeyError _ \<Rightarrow> True | TypeError \<Rightarrow> True | TarError \<Rightarrow> True | TimeoutExpired \<Rightarrow> True
        | CalledProcessError _ \<Rightarrow> True | _ \<Rightarrow> False))"

definition delivery_main :: "('x host, json) io \<Rightarrow> ('x host, int) io" where
  "delivery_main operation = tryIO (bindIO operation (\<lambda>_. retIO 0))
     (\<lambda>e. if delivery_failure e then retIO 1 else raiseIO e)"

end
