(* ===== verification/Review_Delivery_Props.thy ===== *)
theory Review_Delivery_Props
  imports Review_Viewer Evidence_Review_Props
begin

text \<open>
  What leaves for review is bound to the public summary, what is packed can be opened, and
  what is opened consists of the images the summary names.
\<close>

section \<open>Members are bound\<close>

definition request_modules :: "json \<Rightarrow> json list" where
  "request_modules request = arr_of (obj_get request ''modules'')"

definition request_digests :: "json \<Rightarrow> json set" where
  "request_digests request = obj_get request ` {''original_evidence_sha256'', ''capture_receipt_sha256'', ''official_export_sha256''}
     \<union> (\<lambda>m. obj_get m ''screenshot_sha256'') ` set (request_modules request)"

text \<open>By a digest of the request, or by the inventory of evidence that a digest of it binds.\<close>

definition bound_by :: "(bytes \<Rightarrow> json result) \<Rightarrow> json \<Rightarrow> bytes \<Rightarrow> bool" where
  "bound_by loads request v \<longleftrightarrow> JStr (sha_digest v) \<in> request_digests request \<or>
     (\<exists>raw evidence. obj_get request ''original_evidence_sha256'' = JStr (sha_digest raw) \<and> loads raw = Inr evidence
        \<and> JStr (sha_digest v) \<in> (\<lambda>row. obj_get row ''sha256'') ` set (arr_of (obj_get evidence ''artifacts'')))"

lemma bound_by_inventory:
  "obj_get request ''original_evidence_sha256'' = JStr (sha_digest raw) \<Longrightarrow> loads raw = Inr evidence
     \<Longrightarrow> JStr (sha_digest v) \<in> (\<lambda>row. obj_get row ''sha256'') ` set (arr_of (obj_get evidence ''artifacts''))
     \<Longrightarrow> bound_by loads request v"
  unfolding bound_by_def by blast

definition member_bound :: "(bytes \<Rightarrow> json result) \<Rightarrow> bytes \<Rightarrow> json list \<Rightarrow> string \<times> bytes \<Rightarrow> bool" where
  "member_bound loads summary_bytes requests m \<longleftrightarrow>
     m = (''summary.json'', summary_bytes) \<or> list_ex (\<lambda>r. bound_by loads r (snd m)) requests"

definition member_name_ok :: "string \<Rightarrow> bool" where
  "member_name_ok n = (isOK (safe_path n) \<and> n \<noteq> ''manifest.json'')"

definition collected :: "(string \<times> bytes \<Rightarrow> bool) \<Rightarrow> members \<Rightarrow> bool" where
  "collected P members = (distinct (map fst members) \<and> total_size members \<le> max_archive
     \<and> list_all (member_name_ok \<circ> fst) members \<and> list_all P members)"

lemma safe_path_Inr: "safe_path n = Inr n' \<Longrightarrow> n' = n"
  by (simp add: safe_path_def split: if_splits)

lemma add_member_Inr:
  "add_member members n v e = Inr members' \<longleftrightarrow>
     isOK (safe_path n) \<and> (e = JNull \<or> JStr (sha_digest v) = e) \<and> map_of members n \<in> {None, Some v}
     \<and> members' = put n v members \<and> total_size (put n v members) \<le> max_archive"
  by (auto simp: add_member_def isOK_iff Let_def)

lemma list_all_put: "list_all Q kvs \<Longrightarrow> Q (k, v) \<Longrightarrow> list_all Q (put k v kvs)"
  by (induction k v kvs rule: put.induct) auto

lemma collected_add:
  assumes "add_member members n v e = Inr members'" and "collected P members"
    and "n \<noteq> ''manifest.json''" and "e = JNull \<or> JStr (sha_digest v) = e \<Longrightarrow> P (n, v)"
  shows "collected P members'"
proof -
  from assms(1) have add: "isOK (safe_path n)" "e = JNull \<or> JStr (sha_digest v) = e" "members' = put n v members"
    "total_size (put n v members) \<le> max_archive" by (simp_all add: add_member_Inr)
  with assms(2-4) show ?thesis
    unfolding collected_def member_name_ok_def by (auto intro!: list_all_put)
qed

lemma member_boundI: "request \<in> set requests \<Longrightarrow> bound_by loads request v \<Longrightarrow> member_bound loads sb requests (n, v)"
  by (auto simp: member_bound_def list_ex_iff)

text \<open>Equality with a projected request fixes its string fields.\<close>

lemma py_eq_field: "py_eq (JObj kvs) w \<Longrightarrow> map_of kvs k = Some (JStr s) \<Longrightarrow> obj_get w k = JStr s"
proof -
  assume eq: "py_eq (JObj kvs) w" and k: "map_of kvs k = Some (JStr s)"
  from eq obtain kws where w: "w = JObj kws"
    and all: "list_all (\<lambda>(k, v). case map_of kws k of None \<Rightarrow> False | Some v' \<Rightarrow> py_eq v v') kvs"
    by (cases w) auto
  from map_of_SomeD [OF k] all obtain v where "map_of kws k = Some v" "py_eq (JStr s) v"
    by (auto simp: list_all_iff split: option.splits)
  with w show ?thesis by (simp add: obj_get_def)
qed

lemma projected_field:
  assumes eq: "py_eq (JObj (merge [(''source'', x)] (fields_of p))) request"
    and p: "is_dict p" "distinct (map fst (fields_of p))" "obj_get p k = JStr s"
  shows "obj_get request k = JStr s"
proof -
  obtain kvs where kvs: "p = JObj kvs" using p(1) by auto
  then have "map_of kvs k = Some (JStr s)" using p(3) by (auto simp: obj_get_def split: option.splits)
  then have "map_of (merge [(''source'', x)] (fields_of p)) k = Some (JStr s)"
    using kvs p(2) by (simp add: map_of_merge fields_of_def)
  with eq show ?thesis by (rule py_eq_field)
qed

definition zips_bound :: "json \<Rightarrow> tree \<Rightarrow> bool" where
  "zips_bound evidence dir \<longleftrightarrow> (\<exists>artifacts. py_iter (obj_get_default evidence ''artifacts'' (JArr [])) = Inr artifacts
     \<and> check_exports artifacts dir = Inr ())"

lemma requested_evidence_bound:
  assumes "requested_evidence site source request = Inr (raw, evidence)"
  shows "obj_get request ''original_evidence_sha256'' = JStr (sha_digest raw)" and "rs_loads site raw = Inr evidence"
    and "\<exists>s. obj_get request ''capture_receipt_sha256'' = JStr s"
    and "zips_bound evidence (subtree (path_parent source) (rs_raw site))"
proof -
  from assms obtain p where parse: "rs_loads site raw = Inr evidence"
    and pend: "pending_review_request (rs_loads site) (rs_zips site) (rs_manifest site)
               (subtree (path_parent source) (rs_raw site)) raw evidence = Inr (Some p)"
    and eq: "py_eq (JObj (merge [(''source'', JStr source)] (fields_of p))) request"
    unfolding requested_evidence_def by (auto split: option.splits simp del: py_eq.simps)
  from pending_review_bound [OF pend] have rb: "review_bound (rs_zips site) (rs_manifest site) (subtree (path_parent source) (rs_raw site)) raw evidence p"
    and z: "zips_bound evidence (subtree (path_parent source) (rs_raw site))"
    and p: "is_dict p" "distinct (map fst (fields_of p))" unfolding zips_bound_def by blast+
  from rb obtain rc where f: "obj_get p ''original_evidence_sha256'' = JStr (sha_digest raw)"
    "obj_get p ''capture_receipt_sha256'' = JStr (sha_digest rc)"
    unfolding review_bound_def by blast
  show "obj_get request ''original_evidence_sha256'' = JStr (sha_digest raw)" using projected_field [OF eq p f(1)] .
  show "\<exists>s. obj_get request ''capture_receipt_sha256'' = JStr s" using projected_field [OF eq p f(2)] by blast
  show "rs_loads site raw = Inr evidence" by (rule parse)
  show "zips_bound evidence (subtree (path_parent source) (rs_raw site))" by (rule z)
qed

lemma py_key_fields: "py_key v k = Inr x \<Longrightarrow> is_dict v \<and> obj_get v k = x"
  by (cases v) (auto simp: py_key_def obj_get_def split: option.splits)

text \<open>Each archive beside the evidence has the digest its only inventory row names.\<close>

lemma inventory_digest:
  assumes z: "zips_bound evidence dir" and orig: "original_digests evidence = Inr original"
    and ne: "(n, e) \<in> set (zip_entries dir)" and d: "original_digest original n = Inr d"
  shows "\<exists>b. e = Regular b \<and> d = JStr (sha_digest b) \<and> d \<in> (\<lambda>row. obj_get row ''sha256'') ` set (arr_of (obj_get evidence ''artifacts''))"
proof -
  from z obtain artifacts where it: "py_iter (obj_get_default evidence ''artifacts'' (JArr [])) = Inr artifacts"
    and chk: "check_exports artifacts dir = Inr ()" unfolding zips_bound_def by blast
  from orig obtain arts rows where arts: "py_key evidence ''artifacts'' = Inr arts" "py_iter arts = Inr rows"
    and m: "mapE (\<lambda>row. bindE (py_key row ''path'') (\<lambda>p. bindE (py_key row ''sha256'') (\<lambda>d.
       if \<not> hashable p then raise TypeError else ret (p, d)))) rows = Inr original"
    unfolding original_digests_def by (auto simp del: py_key_Inr)
  have same: "obj_get_default evidence ''artifacts'' (JArr []) = arts" "obj_get evidence ''artifacts'' = arts"
    using arts(1) by (cases evidence; auto simp: py_key_def obj_get_default_def obj_get_def split: option.splits)+
  with it arts(2) have rows: "rows = artifacts" by simp
  from d have "(JStr n, d) \<in> set original" by (auto simp: original_digest_def split: option.splits dest: map_of_SomeD)
  with mapE_set_result [OF m] obtain row where mem: "row \<in> set artifacts"
    and get: "py_key row ''path'' = Inr (JStr n)" "py_key row ''sha256'' = Inr d"
    unfolding rows by (fastforce simp del: py_key_Inr)
  from get py_key_fields have row: "row \<in> set artifacts" "obj_get row ''path'' = JStr n" "obj_get row ''sha256'' = d"
    and dict: "is_dict row" using mem by blast+
  obtain rs where rs: "rows_where (\<lambda>r. endswith (py_str (obj_get_default r ''path'' (JStr []))) ''.zip'') artifacts = Inr rs"
    and all: "\<not> list_ex (\<lambda>ne. \<not> archive_bound rs ne) (zip_entries dir)"
    using chk unfolding check_exports_def Let_def by (auto split: if_splits)
  from all ne have "archive_bound rs (n, e)" by (auto simp: list_ex_iff)
  then obtain b where b: "e = Regular b" and once: "bound_once (filter (\<lambda>r. obj_get r ''path'' = JStr n) rs) (sha_digest b)"
    by (auto simp: archive_bound_def file_sha256_def split: entry.splits)
  from ne have "endswith n ''.zip''" by (auto simp: zip_entries_def)
  moreover have "obj_get_default row ''path'' (JStr []) = JStr n"
    using row(2) by (auto simp: obj_get_default_def obj_get_def split: json.splits option.splits)
  ultimately have "row \<in> set (filter (\<lambda>r. obj_get r ''path'' = JStr n) rs)"
    using row rows_where_OK [OF rs] by simp
  moreover from once obtain r where "filter (\<lambda>r. obj_get r ''path'' = JStr n) rs = [r]" "obj_get r ''sha256'' = JStr (sha_digest b)"
    by (auto simp: bound_once_def split: list.splits)
  ultimately have "obj_get row ''sha256'' = JStr (sha_digest b)" by simp
  moreover from arts(2) rows row(1) dict have "row \<in> set (arr_of arts)"
    by (cases arts) (auto simp: py_iter_def)
  ultimately show ?thesis using b row(3) same(2) by (intro exI [of _ b]) (auto intro!: rev_image_eqI [of row])
qed

lemma foldE_each: "foldE f s xs = Inr t \<Longrightarrow> x \<in> set xs \<Longrightarrow> \<exists>a b. f a x = Inr b"
  by (induction xs arbitrary: s) auto

lemma py_iter_dict: "py_iter v = Inr xs \<Longrightarrow> x \<in> set xs \<Longrightarrow> is_dict x \<Longrightarrow> x \<in> set (arr_of v)"
  by (cases v) (auto simp: py_iter_def)

lemma export_steps_collected:
  assumes "foldE (export_step parent original) members xs = Inr members'" and "set xs \<subseteq> set (zip_entries dir)"
    and "zips_bound evidence dir" and "original_digests evidence = Inr original" and "collected P members"
    and P: "\<And>n v. JStr (sha_digest v) \<in> (\<lambda>row. obj_get row ''sha256'') ` set (arr_of (obj_get evidence ''artifacts'')) \<Longrightarrow> P (n, v)"
  shows "collected P members'"
  using assms(1,2,5)
proof (induction xs arbitrary: members)
  case (Cons x xs)
  obtain n e where x: "x = (n, e)" by (cases x)
  from Cons.prems(1) x obtain m1 where step: "export_step parent original members (n, e) = Inr m1"
    and rest: "foldE (export_step parent original) m1 xs = Inr members'" by auto
  from step obtain v d where v: "read_regular max_archive (Some e) = Inr v"
    and d: "original_digest original n = Inr d" and add: "add_member members (''raw/'' @ parent @ ''/'' @ n) v d = Inr m1"
    unfolding export_step_def by auto
  from Cons.prems(2) x have "(n, e) \<in> set (zip_entries dir)" by auto
  from inventory_digest [OF assms(3,4) this d] v have dv: "d = JStr (sha_digest v)"
    and "d \<in> (\<lambda>row. obj_get row ''sha256'') ` set (arr_of (obj_get evidence ''artifacts''))"
    by (auto simp: read_regular_Inr)
  then have "collected P m1" by (intro collected_add [OF add Cons.prems(3)]) (auto intro: P)
  with Cons.IH [OF rest] Cons.prems(2) show ?case by simp
qed simp

lemma image_steps_collected:
  assumes "foldE (image_step images) members ms = Inr members'" and "collected P members"
    and P: "\<And>n v m. m \<in> set ms \<Longrightarrow> JStr (sha_digest v) = obj_get m ''screenshot_sha256'' \<Longrightarrow> P (n, v)"
  shows "collected P members'"
  using assms
proof (induction ms arbitrary: members)
  case (Cons m ms)
  from Cons.prems(1) obtain m1 where step: "image_step images members m = Inr m1"
    and rest: "foldE (image_step images) m1 ms = Inr members'" by auto
  from step obtain pixels d where d: "py_key m ''screenshot_sha256'' = Inr d" "fullmatch_json delivery_digest_rx d = Inr True"
    and add: "add_member members (capture_name (str_of d)) pixels d = Inr m1"
    unfolding image_step_def by (auto simp del: py_key_Inr split: if_splits)
  have "d \<noteq> JNull" using d(2) by (auto simp: fullmatch_json_def)
  moreover have "obj_get m ''screenshot_sha256'' = d" using py_key_fields [OF d(1)] by simp
  ultimately have "collected P m1"
    by (intro collected_add [OF add Cons.prems(2)]) (auto simp: capture_name_def intro: Cons.prems(3) [of m])
  then show ?case by (rule Cons.IH [OF rest]) (auto intro: Cons.prems(3))
qed simp

lemma request_step_parts:
  assumes "request_step site exports members request = Inr members'"
  obtains source raw evidence d1 m1 receipt d2 m2 original m3 d3 enriched m4 mods ms where
    "requested_evidence site source request = Inr (raw, evidence)"
    "py_key request ''original_evidence_sha256'' = Inr d1" "add_member members (''raw/'' @ source) raw d1 = Inr m1"
    "py_key request ''capture_receipt_sha256'' = Inr d2"
    "add_member m1 (''raw/'' @ path_parent source @ ''/official-real-ui-images.json'') receipt d2 = Inr m2"
    "original_digests evidence = Inr original"
    "foldE (export_step (path_parent source) original) m2 (zip_entries (subtree (path_parent source) (rs_raw site))) = Inr m3"
    "py_key request ''official_export_sha256'' = Inr d3" "reexport exports d3 = Inr enriched"
    "add_member m3 (''private/'' @ drop 7 (str_of d3) @ ''.zip'') enriched d3 = Inr m4"
    "py_key request ''modules'' = Inr mods" "py_iter mods = Inr ms"
    "foldE (image_step (rs_images site)) m4 ms = Inr members'"
  using assms unfolding request_step_def Let_def bindE_eq_Inr case_prod_unfold
  by (elim exE conjE) (auto simp: prod_eq_iff simp del: py_key_Inr)

lemma request_step_collected:
  assumes run: "request_step site exports members request = Inr members'" and r: "request \<in> set requests"
    and inv: "collected (member_bound (rs_loads site) sb requests) members"
  shows "collected (member_bound (rs_loads site) sb requests) members'"
proof -
  let ?P = "member_bound (rs_loads site) sb requests"
  from run obtain source raw evidence d1 m1 receipt d2 m2 original m3 d3 enriched m4 mods ms where
    ev: "requested_evidence site source request = Inr (raw, evidence)"
    and k1: "py_key request ''original_evidence_sha256'' = Inr d1" and a1: "add_member members (''raw/'' @ source) raw d1 = Inr m1"
    and k2: "py_key request ''capture_receipt_sha256'' = Inr d2"
    and a2: "add_member m1 (''raw/'' @ path_parent source @ ''/official-real-ui-images.json'') receipt d2 = Inr m2"
    and orig: "original_digests evidence = Inr original"
    and a3: "foldE (export_step (path_parent source) original) m2 (zip_entries (subtree (path_parent source) (rs_raw site))) = Inr m3"
    and k3: "py_key request ''official_export_sha256'' = Inr d3" and re: "reexport exports d3 = Inr enriched"
    and a4: "add_member m3 (''private/'' @ drop 7 (str_of d3) @ ''.zip'') enriched d3 = Inr m4"
    and k4: "py_key request ''modules'' = Inr mods" "py_iter mods = Inr ms"
    and a5: "foldE (image_step (rs_images site)) m4 ms = Inr members'"
    by (rule request_step_parts)
  note b = requested_evidence_bound [OF ev]
  have mb: "?P (n, v)" if "bound_by (rs_loads site) request v" for n v using member_boundI [OF r that] .
  have d1: "d1 = JStr (sha_digest raw)" using b(1) py_key_fields [OF k1] by simp
  from b(3) py_key_fields [OF k2] obtain s where d2: "d2 = JStr s" by auto
  have dig: "bound_by (rs_loads site) request v" if "JStr (sha_digest v) \<in> {d1, d2, d3}" for v
    using that py_key_fields [OF k1] py_key_fields [OF k2] py_key_fields [OF k3]
    by (auto simp: bound_by_def request_digests_def)
  have c1: "collected ?P m1" by (intro collected_add [OF a1 inv]) (auto intro!: mb dig simp: d1)
  have c2: "collected ?P m2" by (intro collected_add [OF a2 c1]) (auto intro!: mb dig simp: d2)
  have c3: "collected ?P m3"
    by (rule export_steps_collected [OF a3 subset_refl b(4) orig c2]) (rule mb, rule bound_by_inventory [OF b(1)], rule b(2))
  have d3: "JStr (sha_digest enriched) = d3"
    using re by (auto simp: reexport_def filter_eq_Cons_iff split: list.splits)
  have c4: "collected ?P m4" by (intro collected_add [OF a4 c3]) (auto intro!: mb dig simp: d3)
  show ?thesis
  proof (rule image_steps_collected [OF a5 c4])
    fix n v m assume m: "m \<in> set ms" and dm: "JStr (sha_digest v) = obj_get m ''screenshot_sha256''"
    from foldE_each [OF a5 m] obtain x y where "image_step (rs_images site) x m = Inr y" by blast
    then have "is_dict m" by (auto simp: image_step_def py_key_def split: json.splits)
    with k4(2) m have "m \<in> set (arr_of mods)" by (rule py_iter_dict)
    then have "m \<in> set (request_modules request)" using py_key_fields [OF k4(1)] by (simp add: request_modules_def)
    with dm show "?P (n, v)" by (intro mb) (auto simp: bound_by_def request_digests_def)
  qed
qed

text \<open>A member once added keeps its bytes.\<close>

lemma add_member_keeps: "add_member ms n v e = Inr ms' \<Longrightarrow> map_of ms k = Some b \<Longrightarrow> map_of ms' k = Some b"
  by (auto simp: add_member_Inr)

lemma export_step_keeps: "export_step p o' ms x = Inr ms' \<Longrightarrow> map_of ms k = Some b \<Longrightarrow> map_of ms' k = Some b"
  unfolding export_step_def by (cases x) (auto dest: add_member_keeps)

lemma image_step_keeps: "image_step images ms x = Inr ms' \<Longrightarrow> map_of ms k = Some b \<Longrightarrow> map_of ms' k = Some b"
  unfolding image_step_def by (auto dest: add_member_keeps split: if_splits simp del: py_key_Inr)

lemma request_step_keeps:
  assumes "request_step site exports ms request = Inr ms'" and "map_of ms k = Some b"
  shows "map_of ms' k = Some b"
proof -
  have exports: "map_of y k = Some b" if "foldE (export_step p orig) x xs = Inr y" "map_of x k = Some b" for p orig x y xs
    using that(2) by (rule foldE_invariant [OF that(1)]) (rule export_step_keeps)
  have imgs: "map_of y k = Some b" if "foldE (image_step t) x xs = Inr y" "map_of x k = Some b" for t x y xs
    using that(2) by (rule foldE_invariant [OF that(1)]) (rule image_step_keeps)
  from assms(1) show ?thesis
    by (rule request_step_parts) (rule imgs, assumption, rule add_member_keeps, assumption, rule exports, assumption,
        rule add_member_keeps, assumption, rule add_member_keeps, assumption, rule assms(2))
qed

lemma review_members_collected:
  assumes "review_members site sb requests = Inr members"
  shows "collected (member_bound (rs_loads site) sb requests) members \<and> map_of members ''summary.json'' = Some sb"
proof -
  from assms obtain m0 exports where m0: "add_member [] ''summary.json'' sb JNull = Inr m0"
    and run: "foldE (request_step site exports) m0 requests = Inr members"
    unfolding review_members_def by auto
  have "collected (member_bound (rs_loads site) sb requests) []" by (simp add: collected_def total_size_def)
  then have "collected (member_bound (rs_loads site) sb requests) m0"
    by (rule collected_add [OF m0]) (simp_all add: member_bound_def)
  then have "collected (member_bound (rs_loads site) sb requests) members"
    by (rule foldE_invariant [OF run]) (rule request_step_collected)
  moreover have "map_of members ''summary.json'' = Some sb"
  proof (rule foldE_invariant [OF run])
    show "map_of m0 ''summary.json'' = Some sb" using m0 by (simp add: add_member_Inr)
  next
    fix s x s' assume kept: "map_of s ''summary.json'' = Some sb" and step: "request_step site exports s x = Inr s'"
    from request_step_keeps [OF step kept] show "map_of s' ''summary.json'' = Some sb" .
  qed
  ultimately show ?thesis by blast
qed

text \<open>
  Claim C25. Nothing unbound leaves for review: every member of the private archive has a safe
  relative name that occurs once, the members together respect the size limit, and apart from
  the exact bytes of the public summary each member has a digest which a review request of
  that summary names, or which the evidence inventory bound by such a digest names.
\<close>

theorem review_members_bound:
  "case review_members site summary_bytes requests of
     Inl e \<Rightarrow> True
   | Inr members \<Rightarrow> distinct (map fst members) \<and> total_size members \<le> max_archive
       \<and> map_of members ''summary.json'' = Some summary_bytes
       \<and> list_all (isOK \<circ> safe_path \<circ> fst) members
       \<and> list_all (member_bound (rs_loads site) summary_bytes requests) members"
proof (cases "review_members site summary_bytes requests")
  case (Inr members)
  from review_members_collected [OF this] have c: "collected (member_bound (rs_loads site) summary_bytes requests) members"
    and s: "map_of members ''summary.json'' = Some summary_bytes" by blast+
  from c have "list_all (isOK \<circ> safe_path \<circ> fst) members"
    by (auto simp: collected_def list_all_iff member_name_ok_def)
  with c s Inr show ?thesis by (simp add: collected_def)
qed simp

section \<open>What is packed can be unpacked\<close>

definition tar_file :: "string \<times> bytes \<Rightarrow> tar_entry" where
  "tar_file m = \<lparr>te_name = fst m, te_file = True, te_size = length (snd m), te_data = Some (snd m)\<rparr>"

lemma total_size_append: "total_size (a @ b) = total_size a + total_size b"
  by (simp add: total_size_def)

lemma unpack_files:
  assumes "list_all (isOK \<circ> safe_path \<circ> fst) ms" and "distinct (map fst (acc @ ms))" and "length (acc @ ms) \<le> 1025"
    and "total_size (acc @ ms) \<le> max_archive"
  shows "foldE unpack_step acc (map tar_file ms) = Inr (acc @ ms)"
  using assms
proof (induction ms arbitrary: acc)
  case (Cons m ms)
  obtain n v where m: "m = (n, v)" by (cases m)
  from Cons.prems(1) m have "isOK (safe_path n)" by simp
  then have safe: "safe_path n = Inr n" using safe_path_Inr by (metis isOK_iff)
  from Cons.prems(4) m have "length v \<le> max_archive" "total_size (acc @ [(n, v)]) \<le> max_archive"
    by (simp_all add: total_size_append total_size_def)
  with safe m Cons.prems have step: "unpack_step acc (tar_file m) = Inr (acc @ [m])"
    by (simp add: unpack_step_def tar_file_def Let_def)
  have "foldE unpack_step (acc @ [m]) (map tar_file ms) = Inr ((acc @ [m]) @ ms)"
    using Cons.prems by (intro Cons.IH) simp_all
  with step show ?case by simp
qed simp

lemma unpack_bounds:
  assumes "foldE unpack_step [] es = Inr ms"
  shows "length ms \<le> 1025 \<and> total_size ms \<le> max_archive"
proof (rule foldE_invariant [OF assms])
  fix acc e acc' assume "unpack_step acc e = Inr acc'"
  then show "length acc' \<le> 1025 \<and> total_size acc' \<le> max_archive"
    by (auto simp: unpack_step_def Let_def split: if_splits option.splits)
qed (simp add: total_size_def)

text \<open>Each step keeps the file it reads, whole.\<close>

lemma unpack_from:
  assumes "foldE unpack_step [] (map tar_file ms) = Inr ms'"
  shows "list_all2 (\<lambda>e m. e = tar_file m) (map tar_file ms) ms'"
proof -
  have "list_all2 (\<lambda>e m. e = tar_file m) (map tar_file (acc @ ms)) ms'"
    if "foldE unpack_step acc (map tar_file ms) = Inr ms'" for acc
    using that
  proof (induction ms arbitrary: acc)
    case Nil
    then show ?case by (simp add: list_all2_conv_all_nth)
  next
    case (Cons m ms)
    then obtain acc' where step: "unpack_step acc (tar_file m) = Inr acc'"
      and rest: "foldE unpack_step acc' (map tar_file ms) = Inr ms'" by auto
    from step obtain n where n: "safe_path (fst m) = Inr n" by (auto simp: unpack_step_def tar_file_def)
    with step have "acc' = acc @ [m]"
      by (auto simp: unpack_step_def tar_file_def Let_def prod_eq_iff dest: safe_path_Inr split: if_splits)
    with Cons.IH [OF rest] show ?case by simp
  qed
  from this [of "[]"] assms show ?thesis by simp
qed

lemma merge_fresh: "distinct (map fst (a @ b)) \<Longrightarrow> merge a b = a @ b"
  unfolding merge_def
proof (induction b arbitrary: a)
  case (Cons kv b)
  obtain k v where kv: "kv = (k, v)" by (cases kv)
  with Cons.prems have "put k v a = a @ [(k, v)]" by (intro put_fresh) auto
  moreover have "fold (\<lambda>(k, v). put k v) b (a @ [(k, v)]) = (a @ [(k, v)]) @ b"
    using Cons.prems kv by (intro Cons.IH) simp
  ultimately show ?case using kv by simp
qed simp

lemma distinct_sorted_keys: "distinct (map fst kvs) \<Longrightarrow> distinct (map fst (sort_key fst kvs))"
  by (simp add: distinct_map)

lemma map_of_sorted: "distinct (map fst kvs) \<Longrightarrow> map_of (sort_key fst kvs) = map_of kvs"
  by (simp add: map_of_inject_set distinct_sorted_keys)

section \<open>Sorting keys keeps a value\<close>

lemma py_eq_sort_keys: "wf_json v \<Longrightarrow> py_eq (sort_keys v) v"
proof (induction v)
  case (JArr xs)
  then show ?case by (auto simp: list_all_iff)
next
  case (JObj kvs)
  have "\<exists>w. map_of kvs k = Some w \<and> py_eq (sort_keys v) w" if kv: "(k, v) \<in> set kvs" for k v
  proof -
    from kv have "v \<in> Basic_BNFs.snds (k, v)" by simp
    with JObj kv have "py_eq (sort_keys v) v" by (auto simp: list_all_iff)
    with kv JObj.prems show ?thesis by (intro exI [of _ v]) simp
  qed
  then show ?case by (force simp: list_all_iff)
qed auto

lemma obj_get_sort_keys: "wf_json v \<Longrightarrow> obj_get (sort_keys v) k = sort_keys (obj_get v k)"
proof (cases v)
  case (JObj kvs)
  assume "wf_json v"
  with JObj have "distinct (map fst (map (\<lambda>(k, v). (k, sort_keys v)) kvs))" by (simp add: comp_def case_prod_unfold)
  with JObj show ?thesis
    by (simp add: obj_get_def map_of_sorted map_of_map split: option.split)
qed (simp_all add: obj_get_def)

lemma payloads_of:
  assumes "distinct (map fst members)" and "list_all (member_name_ok \<circ> fst) members"
    and x_def: "x = (''manifest.json'', utf8 (json_dumps_sorted manifest))"
  shows "payloads manifest members = sort_key fst (x # members)" and "distinct (map fst (x # members))"
proof -
  have "''manifest.json'' \<notin> fst ` set members" using assms(2) by (auto simp: list_all_iff member_name_ok_def)
  with assms(1) show "distinct (map fst (x # members))" by (simp add: x_def)
  then have "merge [x] members = x # members" by (subst merge_fresh) simp_all
  then show "payloads manifest members = sort_key fst (x # members)" by (simp add: payloads_def x_def)
qed

lemma unpack_payloads:
  assumes "distinct (map fst members)" and "list_all (member_name_ok \<circ> fst) members"
  shows "unpack (\<lambda>_. Inr (map tar_file (payloads manifest members), None)) archive = Inr ms \<longleftrightarrow>
     length archive \<le> max_archive \<and> length members \<le> 1024 \<and> total_size (payloads manifest members) \<le> max_archive
     \<and> ms = payloads manifest members"
proof -
  let ?p = "payloads manifest members"
  note p = payloads_of [OF assms refl, of manifest]
  have len: "length ?p = Suc (length members)" by (simp add: p(1))
  have dist: "distinct (map fst ?p)" unfolding p(1) by (rule distinct_sorted_keys [OF p(2)])
  have "isOK (safe_path ''manifest.json'')" by code_simp
  then have safe: "list_all (isOK \<circ> safe_path \<circ> fst) ?p"
    using assms(2) unfolding p(1) list_all_iff set_sort by (simp add: member_name_ok_def)
  have files: "foldE unpack_step [] (map tar_file ?p) = Inr ?p" if "length members \<le> 1024" "total_size ?p \<le> max_archive"
    using unpack_files [OF safe, of "[]"] dist len that by simp
  have eq: "ms = ?p \<and> length members \<le> 1024 \<and> total_size ?p \<le> max_archive"
    if run: "foldE unpack_step [] (map tar_file ?p) = Inr ms"
  proof -
    from run have "list_all2 (\<lambda>e m. e = tar_file m) (map tar_file ?p) ms" by (rule unpack_from)
    then have "ms = ?p" by (auto simp: list_all2_conv_all_nth tar_file_def prod_eq_iff intro!: nth_equalityI)
    with unpack_bounds [OF run] len show ?thesis by simp
  qed
  show ?thesis using files eq by (auto simp: unpack_def)
qed

text \<open>
  Claim C26. What is packed for review can be opened again: reading the archive that was
  written from the collected members succeeds exactly when archive and contents respect the
  size limit and there are at most 1024 members; then the manifest comes back, the members
  come back byte for byte, and they satisfy the binding check of the viewer.
\<close>

theorem packed_review_opens:
  "case review_members site summary_bytes requests of
     Inl e \<Rightarrow> True
   | Inr members \<Rightarrow>
      (let manifest = delivery_manifest lane (JArr requests) summary_bytes og scope members;
           packed = payloads manifest members;
           opened = unpack (\<lambda>_. Inr (map tar_file packed, None)) archive
       in (isOK opened = (length archive \<le> max_archive \<and> length members \<le> 1024 \<and> total_size packed \<le> max_archive))
        \<and> (if isOK opened \<and> wf_json (JArr requests) \<and> wf_json lane
              \<and> loads (utf8 (json_dumps_sorted manifest)) = Inr (sort_keys manifest)
           then \<exists>manifest' members'. bindE opened (take_manifest loads) = Inr (manifest', members')
              \<and> map_of members' = map_of members
              \<and> manifest_bound manifest' summary_bytes (JArr requests) members'
           else True))"
proof (cases "review_members site summary_bytes requests")
  case (Inr members)
  from review_members_collected [OF this] have dist: "distinct (map fst members)"
    and names: "list_all (member_name_ok \<circ> fst) members" and sb: "map_of members ''summary.json'' = Some summary_bytes"
    by (simp_all add: collected_def)
  define manifest where "manifest = delivery_manifest lane (JArr requests) summary_bytes og scope members"
  define x where "x = (''manifest.json'', utf8 (json_dumps_sorted manifest))"
  define members' where "members' = filter (\<lambda>(n, v). n \<noteq> ''manifest.json'') (payloads manifest members)"
  note p = payloads_of [OF dist names x_def]
  have m': "members' = sort_key fst members"
  proof -
    have "filter (\<lambda>(n, v). n \<noteq> ''manifest.json'') members = members"
      using names by (auto simp: filter_id_conv list_all_iff member_name_ok_def)
    then show ?thesis unfolding members'_def p(1) filter_sort by (simp add: x_def)
  qed
  have map': "map_of members' = map_of members" by (simp add: m' map_of_sorted dist)
  have table: "member_table members' = member_table members"
    by (simp add: member_table_def m' sort_key_id_if_sorted [OF sorted_sort_key])
  have wf: "wf_json (member_table members)"
    using distinct_sorted_keys [OF dist] by (simp add: member_table_def list_all_iff comp_def case_prod_unfold)
  have found: "map_of (payloads manifest members) ''manifest.json'' = Some (utf8 (json_dumps_sorted manifest))"
    unfolding p(1) map_of_sorted [OF p(2)] by (simp add: x_def)
  have bound: "manifest_bound (sort_keys manifest) summary_bytes (JArr requests) members'"
    if w: "wf_json (JArr requests)" "wf_json lane"
  proof -
    have wfm: "wf_json manifest" using w wf by (simp add: manifest_def delivery_manifest_def)
    show ?thesis
      unfolding manifest_bound_def obj_get_sort_keys [OF wfm] table map'
      using py_eq_sort_keys [OF w(1)] py_eq_sort_keys [OF wf] sb
      by (simp add: manifest_def delivery_manifest_def del: py_eq.simps)
  qed
  show ?thesis
    unfolding Inr sum.case Let_def manifest_def [symmetric]
    using unpack_payloads [OF dist names, of manifest archive] map' bound found
    by (auto simp: isOK_iff take_manifest_def members'_def)
qed simp

end
