(* ===== verification/Review_Viewer_Props.thy ===== *)
theory Review_Viewer_Props
  imports Review_Delivery_Props Review_Crypto_Props
begin

text \<open>
  The viewer writes verified images and its own two documents, nothing else; a review it
  opens is complete and stays pending.
\<close>

section \<open>Paths below the output directory\<close>

definition relative_name :: "string \<Rightarrow> bool" where
  "relative_name n = (path_parts n \<noteq> [] \<and> join ''/'' (path_parts n) = n)"

definition below :: "string \<Rightarrow> string" where
  "below d = path_root (d @ ''/x'') @ concat (map (\<lambda>p. p @ ''/'') (path_parts d))"

lemma join_append_parts: "ps \<noteq> [] \<Longrightarrow> join ''/'' (qs @ ps) = concat (map (\<lambda>p. p @ ''/'') qs) @ join ''/'' ps"
proof (induction qs)
  case (Cons q qs)
  then show ?case by (cases "qs @ ps") auto
qed simp

lemma root_join: "n \<noteq> [] \<Longrightarrow> hd n \<noteq> CHR ''/'' \<Longrightarrow> path_root (d @ CHR ''/'' # n) = path_root (d @ ''/x'')"
proof -
  assume n: "n \<noteq> []" "hd n \<noteq> CHR ''/''"
  then obtain c cs where "n = c # cs" "c \<noteq> CHR ''/''" by (cases n) auto
  moreover obtain d1 d2 d3 where "d = [] \<or> d = [d1] \<or> d = [d1, d2] \<or> d = d1 # d2 # d3" by (metis neq_Nil_conv)
  ultimately show ?thesis by (cases d3) (auto simp: path_root_def startswith_def)
qed

lemma relative_hd: "relative_name n \<Longrightarrow> n \<noteq> [] \<and> hd n \<noteq> CHR ''/''"
proof -
  assume n: "relative_name n"
  then obtain p ps where ps: "path_parts n = p # ps" by (cases "path_parts n") (auto simp: relative_name_def)
  then have "p \<noteq> []" "CHR ''/'' \<notin> set p" using path_parts_member [of p n] by auto
  moreover have "n = join ''/'' (p # ps)" using n ps by (simp add: relative_name_def)
  ultimately show ?thesis by (cases p; cases ps) auto
qed

lemma path_join_below: "relative_name n \<Longrightarrow> path_join d n = below d @ n"
proof -
  assume n: "relative_name n"
  have parts: "path_parts (d @ CHR ''/'' # n) = path_parts d @ path_parts n"
    by (simp add: path_parts_def split_on_append)
  have "join ''/'' (path_parts d @ path_parts n) = concat (map (\<lambda>p. p @ ''/'') (path_parts d)) @ n"
    using n by (subst join_append_parts) (simp_all add: relative_name_def)
  with relative_hd [OF n] root_join [of n d] show ?thesis
    by (simp add: path_join_def path_str_def below_def parts Let_def)
qed

lemma verified_name: "JStr (sha_digest v) = d \<Longrightarrow> capture_name (str_of d) = ''images/'' @ hexdigest v @ ''.png''"
  by (auto simp: capture_name_def sha_digest_def)

lemma digest_image_relative: "relative_name (''images/'' @ hexdigest v @ ''.png'')"
proof -
  have "CHR ''/'' \<notin> set (hexdigest v @ ''.png'')" using hexdigest_no_slash by simp
  then have "split_on (CHR ''/'') (''images'' @ CHR ''/'' # (hexdigest v @ ''.png'')) = [''images'', hexdigest v @ ''.png'']"
    unfolding split_on_append by (subst split_on_single) (simp_all add: split_on_single)
  then have "path_parts (''images/'' @ hexdigest v @ ''.png'') = [''images'', hexdigest v @ ''.png'']"
    by (simp add: path_parts_def)
  then show ?thesis by (simp add: relative_name_def)
qed

lemma plain_relative: "plain_name n \<Longrightarrow> relative_name n"
proof -
  assume n: "plain_name n"
  then have "path_parts n = [n]" by (simp add: path_parts_def plain_name_def split_on_single)
  then show ?thesis by (simp add: relative_name_def)
qed

lemma path_join_inj: "relative_name a \<Longrightarrow> relative_name b \<Longrightarrow> path_join d a = path_join d b \<Longrightarrow> a = b"
  by (simp add: path_join_below)

section \<open>The gallery\<close>

definition shot :: "json \<Rightarrow> string" where "shot m = str_of (obj_get m ''screenshot_sha256'')"

text \<open>The bytes \<open>b\<close> are the image of case \<open>m\<close>: from the archive, a PNG, with the digest the case names.\<close>

definition shown :: "members \<Rightarrow> json \<Rightarrow> bytes \<Rightarrow> bool" where
  "shown members m b = (is_dict m \<and> map_of members (capture_name (shot m)) = Some b
     \<and> obj_get m ''screenshot_sha256'' = JStr (sha_digest b) \<and> take 8 b = [137, 80, 78, 71, 13, 10, 26, 10])"

lemma verified_shown: "is_dict m \<Longrightarrow> image_verified members (obj_get m ''screenshot_sha256'') (capture_name (shot m)) b \<Longrightarrow> shown members m b"
  by (auto simp: shown_def image_verified_def is_png_def png_signature_def)

definition gallery_ok :: "members \<Rightarrow> gallery \<Rightarrow> json list \<Rightarrow> bool" where
  "gallery_ok members st seen = (distinct (map fst (fst st))
     \<and> list_all (\<lambda>(i, b). \<exists>m\<in>set seen. i = capture_name (shot m) \<and> shown members m b) (fst st)
     \<and> list_all (\<lambda>m. \<exists>b. map_of (fst st) (capture_name (shot m)) = Some b \<and> shown members m b) seen
     \<and> length (snd st) = length seen)"

lemma shown_member: "shown members m b \<Longrightarrow> map_of members (capture_name (shot m)) = Some b"
  by (simp add: shown_def)

lemma view_module_shown:
  assumes "view_module members st m = Inr st'"
  shows "\<exists>v c. shown members m v \<and> st' = (put (capture_name (shot m)) v (fst st), snd st @ [c])"
proof -
  from assms obtain d where d: "py_key m ''screenshot_sha256'' = Inr d" "is_str d"
    and rest: "(case map_of members (capture_name (str_of d)) of
         None \<Rightarrow> raise (ValueError ''private review image differs from its exact official case'')
       | Some v \<Rightarrow>
           if \<not> image_verified members d (capture_name (str_of d)) v
           then raise (ValueError ''private review image differs from its exact official case'')
           else bindE (py_key m ''test_name'') (\<lambda>name.
             if \<not> is_str name then raise AttributeError
             else ret (put (capture_name (str_of d)) v (fst st), snd st @ [card (card_title (str_of name)) (capture_name (str_of d)) m]))) = Inr st'"
    unfolding view_module_def Let_def bindE_eq_Inr if_raise_eq_Inr not_not by blast
  from rest obtain v c where v: "image_verified members d (capture_name (str_of d)) v"
    and st': "st' = (put (capture_name (str_of d)) v (fst st), snd st @ [c])"
    by (auto simp del: py_key_Inr json_tests split: option.splits if_splits)
  have "d = obj_get m ''screenshot_sha256''" "is_dict m" using py_key_fields [OF d(1)] by simp_all
  with v st' show ?thesis using verified_shown unfolding shot_def by blast
qed

lemma view_module_ok:
  assumes "view_module members st m = Inr st'" and ok: "gallery_ok members st seen"
  shows "gallery_ok members st' (seen @ [m])"
proof -
  from view_module_shown [OF assms(1)] obtain v c where v: "shown members m v"
    and st': "st' = (put (capture_name (shot m)) v (fst st), snd st @ [c])" by blast
  have "\<exists>b. map_of (put (capture_name (shot m)) v (fst st)) (capture_name (shot m')) = Some b \<and> shown members m' b"
    if m': "m' \<in> set (seen @ [m])" for m'
  proof (cases "capture_name (shot m') = capture_name (shot m)")
    case True
    have "shown members m' v"
    proof (cases "m' = m")
      case False
      with m' ok obtain b where "shown members m' b" by (auto simp: gallery_ok_def list_all_iff)
      with shown_member [OF this] shown_member [OF v] True show ?thesis by simp
    qed (use v in simp)
    with True show ?thesis by simp
  next
    case False
    with m' have "m' \<in> set seen" by auto
    with ok False show ?thesis by (auto simp: gallery_ok_def list_all_iff)
  qed
  moreover have "list_all (\<lambda>(i, b). \<exists>m\<in>set (seen @ [m]). i = capture_name (shot m) \<and> shown members m b)
      (put (capture_name (shot m)) v (fst st))"
    using ok v by (intro list_all_put) (auto simp: gallery_ok_def list_all_iff)
  ultimately show ?thesis using ok unfolding gallery_ok_def st' by (simp add: list_all_iff)
qed

lemma view_modules_ok:
  "foldE (view_module members) st ms = Inr st' \<Longrightarrow> gallery_ok members st seen \<Longrightarrow>
     gallery_ok members st' (seen @ ms) \<and> list_all is_dict ms"
proof (induction ms arbitrary: st seen)
  case (Cons m ms)
  from Cons.prems(1) obtain st1 where step: "view_module members st m = Inr st1"
    and rest: "foldE (view_module members) st1 ms = Inr st'" by auto
  from Cons.IH [OF rest view_module_ok [OF step Cons.prems(2)]] view_module_shown [OF step]
  show ?case by (auto simp: shown_def)
qed simp

lemma py_iter_dicts: "py_iter v = Inr xs \<Longrightarrow> list_all is_dict xs \<Longrightarrow> xs = arr_of v"
proof (cases v)
  case (JObj kvs)
  assume "py_iter v = Inr xs" "list_all is_dict xs"
  with JObj show ?thesis by (cases kvs) (auto simp: py_iter_def arr_of_def)
qed (auto simp: py_iter_def list_all_iff neq_Nil_conv arr_of_def)

lemma view_request_ok:
  assumes "view_request members st request = Inr st'" and "gallery_ok members st seen"
  shows "gallery_ok members st' (seen @ request_modules request)"
proof -
  from assms(1) obtain v ms where v: "py_key request ''modules'' = Inr v" "py_iter v = Inr ms"
    and run: "foldE (view_module members) st ms = Inr st'"
    unfolding view_request_def bindE_eq_Inr by blast
  from view_modules_ok [OF run assms(2)] py_iter_dicts [OF v(2)] py_key_fields [OF v(1)]
  show ?thesis by (simp add: request_modules_def)
qed

lemma view_requests_ok:
  "foldE (view_request members) st rs = Inr st' \<Longrightarrow> gallery_ok members st seen \<Longrightarrow>
     gallery_ok members st' (seen @ concat (map request_modules rs))"
proof (induction rs arbitrary: st seen)
  case (Cons r rs)
  from Cons.prems(1) obtain st1 where step: "view_request members st r = Inr st1"
    and rest: "foldE (view_request members) st1 rs = Inr st'" by auto
  from Cons.IH [OF rest view_request_ok [OF step Cons.prems(2)]] show ?case by simp
qed simp

definition review_cases :: "review_packet \<Rightarrow> json list" where
  "review_cases p = concat (map request_modules (requests_of (rp_summary p)))"

lemma gallery_of_ok:
  assumes "gallery_of p = Inr (images, cards)"
  shows "gallery_ok (rp_members p) (images, cards) (review_cases p) \<and> cards \<noteq> []"
proof -
  from assms have run: "foldE (view_request (rp_members p)) ([], []) (requests_of (rp_summary p)) = Inr (images, cards)" and ne: "cards \<noteq> []"
    unfolding gallery_of_def bindE_eq_Inr by (auto split: prod.splits if_splits)
  have "gallery_ok (rp_members p) ([], []) []" by (simp add: gallery_ok_def)
  from view_requests_ok [OF run this] ne show ?thesis by (simp add: review_cases_def)
qed

section \<open>What is written\<close>

definition new_files :: "'x host \<Rightarrow> 'x host \<Rightarrow> (string \<times> bytes) set" where
  "new_files w w' = {(q, b). files w' q = Some (File b) \<and> files w q \<noteq> Some (File b)}"

definition writes_within :: "(string \<times> bytes) set \<Rightarrow> ('x host, 'a) io \<Rightarrow> bool" where
  "writes_within S m = (\<forall>w. keeps (\<lambda>w'. new_files w w' \<subseteq> S) m)"

lemma writes_within_basic [intro]:
  "writes_within S (retIO x)" "writes_within S (raiseIO e)" "writes_within S (liftIO r)" "writes_within S (ask f)"
  by (auto simp: writes_within_def intro: extends_ask)

lemma writes_within_bind: "writes_within S m \<Longrightarrow> (\<And>x. writes_within S (f x)) \<Longrightarrow> writes_within S (bindIO m f)"
  unfolding writes_within_def by blast

lemma writes_within_if: "(\<not> c \<Longrightarrow> writes_within S m) \<Longrightarrow> writes_within S (if c then raiseIO e else m)"
  by (simp add: writes_within_basic(2))

lemma writes_within_write: "(p, b) \<in> S \<Longrightarrow> writes_within S (write_bytes p b)"
  unfolding writes_within_def keeps_def write_bytes_def new_files_def by (auto split: if_splits)

lemma writes_within_mkdirs: "writes_within S (mkdirs p ok)"
  by (auto simp: writes_within_def keeps_def mkdirs_def new_files_def split: option.splits node.splits if_splits)

lemma writes_within_images:
  "list_all (\<lambda>(n, b). (path_join d n, b) \<in> S) ms \<Longrightarrow> writes_within S (write_images d ms)"
  by (induction ms) (auto intro!: writes_within_bind writes_within_write)

lemma write_images_other:
  "write_images d ms w = (Inr u, w') \<Longrightarrow> q \<notin> path_join d ` fst ` set ms \<Longrightarrow> files w' q = files w q"
proof (induction ms arbitrary: w)
  case (Cons m ms)
  obtain n v where m: "m = (n, v)" by (cases m)
  from Cons.prems(1) m obtain w1 where "write_bytes (path_join d n) v w = (Inr (), w1)"
    and rest: "write_images d ms w1 = (Inr u, w')" by (auto simp: bindIO_OK)
  then have "files w1 q = files w q" using Cons.prems(2) m by (auto simp: write_bytes_OK)
  with Cons.IH [OF rest] Cons.prems(2) m show ?case by simp
qed simp

lemma write_images_OK:
  "write_images d ms w = (Inr u, w') \<Longrightarrow> distinct (map fst ms) \<Longrightarrow> list_all (relative_name \<circ> fst) ms \<Longrightarrow>
     list_all (\<lambda>(n, v). files w' (path_join d n) = Some (File v)) ms"
proof (induction ms arbitrary: w)
  case (Cons m ms)
  obtain n v where m: "m = (n, v)" by (cases m)
  from Cons.prems(1) m obtain w1 where first: "write_bytes (path_join d n) v w = (Inr (), w1)"
    and rest: "write_images d ms w1 = (Inr u, w')" by (auto simp: bindIO_OK)
  have "path_join d n \<notin> path_join d ` fst ` set ms"
  proof
    assume "path_join d n \<in> path_join d ` fst ` set ms"
    then obtain k where k: "k \<in> fst ` set ms" "path_join d n = path_join d k" by blast
    have "relative_name n" "relative_name k" using Cons.prems(3) m k(1) by (auto simp: list_all_iff)
    from path_join_inj [OF this k(2)] k(1) Cons.prems(2) m show False by simp
  qed
  from write_images_other [OF rest this] first have "files w' (path_join d n) = Some (File v)" by (auto simp: write_bytes_OK)
  with Cons.IH [OF rest] Cons.prems(2,3) m show ?case by simp
qed simp

definition verified_files :: "review_packet \<Rightarrow> string \<Rightarrow> (string \<times> bytes) set" where
  "verified_files p d = {(path_join d (capture_name (shot m)), b) | m b. m \<in> set (review_cases p) \<and> shown (rp_members p) m b}"

definition viewer_documents :: "string \<Rightarrow> (string \<times> bytes) set" where
  "viewer_documents d = {path_join d ''index.html'', path_join d ''review-readback.json''} \<times> UNIV"

lemma shown_name: "shown members m b \<Longrightarrow> capture_name (shot m) = ''images/'' @ hexdigest b @ ''.png''"
  using verified_name [of b "obj_get m ''screenshot_sha256''"] by (simp add: shown_def shot_def)

lemma gallery_images:
  assumes "gallery_ok (rp_members p) (images, cards) (review_cases p)"
  shows "list_all (\<lambda>(n, b). (path_join d n, b) \<in> verified_files p d) images"
    and "list_all (relative_name \<circ> fst) images" and "distinct (map fst images)"
proof -
  have im: "\<exists>m\<in>set (review_cases p). i = capture_name (shot m) \<and> shown (rp_members p) m b" if "(i, b) \<in> set images" for i b
    using assms that by (auto simp: gallery_ok_def list_all_iff)
  then show "list_all (\<lambda>(n, b). (path_join d n, b) \<in> verified_files p d) images"
    unfolding verified_files_def list_all_iff by blast
  have "relative_name i" if "(i, b) \<in> set images" for i b
    using im [OF that] shown_name digest_image_relative by metis
  then show "list_all (relative_name \<circ> fst) images" by (auto simp: list_all_iff)
  show "distinct (map fst images)" using assms by (simp add: gallery_ok_def)
qed

lemma document_names: "relative_name ''images''" "relative_name ''index.html''" "relative_name ''review-readback.json''"
  by (rule plain_relative, simp add: plain_name_def)+

text \<open>The documents are not at the place of an image.\<close>

lemma not_document:
  assumes "shown members m b"
  shows "path_join d (capture_name (shot m)) \<notin> {path_join d ''index.html'', path_join d ''review-readback.json''}"
proof -
  have "capture_name (shot m) \<noteq> n" if "n \<in> {''index.html'', ''review-readback.json''}" for n
    using that shown_name [OF assms] by auto
  then show ?thesis
    using path_join_inj [of "capture_name (shot m)" _ d] document_names digest_image_relative [of b] shown_name [OF assms] by auto
qed

text \<open>
  Claim C24. Opening a review writes verified images only: when the delivery does not check out
  against the public summary nothing is written; otherwise every file written is either one
  of the two documents of the viewer or, under the name of a case of the summary, a PNG from
  the archive whose digest that case names. When opening succeeds every case has its image
  in place, and the receipt counts the cases and leaves the review pending and unqualified.
\<close>

theorem open_review_verified:
  fixes w :: "'x host"
  shows "case read_packet site summary_file of
     Inl e \<Rightarrow> open_review site summary_file d w = (Inl e, w)
   | Inr p \<Rightarrow> (case open_review site summary_file d w of (r, w') \<Rightarrow>
       new_files w w' \<subseteq> verified_files p d \<union> viewer_documents d \<and>
       (case r of Inl e \<Rightarrow> True
        | Inr opened \<Rightarrow> review_cases p \<noteq> [] \<and> opened = opened_receipt (rp_summary_bytes p) (length (review_cases p))
            \<and> list_all (\<lambda>m. \<exists>b. shown (rp_members p) m b
                 \<and> files w' (path_join d (capture_name (shot m))) = Some (File b)) (review_cases p)))"
proof (cases "read_packet site summary_file")
  case (Inl e)
  then show ?thesis by (simp add: open_review_def)
next
  case (Inr p)
  let ?S = "verified_files p d \<union> viewer_documents d"
  have none: "new_files w w \<subseteq> S" for S :: "(string \<times> bytes) set" by (auto simp: new_files_def)
  obtain r w' where run: "open_review site summary_file d w = (r, w')" by (cases "open_review site summary_file d w")
  show ?thesis
  proof (cases "gallery_of p")
    case (Inl e)
    with Inr run none show ?thesis by (auto simp: open_review_def)
  next
    case (Inr g)
    obtain images cards where g: "g = (images, cards)" by (cases g)
    from gallery_of_ok Inr g have ok: "gallery_ok (rp_members p) (images, cards) (review_cases p)" and ne: "cards \<noteq> []" by blast+
    note im = gallery_images(1) [OF ok, where d = d] gallery_images(2,3) [OF ok]
    define rest :: "('x host, json) io" where "rest = bindIO (ask (path_exists d)) (\<lambda>taken.
       if taken then raiseIO (ValueError ''private review viewer destination already exists'')
       else bindIO (mkdirs d False) (\<lambda>_.
         bindIO (mkdirs (path_join d ''images'') False) (\<lambda>_.
         bindIO (write_images d images) (\<lambda>_.
         bindIO (liftIO (page_texts (rp_summary p) (rp_manifest p))) (\<lambda>(lane, context).
         bindIO (write_bytes (path_join d ''index.html'') (page lane context cards)) (\<lambda>_.
         let opened = opened_receipt (rp_summary_bytes p) (length cards) in
         bindIO (write_bytes (path_join d ''review-readback.json'') (utf8 (pretty 0 opened @ [newline]))) (\<lambda>_.
         retIO opened)))))))"
    have run': "rest w = (r, w')"
      using run Inr g \<open>read_packet site summary_file = Inr p\<close> unfolding open_review_def rest_def by simp
    have "writes_within ?S rest"
      unfolding rest_def Let_def case_prod_unfold
      by (intro writes_within_bind writes_within_if writes_within_basic writes_within_mkdirs writes_within_images writes_within_write)
        (use im(1) in \<open>auto simp: list_all_iff viewer_documents_def\<close>)
    then have within: "new_files w w' \<subseteq> ?S"
      using keepsD [of "\<lambda>w'. new_files w w' \<subseteq> ?S" rest w r w'] none [of ?S] run' unfolding writes_within_def by blast
    have fin: "review_cases p \<noteq> [] \<and> opened = opened_receipt (rp_summary_bytes p) (length (review_cases p))
            \<and> list_all (\<lambda>m. \<exists>b. shown (rp_members p) m b
                 \<and> files w' (path_join d (capture_name (shot m))) = Some (File b)) (review_cases p)"
      if r: "r = Inr opened" for opened
    proof -
      from run' r obtain w3 w4 w5 x y where imgs: "write_images d images w3 = (Inr (), w4)"
        and docs: "write_bytes (path_join d ''index.html'') x w4 = (Inr (), w5)"
          "write_bytes (path_join d ''review-readback.json'') y w5 = (Inr (), w')"
        and opened: "opened = opened_receipt (rp_summary_bytes p) (length cards)"
        unfolding rest_def Let_def case_prod_unfold by (auto simp: bindIO_OK if_raiseIO_OK ask_OK simp del: pretty.simps)
      have "files w' (path_join d n) = Some (File b)"
        if "map_of images n = Some b" "path_join d n \<notin> {path_join d ''index.html'', path_join d ''review-readback.json''}" for n b
        using write_images_OK [OF imgs im(3,2)] docs that by (auto simp: list_all_iff write_bytes_OK dest: map_of_SomeD)
      note placed = this
      have "\<exists>b. shown (rp_members p) m b \<and> files w' (path_join d (capture_name (shot m))) = Some (File b)"
        if "m \<in> set (review_cases p)" for m
      proof -
        from ok that obtain b where b: "map_of images (capture_name (shot m)) = Some b" "shown (rp_members p) m b"
          unfolding gallery_ok_def list_all_iff fst_conv by blast
        from placed [OF b(1) not_document [OF b(2)]] b(2) show ?thesis by blast
      qed
      moreover have "length cards = length (review_cases p)" using ok by (simp add: gallery_ok_def)
      ultimately show ?thesis using ne opened unfolding list_all_iff by (metis list.size(3) length_0_conv)
    qed
    show ?thesis using within fin run Inr \<open>read_packet site summary_file = Inr p\<close> by (cases r) simp_all
  qed
qed

end
