(* ===== verification/Artifact_Tar.thy ===== *)
theory Artifact_Tar
  imports Py_Str
begin

text \<open>
  The raw tar scan of \<^verbatim>\<open>scripts/credentials_verifier_artifact.py\<close>: \<open>_tar_number\<close>,
  \<open>_validate_pax_metadata\<close> and \<open>_scan_tar_headers\<close> over the bytes of a seekable stream, with
  \<open>tarfile.nti\<close> as the standard library defines it.
\<close>

section \<open>Bytes and limits\<close>

definition byte :: "char \<Rightarrow> 8 word" where "byte c = word_of_nat (code c)"

definition tar_block :: nat where "tar_block = 512"
definition max_special_header_bytes :: nat where "max_special_header_bytes = 64 * 1024"
definition max_total_special_header_bytes :: nat where "max_total_special_header_bytes = 4 * 1024 * 1024"
definition max_special_headers :: nat where "max_special_headers = 256"

definition pax_types :: "8 word list" where "pax_types = map byte ''xgX''"
definition special_header_types :: "8 word list" where "special_header_types = map byte ''xgLKX''"
definition non_data_header_types :: "8 word list" where "non_data_header_types = map byte ''123456''"
definition sparse_type :: "8 word" where "sparse_type = byte (CHR ''S'')"

definition zeros :: "bytes \<Rightarrow> bool" where "zeros b = list_all (\<lambda>x. x = 0) b"

section \<open>Numbers\<close>

text \<open>\<open>tarfile.nts\<close>: ASCII text up to the first null byte.\<close>

definition nts :: "bytes \<Rightarrow> string option" where
  "nts b = (let s = takeWhile (\<lambda>x. x \<noteq> 0) b in
     if list_all (\<lambda>x. unat x < 128) s then Some (map (\<lambda>x. char_of (unat x)) s) else None)"

text \<open>\<open>int(s, 8)\<close> of stripped text: a sign, the prefix \<open>0o\<close>, octal digits with single underscores between.\<close>

definition is_octal :: "char \<Rightarrow> bool" where "is_octal c = (48 \<le> code c \<and> code c \<le> 55)"

definition octal_body :: "string \<Rightarrow> string" where
  "octal_body t = (if startswith (py_lower t) ''0o'' then removeprefix (drop 2 t) ''_'' else t)"

definition octal_value :: "string \<Rightarrow> nat" where
  "octal_value s = fold (\<lambda>c n. 8 * n + (code c - 48)) s 0"

definition int_base8 :: "string \<Rightarrow> int option" where
  "int_base8 s = (let neg = startswith s ''-''; t = octal_body (if neg \<or> startswith s ''+'' then tl s else s) in
     if list_all (\<lambda>seg. seg \<noteq> [] \<and> list_all is_octal seg) (split_on (CHR ''_'') t)
     then let n = int (octal_value (filter is_octal t)) in Some (if neg then - n else n) else None)"

definition big_endian :: "bytes \<Rightarrow> int" where
  "big_endian b = fold (\<lambda>x n. 256 * n + uint x) b 0"

text \<open>\<open>tarfile.nti\<close>; \<open>None\<close> is \<open>InvalidHeaderError\<close>.\<close>

definition nti :: "bytes \<Rightarrow> int option" where
  "nti b = (if hd b = 128 \<or> hd b = 255
     then let n = big_endian (tl b) in Some (if hd b = 255 then - (256 ^ (length b - 1) - n) else n)
     else case nts b of None \<Rightarrow> None
          | Some s \<Rightarrow> int_base8 (let t = strip s in if t = [] then ''0'' else t))"

definition tar_number :: "string \<Rightarrow> bytes \<Rightarrow> nat result" where
  "tar_number label field = (case nti field of
     None \<Rightarrow> raise (ValueError (label @ '' contains a malformed tar size''))
   | Some v \<Rightarrow> if v < 0 then raise (ValueError (label @ '' contains a negative tar size'')) else ret (nat v))"

section \<open>PAX metadata\<close>

definition is_digit_byte :: "8 word \<Rightarrow> bool" where "is_digit_byte x = (48 \<le> unat x \<and> unat x \<le> 57)"

text \<open>\<open>bytes.isdigit\<close> and \<open>int\<close> of such bytes.\<close>

definition digits :: "bytes \<Rightarrow> bool" where "digits b = (b \<noteq> [] \<and> list_all is_digit_byte b)"
definition digits_value :: "bytes \<Rightarrow> nat" where "digits_value b = fold (\<lambda>x n. 10 * n + (unat x - 48)) b 0"

definition bytes_of :: "string \<Rightarrow> bytes" where "bytes_of s = map byte s"

definition malformed_pax :: "string \<Rightarrow> exn" where
  "malformed_pax label = ValueError (label @ '' contains malformed PAX metadata'')"

definition pax_key_check :: "string \<Rightarrow> bytes \<Rightarrow> bytes \<Rightarrow> unit result" where
  "pax_key_check label key v =
     (if key = [] then raise (malformed_pax label)
      else if take 11 key = bytes_of ''GNU.sparse.'' then raise (ValueError (label @ '' contains unsupported sparse PAX metadata''))
      else if key = bytes_of ''size''
      then if \<not> digits v then raise (ValueError (label @ '' contains malformed PAX size metadata''))
           else raise (ValueError (label @ '' contains unsupported PAX size metadata''))
      else ret ())"

text \<open>\<open>int\<close> converts at most 4300 decimal digits.\<close>

definition int_max_str_digits :: nat where "int_max_str_digits = 4300"

text \<open>One record of the rest of the payload, \<open>length key=value\<close> and a newline; its length in all.\<close>

definition pax_record :: "string \<Rightarrow> bytes \<Rightarrow> nat result" where
  "pax_record label rest = (let len_bytes = takeWhile (\<lambda>x. x \<noteq> byte (CHR '' '')) rest in
     if len_bytes = rest \<or> \<not> digits len_bytes then raise (malformed_pax label)
     else if int_max_str_digits < length len_bytes then raise (ValueError ''Exceeds the limit for integer string conversion'')
     else let n = digits_value len_bytes; rec = take (n - (length len_bytes + 1)) (drop (length len_bytes + 1) rest) in
       if n < 5 \<or> length rest < n then raise (malformed_pax label)
       else if rec = [] \<or> last rec \<noteq> 10 \<or> byte (CHR ''='') \<notin> set rec then raise (malformed_pax label)
       else let body = butlast rec; key = takeWhile (\<lambda>x. x \<noteq> byte (CHR ''='')) body in
         bindE (pax_key_check label key (drop (length key + 1) body)) (\<lambda>_. ret n))"

lemma pax_record_size: "pax_record label rest = Inr n \<Longrightarrow> 5 \<le> n \<and> n \<le> length rest"
  by (auto simp: pax_record_def Let_def split: if_splits)

function validate_pax :: "string \<Rightarrow> bytes \<Rightarrow> unit result" where
  "validate_pax label rest =
     (if rest = [] \<or> zeros rest then ret ()
      else bindE (pax_record label rest) (\<lambda>n. validate_pax label (drop n rest)))"
  by pat_completeness auto
termination by (relation "measure (length \<circ> snd)") (auto dest: pax_record_size)

declare validate_pax.simps [simp del]

section \<open>Headers\<close>

definition header_flag :: "bytes \<Rightarrow> 8 word" where "header_flag h = h ! 156"
definition header_size :: "string \<Rightarrow> bytes \<Rightarrow> nat result" where
  "header_size label h = tar_number label (take 12 (drop 124 h))"

definition padded :: "nat \<Rightarrow> nat" where
  "padded sz = (sz + tar_block - 1) div tar_block * tar_block"

record scan_counts =
  sc_members :: nat
  sc_special :: nat
  sc_special_bytes :: nat

definition count_header :: "string \<Rightarrow> scan_counts \<Rightarrow> 8 word \<Rightarrow> nat \<Rightarrow> scan_counts result" where
  "count_header label st flag sz =
     (if flag = sparse_type then raise (ValueError (label @ '' contains unsupported GNU sparse metadata''))
      else if flag \<in> set special_header_types
      then let st' = st\<lparr>sc_special := Suc (sc_special st), sc_special_bytes := sc_special_bytes st + sz\<rparr> in
        if max_special_headers < sc_special st' then raise (ValueError (label @ '' contains too many special tar headers''))
        else if max_special_header_bytes < sz then raise (ValueError (label @ '' special tar header is too large''))
        else if max_total_special_header_bytes < sc_special_bytes st'
        then raise (ValueError (label @ '' aggregate special tar headers are too large''))
        else ret st'
      else if flag \<in> set non_data_header_types \<and> sz \<noteq> 0
      then raise (ValueError (label @ '' non-data tar member declares a payload''))
      else ret st)"

definition check_pax :: "string \<Rightarrow> 8 word \<Rightarrow> nat \<Rightarrow> bytes \<Rightarrow> unit result" where
  "check_pax label flag sz payload =
     (if flag \<notin> set pax_types then ret ()
      else if length payload \<noteq> sz then raise (ValueError (label @ '' contains truncated PAX metadata''))
      else validate_pax label payload)"

text \<open>After the first zero block only zeros may follow, at least one more block of them.\<close>

definition end_of_archive :: "string \<Rightarrow> nat \<Rightarrow> bytes \<Rightarrow> unit result" where
  "end_of_archive label remaining tail =
     (if remaining < tar_block then raise (ValueError (label @ '' is missing the canonical tar end-of-archive''))
      else if length tail < remaining \<or> \<not> zeros (take remaining tail)
      then raise (ValueError (label @ '' contains non-zero data after its end-of-archive''))
      else ret ())"

function scan_from :: "string \<Rightarrow> nat \<Rightarrow> bytes \<Rightarrow> nat \<Rightarrow> scan_counts \<Rightarrow> nat \<Rightarrow> unit result" where
  "scan_from label maximum data n st offset =
     (if n < offset + tar_block then raise (ValueError (label @ '' is missing the canonical tar end-of-archive''))
      else let header = take tar_block (drop offset data); after = drop (offset + tar_block) data in
        if length header \<noteq> tar_block then raise (ValueError (label @ '' contains a truncated tar header''))
        else if zeros header then end_of_archive label (n - offset - tar_block) after
        else let st1 = st\<lparr>sc_members := Suc (sc_members st)\<rparr> in
          if maximum + max_special_headers < sc_members st1
          then raise (ValueError (label @ '' contains too many raw tar headers''))
          else bindE (header_size label header) (\<lambda>sz.
            bindE (count_header label st1 (header_flag header) sz) (\<lambda>st2.
              let next_offset = offset + tar_block + padded sz in
              if n < next_offset then raise (ValueError (label @ '' contains a truncated tar member''))
              else bindE (check_pax label (header_flag header) sz (take sz after)) (\<lambda>_.
                scan_from label maximum data n st2 next_offset))))"
  by pat_completeness auto
termination
  by (relation "measure (\<lambda>(label, maximum, data, n, st, offset). n - offset)") (auto simp: tar_block_def)

declare scan_from.simps [simp del]

definition scan_tar_headers :: "string \<Rightarrow> nat \<Rightarrow> bytes \<Rightarrow> nat \<Rightarrow> unit result" where
  "scan_tar_headers label maximum data n =
     (if n mod tar_block \<noteq> 0 then raise (ValueError (label @ '' contains a truncated tar block''))
      else scan_from label maximum data n \<lparr>sc_members = 0, sc_special = 0, sc_special_bytes = 0\<rparr> 0)"

end
