(* ===== verification/Artifact_Tar_Props.thy ===== *)
theory Artifact_Tar_Props
  imports Artifact_Tar
begin

text \<open>
  The tar scan ends on every stream and accepts exactly the streams made of whole members
  with bounded metadata and a closing run of zero blocks; PAX metadata is accepted exactly
  when it is a sequence of self-describing records.
\<close>

lemma zeros_replicate: "zeros b \<longleftrightarrow> b = replicate (length b) 0"
  unfolding zeros_def by (induction b) auto

lemma zeros_append: "zeros (a @ b) \<longleftrightarrow> zeros a \<and> zeros b"
  by (simp add: zeros_def)

section \<open>PAX records\<close>

type_synonym pax = "bytes \<times> bytes \<times> bytes"

fun pax_raw :: "pax \<Rightarrow> bytes" where
  "pax_raw (len, key, v) = len @ byte (CHR '' '') # key @ byte (CHR ''='') # v @ [10]"

text \<open>The length counts the whole record; the key is there, and is no size and no sparse extension.\<close>

fun pax_ok :: "pax \<Rightarrow> bool" where
  "pax_ok (len, key, v) = (digits len \<and> length len \<le> int_max_str_digits \<and> digits_value len = length (pax_raw (len, key, v)) \<and> key \<noteq> []
     \<and> byte (CHR ''='') \<notin> set key \<and> take 11 key \<noteq> bytes_of ''GNU.sparse.'' \<and> key \<noteq> bytes_of ''size'')"

definition pax_payload :: "bytes \<Rightarrow> bool" where
  "pax_payload p \<longleftrightarrow> (\<exists>rs z. p = concat (map pax_raw rs) @ replicate z 0 \<and> list_all pax_ok rs)"

lemma byte_values: "byte (CHR '' '') = 32" "byte (CHR ''='') = 61"
  by (simp_all add: byte_def code_def)

lemma digits_no_space: "digits b \<Longrightarrow> byte (CHR '' '') \<notin> set b"
  by (auto simp: digits_def list_all_iff is_digit_byte_def byte_values)

lemma takeWhile_split: "takeWhile (\<lambda>x. x \<noteq> c) xs \<noteq> xs \<Longrightarrow> \<exists>ys. xs = takeWhile (\<lambda>x. x \<noteq> c) xs @ c # ys"
  by (induction xs) auto

lemma takeWhile_stop: "c \<notin> set xs \<Longrightarrow> takeWhile (\<lambda>x. x \<noteq> c) (xs @ c # ys) = xs"
  by (induction xs) auto

lemma pax_key_check_Inr:
  "pax_key_check label key v = Inr () \<longleftrightarrow> key \<noteq> [] \<and> take 11 key \<noteq> bytes_of ''GNU.sparse.'' \<and> key \<noteq> bytes_of ''size''"
  by (simp add: pax_key_check_def)

lemma pax_record_sound:
  assumes "pax_record label rest = Inr n"
  shows "\<exists>r tail. rest = pax_raw r @ tail \<and> pax_ok r \<and> n = length (pax_raw r)"
proof -
  define L where "L = takeWhile (\<lambda>x. x \<noteq> byte (CHR '' '')) rest"
  define rec where "rec = take (digits_value L - (length L + 1)) (drop (length L + 1) rest)"
  define key where "key = takeWhile (\<lambda>x. x \<noteq> byte (CHR ''='')) (butlast rec)"
  from assms have facts: "\<not> (L = rest \<or> \<not> digits L) \<and> \<not> int_max_str_digits < length L \<and> \<not> (digits_value L < 5 \<or> length rest < digits_value L)
      \<and> \<not> (rec = [] \<or> last rec \<noteq> 10 \<or> byte (CHR ''='') \<notin> set rec)
      \<and> (\<exists>u. pax_key_check label key (drop (length key + 1) (butlast rec)) = Inr u) \<and> n = digits_value L"
    unfolding pax_record_def Let_def L_def [symmetric] rec_def [symmetric] key_def [symmetric] if_raise_eq_Inr bindE_eq_Inr by auto
  then have L: "L \<noteq> rest" "digits L" "length L \<le> int_max_str_digits" and n: "n = digits_value L" "5 \<le> n" "n \<le> length rest"
    and rec: "rec \<noteq> []" "last rec = 10" "byte (CHR ''='') \<in> set rec"
    and key: "pax_key_check label key (drop (length key + 1) (butlast rec)) = Inr ()" by auto
  from L(1) obtain ys where ys: "rest = L @ byte (CHR '' '') # ys"
    using takeWhile_split [of "byte (CHR '' '')" rest] unfolding L_def by blast
  have recys: "rec = take (n - (length L + 1)) ys" by (simp add: rec_def ys n(1))
  with rec(1) have lt: "length L + 1 < n" by (cases "n - (length L + 1)") auto
  have body: "rec = butlast rec @ [10]" using rec(1,2) by (metis append_butlast_last_id)
  have "byte (CHR ''='') \<in> set (butlast rec @ [10])" using rec(3) unfolding body [symmetric] .
  then have "byte (CHR ''='') \<in> set (butlast rec)" by (auto simp: byte_values)
  moreover have keyeq: "byte (CHR ''='') \<notin> set key" unfolding key_def by (auto dest: set_takeWhileD)
  ultimately have "key \<noteq> butlast rec" by auto
  then obtain v where v: "butlast rec = key @ byte (CHR ''='') # v"
    using takeWhile_split [of "byte (CHR ''='')" "butlast rec"] unfolding key_def [symmetric] by blast
  have raw: "pax_raw (L, key, v) = L @ byte (CHR '' '') # rec" by (subst body) (simp add: v)
  have "length rec = n - (length L + 1)" using recys n(3) ys by simp
  with lt raw have len: "length (pax_raw (L, key, v)) = n" by simp
  have "rest = pax_raw (L, key, v) @ drop (n - (length L + 1)) ys" using ys recys raw by simp
  moreover have "pax_ok (L, key, v)"
    using L(2,3) len n(1) keyeq key by (simp add: pax_key_check_Inr del: pax_raw.simps)
  ultimately show ?thesis using len by blast
qed

lemma pax_record_complete:
  assumes "pax_ok r"
  shows "pax_record label (pax_raw r @ tail) = Inr (length (pax_raw r))"
proof -
  obtain L key v where r: "r = (L, key, v)" by (cases r)
  let ?rest = "pax_raw r @ tail"
  from assms r have ok: "digits L" "digits_value L = length (pax_raw r)" "key \<noteq> []" "byte (CHR ''='') \<notin> set key"
    and max: "length L \<le> int_max_str_digits"
    and chk: "pax_key_check label key v = Inr ()" by (simp_all add: pax_key_check_Inr del: pax_raw.simps)
  have L: "takeWhile (\<lambda>x. x \<noteq> byte (CHR '' '')) ?rest = L"
    using takeWhile_stop [OF digits_no_space [OF ok(1)]] by (simp add: r)
  have len: "length (pax_raw r) = length L + length key + length v + 3" by (simp add: r)
  have Lne: "L \<noteq> ?rest" by (simp add: r)
  have "L \<noteq> []" using ok(1) by (simp add: digits_def)
  then have len5: "5 \<le> length (pax_raw r)" using len ok(3) by (cases L; cases key) simp_all
  have rec: "take (length (pax_raw r) - (length L + 1)) (drop (length L + 1) ?rest) = key @ byte (CHR ''='') # v @ [10]"
    by (simp add: r)
  have key: "takeWhile (\<lambda>x. x \<noteq> byte (CHR ''='')) (key @ byte (CHR ''='') # v) = key"
    using takeWhile_stop [OF ok(4)] .
  have body: "butlast (key @ byte (CHR ''='') # v @ [10]) = key @ byte (CHR ''='') # v" by (simp add: butlast_append)
  show ?thesis
    unfolding pax_record_def Let_def L ok(2) rec body key using Lne ok(1) len5 chk max by simp
qed

lemma pax_raw_nonzero: "pax_ok r \<Longrightarrow> pax_raw r @ tail \<noteq> [] \<and> \<not> zeros (pax_raw r @ tail)"
  by (cases r) (simp add: zeros_def byte_values)

lemma validate_pax_exact: "validate_pax label p = Inr () \<longleftrightarrow> pax_payload p"
proof
  show "validate_pax label p = Inr () \<Longrightarrow> pax_payload p"
  proof (induction label p rule: validate_pax.induct)
    case (1 label rest)
    show ?case
    proof (cases "rest = [] \<or> zeros rest")
      case True
      then have "rest = concat (map pax_raw []) @ replicate (length rest) 0" by (auto simp: zeros_replicate [of rest])
      then show ?thesis unfolding pax_payload_def by (metis list.pred_inject(1))
    next
      case False
      with 1(2) obtain n where n: "pax_record label rest = Inr n" and v: "validate_pax label (drop n rest) = Inr ()"
        by (auto simp: validate_pax.simps [of label rest])
      from 1(1) [OF False n v] obtain rs z where "drop n rest = concat (map pax_raw rs) @ replicate z 0" "list_all pax_ok rs"
        unfolding pax_payload_def by blast
      moreover from pax_record_sound [OF n] obtain r tail where "rest = pax_raw r @ tail" "pax_ok r" "n = length (pax_raw r)" by blast
      ultimately have "rest = concat (map pax_raw (r # rs)) @ replicate z 0" "list_all pax_ok (r # rs)" by simp_all
      then show ?thesis unfolding pax_payload_def by blast
    qed
  qed
next
  have "validate_pax label (concat (map pax_raw rs) @ replicate z 0) = Inr ()" if "list_all pax_ok rs" for rs z
    using that
  proof (induction rs)
    case Nil
    then show ?case by (simp add: validate_pax.simps zeros_def list_all_iff)
  next
    case (Cons r rs)
    let ?tail = "concat (map pax_raw rs) @ replicate z 0"
    from Cons.prems have r: "pax_ok r" by simp
    with Cons pax_raw_nonzero [OF r, of ?tail] pax_record_complete [OF r, of label ?tail] show ?case
      by (simp add: validate_pax.simps [of label "pax_raw r @ ?tail"] del: pax_raw.simps)
  qed
  then show "pax_payload p \<Longrightarrow> validate_pax label p = Inr ()" unfolding pax_payload_def by blast
qed

section \<open>Members\<close>

type_synonym segment = "bytes \<times> bytes"

definition declared_size :: "bytes \<Rightarrow> nat" where
  "declared_size h = (case nti (take 12 (drop 124 h)) of None \<Rightarrow> 0 | Some v \<Rightarrow> nat v)"

definition special :: "segment \<Rightarrow> bool" where
  "special s = (header_flag (fst s) \<in> set special_header_types)"

text \<open>A header block that is not zero, and the padded payload it declares.\<close>

definition segment_ok :: "segment \<Rightarrow> bool" where
  "segment_ok s = (case s of (h, b) \<Rightarrow>
     length h = tar_block \<and> \<not> zeros h
     \<and> (case nti (take 12 (drop 124 h)) of None \<Rightarrow> False | Some v \<Rightarrow> 0 \<le> v)
     \<and> length b = padded (declared_size h) \<and> header_flag h \<noteq> sparse_type
     \<and> (if special s then declared_size h \<le> max_special_header_bytes
        else header_flag h \<in> set non_data_header_types \<longrightarrow> declared_size h = 0)
     \<and> (header_flag h \<in> set pax_types \<longrightarrow> pax_payload (take (declared_size h) b)))"

definition special_bytes :: "segment list \<Rightarrow> nat" where
  "special_bytes segs = sum_list (map (declared_size \<circ> fst) (filter special segs))"

definition raw_bytes :: "segment list \<Rightarrow> bytes" where
  "raw_bytes segs = concat (map (\<lambda>(h, b). h @ b) segs)"

text \<open>What is left of the budgets admits the segments.\<close>

definition within :: "nat \<Rightarrow> scan_counts \<Rightarrow> segment list \<Rightarrow> bool" where
  "within maximum st segs =
     ((segs = [] \<or> sc_members st + length segs \<le> maximum + max_special_headers)
      \<and> (filter special segs = [] \<or> sc_special st + length (filter special segs) \<le> max_special_headers
           \<and> sc_special_bytes st + special_bytes segs \<le> max_total_special_header_bytes))"

definition tar_rest :: "nat \<Rightarrow> scan_counts \<Rightarrow> bytes \<Rightarrow> bool" where
  "tar_rest maximum st rest \<longleftrightarrow> (\<exists>segs z. rest = raw_bytes segs @ replicate z 0 \<and> 2 * tar_block \<le> z
     \<and> list_all segment_ok segs \<and> within maximum st segs)"

lemma header_size_Inr:
  "header_size label h = Inr k \<longleftrightarrow>
     (case nti (take 12 (drop 124 h)) of None \<Rightarrow> False | Some v \<Rightarrow> 0 \<le> v) \<and> k = declared_size h"
  by (auto simp: header_size_def tar_number_def declared_size_def split: option.split)

lemma padded_ge: "k \<le> padded k"
proof -
  have "padded k + (k + 511) mod 512 = k + 511" by (simp add: padded_def tar_block_def add.commute)
  moreover have "(k + 511) mod 512 < 512" by simp
  ultimately show ?thesis by linarith
qed

lemma count_header_Inr:
  "count_header label st flag k = Inr st' \<longleftrightarrow> flag \<noteq> sparse_type \<and>
     (if flag \<in> set special_header_types
      then sc_special st + 1 \<le> max_special_headers \<and> k \<le> max_special_header_bytes
        \<and> sc_special_bytes st + k \<le> max_total_special_header_bytes
        \<and> st' = st\<lparr>sc_special := Suc (sc_special st), sc_special_bytes := sc_special_bytes st + k\<rparr>
      else (flag \<in> set non_data_header_types \<longrightarrow> k = 0) \<and> st' = st)"
  by (auto simp: count_header_def Let_def)

lemma check_pax_Inr:
  "check_pax label flag k payload = Inr () \<longleftrightarrow> (flag \<in> set pax_types \<longrightarrow> length payload = k \<and> pax_payload payload)"
  by (auto simp: check_pax_def validate_pax_exact)

section \<open>The scan\<close>

abbreviation counted_header :: "scan_counts \<Rightarrow> scan_counts" where
  "counted_header st \<equiv> st\<lparr>sc_members := Suc (sc_members st)\<rparr>"

lemma scan_step:
  assumes "offset \<le> length data" and "rest = drop offset data"
  shows "scan_from label maximum data (length data) st offset = Inr () \<longleftrightarrow>
    tar_block \<le> length rest \<and>
    (if zeros (take tar_block rest) then tar_block \<le> length (drop tar_block rest) \<and> zeros (drop tar_block rest)
     else sc_members st < maximum + max_special_headers \<and>
       (\<exists>k st2. header_size label (take tar_block rest) = Inr k
          \<and> count_header label (counted_header st) (header_flag (take tar_block rest)) k = Inr st2
          \<and> padded k \<le> length (drop tar_block rest)
          \<and> check_pax label (header_flag (take tar_block rest)) k (take k (drop tar_block rest)) = Inr ()
          \<and> scan_from label maximum data (length data) st2 (offset + tar_block + padded k) = Inr ()))"
proof -
  have len: "length rest = length data - offset" using assms by simp
  have after: "drop (offset + tar_block) data = drop tar_block rest" by (simp add: assms(2) add.commute)
  have block: "length data < offset + tar_block \<longleftrightarrow> \<not> tar_block \<le> length rest" using assms(1) len by auto
  have eoa: "end_of_archive label (length data - offset - tar_block) (drop tar_block rest) = Inr ()
      \<longleftrightarrow> tar_block \<le> length (drop tar_block rest) \<and> zeros (drop tar_block rest)"
    by (auto simp: end_of_archive_def len)
  have member: "length data < offset + tar_block + padded k \<longleftrightarrow> \<not> padded k \<le> length (drop tar_block rest)"
    if "tar_block \<le> length rest" for k using that assms(1) unfolding length_drop len by arith
  show ?thesis
  proof (cases "tar_block \<le> length rest")
    case True
    then have full: "length (take tar_block rest) = tar_block" "\<not> length data < offset + tar_block" using block by simp_all
    have ex: "(\<exists>u. P u) \<longleftrightarrow> P ()" for P :: "unit \<Rightarrow> bool" by (metis old.unit.exhaust)
    show ?thesis
      unfolding scan_from.simps [of label maximum data "length data" st offset] Let_def after assms(2) [symmetric]
      using True full eoa
      by (cases "zeros (take tar_block rest)")
        (simp_all only: if_raise_eq_Inr bindE_eq_Inr ex member [OF True] not_not if_True if_False simp_thms scan_counts.simps
           not_less ex_simps, simp add: Suc_le_eq)
  qed (simp add: scan_from.simps [of label maximum data "length data" st offset] block)
qed

lemma within_Cons:
  assumes "k = declared_size h"
    and "count_header label (counted_header st) (header_flag h) k = Inr st2"
  shows "within maximum st ((h, b) # segs) \<longleftrightarrow> sc_members st < maximum + max_special_headers \<and> within maximum st2 segs"
proof (cases "special (h, b)")
  case True
  then have "header_flag h \<in> set special_header_types" by (simp add: special_def)
  with assms have "sc_special st + 1 \<le> max_special_headers" "sc_special_bytes st + k \<le> max_total_special_header_bytes"
    "st2 = (counted_header st)\<lparr>sc_special := Suc (sc_special st), sc_special_bytes := sc_special_bytes st + k\<rparr>"
    by (simp_all add: count_header_Inr)
  with True assms(1) show ?thesis by (auto simp: within_def special_bytes_def)
next
  case False
  then have "header_flag h \<notin> set special_header_types" by (simp add: special_def)
  with assms have "st2 = counted_header st" by (simp add: count_header_Inr)
  with False show ?thesis by (auto simp: within_def special_bytes_def)
qed

lemma scan_sound:
  "offset \<le> length data \<Longrightarrow> scan_from label maximum data (length data) st offset = Inr () \<Longrightarrow>
     tar_rest maximum st (drop offset data)"
proof (induction "length data - offset" arbitrary: offset st rule: less_induct)
  case less
  define rest where "rest = drop offset data"
  note step = scan_step [OF less.prems(1) rest_def, of label maximum st] less.prems(2)
  show ?case
  proof (cases "zeros (take tar_block rest)")
    case True
    with step have "zeros rest" "2 * tar_block \<le> length rest"
      using zeros_append [of "take tar_block rest" "drop tar_block rest"] by (auto simp: tar_block_def)
    then have "rest = raw_bytes [] @ replicate (length rest) 0" by (simp add: raw_bytes_def zeros_replicate [of rest])
    with \<open>2 * tar_block \<le> length rest\<close> show ?thesis
      unfolding tar_rest_def rest_def [symmetric] within_def by (metis list.pred_inject(1) filter.simps(1))
  next
    case False
    with step obtain k st2 where len: "tar_block \<le> length rest" "padded k \<le> length (drop tar_block rest)"
      and k: "header_size label (take tar_block rest) = Inr k"
      and c: "count_header label (counted_header st) (header_flag (take tar_block rest)) k = Inr st2"
      and pax: "check_pax label (header_flag (take tar_block rest)) k (take k (drop tar_block rest)) = Inr ()"
      and rec: "scan_from label maximum data (length data) st2 (offset + tar_block + padded k) = Inr ()"
      and m: "sc_members st < maximum + max_special_headers" by auto
    define h where "h = take tar_block rest"
    define b where "b = take (padded k) (drop tar_block rest)"
    have within_data: "offset + tar_block + padded k \<le> length data" using len less.prems(1) by (simp add: rest_def)
    have "length data - (offset + tar_block + padded k) < length data - offset"
      using within_data by (simp add: tar_block_def)
    from less.hyps [OF this within_data rec] obtain segs z where
      segs: "drop (offset + tar_block + padded k) data = raw_bytes segs @ replicate z 0" "2 * tar_block \<le> z"
        "list_all segment_ok segs" "within maximum st2 segs" unfolding tar_rest_def by blast
    have kd: "k = declared_size h" using k by (simp add: header_size_Inr h_def)
    have "drop (offset + tar_block + padded k) data = drop (padded k) (drop tar_block rest)"
      by (simp add: rest_def add.commute add.left_commute)
    then have "rest = h @ b @ drop (offset + tar_block + padded k) data"
      by (simp only: h_def b_def append_take_drop_id)
    with segs(1) have "rest = raw_bytes ((h, b) # segs) @ replicate z 0" by (simp add: raw_bytes_def)
    moreover have "segment_ok (h, b)"
    proof -
      have "take k b = take k (drop tar_block rest)" by (simp add: b_def min_absorb1 padded_ge)
      with pax have "header_flag h \<in> set pax_types \<longrightarrow> pax_payload (take k b)" by (simp add: check_pax_Inr h_def)
      moreover have "length b = padded k" "length h = tar_block" using len by (simp_all add: b_def h_def)
      ultimately show ?thesis
        using False k c kd unfolding segment_ok_def special_def header_size_Inr count_header_Inr h_def [symmetric]
        by (auto split: if_splits)
    qed
    moreover have "within maximum st ((h, b) # segs)"
      using within_Cons [OF kd c [folded h_def]] m segs(4) by blast
    ultimately show ?thesis using segs(2,3) unfolding tar_rest_def rest_def [symmetric]
      by (intro exI [of _ "(h, b) # segs"] exI [of _ z]) simp
  qed
qed

lemma scan_complete:
  assumes "offset \<le> length data" and "drop offset data = raw_bytes segs @ replicate z 0" and "2 * tar_block \<le> z"
    and "list_all segment_ok segs" and "within maximum st segs"
  shows "scan_from label maximum data (length data) st offset = Inr ()"
  using assms
proof (induction segs arbitrary: offset st)
  case Nil
  then have rest: "drop offset data = replicate z 0" by (simp add: raw_bytes_def)
  have z: "zeros (replicate n 0)" for n by (simp add: zeros_def list_all_iff)
  show ?case
    using scan_step [OF Nil.prems(1) refl, of label maximum st] Nil.prems(3) unfolding rest
    by (simp add: z tar_block_def)
next
  case (Cons s segs)
  obtain h b where s: "s = (h, b)" by (cases s)
  define k where "k = declared_size h"
  from Cons.prems(4) s have ok: "segment_ok (h, b)" and oks: "list_all segment_ok segs" by simp_all
  then have h: "length h = tar_block" "\<not> zeros h" and b: "length b = padded k"
    and sz: "header_size label h = Inr k" by (auto simp: segment_ok_def header_size_Inr k_def)
  have rest: "drop offset data = h @ b @ raw_bytes segs @ replicate z 0"
    using Cons.prems(2) s by (simp add: raw_bytes_def)
  then have parts: "take tar_block (drop offset data) = h" "drop tar_block (drop offset data) = b @ raw_bytes segs @ replicate z 0"
    using h(1) by simp_all
  have fits: "sc_special st + 1 \<le> max_special_headers \<and> sc_special_bytes st + k \<le> max_total_special_header_bytes"
    if "special (h, b)"
    using Cons.prems(5) s that by (auto simp: within_def special_bytes_def k_def)
  from ok fits obtain st2 where c: "count_header label (counted_header st) (header_flag h) k = Inr st2"
    unfolding count_header_Inr segment_ok_def special_def k_def by (cases "header_flag h \<in> set special_header_types") auto
  from within_Cons [OF k_def c] Cons.prems(5) s have m: "sc_members st < maximum + max_special_headers"
    and w: "within maximum st2 segs" by blast+
  have "length (drop offset data) = length data - offset" by simp
  with rest h(1) b Cons.prems(1) have le: "offset + tar_block + padded k \<le> length data" by simp
  have "drop (offset + tar_block + padded k) data = drop (padded k) (drop tar_block (drop offset data))"
    by (simp add: add.commute add.left_commute)
  then have rest': "drop (offset + tar_block + padded k) data = raw_bytes segs @ replicate z 0"
    by (simp only: parts(2)) (simp add: b)
  have "take k (b @ raw_bytes segs @ replicate z 0) = take k b" "length (take k b) = k"
    using b padded_ge [of k] by simp_all
  then have "check_pax label (header_flag h) k (take k (b @ raw_bytes segs @ replicate z 0)) = Inr ()"
    using ok by (auto simp: check_pax_Inr segment_ok_def k_def)
  with Cons.IH [OF le rest' Cons.prems(3) oks w] scan_step [OF Cons.prems(1) refl, of label maximum st] h sz c m b
  show ?case unfolding parts by (auto simp: rest)
qed

text \<open>
  Claim C27. The raw tar scan ends on every stream and accepts exactly the well-formed ones: a
  sequence of non-zero 512-byte headers, each followed by the payload it declares padded to
  whole blocks, closed by at least two zero blocks and nothing but zeros; with no GNU sparse
  member, no payload on links and devices, well-formed PAX records, and special headers within
  their budgets. It raises on every other stream.
\<close>

theorem scan_tar_headers_exact:
  "scan_tar_headers label maximum data (length data) = Inr () \<longleftrightarrow>
     length data mod tar_block = 0
     \<and> (\<exists>segs z. data = raw_bytes segs @ replicate z 0 \<and> 2 * tar_block \<le> z \<and> list_all segment_ok segs
          \<and> length segs \<le> maximum + max_special_headers
          \<and> length (filter special segs) \<le> max_special_headers
          \<and> special_bytes segs \<le> max_total_special_header_bytes)"
proof -
  let ?st = "\<lparr>sc_members = 0, sc_special = 0, sc_special_bytes = 0\<rparr>"
  have "within maximum ?st segs \<longleftrightarrow> length segs \<le> maximum + max_special_headers
      \<and> length (filter special segs) \<le> max_special_headers \<and> special_bytes segs \<le> max_total_special_header_bytes" for segs
    by (auto simp: within_def special_bytes_def)
  moreover have "scan_from label maximum data (length data) ?st 0 = Inr () \<longleftrightarrow> tar_rest maximum ?st data"
    using scan_sound [of 0 data label maximum ?st] scan_complete [of 0 data _ _ maximum ?st label]
    unfolding tar_rest_def by (metis drop_0 zero_le)
  ultimately show ?thesis unfolding scan_tar_headers_def tar_rest_def by simp
qed

end
