(* ===== verification/Artifact_Files.thy ===== *)
theory Artifact_Files
  imports Py_IO Py_Hash
begin

text \<open>
  The bounded file reads of \<^verbatim>\<open>scripts/credentials_verifier_artifact.py\<close>:
  \<open>_preflight_regular_file\<close>, \<open>_read_bounded_regular_file\<close> and \<open>_digest_bounded_regular_file\<close>,
  on a disk that others may change between any two system calls.

  The world of these functions is the time: every system call takes one step of it, and the disk
  is what each name and each file is at each time. \<open>entry\<close> is the directory entry \<open>lstat\<close> looks
  at, \<open>opens\<close> the file \<open>open\<close> reaches when it follows links. A file keeps its identity (device
  and inode number) whatever name it is reached by.
\<close>

section \<open>The disk\<close>

datatype file_id = File_Id (st_dev: nat) (st_ino: nat)

record inode =
  regular :: bool
  content :: bytes
  mtime :: nat

record disk =
  entry :: "nat \<Rightarrow> string \<Rightarrow> file_id option"
  opens :: "nat \<Rightarrow> string \<Rightarrow> file_id option"
  node_at :: "nat \<Rightarrow> file_id \<Rightarrow> inode"

record file_stat =
  st_regular :: bool
  st_id :: file_id
  st_size :: nat
  st_mtime :: nat

definition stat_of :: "disk \<Rightarrow> nat \<Rightarrow> file_id \<Rightarrow> file_stat" where
  "stat_of d t i = \<lparr>st_regular = regular (node_at d t i), st_id = i,
     st_size = length (content (node_at d t i)), st_mtime = mtime (node_at d t i)\<rparr>"

definition lstat :: "disk \<Rightarrow> string \<Rightarrow> (nat, file_stat) io" where
  "lstat d p = (\<lambda>t. (case entry d t p of None \<Rightarrow> raise OSError | Some i \<Rightarrow> ret (stat_of d t i), Suc t))"

definition open_file :: "disk \<Rightarrow> string \<Rightarrow> (nat, file_id) io" where
  "open_file d p = (\<lambda>t. (case opens d t p of None \<Rightarrow> raise OSError | Some i \<Rightarrow> ret i, Suc t))"

definition fstat :: "disk \<Rightarrow> file_id \<Rightarrow> (nat, file_stat) io" where
  "fstat d i = (\<lambda>t. (ret (stat_of d t i), Suc t))"

definition read_chunk :: "disk \<Rightarrow> file_id \<Rightarrow> nat \<Rightarrow> nat \<Rightarrow> nat \<Rightarrow> bytes" where
  "read_chunk d i offset n t = take n (drop offset (content (node_at d t i)))"

section \<open>The reads\<close>

definition require :: "bool \<Rightarrow> string \<Rightarrow> unit result" where
  "require c m = (if c then ret () else raise (ValueError m))"

lemma require_Inr [simp]: "require c m = Inr u \<longleftrightarrow> c"
  by (simp add: require_def)

definition size_ok :: "string \<Rightarrow> nat \<Rightarrow> file_stat \<Rightarrow> unit result" where
  "size_ok label maximum st = bindE (require (st_regular st) (label @ '' must be a regular file'')) (\<lambda>_.
     require (0 < st_size st \<and> st_size st \<le> maximum) (label @ '' is too large or empty''))"

definition preflight_regular_file :: "disk \<Rightarrow> string \<Rightarrow> string \<Rightarrow> nat \<Rightarrow> (nat, nat) io" where
  "preflight_regular_file d p label maximum = bindIO (lstat d p) (\<lambda>st.
     bindIO (liftIO (size_ok label maximum st)) (\<lambda>_. retIO (st_size st)))"

definition chunk_bytes :: nat where "chunk_bytes = 1024 * 1024"

text \<open>\<open>while remaining\<close>: an empty chunk raises, so every round makes progress.\<close>

function read_rest :: "disk \<Rightarrow> exn \<Rightarrow> file_id \<Rightarrow> nat \<Rightarrow> nat \<Rightarrow> nat \<Rightarrow> bytes result \<times> nat" where
  "read_rest d e i offset remaining t =
     (if remaining = 0 then (ret [], t)
      else let chunk = read_chunk d i offset (min chunk_bytes remaining) t in
        if chunk = [] then (raise e, Suc t)
        else case read_rest d e i (offset + length chunk) (remaining - length chunk) (Suc t) of
          (r, t') \<Rightarrow> (bindE r (\<lambda>b. ret (chunk @ b)), t'))"
  by pat_completeness auto
termination by (relation "measure (\<lambda>(d, e, i, offset, remaining, t). remaining)") auto

declare read_rest.simps [simp del]

definition same_file :: "file_stat \<Rightarrow> file_stat \<Rightarrow> bool" where
  "same_file opened st \<longleftrightarrow> st_regular st \<and> st_id st = st_id opened \<and> st_size st = st_size opened"

definition unchanged :: "file_stat \<Rightarrow> file_stat \<Rightarrow> bool" where
  "unchanged opened st \<longleftrightarrow> same_file opened st \<and> st_mtime st = st_mtime opened"

text \<open>The body shared by both: \<open>verb\<close> is ''read'' or ''hashed''.\<close>

definition bounded_read :: "string \<Rightarrow> disk \<Rightarrow> string \<Rightarrow> string \<Rightarrow> nat \<Rightarrow> (nat, bytes) io" where
  "bounded_read verb d p label maximum = (let while_error = ValueError (label @ '' changed while it was '' @ verb) in
     bindIO (lstat d p) (\<lambda>metadata.
     bindIO (liftIO (size_ok label maximum metadata)) (\<lambda>_.
     bindIO (open_file d p) (\<lambda>i.
     bindIO (fstat d i) (\<lambda>opened.
     bindIO (liftIO (require (same_file metadata opened) (label @ '' changed before it was '' @ verb))) (\<lambda>_.
     bindIO (read_rest d while_error i 0 (st_size metadata)) (\<lambda>raw.
     bindIO (\<lambda>t. (ret (read_chunk d i (length raw) 1 t), Suc t)) (\<lambda>more.
     if more \<noteq> [] then raiseIO while_error else
     bindIO (fstat d i) (\<lambda>after.
     bindIO (lstat d p) (\<lambda>current.
     if length raw = st_size metadata \<and> unchanged opened after \<and> unchanged opened current
     then retIO raw else raiseIO while_error))))))))))"

definition read_bounded_regular_file :: "disk \<Rightarrow> string \<Rightarrow> string \<Rightarrow> nat \<Rightarrow> (nat, bytes) io" where
  "read_bounded_regular_file = bounded_read ''read''"

definition digest_bounded_regular_file :: "disk \<Rightarrow> string \<Rightarrow> string \<Rightarrow> nat \<Rightarrow> (nat, string) io" where
  "digest_bounded_regular_file d p label maximum =
     bindIO (bounded_read ''hashed'' d p label maximum) (\<lambda>raw. retIO (sha_digest raw))"

section \<open>What a read returns\<close>

text \<open>
  A file system that tells: a change to a file, at whatever time in between, leaves a different
  modification time.
\<close>

definition tells_changes :: "disk \<Rightarrow> bool" where
  "tells_changes d \<longleftrightarrow> (\<forall>i s t u. s \<le> u \<longrightarrow> u \<le> t \<longrightarrow> mtime (node_at d s i) = mtime (node_at d t i)
     \<longrightarrow> content (node_at d u i) = content (node_at d s i))"

lemma tells_changesD:
  "tells_changes d \<Longrightarrow> mtime (node_at d s i) = mtime (node_at d t i) \<Longrightarrow> s \<le> u \<Longrightarrow> u \<le> t
     \<Longrightarrow> content (node_at d u i) = content (node_at d s i)"
  unfolding tells_changes_def by blast

lemma read_rest_time: "read_rest d e i offset n t = (r, t') \<Longrightarrow> t \<le> t'"
proof (induction d e i offset n t arbitrary: r t' rule: read_rest.induct)
  case (1 d e i offset n t)
  show ?case
    using 1 by (subst (asm) (2) read_rest.simps) (force simp: Let_def split: if_splits prod.splits)
qed

lemma read_rest_length: "read_rest d e i offset n t = (Inr b, t') \<Longrightarrow> length b = n"
proof (induction d e i offset n t arbitrary: b t' rule: read_rest.induct)
  case (1 d e i offset n t)
  define chunk where "chunk = read_chunk d i offset (min chunk_bytes n) t"
  show ?case
  proof (cases "n = 0")
    case True
    with 1(2) show ?thesis by (simp add: read_rest.simps)
  next
    case False
    with 1(2) obtain b' where ne: "chunk \<noteq> []" and b: "b = chunk @ b'"
      and rest: "read_rest d e i (offset + length chunk) (n - length chunk) (Suc t) = (Inr b', t')"
      by (subst (asm) read_rest.simps) (auto simp: Let_def chunk_def [symmetric] split: if_splits prod.splits)
    have "length chunk \<le> n" unfolding chunk_def read_chunk_def by simp
    with 1(1) [OF False chunk_def ne rest] b show ?thesis by simp
  qed
qed

text \<open>On a file that keeps its content the loop yields the bytes it asked for.\<close>

lemma read_rest_stable:
  assumes "read_rest d e i offset n t = (Inr b, t')"
    and "\<And>u. t \<le> u \<Longrightarrow> u < t' \<Longrightarrow> content (node_at d u i) = c"
  shows "b = take n (drop offset c)"
  using assms
proof (induction d e i offset n t arbitrary: b t' rule: read_rest.induct)
  case (1 d e i offset n t)
  define chunk where "chunk = read_chunk d i offset (min chunk_bytes n) t"
  show ?case
  proof (cases "n = 0")
    case True
    with 1(2) show ?thesis by (simp add: read_rest.simps)
  next
    case False
    with 1(2) obtain b' where ne: "chunk \<noteq> []" and b: "b = chunk @ b'"
      and rest: "read_rest d e i (offset + length chunk) (n - length chunk) (Suc t) = (Inr b', t')"
      by (subst (asm) read_rest.simps) (auto simp: Let_def chunk_def [symmetric] split: if_splits prod.splits)
    from read_rest_time [OF rest] have "t < t'" by simp
    with 1(3) have c: "chunk = take (min chunk_bytes n) (drop offset c)"
      unfolding chunk_def read_chunk_def by simp
    have "b' = take (n - length chunk) (drop (offset + length chunk) c)"
      using 1(1) [OF False chunk_def ne rest] 1(3) by simp
    moreover have "length chunk \<le> n" using c by simp
    moreover have "take (length chunk) (drop offset c) = chunk" using c by (simp add: take_all_iff min_def)
    then have "take n (drop offset c) = chunk @ take (n - length chunk) (drop (offset + length chunk) c)"
      using \<open>length chunk \<le> n\<close> by (metis add.commute drop_drop le_add_diff_inverse take_add)
    ultimately show ?thesis using b by simp
  qed
qed

text \<open>The run of a read that returned, system call by system call.\<close>

lemma system_calls_OK:
  "lstat d p t = (Inr st, t') \<longleftrightarrow> (\<exists>i. entry d t p = Some i \<and> st = stat_of d t i) \<and> t' = Suc t"
  "open_file d p t = (Inr i, t') \<longleftrightarrow> opens d t p = Some i \<and> t' = Suc t"
  "fstat d i t = (Inr st, t') \<longleftrightarrow> st = stat_of d t i \<and> t' = Suc t"
  by (auto simp: lstat_def open_file_def fstat_def split: option.splits)

lemma size_ok_Inr: "size_ok label maximum st = Inr u \<longleftrightarrow> st_regular st \<and> 0 < st_size st \<and> st_size st \<le> maximum"
  by (auto simp: size_ok_def)

lemma stat_parts [simp]:
  "st_regular (stat_of d t i) = regular (node_at d t i)" "st_id (stat_of d t i) = i"
  "st_size (stat_of d t i) = length (content (node_at d t i))" "st_mtime (stat_of d t i) = mtime (node_at d t i)"
  by (simp_all add: stat_of_def)

lemma bounded_read_run:
  assumes "bounded_read verb d p label maximum t = (Inr raw, t')"
  obtains i u where "entry d t p = Some i" "opens d (Suc t) p = Some i"
    "regular (node_at d (Suc (Suc t)) i)" "0 < length raw" "length raw \<le> maximum"
    "length (content (node_at d (Suc (Suc t)) i)) = length raw"
    "read_rest d (ValueError (label @ '' changed while it was '' @ verb)) i 0 (length raw) (Suc (Suc (Suc t))) = (Inr raw, u)"
    "unchanged (stat_of d (Suc (Suc t)) i) (stat_of d (Suc u) i)"
    "entry d (u + 2) p = Some i" "unchanged (stat_of d (Suc (Suc t)) i) (stat_of d (u + 2) i)"
    "t' = u + 3"
proof -
  define w where "w = ValueError (label @ '' changed while it was '' @ verb)"
  from assms obtain i where i: "entry d t p = Some i"
    and size: "size_ok label maximum (stat_of d t i) = Inr ()"
    and r: "(bindIO (open_file d p) (\<lambda>i'. bindIO (fstat d i') (\<lambda>opened.
      bindIO (liftIO (require (same_file (stat_of d t i) opened) (label @ '' changed before it was '' @ verb))) (\<lambda>_.
      bindIO (read_rest d w i' 0 (st_size (stat_of d t i))) (\<lambda>raw.
      bindIO (\<lambda>t. (ret (read_chunk d i' (length raw) 1 t), Suc t)) (\<lambda>more.
      if more \<noteq> [] then raiseIO w else
      bindIO (fstat d i') (\<lambda>after. bindIO (lstat d p) (\<lambda>current.
      if length raw = st_size (stat_of d t i) \<and> unchanged opened after \<and> unchanged opened current
      then retIO raw else raiseIO w)))))))) (Suc t) = (Inr raw, t')"
    unfolding bounded_read_def Let_def w_def [symmetric] bindIO_OK system_calls_OK
    by (auto simp: bindIO_OK)
  from r obtain i' where o: "opens d (Suc t) p = Some i'"
    and same: "same_file (stat_of d t i) (stat_of d (Suc (Suc t)) i')"
    and r: "(bindIO (read_rest d w i' 0 (st_size (stat_of d t i))) (\<lambda>raw.
      bindIO (\<lambda>t. (ret (read_chunk d i' (length raw) 1 t), Suc t)) (\<lambda>more.
      if more \<noteq> [] then raiseIO w else
      bindIO (fstat d i') (\<lambda>after. bindIO (lstat d p) (\<lambda>current.
      if length raw = st_size (stat_of d t i) \<and> unchanged (stat_of d (Suc (Suc t)) i') after \<and> unchanged (stat_of d (Suc (Suc t)) i') current
      then retIO raw else raiseIO w))))) (Suc (Suc (Suc t))) = (Inr raw, t')"
    unfolding bindIO_OK system_calls_OK by (auto simp: bindIO_OK)
  from same have eq: "i' = i" and reg: "regular (node_at d (Suc (Suc t)) i)"
    and len: "length (content (node_at d (Suc (Suc t)) i)) = st_size (stat_of d t i)"
    by (auto simp: same_file_def)
  from r obtain b u where b: "read_rest d w i 0 (st_size (stat_of d t i)) (Suc (Suc (Suc t))) = (Inr b, u)"
    and tail: "(if read_chunk d i (length b) 1 u \<noteq> [] then raiseIO w else
      bindIO (fstat d i) (\<lambda>after. bindIO (lstat d p) (\<lambda>current.
      if length b = st_size (stat_of d t i) \<and> unchanged (stat_of d (Suc (Suc t)) i) after \<and> unchanged (stat_of d (Suc (Suc t)) i) current
      then retIO b else raiseIO w))) (Suc u) = (Inr raw, t')"
    unfolding eq bindIO_OK by auto
  from tail have "b = raw" "unchanged (stat_of d (Suc (Suc t)) i) (stat_of d (Suc u) i)"
    "entry d (u + 2) p = Some i" "unchanged (stat_of d (Suc (Suc t)) i) (stat_of d (u + 2) i)" "t' = u + 3"
    by (auto simp: bindIO_OK system_calls_OK unchanged_def same_file_def split: if_splits)
  moreover from b have "length b = st_size (stat_of d t i)" by (rule read_rest_length)
  ultimately show ?thesis
    using that [of i u] i o eq reg size b len unfolding w_def by (simp add: size_ok_Inr)
qed

text \<open>
  Reading a file under interference: on a file system that tells changes, what a bounded
  read returns, or hashes, is the whole content of one regular file, unchanged from the moment it was opened to
  the last check, within the size limit, that the name denoted before and after the read; links,
  directories and files swapped or modified in between make it raise.
\<close>

theorem bounded_read_atomic:
  assumes "tells_changes d" and "bounded_read verb d p label maximum t = (Inr raw, t')"
  shows "\<exists>i. entry d t p = Some i \<and> opens d (Suc t) p = Some i \<and> entry d (t' - 1) p = Some i
     \<and> regular (node_at d (Suc (Suc t)) i) \<and> regular (node_at d (t' - 1) i)
     \<and> 0 < length raw \<and> length raw \<le> maximum
     \<and> (\<lambda>u. content (node_at d u i)) ` {Suc (Suc t)..<t'} = {raw}"
proof -
  from bounded_read_run [OF assms(2)]
  obtain i u where e: "entry d t p = Some i" "opens d (Suc t) p = Some i"
    and reg: "regular (node_at d (Suc (Suc t)) i)" and len: "0 < length raw" "length raw \<le> maximum"
      "length (content (node_at d (Suc (Suc t)) i)) = length raw"
    and r: "read_rest d (ValueError (label @ '' changed while it was '' @ verb)) i 0 (length raw) (Suc (Suc (Suc t))) = (Inr raw, u)"
    and e': "entry d (Suc (Suc u)) p = Some i" and un: "unchanged (stat_of d (Suc (Suc t)) i) (stat_of d (Suc (Suc u)) i)"
    and t': "t' = Suc (Suc (Suc u))" by (metis add_2_eq_Suc' numeral_3_eq_3 add_Suc_right Nat.add_0_right)
  define c where "c = content (node_at d (Suc (Suc t)) i)"
  from un have m: "mtime (node_at d (Suc (Suc t)) i) = mtime (node_at d (Suc (Suc u)) i)"
    and lc: "length (content (node_at d (Suc (Suc u)) i)) = length c" and reg': "regular (node_at d (Suc (Suc u)) i)"
    by (simp_all add: unchanged_def same_file_def c_def)
  have same: "content (node_at d v i) = c" if "Suc (Suc t) \<le> v" "v \<le> Suc (Suc u)" for v
    using tells_changesD [OF assms(1) m that] unfolding c_def .
  have "raw = take (length raw) c"
    using read_rest_stable [OF r, of c] same by simp
  with len(3) have raw: "raw = c" by (simp add: c_def)
  have "Suc (Suc t) < t'" using read_rest_time [OF r] t' by simp
  then have "(\<lambda>u. content (node_at d u i)) ` {Suc (Suc t)..<t'} = {raw}"
    using same raw t' by (force simp: image_iff)
  with e e' reg reg' len t' show ?thesis by auto
qed

text \<open>One file that never changes.\<close>

definition one_file :: "string \<Rightarrow> bytes \<Rightarrow> disk" where
  "one_file p b = (let name = (\<lambda>t q. if q = p then Some (File_Id 1 7) else None) in
     \<lparr>entry = name, opens = name, node_at = (\<lambda>t i. \<lparr>regular = True, content = b, mtime = 5\<rparr>)\<rparr>)"

lemma one_file_parts:
  "entry (one_file p b) t q = (if q = p then Some (File_Id 1 7) else None)"
  "opens (one_file p b) t q = (if q = p then Some (File_Id 1 7) else None)"
  "node_at (one_file p b) t i = \<lparr>regular = True, content = b, mtime = 5\<rparr>"
  by (simp_all add: one_file_def Let_def)

lemma bounded_read_atomic_witness:
  "\<exists>i. entry (one_file ''pin'' [1, 2]) 0 ''pin'' = Some i \<and> opens (one_file ''pin'' [1, 2]) (Suc 0) ''pin'' = Some i
     \<and> entry (one_file ''pin'' [1, 2]) (7 - 1) ''pin'' = Some i
     \<and> regular (node_at (one_file ''pin'' [1, 2]) (Suc (Suc 0)) i) \<and> regular (node_at (one_file ''pin'' [1, 2]) (7 - 1) i)
     \<and> 0 < length [1, 2 :: 8 word] \<and> length [1, 2 :: 8 word] \<le> 4
     \<and> (\<lambda>u. content (node_at (one_file ''pin'' [1, 2]) u i)) ` {Suc (Suc 0)..<7} = {[1, 2]}"
proof (rule bounded_read_atomic [where label = "''artifact pin''" and verb = "''read''"])
  show "tells_changes (one_file ''pin'' [1, 2])" by (simp add: tells_changes_def one_file_parts)
  show "bounded_read ''read'' (one_file ''pin'' [1, 2]) ''pin'' ''artifact pin'' 4 0 = (Inr [1, 2], 7)"
    by (simp add: bounded_read_def Let_def bindIO_def lstat_def open_file_def fstat_def
        one_file_parts stat_of_def size_ok_def require_def same_file_def unchanged_def read_rest.simps read_chunk_def chunk_bytes_def)
qed

section \<open>The undisturbed read\<close>

definition still :: "disk \<Rightarrow> bool" where
  "still d \<longleftrightarrow> (\<forall>t. entry d t = entry d 0 \<and> opens d t = opens d 0 \<and> node_at d t = node_at d 0)"

lemma stillD: "still d \<Longrightarrow> entry d t = entry d 0 \<and> opens d t = opens d 0 \<and> node_at d t = node_at d 0"
  by (simp add: still_def)

lemma read_rest_still:
  assumes "still d" and "offset + n \<le> length (content (node_at d 0 i))"
  shows "\<exists>t'. read_rest d e i offset n t = (Inr (take n (drop offset (content (node_at d 0 i)))), t')"
  using assms
proof (induction d e i offset n t rule: read_rest.induct)
  case (1 d e i offset n t)
  define c where "c = content (node_at d 0 i)"
  define chunk where "chunk = read_chunk d i offset (min chunk_bytes n) t"
  have chunk: "chunk = take (min chunk_bytes n) (drop offset c)"
    using stillD [OF 1(2), of t] unfolding chunk_def read_chunk_def c_def by simp
  show ?case
  proof (cases "n = 0")
    case True
    then show ?thesis by (simp add: read_rest.simps)
  next
    case False
    with 1(3) have ne: "chunk \<noteq> []" and le: "length chunk \<le> n"
      unfolding chunk by (auto simp: c_def chunk_bytes_def)
    have len: "length chunk = min chunk_bytes n" using 1(3) unfolding chunk by (simp add: c_def)
    have "offset + length chunk + (n - length chunk) \<le> length c" using 1(3) le by (simp add: c_def)
    with 1(1) [OF False chunk_def ne 1(2)] obtain t' where
      "read_rest d e i (offset + length chunk) (n - length chunk) (Suc t)
         = (Inr (take (n - length chunk) (drop (offset + length chunk) c)), t')" unfolding c_def by blast
    moreover have "take n (drop offset c) = chunk @ take (n - length chunk) (drop (offset + length chunk) c)"
      unfolding chunk len [unfolded chunk] using le len by (metis add.commute drop_drop le_add_diff_inverse take_add)
    ultimately show ?thesis
      using False ne by (subst read_rest.simps) (simp add: Let_def chunk_def [symmetric] c_def [symmetric])
  qed
qed

lemma stat_still: "still d \<Longrightarrow> stat_of d t i = stat_of d 0 i"
  using stillD [of d t] by (simp add: stat_of_def)

text \<open>The outcome of an undisturbed read of a name that is not a link.\<close>

definition settled_read :: "string \<Rightarrow> nat \<Rightarrow> inode option \<Rightarrow> bytes result" where
  "settled_read label maximum n = (case n of
     None \<Rightarrow> raise OSError
   | Some f \<Rightarrow> if \<not> regular f then raise (ValueError (label @ '' must be a regular file''))
       else if content f = [] \<or> maximum < length (content f) then raise (ValueError (label @ '' is too large or empty''))
       else ret (content f))"

lemma bounded_read_still:
  assumes "still d" and "opens d 0 p = entry d 0 p"
  shows "fst (bounded_read verb d p label maximum t)
    = settled_read label maximum (map_option (node_at d 0) (entry d 0 p))"
proof (cases "entry d 0 p")
  case None
  then have "lstat d p t = (Inl OSError, Suc t)"
    using stillD [OF assms(1), of t] by (simp add: lstat_def)
  then have "bounded_read verb d p label maximum t = (Inl OSError, Suc t)"
    unfolding bounded_read_def Let_def by (rule bindIO_Inl)
  with None show ?thesis by (simp add: settled_read_def)
next
  case (Some i)
  have l: "lstat d p u = (Inr (stat_of d 0 i), Suc u)" for u
    using stillD [OF assms(1), of u] Some stat_still [OF assms(1)] by (simp add: lstat_def)
  have o: "open_file d p u = (Inr i, Suc u)" for u
    using stillD [OF assms(1), of u] Some assms(2) by (simp add: open_file_def)
  have f: "fstat d i u = (Inr (stat_of d 0 i), Suc u)" for u
    using stat_still [OF assms(1)] by (simp add: fstat_def)
  show ?thesis
  proof (cases "size_ok label maximum (stat_of d 0 i)")
    case (Inl e)
    then have "fst (bounded_read verb d p label maximum t) = Inl e"
      unfolding bounded_read_def Let_def by (simp add: l bindIO_def)
    with Inl Some show ?thesis
      by (auto simp: size_ok_def require_def settled_read_def split: if_splits)
  next
    case (Inr u)
    let ?c = "content (node_at d 0 i)"
    have same: "same_file (stat_of d 0 i) (stat_of d 0 i)" "unchanged (stat_of d 0 i) (stat_of d 0 i)"
      using Inr by (auto simp: size_ok_Inr same_file_def unchanged_def)
    have "read_chunk d i (length ?c) 1 v = []" for v
      using stillD [OF assms(1), of v] by (simp add: read_chunk_def)
    moreover obtain v where
      "read_rest d (ValueError (label @ '' changed while it was '' @ verb)) i 0 (length ?c) (Suc (Suc (Suc t))) = (Inr ?c, v)"
      using read_rest_still [OF assms(1), of 0 "length ?c" i] by force
    ultimately have "fst (bounded_read verb d p label maximum t) = Inr ?c"
      unfolding bounded_read_def Let_def using Inr same by (simp add: l o f bindIO_def require_def)
    with Inr Some show ?thesis by (auto simp: size_ok_Inr settled_read_def)
  qed
qed

text \<open>
  Every outcome of a read that nobody disturbs: a name that is not there is an
  \<open>OSError\<close>, what is no regular file, empty or too large a \<open>ValueError\<close> that says so, and
  everything else its whole content; no other error, whatever the size and the chunks.
\<close>

theorem read_undisturbed:
  assumes "still d" and "opens d 0 p = entry d 0 p"
  shows "fst (read_bounded_regular_file d p label maximum t) = (case entry d 0 p of
     None \<Rightarrow> Inl OSError
   | Some i \<Rightarrow> if \<not> regular (node_at d 0 i) then Inl (ValueError (label @ '' must be a regular file''))
       else if content (node_at d 0 i) = [] \<or> maximum < length (content (node_at d 0 i))
       then Inl (ValueError (label @ '' is too large or empty''))
       else Inr (content (node_at d 0 i)))"
  unfolding read_bounded_regular_file_def bounded_read_still [OF assms] settled_read_def
  by (cases "entry d 0 p") simp_all

lemma read_undisturbed_witness:
  "fst (read_bounded_regular_file (one_file ''pin'' [1, 2, 3]) ''pin'' ''artifact pin'' 2 0)
     = Inl (ValueError ''artifact pin is too large or empty'')"
proof -
  have "still (one_file ''pin'' [1, 2, 3])" "opens (one_file ''pin'' [1, 2, 3]) 0 ''pin'' = entry (one_file ''pin'' [1, 2, 3]) 0 ''pin''"
    by (simp_all add: still_def one_file_parts fun_eq_iff)
  from read_undisturbed [OF this, of "''artifact pin''" 2 0] show ?thesis
    by (simp add: one_file_parts)
qed

end
