(* ===== verification/Artifact_Pin.thy ===== *)
theory Artifact_Pin
  imports Artifact_Files Py_Json Py_Regex Py_Files
begin

text \<open>
  The artifact pins of \<^verbatim>\<open>scripts/credentials_verifier_artifact.py\<close>: the four pin schemas and
  their targets, canonical JSON, the validation of a pin, the references and the evidence subject
  derived from it, the publication check of a transaction pin and its immutable storage.
  \<open>loads\<close> stands for decoding as UTF-8 followed by \<open>json.loads\<close>, \<open>aware\<close> for
  \<open>datetime.fromisoformat\<close> and the question whether its result has a time zone.
\<close>

section \<open>Checks in sequence\<close>

definition checks :: "(bool \<times> string) list \<Rightarrow> unit result" where
  "checks cs = foldE (\<lambda>_ (c, m). require c m) () cs"

lemma checks_Inr [simp]: "checks cs = Inr u \<longleftrightarrow> list_all fst cs"
  unfolding checks_def by (induction cs) auto

lemma checks_Inl: "checks cs = Inl e \<Longrightarrow> \<exists>m. e = ValueError m"
  unfolding checks_def by (induction cs) (auto simp: bindE_eq_Inl require_def split: if_splits)

text \<open>Only an object has fields.\<close>

lemma is_dict_get: "is_dict j \<or> obj_get j k = JNull"
  by (cases j) (auto simp: obj_get_def)

section \<open>Schemas, targets and patterns\<close>

definition pin_schema :: string where "pin_schema = ''elevenid.credentials-verifier-artifact-pin/v1''"
definition rust_pin_schema :: string where "rust_pin_schema = ''elevenid.credentials-verifier-artifact-pin/v2''"
definition candidate_pin_schema :: string where "candidate_pin_schema = ''elevenid.credentials-verifier-candidate-pin/v1''"
definition transaction_pin_schema :: string where "transaction_pin_schema = ''elevenid.credentials-verifier-transaction-pin/v1''"

lemmas pin_schemas = pin_schema_def rust_pin_schema_def candidate_pin_schema_def transaction_pin_schema_def

definition rust_repository :: string where "rust_repository = ''ElevenID/marty-ui''"
definition rust_image_uri :: string where "rust_image_uri = ''ghcr.io/elevenid/marty-ui-oss/services''"
definition candidate_local_image_repository :: string where
  "candidate_local_image_repository = ''docker.io/elevenid/marty-ui-verification-candidate''"
definition candidate_build_workflow :: string where
  "candidate_build_workflow = ''.github/workflows/verification-candidate-build.yml''"
definition max_pin_bytes :: nat where "max_pin_bytes = 4 * 1024 * 1024"

record artifact_target =
  repository :: string
  image_uri :: string
  sbom_asset :: string
  service_port :: nat
  service_name :: "string option"
  migration_entrypoint :: "string option"
  migration_args :: "string list"
  evidence_schema :: string

definition legacy_target :: artifact_target where
  "legacy_target = \<lparr>repository = ''ElevenID/marty-credentials'',
     image_uri = ''ghcr.io/elevenid/marty-credentials-verification'',
     sbom_asset = ''marty-credentials-verification.spdx.json'', service_port = 8006, service_name = None,
     migration_entrypoint = None, migration_args = [''python'', ''manage_migrations.py'', ''upgrade''],
     evidence_schema = ''elevenid.credentials-verifier-artifact-evidence/v1''\<rparr>"

definition rust_target :: artifact_target where
  "rust_target = \<lparr>repository = rust_repository, image_uri = rust_image_uri,
     sbom_asset = ''marty-ui-services-sbom.cdx.json'', service_port = 8012, service_name = Some ''verification'',
     migration_entrypoint = Some ''/app/services/entrypoint.sh'', migration_args = [''migrate''],
     evidence_schema = ''elevenid.credentials-verifier-artifact-evidence/v2''\<rparr>"

definition set_hashable :: "json \<Rightarrow> bool" where
  "set_hashable v = (case v of JArr _ \<Rightarrow> False | JObj _ \<Rightarrow> False | _ \<Rightarrow> True)"

definition target_of :: "json \<Rightarrow> artifact_target result" where
  "target_of pin = (let schema = obj_get pin ''schema'' in
     if schema = JStr pin_schema then ret legacy_target
     else if \<not> set_hashable schema then raise TypeError
     else if schema \<in> JStr ` {rust_pin_schema, candidate_pin_schema, transaction_pin_schema} then ret rust_target
     else raise (ValueError (''artifact pin must use '' @ pin_schema @ '', '' @ rust_pin_schema @ '', ''
       @ candidate_pin_schema @ '', or '' @ transaction_pin_schema)))"

definition nonzero_digit :: "char \<Rightarrow> bool" where "nonzero_digit c = (is_digit c \<and> c \<noteq> CHR ''0'')"
definition count_rx :: rx where "count_rx = Seq (Cls nonzero_digit) (Many 0 (Cls is_digit))"
definition semver_rx :: rx where
  "semver_rx = (let n = Alt (Lit ''0'') count_rx in seqs [n, Lit ''.'', n, Lit ''.'', n])"
definition semver_tag_rx :: rx where "semver_tag_rx = Seq (Lit ''v'') semver_rx"

text \<open>The commit digits a candidate version ends in.\<close>

definition candidate_version :: "string \<Rightarrow> string option" where
  "candidate_version s = (if fullmatch (Seq (Lit ''0.0.0-candidate.'') (Rep 12 12 (Cls is_lhex))) s
     then Some (removeprefix s ''0.0.0-candidate.'') else None)"

section \<open>Canonical JSON\<close>

text \<open>\<open>ensure_ascii=False\<close> escapes only quotes, backslashes and control characters.\<close>

definition compact_char :: "char \<Rightarrow> string" where
  "compact_char c = (let n = code c in
     if c = dquote \<or> c = bslash then [bslash, c]
     else if n = 10 then [bslash, CHR ''n''] else if n = 13 then [bslash, CHR ''r'']
     else if n = 9 then [bslash, CHR ''t''] else if n = 12 then [bslash, CHR ''f'']
     else if n = 8 then [bslash, CHR ''b'']
     else if n < 32 then [bslash] @ ''u00'' @ [hex_digit (n div 16), hex_digit (n mod 16)]
     else [c])"

definition compact_str :: "string \<Rightarrow> string" where
  "compact_str s = dquote # concat (map compact_char s) @ [dquote]"

fun compact :: "json \<Rightarrow> string" where
  "compact JNull = ''null''"
| "compact (JBool b) = (if b then ''true'' else ''false'')"
| "compact (JInt i) = int_str i"
| "compact (JFloat r) = r"
| "compact (JStr s) = compact_str s"
| "compact (JArr xs) = ''['' @ join '','' (map compact xs) @ '']''"
| "compact (JObj kvs) = ''{'' @ join '','' (map (\<lambda>(k, v). compact_str k @ '':'' @ compact v) kvs) @ ''}''"

text \<open>\<open>allow_nan=False\<close>: \<open>repr\<close> names the values that JSON has no text for.\<close>

fun no_nan :: "json \<Rightarrow> bool" where
  "no_nan (JFloat r) = (r \<notin> {''nan'', ''inf'', ''-inf''})"
| "no_nan (JArr xs) = list_all no_nan xs"
| "no_nan (JObj kvs) = list_all (\<lambda>(k, v). no_nan v) kvs"
| "no_nan _ = True"

definition canonical_json :: "json \<Rightarrow> bytes result" where
  "canonical_json v = (if no_nan v then ret (utf8 (compact (sort_keys v)))
     else raise (ValueError ''Out of range float values are not JSON compliant''))"

definition canonical_digest :: "json \<Rightarrow> string result" where
  "canonical_digest v = bindE (canonical_json v) (\<lambda>b. ret (sha_digest b))"

section \<open>Pins\<close>

definition require_digest :: "json \<Rightarrow> string \<Rightarrow> string result" where
  "require_digest v m = bindE (require (fullmatch digest_rx (py_str v)) m) (\<lambda>_. ret (py_str v))"

definition require_asset :: "json \<Rightarrow> string \<Rightarrow> string \<Rightarrow> unit result" where
  "require_asset v asset label = bindE (checks
     [(is_dict v, label @ '' pin is required''),
      (obj_keys v = {''asset'', ''digest''}, label @ '' pin shape changed''),
      (obj_get v ''asset'' = JStr asset, ''unexpected '' @ label @ '' asset'')]) (\<lambda>_.
     bindE (require_digest (obj_get v ''digest'') (label @ '' digest must be sha256:<64 lowercase hex>'')) (\<lambda>_. ret ()))"

text \<open>\<open>value[:n]\<close> of a string or a list; anything else is not sliced.\<close>

definition py_prefix :: "nat \<Rightarrow> json \<Rightarrow> json result" where
  "py_prefix n v = (case v of JStr s \<Rightarrow> ret (JStr (take n s)) | JArr xs \<Rightarrow> ret (JArr (take n xs)) | _ \<Rightarrow> raise TypeError)"

text \<open>\<open>str(value.get(k, ''))\<close>\<close>

definition text_at :: "json \<Rightarrow> string \<Rightarrow> string" where
  "text_at v k = py_str (obj_get_default v k (JStr []))"

definition validate_run :: "json \<Rightarrow> unit result" where
  "validate_run run = checks
     [(is_dict run, ''candidate run identity is required''),
      (obj_keys run = {''repository'', ''workflow'', ''id'', ''attempt''}, ''candidate run identity shape changed''),
      (obj_get run ''repository'' = JStr rust_repository, ''candidate run repository changed''),
      (obj_get run ''workflow'' = JStr candidate_build_workflow, ''candidate run workflow changed''),
      (fullmatch count_rx (text_at run ''id''), ''candidate run ID must be a positive integer''),
      (case obj_get run ''attempt'' of JInt i \<Rightarrow> 0 < i | _ \<Rightarrow> False, ''candidate run attempt must be positive'')]"

definition candidate_pin_keys :: "string set" where
  "candidate_pin_keys = {''schema'', ''state'', ''repository'', ''version'', ''commit'', ''source_ref'', ''run'',
     ''archive'', ''image'', ''sbom'', ''metadata'', ''provenance''}"

definition validate_candidate_pin :: "json \<Rightarrow> unit result" where
  "validate_candidate_pin v = bindE (checks
     [(\<not> has_key v ''release_tag'', ''candidate pin must not reserve a release tag''),
      (obj_keys v = candidate_pin_keys, ''candidate pin shape changed''),
      (candidate_version (text_at v ''version'') \<noteq> None, ''candidate version must be commit-bound and non-release'')]) (\<lambda>_.
     bindE (py_key v ''commit'') (\<lambda>commit.
     bindE (py_prefix 12 commit) (\<lambda>short.
     bindE (checks
       [(map_option JStr (candidate_version (text_at v ''version'')) = Some short,
          ''candidate version must agree with the source commit''),
        (obj_get v ''source_ref'' = JStr ''refs/heads/main'', ''candidate source_ref must identify protected main'')]) (\<lambda>_.
     bindE (validate_run (obj_get v ''run'')) (\<lambda>_.
     bindE (require_asset (obj_get v ''archive'') ''marty-ui-services.oci.tar'' ''candidate archive'') (\<lambda>_.
     bindE (require_asset (obj_get v ''metadata'') ''marty-ui-services-build-metadata.json'' ''candidate metadata'') (\<lambda>_.
     bindE (require_asset (obj_get v ''provenance'') ''marty-ui-services-provenance.json'' ''candidate provenance'') (\<lambda>_.
     let image = obj_get v ''image'' in
     bindE (checks
       [(obj_keys image = {''uri'', ''digest'', ''config_digest'', ''archive_tag''}, ''candidate image pin shape changed''),
        (obj_keys (obj_get v ''sbom'') = {''asset'', ''digest''}, ''candidate SBOM pin shape changed'')]) (\<lambda>_.
     bindE (require_digest (obj_get image ''config_digest'') ''image config digest must be sha256:<64 lowercase hex>'') (\<lambda>_.
     checks
       [(obj_get image ''archive_tag'' = JStr (''candidate-'' @ py_str commit), ''candidate archive tag changed''),
        (obj_get v ''expected_failure'' = JNull, ''candidate pin must not declare an expected failure'')]))))))))))"

definition transaction_pin_keys :: "string set" where
  "transaction_pin_keys = {''schema'', ''state'', ''repository'', ''transaction_id'', ''version'', ''commit'',
     ''source_ref'', ''image'', ''sbom''}"

definition validate_transaction_pin :: "json \<Rightarrow> unit result" where
  "validate_transaction_pin v = checks
     [(\<not> has_key v ''release_tag'', ''transaction pin must not claim an unpublished release tag''),
      (obj_keys v = transaction_pin_keys, ''transaction pin shape changed''),
      (fullmatch hex64_rx (text_at v ''transaction_id''), ''transaction ID must be 64 lowercase hexadecimal characters''),
      (fullmatch semver_rx (text_at v ''version''), ''version must be stable SemVer''),
      (obj_get v ''source_ref'' = JStr ''refs/heads/main'', ''transaction source_ref must identify protected main''),
      (obj_get v ''expected_failure'' = JNull, ''transaction pin must not declare an expected failure'')]"

definition pin_states :: "string list" where
  "pin_states = [''ready'', ''ineligible'', ''candidate'', ''transaction'']"

definition known_failure :: json where
  "known_failure = JObj [(''id'', JStr ''session.transaction-id-unscoped''),
     (''message'', JStr ''session transaction ID changed outside the approved compatibility correction'')]"

text \<open>The release part of a pin, whose schema is neither the candidate's nor the transaction's.\<close>

definition validate_release :: "artifact_target \<Rightarrow> string \<Rightarrow> json \<Rightarrow> unit result" where
  "validate_release target state v = bindE (checks
     [(state \<notin> {''candidate'', ''transaction''}, ''release pin must be validated as a release''),
      (fullmatch semver_tag_rx (text_at v ''release_tag''), ''release_tag must be stable SemVer''),
      (fullmatch semver_rx (text_at v ''version''), ''version must be stable SemVer'')]) (\<lambda>_.
     bindE (py_key v ''release_tag'') (\<lambda>tag. bindE (py_key v ''version'') (\<lambda>version. checks
       [(tag = JStr (CHR ''v'' # py_str version), ''release_tag and version must agree''),
        (obj_get v ''source_ref'' = JStr (if target = legacy_target then ''refs/heads/main'' else ''refs/tags/'' @ py_str tag),
          ''source_ref must identify the attested release source'')])))"

text \<open>No tag: no \<open>@\<close>, and no colon after the first slash (which the URI has).\<close>

definition untagged :: "string \<Rightarrow> bool result" where
  "untagged uri = (if CHR ''@'' \<in> set uri then ret False
     else if CHR ''/'' \<notin> set uri then raise IndexError
     else ret (CHR '':'' \<notin> set (part_tail (CHR ''/'') uri)))"

definition validate_image :: "artifact_target \<Rightarrow> json \<Rightarrow> unit result" where
  "validate_image target img = bindE (checks
     [(is_dict img, ''image pin is required''),
      (obj_get img ''uri'' = JStr (image_uri target), ''unexpected verification image URI'')]) (\<lambda>_.
     bindE (untagged (image_uri target)) (\<lambda>ok.
     bindE (require ok ''image URI must not contain a mutable tag'') (\<lambda>_.
     bindE (require_digest (obj_get img ''digest'') ''image digest must be sha256:<64 lowercase hex>'') (\<lambda>_. ret ()))))"

definition validate_sbom_pin :: "artifact_target \<Rightarrow> json \<Rightarrow> unit result" where
  "validate_sbom_pin target sbom = bindE (checks
     [(is_dict sbom, ''SBOM pin is required''),
      (obj_get sbom ''asset'' = JStr (sbom_asset target), ''unexpected verification SBOM asset'')]) (\<lambda>_.
     bindE (require_digest (obj_get sbom ''digest'') ''SBOM digest must be sha256:<64 lowercase hex>'') (\<lambda>_. ret ()))"

definition validate_by_schema :: "string \<Rightarrow> json \<Rightarrow> unit result" where
  "validate_by_schema state v =
     (if obj_get v ''schema'' = JStr candidate_pin_schema then validate_candidate_pin v
      else if obj_get v ''schema'' = JStr transaction_pin_schema then validate_transaction_pin v
      else if state = ''ineligible''
      then require (py_eq (obj_get v ''expected_failure'') known_failure) ''ineligible artifact pin must bind the known expected failure''
      else require (obj_get v ''expected_failure'' = JNull) ''ready artifact pin must not declare an expected failure'')"

definition validate_pin :: "string \<Rightarrow> json \<Rightarrow> json result" where
  "validate_pin state v = bindE (require (is_dict v) ''artifact pin must be a JSON object'') (\<lambda>_.
     bindE (target_of v) (\<lambda>target.
     bindE (checks
       [(obj_get v ''state'' = JStr state, ''artifact pin must be '' @ state),
        (obj_get v ''repository'' = JStr (repository target), ''artifact repository does not match its schema''),
        (fullmatch commit_rx (text_at v ''commit''), ''commit must be a full lowercase SHA'')]) (\<lambda>_.
     bindE (if obj_get v ''schema'' = JStr candidate_pin_schema
            then require (state = ''candidate'') ''candidate pin must be validated as candidate''
            else if obj_get v ''schema'' = JStr transaction_pin_schema
            then require (state = ''transaction'') ''transaction pin must be validated as transaction''
            else validate_release target state v) (\<lambda>_.
     bindE (validate_image target (obj_get v ''image'')) (\<lambda>_.
     bindE (validate_sbom_pin target (obj_get v ''sbom'')) (\<lambda>_.
     bindE (validate_by_schema state v) (\<lambda>_. ret v)))))))"

definition parse_pin :: "(bytes \<Rightarrow> json result) \<Rightarrow> bytes \<Rightarrow> string \<Rightarrow> json result" where
  "parse_pin loads raw state = bindE (require (state \<in> set pin_states) ''unsupported artifact pin state'') (\<lambda>_.
     bindE (catchE (loads raw) (\<lambda>e. raise (if e = UnicodeError then ValueError ''artifact pin must be UTF-8 JSON'' else e)))
       (validate_pin state))"

definition load_pin_snapshot :: "disk \<Rightarrow> (bytes \<Rightarrow> json result) \<Rightarrow> string \<Rightarrow> string \<Rightarrow> (nat, json \<times> bytes) io" where
  "load_pin_snapshot d loads p state =
     bindIO (liftIO (require (state \<in> set pin_states) ''unsupported artifact pin state'')) (\<lambda>_.
     bindIO (read_bounded_regular_file d p ''artifact pin'' max_pin_bytes) (\<lambda>raw.
     bindIO (liftIO (parse_pin loads raw state)) (\<lambda>pin. retIO (pin, raw))))"

definition load_pin :: "disk \<Rightarrow> (bytes \<Rightarrow> json result) \<Rightarrow> string \<Rightarrow> string \<Rightarrow> (nat, json) io" where
  "load_pin d loads p state = bindIO (load_pin_snapshot d loads p state) (\<lambda>(pin, raw). retIO pin)"

section \<open>References and the evidence subject\<close>

definition candidate_archive_reference :: "json \<Rightarrow> string result" where
  "candidate_archive_reference pin = bindE (py_key pin ''image'') (\<lambda>image. bindE (py_key image ''archive_tag'') (\<lambda>tag.
     ret (candidate_local_image_repository @ '':'' @ py_str tag)))"

definition candidate_manifest_reference :: "json \<Rightarrow> string result" where
  "candidate_manifest_reference pin = bindE (py_key pin ''image'') (\<lambda>image. bindE (py_key image ''digest'') (\<lambda>d.
     ret (candidate_local_image_repository @ ''@'' @ py_str d)))"

definition image_reference :: "json \<Rightarrow> string result" where
  "image_reference pin = bindE (py_key pin ''schema'') (\<lambda>schema.
     if schema = JStr candidate_pin_schema
     then bindE (py_key pin ''commit'') (\<lambda>c. ret (candidate_local_image_repository @ '':verified-'' @ py_str c))
     else bindE (py_key pin ''image'') (\<lambda>image. bindE (py_key image ''uri'') (\<lambda>u.
       bindE (py_key image ''digest'') (\<lambda>d. ret (py_str u @ ''@'' @ py_str d)))))"

definition pick :: "json \<Rightarrow> string list \<Rightarrow> (string \<times> json) list result" where
  "pick pin = mapE (\<lambda>k. bindE (py_key pin k) (\<lambda>v. ret (k, v)))"

text \<open>The fields common to the subjects of a release and of a transaction.\<close>

definition image_and_sbom :: "json \<Rightarrow> (string \<times> json) list result" where
  "image_and_sbom pin = bindE (image_reference pin) (\<lambda>ref. bindE (py_key pin ''sbom'') (\<lambda>sbom.
     bindE (py_key sbom ''digest'') (\<lambda>d.
       ret [(''image_reference'', JStr ref), (''sbom_digest'', d), (''provenance_verified'', JBool True)])))"

definition evidence_subject :: "json \<Rightarrow> json result" where
  "evidence_subject pin = bindE (py_key pin ''schema'') (\<lambda>schema.
     if schema = JStr candidate_pin_schema
     then bindE (pick pin [''repository'', ''commit'', ''source_ref'', ''version'', ''run'', ''archive'', ''image'',
            ''sbom'', ''metadata'', ''provenance'']) (\<lambda>fields. ret (JObj (fields @ [(''provenance_verified'', JBool True)])))
     else bindE (pick pin (if schema = JStr transaction_pin_schema
            then [''repository'', ''transaction_id'', ''version'', ''commit'', ''source_ref'']
            else [''repository'', ''release_tag'', ''version'', ''commit''])) (\<lambda>fields.
       bindE (image_and_sbom pin) (\<lambda>more. ret (JObj (fields @ more)))))"

section \<open>Publication of a transaction\<close>

text \<open>\<open>re.escape\<close> of a field, as the pattern that matches just it.\<close>

definition escaped :: "json \<Rightarrow> rx result" where
  "escaped v = (case v of JStr s \<Rightarrow> ret (Lit s) | _ \<Rightarrow> raise TypeError)"

definition lf :: string where "lf = [CHR 0x0A]"

definition tag_message_rx :: "json \<Rightarrow> rx result" where
  "tag_message_rx pin = bindE (bindE (py_key pin ''version'') escaped) (\<lambda>version.
     bindE (bindE (py_key pin ''transaction_id'') escaped) (\<lambda>transaction.
     bindE (bindE (py_key pin ''commit'') escaped) (\<lambda>commit.
     ret (seqs [Lit ''Release '', version, Lit (lf @ lf), Lit ''Release-Transaction: '', transaction, Lit lf,
       Lit ''Claim-Run: '', count_rx, Lit lf, Lit ''Source-SHA: '', commit, opt (Lit lf)]))))"

definition validate_tag :: "json \<Rightarrow> string \<Rightarrow> json \<Rightarrow> unit result" where
  "validate_tag pin expected tag = bindE (checks
     [(is_dict tag, ''published tag metadata must be an object''),
      (obj_get tag ''tag'' = JStr expected, ''published tag name changed''),
      (is_dict (obj_get tag ''object''), ''published tag subject is missing''),
      (obj_get (obj_get tag ''object'') ''type'' = JStr ''commit'', ''published tag must identify a commit'')]) (\<lambda>_.
     bindE (py_key pin ''commit'') (\<lambda>commit.
     bindE (require (py_eq (obj_get (obj_get tag ''object'') ''sha'') commit) ''published tag commit changed'') (\<lambda>_.
     bindE (tag_message_rx pin) (\<lambda>message_rx.
     require (case obj_get tag ''message'' of JStr m \<Rightarrow> fullmatch message_rx m | _ \<Rightarrow> False)
       ''published tag transaction binding changed''))))"

definition validate_published :: "(string \<Rightarrow> bool option) \<Rightarrow> string \<Rightarrow> json \<Rightarrow> unit result" where
  "validate_published aware expected release = bindE (checks
     [(is_dict release, ''published release metadata must be an object''),
      (obj_get release ''tag_name'' = JStr expected, ''published release tag changed''),
      (case obj_get release ''id'' of JInt i \<Rightarrow> 0 < i | _ \<Rightarrow> False, ''published release ID is invalid''),
      (obj_get release ''draft'' = JBool False, ''published release is a draft''),
      (obj_get release ''prerelease'' = JBool False, ''published release is a prerelease''),
      (is_str (obj_get release ''published_at''), ''published release timestamp is missing'')]) (\<lambda>_.
     case aware (replace_char (CHR ''Z'') ''+00:00'' (str_of (obj_get release ''published_at''))) of
       None \<Rightarrow> raise (ValueError ''published release timestamp is invalid'')
     | Some zone \<Rightarrow> require zone ''published release timestamp must be timezone-aware'')"

definition validate_published_transaction_metadata ::
    "(bytes \<Rightarrow> json result) \<Rightarrow> (string \<Rightarrow> bool option) \<Rightarrow> json \<Rightarrow> json \<Rightarrow> json \<Rightarrow> unit result" where
  "validate_published_transaction_metadata loads aware given tag release =
     bindE (bindE (canonical_json given) (\<lambda>raw. parse_pin loads raw ''transaction'')) (\<lambda>pin.
     bindE (py_key pin ''version'') (\<lambda>version. let expected = CHR ''v'' # py_str version in
     bindE (validate_tag pin expected tag) (\<lambda>_. validate_published aware expected release)))"

section \<open>Immutable storage\<close>

definition host_inode :: "node \<Rightarrow> inode" where
  "host_inode n = (case n of File b \<Rightarrow> \<lparr>regular = True, content = b, mtime = 0\<rparr>
                           | Dir \<Rightarrow> \<lparr>regular = False, content = [], mtime = 0\<rparr>)"

text \<open>
  \<open>O_EXCL\<close> creates the file or finds it there; \<open>fault\<close> is what interrupts the write, after which
  the new file is removed. An existing file is only read (\<open>settled_read\<close> is that read on a host
  nobody else changes).
\<close>

definition create_exclusive :: "exn option \<Rightarrow> string \<Rightarrow> bytes \<Rightarrow> ('x host, unit) io" where
  "create_exclusive fault p payload = (\<lambda>w. case files w p of
     Some n \<Rightarrow> (bindE (settled_read ''transaction pin'' max_pin_bytes (Some (host_inode n)))
       (\<lambda>existing. require (existing = payload) ''transaction pin destination already contains conflicting content''), w)
   | None \<Rightarrow> if files w (path_parent p) \<noteq> Some Dir then (raise OSError, w)
     else case fault of None \<Rightarrow> (ret (), set_node p (Some (File payload)) w)
          | Some e \<Rightarrow> (raise e, set_node p None (set_node p (Some (File payload)) w)))"

definition write_immutable_pin :: "exn option \<Rightarrow> string \<Rightarrow> json \<Rightarrow> ('x host, unit) io" where
  "write_immutable_pin fault p pin = bindIO (liftIO (canonical_json pin)) (\<lambda>c.
     bindIO (mkdirs (path_parent p) True) (\<lambda>_. create_exclusive fault p (c @ utf8 lf)))"

end
