(* ===== verification/Artifact_Pin_Props.thy ===== *)
theory Artifact_Pin_Props
  imports Artifact_Pin Py_Regex_Lang
begin

text \<open>
  What an accepted pin guarantees: references that name one immutable artifact, a complete
  evidence subject, publication only under the pin's own tag, and storage that is written once.
\<close>

section \<open>Fields\<close>

lemma key_of_get: "obj_get v k \<noteq> JNull \<Longrightarrow> py_key v k = Inr (obj_get v k)"
  by (cases v) (auto simp: obj_get_def split: option.splits)

lemma key_of_keys: "k \<in> obj_keys v \<Longrightarrow> py_key v k = Inr (obj_get v k)"
  by (cases v) (auto simp: obj_get_def obj_keys_def split: option.splits simp: map_of_eq_None_iff)

lemma key_of_text: "text_at v k \<noteq> [] \<Longrightarrow> is_dict v \<Longrightarrow> py_key v k = Inr (obj_get v k) \<and> text_at v k = py_str (obj_get v k)"
  by (auto simp: text_at_def obj_get_def obj_get_default_def simp del: py_key_Inr split: option.splits)
     (simp add: py_key_def)

lemma pick_Inr: "pick pin ks = Inr fs \<longleftrightarrow> list_all (\<lambda>k. isOK (py_key pin k)) ks \<and> fs = map (\<lambda>k. (k, obj_get pin k)) ks"
  unfolding pick_def
proof (rule mapE_check)
  show "bindE (py_key pin k) (\<lambda>v. Inr (k, v)) = Inr y \<longleftrightarrow> isOK (py_key pin k) \<and> y = (k, obj_get pin k)" for k y
    by (cases "py_key pin k") (auto dest: py_key_get simp del: py_key_Inr)
qed

lemma pick_all: "list_all (\<lambda>k. py_key pin k = Inr (obj_get pin k)) ks \<Longrightarrow> isOK (pick pin ks)"
  unfolding isOK_iff pick_Inr by (auto simp: list_all_iff)

lemma digest_not_null: "is_digest (py_str v) \<Longrightarrow> v \<noteq> JNull"
  by (auto simp: is_digest_def py_str_def startswith_def)

lemma require_digest_Inr: "require_digest v m = Inr d \<longleftrightarrow> is_digest (py_str v) \<and> d = py_str v"
  by (auto simp: require_digest_def fullmatch_digest)

lemma require_digest_Inr_if: "is_digest (py_str v) \<Longrightarrow> require_digest v m = Inr (py_str v)"
  by (simp add: require_digest_Inr)

section \<open>Accepted pins\<close>

lemma target_of_Inr:
  "target_of v = Inr t \<longleftrightarrow> obj_get v ''schema'' = JStr pin_schema \<and> t = legacy_target
     \<or> obj_get v ''schema'' \<in> JStr ` {rust_pin_schema, candidate_pin_schema, transaction_pin_schema} \<and> t = rust_target"
  by (auto simp: target_of_def Let_def pin_schemas set_hashable_def)

lemma untagged_targets [simp]:
  "untagged (image_uri legacy_target) = Inr True" "untagged (image_uri rust_target) = Inr True"
  by (code_simp)+

lemma validate_image_Inr:
  "target_of v = Inr t \<Longrightarrow> validate_image t img = Inr u \<longleftrightarrow>
     is_dict img \<and> obj_get img ''uri'' = JStr (image_uri t) \<and> is_digest (py_str (obj_get img ''digest''))"
  by (auto simp: target_of_Inr validate_image_def require_digest_Inr simp del: json_tests)

lemma validate_sbom_pin_Inr:
  "validate_sbom_pin t s = Inr u \<longleftrightarrow>
     is_dict s \<and> obj_get s ''asset'' = JStr (sbom_asset t) \<and> is_digest (py_str (obj_get s ''digest''))"
  by (auto simp: validate_sbom_pin_def require_digest_Inr simp del: json_tests)

lemma parse_pin_Inr:
  "parse_pin loads raw state = Inr pin \<longleftrightarrow> state \<in> set pin_states \<and> loads raw = Inr pin \<and> isOK (validate_pin state pin)"
  unfolding parse_pin_def by (cases "loads raw") (auto simp: isOK_iff validate_pin_def)

text \<open>The facts every accepted pin has, whatever its schema.\<close>

lemma validate_pinE:
  assumes "isOK (validate_pin state v)"
  obtains t where "is_dict v" "target_of v = Inr t" "obj_get v ''state'' = JStr state"
    "obj_get v ''repository'' = JStr (repository t)" "is_commit (text_at v ''commit'')"
    "is_dict (obj_get v ''image'')" "obj_get (obj_get v ''image'') ''uri'' = JStr (image_uri t)"
    "is_digest (py_str (obj_get (obj_get v ''image'') ''digest''))"
    "is_dict (obj_get v ''sbom'')" "is_digest (py_str (obj_get (obj_get v ''sbom'') ''digest''))"
    "if obj_get v ''schema'' = JStr candidate_pin_schema then state = ''candidate''
     else if obj_get v ''schema'' = JStr transaction_pin_schema then state = ''transaction''
     else validate_release t state v = Inr ()"
    "validate_by_schema state v = Inr ()"
proof -
  from assms obtain t where "is_dict v" and t: "target_of v = Inr t"
    and c: "list_all fst [(obj_get v ''state'' = JStr state, ''artifact pin must be '' @ state),
        (obj_get v ''repository'' = JStr (repository t), ''artifact repository does not match its schema''),
        (fullmatch commit_rx (text_at v ''commit''), ''commit must be a full lowercase SHA'')]"
    and s: "(if obj_get v ''schema'' = JStr candidate_pin_schema
            then require (state = ''candidate'') ''candidate pin must be validated as candidate''
            else if obj_get v ''schema'' = JStr transaction_pin_schema
            then require (state = ''transaction'') ''transaction pin must be validated as transaction''
            else validate_release t state v) = Inr ()"
    and i: "validate_image t (obj_get v ''image'') = Inr ()"
    and b: "validate_sbom_pin t (obj_get v ''sbom'') = Inr ()"
    and l: "validate_by_schema state v = Inr ()"
    unfolding isOK_iff validate_pin_def bindE_eq_Inr checks_Inr require_Inr by auto
  show ?thesis
    by (rule that) (use \<open>is_dict v\<close> t c s i b l in \<open>auto simp: validate_image_Inr [OF t] validate_sbom_pin_Inr
      fullmatch_commit simp del: json_tests split: if_splits\<close>)
qed

lemma commit_key:
  "is_dict v \<Longrightarrow> is_commit (text_at v ''commit'') \<Longrightarrow>
     py_key v ''commit'' = Inr (obj_get v ''commit'') \<and> is_commit (py_str (obj_get v ''commit''))"
  using key_of_text [of v "''commit''"] is_commit_nonempty by metis

lemma image_reference_pinned:
  assumes "isOK (validate_pin state v)"
  shows "image_reference v = Inr (if state = ''candidate''
           then candidate_local_image_repository @ '':verified-'' @ py_str (obj_get v ''commit'')
           else (if obj_get v ''schema'' = JStr pin_schema then image_uri legacy_target else rust_image_uri)
             @ ''@'' @ py_str (obj_get (obj_get v ''image'') ''digest''))"
proof -
  from validate_pinE [OF assms] obtain t where v: "is_dict v" and t: "target_of v = Inr t"
    and commit: "is_commit (text_at v ''commit'')" and img: "is_dict (obj_get v ''image'')"
    and uri: "obj_get (obj_get v ''image'') ''uri'' = JStr (image_uri t)"
    and dig: "is_digest (py_str (obj_get (obj_get v ''image'') ''digest''))"
    and s: "if obj_get v ''schema'' = JStr candidate_pin_schema then state = ''candidate''
     else if obj_get v ''schema'' = JStr transaction_pin_schema then state = ''transaction''
     else validate_release t state v = Inr ()" by metis
  have "py_key (obj_get v ''image'') ''uri'' = Inr (JStr (image_uri t))"
    using key_of_get [of "obj_get v ''image''" "''uri''"] uri by simp
  moreover have "py_key v ''schema'' = Inr (obj_get v ''schema'')" "py_key v ''image'' = Inr (obj_get v ''image'')"
    "py_key (obj_get v ''image'') ''digest'' = Inr (obj_get (obj_get v ''image'') ''digest'')"
    using t img digest_not_null [OF dig] by (auto intro!: key_of_get simp: target_of_Inr simp del: py_key_Inr)
  moreover have "obj_get v ''schema'' \<noteq> JStr candidate_pin_schema \<Longrightarrow> state \<noteq> ''candidate''"
    using s by (auto simp: validate_release_def split: if_splits)
  ultimately show ?thesis
    using commit_key [OF v commit] s t
    by (auto simp: image_reference_def target_of_Inr rust_target_def pin_schemas simp del: py_key_Inr split: if_splits)
qed

lemma subject_complete:
  assumes "isOK (validate_pin state v)"
  shows "isOK (evidence_subject v)"
proof -
  from validate_pinE [OF assms] obtain t where v: "is_dict v" and t: "target_of v = Inr t"
    and repo: "obj_get v ''repository'' = JStr (repository t)"
    and commit: "is_commit (text_at v ''commit'')" and sbom: "is_dict (obj_get v ''sbom'')"
    and dig: "is_digest (py_str (obj_get (obj_get v ''sbom'') ''digest''))"
    and s: "if obj_get v ''schema'' = JStr candidate_pin_schema then state = ''candidate''
     else if obj_get v ''schema'' = JStr transaction_pin_schema then state = ''transaction''
     else validate_release t state v = Inr ()"
    and l: "validate_by_schema state v = Inr ()" by metis
  have schema: "py_key v ''schema'' = Inr (obj_get v ''schema'')"
    using t by (auto intro!: key_of_get simp: target_of_Inr simp del: py_key_Inr)
  have "py_key v ''sbom'' = Inr (obj_get v ''sbom'')" "py_key v ''repository'' = Inr (obj_get v ''repository'')"
    "py_key (obj_get v ''sbom'') ''digest'' = Inr (obj_get (obj_get v ''sbom'') ''digest'')"
    using sbom repo digest_not_null [OF dig] key_of_get [of v "''sbom''"] key_of_get [of v "''repository''"]
      key_of_get [of "obj_get v ''sbom''" "''digest''"] by (simp_all del: py_key_Inr) auto
  note keys = this commit_key [OF v commit]
  have more: "isOK (image_and_sbom v)"
    using keys image_reference_pinned [OF assms] by (simp add: image_and_sbom_def del: py_key_Inr)
  consider (cand) "obj_get v ''schema'' = JStr candidate_pin_schema"
    | (trans) "obj_get v ''schema'' = JStr transaction_pin_schema"
    | (rel) "obj_get v ''schema'' \<noteq> JStr candidate_pin_schema" "obj_get v ''schema'' \<noteq> JStr transaction_pin_schema" by blast
  then show ?thesis
  proof cases
    case cand
    with l have "obj_keys v = candidate_pin_keys"
      by (auto simp: validate_by_schema_def validate_candidate_pin_def simp del: py_key_Inr)
    then have "isOK (pick v [''repository'', ''commit'', ''source_ref'', ''version'', ''run'', ''archive'', ''image'',
            ''sbom'', ''metadata'', ''provenance''])"
      by (intro pick_all) (simp add: candidate_pin_keys_def key_of_keys del: py_key_Inr)
    with cand schema show ?thesis by (auto simp: evidence_subject_def isOK_iff simp del: py_key_Inr)
  next
    case trans
    with l have "obj_keys v = transaction_pin_keys"
      by (auto simp: validate_by_schema_def validate_transaction_pin_def pin_schemas simp del: py_key_Inr)
    then have "isOK (pick v [''repository'', ''transaction_id'', ''version'', ''commit'', ''source_ref''])"
      by (intro pick_all) (simp add: transaction_pin_keys_def key_of_keys del: py_key_Inr)
    with trans schema more show ?thesis by (auto simp: evidence_subject_def isOK_iff pin_schemas simp del: py_key_Inr)
  next
    case rel
    with s have "isOK (py_key v ''release_tag'')" "isOK (py_key v ''version'')"
      by (auto simp: validate_release_def isOK_iff simp del: py_key_Inr)
    with keys have "isOK (pick v [''repository'', ''release_tag'', ''version'', ''commit''])"
      unfolding isOK_iff [of "pick _ _"] pick_Inr by (simp del: py_key_Inr)
    with rel schema more show ?thesis by (auto simp: evidence_subject_def isOK_iff simp del: py_key_Inr)
  qed
qed

text \<open>
  Claim C9. What a pin accepted in a state means: the document says that state itself, its schema
  fits it, its evidence subject is complete, and its image reference is immutable: for a release or
  a transaction the image URI of its schema at a SHA-256 digest, for a candidate a local name that
  carries the full commit.
\<close>

theorem accepted_pin_immutable:
  "case parse_pin loads raw state of
     Inl e \<Rightarrow> True
   | Inr pin \<Rightarrow> loads raw = Inr pin \<and> obj_get pin ''state'' = JStr state
       \<and> (state = ''candidate'') = (obj_get pin ''schema'' = JStr candidate_pin_schema)
       \<and> (state = ''transaction'') = (obj_get pin ''schema'' = JStr transaction_pin_schema)
       \<and> isOK (evidence_subject pin)
       \<and> (\<exists>c d. is_commit c \<and> is_digest d
            \<and> image_reference pin = Inr (if state = ''candidate''
                then ''docker.io/elevenid/marty-ui-verification-candidate:verified-'' @ c
                else (if obj_get pin ''schema'' = JStr ''elevenid.credentials-verifier-artifact-pin/v1''
                      then ''ghcr.io/elevenid/marty-credentials-verification'' else ''ghcr.io/elevenid/marty-ui-oss/services'')
                     @ ''@'' @ d))"
proof (cases "parse_pin loads raw state")
  case (Inr pin)
  then have ok: "isOK (validate_pin state pin)" and l: "loads raw = Inr pin" by (simp_all add: parse_pin_Inr)
  from validate_pinE [OF ok] obtain t where v: "is_dict pin" and st: "obj_get pin ''state'' = JStr state"
    and commit: "is_commit (text_at pin ''commit'')"
    and dig: "is_digest (py_str (obj_get (obj_get pin ''image'') ''digest''))"
    and s: "if obj_get pin ''schema'' = JStr candidate_pin_schema then state = ''candidate''
     else if obj_get pin ''schema'' = JStr transaction_pin_schema then state = ''transaction''
     else validate_release t state pin = Inr ()" by metis
  have excl: "(state = ''candidate'') = (obj_get pin ''schema'' = JStr candidate_pin_schema)"
      "(state = ''transaction'') = (obj_get pin ''schema'' = JStr transaction_pin_schema)"
    using s by (auto simp: validate_release_def pin_schemas split: if_splits simp del: py_key_Inr)
  let ?c = "py_str (obj_get pin ''commit'')" and ?d = "py_str (obj_get (obj_get pin ''image'') ''digest'')"
  have "image_reference pin = Inr (if state = ''candidate''
                then ''docker.io/elevenid/marty-ui-verification-candidate:verified-'' @ ?c
                else (if obj_get pin ''schema'' = JStr ''elevenid.credentials-verifier-artifact-pin/v1''
                      then ''ghcr.io/elevenid/marty-credentials-verification'' else ''ghcr.io/elevenid/marty-ui-oss/services'')
                     @ ''@'' @ ?d)"
    unfolding image_reference_pinned [OF ok]
    by (simp add: candidate_local_image_repository_def rust_image_uri_def legacy_target_def pin_schema_def)
  with commit_key [OF v commit] dig have ref: "is_commit ?c \<and> is_digest ?d \<and> image_reference pin = Inr (if state = ''candidate''
                then ''docker.io/elevenid/marty-ui-verification-candidate:verified-'' @ ?c
                else (if obj_get pin ''schema'' = JStr ''elevenid.credentials-verifier-artifact-pin/v1''
                      then ''ghcr.io/elevenid/marty-credentials-verification'' else ''ghcr.io/elevenid/marty-ui-oss/services'')
                     @ ''@'' @ ?d)" by blast
  show ?thesis unfolding Inr sum.case
    by (intro conjI l st excl subject_complete [OF ok]) (use ref in blast)
qed simp

section \<open>Publication\<close>

text \<open>A positive decimal number without leading zeros.\<close>

definition is_count :: "string \<Rightarrow> bool" where
  "is_count s \<longleftrightarrow> (\<exists>c cs. s = c # cs \<and> nonzero_digit c \<and> list_all is_digit cs)"

lemma lang_count: "lang count_rx s \<longleftrightarrow> is_count s"
  unfolding count_rx_def is_count_def lang_Cls_Seq lang_Many_Cls by simp

definition tag_message :: "string \<Rightarrow> string \<Rightarrow> string \<Rightarrow> string \<Rightarrow> string" where
  "tag_message version transaction claim commit = ''Release '' @ version @ lf @ lf
     @ ''Release-Transaction: '' @ transaction @ lf @ ''Claim-Run: '' @ claim @ lf @ ''Source-SHA: '' @ commit"

lemma escaped_Inr: "escaped v = Inr r \<longleftrightarrow> (\<exists>s. v = JStr s \<and> r = Lit s)"
  by (cases v) (auto simp: escaped_def)

lemma lang_count_Seq: "lang (Seq count_rx r) s \<longleftrightarrow> (\<exists>n t. s = n @ t \<and> is_count n \<and> lang r t)"
  by (simp add: lang_count)

lemma lang_counted:
  "lang (seqs [Lit a, Lit V, Lit b, Lit c, Lit T, Lit d, Lit e, count_rx, Lit f, Lit g, Lit C, opt (Lit h)]) m
   \<longleftrightarrow> (\<exists>n t. is_count n \<and> t \<in> {[], h} \<and> m = a @ V @ b @ c @ T @ d @ e @ n @ f @ g @ C @ t)"
proof -
  define R where "R = seqs [Lit f, Lit g, Lit C, opt (Lit h)]"
  have tail: "lang R s \<longleftrightarrow> (\<exists>t. t \<in> {[], h} \<and> s = f @ g @ C @ t)" for s
    unfolding R_def seqs.simps lang_Lit_Seq lang_opt lang.simps(1) by auto
  have "lang (seqs [Lit a, Lit V, Lit b, Lit c, Lit T, Lit d, Lit e, Seq count_rx R]) m
      \<longleftrightarrow> (\<exists>s. m = a @ V @ b @ c @ T @ d @ e @ s \<and> lang (Seq count_rx R) s)"
    unfolding seqs.simps lang_Lit_Seq by (auto simp del: lang.simps)
  also have "\<dots> \<longleftrightarrow> (\<exists>n t. is_count n \<and> t \<in> {[], h} \<and> m = a @ V @ b @ c @ T @ d @ e @ n @ f @ g @ C @ t)"
    unfolding lang_count_Seq tail by blast
  finally show ?thesis unfolding R_def seqs.simps .
qed

lemma tag_message_matches:
  "fullmatch (seqs [Lit ''Release '', Lit V, Lit (lf @ lf), Lit ''Release-Transaction: '', Lit T, Lit lf,
       Lit ''Claim-Run: '', count_rx, Lit lf, Lit ''Source-SHA: '', Lit C, opt (Lit lf)]) m
   \<longleftrightarrow> (\<exists>n. is_count n \<and> m \<in> {tag_message V T n C, tag_message V T n C @ lf})"
  (is "fullmatch ?r m \<longleftrightarrow> _")
proof -
  have "plain count_rx" "plain (opt (Lit lf))" by (simp_all add: count_rx_def opt_def)
  then have "fullmatch ?r m \<longleftrightarrow> lang ?r m" by (intro fullmatch_lang) simp
  then show ?thesis unfolding lang_counted tag_message_def by auto
qed

lemma tag_message_rx_Inr:
  "tag_message_rx pin = Inr r \<longleftrightarrow> (\<exists>V T C. py_key pin ''version'' = Inr (JStr V) \<and> py_key pin ''transaction_id'' = Inr (JStr T)
     \<and> py_key pin ''commit'' = Inr (JStr C) \<and> r = seqs [Lit ''Release '', Lit V, Lit (lf @ lf),
       Lit ''Release-Transaction: '', Lit T, Lit lf, Lit ''Claim-Run: '', count_rx, Lit lf, Lit ''Source-SHA: '', Lit C,
       opt (Lit lf)])"
  unfolding tag_message_rx_def bindE_eq_Inr escaped_Inr by auto

lemma validate_tag_Inr:
  "validate_tag pin expected tag = Inr u \<longleftrightarrow> (\<exists>V T C n. py_key pin ''version'' = Inr (JStr V)
     \<and> py_key pin ''transaction_id'' = Inr (JStr T) \<and> py_key pin ''commit'' = Inr (JStr C) \<and> is_count n
     \<and> obj_get tag ''tag'' = JStr expected
     \<and> obj_get (obj_get tag ''object'') ''type'' = JStr ''commit'' \<and> obj_get (obj_get tag ''object'') ''sha'' = JStr C
     \<and> obj_get tag ''message'' \<in> JStr ` {tag_message V T n C, tag_message V T n C @ lf})"
proof -
  have m: "(case j of JStr m \<Rightarrow> fullmatch r m | _ \<Rightarrow> False) \<longleftrightarrow> (\<exists>m. j = JStr m \<and> fullmatch r m)" for j r by (cases j) auto
  show ?thesis
    unfolding validate_tag_def bindE_eq_Inr checks_Inr tag_message_rx_Inr require_Inr m
    using is_dict_get [of tag "''tag''"] is_dict_get [of "obj_get tag ''object''" "''type''"]
    by (auto simp: tag_message_matches simp del: json_tests py_key_Inr seqs.simps; blast)
qed

lemma validate_published_Inr:
  "validate_published aware expected release = Inr u \<longleftrightarrow> obj_get release ''tag_name'' = JStr expected
     \<and> (\<exists>i > 0. obj_get release ''id'' = JInt i) \<and> obj_get release ''draft'' = JBool False
     \<and> obj_get release ''prerelease'' = JBool False
     \<and> (\<exists>t. obj_get release ''published_at'' = JStr t \<and> aware (replace_char (CHR ''Z'') ''+00:00'' t) = Some True)"
proof -
  have i: "(case j of JInt i \<Rightarrow> 0 < i | _ \<Rightarrow> False) \<longleftrightarrow> (\<exists>i > 0. j = JInt i)" for j by (cases j) auto
  have a: "(case x of None \<Rightarrow> raise e | Some zone \<Rightarrow> require zone m) = Inr u \<longleftrightarrow> x = Some True" for x e m
    by (cases x) auto
  show ?thesis
    unfolding validate_published_def bindE_eq_Inr checks_Inr i a
    using is_dict_get [of release "''tag_name''"] by (auto simp del: json_tests(1))
qed

text \<open>
  Publication binding, exact: tag and release metadata are accepted for a transaction pin
  exactly when the pin is valid in its canonical form, the tag is \<open>v\<close> and its version and is on
  its commit, the tag message is the one text that binds version, transaction, some claim run and
  commit (with at most one final newline), and the release of that tag has a positive id, is
  neither a draft nor a prerelease, and carries a timestamp with a time zone.
\<close>

theorem published_metadata_exact:
  "validate_published_transaction_metadata loads aware given tag release = Inr () \<longleftrightarrow>
     (\<exists>raw pin V T C n t. canonical_json given = Inr raw \<and> parse_pin loads raw ''transaction'' = Inr pin
        \<and> py_key pin ''version'' = Inr (JStr V) \<and> py_key pin ''transaction_id'' = Inr (JStr T)
        \<and> py_key pin ''commit'' = Inr (JStr C) \<and> is_count n
        \<and> obj_get tag ''tag'' = JStr (CHR ''v'' # V)
        \<and> obj_get (obj_get tag ''object'') ''type'' = JStr ''commit''
        \<and> obj_get (obj_get tag ''object'') ''sha'' = JStr C
        \<and> obj_get tag ''message'' \<in> JStr ` {tag_message V T n C, tag_message V T n C @ lf}
        \<and> obj_get release ''tag_name'' = JStr (CHR ''v'' # V)
        \<and> (\<exists>i > 0. obj_get release ''id'' = JInt i)
        \<and> obj_get release ''draft'' = JBool False \<and> obj_get release ''prerelease'' = JBool False
        \<and> obj_get release ''published_at'' = JStr t
        \<and> aware (replace_char (CHR ''Z'') ''+00:00'' t) = Some True)"
  unfolding validate_published_transaction_metadata_def Let_def bindE_eq_Inr validate_tag_Inr validate_published_Inr
  by (auto simp del: json_tests py_key_Inr; metis Inr_inject py_str_JStr)

section \<open>Immutable storage\<close>

definition regular_files :: "'x host \<Rightarrow> (string \<times> bytes) set" where
  "regular_files w = {(q, b). files w q = Some (File b)}"

lemma mkdirs_regular: "mkdirs p ok w = (r, w') \<Longrightarrow> regular_files w' = regular_files w"
  by (auto simp: mkdirs_def regular_files_def split: option.splits node.splits if_splits)

lemma mkdirs_made: "mkdirs p ok w = (Inr u, w') \<Longrightarrow> files w' p = Some Dir"
  by (auto simp: mkdirs_def split: option.splits node.splits if_splits)

lemma mkdirs_again: "files w p = Some Dir \<Longrightarrow> mkdirs p True w = (Inr (), w)"
  by (simp add: mkdirs_def)

lemma settled_read_Inr:
  "settled_read label n (Some (host_inode x)) = Inr b \<longleftrightarrow> x = File b \<and> b \<noteq> [] \<and> length b \<le> n"
  by (auto simp: settled_read_def host_inode_def split: node.split)

lemma create_exclusive_OK:
  "create_exclusive fault p b w = (Inr (), w') \<longleftrightarrow>
     files w p = Some (File b) \<and> b \<noteq> [] \<and> length b \<le> max_pin_bytes \<and> w' = w
     \<or> files w p = None \<and> files w (path_parent p) = Some Dir \<and> fault = None \<and> w' = set_node p (Some (File b)) w"
  by (auto simp: create_exclusive_def settled_read_Inr split: option.split)

lemma create_exclusive_keeps: "create_exclusive fault p b w = (Inl e, w') \<Longrightarrow> regular_files w' = regular_files w \<and> files w' = files w"
  by (auto simp: create_exclusive_def regular_files_def set_node_def fun_eq_iff split: option.splits if_splits)

text \<open>
  Claim C28. A pin is written once: storing it leaves everything that exists as it is; when it
  succeeds, the only file added, if any, is the pin's own canonical text, and storing the same pin
  again (within the size limit of a pin) succeeds without touching anything, whatever interrupts
  writes then; when it fails, no file is added, changed or left half written.
\<close>

theorem immutable_pin_written_once:
  "case write_immutable_pin fault p pin w of
     (Inl e, w') \<Rightarrow> files w \<subseteq>\<^sub>m files w' \<and> regular_files w' = regular_files w
   | (Inr _, w') \<Rightarrow> files w \<subseteq>\<^sub>m files w' \<and> (\<exists>c. canonical_json pin = Inr c
        \<and> regular_files w' = insert (p, c @ utf8 lf) (regular_files w)
        \<and> (if length c < max_pin_bytes then write_immutable_pin fault' p pin w' = (Inr (), w') else True))"
proof -
  obtain r w' where run: "write_immutable_pin fault p pin w = (r, w')" by (cases "write_immutable_pin fault p pin w")
  show ?thesis
  proof (cases "canonical_json pin")
    case (Inl e)
    then have "r = Inl e \<and> w' = w" using run by (simp add: write_immutable_pin_def)
    then show ?thesis using run by simp
  next
    case (Inr c)
    obtain m w1 where mk: "mkdirs (path_parent p) True w = (m, w1)" by (cases "mkdirs (path_parent p) True w")
    have le: "files w \<subseteq>\<^sub>m files w1"
      using mkdirs_keeps_files [OF mk] by (force simp: map_le_def)
    show ?thesis
    proof (cases m)
      case e: (Inl e)
      then have "r = Inl e \<and> w' = w1"
        using run Inr mk by (simp add: write_immutable_pin_def bindIO_def)
      then show ?thesis using run le mkdirs_regular [OF mk] by simp
    next
      case u: (Inr u)
      let ?b = "c @ utf8 lf"
      have b: "?b \<noteq> []" "length ?b = Suc (length c)" by (simp_all add: utf8_def lf_def utf8_char_def code_def)
      have cr: "create_exclusive fault p ?b w1 = (r, w')"
        using run Inr mk u by (simp add: write_immutable_pin_def bindIO_def)
      have dir: "files w1 (path_parent p) = Some Dir" using mkdirs_made mk u by metis
      show ?thesis
      proof (cases r)
        case (Inl e)
        with create_exclusive_keeps cr mkdirs_regular [OF mk] have "regular_files w' = regular_files w" "files w' = files w1"
          by metis+
        with run Inl le show ?thesis by simp
      next
        case (Inr v)
        with cr have ok: "files w1 p = Some (File ?b) \<and> w' = w1
            \<or> files w1 p = None \<and> w' = set_node p (Some (File ?b)) w1"
          using create_exclusive_OK [of fault p ?b w1 w'] by auto
        then have new: "files w1 \<subseteq>\<^sub>m files w'" "regular_files w' = insert (p, ?b) (regular_files w1)"
          "files w' p = Some (File ?b)" "files w' (path_parent p) = Some Dir"
          using dir by (auto simp: map_le_def regular_files_def split: if_splits)
        have again: "write_immutable_pin fault' p pin w' = (Inr (), w')" if "length c < max_pin_bytes"
          using \<open>canonical_json pin = Inr c\<close> mkdirs_again [OF new(4)] new(3) b that
            create_exclusive_OK [of fault' p ?b w' w'] by (simp add: write_immutable_pin_def bindIO_def)
        have "files w \<subseteq>\<^sub>m files w'" using le new(1) by (rule map_le_trans)
        with run Inr new(2) again mkdirs_regular [OF mk] \<open>canonical_json pin = Inr c\<close> show ?thesis by simp
      qed
    qed
  qed
qed

end
