(* ===== verification/Artifact_Evidence.thy ===== *)
theory Artifact_Evidence
  imports Artifact_Pin
begin

text \<open>
  The evidence of \<^verbatim>\<open>scripts/credentials_verifier_artifact.py\<close>: what a runtime test writes
  (the tail of \<open>_run_artifact_test\<close>), the harness identity, and the three comparisons of an
  oracle's evidence with that of a rejected release, a candidate and a transaction.
  \<open>cmd\<close> stands for \<open>subprocess.run\<close>: exit code, standard output and standard error.
\<close>

section \<open>Constants\<close>

definition candidate_evidence_schema :: string where "candidate_evidence_schema = ''elevenid.credentials-verifier-candidate-evidence/v1''"
definition transaction_evidence_schema :: string where "transaction_evidence_schema = ''elevenid.credentials-verifier-transaction-evidence/v1''"
definition known_failure_id :: string where "known_failure_id = ''session.transaction-id-unscoped''"
definition privacy_difference_id :: string where "privacy_difference_id = ''validation.unknown-field-detail-minimized''"
definition runtime_blocker :: string where "runtime_blocker = ''canonical.oid4vp-positive-runtime-not-exercised''"
definition positive_oid4vp_check :: string where "positive_oid4vp_check = ''canonical.oid4vp-positive-pass-with-claims''"
definition rust_only_checks :: "string list" where "rust_only_checks = [''compatibility.default-disabled-routes-absent'']"

definition language_neutral_checks :: "string list" where
  "language_neutral_checks =
     [''postgres.ready'', ''migrations.applied'', ''migrations.idempotent-reapplication'',
      ''governance.missing-required-check-rejected'', ''health.native-capabilities'', ''compatibility.adapter-enabled'',
      ''session.malformed-presentation-fails-closed'', ''session.create-auth-policy-and-reload-parity'',
      ''session.postgres-restart-minimization-and-replay-parity'', ''session.not-found-expiry-and-conflict-errors'',
      ''session.concurrent-claim-and-fencing-parity'',
      ''direct.auth-policy-jwt-no-nonce-structured-and-malformed-fail-closed'',
      ''authorization.missing-invalid-and-wrong-purpose-rejected'', ''authority.caller-selection-rejected'',
      ''trust.unregistered-issuer-rejected-before-resolution'', ''resolver.unusable-jwk-fails-closed'',
      ''canonical.vds-positive-pass'', ''canonical.tampered-signature-fail'', ''canonical.malformed-evidence-fail'']"

definition candidate_required_checks :: "string list" where
  "candidate_required_checks = language_neutral_checks @ [positive_oid4vp_check] @ rust_only_checks"

definition difference_details :: "(string \<times> string) list" where
  "difference_details =
     [(known_failure_id, ''Rejected Rust v1.1.208 leaves the session transaction ID unscoped; ''
        @ ''an eligible Rust candidate must use transaction:<session-id>.''),
      (privacy_difference_id, ''Both targets reject caller-selected authority with HTTP 422; Rust deliberately ''
        @ ''minimizes the response detail instead of echoing the rejected field name.'')]"

definition frozen_legacy_pin :: json where
  "frozen_legacy_pin = JObj
     [(''schema'', JStr pin_schema), (''state'', JStr ''ready''), (''repository'', JStr ''ElevenID/marty-credentials''),
      (''release_tag'', JStr ''v0.1.71''), (''version'', JStr ''0.1.71''),
      (''commit'', JStr ''94f19ad369e7e41883f2aa3d77656ce561bb6534''), (''source_ref'', JStr ''refs/heads/main''),
      (''image'', JObj [(''uri'', JStr ''ghcr.io/elevenid/marty-credentials-verification''),
         (''digest'', JStr ''sha256:fcec33e259c2d7856606f434e5c9830e392e820a548ab7a6ff4bd4afb3395b3b'')]),
      (''sbom'', JObj [(''asset'', JStr ''marty-credentials-verification.spdx.json''),
         (''digest'', JStr ''sha256:0eda6aecc2791e9bfa5fff5c47f0cbd98fdffdacf3594ed06041b83e71c6b91d'')])]"

definition rejected_rust_pin :: json where
  "rejected_rust_pin = JObj
     [(''schema'', JStr rust_pin_schema), (''state'', JStr ''ineligible''), (''repository'', JStr rust_repository),
      (''release_tag'', JStr ''v1.1.208''), (''version'', JStr ''1.1.208''),
      (''commit'', JStr ''7c8fa31500acd8f2ec589781232c444fe81dd22e''), (''source_ref'', JStr ''refs/tags/v1.1.208''),
      (''image'', JObj [(''uri'', JStr rust_image_uri),
         (''digest'', JStr ''sha256:ec38eda3dacb3e2f86238f6dd35e3485dd3689a5c76ec13fe896136826db3ff5'')]),
      (''sbom'', JObj [(''asset'', JStr ''marty-ui-services-sbom.cdx.json''),
         (''digest'', JStr ''sha256:aa898add22bd0e5e13e7e5fc6a93a35dffda44794855a9757f2ec16aca30d198'')]),
      (''expected_failure'', known_failure)]"

section \<open>Commands and the harness\<close>

type_synonym 'w command = "string list \<Rightarrow> ('w, int \<times> string \<times> string) io"

definition run :: "'w command \<Rightarrow> string list \<Rightarrow> string \<Rightarrow> ('w, string) io" where
  "run cmd args label = bindIO (tryIO (cmd args) (\<lambda>e. raiseIO
       (if is_OSError e \<or> e = TimeoutExpired then RuntimeError (label @ '' could not complete'') else e))) (\<lambda>(code, out, err).
     if code \<noteq> 0 then raiseIO (RuntimeError (label @ '' failed with exit code '' @ int_str code)) else retIO (strip out))"

definition hardened_harness_floor :: string where
  "hardened_harness_floor = ''f0062b4e48ea1a7a489d2576bcea0e5d1fce484b''"

text \<open>\<open>script\<close> is the content of the script itself, which the code digests in chunks.\<close>

definition harness_subject :: "'w command \<Rightarrow> string \<Rightarrow> bytes \<Rightarrow> ('w, json) io" where
  "harness_subject cmd root script = (let git = (\<lambda>args label. run cmd ([''git'', ''-C'', root] @ args) label) in
     bindIO (git [''diff'', ''--quiet'', ''--ignore-submodules'', ''--''] ''verify clean verification harness worktree'') (\<lambda>_.
     bindIO (git [''diff'', ''--cached'', ''--quiet'', ''--ignore-submodules'', ''--''] ''verify clean verification harness index'') (\<lambda>_.
     bindIO (git [''rev-parse'', ''HEAD''] ''resolve verification harness commit'') (\<lambda>commit.
     bindIO (liftIO (require (fullmatch commit_rx commit) ''verification harness commit changed'')) (\<lambda>_.
     bindIO (git [''merge-base'', ''--is-ancestor'', hardened_harness_floor, commit] ''verify hardened harness ancestry'') (\<lambda>_.
     retIO (JObj [(''repository'', JStr ''ElevenID/marty-integration-tests''), (''commit'', JStr commit),
       (''hardened_floor'', JStr hardened_harness_floor),
       (''script'', JObj [(''path'', JStr ''scripts/credentials_verifier_artifact.py''),
         (''digest'', JStr (sha_digest script))])])))))))"

section \<open>The evidence a run leaves\<close>

definition session_selection :: "string \<Rightarrow> int \<Rightarrow> json result" where
  "session_selection reason resampled = bindE (require (0 \<le> resampled) ''safe session resample count was negative'') (\<lambda>_.
     ret (JObj [(''reason'', JStr reason), (''resampled_unsafe_ids'', JInt resampled)]))"

definition safe_session_resample_reason :: "json \<Rightarrow> string option" where
  "safe_session_resample_reason pin =
     (if py_eq pin frozen_legacy_pin then Some ''frozen_python_v0.1.71_invalid_leading_identifier''
      else if py_eq pin rejected_rust_pin then Some ''rejected_rust_v1.1.208_invalid_leading_identifier''
      else None)"

definition resample_reason :: "json \<Rightarrow> string" where
  "resample_reason pin = (case safe_session_resample_reason pin of None \<Rightarrow> ''not_allowlisted_no_resampling'' | Some r \<Rightarrow> r)"

record run_outcome =
  completed :: "string list"
  differences :: "string list"
  resampled :: int
  resolver_requests :: int
  started :: string
  ended :: string

definition evidence_schema_of :: "json \<Rightarrow> artifact_target \<Rightarrow> string" where
  "evidence_schema_of schema target =
     (if schema = JStr candidate_pin_schema then candidate_evidence_schema
      else if schema = JStr transaction_pin_schema then transaction_evidence_schema else evidence_schema target)"

text \<open>\<open>differences\<close> is a set in the code: a list without repetitions here.\<close>

definition run_evidence :: "json \<Rightarrow> json \<Rightarrow> run_outcome \<Rightarrow> json result" where
  "run_evidence pin harness o' = bindE (target_of pin) (\<lambda>target. bindE (py_key pin ''schema'') (\<lambda>schema.
     bindE (evidence_subject pin) (\<lambda>subject. bindE (session_selection (resample_reason pin) (resampled o')) (\<lambda>selection.
     let eligible = (schema = JStr transaction_pin_schema \<and> positive_oid4vp_check \<in> set (completed o')) in
     ret (JObj
       [(''schema'', JStr (evidence_schema_of schema target)),
        (''classification'', JStr ''ElevenID-owned artifact integration''),
        (''official_suite_invoked'', JBool False), (''official_suite_source_modified'', JBool False),
        (''status'', JStr (if known_failure_id \<in> set (differences o') then ''ineligible'' else ''passed'')),
        (''release_clearance'', JStr (if eligible then ''eligible'' else ''blocked'')),
        (''blockers'', JArr (if eligible then [] else [JStr runtime_blocker])),
        (''subject'', subject), (''harness'', harness), (''checks'', JArr (map JStr (completed o'))),
        (''safe_session_selection'', selection),
        (''documented_differences'', JArr (map JStr (sort (differences o')))),
        (''resolver_request_count'', JInt (resolver_requests o')),
        (''started_at'', JStr (started o')), (''completed_at'', JStr (ended o'))])))))"

text \<open>The verdict after the evidence is written: undocumented or known differences still raise.\<close>

definition run_verdict :: "run_outcome \<Rightarrow> unit result" where
  "run_verdict o' = bindE (require (set (differences o') \<subseteq> {privacy_difference_id, known_failure_id})
       ''artifact produced an undocumented language-neutral difference'') (\<lambda>_.
     if known_failure_id \<in> set (differences o')
     then raise (ValueError ''session transaction ID changed outside the approved compatibility correction'')
     else ret ())"

section \<open>Comparisons\<close>

definition check_set :: "json \<Rightarrow> string list result" where
  "check_set evidence = (let cs = obj_get evidence ''checks'' in bindE (checks
     [(is_list cs \<and> list_all is_str (arr_of cs), ''artifact evidence checks were invalid''),
      (distinct (arr_of cs), ''artifact evidence repeated a check'')]) (\<lambda>_. ret (map str_of (arr_of cs))))"

definition evidence_shape :: "string set" where
  "evidence_shape = {''schema'', ''classification'', ''official_suite_invoked'', ''official_suite_source_modified'', ''status'',
     ''release_clearance'', ''blockers'', ''subject'', ''harness'', ''checks'', ''safe_session_selection'',
     ''documented_differences'', ''resolver_request_count'', ''started_at'', ''completed_at''}"

definition blocked :: "json \<Rightarrow> bool" where
  "blocked e \<longleftrightarrow> obj_get e ''release_clearance'' = JStr ''blocked'' \<and> obj_get e ''blockers'' = JArr [JStr runtime_blocker]"

text \<open>The part of both loops over the two evidence documents: before and after what is special.\<close>

definition claims_checks :: "string \<Rightarrow> json \<Rightarrow> (bool \<times> string) list" where
  "claims_checks label e =
     [(obj_get e ''classification'' = JStr ''ElevenID-owned artifact integration'', label @ '' evidence classification changed''),
      (obj_get e ''official_suite_invoked'' = JBool False, label @ '' suite claim changed''),
      (obj_get e ''official_suite_source_modified'' = JBool False, label @ '' suite-source claim changed''),
      (obj_get e ''status'' = JStr ''passed'', label @ '' artifact evidence did not pass'')]"

definition time_checks :: "string \<Rightarrow> json \<Rightarrow> (bool \<times> string) list" where
  "time_checks label e = [(is_str (obj_get e ''started_at'') \<and> is_str (obj_get e ''completed_at''), label @ '' evidence timestamps changed'')]"

definition blocked_checks :: "string \<Rightarrow> json \<Rightarrow> (bool \<times> string) list" where
  "blocked_checks label e =
     [(obj_get e ''release_clearance'' = JStr ''blocked'', label @ '' evidence did not remain fail-closed''),
      (obj_get e ''blockers'' = JArr [JStr runtime_blocker], label @ '' evidence omitted the positive-runtime blocker'')]"

definition documented_only :: "json \<Rightarrow> bool" where
  "documented_only d \<longleftrightarrow> is_list d \<and> list_all is_str (arr_of d) \<and> distinct (arr_of d) \<and> set (arr_of d) = {JStr privacy_difference_id}"

definition oracle_selection_ok :: "json \<Rightarrow> bool" where
  "oracle_selection_ok s \<longleftrightarrow> is_dict s \<and> obj_keys s = {''reason'', ''resampled_unsafe_ids''}
     \<and> obj_get s ''reason'' = JStr ''frozen_python_v0.1.71_invalid_leading_identifier''
     \<and> (case obj_get s ''resampled_unsafe_ids'' of JInt i \<Rightarrow> 0 \<le> i | _ \<Rightarrow> False)"

definition no_resampling :: json where
  "no_resampling = JObj [(''reason'', JStr ''not_allowlisted_no_resampling''), (''resampled_unsafe_ids'', JInt 0)]"

text \<open>Both comparisons start alike: pins, schemas, shapes, subjects.\<close>

definition compare_identity :: "string \<Rightarrow> string \<Rightarrow> string \<Rightarrow> json \<Rightarrow> json \<Rightarrow> json \<Rightarrow> json \<Rightarrow> unit result" where
  "compare_identity label pin_s evidence_s oracle other oracle_pin other_pin = bindE (checks
     [(py_eq oracle_pin frozen_legacy_pin, ''oracle pin changed''),
      (obj_get other_pin ''schema'' = JStr pin_s, label @ '' pin changed''),
      (is_dict oracle \<and> is_dict other, ''artifact evidence must be JSON objects''),
      (obj_get oracle ''schema'' = JStr (evidence_schema legacy_target), ''oracle evidence schema changed''),
      (obj_get other ''schema'' = JStr evidence_s, label @ '' evidence schema changed''),
      (obj_keys oracle = evidence_shape, ''oracle evidence shape changed''),
      (obj_keys other = evidence_shape, label @ '' evidence shape changed'')]) (\<lambda>_.
     bindE (evidence_subject oracle_pin) (\<lambda>s.
     bindE (require (py_eq (obj_get oracle ''subject'') s) ''oracle evidence subject changed'') (\<lambda>_.
     bindE (evidence_subject other_pin) (\<lambda>s'.
     require (py_eq (obj_get other ''subject'') s') (label @ '' evidence subject changed'')))))"

definition harness_checks :: "string \<Rightarrow> json \<Rightarrow> json \<Rightarrow> json \<Rightarrow> (bool \<times> string) list" where
  "harness_checks label oracle other harness =
     [(py_eq (obj_get oracle ''harness'') harness, ''oracle evidence harness changed''),
      (py_eq (obj_get other ''harness'') harness, label @ '' evidence harness changed'')]"

definition behaviour_checks :: "string \<Rightarrow> json \<Rightarrow> json \<Rightarrow> (bool \<times> string) list" where
  "behaviour_checks label oracle other =
     [(obj_get oracle ''documented_differences'' = JArr [], ''oracle evidence contained a difference''),
      (documented_only (obj_get other ''documented_differences''), label @ '' evidence contained an undocumented difference''),
      (py_eq (obj_get other ''resolver_request_count'') (obj_get oracle ''resolver_request_count''),
        label @ '' and oracle resolver evidence counts diverged''),
      (oracle_selection_ok (obj_get oracle ''safe_session_selection''), ''oracle safe-session evidence changed''),
      (py_eq (obj_get other ''safe_session_selection'') no_resampling, label @ '' safe-session evidence changed'')]"

definition comparison_report :: "string \<Rightarrow> string \<Rightarrow> string \<Rightarrow> json list \<Rightarrow> string \<Rightarrow> string list \<Rightarrow> string list \<Rightarrow> json" where
  "comparison_report schema status clearance blockers only oracle other = JObj
     [(''schema'', JStr schema), (''status'', JStr status), (''release_clearance'', JStr clearance), (''blockers'', JArr blockers),
      (''language_neutral_checks'', JArr (map JStr (sort oracle))),
      (only, JArr (map JStr (sort (filter (\<lambda>c. c \<notin> set oracle) other)))),
      (''documented_differences'', JArr [JStr privacy_difference_id])]"

definition compare_candidate :: "json \<Rightarrow> json \<Rightarrow> json \<Rightarrow> json result" where
  "compare_candidate harness oracle candidate = bindE (checks (harness_checks ''candidate'' oracle candidate harness
       @ concat (map (\<lambda>(l, e). claims_checks l e @ blocked_checks l e @ time_checks l e) [(''oracle'', oracle), (''candidate'', candidate)])
       @ behaviour_checks ''candidate'' oracle candidate)) (\<lambda>_.
     bindE (check_set oracle) (\<lambda>oracle_checks. bindE (check_set candidate) (\<lambda>candidate_checks.
     bindE (checks
       [(set oracle_checks = set language_neutral_checks, ''frozen oracle evidence set changed''),
        (set candidate_checks = set (language_neutral_checks @ rust_only_checks), ''frozen candidate evidence set changed'')]) (\<lambda>_.
     ret (comparison_report ''elevenid.credentials-verifier-candidate-comparison/v1'' ''matched_with_runtime_blocker''
       ''blocked'' [JStr runtime_blocker] ''candidate_only_checks'' oracle_checks candidate_checks)))))"

definition compare_oracle_candidate_evidence ::
    "'w command \<Rightarrow> string \<Rightarrow> bytes \<Rightarrow> json \<Rightarrow> json \<Rightarrow> json \<Rightarrow> json \<Rightarrow> ('w, json) io" where
  "compare_oracle_candidate_evidence cmd root script oracle candidate oracle_pin candidate_pin =
     bindIO (liftIO (compare_identity ''candidate'' candidate_pin_schema candidate_evidence_schema oracle candidate oracle_pin candidate_pin)) (\<lambda>_.
     bindIO (harness_subject cmd root script) (\<lambda>harness. liftIO (compare_candidate harness oracle candidate)))"

definition compare_transaction :: "json \<Rightarrow> json \<Rightarrow> json \<Rightarrow> json result" where
  "compare_transaction harness oracle transaction = bindE (checks (harness_checks ''transaction'' oracle transaction harness
       @ concat (map (\<lambda>(l, e). claims_checks l e @ time_checks l e) [(''oracle'', oracle), (''transaction'', transaction)])
       @ [(blocked oracle, ''oracle evidence did not retain its known positive-runtime limitation''),
          (obj_get transaction ''release_clearance'' = JStr ''eligible'' \<and> obj_get transaction ''blockers'' = JArr [],
            ''transaction evidence did not earn release clearance'')]
       @ behaviour_checks ''transaction'' oracle transaction)) (\<lambda>_.
     bindE (check_set oracle) (\<lambda>oracle_checks. bindE (check_set transaction) (\<lambda>transaction_checks.
     bindE (checks
       [(set oracle_checks = set language_neutral_checks, ''frozen oracle evidence set changed''),
        (set transaction_checks = set candidate_required_checks,
         ''transaction evidence did not exercise the complete frozen gate set'')]) (\<lambda>_.
     ret (comparison_report ''elevenid.credentials-verifier-transaction-comparison/v1'' ''matched''
       ''eligible'' [] ''transaction_only_checks'' oracle_checks transaction_checks)))))"

definition compare_oracle_transaction_evidence ::
    "'w command \<Rightarrow> string \<Rightarrow> bytes \<Rightarrow> json \<Rightarrow> json \<Rightarrow> json \<Rightarrow> json \<Rightarrow> ('w, json) io" where
  "compare_oracle_transaction_evidence cmd root script oracle transaction oracle_pin transaction_pin =
     bindIO (liftIO (compare_identity ''transaction'' transaction_pin_schema transaction_evidence_schema oracle transaction
       oracle_pin transaction_pin)) (\<lambda>_.
     bindIO (harness_subject cmd root script) (\<lambda>harness. liftIO (compare_transaction harness oracle transaction)))"

text \<open>The comparison with the rejected release: its differences are listed and explained.\<close>

definition iter_set :: "json \<Rightarrow> json set result" where
  "iter_set v = bindE (py_iter v) (\<lambda>xs. if list_all set_hashable xs then ret (set xs) else raise TypeError)"

definition compare_artifact_evidence :: "json \<Rightarrow> json \<Rightarrow> json result" where
  "compare_artifact_evidence oracle candidate = bindE (py_get oracle ''status'' JNull) (\<lambda>status.
     bindE (require (status = JStr ''passed'') ''oracle artifact evidence did not pass'') (\<lambda>_.
     if \<not> is_dict candidate then raise AttributeError else bindE (checks
     [(obj_get candidate ''status'' = JStr ''expected_failure_observed'', ''candidate evidence was not the bound negative control''),
      (obj_get candidate ''failure_id'' = JStr known_failure_id, ''candidate failed for an undocumented reason'')]) (\<lambda>_.
     bindE (iter_set (obj_get_default candidate ''documented_differences'' (JArr []))) (\<lambda>ds.
     bindE (checks
       ([(ds = {JStr privacy_difference_id, JStr known_failure_id}, ''candidate evidence contained undocumented differences''),
         (obj_get oracle ''documented_differences'' = JArr [], ''oracle evidence contained a behavioral difference'')]
        @ concat (map (\<lambda>(l, e).
            [(obj_get e ''release_clearance'' = JStr ''blocked'', l @ '' evidence did not block release clearance''),
             (obj_get e ''blockers'' = JArr [JStr runtime_blocker], l @ '' evidence omitted the positive-runtime blocker'')])
          [(''oracle'', oracle), (''candidate'', candidate)]))) (\<lambda>_.
     bindE (check_set oracle) (\<lambda>oracle_checks. bindE (check_set candidate) (\<lambda>candidate_checks.
     bindE (checks
       [(set oracle_checks = set language_neutral_checks, ''oracle raw check set diverged''),
        (set candidate_checks = set (language_neutral_checks @ rust_only_checks), ''candidate raw check set diverged''),
        (py_eq (obj_get candidate ''resolver_request_count'') (obj_get oracle ''resolver_request_count''),
          ''candidate and oracle resolver evidence counts diverged'')]) (\<lambda>_.
     bindE (py_key candidate ''documented_differences'') (\<lambda>listed.
     bindE (py_iter listed) (\<lambda>names.
     bindE (foldE (\<lambda>d n. case map_of difference_details (str_of n) of
         None \<Rightarrow> raise (KeyError (str_of n)) | Some t \<Rightarrow> ret (put (str_of n) (JStr t) d)) [] names) (\<lambda>details.
     ret (JObj
       [(''schema'', JStr ''elevenid.credentials-verifier-artifact-comparison/v1''),
        (''status'', JStr ''matched_with_documented_negative_control''), (''release_clearance'', JStr ''blocked''),
        (''blockers'', JArr [JStr runtime_blocker]),
        (''language_neutral_checks'', JArr (map JStr (sort oracle_checks))),
        (''candidate_only_checks'', JArr (map JStr (sort (filter (\<lambda>c. c \<notin> set oracle_checks) candidate_checks)))),
        (''documented_differences'', listed), (''documented_difference_details'', JObj details)]))))))))))))"

end
