(* ===== verification/Artifact_Evidence_Props.thy ===== *)
theory Artifact_Evidence_Props
  imports Artifact_Evidence "HOL-Library.Multiset"
begin

text \<open>
  Release clearance: which evidence earns it, that the evidence of a candidate never does, and that
  the comparison accepts what a complete run leaves and nothing less.
\<close>

section \<open>Checks as sets\<close>

lemma check_set_Inr:
  "check_set e = Inr cs \<longleftrightarrow> obj_get e ''checks'' = JArr (map JStr cs) \<and> distinct cs"
proof -
  have "list_all is_str xs \<longleftrightarrow> (\<exists>ss. xs = map JStr ss)" for xs
    by (induction xs) (auto simp: Cons_eq_map_conv)
  then show ?thesis
    by (auto simp: check_set_def Let_def distinct_map inj_on_def comp_def)
qed

lemma same_set_sort: "distinct xs \<Longrightarrow> distinct ys \<Longrightarrow> set xs = set ys \<Longrightarrow> sort xs = sort ys"
  by (simp add: properties_for_sort set_eq_iff_mset_eq_distinct)

lemma neutral_distinct [simp]: "distinct language_neutral_checks" "distinct candidate_required_checks"
  by (simp_all add: candidate_required_checks_def language_neutral_checks_def positive_oid4vp_check_def rust_only_checks_def)

definition extra_checks :: "string list" where
  "extra_checks = [''canonical.oid4vp-positive-pass-with-claims'', ''compatibility.default-disabled-routes-absent'']"

lemma sort_extra:
  assumes "distinct tx" "set oracle = set language_neutral_checks" "set tx = set candidate_required_checks"
  shows "sort (filter (\<lambda>c. c \<notin> set oracle) tx) = extra_checks"
proof -
  have "set (filter (\<lambda>c. c \<notin> set oracle) tx) = {positive_oid4vp_check} \<union> set rust_only_checks"
    by (auto simp: assms(2,3) candidate_required_checks_def language_neutral_checks_def positive_oid4vp_check_def rust_only_checks_def)
  also have "\<dots> = set extra_checks"
    by (auto simp: extra_checks_def positive_oid4vp_check_def rust_only_checks_def)
  finally have "sort (filter (\<lambda>c. c \<notin> set oracle) tx) = sort extra_checks"
    using assms(1) by (intro same_set_sort) (simp_all add: extra_checks_def)
  also have "\<dots> = extra_checks" by code_simp
  finally show ?thesis .
qed

section \<open>Clearance\<close>

definition cleared_report :: json where
  "cleared_report = JObj
     [(''schema'', JStr ''elevenid.credentials-verifier-transaction-comparison/v1''), (''status'', JStr ''matched''),
      (''release_clearance'', JStr ''eligible''), (''blockers'', JArr []),
      (''language_neutral_checks'', JArr (map JStr (sort language_neutral_checks))),
      (''transaction_only_checks'', JArr (map JStr extra_checks)),
      (''documented_differences'', JArr [JStr ''validation.unknown-field-detail-minimized''])]"

text \<open>What one side of a transaction comparison must show, the identity and the harness apart.\<close>

definition evidence_passed :: "json \<Rightarrow> bool" where
  "evidence_passed e \<longleftrightarrow> obj_get e ''classification'' = JStr ''ElevenID-owned artifact integration''
     \<and> obj_get e ''official_suite_invoked'' = JBool False \<and> obj_get e ''official_suite_source_modified'' = JBool False
     \<and> obj_get e ''status'' = JStr ''passed'' \<and> is_str (obj_get e ''started_at'') \<and> is_str (obj_get e ''completed_at'')"

definition exercised :: "string list \<Rightarrow> json \<Rightarrow> bool" where
  "exercised required e \<longleftrightarrow> (\<exists>cs. obj_get e ''checks'' = JArr (map JStr cs) \<and> distinct cs \<and> set cs = set required)"

definition oracle_side :: "json \<Rightarrow> bool" where
  "oracle_side e \<longleftrightarrow> evidence_passed e \<and> blocked e \<and> obj_get e ''documented_differences'' = JArr []
     \<and> oracle_selection_ok (obj_get e ''safe_session_selection'') \<and> exercised language_neutral_checks e"

definition transaction_side :: "json \<Rightarrow> bool" where
  "transaction_side e \<longleftrightarrow> evidence_passed e \<and> obj_get e ''release_clearance'' = JStr ''eligible'' \<and> obj_get e ''blockers'' = JArr []
     \<and> documented_only (obj_get e ''documented_differences'')
     \<and> py_eq (obj_get e ''safe_session_selection'') no_resampling \<and> exercised candidate_required_checks e"

lemmas comparison_defs = harness_checks_def claims_checks_def time_checks_def blocked_checks_def behaviour_checks_def

lemma compare_transaction_Inr:
  "compare_transaction h oracle tx = Inr r \<longleftrightarrow> r = cleared_report
     \<and> py_eq (obj_get oracle ''harness'') h \<and> py_eq (obj_get tx ''harness'') h
     \<and> oracle_side oracle \<and> transaction_side tx
     \<and> py_eq (obj_get tx ''resolver_request_count'') (obj_get oracle ''resolver_request_count'')"
proof -
  have rep: "comparison_report ''elevenid.credentials-verifier-transaction-comparison/v1'' ''matched''
       ''eligible'' [] ''transaction_only_checks'' cs ds = cleared_report"
    if "distinct cs" "distinct ds" "set cs = set language_neutral_checks" "set ds = set candidate_required_checks" for cs ds
    using sort_extra [OF that(2-4)] same_set_sort [OF that(1) _ that(3)]
    by (simp add: comparison_report_def cleared_report_def privacy_difference_id_def)
  show ?thesis
    unfolding compare_transaction_def bindE_eq_Inr checks_Inr check_set_Inr comparison_defs oracle_side_def transaction_side_def
      evidence_passed_def exercised_def list_all_append concat.simps list.map list.pred_inject prod.case fst_conv append_Nil2
    using rep by (auto simp del: json_tests; blast)
qed

lemma compare_candidate_blocked: "isOK (compare_candidate h oracle e) \<Longrightarrow> obj_get e ''release_clearance'' = JStr ''blocked''"
  by (auto simp: isOK_iff compare_candidate_def comparison_defs simp del: json_tests)

lemma compare_identity_Inr:
  "compare_identity l ps es oracle other opin pin = Inr u \<longleftrightarrow> py_eq opin frozen_legacy_pin \<and> obj_get pin ''schema'' = JStr ps
     \<and> is_dict oracle \<and> is_dict other \<and> obj_get oracle ''schema'' = JStr (evidence_schema legacy_target)
     \<and> obj_get other ''schema'' = JStr es \<and> obj_keys oracle = evidence_shape \<and> obj_keys other = evidence_shape
     \<and> (\<exists>s. evidence_subject opin = Inr s \<and> py_eq (obj_get oracle ''subject'') s)
     \<and> (\<exists>s. evidence_subject pin = Inr s \<and> py_eq (obj_get other ''subject'') s)"
  unfolding compare_identity_def bindE_eq_Inr checks_Inr by (auto simp del: json_tests)

text \<open>
  Claim C7. Clearance is earned: the transaction comparison authorizes a release only with its one
  fixed report, for the frozen oracle pin and a transaction pin, when both evidence documents carry
  the subjects of their pins and the identity of the running harness, both passed, the oracle is
  still blocked, and the transaction's own evidence claims eligibility without blockers, counts as
  many resolver requests, and exercised exactly the complete gate set with the positive OID4VP gate
  in it. No such evidence is ever accepted as the evidence of a blocked candidate.
\<close>

theorem clearance_earned:
  "case compare_oracle_transaction_evidence cmd root script oracle tx oracle_pin pin w of
     (Inl e, w') \<Rightarrow> True
   | (Inr report, w') \<Rightarrow> report = cleared_report \<and> py_eq oracle_pin frozen_legacy_pin
       \<and> obj_get pin ''schema'' = JStr ''elevenid.credentials-verifier-transaction-pin/v1''
       \<and> (\<exists>s. evidence_subject oracle_pin = Inr s \<and> py_eq (obj_get oracle ''subject'') s)
       \<and> (\<exists>s. evidence_subject pin = Inr s \<and> py_eq (obj_get tx ''subject'') s)
       \<and> (\<exists>h. harness_subject cmd root script w = (Inr h, w')
            \<and> py_eq (obj_get oracle ''harness'') h \<and> py_eq (obj_get tx ''harness'') h)
       \<and> obj_get oracle ''status'' = JStr ''passed'' \<and> obj_get tx ''status'' = JStr ''passed''
       \<and> obj_get oracle ''release_clearance'' = JStr ''blocked''
       \<and> obj_get tx ''release_clearance'' = JStr ''eligible'' \<and> obj_get tx ''blockers'' = JArr []
       \<and> py_eq (obj_get tx ''resolver_request_count'') (obj_get oracle ''resolver_request_count'')
       \<and> set (arr_of (obj_get tx ''checks'')) = JStr ` ({''canonical.oid4vp-positive-pass-with-claims'',
            ''compatibility.default-disabled-routes-absent''} \<union> set language_neutral_checks)
       \<and> \<not> isOK (compare_candidate h' oracle' tx)"
proof -
  obtain r w' where run: "compare_oracle_transaction_evidence cmd root script oracle tx oracle_pin pin w = (r, w')"
    by (cases "compare_oracle_transaction_evidence cmd root script oracle tx oracle_pin pin w")
  show ?thesis
  proof (cases r)
    case (Inr report)
    with run obtain h where id: "compare_identity ''transaction'' transaction_pin_schema transaction_evidence_schema oracle tx oracle_pin pin = Inr ()"
      and h: "harness_subject cmd root script w = (Inr h, w')" and c: "compare_transaction h oracle tx = Inr report"
      unfolding compare_oracle_transaction_evidence_def by (auto simp: bindIO_OK)
    have tx: "transaction_side tx" and o': "oracle_side oracle" using c unfolding compare_transaction_Inr by blast+
    have req: "set candidate_required_checks = {''canonical.oid4vp-positive-pass-with-claims'',
            ''compatibility.default-disabled-routes-absent''} \<union> set language_neutral_checks"
      by (auto simp: candidate_required_checks_def positive_oid4vp_check_def rust_only_checks_def)
    from tx have "set (arr_of (obj_get tx ''checks'')) = JStr ` set candidate_required_checks"
      by (auto simp: transaction_side_def exercised_def)
    note checks = this [unfolded req]
    have not: "\<not> isOK (compare_candidate h' oracle' tx)"
      using compare_candidate_blocked tx by (fastforce simp: transaction_side_def)
    have "obj_get oracle ''status'' = JStr ''passed'' \<and> obj_get tx ''status'' = JStr ''passed''
       \<and> obj_get oracle ''release_clearance'' = JStr ''blocked''
       \<and> obj_get tx ''release_clearance'' = JStr ''eligible'' \<and> obj_get tx ''blockers'' = JArr []"
      using tx o' unfolding transaction_side_def oracle_side_def evidence_passed_def blocked_def by blast
    then show ?thesis
      unfolding run Inr prod.case sum.case
      using id [unfolded compare_identity_Inr transaction_pin_schema_def] h c [unfolded compare_transaction_Inr] checks not
      by blast
  qed (simp add: run)
qed

section \<open>What a run leaves\<close>

lemma run_evidence_fields:
  assumes "run_evidence pin h r = Inr e"
  shows "0 \<le> resampled r"
    "obj_get e ''classification'' = JStr ''ElevenID-owned artifact integration''"
    "obj_get e ''official_suite_invoked'' = JBool False" "obj_get e ''official_suite_source_modified'' = JBool False"
    "obj_get e ''status'' = JStr (if known_failure_id \<in> set (differences r) then ''ineligible'' else ''passed'')"
    "obj_get e ''release_clearance'' = JStr (if obj_get pin ''schema'' = JStr transaction_pin_schema
        \<and> positive_oid4vp_check \<in> set (completed r) then ''eligible'' else ''blocked'')"
    "obj_get e ''blockers'' = JArr (if obj_get pin ''schema'' = JStr transaction_pin_schema
        \<and> positive_oid4vp_check \<in> set (completed r) then [] else [JStr runtime_blocker])"
    "obj_get e ''harness'' = h" "obj_get e ''checks'' = JArr (map JStr (completed r))"
    "obj_get e ''safe_session_selection'' = JObj [(''reason'', JStr (resample_reason pin)), (''resampled_unsafe_ids'', JInt (resampled r))]"
    "obj_get e ''documented_differences'' = JArr (map JStr (sort (differences r)))"
    "obj_get e ''resolver_request_count'' = JInt (resolver_requests r)"
    "obj_get e ''started_at'' = JStr (started r)" "obj_get e ''completed_at'' = JStr (ended r)"
proof -
  from assms have n: "0 \<le> resampled r"
    unfolding run_evidence_def session_selection_def bindE_eq_Inr require_Inr by blast
  from assms obtain schema where "py_key pin ''schema'' = Inr schema" unfolding run_evidence_def bindE_eq_Inr by blast
  then have "py_key pin ''schema'' = Inr (obj_get pin ''schema'')" using py_key_get by metis
  with assms n show "0 \<le> resampled r"
    "obj_get e ''classification'' = JStr ''ElevenID-owned artifact integration''"
    "obj_get e ''official_suite_invoked'' = JBool False" "obj_get e ''official_suite_source_modified'' = JBool False"
    "obj_get e ''status'' = JStr (if known_failure_id \<in> set (differences r) then ''ineligible'' else ''passed'')"
    "obj_get e ''release_clearance'' = JStr (if obj_get pin ''schema'' = JStr transaction_pin_schema
        \<and> positive_oid4vp_check \<in> set (completed r) then ''eligible'' else ''blocked'')"
    "obj_get e ''blockers'' = JArr (if obj_get pin ''schema'' = JStr transaction_pin_schema
        \<and> positive_oid4vp_check \<in> set (completed r) then [] else [JStr runtime_blocker])"
    "obj_get e ''harness'' = h" "obj_get e ''checks'' = JArr (map JStr (completed r))"
    "obj_get e ''safe_session_selection'' = JObj [(''reason'', JStr (resample_reason pin)), (''resampled_unsafe_ids'', JInt (resampled r))]"
    "obj_get e ''documented_differences'' = JArr (map JStr (sort (differences r)))"
    "obj_get e ''resolver_request_count'' = JInt (resolver_requests r)"
    "obj_get e ''started_at'' = JStr (started r)" "obj_get e ''completed_at'' = JStr (ended r)"
    unfolding run_evidence_def Let_def session_selection_def bindE_eq_Inr require_Inr Inr_inject by auto
qed

lemma frozen_reason: "resample_reason frozen_legacy_pin = ''frozen_python_v0.1.71_invalid_leading_identifier''"
proof -
  have "wf_json frozen_legacy_pin" by (simp add: frozen_legacy_pin_def)
  then show ?thesis by (simp add: resample_reason_def safe_session_resample_reason_def py_eq_refl)
qed

lemma py_eq_string_field:
  assumes "py_eq p q" and "obj_get p k = JStr s"
  shows "obj_get q k = JStr s"
proof -
  from assms(2) obtain kvs where p: "p = JObj kvs" and k: "map_of kvs k = Some (JStr s)"
    by (auto simp: obj_get_def split: json.splits option.splits)
  with assms(1) obtain kws where q: "q = JObj kws"
    and all: "list_all (\<lambda>(k, v). case map_of kws k of None \<Rightarrow> False | Some v' \<Rightarrow> py_eq v v') kvs"
    by (auto split: json.splits)
  from all map_of_SomeD [OF k] have "map_of kws k = Some (JStr s)"
    by (auto simp: list_all_iff split: option.splits dest!: bspec)
  with q show ?thesis by (simp add: obj_get_JObj)
qed

lemma transaction_reason:
  assumes "obj_get pin ''schema'' = JStr transaction_pin_schema"
  shows "resample_reason pin = ''not_allowlisted_no_resampling''"
proof -
  have "\<not> py_eq pin frozen_legacy_pin" "\<not> py_eq pin rejected_rust_pin"
    using py_eq_string_field [OF _ assms] by (force simp: frozen_legacy_pin_def rejected_rust_pin_def pin_schemas)+
  then show ?thesis by (simp add: resample_reason_def safe_session_resample_reason_def)
qed

lemma strings_eq_single: "distinct xs \<and> set xs = {x} \<longleftrightarrow> xs = [x]"
  by (cases xs; cases "tl xs") auto

lemma documented_only_sorted: "documented_only (JArr (map JStr (sort ds))) \<longleftrightarrow> ds = [privacy_difference_id]"
proof -
  have "distinct (map JStr (sort ds)) \<longleftrightarrow> distinct ds" by (auto simp: distinct_map inj_on_def)
  moreover have "set (map JStr (sort ds)) = {JStr privacy_difference_id} \<longleftrightarrow> set ds = {privacy_difference_id}" by auto
  ultimately show ?thesis
    using strings_eq_single [of ds privacy_difference_id] by (simp add: documented_only_def list_all_iff)
qed

lemma sort_Nil_iff: "sort xs = [] \<longleftrightarrow> xs = []"
  by (metis set_empty set_sort)

text \<open>
  Claim C8. The comparison decides on genuine runs: given what a run of the frozen oracle and a run
  of a transaction leave under the same harness, it clears the release exactly when the oracle
  completed its language-neutral gates without a difference, the transaction completed the whole
  gate set, without sampling sessions again, and with the one documented difference, and both runs
  made the same number of resolver requests.
\<close>

theorem genuine_runs_cleared:
  "case (run_evidence frozen_legacy_pin h r1, run_evidence pin h r2) of
     (Inr oracle, Inr tx) \<Rightarrow>
       if obj_get pin ''schema'' = JStr ''elevenid.credentials-verifier-transaction-pin/v1'' \<and> wf_json h
       then isOK (compare_transaction h oracle tx) =
         (distinct (completed r1) \<and> set (completed r1) = set language_neutral_checks \<and> differences r1 = []
          \<and> distinct (completed r2) \<and> set (completed r2) = set candidate_required_checks
          \<and> differences r2 = [''validation.unknown-field-detail-minimized''] \<and> resampled r2 = 0
          \<and> resolver_requests r1 = resolver_requests r2)
       else True
   | _ \<Rightarrow> True"
proof (cases "\<exists>oracle tx. run_evidence frozen_legacy_pin h r1 = Inr oracle \<and> run_evidence pin h r2 = Inr tx
    \<and> obj_get pin ''schema'' = JStr transaction_pin_schema \<and> wf_json h")
  case True
  then obtain "oracle" tx where runs: "run_evidence frozen_legacy_pin h r1 = Inr oracle" "run_evidence pin h r2 = Inr tx"
    and schema: "obj_get pin ''schema'' = JStr transaction_pin_schema" and h: "wf_json h" by blast
  have diff: "known_failure_id \<noteq> privacy_difference_id" by (simp add: known_failure_id_def privacy_difference_id_def)
  have pos: "positive_oid4vp_check \<in> set candidate_required_checks" by (simp add: candidate_required_checks_def)
  have frozen: "obj_get frozen_legacy_pin ''schema'' \<noteq> JStr transaction_pin_schema"
    by (simp add: frozen_legacy_pin_def pin_schemas)
  have maps: "(\<exists>cs. JArr (map JStr xs) = JArr (map JStr cs) \<and> P cs) \<longleftrightarrow> P xs" for xs P
    by (auto simp: inj_map_eq_map inj_on_def)
  note f1 = run_evidence_fields [OF runs(1)] and f2 = run_evidence_fields [OF runs(2)]
  have o': "oracle_side oracle \<longleftrightarrow> distinct (completed r1) \<and> set (completed r1) = set language_neutral_checks \<and> differences r1 = []"
    unfolding oracle_side_def evidence_passed_def blocked_def exercised_def f1(2-) frozen_reason maps oracle_selection_ok_def
    using frozen f1(1) by (auto simp: sort_Nil_iff)
  have t: "transaction_side tx \<longleftrightarrow> distinct (completed r2) \<and> set (completed r2) = set candidate_required_checks
      \<and> differences r2 = [privacy_difference_id] \<and> resampled r2 = 0"
    unfolding transaction_side_def evidence_passed_def exercised_def f2(2-) transaction_reason [OF schema] maps documented_only_sorted no_resampling_def
    using schema pos diff by auto
  have "isOK (compare_transaction h oracle tx) \<longleftrightarrow> oracle_side oracle \<and> transaction_side tx \<and> resolver_requests r1 = resolver_requests r2"
    unfolding isOK_iff compare_transaction_Inr f1(8,12) f2(8,12) using py_eq_refl [OF h] by auto
  then show ?thesis
    using runs unfolding o' t by (simp add: privacy_difference_id_def)
qed (auto simp: transaction_pin_schema_def split: sum.splits)

end
