(* ===== verification/Keyed_Loop.thy ===== *)
theory Keyed_Loop
  imports Prelude
begin

text \<open>
  The loops that walk a list, refuse an element that does not fit, a key seen before or a total
  beyond a limit, and record the rest. A client shows what one step does; the locale gives what the
  whole loop accepts and leaves.
\<close>

locale keyed_loop =
  fixes step :: "'s \<Rightarrow> 'a \<Rightarrow> 's result" and ok :: "'a \<Rightarrow> bool" and key :: "'a \<Rightarrow> 'k" and weight :: "'a \<Rightarrow> nat"
    and limit :: nat and add :: "'s \<Rightarrow> 'a \<Rightarrow> 's" and keys :: "'s \<Rightarrow> 'k set" and load :: "'s \<Rightarrow> nat"
  assumes step_Inr: "step s x = Inr s' \<longleftrightarrow> ok x \<and> key x \<notin> keys s \<and> load s + weight x \<le> limit \<and> s' = add s x"
    and keys_add: "ok x \<Longrightarrow> keys (add s x) = insert (key x) (keys s)"
    and load_add: "ok x \<Longrightarrow> load (add s x) = load s + weight x"
begin

lemma loop_Inr:
  "load s \<le> limit \<Longrightarrow> foldE step s xs = Inr t \<longleftrightarrow> list_all ok xs \<and> distinct (map key xs)
     \<and> key ` set xs \<inter> keys s = {} \<and> load s + sum_list (map weight xs) \<le> limit \<and> t = foldl add s xs"
proof (induction xs arbitrary: s)
  case Nil
  then show ?case by (auto)
next
  case (Cons x xs)
  have "foldE step s (x # xs) = Inr t \<longleftrightarrow>
      ok x \<and> key x \<notin> keys s \<and> load s + weight x \<le> limit \<and> foldE step (add s x) xs = Inr t"
    by (auto simp: step_Inr)
  also have "\<dots> \<longleftrightarrow> ok x \<and> key x \<notin> keys s \<and> load s + weight x \<le> limit \<and> list_all ok xs \<and> distinct (map key xs)
      \<and> key ` set xs \<inter> insert (key x) (keys s) = {} \<and> load s + weight x + sum_list (map weight xs) \<le> limit \<and> t = foldl add (add s x) xs"
    by (cases "ok x \<and> load s + weight x \<le> limit") (auto simp: Cons.IH keys_add load_add)
  also have "\<dots> \<longleftrightarrow> list_all ok (x # xs) \<and> distinct (map key (x # xs)) \<and> key ` set (x # xs) \<inter> keys s = {}
      \<and> load s + sum_list (map weight (x # xs)) \<le> limit \<and> t = foldl add s (x # xs)"
    by (simp add: add.assoc) auto
  finally show ?case .
qed

lemma loop_keys: "list_all ok xs \<Longrightarrow> keys (foldl add s xs) = keys s \<union> key ` set xs"
  by (induction xs arbitrary: s) (auto simp: keys_add)

lemma loop_load: "list_all ok xs \<Longrightarrow> load (foldl add s xs) = load s + sum_list (map weight xs)"
  by (induction xs arbitrary: s) (auto simp: load_add)

end

end
