(* ===== verification/Artifact_Sbom.thy ===== *)
theory Artifact_Sbom
  imports Artifact_Pin Keyed_Loop
begin

text \<open>
  \<open>validate_sbom\<close> and \<open>create_transaction_pin\<close> of \<^verbatim>\<open>scripts/credentials_verifier_artifact.py\<close>: the
  three kinds of SBOM, with the component, dependency and property loops of a candidate's
  CycloneDX document. \<open>parse\<close> stands for \<open>json.loads\<close> on bytes.
\<close>

definition max_sbom_bytes :: nat where "max_sbom_bytes = 128 * 1024 * 1024"
definition max_sbom_top_level_keys :: nat where "max_sbom_top_level_keys = 64"
definition max_sbom_components :: nat where "max_sbom_components = 100000"
definition max_sbom_dependencies :: nat where "max_sbom_dependencies = 100000"
definition max_sbom_dependency_edges_per_entry :: nat where "max_sbom_dependency_edges_per_entry = 20000"
definition max_total_sbom_dependency_edges :: nat where "max_total_sbom_dependency_edges = 100000"
definition max_sbom_properties :: nat where "max_sbom_properties = 4096"
definition max_sbom_scanner_components :: nat where "max_sbom_scanner_components = 64"

definition cyclonedx_component_types :: "string list" where
  "cyclonedx_component_types = [''application'', ''container'', ''cryptographic-asset'', ''data'', ''device'',
     ''device-driver'', ''file'', ''firmware'', ''framework'', ''library'', ''machine-learning-model'',
     ''operating-system'', ''platform'']"

definition expected_sbom_packages :: "string list" where
  "expected_sbom_packages = [''marty-rs'', ''marty-verification-py'']"

definition image_digest :: "json \<Rightarrow> json result" where
  "image_digest pin = bindE (py_key pin ''image'') (\<lambda>img. py_key img ''digest'')"

definition not_bound :: string where
  "not_bound = ''verification SBOM root is not bound to the pinned image digest''"

section \<open>SPDX\<close>

definition validate_spdx :: "json \<Rightarrow> json \<Rightarrow> unit result" where
  "validate_spdx pin v = bindE (checks
     [(obj_get v ''spdxVersion'' = JStr ''SPDX-2.3'', ''verification SBOM must use SPDX 2.3''),
      (obj_get v ''name'' = JStr (image_uri legacy_target), ''verification SBOM describes an unexpected image''),
      (is_list (obj_get v ''packages''), ''verification SBOM packages are required'')]) (\<lambda>_.
     let packages = filter is_dict (arr_of (obj_get v ''packages''));
         roots = filter (\<lambda>p. obj_get p ''name'' = JStr (image_uri legacy_target)) packages in
     bindE (require (length roots = 1) ''verification SBOM must contain exactly one image root package'') (\<lambda>_.
     bindE (image_digest pin) (\<lambda>d. checks
       [(py_eq (obj_get (hd roots) ''versionInfo'') d, not_bound),
        (set expected_sbom_packages \<subseteq> (\<lambda>p. py_str (obj_get p ''name'')) ` set packages,
         ''verification SBOM is missing required native Marty packages'')])))"

section \<open>CycloneDX of a candidate\<close>

text \<open>One component: the references seen so far, and this one's.\<close>

definition component_step :: "string set \<Rightarrow> json \<Rightarrow> string set result" where
  "component_step refs item = bindE (require (is_dict item) ''candidate SBOM component changed'') (\<lambda>_.
     let reference = obj_get item ''bom-ref'' in
     if \<not> set_hashable (obj_get item ''type'') then raise TypeError
     else bindE (checks
       [(obj_get item ''type'' \<in> JStr ` set cyclonedx_component_types, ''candidate SBOM component type changed''),
        (is_str (obj_get item ''name'') \<and> strip (str_of (obj_get item ''name'')) \<noteq> [], ''candidate SBOM component name is missing''),
        (is_str reference \<and> str_of reference \<noteq> [], ''candidate SBOM component reference is missing''),
        (str_of reference \<notin> refs, ''candidate SBOM component reference is duplicated'')]) (\<lambda>_.
       ret (insert (str_of reference) refs)))"

definition scanned_by_syft :: "json \<Rightarrow> bool" where
  "scanned_by_syft tools = (is_list (obj_get tools ''components'')
     \<and> length (arr_of (obj_get tools ''components'')) \<le> max_sbom_scanner_components
     \<and> list_ex (\<lambda>tool. is_dict tool \<and> obj_get tool ''name'' = JStr ''syft'') (arr_of (obj_get tools ''components'')))"

record dependency_state =
  dep_roots :: "string set"
  dep_edges :: nat

definition dependency_step :: "string set \<Rightarrow> dependency_state \<Rightarrow> json \<Rightarrow> dependency_state result" where
  "dependency_step all st dependency = (let reference = obj_get dependency ''ref''; depends = obj_get dependency ''dependsOn'';
       edges = arr_of depends in
     bindE (checks
       [(is_dict dependency, ''candidate SBOM dependency changed''),
        (is_str reference \<and> str_of reference \<in> all \<and> str_of reference \<notin> dep_roots st, ''candidate SBOM dependency reference changed''),
        (is_list depends, ''candidate SBOM dependency edge changed''),
        (length edges \<le> max_sbom_dependency_edges_per_entry, ''candidate SBOM dependency fan-out is too large''),
        (list_all (\<lambda>e. is_str e \<and> str_of e \<in> all) edges, ''candidate SBOM dependency edge changed''),
        (distinct edges, ''candidate SBOM dependency edge is duplicated''),
        (dep_edges st + length edges \<le> max_total_sbom_dependency_edges, ''candidate SBOM aggregate dependency edges are too large'')])
     (\<lambda>_. ret \<lparr>dep_roots = insert (str_of reference) (dep_roots st), dep_edges = dep_edges st + length edges\<rparr>))"

definition property_step :: "(string \<times> string) list \<Rightarrow> json \<Rightarrow> (string \<times> string) list result" where
  "property_step values item = (let n = obj_get item ''name''; v = obj_get item ''value'' in bindE (checks
     [(is_dict item, ''candidate SBOM image property changed''),
      (is_str n \<and> is_str v, ''candidate SBOM image property changed''),
      (str_of n \<notin> fst ` set values, ''candidate SBOM image property is duplicated'')]) (\<lambda>_.
     ret (put (str_of n) (str_of v) values)))"

text \<open>The labels the image must carry: its source, revision and version.\<close>

definition expected_labels :: "json \<Rightarrow> (string \<times> json) list result" where
  "expected_labels pin = bindE (py_key pin ''commit'') (\<lambda>commit. bindE (py_key pin ''version'') (\<lambda>version. ret
     [(''syft:image:labels:org.opencontainers.image.source'', JStr ''https://github.com/ElevenID/marty-ui''),
      (''syft:image:labels:org.opencontainers.image.revision'', commit),
      (''syft:image:labels:org.opencontainers.image.version'', version)]))"

definition contradictory_keys :: "string set" where
  "contradictory_keys = {''purl'', ''cpe'', ''hashes'', ''properties'', ''swid''}"

text \<open>The root component: its references are checked against those of the other components.\<close>

definition validate_root :: "json \<Rightarrow> string set \<Rightarrow> json \<Rightarrow> unit result" where
  "validate_root pin refs component = bindE (checks
     [(is_dict component, ''verification SBOM image component is required''),
      (obj_get component ''type'' = JStr ''container'', ''candidate SBOM root is not a container''),
      (obj_get component ''name'' = JStr (image_uri rust_target), ''verification SBOM describes an unexpected image'')]) (\<lambda>_.
     bindE (image_digest pin) (\<lambda>d. checks
     [(py_eq (obj_get component ''version'') d, not_bound),
      (is_str (obj_get component ''bom-ref'') \<and> str_of (obj_get component ''bom-ref'') \<noteq> [], ''candidate SBOM root reference is missing''),
      (str_of (obj_get component ''bom-ref'') \<notin> refs, ''candidate SBOM root reference is duplicated'')]))"

definition validate_labels :: "json \<Rightarrow> json \<Rightarrow> unit result" where
  "validate_labels pin properties = bindE (require (is_list properties \<and> length (arr_of properties) \<le> max_sbom_properties)
       ''candidate SBOM image labels are missing'') (\<lambda>_.
     bindE (foldE property_step [] (arr_of properties)) (\<lambda>values.
     bindE (expected_labels pin) (\<lambda>labels.
     require (list_all (\<lambda>(n, expected). case map_of values n of None \<Rightarrow> expected = JNull | Some v \<Rightarrow> py_eq (JStr v) expected) labels)
       ''candidate SBOM image labels changed'')))"

definition validate_candidate_sbom :: "json \<Rightarrow> json \<Rightarrow> unit result" where
  "validate_candidate_sbom pin v = (let components = obj_get v ''components''; metadata = obj_get v ''metadata'';
       component = obj_get metadata ''component''; dependencies = obj_get_default v ''dependencies'' (JArr []) in
     bindE (checks
       [(length (fields_of v) \<le> max_sbom_top_level_keys, ''candidate SBOM contains too many top-level fields''),
        (obj_get v ''bomFormat'' = JStr ''CycloneDX'', ''verification SBOM must use CycloneDX''),
        (obj_get v ''specVersion'' = JStr ''1.6'', ''verification SBOM must use CycloneDX 1.6''),
        (is_list components \<and> arr_of components \<noteq> [] \<and> length (arr_of components) \<le> max_sbom_components,
         ''candidate SBOM components are missing'')]) (\<lambda>_.
     bindE (foldE component_step {} (arr_of components)) (\<lambda>refs.
     bindE (checks
       [(is_dict metadata, ''verification SBOM metadata is required''),
        (is_dict (obj_get metadata ''tools''), ''candidate SBOM scanner identity is missing''),
        (scanned_by_syft (obj_get metadata ''tools''), ''candidate SBOM was not generated by Syft'')]) (\<lambda>_.
     bindE (validate_root pin refs component) (\<lambda>_.
     bindE (require (is_list dependencies \<and> length (arr_of dependencies) \<le> max_sbom_dependencies)
       ''candidate SBOM dependencies changed'') (\<lambda>_.
     bindE (foldE (dependency_step (insert (str_of (obj_get component ''bom-ref'')) refs))
       \<lparr>dep_roots = {}, dep_edges = 0\<rparr> (arr_of dependencies)) (\<lambda>_.
     bindE (require (contradictory_keys \<inter> obj_keys component = {}) ''candidate SBOM root identity is contradictory'') (\<lambda>_.
     validate_labels pin (obj_get metadata ''properties'')))))))))"

definition validate_cyclonedx :: "json \<Rightarrow> json \<Rightarrow> unit result" where
  "validate_cyclonedx pin v = (let metadata = obj_get v ''metadata''; component = obj_get metadata ''component'' in
     bindE (checks
       [(obj_get v ''bomFormat'' = JStr ''CycloneDX'', ''verification SBOM must use CycloneDX''),
        (obj_get v ''specVersion'' = JStr ''1.6'', ''verification SBOM must use CycloneDX 1.6''),
        (is_dict metadata, ''verification SBOM metadata is required''),
        (is_dict component, ''verification SBOM image component is required''),
        (obj_get component ''name'' = JStr (image_uri rust_target), ''verification SBOM describes an unexpected image'')]) (\<lambda>_.
     bindE (image_digest pin) (\<lambda>d. require (py_eq (obj_get component ''version'') d) not_bound)))"

definition validate_sbom :: "(bytes \<Rightarrow> json result) \<Rightarrow> json \<Rightarrow> bytes \<Rightarrow> json result" where
  "validate_sbom parse pin raw = bindE (parse raw) (\<lambda>v.
     bindE (require (is_dict v) ''verification SBOM must be a JSON object'') (\<lambda>_.
     bindE (target_of pin) (\<lambda>target.
     bindE (if target = legacy_target then validate_spdx pin v
       else bindE (py_key pin ''schema'') (\<lambda>schema.
         if schema = JStr candidate_pin_schema then validate_candidate_sbom pin v else validate_cyclonedx pin v)) (\<lambda>_. ret v))))"

section \<open>A transaction pin from its SBOM\<close>

definition transaction_pin :: "string \<Rightarrow> string \<Rightarrow> string \<Rightarrow> string \<Rightarrow> bytes \<Rightarrow> json" where
  "transaction_pin transaction_id version commit digest sbom_raw = JObj
     [(''schema'', JStr transaction_pin_schema), (''state'', JStr ''transaction''),
      (''repository'', JStr rust_repository), (''transaction_id'', JStr transaction_id),
      (''version'', JStr version), (''commit'', JStr commit), (''source_ref'', JStr ''refs/heads/main''),
      (''image'', JObj [(''uri'', JStr rust_image_uri), (''digest'', JStr digest)]),
      (''sbom'', JObj [(''asset'', JStr (sbom_asset rust_target)), (''digest'', JStr (sha_digest sbom_raw))])]"

definition create_transaction_pin :: "(bytes \<Rightarrow> json result) \<Rightarrow> (bytes \<Rightarrow> json result) \<Rightarrow> disk \<Rightarrow> string \<Rightarrow> string \<Rightarrow> string
    \<Rightarrow> string \<Rightarrow> string \<Rightarrow> (nat, json) io" where
  "create_transaction_pin loads parse d transaction_id version commit digest sbom_path =
     bindIO (read_bounded_regular_file d sbom_path ''verification SBOM'' max_sbom_bytes) (\<lambda>sbom_raw.
     bindIO (liftIO (bindE (canonical_json (transaction_pin transaction_id version commit digest sbom_raw))
       (\<lambda>c. parse_pin loads c ''transaction''))) (\<lambda>pin.
     bindIO (liftIO (validate_sbom parse pin sbom_raw)) (\<lambda>_. retIO pin)))"

end
