(* ===== verification/Artifact_Sbom_Props.thy ===== *)
theory Artifact_Sbom_Props
  imports Artifact_Sbom
begin

text \<open>
  What a candidate's SBOM must be to be accepted, stated without the loops: its references name
  each component once, its dependencies stay within the document, and its root and labels are the
  pin's.
\<close>

section \<open>The loops\<close>

definition bom_ref :: "json \<Rightarrow> string" where "bom_ref x = str_of (obj_get x ''bom-ref'')"

definition sbom_component_ok :: "json \<Rightarrow> bool" where
  "sbom_component_ok x \<longleftrightarrow> is_dict x \<and> obj_get x ''type'' \<in> JStr ` set cyclonedx_component_types
     \<and> (\<exists>n. obj_get x ''name'' = JStr n \<and> strip n \<noteq> []) \<and> (\<exists>r. obj_get x ''bom-ref'' = JStr r \<and> r \<noteq> [])"

lemma component_step_Inr: "component_step s x = Inr s' \<longleftrightarrow> sbom_component_ok x \<and> bom_ref x \<notin> s \<and> s' = insert (bom_ref x) s"
  by (auto simp: component_step_def sbom_component_ok_def bom_ref_def Let_def set_hashable_def)

interpretation refs: keyed_loop component_step sbom_component_ok bom_ref "\<lambda>_. 0" 0 "\<lambda>s x. insert (bom_ref x) s" id "\<lambda>_. 0"
  by unfold_locales (auto simp: component_step_Inr)

definition dep_ref :: "json \<Rightarrow> string" where "dep_ref x = str_of (obj_get x ''ref'')"
definition dep_targets :: "json \<Rightarrow> json list" where "dep_targets x = arr_of (obj_get x ''dependsOn'')"

definition dependency_ok :: "string set \<Rightarrow> json \<Rightarrow> bool" where
  "dependency_ok all x \<longleftrightarrow> is_dict x \<and> is_str (obj_get x ''ref'') \<and> dep_ref x \<in> all \<and> is_list (obj_get x ''dependsOn'')
     \<and> length (dep_targets x) \<le> 20000 \<and> set (dep_targets x) \<subseteq> JStr ` all \<and> distinct (dep_targets x)"

lemma str_members: "list_all (\<lambda>e. is_str e \<and> str_of e \<in> A) es \<longleftrightarrow> set es \<subseteq> JStr ` A"
  by (induction es) auto

lemma dependency_step_Inr:
  "dependency_step all st x = Inr st' \<longleftrightarrow> dependency_ok all x \<and> dep_ref x \<notin> dep_roots st
     \<and> dep_edges st + length (dep_targets x) \<le> max_total_sbom_dependency_edges
     \<and> st' = \<lparr>dep_roots = insert (dep_ref x) (dep_roots st), dep_edges = dep_edges st + length (dep_targets x)\<rparr>"
  unfolding dependency_step_def Let_def bindE_eq_Inr checks_Inr str_members dependency_ok_def
    dep_ref_def [symmetric] dep_targets_def [symmetric] list.pred_inject fst_conv max_sbom_dependency_edges_per_entry_def
  by auto

interpretation deps: keyed_loop "dependency_step all" "dependency_ok all" dep_ref "\<lambda>x. length (dep_targets x)"
    max_total_sbom_dependency_edges
    "\<lambda>st x. \<lparr>dep_roots = insert (dep_ref x) (dep_roots st), dep_edges = dep_edges st + length (dep_targets x)\<rparr>"
    dep_roots dep_edges for all
  by unfold_locales (auto simp: dependency_step_Inr)

definition property_pair :: "json \<Rightarrow> string \<times> string" where
  "property_pair x = (str_of (obj_get x ''name''), str_of (obj_get x ''value''))"

definition property_ok :: "json \<Rightarrow> bool" where
  "property_ok x \<longleftrightarrow> is_dict x \<and> is_str (obj_get x ''name'') \<and> is_str (obj_get x ''value'')"

lemma property_step_Inr:
  "property_step vs x = Inr vs' \<longleftrightarrow> property_ok x \<and> fst (property_pair x) \<notin> fst ` set vs \<and> vs' = vs @ [property_pair x]"
  unfolding property_step_def Let_def bindE_eq_Inr checks_Inr property_ok_def property_pair_def
  by (auto simp: put_fresh)

interpretation labels: keyed_loop property_step property_ok "fst \<circ> property_pair" "\<lambda>_. 0" 0
    "\<lambda>vs x. vs @ [property_pair x]" "\<lambda>vs. fst ` set vs" "\<lambda>_. 0"
  by unfold_locales (auto simp: property_step_Inr)

lemma foldl_snoc: "foldl (\<lambda>vs x. vs @ [f x]) vs xs = vs @ map f xs"
  by (induction xs arbitrary: vs) auto

lemma properties_Inr:
  "foldE property_step [] xs = Inr vs \<longleftrightarrow> list_all property_ok xs \<and> distinct (map (fst \<circ> property_pair) xs) \<and> vs = map property_pair xs"
  using labels.loop_Inr [of "[]" xs vs] by (simp add: foldl_snoc)

lemma components_Inr:
  "foldE component_step {} xs = Inr s \<longleftrightarrow> list_all sbom_component_ok xs \<and> distinct (map bom_ref xs) \<and> s = bom_ref ` set xs"
proof -
  have "list_all sbom_component_ok xs \<Longrightarrow> foldl (\<lambda>s x. insert (bom_ref x) s) {} xs = bom_ref ` set xs"
    using refs.loop_keys [of xs "{}"] by simp
  then show ?thesis using refs.loop_Inr [of "{}" xs s] by auto
qed

lemma dependencies_Inr:
  "(\<exists>st. foldE (dependency_step all) \<lparr>dep_roots = {}, dep_edges = 0\<rparr> xs = Inr st) \<longleftrightarrow> list_all (dependency_ok all) xs
     \<and> distinct (map dep_ref xs) \<and> sum_list (map (length \<circ> dep_targets) xs) \<le> max_total_sbom_dependency_edges"
  using deps.loop_Inr [of "\<lparr>dep_roots = {}, dep_edges = 0\<rparr>" all xs] by (simp add: comp_def)

section \<open>The document\<close>

definition label_ok :: "(string \<times> string) list \<Rightarrow> string \<Rightarrow> json \<Rightarrow> bool" where
  "label_ok vs n e \<longleftrightarrow> (case map_of vs n of None \<Rightarrow> e = JNull | Some v \<Rightarrow> e = JStr v)"

lemma py_eq_str_left: "py_eq (JStr s) e \<longleftrightarrow> e = JStr s"
  by simp

lemma validate_labels_Inr:
  "validate_labels pin ps = Inr u \<longleftrightarrow> is_list ps \<and> length (arr_of ps) \<le> 4096 \<and> list_all property_ok (arr_of ps)
     \<and> distinct (map fst (map property_pair (arr_of ps)))
     \<and> (\<exists>commit version. py_key pin ''commit'' = Inr commit \<and> py_key pin ''version'' = Inr version
       \<and> label_ok (map property_pair (arr_of ps)) ''syft:image:labels:org.opencontainers.image.source'' (JStr ''https://github.com/ElevenID/marty-ui'')
       \<and> label_ok (map property_pair (arr_of ps)) ''syft:image:labels:org.opencontainers.image.revision'' commit
       \<and> label_ok (map property_pair (arr_of ps)) ''syft:image:labels:org.opencontainers.image.version'' version)"
  unfolding validate_labels_def expected_labels_def bindE_eq_Inr require_Inr properties_Inr max_sbom_properties_def
    label_ok_def py_eq_str_left Inr_inject
  by (cases ps) (auto simp del: py_key_Inr)

lemma validate_root_Inr:
  "validate_root pin refs c = Inr u \<longleftrightarrow> (\<exists>d. image_digest pin = Inr d \<and> is_dict c \<and> obj_get c ''type'' = JStr ''container''
     \<and> obj_get c ''name'' = JStr (image_uri rust_target) \<and> py_eq (obj_get c ''version'') d
     \<and> (\<exists>r. obj_get c ''bom-ref'' = JStr r \<and> r \<noteq> []) \<and> bom_ref c \<notin> refs)"
  unfolding validate_root_def bindE_eq_Inr checks_Inr by (auto simp: bom_ref_def)

text \<open>What a candidate's SBOM has to say, stated on the document.\<close>

definition sbom_describes :: "json \<Rightarrow> json \<Rightarrow> bool" where
  "sbom_describes pin v \<longleftrightarrow>
     (let metadata = obj_get v ''metadata''; root = obj_get metadata ''component'';
        components = obj_get v ''components''; xs = arr_of components;
        dependencies = obj_get_default v ''dependencies'' (JArr []); ds = arr_of dependencies;
        properties = obj_get metadata ''properties''; ps = arr_of properties; labels = map property_pair ps;
        all = insert (bom_ref root) (bom_ref ` set xs) in
      length (fields_of v) \<le> 64 \<and> obj_get v ''bomFormat'' = JStr ''CycloneDX'' \<and> obj_get v ''specVersion'' = JStr ''1.6''
      \<and> is_list components \<and> xs \<noteq> [] \<and> length xs \<le> 100000
      \<and> list_all sbom_component_ok xs \<and> distinct (map bom_ref xs)
      \<and> scanned_by_syft (obj_get metadata ''tools'')
      \<and> obj_get root ''type'' = JStr ''container'' \<and> obj_get root ''name'' = JStr ''ghcr.io/elevenid/marty-ui-oss/services''
      \<and> (\<exists>d. image_digest pin = Inr d \<and> py_eq (obj_get root ''version'') d)
      \<and> (\<exists>r. obj_get root ''bom-ref'' = JStr r \<and> r \<noteq> []) \<and> bom_ref root \<notin> bom_ref ` set xs
      \<and> is_list dependencies \<and> length ds \<le> 100000
      \<and> list_all (dependency_ok all) ds \<and> distinct (map dep_ref ds)
      \<and> sum_list (map (length \<circ> dep_targets) ds) \<le> 100000
      \<and> obj_keys root \<inter> {''purl'', ''cpe'', ''hashes'', ''properties'', ''swid''} = {}
      \<and> is_list properties \<and> length ps \<le> 4096 \<and> list_all property_ok ps \<and> distinct (map fst labels)
      \<and> (\<exists>commit version. py_key pin ''commit'' = Inr commit \<and> py_key pin ''version'' = Inr version
        \<and> label_ok labels ''syft:image:labels:org.opencontainers.image.source'' (JStr ''https://github.com/ElevenID/marty-ui'')
        \<and> label_ok labels ''syft:image:labels:org.opencontainers.image.revision'' commit
        \<and> label_ok labels ''syft:image:labels:org.opencontainers.image.version'' version))"

lemma candidate_sbom_describes: "validate_candidate_sbom pin v = Inr () \<longleftrightarrow> sbom_describes pin v"
proof -
  let ?m = "obj_get v ''metadata''"
  let ?root = "obj_get ?m ''component''"
  have root: "obj_get ?root ''type'' = JStr t \<Longrightarrow> is_dict ?m \<and> is_dict ?root" for t
    using is_dict_get [of ?m "''component''"] is_dict_get [of ?root "''type''"]
    by (cases ?root) (simp_all del: json_tests(2-6))
  have tools: "scanned_by_syft (obj_get ?m ''tools'') \<Longrightarrow> is_dict (obj_get ?m ''tools'')"
    using is_dict_get [of "obj_get ?m ''tools''" "''components''"] by (auto simp: scanned_by_syft_def)
  have deps: "(\<exists>st. foldE (dependency_step all) \<lparr>dep_roots = {}, dep_edges = 0\<rparr> xs = Inr st \<and> P) \<longleftrightarrow>
      (list_all (dependency_ok all) xs \<and> distinct (map dep_ref xs)
        \<and> sum_list (map (length \<circ> dep_targets) xs) \<le> max_total_sbom_dependency_edges) \<and> P" for all xs P
    using dependencies_Inr [of all xs] by blast
  have limits: "max_sbom_top_level_keys = 64" "max_sbom_components = 100000" "max_sbom_dependencies = 100000"
    "max_total_sbom_dependency_edges = 100000" "image_uri rust_target = ''ghcr.io/elevenid/marty-ui-oss/services''"
    "contradictory_keys \<inter> A = A \<inter> {''purl'', ''cpe'', ''hashes'', ''properties'', ''swid''}" for A
    by (auto simp: max_sbom_top_level_keys_def max_sbom_components_def max_sbom_dependencies_def max_total_sbom_dependency_edges_def
      rust_target_def rust_image_uri_def contradictory_keys_def)
  show ?thesis
    unfolding sbom_describes_def validate_candidate_sbom_def Let_def bindE_eq_Inr checks_Inr require_Inr deps components_Inr validate_root_Inr
      validate_labels_Inr bom_ref_def [symmetric] list.pred_inject fst_conv limits
    apply (simp only: ex_simps simp_thms conj_assoc)
    apply (rule iffI)
     apply (elim conjE exE, intro conjI; (assumption | blast))
    apply (elim conjE exE, frule root, frule tools, elim conjE)
    apply (intro conjI exI; (assumption | rule refl | simp only: list.pred_inject))
    done
qed

text \<open>
  Claim C10. A candidate's SBOM is accepted exactly when: it is CycloneDX 1.6 with at most 64 top
  level fields and up to 100000 components, each well formed and with a reference of its own; Syft
  is among its scanners; its root is the container image at the pinned digest, with a reference
  that is no component's and no second identity; every dependency starts at a known reference,
  once, and points to distinct known references, within the edge limits; and its properties are
  unique and carry the source, the commit and the version of the pin.
\<close>

theorem candidate_sbom_exact:
  "validate_candidate_sbom pin v = Inr () \<longleftrightarrow>
     (let metadata = obj_get v ''metadata''; root = obj_get metadata ''component'';
        components = obj_get v ''components''; xs = arr_of components;
        dependencies = obj_get_default v ''dependencies'' (JArr []); ds = arr_of dependencies;
        properties = obj_get metadata ''properties''; ps = arr_of properties; labels = map property_pair ps;
        all = insert (bom_ref root) (bom_ref ` set xs) in
      length (fields_of v) \<le> 64 \<and> obj_get v ''bomFormat'' = JStr ''CycloneDX'' \<and> obj_get v ''specVersion'' = JStr ''1.6''
      \<and> is_list components \<and> xs \<noteq> [] \<and> length xs \<le> 100000
      \<and> list_all sbom_component_ok xs \<and> distinct (map bom_ref xs)
      \<and> scanned_by_syft (obj_get metadata ''tools'')
      \<and> obj_get root ''type'' = JStr ''container'' \<and> obj_get root ''name'' = JStr ''ghcr.io/elevenid/marty-ui-oss/services''
      \<and> (\<exists>d. image_digest pin = Inr d \<and> py_eq (obj_get root ''version'') d)
      \<and> (\<exists>r. obj_get root ''bom-ref'' = JStr r \<and> r \<noteq> []) \<and> bom_ref root \<notin> bom_ref ` set xs
      \<and> is_list dependencies \<and> length ds \<le> 100000
      \<and> list_all (dependency_ok all) ds \<and> distinct (map dep_ref ds)
      \<and> sum_list (map (length \<circ> dep_targets) ds) \<le> 100000
      \<and> obj_keys root \<inter> {''purl'', ''cpe'', ''hashes'', ''properties'', ''swid''} = {}
      \<and> is_list properties \<and> length ps \<le> 4096 \<and> list_all property_ok ps \<and> distinct (map fst labels)
      \<and> (\<exists>commit version. py_key pin ''commit'' = Inr commit \<and> py_key pin ''version'' = Inr version
        \<and> label_ok labels ''syft:image:labels:org.opencontainers.image.source'' (JStr ''https://github.com/ElevenID/marty-ui'')
        \<and> label_ok labels ''syft:image:labels:org.opencontainers.image.revision'' commit
        \<and> label_ok labels ''syft:image:labels:org.opencontainers.image.version'' version))"
  using candidate_sbom_describes unfolding sbom_describes_def .

end
