(* ===== verification/Artifact_Contract.thy ===== *)
theory Artifact_Contract
  imports Artifact_Evidence
begin

text \<open>
  The contract checks of the runtime test in \<^verbatim>\<open>scripts/credentials_verifier_artifact.py\<close>: HTTP with
  the verification service, its error, health, canonical-result and session contracts, the bounded
  creation of a session with a safe identifier, and the minimised rows of its database.
  \<open>http\<close> stands for \<open>urllib.request.urlopen\<close>: the status and the payload, of an error response
  too; \<open>fromiso\<close> for \<open>datetime.fromisoformat\<close>; \<open>parse\<close> for \<open>json.loads\<close>.
\<close>

section \<open>HTTP\<close>

record http_request =
  rq_method :: string
  rq_url :: string
  rq_body :: "bytes option"
  rq_key :: "string option"

type_synonym 'w http = "http_request \<Rightarrow> ('w, int \<times> bytes) io"

definition os_error_as :: "string \<Rightarrow> exn \<Rightarrow> exn" where
  "os_error_as m e = (if is_OSError e then RuntimeError m else e)"

definition encode_body :: "json option \<Rightarrow> bytes option result" where
  "encode_body b = (case b of None \<Rightarrow> ret None | Some v \<Rightarrow> bindE (canonical_json v) (\<lambda>c. ret (Some c)))"

definition response_value :: "(bytes \<Rightarrow> json result) \<Rightarrow> bytes \<Rightarrow> json result" where
  "response_value parse payload =
     bindE (if payload = [] then ret (JObj []) else catchE (parse payload) (\<lambda>e. raise
         (if e = JSONDecodeError then RuntimeError ''verification service returned malformed JSON'' else e))) (\<lambda>v.
     if is_dict v then ret v else raise (RuntimeError ''verification service returned a non-object response''))"

definition request_json :: "'w http \<Rightarrow> (bytes \<Rightarrow> json result) \<Rightarrow> string \<Rightarrow> string \<Rightarrow> json option \<Rightarrow> string option
    \<Rightarrow> ('w, int \<times> json) io" where
  "request_json http parse m u b key = bindIO (liftIO (encode_body b)) (\<lambda>data.
     bindIO (tryIO (http \<lparr>rq_method = m, rq_url = u, rq_body = data, rq_key = key\<rparr>)
       (\<lambda>e. raiseIO (os_error_as ''verification service request failed'' e))) (\<lambda>(status, payload).
     bindIO (liftIO (response_value parse payload)) (\<lambda>v. retIO (status, v))))"

definition http_json :: "'w http \<Rightarrow> (bytes \<Rightarrow> json result) \<Rightarrow> string \<Rightarrow> string \<Rightarrow> json option \<Rightarrow> string option \<Rightarrow> int
    \<Rightarrow> ('w, json) io" where
  "http_json http parse m u b key expected = bindIO (request_json http parse m u b key) (\<lambda>(status, v).
     if status \<noteq> expected then raiseIO (RuntimeError (''verification service returned unexpected HTTP status for '' @ m))
     else retIO v)"

definition http_status :: "'w http \<Rightarrow> string \<Rightarrow> string \<Rightarrow> ('w, int) io" where
  "http_status http m u = bindIO (tryIO (http \<lparr>rq_method = m, rq_url = u, rq_body = None, rq_key = None\<rparr>)
       (\<lambda>e. raiseIO (os_error_as ''verification HTTP request failed'' e))) (\<lambda>(status, payload). retIO status)"

definition compatibility_operations :: "(string \<times> string) list" where
  "compatibility_operations =
     [(''GET'', ''/v1/verification/health''), (''POST'', ''/v1/verification/sessions''),
      (''GET'', ''/v1/verification/sessions/A''), (''POST'', ''/v1/verification/sessions/A/submit''),
      (''POST'', ''/v1/verification/verify''), (''POST'', ''/v1/verification/verify/vds-nc'')]"

fun routes_absent :: "'w http \<Rightarrow> string \<Rightarrow> (string \<times> string) list \<Rightarrow> ('w, unit) io" where
  "routes_absent http base [] = retIO ()"
| "routes_absent http base ((m, p) # ops) = bindIO (http_status http m (base @ p)) (\<lambda>status.
     bindIO (liftIO (require (status = 404) (''credentials compatibility route was active by default: '' @ m @ '' '' @ p)))
       (\<lambda>_. routes_absent http base ops))"

definition assert_compatibility_routes_absent :: "'w http \<Rightarrow> string \<Rightarrow> ('w, unit) io" where
  "assert_compatibility_routes_absent http base = routes_absent http base compatibility_operations"

section \<open>Responses\<close>

definition assert_error :: "json \<Rightarrow> string \<Rightarrow> unit result" where
  "assert_error v detail = require (py_eq v (JObj [(''detail'', JStr detail)])) ''verification error response contract changed''"

definition partition_submission_outcomes :: "(int \<times> json) list \<Rightarrow> (json list \<times> json list) result" where
  "partition_submission_outcomes outcomes =
     bindE (require (list_all (\<lambda>(status, v). status \<in> {200, 409}) outcomes) ''parallel submission returned an unexpected status'') (\<lambda>_.
     let accepted = map snd (filter (\<lambda>(status, v). status = 200) outcomes);
         conflicts = map snd (filter (\<lambda>(status, v). status = 409) outcomes) in
     bindE (mapE (\<lambda>c. assert_error c ''Verification session submission conflicts'') conflicts) (\<lambda>_. ret (accepted, conflicts)))"

definition last_is :: "json list \<Rightarrow> string \<Rightarrow> bool" where
  "last_is xs s = (xs \<noteq> [] \<and> last xs = JStr s)"

definition assert_extra_field_error :: "json \<Rightarrow> string \<Rightarrow> bool \<Rightarrow> string option result" where
  "assert_extra_field_error v field minimized = (let details = obj_get v ''detail''; error = hd (arr_of details) in
     if minimized \<and> details = JStr ''Request validation failed''
     then bindE (require (\<not> occurs_in field (json_dumps v)) ''minimized validation response disclosed the rejected field'')
       (\<lambda>_. ret (Some privacy_difference_id))
     else bindE (checks
       [(is_list details \<and> length (arr_of details) = 1, ''validation error shape changed''),
        (is_dict error, ''validation error entry changed''),
        (is_list (obj_get error ''loc'') \<and> last_is (arr_of (obj_get error ''loc'')) field, ''validation error field binding changed''),
        (obj_get error ''type'' = JStr ''extra_forbidden'', ''validation error category changed'')]) (\<lambda>_. ret None))"

definition backend_checks :: "string \<Rightarrow> string \<Rightarrow> string \<Rightarrow> string \<Rightarrow> string \<Rightarrow> string \<Rightarrow> json \<Rightarrow> (bool \<times> string) list" where
  "backend_checks name unavailable other version missing error backend =
     [(is_dict backend \<and> obj_get backend ''available'' = JBool True, unavailable),
      (obj_get backend ''module'' = JStr name, other),
      (fullmatch semver_rx (text_at backend ''version''), version),
      (obj_get backend ''missing_capabilities'' = JArr [], missing),
      (obj_get backend ''error'' = JNull, error)]"

definition assert_health :: "json \<Rightarrow> artifact_target \<Rightarrow> unit result" where
  "assert_health v target = (let backend = obj_get v ''native_backend'' in checks
     ((obj_get v ''status'' = JStr ''healthy'', ''verification health is not healthy'') #
      (if target = rust_target
       then (obj_get v ''service'' = JStr ''verification'', ''verification health reported the wrong service'') #
         backend_checks ''marty-verification-service'' ''Rust backend is unavailable''
           ''verification health did not report the canonical Rust service'' ''Rust verification version is invalid''
           ''Rust verification capabilities are incomplete'' ''Rust verification diagnostic reported an error'' backend
       else backend_checks ''_marty_rs'' ''native backend is unavailable''
           ''verification health reported an unexpected native module'' ''native backend version is invalid''
           ''verification image is missing required native capabilities'' ''verification native diagnostic reported an error'' backend)))"

definition assert_native_service_health :: "json \<Rightarrow> json \<Rightarrow> unit result" where
  "assert_native_service_health v pin = bindE (checks
     [(obj_keys v = {''status'', ''service'', ''backend'', ''version'', ''build_revision''}, ''native Rust verification health shape changed''),
      (obj_get v ''status'' = JStr ''healthy'', ''native Rust verification service is unhealthy''),
      (obj_get v ''service'' = JStr ''verification'', ''native Rust verification service identity changed''),
      (obj_get v ''backend'' = JStr ''rust'', ''native Rust verification backend identity changed'')]) (\<lambda>_.
     bindE (py_key pin ''version'') (\<lambda>version.
     bindE (require (py_eq (obj_get v ''version'') version) ''native Rust verification version changed'') (\<lambda>_.
     bindE (py_key pin ''commit'') (\<lambda>commit.
     require (py_eq (obj_get v ''build_revision'') commit) ''native Rust verification revision changed''))))"

section \<open>Canonical results\<close>

definition url_id_char :: "char \<Rightarrow> bool" where
  "url_id_char c = (is_alnum c \<or> c = CHR ''_'' \<or> c = CHR ''-'')"

definition scoped_rx :: "string \<Rightarrow> rx" where "scoped_rx scope = Seq (Lit scope) (Many 1 (Cls url_id_char))"

record expectation =
  ex_decision :: string
  ex_checks :: "string list"
  ex_transaction :: "string option"
  ex_passed :: "string list option"
  ex_projection :: "(string \<times> string \<times> string) list option"
  ex_digest :: "string option"
  ex_method :: "string option"

text \<open>What the keyword arguments stand for when they are left out.\<close>

definition expecting :: "string \<Rightarrow> expectation" where
  "expecting decision = \<lparr>ex_decision = decision, ex_checks = [''credential.proof'', ''issuer.trust''], ex_transaction = None,
     ex_passed = None, ex_projection = None, ex_digest = None, ex_method = None\<rparr>"

definition check_ids :: "json list \<Rightarrow> json set result" where
  "check_ids cs = (let ids = map (\<lambda>c. obj_get c ''check_id'') (filter is_dict cs) in
     if list_all set_hashable ids then ret (set ids) else raise TypeError)"

definition outcome_is :: "string \<Rightarrow> json \<Rightarrow> bool" where
  "outcome_is o' c = (obj_get c ''outcome'' = JStr o')"

definition decision_fits :: "string \<Rightarrow> json list \<Rightarrow> unit result" where
  "decision_fits decision cs =
     (if decision = ''PASS'' then require (list_all (outcome_is ''PASSED'') cs) ''PASS contained a non-passing check''
      else if decision = ''FAIL'' then require (list_ex (outcome_is ''FAILED'') cs) ''FAIL contained no failing check''
      else require (decision = ''INDETERMINATE'' \<and> \<not> list_ex (outcome_is ''FAILED'') cs) ''INDETERMINATE contained a failed check'')"

text \<open>\<open>{str(check_id): (str(outcome), str(code))}\<close>, a later check of the same id replacing an earlier one.\<close>

definition projection :: "json list \<Rightarrow> (string \<times> string \<times> string) list" where
  "projection cs = fold (\<lambda>c. put (py_str (obj_get c ''check_id'')) (py_str (obj_get c ''outcome''), py_str (obj_get c ''code'')))
     (filter is_dict cs) []"

definition transaction_checks :: "expectation \<Rightarrow> string \<Rightarrow> json \<Rightarrow> (bool \<times> string) list" where
  "transaction_checks ex message context = (case ex_transaction ex of
     None \<Rightarrow> [(fullmatch (scoped_rx ''transaction:'')
        (if truthy (obj_get context ''transaction_id'') then py_str (obj_get context ''transaction_id'') else []),
        ''canonical transaction ID is not scoped'')]
   | Some expected \<Rightarrow> [(obj_get context ''transaction_id'' = JStr expected, message)])"

definition canonical_checks :: "expectation \<Rightarrow> string \<Rightarrow> json \<Rightarrow> (bool \<times> string) list" where
  "canonical_checks ex message v = (let decision = ex_decision ex; canonical = obj_get v ''canonical_result'';
       context = obj_get canonical ''context''; cs = obj_get canonical ''checks'' in
     [(is_dict canonical, ''verification response omitted canonical_result''),
      (obj_get canonical ''decision'' = JStr decision,
       ''canonical decision was not '' @ decision @ '' (got '' @ py_str (obj_get canonical ''decision'') @ '')''),
      (obj_get v ''decision'' = JStr decision, ''legacy decision projection diverged''),
      (obj_get v ''overall_result'' = JStr decision, ''overall_result projection diverged''),
      (obj_get v ''valid'' = JBool (decision = ''PASS''), ''valid projection diverged'')]
     @ (case ex_method ex of None \<Rightarrow> [] | Some m \<Rightarrow> [(obj_get v ''verification_method'' = JStr m, ''verification method projection changed'')])
     @ [(obj_get canonical ''valid'' = JBool (decision = ''PASS''), ''canonical valid diverged''),
        (obj_get canonical ''processing_status'' = JStr ''COMPLETED'', ''canonical processing did not complete''),
        (fullmatch (scoped_rx ''verification:'') (text_at canonical ''verification_id''), ''canonical verification ID is not scoped''),
        (is_dict context, ''canonical context is missing'')]
     @ transaction_checks ex message context
     @ (case ex_digest ex of None \<Rightarrow> [] | Some d \<Rightarrow> [(obj_get canonical ''input_digest'' = JStr d, ''canonical input digest changed'')])
     @ [(is_list cs \<and> length (arr_of cs) = length (remdups (ex_checks ex)), ''canonical check count changed'')])"

definition passing_checks :: "expectation \<Rightarrow> json list \<Rightarrow> (bool \<times> string) list" where
  "passing_checks ex cs =
     (case ex_passed ex of None \<Rightarrow> [] | Some ps \<Rightarrow>
        [((\<lambda>c. obj_get c ''check_id'') ` set (filter (\<lambda>c. is_dict c \<and> outcome_is ''PASSED'' c) cs) = JStr ` set ps,
          ''canonical passing-check projection changed'')])
     @ (case ex_projection ex of None \<Rightarrow> [] | Some p \<Rightarrow>
        [(set (projection cs) = set p, ''canonical check projection changed'')])"

definition assert_canonical :: "expectation \<Rightarrow> string \<Rightarrow> json \<Rightarrow> json result" where
  "assert_canonical ex message v = (let canonical = obj_get v ''canonical_result''; cs = arr_of (obj_get canonical ''checks'') in
     bindE (checks (canonical_checks ex message v)) (\<lambda>_.
     bindE (check_ids cs) (\<lambda>ids.
     bindE (require (ids = JStr ` set (ex_checks ex)) ''canonical check floor changed'') (\<lambda>_.
     bindE (decision_fits (ex_decision ex) cs) (\<lambda>_.
     bindE (checks (passing_checks ex cs)) (\<lambda>_. ret canonical))))))"

definition oid4vp_required_checks :: "string list" where
  "oid4vp_required_checks = [''presentation.structure'', ''presentation.proof'', ''credential.proof'', ''issuer.trust'',
     ''credential.status'', ''holder.binding'', ''transaction.binding'', ''claim.constraints'']"

text \<open>
  The transaction id a session result must carry: the oracle's is the session's own, as is that of the
  rejected Rust release, which is the known difference.
\<close>

definition unscoped_rust_id :: "json \<Rightarrow> string \<Rightarrow> artifact_target \<Rightarrow> bool" where
  "unscoped_rust_id v session_id target = (let candidate = obj_get v ''canonical_result'' in
     target = rust_target \<and> obj_get (obj_get candidate ''context'') ''transaction_id'' = JStr session_id)"

definition assert_session_result :: "json \<Rightarrow> string \<Rightarrow> artifact_target \<Rightarrow> string \<Rightarrow> string list option \<Rightarrow> bool
    \<Rightarrow> string option result" where
  "assert_session_result v session_id target decision passed defer = (let known = unscoped_rust_id v session_id target in
     bindE (assert_canonical \<lparr>ex_decision = decision, ex_checks = oid4vp_required_checks,
         ex_transaction = Some (if target = legacy_target \<or> known then session_id else ''transaction:'' @ session_id),
         ex_passed = passed, ex_projection = None, ex_digest = None, ex_method = None\<rparr> ''canonical transaction ID changed'' v) (\<lambda>canonical.
     bindE (require (obj_get canonical ''verification_id'' = JStr (''verification:'' @ session_id))
       ''session verification ID is not scoped to the session'') (\<lambda>_.
     if known then if defer then ret (Some known_failure_id)
       else raise (ValueError ''session transaction ID changed outside the approved compatibility correction'')
     else ret None)))"

section \<open>Sessions\<close>

definition session_keys :: "string set" where
  "session_keys = {''id'', ''organization_id'', ''verifier_did'', ''status'', ''request_uri'', ''nonce'', ''expires_at'', ''created_at''}"

definition nonempty_str :: "json \<Rightarrow> bool" where "nonempty_str v = (is_str v \<and> str_of v \<noteq> [])"

definition timestamp_ok :: "(string \<Rightarrow> bool option) \<Rightarrow> json \<Rightarrow> string \<Rightarrow> unit result" where
  "timestamp_ok fromiso v field = bindE (require (nonempty_str (obj_get v field)) (''session '' @ field @ '' is missing'')) (\<lambda>_.
     if fromiso (replace_char (CHR ''Z'') ''+00:00'' (str_of (obj_get v field))) = None
     then raise (ValueError ''Invalid isoformat string'') else ret ())"

definition assert_session :: "(string \<Rightarrow> bool option) \<Rightarrow> string \<Rightarrow> string \<Rightarrow> bool \<Rightarrow> json \<Rightarrow> unit result" where
  "assert_session fromiso organization status nonce_present v = (let nonce = obj_get v ''nonce'' in
     bindE (checks
       [(obj_keys v = session_keys, ''session response shape changed''),
        (nonempty_str (obj_get v ''id''), ''session ID is missing''),
        (obj_get v ''organization_id'' = JStr organization, ''session organization binding changed''),
        (obj_get v ''verifier_did'' = JStr ''did:web:verifier.integration.invalid'', ''session verifier binding changed''),
        (obj_get v ''status'' = JStr status, ''session status changed''),
        (nonempty_str (obj_get v ''request_uri''), ''session request URI is missing''),
        (is_str nonce, ''session nonce is not a string''),
        (if nonce_present then 40 < length (str_of nonce) else str_of nonce = [], ''session nonce lifecycle changed'')]) (\<lambda>_.
     bindE (timestamp_ok fromiso v ''expires_at'') (\<lambda>_. timestamp_ok fromiso v ''created_at'')))"

definition safe_session_max_creations :: nat where "safe_session_max_creations = 8"

definition unsafe_id :: "json \<Rightarrow> bool" where
  "unsafe_id session = (take 1 (str_of (obj_get session ''id'')) \<in> {''-'', ''_''})"

text \<open>One creation: the request and the check of its answer.\<close>

definition create_session :: "'w http \<Rightarrow> (bytes \<Rightarrow> json result) \<Rightarrow> (string \<Rightarrow> bool option) \<Rightarrow> string \<Rightarrow> json \<Rightarrow> string \<Rightarrow> string
    \<Rightarrow> ('w, json) io" where
  "create_session http parse fromiso base b key organization =
     bindIO (http_json http parse ''POST'' (base @ ''/v1/verification/sessions'') (Some b) (Some key) 200) (\<lambda>session.
     bindIO (liftIO (assert_session fromiso organization ''pending'' True session)) (\<lambda>_. retIO session))"

text \<open>\<open>for creation in range(1, max_creations + 1)\<close>: \<open>left\<close> creations remain, \<open>made\<close> were discarded.\<close>

fun create_until_safe :: "('w, json) io \<Rightarrow> string option \<Rightarrow> nat \<Rightarrow> nat \<Rightarrow> ('w, json \<times> nat \<times> string) io" where
  "create_until_safe create reason made 0 =
     raiseIO (ValueError ''safe session creation exhausted its bounded artifact-specific resampling'')"
| "create_until_safe create reason made (Suc left) = bindIO create (\<lambda>session.
     if reason = None \<or> \<not> unsafe_id session
     then retIO (session, made, case reason of None \<Rightarrow> ''not_allowlisted_no_resampling'' | Some r \<Rightarrow> r)
     else create_until_safe create reason (Suc made) left)"

definition create_safe_session :: "'w http \<Rightarrow> (bytes \<Rightarrow> json result) \<Rightarrow> (string \<Rightarrow> bool option) \<Rightarrow> string \<Rightarrow> json \<Rightarrow> string
    \<Rightarrow> json \<Rightarrow> string \<Rightarrow> nat \<Rightarrow> ('w, json \<times> nat \<times> string) io" where
  "create_safe_session http parse fromiso base b key pin organization max_creations =
     bindIO (liftIO (require (0 < max_creations) ''safe session creation bound must be positive'')) (\<lambda>_.
     create_until_safe (create_session http parse fromiso base b key organization) (safe_session_resample_reason pin) 0 max_creations)"

section \<open>Private material and database rows\<close>

definition assert_private_material_absent :: "json \<Rightarrow> string list \<Rightarrow> unit result" where
  "assert_private_material_absent v prohibited = checks (map (\<lambda>item.
     (\<not> occurs_in item (json_dumps_sorted v), ''canonical response retained private test material'')) prohibited)"

definition vds_sensitive_sentinels :: "string list" where
  "vds_sensitive_sentinels = [''dateOfBirth'', ''dateOfExpiry'', ''dateOfIssue'', ''documentNumber'', ''gender'', ''givenNames'',
     ''issuingCountry'', ''nationality'', ''surname'', ''19900102'', ''X123456'', ''ADA'', ''EXAMPLE'']"

definition vds_private_material :: "string \<Rightarrow> string list" where
  "vds_private_material barcode = barcode # vds_sensitive_sentinels"

definition row_id_rx :: rx where "row_id_rx = Rep 32 64 (Cls url_id_char)"

definition psql :: "string \<Rightarrow> string \<Rightarrow> string list" where
  "psql postgres sql = [''docker'', ''exec'', postgres, ''psql'', ''-U'', ''postgres'', ''-d'', ''verifier'', ''-tAc'', sql]"

definition session_query :: "string \<Rightarrow> string" where
  "session_query session_id = ''SELECT json_build_object(''
     @ concat (map (\<lambda>(n, e). [squote] @ n @ [squote] @ '', '' @ e @ (if n = ''processing_expires_at'' then [] else '',''))
         [(''status'', ''lower(status)''), (''presentation_data'', ''presentation_data''), (''verified_claims'', ''verified_claims''),
          (''verification_evidence'', ''verification_evidence''), (''nonce'', ''nonce''), (''submission_sha256'', ''submission_sha256''),
          (''processing_token_sha256'', ''processing_token_sha256''), (''processing_started_at'', ''processing_started_at''),
          (''processing_expires_at'', ''processing_expires_at'')])
     @ '') FROM public.verification_sessions WHERE id='' @ [squote] @ session_id @ [squote]"

definition session_row :: "'w command \<Rightarrow> (string \<Rightarrow> json result) \<Rightarrow> string \<Rightarrow> string \<Rightarrow> ('w, json) io" where
  "session_row cmd loads postgres session_id =
     bindIO (liftIO (require (fullmatch row_id_rx session_id) ''session ID is unsafe for the persistence assertion'')) (\<lambda>_.
     bindIO (run cmd (psql postgres (session_query session_id)) ''read minimized verification session'') (\<lambda>out.
     liftIO (bindE (catchE (loads out) (\<lambda>e. raise
         (if e = JSONDecodeError then RuntimeError ''verification session row was not valid JSON'' else e))) (\<lambda>v.
       bindE (require (is_dict v) ''verification session row is missing'') (\<lambda>_. ret v)))))"

definition expire_query :: "string \<Rightarrow> string" where
  "expire_query session_id = ''UPDATE public.verification_sessions SET expires_at=clock_timestamp() - interval ''
     @ [squote] @ ''1 second'' @ [squote] @ '' WHERE id='' @ [squote] @ session_id @ [squote]"

definition expire_session :: "'w command \<Rightarrow> string \<Rightarrow> string \<Rightarrow> ('w, unit) io" where
  "expire_session cmd postgres session_id =
     bindIO (liftIO (require (fullmatch row_id_rx session_id) ''session ID is unsafe for the expiry assertion'')) (\<lambda>_.
     bindIO (run cmd (psql postgres (expire_query session_id)) ''expire verification session'') (\<lambda>out.
     liftIO (require (out = ''UPDATE 1'') ''verification session expiry fixture did not update one row'')))"

text \<open>\<open>row[k]\<close> of every field must satisfy its condition, in order.\<close>

definition row_checks :: "json \<Rightarrow> (string \<times> (json \<Rightarrow> bool) \<times> string) list \<Rightarrow> unit result" where
  "row_checks row cs = foldE (\<lambda>_ (k, P, m). bindE (py_key row k) (\<lambda>v. require (P v) m)) () cs"

definition no_claims :: "json \<Rightarrow> bool" where "no_claims v = (v = JNull \<or> v = JObj [])"

definition processing_fields :: "string list" where
  "processing_fields = [''processing_token_sha256'', ''processing_started_at'', ''processing_expires_at'']"

definition assert_terminal_row :: "json \<Rightarrow> string \<Rightarrow> string list \<Rightarrow> unit result" where
  "assert_terminal_row row presentation prohibited = (let digest = hexdigest (utf8 presentation) in
     bindE (row_checks row
       ([(''status'', \<lambda>v. v = JStr ''failed'', ''terminal database status changed''),
         (''presentation_data'', \<lambda>v. v = JNull, ''raw presentation was persisted''),
         (''verified_claims'', no_claims, ''raw verified claims were persisted''),
         (''nonce'', \<lambda>v. v = JNull, ''terminal nonce was not cleared''),
         (''submission_sha256'', \<lambda>v. v = JStr digest, ''submission digest changed'')]
        @ map (\<lambda>f. (f, \<lambda>v. v = JNull, ''terminal '' @ f @ '' was not cleared'')) processing_fields
        @ [(''verification_evidence'', \<lambda>v. occurs_in digest (json_dumps_sorted v), ''terminal evidence omitted the submission digest'')]))
     (\<lambda>_. assert_private_material_absent row prohibited))"

definition assert_terminal_row_minimized :: "'w command \<Rightarrow> (string \<Rightarrow> json result) \<Rightarrow> string \<Rightarrow> string \<Rightarrow> string \<Rightarrow> string list
    \<Rightarrow> ('w, unit) io" where
  "assert_terminal_row_minimized cmd loads postgres session_id presentation prohibited =
     bindIO (session_row cmd loads postgres session_id) (\<lambda>row. liftIO (assert_terminal_row row presentation prohibited))"

definition assert_expired_row :: "json \<Rightarrow> string list \<Rightarrow> unit result" where
  "assert_expired_row row prohibited =
     bindE (row_checks row
       ([(''status'', \<lambda>v. v = JStr ''expired'', ''expired session status was not persisted''),
         (''presentation_data'', \<lambda>v. v = JNull, ''expired session retained raw presentation''),
         (''verified_claims'', no_claims, ''expired session retained raw verified claims''),
         (''nonce'', \<lambda>v. v = JNull, ''expired session nonce was retained''),
         (''submission_sha256'', \<lambda>v. v = JNull, ''expired session retained a rejected submission digest'')]
        @ map (\<lambda>f. (f, \<lambda>v. v = JNull, ''expired session '' @ f @ '' was not cleared'')) processing_fields))
     (\<lambda>_. assert_private_material_absent row prohibited)"

definition assert_expired_row_minimized :: "'w command \<Rightarrow> (string \<Rightarrow> json result) \<Rightarrow> string \<Rightarrow> string \<Rightarrow> string list
    \<Rightarrow> ('w, unit) io" where
  "assert_expired_row_minimized cmd loads postgres session_id prohibited =
     bindIO (session_row cmd loads postgres session_id) (\<lambda>row. liftIO (assert_expired_row row prohibited))"

section \<open>Starting the service\<close>

definition service_port_of :: "'w command \<Rightarrow> string \<Rightarrow> artifact_target \<Rightarrow> ('w, int) io" where
  "service_port_of cmd container target =
     bindIO (run cmd [''docker'', ''port'', container, int_str (int (service_port target)) @ ''/tcp''] ''resolve service port'') (\<lambda>out.
     case splitlines out of [] \<Rightarrow> raiseIO IndexError
     | line # _ \<Rightarrow> liftIO (catchE (bindE (rsplit_tail (CHR '':'') line) py_int) (\<lambda>e. raise
         (if e = IndexError \<or> is_ValueError e then RuntimeError ''verification service port mapping was invalid'' else e))))"

definition migration_command :: "string \<Rightarrow> artifact_target \<Rightarrow> string \<Rightarrow> string \<Rightarrow> string list" where
  "migration_command reference target network database_url =
     [''docker'', ''run'', ''--rm'', ''--network'', network, ''-e'', ''DATABASE_URL='' @ database_url]
     @ (case service_name target of None \<Rightarrow> [] | Some n \<Rightarrow> [''-e'', ''SERVICE_NAME='' @ n])
     @ (case migration_entrypoint target of None \<Rightarrow> [] | Some e \<Rightarrow> [''--entrypoint'', e])
     @ [reference] @ migration_args target"

definition database_state :: "string \<Rightarrow> string" where
  "database_state dump = join [CHR 0x0A] (filter (\<lambda>line. \<not> startswith line (bslash # ''restrict '') \<and> \<not> startswith line (bslash # ''unrestrict ''))
     (splitlines dump))"

definition verification_database_snapshot :: "'w command \<Rightarrow> string \<Rightarrow> ('w, string) io" where
  "verification_database_snapshot cmd postgres =
     bindIO (run cmd [''docker'', ''exec'', postgres, ''pg_dump'', ''-U'', ''postgres'', ''-d'', ''verifier'', ''--no-owner'',
       ''--no-privileges'', ''--no-comments'', ''--no-security-labels''] ''snapshot verification database'') (\<lambda>dump.
     retIO (database_state dump))"

definition verification_migration_heads :: "'w command \<Rightarrow> string \<Rightarrow> ('w, string list) io" where
  "verification_migration_heads cmd postgres =
     bindIO (run cmd (psql postgres ''SELECT version_num FROM verification_service.alembic_version ORDER BY version_num'')
       ''read verification migration heads'') (\<lambda>out. retIO (filter (\<lambda>line. line \<noteq> []) (map strip (splitlines out))))"

text \<open>\<open>for _ in range(90)\<close>: a stopped container ends it, a failed request waits.\<close>

fun wait_for_health :: "'w command \<Rightarrow> 'w http \<Rightarrow> (bytes \<Rightarrow> json result) \<Rightarrow> ('w, unit) io \<Rightarrow> string \<Rightarrow> string \<Rightarrow> nat \<Rightarrow> ('w, json) io" where
  "wait_for_health cmd http parse pause base container 0 = raiseIO (RuntimeError ''verification service health timed out'')"
| "wait_for_health cmd http parse pause base container (Suc n) =
     bindIO (run cmd [''docker'', ''inspect'', ''--format'', ''{{.State.Running}}'', container] ''inspect verification service'') (\<lambda>running.
     if running \<noteq> ''true'' then raiseIO (RuntimeError ''verification service exited before becoming healthy'')
     else bindIO (tryIO (bindIO (http_json http parse ''GET'' (base @ ''/health'') None None 200) (\<lambda>v. retIO (Some v)))
         (\<lambda>e. if is_RuntimeError e then bindIO pause (\<lambda>_. retIO None) else raiseIO e)) (\<lambda>r.
       case r of Some v \<Rightarrow> retIO v | None \<Rightarrow> wait_for_health cmd http parse pause base container n))"

definition health_attempts :: nat where "health_attempts = 90"

definition start_service :: "'w command \<Rightarrow> 'w http \<Rightarrow> (bytes \<Rightarrow> json result) \<Rightarrow> ('w, unit) io \<Rightarrow> string list \<Rightarrow> string
    \<Rightarrow> artifact_target \<Rightarrow> string \<Rightarrow> bool \<Rightarrow> ('w, string) io" where
  "start_service cmd http parse pause command service target label enabled =
     bindIO (run cmd command label) (\<lambda>_.
     bindIO (service_port_of cmd service target) (\<lambda>port. let base = ''http://127.0.0.1:'' @ int_str port in
     bindIO (wait_for_health cmd http parse pause base service health_attempts) (\<lambda>health.
     if enabled
     then bindIO (liftIO (assert_health health target)) (\<lambda>_.
       bindIO (http_json http parse ''GET'' (base @ ''/v1/verification/health'') None None 200) (\<lambda>c.
       bindIO (liftIO (require (py_eq c (JObj [(''status'', JStr ''healthy'')])) ''compatibility health contract changed'')) (\<lambda>_. retIO base)))
     else bindIO (liftIO (checks
         [(target = rust_target, ''only the Rust service has a compatibility switch''),
          (obj_get health ''status'' = JStr ''healthy'', ''default-disabled service is unhealthy''),
          (is_dict (obj_get health ''components''), ''default-disabled health components changed''),
          (\<not> has_key health ''native_backend'', ''compatibility health leaked while disabled'')])) (\<lambda>_.
       bindIO (assert_compatibility_routes_absent http base) (\<lambda>_. retIO base)))))"

end
