(* ===== verification/Artifact_Contract_Props.thy ===== *)
theory Artifact_Contract_Props
  imports Artifact_Contract
begin

text \<open>
  What an accepted verification result says, and that the bounded creation of a session ends with a
  safe one whenever the service offers one in time.
\<close>

section \<open>Canonical results\<close>

lemma check_ids_Inr: "check_ids cs = Inr S \<Longrightarrow> S = (\<lambda>c. obj_get c ''check_id'') ` {c \<in> set cs. is_dict c}"
  by (auto simp: check_ids_def Let_def simp del: json_tests split: if_splits)

text \<open>As many checks as expected ids, and every id among them: each is an object and has its own.\<close>

lemma one_check_per_id:
  assumes "length cs = card T" and "(\<lambda>c. obj_get c ''check_id'') ` {c \<in> set cs. is_dict c} = T"
  shows "list_all is_dict cs \<and> distinct (map (\<lambda>c. obj_get c ''check_id'') cs)"
proof -
  let ?f = "\<lambda>c. obj_get c ''check_id''"
  let ?ds = "filter is_dict cs"
  have T: "T = ?f ` set ?ds" using assms(2) by simp
  have "card T \<le> length (map ?f ?ds)" unfolding T by (metis card_length set_map)
  then have len: "length ?ds = length cs" using assms(1) length_filter_le [of is_dict cs] by simp
  then have ds: "?ds = cs"
    by (metis filter_id_conv length_filter_less linorder_neq_iff)
  then have "list_all is_dict cs" by (metis filter_id_conv list_all_iff)
  moreover have "card (set (map ?f cs)) = length (map ?f cs)" using assms(1) T ds by simp
  then have "distinct (map ?f cs)" by (rule card_distinct)
  ultimately show ?thesis by blast
qed

lemma card_ids: "card (JStr ` set xs) = length (remdups xs)"
  by (simp add: card_image inj_on_def length_remdups_card_conv)

lemma assert_canonical_Inr:
  "assert_canonical ex message v = Inr canonical \<longleftrightarrow> canonical = obj_get v ''canonical_result''
     \<and> list_all fst (canonical_checks ex message v)
     \<and> check_ids (arr_of (obj_get canonical ''checks'')) = Inr (JStr ` set (ex_checks ex))
     \<and> decision_fits (ex_decision ex) (arr_of (obj_get canonical ''checks'')) = Inr ()
     \<and> list_all fst (passing_checks ex (arr_of (obj_get canonical ''checks'')))"
  unfolding assert_canonical_def Let_def by auto

lemma canonical_checksD:
  "list_all fst (canonical_checks ex message v) \<Longrightarrow>
     obj_get (obj_get v ''canonical_result'') ''decision'' = JStr (ex_decision ex) \<and> obj_get v ''decision'' = JStr (ex_decision ex)
     \<and> obj_get v ''overall_result'' = JStr (ex_decision ex) \<and> obj_get v ''valid'' = JBool (ex_decision ex = ''PASS'')
     \<and> obj_get (obj_get v ''canonical_result'') ''valid'' = JBool (ex_decision ex = ''PASS'')
     \<and> obj_get (obj_get v ''canonical_result'') ''processing_status'' = JStr ''COMPLETED''
     \<and> is_list (obj_get (obj_get v ''canonical_result'') ''checks'')
     \<and> length (arr_of (obj_get (obj_get v ''canonical_result'') ''checks'')) = length (remdups (ex_checks ex))"
  unfolding canonical_checks_def Let_def list_all_append list.pred_inject fst_conv by blast

text \<open>
  Claim C11. An accepted verification result is consistent: its five statements of the decision
  agree, its processing completed, its checks are objects with exactly the expected ids, each once,
  and they justify the decision: all passed for PASS, one failed for FAIL, none failed for
  INDETERMINATE, and no other decision is accepted. Expected passing checks and expected outcomes
  are those of the result.
\<close>

theorem canonical_result_consistent:
  "case assert_canonical ex message v of
     Inl e \<Rightarrow> True
   | Inr canonical \<Rightarrow> canonical = obj_get v ''canonical_result''
       \<and> obj_get canonical ''decision'' = JStr (ex_decision ex) \<and> obj_get v ''decision'' = JStr (ex_decision ex)
       \<and> obj_get v ''overall_result'' = JStr (ex_decision ex)
       \<and> obj_get v ''valid'' = JBool (ex_decision ex = ''PASS'') \<and> obj_get canonical ''valid'' = JBool (ex_decision ex = ''PASS'')
       \<and> obj_get canonical ''processing_status'' = JStr ''COMPLETED''
       \<and> (\<exists>cs. obj_get canonical ''checks'' = JArr cs \<and> list_all is_dict cs
            \<and> distinct (map (\<lambda>c. obj_get c ''check_id'') cs)
            \<and> (\<lambda>c. obj_get c ''check_id'') ` set cs = JStr ` set (ex_checks ex)
            \<and> (case ex_decision ex of d \<Rightarrow> if d = ''PASS'' then list_all (\<lambda>c. obj_get c ''outcome'' = JStr ''PASSED'') cs
                 else if d = ''FAIL'' then list_ex (\<lambda>c. obj_get c ''outcome'' = JStr ''FAILED'') cs
                 else d = ''INDETERMINATE'' \<and> list_all (\<lambda>c. obj_get c ''outcome'' \<noteq> JStr ''FAILED'') cs)
            \<and> (case ex_passed ex of None \<Rightarrow> True | Some ps \<Rightarrow>
                 (\<lambda>c. obj_get c ''check_id'') ` {c \<in> set cs. obj_get c ''outcome'' = JStr ''PASSED''} = JStr ` set ps)
            \<and> (case ex_projection ex of None \<Rightarrow> True | Some p \<Rightarrow> set (projection cs) = set p))"
proof (cases "assert_canonical ex message v")
  case (Inr canonical)
  let ?can = "obj_get v ''canonical_result''"
  define cs where "cs = arr_of (obj_get ?can ''checks'')"
  from Inr have can: "canonical = ?can" and all: "list_all fst (canonical_checks ex message v)"
    and ids: "check_ids cs = Inr (JStr ` set (ex_checks ex))" and fits: "decision_fits (ex_decision ex) cs = Inr ()"
    and rest: "list_all fst (passing_checks ex cs)"
    unfolding assert_canonical_Inr cs_def by blast+
  from canonical_checksD [OF all] have checks: "is_list (obj_get ?can ''checks'')" "length cs = length (remdups (ex_checks ex))"
    unfolding cs_def by blast+
  from check_ids_Inr [OF ids] have set: "(\<lambda>c. obj_get c ''check_id'') ` {c \<in> set cs. is_dict c} = JStr ` set (ex_checks ex)" by simp
  from one_check_per_id [OF _ this] checks(2) have each: "list_all is_dict cs" "distinct (map (\<lambda>c. obj_get c ''check_id'') cs)"
    by (simp_all only: card_ids)
  have dicts: "{c \<in> set cs. is_dict c} = set cs" using each(1) by (auto simp: list_all_iff simp del: json_tests)
  have outcome: "(case ex_decision ex of d \<Rightarrow> if d = ''PASS'' then list_all (\<lambda>c. obj_get c ''outcome'' = JStr ''PASSED'') cs
                 else if d = ''FAIL'' then list_ex (\<lambda>c. obj_get c ''outcome'' = JStr ''FAILED'') cs
                 else d = ''INDETERMINATE'' \<and> list_all (\<lambda>c. obj_get c ''outcome'' \<noteq> JStr ''FAILED'') cs)"
    using fits by (simp add: decision_fits_def outcome_is_def list_all_iff list_ex_iff split: if_splits)
  have passed: "(case ex_passed ex of None \<Rightarrow> True | Some ps \<Rightarrow>
                 (\<lambda>c. obj_get c ''check_id'') ` {c \<in> set cs. obj_get c ''outcome'' = JStr ''PASSED''} = JStr ` set ps)"
  proof -
    have "set (filter (\<lambda>c. is_dict c \<and> outcome_is ''PASSED'' c) cs) = {c \<in> set cs. obj_get c ''outcome'' = JStr ''PASSED''}"
      using each(1) by (auto simp: outcome_is_def list_all_iff simp del: json_tests)
    then show ?thesis using rest by (simp add: passing_checks_def split: option.splits)
  qed
  have "case ex_projection ex of None \<Rightarrow> True | Some p \<Rightarrow> set (projection cs) = set p"
    using rest by (simp add: passing_checks_def split: option.splits)
  moreover have "obj_get ?can ''checks'' = JArr cs" using checks(1) by (auto simp: cs_def)
  ultimately show ?thesis
    unfolding Inr sum.case can using canonical_checksD [OF all] each set [unfolded dicts] outcome passed by blast
qed simp

section \<open>Safe sessions\<close>

lemma create_until_safe_ends:
  assumes "\<And>n. create n = (Inr (session n), Suc n)" and "k < left" and "\<not> unsafe_id (session (n + k))"
  shows "\<exists>j \<le> k. create_until_safe create (Some r) made left n = (Inr (session (n + j), made + j, r), Suc (n + j))
     \<and> \<not> unsafe_id (session (n + j)) \<and> list_all (\<lambda>i. unsafe_id (session (n + i))) [0..<j]"
  using assms(2,3)
proof (induction left arbitrary: made n k)
  case (Suc left)
  show ?case
  proof (cases "unsafe_id (session n)")
    case False
    then show ?thesis
      by (intro exI [of _ 0]) (simp add: bindIO_Inr [OF assms(1)])
  next
    case True
    with Suc.prems obtain k' where k: "k = Suc k'" "k' < left" "\<not> unsafe_id (session (Suc n + k'))"
      by (cases k) auto
    from Suc.IH [OF k(2,3), of "Suc made"] obtain j where j: "j \<le> k'"
      "create_until_safe create (Some r) (Suc made) left (Suc n) = (Inr (session (Suc n + j), Suc made + j, r), Suc (Suc n + j))"
      "\<not> unsafe_id (session (Suc n + j))" "list_all (\<lambda>i. unsafe_id (session (Suc n + i))) [0..<j]" by blast
    have all: "list_all (\<lambda>i. unsafe_id (session (n + i))) [0..<Suc j]"
      using j(4) True by (simp add: upt_conv_Cons map_Suc_upt [symmetric] list.pred_map comp_def del: upt_Suc)
    show ?thesis
      by (rule exI [of _ "Suc j"]) (use j(1-3) k(1) True all in \<open>simp add: bindIO_Inr [OF assms(1)]\<close>)
  qed
qed simp

text \<open>
  Claim C29. The bounded creation of a session succeeds whenever it can: if the service answers every
  request with a valid session and one of the first creations allowed has a safe identifier, the
  first such session is returned, with the number of those discarded before it, all of them unsafe,
  and the reason of the pin; and a pin without a reason takes the very first session.
\<close>

theorem safe_session_found:
  assumes "\<And>n. create_session http parse fromiso base b key organization n = (Inr (session n), Suc n)"
    and "k < max_creations" and "\<not> unsafe_id (session (n + k))"
  shows "\<exists>j \<le> k. create_safe_session http parse fromiso base b key pin organization max_creations n
       = (Inr (session (n + j), j, resample_reason pin), Suc (n + j))
     \<and> (if safe_session_resample_reason pin = None then j = 0
        else \<not> unsafe_id (session (n + j)) \<and> list_all (\<lambda>i. unsafe_id (session (n + i))) [0..<j])"
proof (cases "safe_session_resample_reason pin")
  case None
  with assms(2) show ?thesis
    by (intro exI [of _ 0]) (cases max_creations; simp add: create_safe_session_def require_def bindIO_def assms(1) resample_reason_def)
next
  case (Some r)
  from create_until_safe_ends [of "create_session http parse fromiso base b key organization" session, OF assms, of r 0]
  obtain j where "j \<le> k" "create_until_safe (create_session http parse fromiso base b key organization) (Some r) 0 max_creations n
      = (Inr (session (n + j), j, r), Suc (n + j))" "\<not> unsafe_id (session (n + j))"
    "list_all (\<lambda>i. unsafe_id (session (n + i))) [0..<j]" by auto
  with assms(2) Some show ?thesis
    by (intro exI [of _ j]) (simp add: create_safe_session_def require_def resample_reason_def)
qed

text \<open>A service whose first two identifiers are unsafe.\<close>

definition sample_session :: "nat \<Rightarrow> json" where
  "sample_session n = JObj [(''id'', JStr (if n < 2 then ''-a'' else ''b'')), (''organization_id'', JStr ''org''),
     (''verifier_did'', JStr ''did:web:verifier.integration.invalid''), (''status'', JStr ''pending''),
     (''request_uri'', JStr ''u''), (''nonce'', JStr (replicate 41 (CHR ''n''))), (''expires_at'', JStr ''e''), (''created_at'', JStr ''c'')]"

definition sample_parse :: "bytes \<Rightarrow> json result" where
  "sample_parse b = ret (sample_session (if unat (hd b) < 2 then 0 else 2))"

lemma sample_creates:
  "create_session (\<lambda>rq n. (Inr (200, [if n < 2 then 0 else 2]), Suc n)) sample_parse (\<lambda>_. Some True) base (JObj []) key ''org'' n
     = (Inr (sample_session n), Suc n)"
  by (simp add: create_session_def http_json_def request_json_def bindIO_def tryIO_def encode_body_def canonical_json_def
    response_value_def sample_parse_def sample_session_def assert_session_def session_keys_def nonempty_str_def timestamp_ok_def
    require_def checks_def Let_def)

lemma safe_session_found_witness:
  "\<exists>j \<le> 2. create_safe_session (\<lambda>rq n. (Inr (200, [if n < 2 then 0 else 2]), Suc n)) sample_parse (\<lambda>_. Some True)
       ''http'' (JObj []) ''key'' frozen_legacy_pin ''org'' 8 0
       = (Inr (sample_session (0 + j), j, resample_reason frozen_legacy_pin), Suc (0 + j))
     \<and> (if safe_session_resample_reason frozen_legacy_pin = None then j = 0
        else \<not> unsafe_id (sample_session (0 + j)) \<and> list_all (\<lambda>i. unsafe_id (sample_session (0 + i))) [0..<j])"
  by (rule safe_session_found [OF sample_creates]) (simp_all add: unsafe_id_def sample_session_def)

end
