(* ===== verification/Artifact_Oci.thy ===== *)
theory Artifact_Oci
  imports Artifact_Pin Artifact_Tar Py_Url
begin

text \<open>
  The inspection of a candidate's OCI archive, \<open>inspect_oci_archive\<close> of
  \<^verbatim>\<open>scripts/credentials_verifier_artifact.py\<close>: the members of the archive, the descent from the
  index to the manifest, the configuration and the layers, and the demand that nothing else is in it.
  The archive is a file whose content nobody else changes. Parameters stand for the libraries:
  \<open>parse\<close> for \<open>json.loads\<close> of bytes, \<open>untar\<close> for what \<open>tarfile\<close> yields when it iterates the archive,
  \<open>gunzip\<close> for the chunks \<open>GzipFile.read\<close> returns and the exception that may end them, \<open>entries\<close> for
  the number of members \<open>tarfile\<close> streams from a layer and the exception that may end them.
\<close>

section \<open>Limits and media types\<close>

definition max_archive_bytes :: nat where "max_archive_bytes = 512 * 1024 * 1024"
definition max_archive_members :: nat where "max_archive_members = 512"
definition max_archive_regular_members :: nat where "max_archive_regular_members = 256"
definition max_layers :: nat where "max_layers = 64"
definition max_compressed_layer_bytes :: nat where "max_compressed_layer_bytes = 128 * 1024 * 1024"
definition max_total_compressed_layer_bytes :: nat where "max_total_compressed_layer_bytes = 512 * 1024 * 1024"
definition max_expanded_layer_bytes :: nat where "max_expanded_layer_bytes = 256 * 1024 * 1024"
definition max_total_expanded_layer_bytes :: nat where "max_total_expanded_layer_bytes = 1024 * 1024 * 1024"
definition max_layer_members :: nat where "max_layer_members = 20000"
definition max_total_layer_members :: nat where "max_total_layer_members = 50000"
definition max_metadata_member_bytes :: nat where "max_metadata_member_bytes = 16 * 1024 * 1024"

definition oci_manifest :: string where "oci_manifest = ''application/vnd.oci.image.manifest.v1+json''"
definition oci_index :: string where "oci_index = ''application/vnd.oci.image.index.v1+json''"
definition oci_config :: string where "oci_config = ''application/vnd.oci.image.config.v1+json''"
definition oci_gzip_layer :: string where "oci_gzip_layer = ''application/vnd.oci.image.layer.v1.tar+gzip''"
definition oci_platform_qualifier_keys :: "string set" where
  "oci_platform_qualifier_keys = {''variant'', ''os.version'', ''os.features''}"

definition linux_amd64 :: json where
  "linux_amd64 = JObj [(''architecture'', JStr ''amd64''), (''os'', JStr ''linux'')]"

text \<open>\<open>pin["image"][k]\<close>\<close>

definition pin_image :: "json \<Rightarrow> string \<Rightarrow> json result" where
  "pin_image pin k = bindE (py_key pin ''image'') (\<lambda>image. py_key image k)"

section \<open>The runtime configuration\<close>

definition env_bindings :: "string \<Rightarrow> json list \<Rightarrow> json list" where
  "env_bindings name environment = filter (\<lambda>item. is_str item \<and> startswith (str_of item) (name @ ''='')) environment"

definition env_check :: "json list \<Rightarrow> string \<Rightarrow> string \<Rightarrow> bool \<times> string" where
  "env_check environment name expected = (env_bindings name environment = [JStr (name @ ''='' @ expected)],
     ''candidate image '' @ name @ '' binding changed'')"

definition label_checks :: "json \<Rightarrow> json \<Rightarrow> json \<Rightarrow> (bool \<times> string) list" where
  "label_checks labels commit version =
     [(is_dict labels, ''candidate image labels are missing''),
      (obj_get labels ''org.opencontainers.image.source'' = JStr ''https://github.com/ElevenID/marty-ui''
       \<and> py_eq (obj_get labels ''org.opencontainers.image.revision'') commit
       \<and> py_eq (obj_get labels ''org.opencontainers.image.version'') version, ''candidate image source labels changed'')]"

definition assert_candidate_runtime_config :: "json \<Rightarrow> json \<Rightarrow> json result" where
  "assert_candidate_runtime_config config pin = (let environment = obj_get config ''Env''; labels = obj_get config ''Labels'' in
     bindE (checks [(is_dict config, ''candidate runtime config changed''),
       (is_list environment, ''candidate image environment is missing'')]) (\<lambda>_.
     bindE (py_key pin ''version'') (\<lambda>version.
     bindE (py_key pin ''commit'') (\<lambda>commit.
     bindE (checks ([env_check (arr_of environment) ''SERVICE_NAME'' ''verification'',
       env_check (arr_of environment) ''MARTY_RELEASE_VERSION'' (py_str version),
       env_check (arr_of environment) ''MARTY_UI_SHA'' (py_str commit)] @ label_checks labels commit version)) (\<lambda>_.
     ret labels)))))"

section \<open>Members\<close>

datatype member_kind = Directory | Regular | Special

record tar_member =
  tm_name :: string
  tm_kind :: member_kind
  tm_size :: nat
  tm_data :: "bytes result"

record tar_listing =
  tl_members :: "tar_member list"
  tl_end :: "exn option"

record member_state =
  ms_count :: nat
  ms_regular :: nat
  ms_names :: "string set"
  ms_dirs :: "string set"
  ms_files :: "(string \<times> tar_member) list"

definition normalized :: "string \<Rightarrow> string result" where
  "normalized n = (let name = removeprefix n ''./''; parts = (if path_root name = [] then [] else [path_root name]) @ path_parts name in
     bindE (checks [(parts \<noteq> [] \<and> hd parts \<noteq> [], ''OCI archive path changed''),
       (''..'' \<notin> set parts \<and> \<not> startswith name ''/'', ''OCI archive contains an unsafe path'')]) (\<lambda>_. ret name))"

definition member_step :: "member_state \<Rightarrow> tar_member \<Rightarrow> member_state result" where
  "member_step st m = (let st1 = st\<lparr>ms_count := Suc (ms_count st)\<rparr> in
     bindE (require (ms_count st1 \<le> max_archive_members) ''OCI archive contains too many members'') (\<lambda>_.
     bindE (normalized (tm_name m)) (\<lambda>name.
     bindE (require (name \<notin> ms_names st1) ''OCI archive contains duplicate members'') (\<lambda>_.
     let st2 = st1\<lparr>ms_names := insert name (ms_names st1)\<rparr> in
     if tm_kind m = Directory then ret (st2\<lparr>ms_dirs := insert name (ms_dirs st2)\<rparr>)
     else bindE (require (tm_kind m = Regular) ''OCI archive contains a non-regular member'') (\<lambda>_.
       let st3 = st2\<lparr>ms_regular := Suc (ms_regular st2)\<rparr> in
       bindE (require (ms_regular st3 \<le> max_archive_regular_members) ''OCI archive contains too many regular members'') (\<lambda>_.
       ret (st3\<lparr>ms_files := put name m (ms_files st3)\<rparr>)))))))"

definition no_members :: member_state where
  "no_members = \<lparr>ms_count = 0, ms_regular = 0, ms_names = {}, ms_dirs = {}, ms_files = []\<rparr>"

text \<open>The exception that ends the iteration is raised after the members before it were taken.\<close>

definition archive_members :: "tar_listing \<Rightarrow> member_state result" where
  "archive_members l = bindE (foldE member_step no_members (tl_members l)) (\<lambda>st.
     case tl_end l of None \<Rightarrow> ret st | Some e \<Rightarrow> raise e)"

section \<open>Blobs\<close>

type_synonym oci_members = "(string \<times> tar_member) list"

definition find_member :: "oci_members \<Rightarrow> string \<Rightarrow> tar_member result" where
  "find_member fs name = (case map_of fs name of
     None \<Rightarrow> raise (ValueError (''OCI archive member is missing: '' @ name)) | Some m \<Rightarrow> ret m)"

definition metadata_size_ok :: "string \<Rightarrow> tar_member \<Rightarrow> unit result" where
  "metadata_size_ok name m =
     require (tm_size m \<le> max_metadata_member_bytes) (''OCI metadata member is too large: '' @ name)"

definition read_member :: "oci_members \<Rightarrow> string \<Rightarrow> bytes result" where
  "read_member fs name = bindE (find_member fs name) (\<lambda>m.
     bindE (metadata_size_ok name m) (\<lambda>_. tm_data m))"

definition size_declared :: "json \<Rightarrow> bool" where
  "size_declared v = (is_int v \<and> (case v of JInt i \<Rightarrow> 0 \<le> i | _ \<Rightarrow> True))"

text \<open>
  The digest and the content of the blob a descriptor names, and the members reached so far. The code
  writes the content of a layer to a file and keeps that of a document.
\<close>

definition descriptor_blob :: "oci_members \<Rightarrow> string set \<Rightarrow> json \<Rightarrow> bool \<Rightarrow> (string \<times> bytes \<times> string set) result" where
  "descriptor_blob fs reach d metadata = (let size = obj_get d ''size'' in
     bindE (require_digest (obj_get d ''digest'') ''OCI descriptor digest changed'') (\<lambda>digest.
     bindE (require (size_declared size) ''OCI descriptor size changed'') (\<lambda>_.
     let algorithm = before_first (CHR '':'') digest; encoded = drop (Suc (length algorithm)) digest;
         name = ''blobs/'' @ algorithm @ ''/'' @ encoded in
     bindE (require (algorithm = ''sha256'') ''OCI descriptor algorithm changed'') (\<lambda>_.
     bindE (find_member fs name) (\<lambda>m.
     bindE (require (py_eq size (JInt (int (tm_size m)))) ''OCI descriptor size does not match its blob'') (\<lambda>_.
     bindE (if metadata then metadata_size_ok name m
            else require (tm_size m \<le> max_compressed_layer_bytes) ''OCI compressed layer is too large'') (\<lambda>_.
     bindE (tm_data m) (\<lambda>data.
     bindE (checks [(py_eq size (JInt (int (length data))), ''OCI descriptor size does not match its blob''),
       (sha_digest data = digest, ''OCI descriptor digest does not match its blob'')]) (\<lambda>_.
     ret (digest, data, insert name reach))))))))))"

definition read_descriptor :: "(bytes \<Rightarrow> json result) \<Rightarrow> oci_members \<Rightarrow> string set \<Rightarrow> json \<Rightarrow> (string \<times> json \<times> string set) result" where
  "read_descriptor parse fs reach d = bindE (descriptor_blob fs reach d True) (\<lambda>(digest, raw, reach').
     bindE (parse raw) (\<lambda>v. bindE (require (is_dict v) ''OCI descriptor blob must be a JSON object'') (\<lambda>_.
     ret (digest, v, reach'))))"

section \<open>From the index to the manifest\<close>

definition media_type_ok :: "json \<Rightarrow> string \<Rightarrow> bool" where
  "media_type_ok v t = (obj_get_default v ''mediaType'' (JStr t) = JStr t)"

definition only_one :: "json \<Rightarrow> bool" where "only_one v = (is_list v \<and> length (arr_of v) = 1)"

definition image_descriptor :: "(bytes \<Rightarrow> json result) \<Rightarrow> oci_members \<Rightarrow> json \<Rightarrow> json result" where
  "image_descriptor parse fs pin =
     bindE (bindE (read_member fs ''oci-layout'') parse) (\<lambda>layout.
     bindE (require (py_eq layout (JObj [(''imageLayoutVersion'', JStr ''1.0.0'')])) ''OCI layout version changed'') (\<lambda>_.
     bindE (bindE (read_member fs ''index.json'') parse) (\<lambda>index.
     let descriptors = obj_get index ''manifests''; d = hd (arr_of descriptors); annotations = obj_get d ''annotations'' in
     bindE (checks [(is_dict index \<and> py_eq (obj_get index ''schemaVersion'') (JInt 2), ''OCI index schema changed''),
       (media_type_ok index oci_index, ''OCI index media type changed''),
       (only_one descriptors, ''OCI archive must contain one image''),
       (is_dict d, ''OCI image descriptor changed''),
       (is_dict annotations, ''OCI archive annotations changed'')]) (\<lambda>_.
     bindE (pin_image pin ''archive_tag'') (\<lambda>tag.
     bindE (require (py_eq (obj_get annotations ''org.opencontainers.image.ref.name'') tag) ''OCI archive tag changed'') (\<lambda>_.
     bindE (candidate_archive_reference pin) (\<lambda>reference.
     bindE (require (obj_get annotations ''io.containerd.image.name'' = JStr reference) ''OCI archive image name changed'') (\<lambda>_.
     ret d))))))))"

definition platform_ok :: "json \<Rightarrow> bool \<times> string" where
  "platform_ok d = (py_eq (obj_get d ''platform'') linux_amd64, ''OCI candidate platform changed'')"

text \<open>The descriptor, the digest and the value of the manifest, through a nested index or not.\<close>

definition platform_manifest :: "(bytes \<Rightarrow> json result) \<Rightarrow> oci_members \<Rightarrow> string set \<Rightarrow> json
    \<Rightarrow> (json \<times> string \<times> json \<times> string set) result" where
  "platform_manifest parse fs reach d =
     bindE (read_descriptor parse fs reach d) (\<lambda>(digest, v, reach1).
     if obj_get d ''mediaType'' = JStr oci_index
     then let nested = obj_get v ''manifests''; d' = hd (arr_of nested) in
       bindE (checks [(\<not> has_key d ''platform'', ''OCI image index descriptor platform changed''),
         (py_eq (obj_get v ''schemaVersion'') (JInt 2), ''OCI image index schema changed''),
         (media_type_ok v oci_index, ''OCI image index media type changed''),
         (only_one nested, ''OCI image index must contain one platform''),
         (is_dict d', ''OCI platform descriptor changed''), platform_ok d']) (\<lambda>_.
       bindE (read_descriptor parse fs reach1 d') (\<lambda>(digest', v', reach2). ret (d', digest', v', reach2)))
     else bindE (checks [platform_ok d]) (\<lambda>_. ret (d, digest, v, reach1)))"

definition image_manifest :: "(bytes \<Rightarrow> json result) \<Rightarrow> oci_members \<Rightarrow> string set \<Rightarrow> json \<Rightarrow> json
    \<Rightarrow> (string \<times> json \<times> string set) result" where
  "image_manifest parse fs reach pin d =
     bindE (platform_manifest parse fs reach d) (\<lambda>(d', digest, manifest, reach').
     bindE (checks [(obj_get d' ''mediaType'' = JStr oci_manifest, ''OCI candidate descriptor is not an image manifest''),
       (py_eq (obj_get manifest ''schemaVersion'') (JInt 2), ''OCI manifest schema changed''),
       (media_type_ok manifest oci_manifest, ''OCI manifest media type changed'')]) (\<lambda>_.
     bindE (pin_image pin ''digest'') (\<lambda>pinned.
     bindE (require (pinned = JStr digest) ''OCI manifest digest does not match the candidate pin'') (\<lambda>_.
     ret (digest, manifest, reach')))))"

definition image_config :: "(bytes \<Rightarrow> json result) \<Rightarrow> oci_members \<Rightarrow> string set \<Rightarrow> json \<Rightarrow> json
    \<Rightarrow> (string \<times> json \<times> json \<times> string set) result" where
  "image_config parse fs reach pin manifest = (let d = obj_get manifest ''config'' in
     bindE (checks [(is_dict d, ''OCI image config descriptor is missing''),
       (obj_get d ''mediaType'' = JStr oci_config, ''OCI config media type changed'')]) (\<lambda>_.
     bindE (read_descriptor parse fs reach d) (\<lambda>(digest, config, reach').
     bindE (pin_image pin ''config_digest'') (\<lambda>pinned.
     bindE (require (pinned = JStr digest) ''OCI config digest does not match the candidate pin'') (\<lambda>_.
     bindE (require (obj_get config ''architecture'' = JStr ''amd64'' \<and> obj_get config ''os'' = JStr ''linux''
         \<and> oci_platform_qualifier_keys \<inter> obj_keys config = {}) ''OCI image config platform changed'') (\<lambda>_.
     bindE (assert_candidate_runtime_config (obj_get config ''config'') pin) (\<lambda>labels.
     ret (digest, config, labels, reach'))))))))"

section \<open>Layers\<close>

definition int_of_json :: "json \<Rightarrow> int" where "int_of_json v = (case v of JInt i \<Rightarrow> i | _ \<Rightarrow> 0)"

definition layer_size_ok :: "json \<Rightarrow> bool" where
  "layer_size_ok v = (type_is_int v \<and> 0 \<le> int_of_json v \<and> int_of_json v \<le> int max_compressed_layer_bytes)"

definition image_layers :: "json \<Rightarrow> json \<Rightarrow> (json list \<times> string list) result" where
  "image_layers manifest config = (let layers = obj_get manifest ''layers''; rootfs = obj_get config ''rootfs'';
       diff_ids = obj_get rootfs ''diff_ids''; sizes = map (\<lambda>l. obj_get l ''size'') (filter is_dict (arr_of layers)) in
     bindE (checks [(is_list layers \<and> arr_of layers \<noteq> [], ''OCI image layers are missing''),
       (length (arr_of layers) \<le> max_layers, ''OCI image contains too many layers''),
       (is_dict rootfs \<and> obj_get rootfs ''type'' = JStr ''layers'', ''OCI rootfs changed''),
       (is_list diff_ids \<and> length (arr_of diff_ids) = length (arr_of layers)
          \<and> list_all (\<lambda>i. is_str i \<and> is_digest (str_of i)) (arr_of diff_ids), ''OCI rootfs diff IDs changed''),
       (length sizes = length (arr_of layers) \<and> list_all layer_size_ok sizes, ''OCI compressed layer is too large''),
       (sum_list (map int_of_json sizes) \<le> int max_total_compressed_layer_bytes,
          ''OCI aggregate compressed layers are too large'')]) (\<lambda>_.
     ret (arr_of layers, map str_of (arr_of diff_ids))))"

text \<open>The chunks a layer expands to, within its own limit and that of the image.\<close>

fun expand_chunks :: "nat \<Rightarrow> nat \<Rightarrow> bytes list \<Rightarrow> (nat \<times> nat) result" where
  "expand_chunks layer so_far [] = ret (layer, so_far)"
| "expand_chunks layer so_far (chunk # rest) =
     bindE (checks [(layer + length chunk \<le> max_expanded_layer_bytes, ''OCI expanded layer is too large''),
       (so_far + length chunk \<le> max_total_expanded_layer_bytes, ''OCI aggregate expanded layers are too large'')]) (\<lambda>_.
     expand_chunks (layer + length chunk) (so_far + length chunk) rest)"

text \<open>A corrupt deflate stream raises \<open>zlib.error\<close>, which is neither \<open>EOFError\<close> nor \<open>OSError\<close>.\<close>

definition gzip_error :: "exn \<Rightarrow> exn" where
  "gzip_error e = (if e = EOFError \<or> is_OSError e then ValueError ''OCI layer is not valid gzip content'' else e)"

definition expand_layer :: "(bytes \<Rightarrow> bytes list \<times> exn option) \<Rightarrow> nat \<Rightarrow> bytes \<Rightarrow> (bytes \<times> nat \<times> nat) result" where
  "expand_layer gunzip so_far compressed = (case gunzip compressed of (cs, failure) \<Rightarrow>
     bindE (expand_chunks 0 so_far cs) (\<lambda>(layer, so_far').
     case failure of Some e \<Rightarrow> raise (gzip_error e) | None \<Rightarrow> ret (concat cs, layer, so_far')))"

fun count_entries :: "nat \<Rightarrow> nat \<Rightarrow> nat \<Rightarrow> nat result" where
  "count_entries seen so_far 0 = ret so_far"
| "count_entries seen so_far (Suc n) =
     bindE (checks [(Suc seen \<le> max_layer_members, ''OCI layer contains too many members''),
       (Suc so_far \<le> max_total_layer_members, ''OCI aggregate layer members are too large'')]) (\<lambda>_.
     count_entries (Suc seen) (Suc so_far) n)"

definition layer_entries :: "(bytes \<Rightarrow> nat \<times> exn option) \<Rightarrow> nat \<Rightarrow> bytes \<Rightarrow> nat result" where
  "layer_entries entries so_far tarball = (case entries tarball of (n, failure) \<Rightarrow>
     bindE (count_entries 0 so_far n) (\<lambda>so_far'. case failure of None \<Rightarrow> ret so_far'
     | Some e \<Rightarrow> raise (if e = TarError then ValueError ''OCI layer is not a readable tar archive'' else e)))"

record layer_state =
  ls_reach :: "string set"
  ls_expanded :: nat
  ls_members :: nat

definition layer_step :: "(bytes \<Rightarrow> bytes list \<times> exn option) \<Rightarrow> (bytes \<Rightarrow> nat \<times> exn option) \<Rightarrow> oci_members
    \<Rightarrow> layer_state \<Rightarrow> json \<times> string \<Rightarrow> layer_state result" where
  "layer_step gunzip entries fs st = (\<lambda>(layer, diff_id).
     bindE (checks [(is_dict layer, ''OCI layer descriptor changed''),
       (obj_get layer ''mediaType'' = JStr oci_gzip_layer, ''OCI layer media type changed'')]) (\<lambda>_.
     bindE (descriptor_blob fs (ls_reach st) layer False) (\<lambda>(digest, compressed, reach).
     bindE (expand_layer gunzip (ls_expanded st) compressed) (\<lambda>(tarball, expanded, so_far).
     bindE (require (sha_digest tarball = diff_id) ''OCI layer does not match its rootfs diff ID'') (\<lambda>_.
     bindE (scan_tar_headers ''OCI layer'' max_layer_members tarball expanded) (\<lambda>_.
     bindE (layer_entries entries (ls_members st) tarball) (\<lambda>n.
     ret \<lparr>ls_reach = reach, ls_expanded = so_far, ls_members = n\<rparr>)))))))"

definition check_layers :: "(bytes \<Rightarrow> bytes list \<times> exn option) \<Rightarrow> (bytes \<Rightarrow> nat \<times> exn option) \<Rightarrow> oci_members
    \<Rightarrow> string set \<Rightarrow> json list \<Rightarrow> string list \<Rightarrow> layer_state result" where
  "check_layers gunzip entries fs reach layers diff_ids =
     foldE (layer_step gunzip entries fs) \<lparr>ls_reach = reach, ls_expanded = 0, ls_members = 0\<rparr> (zip layers diff_ids)"

section \<open>The archive\<close>

text \<open>\<open>PurePosixPath(name).parents\<close> of a relative name, without the last, \<open>.\<close>\<close>

definition parent_names :: "string \<Rightarrow> string set" where
  "parent_names name = (\<lambda>k. join ''/'' (take k (path_parts name))) ` {1..<length (path_parts name)}"

definition all_reached :: "member_state \<Rightarrow> string set \<Rightarrow> unit result" where
  "all_reached st reach = checks
     [(fst ` set (ms_files st) = reach, ''OCI archive contains an unreferenced regular member''),
      (ms_dirs st \<subseteq> (\<Union>n\<in>reach. parent_names n), ''OCI archive contains an unreferenced directory member'')]"

definition inspect_members :: "(bytes \<Rightarrow> json result) \<Rightarrow> (bytes \<Rightarrow> bytes list \<times> exn option) \<Rightarrow> (bytes \<Rightarrow> nat \<times> exn option)
    \<Rightarrow> json \<Rightarrow> tar_listing \<Rightarrow> json result" where
  "inspect_members parse gunzip entries pin listing =
     bindE (archive_members listing) (\<lambda>st. let fs = ms_files st in
     bindE (image_descriptor parse fs pin) (\<lambda>d.
     bindE (image_manifest parse fs {''oci-layout'', ''index.json''} pin d) (\<lambda>(digest, manifest, reach1).
     bindE (image_config parse fs reach1 pin manifest) (\<lambda>(config_digest, config, labels, reach2).
     bindE (image_layers manifest config) (\<lambda>(layers, diff_ids).
     bindE (check_layers gunzip entries fs reach2 layers diff_ids) (\<lambda>ls.
     bindE (all_reached st (ls_reach ls)) (\<lambda>_.
     ret (JObj [(''manifest_digest'', JStr digest), (''config_digest'', JStr config_digest),
       (''platform'', JStr ''linux/amd64''), (''labels'', labels)]))))))))"

definition unreadable_archive :: "exn \<Rightarrow> exn" where
  "unreadable_archive e = (if is_OSError e \<or> e = TarError then ValueError ''candidate archive is not a readable OCI archive'' else e)"

definition inspect_oci_archive :: "(bytes \<Rightarrow> json result) \<Rightarrow> (bytes \<Rightarrow> tar_listing) \<Rightarrow> (bytes \<Rightarrow> bytes list \<times> exn option)
    \<Rightarrow> (bytes \<Rightarrow> nat \<times> exn option) \<Rightarrow> inode option \<Rightarrow> json \<Rightarrow> json result" where
  "inspect_oci_archive parse untar gunzip entries archive pin = (case archive of None \<Rightarrow> raise OSError | Some f \<Rightarrow>
     bindE (checks [(regular f, ''OCI archive must be a regular file''),
       (0 < length (content f) \<and> length (content f) \<le> max_archive_bytes, ''OCI archive is too large or empty'')]) (\<lambda>_.
     bindE (require (take 2 (content f) \<noteq> [0x1f, 0x8b])
       ''candidate archive is not a readable OCI archive: outer wrapper must be uncompressed'') (\<lambda>_.
     bindE (scan_tar_headers ''OCI archive'' max_archive_members (content f) (length (content f))) (\<lambda>_.
     catchE (inspect_members parse gunzip entries pin (untar (content f))) (\<lambda>e. raise (unreadable_archive e))))))"

end
