(* ===== verification/Artifact_Oci_Props.thy ===== *)
theory Artifact_Oci_Props
  imports Artifact_Oci Artifact_Pin_Props
begin

text \<open>
  What an accepted OCI archive is: every regular member but two is stored under the digest of its own
  content, the pinned manifest and configuration are among them, and the layers expand, within the
  limits, to the tar archives the configuration names.
\<close>

lemmas oci_Inr = bindE_eq_Inr checks_Inr require_Inr list_all_append list.pred_inject fst_conv

section \<open>Blobs\<close>

definition blob_name :: "bytes \<Rightarrow> string" where
  "blob_name data = ''blobs/sha256/'' @ hexdigest data"

definition stored :: "oci_members \<Rightarrow> bytes \<Rightarrow> bool" where
  "stored fs data = (case map_of fs (blob_name data) of None \<Rightarrow> False | Some m \<Rightarrow> tm_data m = Inr data)"

definition bound_name :: "oci_members \<Rightarrow> string \<Rightarrow> bool" where
  "bound_name fs n = (n \<in> {''oci-layout'', ''index.json''} \<or> (\<exists>data. n = blob_name data \<and> stored fs data))"

lemma before_colon: "before_first (CHR '':'') (sha_digest data) = ''sha256''"
  by (simp add: before_first_def sha_digest_def)

lemma blob_of_digest:
  "''blobs/'' @ ''sha256'' @ ''/'' @ drop (Suc (length ''sha256'')) (sha_digest data) = blob_name data"
  by (simp add: blob_name_def sha_digest_def)

lemma find_member_Inr: "find_member fs n = Inr m \<longleftrightarrow> map_of fs n = Some m"
  by (simp add: find_member_def split: option.split)

lemma descriptor_blob_Inr:
  assumes "descriptor_blob fs reach d metadata = Inr (digest, data, reach')"
  shows "digest = sha_digest data \<and> py_str (obj_get d ''digest'') = digest \<and> stored fs data
     \<and> reach' = insert (blob_name data) reach"
proof -
  define n where "n = ''blobs/'' @ before_first (CHR '':'') digest @ ''/'' @ drop (Suc (length (before_first (CHR '':'') digest))) digest"
  from assms obtain m where m: "map_of fs n = Some m" "tm_data m = Inr data" and digest: "sha_digest data = digest"
    and d: "py_str (obj_get d ''digest'') = digest" and reach: "reach' = insert n reach"
    unfolding descriptor_blob_def Let_def oci_Inr require_digest_Inr find_member_Inr n_def by blast
  have "n = blob_name data"
    unfolding n_def digest [symmetric] before_colon by (rule blob_of_digest)
  with m digest d reach show ?thesis by (simp add: stored_def)
qed

lemma read_descriptor_Inr:
  assumes "read_descriptor parse fs reach d = Inr (digest, v, reach')"
  obtains raw where "digest = sha_digest raw" "stored fs raw" "parse raw = Inr v" "reach' = insert (blob_name raw) reach"
proof -
  from assms obtain raw where raw: "descriptor_blob fs reach d True = Inr (digest, raw, reach')" and v: "parse raw = Inr v"
    by (auto simp: read_descriptor_def simp del: json_tests split: prod.splits)
  from descriptor_blob_Inr [OF raw] v that show ?thesis by blast
qed

section \<open>The manifest and the configuration\<close>

definition all_bound :: "oci_members \<Rightarrow> string set \<Rightarrow> bool" where
  "all_bound fs reach = (\<forall>n\<in>reach. bound_name fs n)"

lemma all_bound_insert: "all_bound fs reach \<Longrightarrow> stored fs raw \<Longrightarrow> all_bound fs (insert (blob_name raw) reach)"
  by (auto simp: all_bound_def bound_name_def)

text \<open>A step that reached only members stored under their digest.\<close>

definition extends :: "oci_members \<Rightarrow> string set \<Rightarrow> string set \<Rightarrow> bool" where
  "extends fs reach reach' = (reach \<subseteq> reach' \<and> (all_bound fs reach \<longrightarrow> all_bound fs reach'))"

lemma extends_refl: "extends fs r r" by (simp add: extends_def)
lemma extends_trans: "extends fs a b \<Longrightarrow> extends fs b c \<Longrightarrow> extends fs a c" by (auto simp: extends_def)
lemma extends_insert: "stored fs raw \<Longrightarrow> extends fs r (insert (blob_name raw) r)"
  by (auto simp: extends_def all_bound_insert)

lemma platform_manifest_Inr:
  assumes "platform_manifest parse fs reach d = Inr (d', digest, v, reach')"
  obtains raw where "digest = sha_digest raw" "stored fs raw" "parse raw = Inr v" "extends fs reach reach'"
proof -
  from assms obtain digest1 v1 reach1 where one: "read_descriptor parse fs reach d = Inr (digest1, v1, reach1)"
    and rest: "(\<exists>d2. read_descriptor parse fs reach1 d2 = Inr (digest, v, reach')) \<or> (digest, v, reach') = (digest1, v1, reach1)"
    by (auto simp: platform_manifest_def Let_def simp del: json_tests split: if_splits)
  from read_descriptor_Inr [OF one] obtain raw1 where r1: "digest1 = sha_digest raw1" "stored fs raw1" "parse raw1 = Inr v1"
    "reach1 = insert (blob_name raw1) reach" .
  then have e1: "extends fs reach reach1" by (simp add: extends_insert)
  from rest show ?thesis
  proof
    assume "\<exists>d2. read_descriptor parse fs reach1 d2 = Inr (digest, v, reach')"
    then obtain d2 where "read_descriptor parse fs reach1 d2 = Inr (digest, v, reach')" ..
    from read_descriptor_Inr [OF this] obtain raw where "digest = sha_digest raw" "stored fs raw" "parse raw = Inr v"
      "reach' = insert (blob_name raw) reach1" .
    with e1 that show ?thesis using extends_trans extends_insert by metis
  qed (use r1 e1 that in auto)
qed

lemma image_manifest_Inr:
  assumes "image_manifest parse fs reach pin d = Inr (digest, v, reach')"
  obtains raw where "digest = sha_digest raw" "stored fs raw" "parse raw = Inr v" "extends fs reach reach'"
    "pin_image pin ''digest'' = Inr (JStr digest)"
proof -
  from assms obtain d' where d': "platform_manifest parse fs reach d = Inr (d', digest, v, reach')"
    and pin: "pin_image pin ''digest'' = Inr (JStr digest)"
    by (auto simp: image_manifest_def simp del: json_tests)
  from platform_manifest_Inr [OF d'] pin that show ?thesis by metis
qed

lemma image_config_Inr:
  assumes "image_config parse fs reach pin manifest = Inr (digest, config, labels, reach')"
  obtains raw where "digest = sha_digest raw" "stored fs raw" "parse raw = Inr config" "extends fs reach reach'"
    "pin_image pin ''config_digest'' = Inr (JStr digest)"
    "obj_get config ''architecture'' = JStr ''amd64''" "obj_get config ''os'' = JStr ''linux''"
    "assert_candidate_runtime_config (obj_get config ''config'') pin = Inr labels"
proof -
  from assms have d': "read_descriptor parse fs reach (obj_get manifest ''config'') = Inr (digest, config, reach')"
    and rest: "pin_image pin ''config_digest'' = Inr (JStr digest)"
      "obj_get config ''architecture'' = JStr ''amd64''" "obj_get config ''os'' = JStr ''linux''"
      "assert_candidate_runtime_config (obj_get config ''config'') pin = Inr labels"
    by (auto simp: image_config_def Let_def simp del: json_tests)
  from read_descriptor_Inr [OF d'] obtain raw where raw: "digest = sha_digest raw" "stored fs raw" "parse raw = Inr config"
    "reach' = insert (blob_name raw) reach" .
  from raw(2) have "extends fs reach (insert (blob_name raw) reach)" by (rule extends_insert)
  with raw rest that show ?thesis by metis
qed

section \<open>Layers\<close>

text \<open>What was verified of a layer: its blob, its expansion and the archive that is.\<close>

definition layer_verified :: "(bytes \<Rightarrow> bytes list \<times> exn option) \<Rightarrow> (bytes \<Rightarrow> nat \<times> exn option) \<Rightarrow> oci_members
    \<Rightarrow> json \<times> string \<Rightarrow> bytes \<times> nat \<Rightarrow> bool" where
  "layer_verified gunzip entries fs = (\<lambda>(layer, diff_id) (tarball, n).
     (\<exists>compressed chunks. py_str (obj_get layer ''digest'') = sha_digest compressed \<and> stored fs compressed
        \<and> gunzip compressed = (chunks, None) \<and> concat chunks = tarball)
     \<and> sha_digest tarball = diff_id \<and> length tarball \<le> max_expanded_layer_bytes
     \<and> scan_tar_headers ''OCI layer'' max_layer_members tarball (length tarball) = Inr ()
     \<and> entries tarball = (n, None) \<and> n \<le> max_layer_members)"

lemma expand_chunks_Inr:
  "expand_chunks layer so_far cs = Inr (l, t) \<Longrightarrow> l = layer + length (concat cs) \<and> t = so_far + length (concat cs)
     \<and> (layer \<le> max_expanded_layer_bytes \<longrightarrow> l \<le> max_expanded_layer_bytes)
     \<and> (so_far \<le> max_total_expanded_layer_bytes \<longrightarrow> t \<le> max_total_expanded_layer_bytes)"
  by (induction cs arbitrary: layer so_far) fastforce+

lemma count_entries_Inr:
  "count_entries seen so_far n = Inr t \<Longrightarrow> t = so_far + n \<and> (seen \<le> max_layer_members \<longrightarrow> seen + n \<le> max_layer_members)
     \<and> (so_far \<le> max_total_layer_members \<longrightarrow> t \<le> max_total_layer_members)"
  by (induction n arbitrary: seen so_far) fastforce+

lemma layer_step_Inr:
  assumes "layer_step gunzip entries fs st x = Inr st'"
  obtains tarball n where "layer_verified gunzip entries fs x (tarball, n)"
    "extends fs (ls_reach st) (ls_reach st')"
    "ls_expanded st' = ls_expanded st + length tarball" "ls_members st' = ls_members st + n"
    "ls_expanded st \<le> max_total_expanded_layer_bytes \<longrightarrow> ls_expanded st' \<le> max_total_expanded_layer_bytes"
    "ls_members st \<le> max_total_layer_members \<longrightarrow> ls_members st' \<le> max_total_layer_members"
proof -
  obtain layer diff_id where x: "x = (layer, diff_id)" by (cases x)
  with assms obtain digest compressed reach tarball expanded so_far n
    where blob: "descriptor_blob fs (ls_reach st) layer False = Inr (digest, compressed, reach)"
      and expand: "expand_layer gunzip (ls_expanded st) compressed = Inr (tarball, expanded, so_far)"
      and diff: "sha_digest tarball = diff_id"
      and scan: "scan_tar_headers ''OCI layer'' max_layer_members tarball expanded = Inr ()"
      and count: "layer_entries entries (ls_members st) tarball = Inr n"
      and st': "st' = \<lparr>ls_reach = reach, ls_expanded = so_far, ls_members = n\<rparr>"
    by (auto simp: layer_step_def simp del: json_tests)
  note blob = descriptor_blob_Inr [OF blob]
  from expand obtain cs where cs: "gunzip compressed = (cs, None)" "tarball = concat cs"
    and "expand_chunks 0 (ls_expanded st) cs = Inr (expanded, so_far)"
    by (auto simp: expand_layer_def split: prod.splits option.splits)
  note sizes = expand_chunks_Inr [OF this(3)]
  from count obtain k where k: "entries tarball = (k, None)" and "count_entries 0 (ls_members st) k = Inr n"
    by (auto simp: layer_entries_def split: prod.splits option.splits)
  note counts = count_entries_Inr [OF this(2)]
  have "layer_verified gunzip entries fs x (tarball, k)"
    using blob cs diff scan k sizes counts by (auto simp: layer_verified_def x)
  moreover from blob have "extends fs (ls_reach st) (ls_reach st')" by (simp add: st' extends_insert)
  ultimately show ?thesis by (rule that [of tarball k]) (use sizes counts cs st' in auto)
qed

lemma layers_fold:
  assumes "foldE (layer_step gunzip entries fs) st xs = Inr st'"
    and "ls_expanded st \<le> max_total_expanded_layer_bytes" and "ls_members st \<le> max_total_layer_members"
  shows "extends fs (ls_reach st) (ls_reach st') \<and> ls_expanded st' \<le> max_total_expanded_layer_bytes
     \<and> ls_members st' \<le> max_total_layer_members
     \<and> (\<exists>es. list_all2 (layer_verified gunzip entries fs) xs es
          \<and> ls_expanded st' = ls_expanded st + sum_list (map (\<lambda>e. length (fst e)) es)
          \<and> ls_members st' = ls_members st + sum_list (map snd es))"
  using assms
proof (induction xs arbitrary: st)
  case Nil
  then show ?case by (auto simp: extends_refl)
next
  case (Cons x xs)
  from Cons.prems(1) obtain st1 where one: "layer_step gunzip entries fs st x = Inr st1"
    and rest: "foldE (layer_step gunzip entries fs) st1 xs = Inr st'" by auto
  from layer_step_Inr [OF one] obtain tarball n where v: "layer_verified gunzip entries fs x (tarball, n)"
    "extends fs (ls_reach st) (ls_reach st1)"
    "ls_expanded st1 = ls_expanded st + length tarball" "ls_members st1 = ls_members st + n"
    "ls_expanded st1 \<le> max_total_expanded_layer_bytes" "ls_members st1 \<le> max_total_layer_members"
    using Cons.prems(2,3) by metis
  from Cons.IH [OF rest v(5,6)] obtain es where es: "list_all2 (layer_verified gunzip entries fs) xs es"
    "extends fs (ls_reach st1) (ls_reach st')" "ls_expanded st' \<le> max_total_expanded_layer_bytes"
    "ls_members st' \<le> max_total_layer_members" "ls_expanded st' = ls_expanded st1 + sum_list (map (\<lambda>e. length (fst e)) es)"
    "ls_members st' = ls_members st1 + sum_list (map snd es)" by blast
  from v(2) es(2) have "extends fs (ls_reach st) (ls_reach st')" by (rule extends_trans)
  moreover have "list_all2 (layer_verified gunzip entries fs) (x # xs) ((tarball, n) # es)" using v(1) es(1) by simp
  ultimately show ?case using es v by (intro conjI exI [of _ "(tarball, n) # es"]) simp_all
qed

text \<open>
  Claim C30. The layers of an accepted image are the ones its configuration names, and bounded: every
  layer is stored under the digest its descriptor gives, expands without an error to at most 256 MiB
  with the digest the configuration lists at the same place, and that content passes the header scan
  and streams as a tar archive of at most 20000 members; over all layers at most 1 GiB and 50000
  members were taken.
\<close>

theorem layers_verified_bounded:
  "case check_layers gunzip entries fs reach layers diff_ids of
     Inl e \<Rightarrow> True
   | Inr st \<Rightarrow> \<exists>es. list_all2 (layer_verified gunzip entries fs) (zip layers diff_ids) es
       \<and> sum_list (map (\<lambda>e. length (fst e)) es) \<le> 1024 * 1024 * 1024 \<and> sum_list (map snd es) \<le> 50000"
proof (cases "check_layers gunzip entries fs reach layers diff_ids")
  case (Inr st)
  from layers_fold [OF this [unfolded check_layers_def]] show ?thesis
    unfolding Inr by (auto simp: max_total_expanded_layer_bytes_def max_total_layer_members_def)
qed simp

section \<open>The archive\<close>

lemma member_step_Inr:
  assumes "member_step st m = Inr st'" and "distinct (map fst (ms_files st))" and "fst ` set (ms_files st) \<subseteq> ms_names st"
    and "length (ms_files st) = ms_regular st" and "ms_regular st \<le> max_archive_regular_members"
  shows "distinct (map fst (ms_files st')) \<and> fst ` set (ms_files st') \<subseteq> ms_names st'
     \<and> length (ms_files st') = ms_regular st' \<and> ms_regular st' \<le> max_archive_regular_members"
proof -
  have fresh: "n \<notin> ms_names st \<Longrightarrow> put n m (ms_files st) = ms_files st @ [(n, m)]" for n
    using assms(3) by (intro put_fresh) auto
  from assms(3) have "(n, m') \<in> set (ms_files st) \<Longrightarrow> n \<in> ms_names st" for n m' by force
  with assms show ?thesis
    by (auto simp: member_step_def Let_def fresh split: if_splits)
qed

lemma archive_members_Inr:
  assumes "archive_members l = Inr st"
  shows "distinct (map fst (ms_files st)) \<and> length (ms_files st) \<le> max_archive_regular_members"
proof -
  from assms have run: "foldE member_step no_members (tl_members l) = Inr st"
    by (auto simp: archive_members_def split: option.splits)
  have "distinct (map fst (ms_files st)) \<and> fst ` set (ms_files st) \<subseteq> ms_names st
     \<and> length (ms_files st) = ms_regular st \<and> ms_regular st \<le> max_archive_regular_members"
    using run
  proof (rule foldE_invariant)
    show "distinct (map fst (ms_files no_members)) \<and> fst ` set (ms_files no_members) \<subseteq> ms_names no_members
     \<and> length (ms_files no_members) = ms_regular no_members \<and> ms_regular no_members \<le> max_archive_regular_members"
      by (simp add: no_members_def)
  qed (use member_step_Inr in blast)
  then show ?thesis by simp
qed

lemma path_parts_blob: "path_parts (blob_name data) = [''blobs'', ''sha256'', hexdigest data]"
proof -
  have "hexdigest data \<noteq> []" "hexdigest data \<noteq> ''.''" using hexdigest_shape [of data] by auto
  moreover have "split_on (CHR ''/'') (''blobs'' @ CHR ''/'' # (''sha256'' @ CHR ''/'' # hexdigest data)) = [''blobs'', ''sha256'', hexdigest data]"
    unfolding split_on_append by (simp add: split_on_single hexdigest_no_slash)
  ultimately show ?thesis by (simp add: path_parts_def blob_name_def)
qed

lemma parent_names_bound: "bound_name fs n \<Longrightarrow> parent_names n \<subseteq> {''blobs'', ''blobs/sha256''}"
proof -
  have "parent_names (blob_name data) = {''blobs'', ''blobs/sha256''}" for data
  proof -
    have "{1..<3} = {1, 2 :: nat}" by auto
    then show ?thesis by (simp add: parent_names_def path_parts_blob numeral_2_eq_2 numeral_3_eq_3)
  qed
  moreover have "parent_names ''oci-layout'' = {}" "parent_names ''index.json'' = {}" by code_simp+
  ultimately show "bound_name fs n \<Longrightarrow> ?thesis" by (auto simp: bound_name_def)
qed

lemma inspect_members_Inr:
  assumes "inspect_members parse gunzip entries pin listing = Inr report"
  obtains st digest manifest config_digest config labels reach layers diff_ids ls d reach1
  where "archive_members listing = Inr st"
    "image_manifest parse (ms_files st) {''oci-layout'', ''index.json''} pin d = Inr (digest, manifest, reach1)"
    "image_config parse (ms_files st) reach1 pin manifest = Inr (config_digest, config, labels, reach)"
    "image_layers manifest config = Inr (layers, diff_ids)"
    "check_layers gunzip entries (ms_files st) reach layers diff_ids = Inr ls"
    "all_reached st (ls_reach ls) = Inr ()"
    "report = JObj [(''manifest_digest'', JStr digest), (''config_digest'', JStr config_digest),
       (''platform'', JStr ''linux/amd64''), (''labels'', labels)]"
  apply (insert assms)
  apply (unfold inspect_members_def Let_def bindE_eq_Inr split_paired_Ex prod.case ex_unit sum.inject)
  apply (elim exE conjE)
  apply (rule that)
  apply assumption+
  apply (erule sym)
  done

text \<open>What the archive holds: the two fixed members and blobs under the digest of their content.\<close>

definition content_addressed :: "string \<times> tar_member \<Rightarrow> bool" where
  "content_addressed = (\<lambda>(n, m). n \<in> {''oci-layout'', ''index.json''}
     \<or> (case tm_data m of Inl e \<Rightarrow> False | Inr data \<Rightarrow> n = ''blobs/sha256/'' @ hexdigest data))"

lemma content_addressed_bound:
  assumes "distinct (map fst fs)" and "(n, m) \<in> set fs" and "bound_name fs n"
  shows "content_addressed (n, m)"
proof -
  from assms(1,2) have m: "map_of fs n = Some m" by simp
  from assms(3) consider "n \<in> {''oci-layout'', ''index.json''}" | data where "n = blob_name data" "stored fs data"
    unfolding bound_name_def by blast
  then show ?thesis
  proof cases
    case 1
    then show ?thesis by (simp only: content_addressed_def prod.case simp_thms)
  next
    case 2
    then have "tm_data m = Inr data" using m by (simp add: stored_def)
    with 2 show ?thesis by (simp only: content_addressed_def prod.case blob_name_def sum.case simp_thms)
  qed
qed

text \<open>
  Claim C12. An accepted archive is closed and pinned. It is one bounded regular file; its regular
  members, at most 256 and no name twice, are \<open>oci-layout\<close>, \<open>index.json\<close> and blobs each stored under
  the SHA-256 of its own content, and its directories only those of the blobs. Among the blobs are a
  manifest and a configuration with the digests of the pin, which are the ones reported; the reported
  labels passed the runtime-configuration check of that configuration, for linux on amd64.
\<close>

theorem inspected_archive_closed:
  "case inspect_oci_archive parse untar gunzip entries archive pin of
     Inl e \<Rightarrow> True
   | Inr report \<Rightarrow> \<exists>f st manifest config_raw config labels.
       archive = Some f \<and> regular f \<and> length (content f) \<le> 512 * 1024 * 1024
       \<and> archive_members (untar (content f)) = Inr st
       \<and> distinct (map fst (ms_files st)) \<and> length (ms_files st) \<le> 256
       \<and> list_all content_addressed (ms_files st) \<and> ms_dirs st \<subseteq> {''blobs'', ''blobs/sha256''}
       \<and> stored (ms_files st) manifest \<and> pin_image pin ''digest'' = Inr (JStr (sha_digest manifest))
       \<and> stored (ms_files st) config_raw \<and> pin_image pin ''config_digest'' = Inr (JStr (sha_digest config_raw))
       \<and> parse config_raw = Inr config
       \<and> obj_get config ''architecture'' = JStr ''amd64'' \<and> obj_get config ''os'' = JStr ''linux''
       \<and> assert_candidate_runtime_config (obj_get config ''config'') pin = Inr labels
       \<and> report = JObj [(''manifest_digest'', JStr (sha_digest manifest)), (''config_digest'', JStr (sha_digest config_raw)),
           (''platform'', JStr ''linux/amd64''), (''labels'', labels)]"
proof (cases "inspect_oci_archive parse untar gunzip entries archive pin")
  case (Inr report)
  then obtain f where f: "archive = Some f" "regular f" "length (content f) \<le> max_archive_bytes"
    and "inspect_members parse gunzip entries pin (untar (content f)) = Inr report"
    by (auto simp: inspect_oci_archive_def catchE_def split: option.splits sum.splits)
  from inspect_members_Inr [OF this(4)] obtain st digest manifest config_digest config labels reach layers diff_ids ls d reach1
    where st: "archive_members (untar (content f)) = Inr st"
    and m: "image_manifest parse (ms_files st) {''oci-layout'', ''index.json''} pin d = Inr (digest, manifest, reach1)"
    and c: "image_config parse (ms_files st) reach1 pin manifest = Inr (config_digest, config, labels, reach)"
    and l: "check_layers gunzip entries (ms_files st) reach layers diff_ids = Inr ls"
    and all: "all_reached st (ls_reach ls) = Inr ()"
    and report: "report = JObj [(''manifest_digest'', JStr digest), (''config_digest'', JStr config_digest),
       (''platform'', JStr ''linux/amd64''), (''labels'', labels)]" .
  from image_manifest_Inr [OF m] obtain mr where mr: "digest = sha_digest mr" "stored (ms_files st) mr"
    "extends (ms_files st) {''oci-layout'', ''index.json''} reach1" "pin_image pin ''digest'' = Inr (JStr digest)" by metis
  from image_config_Inr [OF c] obtain cr where cr: "config_digest = sha_digest cr" "stored (ms_files st) cr"
    "parse cr = Inr config" "extends (ms_files st) reach1 reach" "pin_image pin ''config_digest'' = Inr (JStr config_digest)"
    "obj_get config ''architecture'' = JStr ''amd64''" "obj_get config ''os'' = JStr ''linux''"
    "assert_candidate_runtime_config (obj_get config ''config'') pin = Inr labels" .
  from layers_fold [OF l [unfolded check_layers_def]] have "extends (ms_files st) reach (ls_reach ls)" by simp
  with mr(3) cr(4) have "extends (ms_files st) {''oci-layout'', ''index.json''} (ls_reach ls)" using extends_trans by blast
  moreover have "all_bound (ms_files st) {''oci-layout'', ''index.json''}" by (simp add: all_bound_def bound_name_def)
  ultimately have bound: "all_bound (ms_files st) (ls_reach ls)" by (simp add: extends_def)
  from all have names: "fst ` set (ms_files st) = ls_reach ls" and dirs: "ms_dirs st \<subseteq> (\<Union>n\<in>ls_reach ls. parent_names n)"
    by (simp_all add: all_reached_def)
  note ms = archive_members_Inr [OF st]
  have "content_addressed (n, m)" if "(n, m) \<in> set (ms_files st)" for n m
  proof -
    from that names have "n \<in> ls_reach ls" by force
    with bound have "bound_name (ms_files st) n" by (simp add: all_bound_def)
    with that ms show ?thesis using content_addressed_bound by blast
  qed
  then have "list_all content_addressed (ms_files st)" by (auto simp: list_all_iff)
  moreover from dirs bound have "ms_dirs st \<subseteq> {''blobs'', ''blobs/sha256''}"
    using parent_names_bound unfolding all_bound_def by blast
  ultimately show ?thesis
    using f st ms mr cr report unfolding Inr max_archive_bytes_def max_archive_regular_members_def sum.case
    by (intro exI [of _ f] exI [of _ st] exI [of _ mr] exI [of _ cr] exI [of _ config] exI [of _ labels] conjI) simp_all
qed simp

end
