(* ===== verification/Artifact_Load.thy ===== *)
theory Artifact_Load
  imports Artifact_Oci Artifact_Evidence
begin

text \<open>
  From the files of a candidate to a local image, in \<^verbatim>\<open>scripts/credentials_verifier_artifact.py\<close>: the
  private staging of its archive and pin, the inspection of local images through \<open>docker\<close>, their
  removal, and \<open>load_candidate_archive\<close>, which loads the staged archive, binds the loaded image to the
  verified reference and undoes what it did when a step fails. \<open>cmd\<close> runs a command, \<open>loads\<close> stands
  for \<open>json.loads\<close> of text; the libraries of the archive inspection are a record.
\<close>

section \<open>Staged files\<close>

record oci_libs =
  lib_parse :: "bytes \<Rightarrow> json result"
  lib_untar :: "bytes \<Rightarrow> tar_listing"
  lib_gunzip :: "bytes \<Rightarrow> bytes list \<times> exn option"
  lib_entries :: "bytes \<Rightarrow> nat \<times> exn option"

definition inspect_archive :: "oci_libs \<Rightarrow> inode \<Rightarrow> json \<Rightarrow> json result" where
  "inspect_archive libs f pin = inspect_oci_archive (lib_parse libs) (lib_untar libs) (lib_gunzip libs) (lib_entries libs) (Some f) pin"

text \<open>A staged file lies in a directory of this user alone: its reads see the one file \<open>f\<close> at all times.\<close>

definition private_disk :: "inode \<Rightarrow> disk" where
  "private_disk f = \<lparr>entry = \<lambda>t p. Some (File_Id 0 0), opens = \<lambda>t p. Some (File_Id 0 0), node_at = \<lambda>t i. f\<rparr>"

definition private_read :: "inode \<Rightarrow> string \<Rightarrow> nat \<Rightarrow> bytes result" where
  "private_read f label maximum = fst (read_bounded_regular_file (private_disk f) [] label maximum 0)"

definition private_digest :: "inode \<Rightarrow> string \<Rightarrow> nat \<Rightarrow> string result" where
  "private_digest f label maximum = fst (digest_bounded_regular_file (private_disk f) [] label maximum 0)"

record staged_file =
  sf_node :: inode
  sf_mode :: nat
  sf_uid :: nat

text \<open>The user that runs the script: \<open>None\<close> on Windows, where modes and owners are not checked.\<close>

type_synonym user = "nat option"

definition only_owner :: "nat \<Rightarrow> bool" where "only_owner m = (m mod 64 = 0)"

definition owner_checks :: "user \<Rightarrow> staged_file \<Rightarrow> (bool \<times> string) list" where
  "owner_checks user sf = (case user of None \<Rightarrow> [] | Some uid \<Rightarrow>
     [(only_owner (sf_mode sf), ''staged candidate archive is not private''),
      (sf_uid sf = uid, ''staged candidate archive is not owned by this user'')])"

definition verify_staged_candidate_archive :: "oci_libs \<Rightarrow> user \<Rightarrow> json \<Rightarrow> staged_file \<Rightarrow> unit result" where
  "verify_staged_candidate_archive libs user pin sf = (let f = sf_node sf in
     bindE (checks ([(regular f, ''staged candidate archive must be a regular file''),
       (0 < length (content f) \<and> length (content f) \<le> max_archive_bytes, ''staged candidate archive is too large or empty'')]
       @ owner_checks user sf)) (\<lambda>_.
     bindE (private_digest f ''staged candidate archive'' max_archive_bytes) (\<lambda>digest.
     bindE (bindE (py_key pin ''archive'') (\<lambda>a. py_key a ''digest'')) (\<lambda>pinned.
     bindE (require (pinned = JStr digest) ''staged candidate archive digest changed'') (\<lambda>_.
     bindE (inspect_archive libs f pin) (\<lambda>_. ret ()))))))"

text \<open>The copy of the source into a private file, and the file that leaves.\<close>

definition stage_copy :: "disk \<Rightarrow> string \<Rightarrow> (nat, bytes) io" where
  "stage_copy d p = (let during = ValueError ''candidate archive changed during private staging'' in
     bindIO (lstat d p) (\<lambda>metadata.
     bindIO (liftIO (checks [(st_regular metadata, ''OCI archive must be a regular file''),
       (0 < st_size metadata \<and> st_size metadata \<le> max_archive_bytes, ''OCI archive is too large or empty'')])) (\<lambda>_.
     bindIO (open_file d p) (\<lambda>i.
     bindIO (fstat d i) (\<lambda>opened.
     bindIO (liftIO (require (same_file metadata opened) ''candidate archive changed before private staging'')) (\<lambda>_.
     bindIO (read_rest d during i 0 (st_size metadata)) (\<lambda>raw.
     bindIO (\<lambda>t. (ret (read_chunk d i (length raw) 1 t), Suc t)) (\<lambda>more.
     if more \<noteq> [] then raiseIO during else
     bindIO (fstat d i) (\<lambda>after.
     bindIO (lstat d p) (\<lambda>current.
     if \<not> (unchanged opened after \<and> unchanged opened current) then raiseIO during
     else if length raw \<noteq> st_size metadata
     then raiseIO (ValueError ''candidate archive size changed during private staging'')
     else retIO raw))))))))))"

definition private_file :: "user \<Rightarrow> nat \<Rightarrow> bytes \<Rightarrow> staged_file" where
  "private_file user t raw = \<lparr>sf_node = \<lparr>regular = True, content = raw, mtime = t\<rparr>, sf_mode = 384,
     sf_uid = (case user of None \<Rightarrow> 0 | Some uid \<Rightarrow> uid)\<rparr>"

definition stage_candidate_archive :: "disk \<Rightarrow> oci_libs \<Rightarrow> user \<Rightarrow> json \<Rightarrow> string \<Rightarrow> (nat, staged_file) io" where
  "stage_candidate_archive d libs user pin p =
     bindIO (stage_copy d p) (\<lambda>raw t.
     (bindE (bindE (py_key pin ''archive'') (\<lambda>a. py_key a ''digest'')) (\<lambda>pinned.
      bindE (require (pinned = JStr (sha_digest raw)) ''candidate archive digest changed during private staging'') (\<lambda>_.
      let sf = private_file user t raw in
      bindE (verify_staged_candidate_archive libs user pin sf) (\<lambda>_. ret sf))), t))"

definition stage_candidate_pin :: "(bytes \<Rightarrow> json result) \<Rightarrow> user \<Rightarrow> json \<Rightarrow> bytes \<Rightarrow> staged_file result" where
  "stage_candidate_pin loads_bytes user pin raw =
     bindE (require (0 < length raw \<and> length raw \<le> max_pin_bytes) ''candidate pin is too large or empty'') (\<lambda>_.
     bindE (parse_pin loads_bytes raw ''candidate'') (\<lambda>parsed.
     bindE (require (py_eq parsed pin) ''candidate pin snapshot does not match the validated pin'') (\<lambda>_.
     let sf = private_file user 0 raw in
     bindE (private_read (sf_node sf) ''staged candidate pin'' max_pin_bytes) (\<lambda>staged_raw.
     bindE (require (staged_raw = raw) ''candidate pin changed during private staging'') (\<lambda>_. ret sf)))))"

section \<open>Local images\<close>

definition inspect_args :: "string \<Rightarrow> string list" where
  "inspect_args reference = [''docker'', ''image'', ''inspect'', reference, ''--format'', ''{{json .}}'']"
definition remove_args :: "string \<Rightarrow> string list" where
  "remove_args reference = [''docker'', ''image'', ''rm'', ''-f'', reference]"

text \<open>\<open>subprocess.run\<close> whose failure to complete is an error of this run.\<close>

definition completes :: "'w command \<Rightarrow> string list \<Rightarrow> string \<Rightarrow> ('w, int \<times> string \<times> string) io" where
  "completes cmd args m = tryIO (cmd args) (\<lambda>e. raiseIO (if is_OSError e \<or> e = TimeoutExpired then RuntimeError m else e))"

definition says_missing :: "string \<Rightarrow> bool" where
  "says_missing err = (occurs_in ''no such image'' (py_lower err) \<or> occurs_in ''no such object'' (py_lower err))"

definition image_json :: "(string \<Rightarrow> json result) \<Rightarrow> string \<Rightarrow> json result" where
  "image_json loads out = bindE (catchE (loads out) (\<lambda>e. raise
       (if e = JSONDecodeError then RuntimeError ''inspect candidate image returned invalid output'' else e))) (\<lambda>v.
     if is_dict v then ret v else raise (RuntimeError ''inspect candidate image returned invalid output''))"

definition inspect_optional_docker_image :: "'w command \<Rightarrow> (string \<Rightarrow> json result) \<Rightarrow> string \<Rightarrow> ('w, json option) io" where
  "inspect_optional_docker_image cmd loads reference =
     bindIO (completes cmd (inspect_args reference) ''inspect candidate image could not complete'') (\<lambda>(code, out, err).
     if code \<noteq> 0
     then if says_missing err then retIO None
          else raiseIO (RuntimeError (''inspect candidate image failed with exit code '' @ int_str code))
     else bindIO (liftIO (image_json loads out)) (\<lambda>v. retIO (Some v)))"

definition remove_candidate_image :: "'w command \<Rightarrow> (string \<Rightarrow> json result) \<Rightarrow> string \<Rightarrow> ('w, unit) io" where
  "remove_candidate_image cmd loads reference =
     bindIO (completes cmd (remove_args reference) ''remove candidate image could not complete'') (\<lambda>_.
     bindIO (inspect_optional_docker_image cmd loads reference) (\<lambda>found.
     if found \<noteq> None then raiseIO (RuntimeError ''remove candidate image did not remove its scoped reference'') else retIO ()))"

text \<open>The number of removals that failed.\<close>

fun remove_each :: "'w command \<Rightarrow> (string \<Rightarrow> json result) \<Rightarrow> string list \<Rightarrow> ('w, nat) io" where
  "remove_each cmd loads [] = retIO 0"
| "remove_each cmd loads (r # rs) =
     bindIO (tryIO (bindIO (remove_candidate_image cmd loads r) (\<lambda>_. retIO 0))
       (\<lambda>e. if is_RuntimeError e then retIO 1 else raiseIO e)) (\<lambda>failed.
     bindIO (remove_each cmd loads rs) (\<lambda>n. retIO (failed + n)))"

definition cleanup_failed :: exn where
  "cleanup_failed = RuntimeError ''candidate image cleanup did not remove every scoped reference''"

definition remove_candidate_images :: "'w command \<Rightarrow> (string \<Rightarrow> json result) \<Rightarrow> string list \<Rightarrow> ('w, unit) io" where
  "remove_candidate_images cmd loads references =
     bindIO (remove_each cmd loads (rev (remdups (rev references)))) (\<lambda>failures.
     if failures \<noteq> 0 then raiseIO cleanup_failed else retIO ())"

section \<open>The identity of the loaded image\<close>

definition identity_bound :: "json \<Rightarrow> json \<Rightarrow> json \<Rightarrow> json \<Rightarrow> bool" where
  "identity_bound inspected digest config_digest exported = (let image_id = obj_get inspected ''Id'';
       descriptor = obj_get inspected ''Descriptor'' in
     is_dict descriptor \<and> py_eq (obj_get descriptor ''digest'') digest
     \<and> (py_eq image_id config_digest \<or> (py_eq image_id digest \<and> py_eq exported config_digest)))"

definition assert_loaded_candidate_inspection :: "json \<Rightarrow> json \<Rightarrow> json \<Rightarrow> unit result" where
  "assert_loaded_candidate_inspection inspected pin exported =
     bindE (require (is_dict inspected) ''loaded candidate image inspection changed'') (\<lambda>_.
     bindE (pin_image pin ''digest'') (\<lambda>digest.
     bindE (pin_image pin ''config_digest'') (\<lambda>config_digest.
     bindE (checks [(identity_bound inspected digest config_digest exported, ''loaded candidate image identity changed''),
       (obj_get inspected ''Os'' = JStr ''linux'' \<and> obj_get inspected ''Architecture'' = JStr ''amd64'',
        ''loaded candidate platform changed'')]) (\<lambda>_.
     bindE (assert_candidate_runtime_config (obj_get inspected ''Config'') pin) (\<lambda>_. ret ())))))"

record export_state =
  es_members :: nat
  es_regular :: nat
  es_names :: "string set"
  es_selected :: "(string \<times> bytes) list"

definition save_step :: "string set \<Rightarrow> export_state \<Rightarrow> tar_member \<Rightarrow> export_state result" where
  "save_step wanted st m = (let st1 = st\<lparr>es_members := Suc (es_members st)\<rparr>; name = removeprefix (tm_name m) ''./'' in
     bindE (checks [(es_members st1 \<le> max_archive_members, ''exported candidate image contains too many members''),
       (name \<notin> es_names st1, ''exported candidate image contains duplicate members'')]) (\<lambda>_.
     let st2 = st1\<lparr>es_names := insert name (es_names st1)\<rparr> in
     if tm_kind m = Directory then ret st2
     else bindE (require (tm_kind m = Regular) ''exported candidate image contains a non-regular member'') (\<lambda>_.
       let st3 = st2\<lparr>es_regular := Suc (es_regular st2)\<rparr> in
       bindE (require (es_regular st3 \<le> max_archive_regular_members)
         ''exported candidate image contains too many regular members'') (\<lambda>_.
       if name \<notin> wanted then ret st3
       else bindE (require (tm_size m \<le> max_metadata_member_bytes) ''exported candidate identity member is too large'') (\<lambda>_.
         bindE (tm_data m) (\<lambda>data. ret (st3\<lparr>es_selected := put name data (es_selected st3)\<rparr>)))))))"

definition saved_members :: "string set \<Rightarrow> tar_listing \<Rightarrow> (string \<times> bytes) list result" where
  "saved_members wanted l = catchE
     (bindE (foldE (save_step wanted) \<lparr>es_members = 0, es_regular = 0, es_names = {}, es_selected = []\<rparr> (tl_members l))
       (\<lambda>st. case tl_end l of None \<Rightarrow> ret (es_selected st) | Some e \<Rightarrow> raise e))
     (\<lambda>e. raise (if is_OSError e \<or> e = TarError then ValueError ''exported candidate image is not a readable OCI archive'' else e))"

text \<open>\<open>d.split(":", 1)[1]\<close>\<close>

definition after_colon :: "json \<Rightarrow> string result" where
  "after_colon d = (case d of JStr s \<Rightarrow> if CHR '':'' \<in> set s then ret (tl (dropWhile (\<lambda>c. c \<noteq> CHR '':'') s)) else raise IndexError
     | _ \<Rightarrow> raise AttributeError)"

definition exported_identity :: "(bytes \<Rightarrow> json result) \<Rightarrow> json \<Rightarrow> json \<Rightarrow> bytes \<Rightarrow> bytes \<Rightarrow> json result" where
  "exported_identity parse digest config_digest manifest_raw config_raw =
     bindE (checks [(config_digest = JStr (sha_digest config_raw), ''exported candidate config digest changed''),
       (digest = JStr (sha_digest manifest_raw), ''exported candidate manifest digest changed'')]) (\<lambda>_.
     bindE (parse manifest_raw) (\<lambda>manifest. let config = obj_get manifest ''config'' in
     bindE (checks [(is_dict manifest, ''exported candidate manifest changed''),
       (is_dict config \<and> obj_get config ''mediaType'' = JStr oci_config \<and> py_eq (obj_get config ''digest'') config_digest
          \<and> py_eq (obj_get config ''size'') (JInt (int (length config_raw))), ''exported candidate config identity changed'')]) (\<lambda>_.
     ret config_digest)))"

definition read_export :: "oci_libs \<Rightarrow> json \<Rightarrow> inode option \<Rightarrow> json result" where
  "read_export libs pin exported = (case exported of None \<Rightarrow> raise OSError | Some f \<Rightarrow>
     bindE (checks [(regular f, ''exported candidate image must be a regular file''),
       (0 < length (content f) \<and> length (content f) \<le> max_archive_bytes, ''exported candidate image is too large or empty'')]) (\<lambda>_.
     bindE (scan_tar_headers ''exported candidate image'' max_archive_members (content f) (length (content f))) (\<lambda>_.
     bindE (pin_image pin ''digest'') (\<lambda>digest. bindE (after_colon digest) (\<lambda>dm.
     bindE (pin_image pin ''config_digest'') (\<lambda>config_digest. bindE (after_colon config_digest) (\<lambda>dc.
     let manifest_name = ''blobs/sha256/'' @ dm; config_name = ''blobs/sha256/'' @ dc in
     bindE (saved_members {manifest_name, config_name} (lib_untar libs (content f))) (\<lambda>selected.
     bindE (require (fst ` set selected = {manifest_name, config_name}) ''exported candidate identity members are missing'') (\<lambda>_.
     exported_identity (lib_parse libs) digest config_digest
       (the (map_of selected manifest_name)) (the (map_of selected config_name)))))))))))"

text \<open>\<open>exports\<close> is where \<open>docker image save\<close> leaves its file, \<open>read_file\<close> what is there afterwards.\<close>

definition exported_candidate_config_digest :: "'w command \<Rightarrow> (string \<Rightarrow> ('w, inode option) io) \<Rightarrow> oci_libs \<Rightarrow> string
    \<Rightarrow> string \<Rightarrow> json \<Rightarrow> json \<Rightarrow> ('w, json) io" where
  "exported_candidate_config_digest cmd read_file libs exports reference pin inspected = (let image_id = obj_get inspected ''Id'' in
     bindIO (liftIO (pin_image pin ''config_digest'')) (\<lambda>config_digest.
     if py_eq image_id config_digest then retIO image_id
     else bindIO (liftIO (bindE (pin_image pin ''digest'') (\<lambda>digest.
         require (py_eq image_id digest) ''loaded candidate image identity changed''))) (\<lambda>_.
       bindIO (run cmd [''docker'', ''image'', ''save'', ''--output'', exports, reference] ''export loaded candidate identity'') (\<lambda>_.
       bindIO (read_file exports) (\<lambda>f. liftIO (read_export libs pin f))))))"

section \<open>Loading\<close>

definition require_absent :: "'w command \<Rightarrow> (string \<Rightarrow> json result) \<Rightarrow> string \<Rightarrow> string \<Rightarrow> ('w, unit) io" where
  "require_absent cmd loads reference m = bindIO (inspect_optional_docker_image cmd loads reference) (\<lambda>found.
     liftIO (require (found = None) m))"

text \<open>\<open>finally\<close>: the references made so far are removed when a step raises.\<close>

definition undoing :: "'w command \<Rightarrow> (string \<Rightarrow> json result) \<Rightarrow> string list \<Rightarrow> ('w, 'a) io \<Rightarrow> ('w, 'a) io" where
  "undoing cmd loads references m = tryIO m (\<lambda>e. bindIO (remove_candidate_images cmd loads references) (\<lambda>_. raiseIO e))"

definition resolved :: "'w command \<Rightarrow> (string \<Rightarrow> json result) \<Rightarrow> string \<Rightarrow> string \<Rightarrow> ('w, json) io" where
  "resolved cmd loads reference m = bindIO (inspect_optional_docker_image cmd loads reference) (\<lambda>found.
     case found of None \<Rightarrow> raiseIO (ValueError m) | Some v \<Rightarrow> retIO v)"

definition load_and_tag :: "'w command \<Rightarrow> (string \<Rightarrow> json result) \<Rightarrow> (string \<Rightarrow> ('w, inode option) io) \<Rightarrow> oci_libs \<Rightarrow> string
    \<Rightarrow> json \<Rightarrow> string \<Rightarrow> string \<Rightarrow> string \<Rightarrow> ('w, json) io" where
  "load_and_tag cmd loads read_file libs exports pin archive_path expected verified =
     bindIO (run cmd [''docker'', ''load'', ''--input'', archive_path] ''load verified candidate archive'') (\<lambda>_.
     bindIO (resolved cmd loads expected ''loaded candidate image could not be resolved by its new archive tag'') (\<lambda>inspected.
     bindIO (exported_candidate_config_digest cmd read_file libs exports expected pin inspected) (\<lambda>exported.
     bindIO (liftIO (assert_loaded_candidate_inspection inspected pin exported)) (\<lambda>_.
     bindIO (run cmd [''docker'', ''image'', ''tag'', expected, verified] ''bind loaded candidate runtime reference'') (\<lambda>_.
     retIO exported)))))"

definition recheck_bound :: "'w command \<Rightarrow> (string \<Rightarrow> json result) \<Rightarrow> json \<Rightarrow> json \<Rightarrow> string \<Rightarrow> string \<Rightarrow> ('w, unit) io" where
  "recheck_bound cmd loads pin exported archive_reference verified =
     bindIO (resolved cmd loads verified ''bound candidate runtime image could not be resolved'') (\<lambda>rebound.
     bindIO (liftIO (assert_loaded_candidate_inspection rebound pin exported)) (\<lambda>_.
     remove_candidate_image cmd loads archive_reference))"

definition load_candidate_archive :: "'w command \<Rightarrow> (string \<Rightarrow> json result) \<Rightarrow> (string \<Rightarrow> ('w, inode option) io) \<Rightarrow> oci_libs
    \<Rightarrow> user \<Rightarrow> string \<Rightarrow> json \<Rightarrow> string \<Rightarrow> staged_file \<Rightarrow> ('w, string) io" where
  "load_candidate_archive cmd loads read_file libs user exports pin archive_path sf =
     bindIO (liftIO (verify_staged_candidate_archive libs user pin sf)) (\<lambda>_.
     bindIO (liftIO (candidate_archive_reference pin)) (\<lambda>archive_reference.
     bindIO (liftIO (candidate_manifest_reference pin)) (\<lambda>expected.
     bindIO (liftIO (image_reference pin)) (\<lambda>verified.
     bindIO (require_absent cmd loads archive_reference ''candidate archive tag already exists locally'') (\<lambda>_.
     bindIO (require_absent cmd loads expected ''candidate archive digest selection already exists locally'') (\<lambda>_.
     bindIO (require_absent cmd loads verified ''verified candidate tag already exists locally'') (\<lambda>_.
     bindIO (undoing cmd loads [archive_reference]
       (load_and_tag cmd loads read_file libs exports pin archive_path expected verified)) (\<lambda>exported.
     bindIO (undoing cmd loads [archive_reference, verified] (recheck_bound cmd loads pin exported archive_reference verified)) (\<lambda>_.
     retIO verified)))))))))"

end
