(* ===== verification/Artifact_Load_Props.thy ===== *)
theory Artifact_Load_Props
  imports Artifact_Load
begin

text \<open>
  What loading a candidate leaves behind, over what \<open>docker\<close> documents of its commands: an inspection
  that reports no such image is right, removing and inspecting make no image appear, and a command
  that does not complete raises \<open>OSError\<close> or times out.
\<close>

section \<open>The daemon\<close>

text \<open>\<open>refs w r\<close>: the reference \<open>r\<close> resolves to an image in \<open>w\<close>.\<close>

definition documented_docker :: "'w command \<Rightarrow> (string \<Rightarrow> json result) \<Rightarrow> ('w \<Rightarrow> string \<Rightarrow> bool) \<Rightarrow> bool" where
  "documented_docker cmd loads refs \<longleftrightarrow>
     (\<forall>r w rc out err w'. cmd (inspect_args r) w = (Inr (rc, out, err), w') \<longrightarrow> rc \<noteq> 0 \<longrightarrow> says_missing err \<longrightarrow> \<not> refs w' r)
     \<and> (\<forall>r x w. refs (snd (cmd (inspect_args r) w)) x \<longrightarrow> refs w x)
     \<and> (\<forall>r x w. refs (snd (cmd (remove_args r) w)) x \<longrightarrow> refs w x)
     \<and> (\<forall>args w e w'. cmd args w = (Inl e, w') \<longrightarrow> is_OSError e \<or> e = TimeoutExpired)
     \<and> (\<forall>s e. loads s = Inl e \<longrightarrow> e = JSONDecodeError)"

lemma docker_honest: "documented_docker cmd loads refs \<Longrightarrow> cmd (inspect_args r) w = (Inr (rc, out, err), w')
    \<Longrightarrow> rc \<noteq> 0 \<Longrightarrow> says_missing err \<Longrightarrow> \<not> refs w' r"
  unfolding documented_docker_def by blast

lemma docker_keeps [intro]:
  "documented_docker cmd loads refs \<Longrightarrow> keeps (\<lambda>w. \<not> refs w x) (cmd (inspect_args r))"
  "documented_docker cmd loads refs \<Longrightarrow> keeps (\<lambda>w. \<not> refs w x) (cmd (remove_args r))"
  unfolding documented_docker_def keeps_def by blast+

lemma docker_raises: "documented_docker cmd loads refs \<Longrightarrow> cmd args w = (Inl e, w') \<Longrightarrow> is_OSError e \<or> e = TimeoutExpired"
  unfolding documented_docker_def by blast

lemma docker_loads: "documented_docker cmd loads refs \<Longrightarrow> loads s = Inl e \<Longrightarrow> e = JSONDecodeError"
  unfolding documented_docker_def by blast

lemma completes_keeps [intro]: "keeps I (cmd args) \<Longrightarrow> keeps I (completes cmd args m)"
  unfolding completes_def by (intro keeps_tryIO keeps_basic)

lemma inspect_keeps [intro]:
  "documented_docker cmd loads refs \<Longrightarrow> keeps (\<lambda>w. \<not> refs w x) (inspect_optional_docker_image cmd loads r)"
  unfolding inspect_optional_docker_image_def
  by (intro keeps_bindIO completes_keeps docker_keeps) (auto split: prod.splits)

lemma remove_keeps [intro]:
  "documented_docker cmd loads refs \<Longrightarrow> keeps (\<lambda>w. \<not> refs w x) (remove_candidate_image cmd loads r)"
  unfolding remove_candidate_image_def by (intro keeps_bindIO completes_keeps docker_keeps inspect_keeps keeps_if) auto

lemma remove_each_keeps [intro]:
  "documented_docker cmd loads refs \<Longrightarrow> keeps (\<lambda>w. \<not> refs w x) (remove_each cmd loads rs)"
  by (induction rs) (auto intro!: keeps_bindIO keeps_tryIO)

section \<open>Inspections and removals\<close>

lemma run_Inr: "run cmd args label w = (Inr out, w') \<Longrightarrow> \<exists>raw err. cmd args w = (Inr (0, raw, err), w') \<and> out = strip raw"
  by (auto simp: run_def bindIO_def tryIO_def split: prod.splits sum.splits if_splits)

lemma completes_raises:
  "documented_docker cmd loads refs \<Longrightarrow> completes cmd args m w = (Inl e, w') \<Longrightarrow> is_RuntimeError e"
  by (auto simp: completes_def tryIO_def split: prod.splits sum.splits if_splits dest: docker_raises)

lemma inspect_raises:
  assumes "documented_docker cmd loads refs" and "inspect_optional_docker_image cmd loads r w = (Inl e, w')"
  shows "is_RuntimeError e"
  using assms(2) completes_raises [OF assms(1)] docker_loads [OF assms(1)]
  unfolding inspect_optional_docker_image_def
  by (auto simp: bindIO_def image_json_def catchE_def bindE_eq_Inl split: prod.splits sum.splits if_splits)

lemma inspect_absent:
  assumes "documented_docker cmd loads refs" and "inspect_optional_docker_image cmd loads r w = (Inr None, w')"
  shows "\<not> refs w' r"
  using assms(2) docker_honest [OF assms(1)]
  unfolding inspect_optional_docker_image_def completes_def
  by (auto simp: bindIO_def tryIO_def split: prod.splits sum.splits if_splits)

lemma inspect_found:
  assumes "inspect_optional_docker_image cmd loads r w = (Inr (Some v), w')"
  shows "\<exists>w1 out err w2. cmd (inspect_args r) w1 = (Inr (0, out, err), w2) \<and> loads out = Inr v"
  using assms unfolding inspect_optional_docker_image_def completes_def
  by (auto simp: bindIO_def tryIO_def image_json_def catchE_def simp del: json_tests split: prod.splits sum.splits if_splits)

lemma remove_absent:
  assumes "documented_docker cmd loads refs" and "remove_candidate_image cmd loads r w = (Inr u, w')"
  shows "\<not> refs w' r"
  using assms(2) inspect_absent [OF assms(1)]
  unfolding remove_candidate_image_def by (auto simp: bindIO_def split: prod.splits sum.splits if_splits)

lemma remove_raises:
  assumes "documented_docker cmd loads refs" and "remove_candidate_image cmd loads r w = (Inl e, w')"
  shows "is_RuntimeError e"
  using assms(2) completes_raises [OF assms(1)] inspect_raises [OF assms(1)]
  unfolding remove_candidate_image_def by (auto simp: bindIO_def split: prod.splits sum.splits if_splits)

lemma remove_each_counts:
  assumes "documented_docker cmd loads refs"
  shows "\<exists>n w'. remove_each cmd loads rs w = (Inr n, w') \<and> (n = 0 \<longrightarrow> (\<forall>r\<in>set rs. \<not> refs w' r))"
proof (induction rs arbitrary: w)
  case (Cons r rs)
  obtain res w1 where one: "remove_candidate_image cmd loads r w = (res, w1)" by (cases "remove_candidate_image cmd loads r w")
  from Cons obtain n w' where n: "remove_each cmd loads rs w1 = (Inr n, w')" "n = 0 \<longrightarrow> (\<forall>r\<in>set rs. \<not> refs w' r)" by blast
  show ?case
  proof (cases res)
    case (Inl e)
    with one remove_raises [OF assms] have "is_RuntimeError e" by blast
    with one Inl n show ?thesis by (simp add: bindIO_def tryIO_def)
  next
    case (Inr u)
    with one remove_absent [OF assms] have "\<not> refs w1 r" by blast
    with remove_each_keeps [OF assms, of r rs] n(1) have "\<not> refs w' r" using keepsD by fastforce
    with one Inr n show ?thesis by (simp add: bindIO_def tryIO_def)
  qed
qed simp

lemma remove_images_outcome:
  assumes "documented_docker cmd loads refs" and "remove_candidate_images cmd loads rs w = (r, w')"
  shows "r = Inl cleanup_failed \<or> (r = Inr () \<and> (\<forall>x\<in>set rs. \<not> refs w' x))"
  using assms(2) remove_each_counts [OF assms(1), of "rev (remdups (rev rs))" w]
  unfolding remove_candidate_images_def by (auto simp: bindIO_def split: if_splits)

lemma undoing_outcome:
  assumes "documented_docker cmd loads refs" and "undoing cmd loads rs m w = (Inl e, w')" and "a \<in> set rs"
  shows "e = cleanup_failed \<or> \<not> refs w' a"
proof -
  from assms(2) obtain e1 w1 r w2 where "m w = (Inl e1, w1)" and rm: "remove_candidate_images cmd loads rs w1 = (r, w2)"
    and res: "(case r of Inl f \<Rightarrow> f | Inr _ \<Rightarrow> e1) = e" and w': "w2 = w'"
    by (auto simp: undoing_def tryIO_def bindIO_def split: prod.splits sum.splits)
  from remove_images_outcome [OF assms(1) rm] res w' assms(3) show ?thesis by auto
qed

lemma undoing_Inr: "undoing cmd loads rs m w = (Inr x, w') \<Longrightarrow> m w = (Inr x, w')"
proof -
  assume "undoing cmd loads rs m w = (Inr x, w')"
  then show ?thesis by (auto simp: undoing_def tryIO_def bindIO_def split: prod.splits sum.splits)
qed

section \<open>Loading\<close>

lemma require_absent_keeps [intro]:
  "documented_docker cmd loads refs \<Longrightarrow> keeps (\<lambda>w. \<not> refs w x) (require_absent cmd loads r m)"
  unfolding require_absent_def by (intro keeps_bindIO inspect_keeps) auto

lemma recheck_bound_Inr:
  assumes "documented_docker cmd loads refs" and "recheck_bound cmd loads pin exported a v w = (Inr u, w')"
  shows "\<not> refs w' a \<and> (\<exists>w1 out err w2 j. cmd (inspect_args v) w1 = (Inr (0, out, err), w2) \<and> loads out = Inr j
     \<and> assert_loaded_candidate_inspection j pin exported = Inr ())"
proof -
  from assms(2) obtain j w1 w2 where "resolved cmd loads v ''bound candidate runtime image could not be resolved'' w = (Inr j, w1)"
    and j: "assert_loaded_candidate_inspection j pin exported = Inr ()" and rm: "remove_candidate_image cmd loads a w2 = (Inr u, w')"
    unfolding recheck_bound_def by (auto simp: bindIO_OK)
  then have "inspect_optional_docker_image cmd loads v w = (Inr (Some j), w1)"
    unfolding resolved_def by (auto simp: bindIO_OK split: option.splits)
  from inspect_found [OF this] j remove_absent [OF assms(1) rm] show ?thesis by blast
qed

text \<open>
  Claim C13. Loading a candidate either binds the pinned image or leaves no tag of the archive behind.
  Over a daemon that behaves as documented, from a state without the archive's tag: when the load
  returns, it returns the verified reference, which an inspection then showed to be the pinned image
  (manifest digest, configuration digest, platform, runtime configuration), and the archive's tag is
  gone; when it raises, at whatever step, the archive's tag does not resolve afterwards, unless the
  cleanup itself failed, which is then the error raised.
\<close>

theorem failed_load_undone:
  assumes docker: "documented_docker cmd loads refs"
    and a: "candidate_archive_reference pin = Inr a" and fresh: "\<not> refs w a"
  shows "case load_candidate_archive cmd loads read_file libs user exports pin archive_path sf w of
     (Inl e, w') \<Rightarrow> (if refs w' a then e = cleanup_failed else True)
   | (Inr r, w') \<Rightarrow> image_reference pin = Inr r \<and> \<not> refs w' a
       \<and> (\<exists>exported w1 out err w2 j. cmd (inspect_args r) w1 = (Inr (0, out, err), w2) \<and> loads out = Inr j
            \<and> assert_loaded_candidate_inspection j pin exported = Inr ())"
proof (cases "verify_staged_candidate_archive libs user pin sf = Inr () \<and> isOK (candidate_manifest_reference pin) \<and> isOK (image_reference pin)")
  case False
  then show ?thesis using fresh a
    by (cases "verify_staged_candidate_archive libs user pin sf"; cases "candidate_manifest_reference pin"; cases "image_reference pin")
      (simp_all add: load_candidate_archive_def)
next
  case True
  then obtain x v where x: "candidate_manifest_reference pin = Inr x" and v: "image_reference pin = Inr v" by (auto simp: isOK_iff)
  define prechecks where "prechecks = bindIO (require_absent cmd loads a ''candidate archive tag already exists locally'')
    (\<lambda>_. bindIO (require_absent cmd loads x ''candidate archive digest selection already exists locally'')
    (\<lambda>_. require_absent cmd loads v ''verified candidate tag already exists locally''))"
  let ?tag = "undoing cmd loads [a] (load_and_tag cmd loads read_file libs exports pin archive_path x v)"
  let ?recheck = "\<lambda>exported. undoing cmd loads [a, v] (recheck_bound cmd loads pin exported a v)"
  have load: "load_candidate_archive cmd loads read_file libs user exports pin archive_path sf
      = bindIO prechecks (\<lambda>_. bindIO ?tag (\<lambda>exported. bindIO (?recheck exported) (\<lambda>_. retIO v)))"
    by (simp add: load_candidate_archive_def prechecks_def a x v True bindIO_assoc)
  have keeps: "keeps (\<lambda>w. \<not> refs w a) prechecks"
    unfolding prechecks_def by (intro keeps_bindIO require_absent_keeps docker)
  obtain r1 w1 where 1: "prechecks w = (r1, w1)" by (cases "prechecks w")
  with keeps fresh have no1: "\<not> refs w1 a" using keepsD by fastforce
  obtain r2 w2 where 2: "?tag w1 = (r2, w2)" by (cases "?tag w1")
  show ?thesis
  proof (cases r1)
    case (Inl e)
    with 1 no1 show ?thesis by (simp add: load bindIO_def)
  next
    case r1: (Inr u)
    show ?thesis
    proof (cases r2)
      case (Inl e)
      with undoing_outcome [OF docker 2 [unfolded Inl], of a] 1 2 r1 show ?thesis by (auto simp: load bindIO_def)
    next
      case r2: (Inr exported)
      obtain r3 w3 where 3: "?recheck exported w2 = (r3, w3)" by (cases "?recheck exported w2")
      show ?thesis
      proof (cases r3)
        case (Inl e)
        with undoing_outcome [OF docker 3 [unfolded Inl], of a] 1 2 3 r1 r2 show ?thesis by (auto simp: load bindIO_def)
      next
        case (Inr u')
        from recheck_bound_Inr [OF docker undoing_Inr [OF 3 [unfolded Inr]]] 1 2 3 r1 r2 Inr v
        show ?thesis by (auto simp: load bindIO_def) blast
      qed
    qed
  qed
qed

text \<open>A daemon whose state is the list of its references: what the commands do to it.\<close>

definition list_docker :: "string list command" where
  "list_docker args rs =
     (if args = inspect_args (args ! 3) then (Inr (if args ! 3 \<in> set rs then (0, ''{}'', []) else (1, [], ''Error: No such image'')), rs)
      else if args = remove_args (args ! 4) then (Inr (0, [], []), filter (\<lambda>r. r \<noteq> args ! 4) rs)
      else if take 3 args = [''docker'', ''image'', ''tag''] then (Inr (0, [], []), last args # rs)
      else (Inr (0, [], []), rs))"

lemma list_docker_documented: "documented_docker list_docker (\<lambda>s. Inr (JObj [])) (\<lambda>rs r. r \<in> set rs)"
  unfolding documented_docker_def
  by (auto simp: list_docker_def inspect_args_def remove_args_def says_missing_def split: if_splits)

lemma failed_load_undone_witness:
  "\<forall>libs sf. case load_candidate_archive list_docker (\<lambda>s. Inr (JObj [])) (\<lambda>p. retIO None) libs None ''/tmp/out''
      (JObj [(''image'', JObj [(''archive_tag'', JStr ''candidate-1'')])]) ''/tmp/in'' sf [] of
     (Inl e, w') \<Rightarrow> (if candidate_local_image_repository @ '':candidate-1'' \<in> set w' then e = cleanup_failed else True)
   | (Inr r, w') \<Rightarrow> image_reference (JObj [(''image'', JObj [(''archive_tag'', JStr ''candidate-1'')])]) = Inr r
       \<and> candidate_local_image_repository @ '':candidate-1'' \<notin> set w'
       \<and> (\<exists>exported w1 out err w2 j. list_docker (inspect_args r) w1 = (Inr (0, out, err), w2)
            \<and> (Inr (JObj []) :: json result) = Inr j
            \<and> assert_loaded_candidate_inspection j (JObj [(''image'', JObj [(''archive_tag'', JStr ''candidate-1'')])]) exported = Inr ())"
  by (intro allI, rule failed_load_undone [OF list_docker_documented])
    (simp_all add: candidate_archive_reference_def)

end
