(* ===== verification/Artifact_Candidate.thy ===== *)
theory Artifact_Candidate
  imports Artifact_Load Artifact_Sbom
begin

text \<open>
  The evidence that comes with a candidate, in \<^verbatim>\<open>scripts/credentials_verifier_artifact.py\<close>: the
  attestations of the staged pin and archive and the producer run (\<open>verify_candidate_attestations\<close>),
  and the agreement of archive, SBOM, build metadata and provenance with the pin
  (\<open>validate_candidate_inputs\<close>). \<open>loads\<close> stands for \<open>json.loads\<close> of text, \<open>loads_bytes\<close> for the
  decoding and parsing of bytes.
\<close>

section \<open>Attestations\<close>

definition in_toto_statement_v1 :: string where "in_toto_statement_v1 = ''https://in-toto.io/Statement/v1''"
definition slsa_provenance_v1 :: string where "slsa_provenance_v1 = ''https://slsa.dev/provenance/v1''"
definition candidate_signer_workflow :: string where
  "candidate_signer_workflow = ''github.com/'' @ rust_repository @ ''/'' @ candidate_build_workflow"

text \<open>What the producer run of a pin must be, read from the pin once.\<close>

record producer =
  pr_run_id :: string
  pr_attempt :: json
  pr_source_ref :: json
  pr_commit :: json

definition expected_invocation :: "producer \<Rightarrow> string" where
  "expected_invocation p = ''https://github.com/'' @ rust_repository @ ''/actions/runs/'' @ pr_run_id p @ ''/attempts/'' @ py_str (pr_attempt p)"

definition expected_builder :: "producer \<Rightarrow> string" where
  "expected_builder p = ''https://github.com/'' @ rust_repository @ ''/'' @ candidate_build_workflow @ ''@'' @ py_str (pr_source_ref p)"

definition producer_of :: "json \<Rightarrow> producer result" where
  "producer_of pin = bindE (py_key pin ''run'') (\<lambda>run. bindE (py_key run ''id'') (\<lambda>i. bindE (py_key run ''attempt'') (\<lambda>a.
     bindE (py_key pin ''source_ref'') (\<lambda>r. bindE (py_key pin ''commit'') (\<lambda>c.
     ret \<lparr>pr_run_id = py_str i, pr_attempt = a, pr_source_ref = r, pr_commit = c\<rparr>)))))"

definition attested_subject :: "string \<Rightarrow> string \<Rightarrow> json" where
  "attested_subject name digest = JArr [JObj [(''name'', JStr name),
     (''digest'', JObj [(''sha256'', JStr (removeprefix digest ''sha256:''))])]]"

definition source_dependency :: "producer \<Rightarrow> json" where
  "source_dependency p = JObj [(''uri'', JStr (''git+https://github.com/'' @ rust_repository @ ''@'' @ py_str (pr_source_ref p))),
     (''digest'', JObj [(''gitCommit'', pr_commit p)])]"

definition build_workflow :: "producer \<Rightarrow> json" where
  "build_workflow p = JObj [(''ref'', pr_source_ref p), (''repository'', JStr (''https://github.com/'' @ rust_repository)),
     (''path'', JStr candidate_build_workflow)]"

text \<open>Whether an item of the answer is counted: every \<open>continue\<close> of the loop is a conjunct.\<close>

definition accepts_statement :: "producer \<Rightarrow> string \<Rightarrow> string \<Rightarrow> json \<Rightarrow> bool" where
  "accepts_statement p name digest statement = (let predicate = obj_get statement ''predicate'';
       definition = obj_get predicate ''buildDefinition''; details = obj_get predicate ''runDetails'';
       external = obj_get definition ''externalParameters''; builder = obj_get details ''builder'';
       metadata = obj_get details ''metadata''; dependencies = obj_get definition ''resolvedDependencies'' in
     is_dict statement \<and> obj_get statement ''_type'' = JStr in_toto_statement_v1
     \<and> obj_get statement ''predicateType'' = JStr slsa_provenance_v1
     \<and> py_eq (obj_get statement ''subject'') (attested_subject name digest)
     \<and> is_dict predicate \<and> is_dict definition \<and> is_dict details
     \<and> is_dict external \<and> is_dict builder \<and> is_dict metadata
     \<and> is_list dependencies \<and> py_eq (obj_get external ''workflow'') (build_workflow p)
     \<and> list_ex (\<lambda>d. py_eq d (source_dependency p)) (arr_of dependencies)
     \<and> obj_get builder ''id'' = JStr (expected_builder p)
     \<and> obj_get metadata ''invocationId'' = JStr (expected_invocation p))"

definition accepts_item :: "producer \<Rightarrow> string \<Rightarrow> string \<Rightarrow> json \<Rightarrow> bool" where
  "accepts_item p name digest item = (let verification = obj_get item ''verificationResult'' in
     is_dict item \<and> is_dict verification \<and> accepts_statement p name digest (obj_get verification ''statement''))"

definition attestation_command :: "producer \<Rightarrow> string \<Rightarrow> string list" where
  "attestation_command p file_path = [''gh'', ''attestation'', ''verify'', file_path, ''--repo'', rust_repository,
     ''--signer-workflow'', candidate_signer_workflow, ''--signer-digest'', str_of (pr_commit p),
     ''--source-digest'', str_of (pr_commit p), ''--source-ref'', str_of (pr_source_ref p),
     ''--deny-self-hosted-runners'', ''--format'', ''json'']"

text \<open>A command line holds strings only: anything else in it is a \<open>TypeError\<close>.\<close>

definition verify_subject :: "'w command \<Rightarrow> (string \<Rightarrow> json result) \<Rightarrow> producer \<Rightarrow> string \<Rightarrow> string \<Rightarrow> string \<Rightarrow> string
    \<Rightarrow> ('w, json) io" where
  "verify_subject cmd loads p file_path label name digest =
     bindIO (liftIO (if is_str (pr_commit p) \<and> is_str (pr_source_ref p) then ret () else raise TypeError)) (\<lambda>_.
     bindIO (run cmd (attestation_command p file_path) (''verify candidate '' @ label @ '' attestation'')) (\<lambda>out.
     bindIO (liftIO (loads out)) (\<lambda>v. liftIO (
       bindE (require (is_list v \<and> arr_of v \<noteq> []) (''candidate '' @ label @ '' attestation verification returned no result'')) (\<lambda>_.
       case filter (accepts_item p name digest) (arr_of v) of
         [item] \<Rightarrow> ret item
       | _ \<Rightarrow> raise (ValueError (''candidate '' @ label @ '' attestation did not bind the exact attested subject and producer run'')))))))"

definition run_record_checks :: "producer \<Rightarrow> json \<Rightarrow> (bool \<times> string) list" where
  "run_record_checks p r =
     [(is_dict r, ''candidate producer run response changed''),
      (obj_get r ''status'' = JStr ''completed'' \<and> obj_get r ''conclusion'' = JStr ''success'',
       ''candidate producer run has not completed successfully''),
      (py_eq (obj_get r ''head_sha'') (pr_commit p) \<and> obj_get r ''head_branch'' = JStr ''main''
       \<and> obj_get r ''event'' = JStr ''workflow_dispatch'' \<and> py_eq (obj_get r ''run_attempt'') (pr_attempt p)
       \<and> obj_get r ''path'' = JStr candidate_build_workflow, ''candidate producer run identity or conclusion changed'')]"

definition verify_candidate_attestations :: "'w command \<Rightarrow> (string \<Rightarrow> json result) \<Rightarrow> (bytes \<Rightarrow> json result) \<Rightarrow> json \<Rightarrow> string \<Rightarrow> inode
    \<Rightarrow> string \<Rightarrow> inode \<Rightarrow> bytes \<Rightarrow> ('w, json \<times> json) io" where
  "verify_candidate_attestations cmd loads loads_bytes pin pin_path pin_file archive_path archive_file pin_raw =
     bindIO (liftIO (producer_of pin)) (\<lambda>p.
     bindIO (liftIO (require (0 < length pin_raw \<and> length pin_raw \<le> max_pin_bytes) ''candidate pin snapshot is too large or empty'')) (\<lambda>_.
     bindIO (liftIO (parse_pin loads_bytes pin_raw ''candidate'')) (\<lambda>parsed.
     bindIO (liftIO (require (py_eq parsed pin) ''candidate pin snapshot does not match the validated pin'')) (\<lambda>_.
     bindIO (liftIO (private_read pin_file ''staged candidate pin'' max_pin_bytes)) (\<lambda>staged.
     bindIO (liftIO (require (staged = pin_raw) ''staged candidate pin does not match the validated snapshot'')) (\<lambda>_.
     bindIO (liftIO (private_digest archive_file ''staged candidate archive'' max_archive_bytes)) (\<lambda>archive_digest.
     bindIO (liftIO (py_key pin ''archive'')) (\<lambda>archive.
     bindIO (liftIO (bindE (py_key archive ''digest'') (\<lambda>d.
       require (d = JStr archive_digest) ''staged candidate archive digest changed before attestation''))) (\<lambda>_.
     bindIO (verify_subject cmd loads p pin_path ''pin'' ''verification-candidate.json'' (sha_digest pin_raw)) (\<lambda>pin_item.
     bindIO (liftIO (py_key archive ''asset'')) (\<lambda>asset.
     bindIO (verify_subject cmd loads p archive_path ''archive'' (str_of asset) archive_digest) (\<lambda>archive_item.
     bindIO (run cmd [''gh'', ''api'', ''repos/'' @ rust_repository @ ''/actions/runs/'' @ pr_run_id p @ ''/attempts/'' @ py_str (pr_attempt p)]
       ''verify candidate producer run'') (\<lambda>out.
     bindIO (liftIO (loads out)) (\<lambda>record.
     bindIO (liftIO (checks (run_record_checks p record))) (\<lambda>_. retIO (pin_item, archive_item))))))))))))))))"

section \<open>The inputs of a candidate\<close>

definition candidate_metadata_schema :: string where
  "candidate_metadata_schema = ''elevenid.marty-ui.services-candidate-build-metadata/v1''"
definition candidate_provenance_schema :: string where
  "candidate_provenance_schema = ''elevenid.marty-ui.services-candidate-provenance/v1''"
definition max_candidate_metadata_bytes :: nat where "max_candidate_metadata_bytes = 4 * 1024 * 1024"
definition max_candidate_provenance_bytes :: nat where "max_candidate_provenance_bytes = 4 * 1024 * 1024"

definition candidate_source :: "json \<Rightarrow> json result" where
  "candidate_source pin = bindE (py_key pin ''repository'') (\<lambda>r. bindE (py_key pin ''commit'') (\<lambda>c. bindE (py_key pin ''source_ref'') (\<lambda>s.
     ret (JObj [(''repository'', r), (''commit'', c), (''ref'', s)]))))"

definition expected_build :: "json \<Rightarrow> json \<Rightarrow> json \<Rightarrow> json" where
  "expected_build dockerfile_digest version commit = JObj
     [(''context'', JStr ''.''), (''dockerfile'', JStr ''services/Dockerfile''), (''dockerfile_digest'', dockerfile_digest),
      (''platform'', JStr ''linux/amd64''), (''version'', version),
      (''arguments'', JObj [(''SERVICE_NAME'', JStr ''verification''), (''MARTY_RELEASE_VERSION'', version), (''MARTY_UI_SHA'', commit)])]"

definition expected_subjects :: "json \<Rightarrow> json result" where
  "expected_subjects pin = bindE (pick pin [''archive'', ''image'', ''sbom'', ''metadata'']) (\<lambda>kvs. ret (JObj kvs))"

definition validate_metadata :: "json \<Rightarrow> json \<Rightarrow> json \<Rightarrow> unit result" where
  "validate_metadata pin source metadata = (let build = obj_get metadata ''build'' in
     bindE (checks [(is_dict metadata, ''candidate metadata must be a JSON object''),
       (obj_keys metadata = {''schema'', ''source'', ''builder'', ''build'', ''image''}, ''candidate metadata shape changed''),
       (obj_get metadata ''schema'' = JStr candidate_metadata_schema, ''candidate metadata schema changed''),
       (py_eq (obj_get metadata ''source'') source, ''candidate metadata source changed'')]) (\<lambda>_.
     bindE (py_key pin ''run'') (\<lambda>run.
     bindE (checks [(py_eq (obj_get metadata ''builder'') run, ''candidate metadata builder changed''),
       (is_dict build, ''candidate build metadata is required'')]) (\<lambda>_.
     bindE (py_key pin ''version'') (\<lambda>version. bindE (py_key pin ''commit'') (\<lambda>commit.
     bindE (require (py_eq build (expected_build (obj_get build ''dockerfile_digest'') version commit))
       ''candidate build metadata changed'') (\<lambda>_.
     bindE (require_digest (obj_get build ''dockerfile_digest'') ''candidate Dockerfile digest must be sha256:<64 lowercase hex>'') (\<lambda>_.
     bindE (py_key pin ''image'') (\<lambda>image.
     require (py_eq (obj_get metadata ''image'') image) ''candidate metadata image changed'')))))))))"

definition validate_provenance :: "json \<Rightarrow> json \<Rightarrow> json \<Rightarrow> unit result" where
  "validate_provenance pin source provenance =
     bindE (checks [(is_dict provenance, ''candidate provenance must be a JSON object''),
       (obj_keys provenance = {''schema'', ''source'', ''builder'', ''subjects''}, ''candidate provenance shape changed''),
       (obj_get provenance ''schema'' = JStr candidate_provenance_schema, ''candidate provenance schema changed''),
       (py_eq (obj_get provenance ''source'') source, ''candidate provenance source changed'')]) (\<lambda>_.
     bindE (py_key pin ''run'') (\<lambda>run.
     bindE (require (py_eq (obj_get provenance ''builder'') run) ''candidate provenance builder changed'') (\<lambda>_.
     bindE (expected_subjects pin) (\<lambda>subjects.
     require (py_eq (obj_get provenance ''subjects'') subjects) ''candidate provenance subjects changed''))))"

text \<open>\<open>pin[k]["digest"]\<close> is the digest of what was read.\<close>

definition pinned_digest :: "json \<Rightarrow> string \<Rightarrow> string \<Rightarrow> unit result" where
  "pinned_digest pin k digest = bindE (bindE (py_key pin k) (\<lambda>a. py_key a ''digest'')) (\<lambda>d.
     require (d = JStr digest) (''candidate '' @ (if k = ''sbom'' then ''SBOM'' else k) @ '' digest changed''))"

fun preflight_all :: "disk \<Rightarrow> (string \<times> string \<times> nat) list \<Rightarrow> (nat, unit) io" where
  "preflight_all d [] = retIO ()"
| "preflight_all d ((p, label, maximum) # ps) = bindIO (preflight_regular_file d p label maximum) (\<lambda>_. preflight_all d ps)"

text \<open>The documents, once the bytes of the three files are read and the archive is inspected.\<close>

definition validate_documents :: "(bytes \<Rightarrow> json result) \<Rightarrow> json \<Rightarrow> bytes \<Rightarrow> bytes \<Rightarrow> bytes \<Rightarrow> json result" where
  "validate_documents parse pin sbom_raw metadata_raw provenance_raw =
     bindE (validate_sbom parse pin sbom_raw) (\<lambda>_.
     bindE (candidate_source pin) (\<lambda>source.
     bindE (parse metadata_raw) (\<lambda>metadata.
     bindE (validate_metadata pin source metadata) (\<lambda>_.
     bindE (parse provenance_raw) (\<lambda>provenance.
     bindE (validate_provenance pin source provenance) (\<lambda>_. ret provenance))))))"

text \<open>The archive is inspected as the disk has it at one time.\<close>

definition validate_candidate_inputs :: "disk \<Rightarrow> oci_libs \<Rightarrow> json \<Rightarrow> string \<Rightarrow> string \<Rightarrow> string \<Rightarrow> string \<Rightarrow> (nat, json) io" where
  "validate_candidate_inputs d libs pin archive_path sbom_path metadata_path provenance_path =
     bindIO (liftIO (bindE (py_key pin ''schema'') (\<lambda>s. require (s = JStr candidate_pin_schema) ''candidate validation requires a candidate pin''))) (\<lambda>_.
     bindIO (preflight_all d [(archive_path, ''OCI archive'', max_archive_bytes), (sbom_path, ''candidate SBOM'', max_sbom_bytes),
       (metadata_path, ''candidate metadata'', max_candidate_metadata_bytes),
       (provenance_path, ''candidate provenance'', max_candidate_provenance_bytes)]) (\<lambda>_.
     bindIO (digest_bounded_regular_file d archive_path ''candidate archive'' max_archive_bytes) (\<lambda>archive_digest.
     bindIO (liftIO (pinned_digest pin ''archive'' archive_digest)) (\<lambda>_.
     bindIO (read_bounded_regular_file d sbom_path ''candidate SBOM'' max_sbom_bytes) (\<lambda>sbom_raw.
     bindIO (read_bounded_regular_file d metadata_path ''candidate metadata'' max_candidate_metadata_bytes) (\<lambda>metadata_raw.
     bindIO (read_bounded_regular_file d provenance_path ''candidate provenance'' max_candidate_provenance_bytes) (\<lambda>provenance_raw.
     bindIO (liftIO (pinned_digest pin ''sbom'' (sha_digest sbom_raw))) (\<lambda>_.
     bindIO (liftIO (pinned_digest pin ''metadata'' (sha_digest metadata_raw))) (\<lambda>_.
     bindIO (liftIO (pinned_digest pin ''provenance'' (sha_digest provenance_raw))) (\<lambda>_.
     bindIO (\<lambda>t. (case entry d t archive_path of None \<Rightarrow> raise OSError
         | Some i \<Rightarrow> inspect_archive libs (node_at d t i) pin, Suc t)) (\<lambda>_.
     liftIO (validate_documents (lib_parse libs) pin sbom_raw metadata_raw provenance_raw))))))))))))"

end
