(* ===== verification/Artifact_Candidate_Props.thy ===== *)
theory Artifact_Candidate_Props
  imports Artifact_Candidate Artifact_Load_Props Artifact_Sbom_Props
begin

text \<open>
  What the evidence of a candidate that is accepted binds: the attestations of pin and archive to the
  bytes that were staged and to the producer run, and the four input files to the pin.
\<close>

section \<open>Reads of private files\<close>

lemma private_disk_still: "still (private_disk f)" "opens (private_disk f) 0 p = entry (private_disk f) 0 p"
  by (simp_all add: still_def private_disk_def)

lemma private_read_Inr: "private_read f label maximum = Inr b \<Longrightarrow> regular f \<and> b = content f"
  unfolding private_read_def read_bounded_regular_file_def bounded_read_still [OF private_disk_still]
  by (auto simp: private_disk_def settled_read_def split: if_splits)

lemma private_digest_Inr: "private_digest f label maximum = Inr h \<Longrightarrow> regular f \<and> h = sha_digest (content f)"
proof -
  assume h: "private_digest f label maximum = Inr h"
  obtain r t where r: "bounded_read ''hashed'' (private_disk f) [] label maximum 0 = (r, t)"
    by (cases "bounded_read ''hashed'' (private_disk f) [] label maximum 0")
  with h obtain b where "r = Inr b" "h = sha_digest b"
    by (cases r) (auto simp: private_digest_def digest_bounded_regular_file_def bindIO_def)
  moreover have "fst (bounded_read ''hashed'' (private_disk f) [] label maximum 0) = settled_read label maximum (Some f)"
    unfolding bounded_read_still [OF private_disk_still] by (simp add: private_disk_def)
  ultimately show ?thesis using r by (auto simp: settled_read_def split: if_splits)
qed

section \<open>Attestations\<close>

lemma one_of_filter: "(case filter P xs of [x] \<Rightarrow> Inr x | _ \<Rightarrow> Inl e) = Inr y \<Longrightarrow> y \<in> set xs \<and> P y \<and> filter P xs = [y]"
proof -
  assume "(case filter P xs of [x] \<Rightarrow> Inr x | _ \<Rightarrow> Inl e) = Inr y"
  then have "filter P xs = [y]" by (auto split: list.splits)
  then have "y \<in> set (filter P xs)" by simp
  then have "y \<in> set xs \<and> P y" by (simp only: set_filter mem_Collect_eq)
  with \<open>filter P xs = [y]\<close> show ?thesis by blast
qed

lemma verify_subject_Inr:
  assumes "verify_subject cmd loads p file_path label name digest w = (Inr item, w')"
  shows "accepts_item p name digest item"
  using assms unfolding verify_subject_def
  by (auto simp: bindIO_OK simp del: json_tests dest: one_of_filter split: if_splits)

text \<open>What an accepted statement says, without the names of the model.\<close>

definition attests :: "json \<Rightarrow> json \<Rightarrow> bytes \<Rightarrow> json \<Rightarrow> bool" where
  "attests pin name bytes item = (case py_key pin ''run'' of Inl e \<Rightarrow> False | Inr build \<Rightarrow>
     let statement = obj_get (obj_get item ''verificationResult'') ''statement''; predicate = obj_get statement ''predicate'' in
       obj_get statement ''predicateType'' = JStr ''https://slsa.dev/provenance/v1''
       \<and> py_eq (obj_get statement ''subject'') (JArr [JObj [(''name'', name), (''digest'', JObj [(''sha256'', JStr (hexdigest bytes))])]])
       \<and> obj_get (obj_get (obj_get predicate ''runDetails'') ''builder'') ''id''
           = JStr (''https://github.com/ElevenID/marty-ui/'' @ candidate_build_workflow @ ''@'' @ py_str (obj_get pin ''source_ref''))
       \<and> obj_get (obj_get (obj_get predicate ''runDetails'') ''metadata'') ''invocationId''
           = JStr (''https://github.com/ElevenID/marty-ui/actions/runs/'' @ py_str (obj_get build ''id'') @ ''/attempts/'' @ py_str (obj_get build ''attempt''))
       \<and> list_ex (\<lambda>d. py_eq d (JObj [(''uri'', JStr (''git+https://github.com/ElevenID/marty-ui@'' @ py_str (obj_get pin ''source_ref''))),
            (''digest'', JObj [(''gitCommit'', obj_get pin ''commit'')])]))
          (arr_of (obj_get (obj_get predicate ''buildDefinition'') ''resolvedDependencies'')))"

lemma producer_of_Inr:
  assumes "producer_of pin = Inr p"
  obtains build where "py_key pin ''run'' = Inr build" "pr_run_id p = py_str (obj_get build ''id'')" "pr_attempt p = obj_get build ''attempt''"
    "pr_source_ref p = obj_get pin ''source_ref''" "pr_commit p = obj_get pin ''commit''"
proof -
  from assms obtain build i a r c where k: "py_key pin ''run'' = Inr build" "py_key build ''id'' = Inr i" "py_key build ''attempt'' = Inr a"
    "py_key pin ''source_ref'' = Inr r" "py_key pin ''commit'' = Inr c"
    and p: "p = \<lparr>pr_run_id = py_str i, pr_attempt = a, pr_source_ref = r, pr_commit = c\<rparr>"
    by (auto simp: producer_of_def simp del: py_key_Inr)
  from k(2-5) [THEN py_key_get] p that [OF k(1)] show ?thesis by simp
qed

lemma removeprefix_digest: "removeprefix (sha_digest b) ''sha256:'' = hexdigest b"
  by (simp add: sha_digest_def removeprefix_def startswith_def)

lemma accepts_attests:
  assumes "producer_of pin = Inr p" and "accepts_item p name (sha_digest bytes) item"
  shows "attests pin (JStr name) bytes item"
proof -
  from producer_of_Inr [OF assms(1)] obtain build where build: "py_key pin ''run'' = Inr build"
    and p: "pr_run_id p = py_str (obj_get build ''id'')" "pr_attempt p = obj_get build ''attempt''"
      "pr_source_ref p = obj_get pin ''source_ref''" "pr_commit p = obj_get pin ''commit''" .
  have r: "rust_repository = ''ElevenID/marty-ui''" by (simp add: rust_repository_def)
  have uri: "''https://github.com/'' @ ''ElevenID/marty-ui'' @ x = ''https://github.com/ElevenID/marty-ui'' @ x" for x by simp
  from assms(2) show ?thesis
    unfolding attests_def build sum.case Let_def accepts_item_def accepts_statement_def attested_subject_def removeprefix_digest
      expected_builder_def expected_invocation_def source_dependency_def p r slsa_provenance_v1_def
    by (simp del: json_tests py_eq.simps)
qed

text \<open>
  Claim C14. The attestations of a candidate bind the staged bytes: when they are verified, the staged pin
  is the snapshot that parses to this pin, the staged archive has the pin's digest, one attestation
  names the pin file under the digest of those very bytes, another the archive asset under the digest
  of those, each with the producer workflow, run, attempt, ref and commit of the pin, and the run is
  recorded as completed with success for that commit on main.
\<close>

theorem attestations_bind_staged:
  "case verify_candidate_attestations cmd loads loads_bytes pin pin_path pin_file archive_path archive_file pin_raw w of
     (Inl e, w') \<Rightarrow> True
   | (Inr (pin_item, archive_item), w') \<Rightarrow>
       content pin_file = pin_raw \<and> regular pin_file \<and> regular archive_file
       \<and> (\<exists>parsed. parse_pin loads_bytes pin_raw ''candidate'' = Inr parsed \<and> py_eq parsed pin)
       \<and> obj_get (obj_get pin ''archive'') ''digest'' = JStr (sha_digest (content archive_file))
       \<and> attests pin (JStr ''verification-candidate.json'') pin_raw pin_item
       \<and> attests pin (JStr (str_of (obj_get (obj_get pin ''archive'') ''asset''))) (content archive_file) archive_item
       \<and> (\<exists>out answer. loads out = Inr answer \<and> obj_get answer ''status'' = JStr ''completed'' \<and> obj_get answer ''conclusion'' = JStr ''success''
            \<and> py_eq (obj_get answer ''head_sha'') (obj_get pin ''commit'') \<and> obj_get answer ''head_branch'' = JStr ''main'')"
proof (cases "verify_candidate_attestations cmd loads loads_bytes pin pin_path pin_file archive_path archive_file pin_raw w")
  case (Pair r w')
  show ?thesis
  proof (cases r)
    case (Inr items)
    obtain pin_item archive_item where items: "items = (pin_item, archive_item)" by (cases items)
    from Pair Inr items obtain p parsed archive archive_digest asset w1 w2 w3 w4 out answer
      where p: "producer_of pin = Inr p"
        and parsed: "parse_pin loads_bytes pin_raw ''candidate'' = Inr parsed" "py_eq parsed pin"
        and staged: "private_read pin_file ''staged candidate pin'' max_pin_bytes = Inr pin_raw"
        and digest: "private_digest archive_file ''staged candidate archive'' max_archive_bytes = Inr archive_digest"
        and archive: "py_key pin ''archive'' = Inr archive" "py_key archive ''digest'' = Inr (JStr archive_digest)" "py_key archive ''asset'' = Inr asset"
        and pin_item: "verify_subject cmd loads p pin_path ''pin'' ''verification-candidate.json'' (sha_digest pin_raw) w1 = (Inr pin_item, w2)"
        and archive_item: "verify_subject cmd loads p archive_path ''archive'' (str_of asset) archive_digest w3 = (Inr archive_item, w4)"
        and answer: "loads out = Inr answer" "list_all fst (run_record_checks p answer)"
      unfolding verify_candidate_attestations_def
      by (auto simp: bindIO_OK simp del: json_tests py_key_Inr)
    note read = private_read_Inr [OF staged] private_digest_Inr [OF digest]
    note keys = archive [THEN py_key_get]
    from accepts_attests [OF p verify_subject_Inr [OF pin_item]] have "attests pin (JStr ''verification-candidate.json'') pin_raw pin_item" .
    moreover from accepts_attests [OF p verify_subject_Inr [OF archive_item [unfolded conjunct2 [OF read(2)]]]]
    have "attests pin (JStr (str_of asset)) (content archive_file) archive_item" .
    moreover from producer_of_Inr [OF p] have "pr_commit p = obj_get pin ''commit''" by metis
    then have "obj_get answer ''status'' = JStr ''completed'' \<and> obj_get answer ''conclusion'' = JStr ''success''
        \<and> py_eq (obj_get answer ''head_sha'') (obj_get pin ''commit'') \<and> obj_get answer ''head_branch'' = JStr ''main''"
      using answer(2) by (simp add: run_record_checks_def del: json_tests)
    ultimately show ?thesis
      using parsed read keys answer(1) unfolding Pair Inr items prod.case sum.case by blast
  qed (simp add: Pair)
qed

section \<open>The inputs\<close>

text \<open>\<open>raw\<close> is what the pin pins under \<open>k\<close>.\<close>

definition pinned_bytes :: "json \<Rightarrow> string \<Rightarrow> bytes \<Rightarrow> bool" where
  "pinned_bytes pin k raw = (obj_get (obj_get pin k) ''digest'' = JStr (sha_digest raw))"

lemma pinned_digest_Inr: "pinned_digest pin k (sha_digest raw) = Inr u \<Longrightarrow> pinned_bytes pin k raw"
proof -
  assume "pinned_digest pin k (sha_digest raw) = Inr u"
  then obtain a where "py_key pin k = Inr a" "py_key a ''digest'' = Inr (JStr (sha_digest raw))"
    by (auto simp: pinned_digest_def simp del: py_key_Inr)
  from this [THEN py_key_get] show ?thesis by (simp add: pinned_bytes_def)
qed

text \<open>
  \<open>raw\<close> was read at the path: it is as long as the regular file the path led to when it was opened, within
  the limit, and on a file system that tells changes it is that file's content.
\<close>

definition read_at :: "disk \<Rightarrow> string \<Rightarrow> nat \<Rightarrow> bytes \<Rightarrow> bool" where
  "read_at d p maximum raw \<longleftrightarrow> 0 < length raw \<and> length raw \<le> maximum
     \<and> (\<exists>i t. entry d t p = Some i \<and> opens d (Suc t) p = Some i
         \<and> regular (node_at d (Suc (Suc t)) i) \<and> length (content (node_at d (Suc (Suc t)) i)) = length raw
         \<and> (tells_changes d \<longrightarrow> content (node_at d (Suc (Suc t)) i) = raw))"

lemma bounded_read_at: "bounded_read verb d p label maximum t = (Inr raw, t') \<Longrightarrow> read_at d p maximum raw"
proof -
  assume r: "bounded_read verb d p label maximum t = (Inr raw, t')"
  from bounded_read_run [OF r] obtain i where i: "entry d t p = Some i" "opens d (Suc t) p = Some i"
    "regular (node_at d (Suc (Suc t)) i)" "0 < length raw" "length raw \<le> maximum"
    "length (content (node_at d (Suc (Suc t)) i)) = length raw" by metis
  moreover have "content (node_at d (Suc (Suc t)) i) = raw" if "tells_changes d"
  proof -
    from bounded_read_atomic [OF that r] i(1) have same: "(\<lambda>u. content (node_at d u i)) ` {Suc (Suc t)..<t'} = {raw}" by auto
    then have "{Suc (Suc t)..<t'} \<noteq> {}" by auto
    then have "Suc (Suc t) \<in> {Suc (Suc t)..<t'}" by auto
    with same show ?thesis by blast
  qed
  ultimately show ?thesis unfolding read_at_def by blast
qed

lemma digest_read_Inr:
  "digest_bounded_regular_file d p label maximum t = (Inr h, t') \<Longrightarrow> \<exists>raw. h = sha_digest raw \<and> read_at d p maximum raw"
  by (auto simp: digest_bounded_regular_file_def bindIO_OK intro: bounded_read_at)

lemma candidate_source_Inr:
  "candidate_source pin = Inr s \<Longrightarrow> s = JObj [(''repository'', obj_get pin ''repository''), (''commit'', obj_get pin ''commit''), (''ref'', obj_get pin ''source_ref'')]"
  by (auto simp: candidate_source_def simp del: py_key_Inr dest: py_key_get)

lemma validate_metadata_Inr:
  assumes "validate_metadata pin source metadata = Inr u"
  shows "obj_keys metadata = {''schema'', ''source'', ''builder'', ''build'', ''image''}
     \<and> py_eq (obj_get metadata ''builder'') (obj_get pin ''run'') \<and> py_eq (obj_get metadata ''source'') source
     \<and> py_eq (obj_get metadata ''image'') (obj_get pin ''image'')
     \<and> py_eq (obj_get metadata ''build'') (expected_build (obj_get (obj_get metadata ''build'') ''dockerfile_digest'')
          (obj_get pin ''version'') (obj_get pin ''commit''))
     \<and> is_digest (py_str (obj_get (obj_get metadata ''build'') ''dockerfile_digest''))"
proof -
  from assms obtain run version commit image dd
    where k: "py_key pin ''run'' = Inr run" "py_key pin ''version'' = Inr version" "py_key pin ''commit'' = Inr commit" "py_key pin ''image'' = Inr image"
      and c: "obj_keys metadata = {''schema'', ''source'', ''builder'', ''build'', ''image''}"
        "py_eq (obj_get metadata ''source'') source" "py_eq (obj_get metadata ''builder'') run"
        "py_eq (obj_get metadata ''build'') (expected_build (obj_get (obj_get metadata ''build'') ''dockerfile_digest'') version commit)"
        "py_eq (obj_get metadata ''image'') image"
        "require_digest (obj_get (obj_get metadata ''build'') ''dockerfile_digest'')
          ''candidate Dockerfile digest must be sha256:<64 lowercase hex>'' = Inr dd"
    unfolding validate_metadata_def Let_def bindE_eq_Inr checks_Inr require_Inr list.pred_inject fst_conv
    by (elim exE conjE) (rule that, assumption+)
  from c(6) have "is_digest (py_str (obj_get (obj_get metadata ''build'') ''dockerfile_digest''))"
    by (auto simp: require_digest_def fullmatch_digest)
  with c(1-5) show ?thesis unfolding k [THEN py_key_get] by blast
qed

lemma expected_subjects_Inr:
  "expected_subjects pin = Inr s \<Longrightarrow> s = JObj [(''archive'', obj_get pin ''archive''), (''image'', obj_get pin ''image''),
     (''sbom'', obj_get pin ''sbom''), (''metadata'', obj_get pin ''metadata'')]"
  by (auto simp: expected_subjects_def pick_def simp del: py_key_Inr dest!: py_key_get)

lemma validate_provenance_Inr:
  assumes "validate_provenance pin source provenance = Inr u"
  shows "obj_keys provenance = {''schema'', ''source'', ''builder'', ''subjects''}
     \<and> py_eq (obj_get provenance ''builder'') (obj_get pin ''run'') \<and> py_eq (obj_get provenance ''source'') source
     \<and> py_eq (obj_get provenance ''subjects'') (JObj [(''archive'', obj_get pin ''archive''), (''image'', obj_get pin ''image''),
          (''sbom'', obj_get pin ''sbom''), (''metadata'', obj_get pin ''metadata'')])"
proof -
  from assms obtain run subjects where k: "py_key pin ''run'' = Inr run" and s: "expected_subjects pin = Inr subjects"
      and c: "obj_keys provenance = {''schema'', ''source'', ''builder'', ''subjects''}"
        "py_eq (obj_get provenance ''source'') source" "py_eq (obj_get provenance ''builder'') run"
        "py_eq (obj_get provenance ''subjects'') subjects"
    unfolding validate_provenance_def Let_def bindE_eq_Inr checks_Inr require_Inr list.pred_inject fst_conv by blast
  from c show ?thesis unfolding py_key_get [OF k] expected_subjects_Inr [OF s] by blast
qed

lemma validate_sbom_Inr:
  assumes "validate_sbom parse pin raw = Inr v" and "obj_get pin ''schema'' = JStr candidate_pin_schema"
  shows "parse raw = Inr v \<and> sbom_describes pin v"
proof -
  from assms(2) have "target_of pin = Inr rust_target" "rust_target \<noteq> legacy_target"
    by (simp_all add: target_of_def candidate_pin_schema_def pin_schema_def set_hashable_def rust_target_def legacy_target_def)
  with assms have "parse raw = Inr v" "validate_candidate_sbom pin v = Inr ()"
    by (auto simp: validate_sbom_def dest: py_key_get split: if_splits simp del: json_tests py_key_Inr)
  then show ?thesis by (simp add: candidate_sbom_describes)
qed

lemma validate_documents_Inr:
  assumes "validate_documents parse pin sbom_raw metadata_raw provenance_raw = Inr provenance"
  shows "parse provenance_raw = Inr provenance \<and> (\<exists>metadata source sbom. parse metadata_raw = Inr metadata
     \<and> validate_metadata pin source metadata = Inr () \<and> validate_provenance pin source provenance = Inr ()
     \<and> candidate_source pin = Inr source \<and> validate_sbom parse pin sbom_raw = Inr sbom)"
  using assms by (auto simp: validate_documents_def)

text \<open>
  Claim C31. The inputs of a candidate are accepted only together: each of the four files, read at its own
  path, is the one the pin has the digest of; the archive passed its inspection; the SBOM describes the
  pinned image and its source; and metadata and provenance, the latter returned, state the source, the
  producer run, the image and all four subjects of the pin, the metadata with the one build (context,
  Dockerfile, platform, version and arguments) of that source.
\<close>

theorem candidate_inputs_agree:
  "case validate_candidate_inputs d libs pin archive_path sbom_path metadata_path provenance_path t of
     (Inl e, t') \<Rightarrow> True
   | (Inr provenance, t') \<Rightarrow> \<exists>archive_raw sbom_raw metadata_raw provenance_raw sbom metadata i u report.
       read_at d archive_path max_archive_bytes archive_raw \<and> pinned_bytes pin ''archive'' archive_raw
       \<and> read_at d sbom_path max_sbom_bytes sbom_raw \<and> pinned_bytes pin ''sbom'' sbom_raw
       \<and> read_at d metadata_path max_candidate_metadata_bytes metadata_raw \<and> pinned_bytes pin ''metadata'' metadata_raw
       \<and> read_at d provenance_path max_candidate_provenance_bytes provenance_raw \<and> pinned_bytes pin ''provenance'' provenance_raw
       \<and> entry d u archive_path = Some i \<and> inspect_archive libs (node_at d u i) pin = Inr report
       \<and> lib_parse libs sbom_raw = Inr sbom \<and> sbom_describes pin sbom
       \<and> lib_parse libs metadata_raw = Inr metadata \<and> lib_parse libs provenance_raw = Inr provenance
       \<and> obj_keys metadata = {''schema'', ''source'', ''builder'', ''build'', ''image''}
       \<and> obj_keys provenance = {''schema'', ''source'', ''builder'', ''subjects''}
       \<and> list_all (\<lambda>v. py_eq (obj_get v ''builder'') (obj_get pin ''run'')
            \<and> py_eq (obj_get v ''source'') (JObj [(''repository'', obj_get pin ''repository''), (''commit'', obj_get pin ''commit''),
                (''ref'', obj_get pin ''source_ref'')])) [metadata, provenance]
       \<and> py_eq (obj_get metadata ''image'') (obj_get pin ''image'')
       \<and> py_eq (obj_get metadata ''build'') (JObj
            [(''context'', JStr ''.''), (''dockerfile'', JStr ''services/Dockerfile''), (''dockerfile_digest'', obj_get (obj_get metadata ''build'') ''dockerfile_digest''),
             (''platform'', JStr ''linux/amd64''), (''version'', obj_get pin ''version''),
             (''arguments'', JObj [(''SERVICE_NAME'', JStr ''verification''), (''MARTY_RELEASE_VERSION'', obj_get pin ''version''),
                (''MARTY_UI_SHA'', obj_get pin ''commit'')])])
       \<and> is_digest (py_str (obj_get (obj_get metadata ''build'') ''dockerfile_digest''))
       \<and> py_eq (obj_get provenance ''subjects'') (JObj [(''archive'', obj_get pin ''archive''), (''image'', obj_get pin ''image''),
            (''sbom'', obj_get pin ''sbom''), (''metadata'', obj_get pin ''metadata'')])"
proof (cases "validate_candidate_inputs d libs pin archive_path sbom_path metadata_path provenance_path t")
  case (Pair r t')
  show ?thesis
  proof (cases r)
    case (Inr provenance)
    from Pair [unfolded Inr validate_candidate_inputs_def] obtain h sbom_raw metadata_raw provenance_raw t1 t2 t3 t4 t5 i u report
      where schema: "py_key pin ''schema'' = Inr (JStr candidate_pin_schema)"
        and h: "digest_bounded_regular_file d archive_path ''candidate archive'' max_archive_bytes t1 = (Inr h, t2)" "pinned_digest pin ''archive'' h = Inr ()"
        and reads: "read_bounded_regular_file d sbom_path ''candidate SBOM'' max_sbom_bytes t2 = (Inr sbom_raw, t3)"
          "read_bounded_regular_file d metadata_path ''candidate metadata'' max_candidate_metadata_bytes t3 = (Inr metadata_raw, t4)"
          "read_bounded_regular_file d provenance_path ''candidate provenance'' max_candidate_provenance_bytes t4 = (Inr provenance_raw, t5)"
        and pins: "pinned_digest pin ''sbom'' (sha_digest sbom_raw) = Inr ()" "pinned_digest pin ''metadata'' (sha_digest metadata_raw) = Inr ()"
          "pinned_digest pin ''provenance'' (sha_digest provenance_raw) = Inr ()"
        and i: "entry d u archive_path = Some i" "inspect_archive libs (node_at d u i) pin = Inr report"
        and docs: "validate_documents (lib_parse libs) pin sbom_raw metadata_raw provenance_raw = Inr provenance"
      by (auto simp: bindIO_OK simp del: json_tests py_key_Inr split: option.splits)
    note ats = reads [unfolded read_bounded_regular_file_def, THEN bounded_read_at]
    from h(1) obtain archive_raw where "h = sha_digest archive_raw" and archive: "read_at d archive_path max_archive_bytes archive_raw"
      using digest_read_Inr by blast
    with h(2) have archive_pin: "pinned_bytes pin ''archive'' archive_raw" by (auto intro: pinned_digest_Inr)
    from validate_documents_Inr [OF docs] obtain metadata source sbom
      where m: "lib_parse libs metadata_raw = Inr metadata" "lib_parse libs provenance_raw = Inr provenance"
        "validate_metadata pin source metadata = Inr ()" "validate_provenance pin source provenance = Inr ()"
        and source: "candidate_source pin = Inr source" and sbom: "validate_sbom (lib_parse libs) pin sbom_raw = Inr sbom" by blast
    note sbom_facts = validate_sbom_Inr [OF sbom py_key_get [OF schema]]
    note validate_metadata_Inr [OF m(3), unfolded expected_build_def] validate_provenance_Inr [OF m(4)]
    then show ?thesis
      using archive archive_pin ats pins [THEN pinned_digest_Inr] i m(1,2) sbom_facts
      unfolding Pair Inr prod.case sum.case list.pred_inject candidate_source_Inr [OF source]
      by (elim conjE) (intro exI conjI; (assumption | rule list.pred_inject(1)))
  qed (simp add: Pair)
qed

end
