(* ===== verification/Artifact_Gate.thy ===== *)
theory Artifact_Gate
  imports Artifact_Contract Py_Url
begin

text \<open>
  The fixtures and gates of the runtime test in \<^verbatim>\<open>scripts/credentials_verifier_artifact.py\<close>: the
  governance document it deploys and its deliberately invalid variant, the organization resolver it
  serves, the positive OID4VP gate with its two tampered inputs, and the negative control of a known
  ineligible release. \<open>parse_qs\<close> stands for \<open>urllib.parse.parse_qs\<close> with strict parsing, \<open>cmd\<close> for a
  command with its standard input, \<open>loads\<close> for \<open>json.loads\<close> of text.
\<close>

section \<open>Governance\<close>

definition session_purpose :: string where "session_purpose = ''verification.session.create''"
definition direct_purpose :: string where "direct_purpose = ''verification.direct''"
definition vds_purpose :: string where "vds_purpose = ''verification.vds-nc''"
definition expected_component_id :: string where "expected_component_id = ''marty-credentials''"
definition expected_adapter_id :: string where "expected_adapter_id = ''verification-service''"

definition presentation_definition :: json where
  "presentation_definition = JObj [(''id'', JStr ''artifact-differential''), (''input_descriptors'', JArr [])]"

definition vds_policy_content :: "json \<Rightarrow> json" where
  "vds_policy_content digest = JObj [(''verifier_id'', JStr ''did:web:vds-verifier.integration.invalid''),
     (''presentation_definition_digest'', digest),
     (''required_checks'', JArr [JStr ''credential.proof'', JStr ''issuer.trust''])]"

definition oid4vp_policy_content :: "string \<Rightarrow> json" where
  "oid4vp_policy_content digest = JObj [(''verifier_id'', JStr ''did:web:verifier.integration.invalid''),
     (''presentation_definition_digest'', JStr digest), (''required_checks'', JArr (map JStr oid4vp_required_checks))]"

definition trust_content :: "string \<Rightarrow> json" where
  "trust_content issuer_did = JObj [(''trusted_issuers'', JArr [JStr issuer_did]), (''allow_public_did_fallback'', JBool False)]"

definition purpose_policy :: "string \<Rightarrow> json" where
  "purpose_policy policy = JObj [(''policy_id'', JStr policy), (''trust_profile_id'', JStr ''trust:vds-artifact-integration'')]"

definition all_purposes :: "(string \<times> json) list" where
  "all_purposes = [(session_purpose, purpose_policy ''policy:oid4vp-artifact-integration''),
     (direct_purpose, purpose_policy ''policy:oid4vp-artifact-integration''),
     (vds_purpose, purpose_policy ''policy:vds-artifact-integration'')]"

definition client :: "string \<Rightarrow> string \<Rightarrow> string \<Rightarrow> string list \<Rightarrow> json" where
  "client client_id api_key organization purposes = JObj [(''client_id'', JStr client_id),
     (''api_key_sha256'', JStr (hexdigest (utf8 api_key))), (''organization_id'', JStr organization),
     (''purposes'', JObj (filter (\<lambda>(p, v). p \<in> set purposes) all_purposes))]"

definition governance_clients :: "string \<Rightarrow> string \<Rightarrow> string option \<Rightarrow> string option \<Rightarrow> json list" where
  "governance_clients api_key organization vds_key oid4vp_key =
     [client ''artifact-integration-client'' api_key organization [session_purpose, direct_purpose, vds_purpose]]
     @ (case vds_key of None \<Rightarrow> [] | Some k \<Rightarrow> [client ''artifact-integration-vds-only'' k organization [vds_purpose]])
     @ (case oid4vp_key of None \<Rightarrow> []
        | Some k \<Rightarrow> [client ''artifact-integration-oid4vp-only'' k organization [session_purpose, direct_purpose]])"

text \<open>A versioned document with the digest of its content.\<close>

definition versioned :: "string \<Rightarrow> string \<Rightarrow> json \<Rightarrow> json result" where
  "versioned organization document_id content_json = bindE (canonical_digest content_json) (\<lambda>digest. ret (JObj
     [(''organization_id'', JStr organization), (''id'', JStr document_id), (''version'', JStr ''1.0.0''),
      (''content_digest'', JStr digest), (''content'', content_json)]))"

definition build_governance :: "json \<Rightarrow> string \<Rightarrow> string \<Rightarrow> string \<Rightarrow> string option \<Rightarrow> string option \<Rightarrow> json result" where
  "build_governance pin api_key organization issuer_did vds_key oid4vp_key =
     bindE (bindE (py_key pin ''image'') (\<lambda>i. py_key i ''digest'')) (\<lambda>image.
     bindE (canonical_digest presentation_definition) (\<lambda>definition_digest.
     bindE (py_key pin ''version'') (\<lambda>version.
     bindE (versioned organization ''policy:vds-artifact-integration'' (vds_policy_content image)) (\<lambda>vds_policy.
     bindE (versioned organization ''policy:oid4vp-artifact-integration'' (oid4vp_policy_content definition_digest)) (\<lambda>oid4vp_policy.
     bindE (versioned organization ''trust:vds-artifact-integration'' (trust_content issuer_did)) (\<lambda>trust.
     ret (JObj
       [(''component'', JObj [(''component_id'', JStr expected_component_id), (''version'', version), (''artifact_digest'', image),
          (''adapter_id'', JStr expected_adapter_id), (''adapter_version'', JStr ''1.0.0'')]),
        (''policies'', JArr [vds_policy, oid4vp_policy]), (''trust_profiles'', JArr [trust]),
        (''clients'', JArr (governance_clients api_key organization vds_key oid4vp_key))])))))))"

text \<open>\<open>d[k] = v\<close> and \<open>xs[0] = v\<close> in a copy.\<close>

definition set_key :: "string \<Rightarrow> json \<Rightarrow> json \<Rightarrow> json" where
  "set_key k v d = (case d of JObj kvs \<Rightarrow> JObj (put k v kvs) | _ \<Rightarrow> d)"
definition set_first :: "json \<Rightarrow> json \<Rightarrow> json" where
  "set_first v xs = (case xs of JArr (y # ys) \<Rightarrow> JArr (v # ys) | _ \<Rightarrow> xs)"

definition first_of :: "json \<Rightarrow> json result" where
  "first_of xs = (case xs of JArr [] \<Rightarrow> raise IndexError | JArr (y # ys) \<Rightarrow> ret y | JObj _ \<Rightarrow> raise (KeyError ''0'') | _ \<Rightarrow> raise TypeError)"

definition invalid_governance_missing_required_check :: "json \<Rightarrow> json result" where
  "invalid_governance_missing_required_check governance =
     bindE (py_key governance ''policies'') (\<lambda>policies. bindE (first_of policies) (\<lambda>policy.
     bindE (py_key policy ''content'') (\<lambda>c. if \<not> is_dict c then raise TypeError else
     let c' = set_key ''required_checks'' (JArr [JStr ''credential.proof'']) c in
     bindE (canonical_digest c') (\<lambda>digest.
     let policy' = set_key ''content_digest'' (JStr digest) (set_key ''content'' c' policy) in
     ret (set_key ''policies'' (set_first policy' policies) governance)))))"

section \<open>The resolver\<close>

record resolver_state =
  rs_api_key :: string
  rs_organization :: string
  rs_issuer :: string
  rs_method :: string
  rs_jwk :: json
  rs_requests :: nat
  rs_usable :: bool

definition resolver_response :: "resolver_state \<Rightarrow> json" where
  "resolver_response st = (let method = JObj [(''id'', JStr (rs_method st)), (''controller'', JStr (rs_issuer st)),
       (''type'', JStr ''JsonWebKey2020''), (''publicKeyJwk'', rs_jwk st)] in
     JObj [(''ok'', JBool True), (''organization_id'', JStr (rs_organization st)), (''issuer_did'', JStr (rs_issuer st)),
       (''verification_method_id'', JStr (rs_method st)), (''verification_method'', method),
       (''public_jwk'', if rs_usable st then rs_jwk st else JObj []),
       (''did_document'', JObj [(''id'', JStr (rs_issuer st)), (''verificationMethod'', JArr [method]),
          (''assertionMethod'', JArr [JStr (rs_method st)])]),
       (''resolver'', JObj [(''type'', JStr ''organization_issuer_profile''), (''public_fallback_used'', JBool False)])])"

definition expected_params :: "resolver_state \<Rightarrow> (string \<times> string list) list" where
  "expected_params st = [(''organization_id'', [rs_organization st]), (''issuer_did'', [rs_issuer st]),
     (''verification_method_id'', [rs_method st]), (''credential_format'', [''vds_nc'']),
     (''key_purpose'', [''vdsnc_signing'']), (''algorithm'', [''ES256''])]"

definition resolver_path :: string where "resolver_path = ''/internal/signing-keys/resolve-issuer-did''"

text \<open>One \<open>GET\<close>: the status, the body and the state left. A dictionary has no key twice.\<close>

definition do_GET :: "(string \<Rightarrow> (string \<times> string list) list result) \<Rightarrow> string \<Rightarrow> string option \<Rightarrow> resolver_state
    \<Rightarrow> (int \<times> json) result \<times> resolver_state" where
  "do_GET parse_qs target key st = (case bindE (urlsplit target) (\<lambda>u. bindE (parse_qs (query u)) (\<lambda>ps. ret (u, ps))) of
     Inl e \<Rightarrow> (raise e, st)
   | Inr (u, params) \<Rightarrow>
       if key \<noteq> Some (rs_api_key st) then (ret (401, JObj [(''detail'', JStr ''unauthorized'')]), st)
       else if path u \<noteq> resolver_path \<or> map_of params \<noteq> map_of (expected_params st)
       then (ret (422, JObj [(''detail'', JStr ''request binding mismatch'')]), st)
       else let st' = st\<lparr>rs_requests := Suc (rs_requests st)\<rparr> in (ret (200, resolver_response st'), st'))"

section \<open>The positive gate\<close>

type_synonym 'w piped = "string list \<Rightarrow> string \<Rightarrow> ('w, int \<times> string \<times> string) io"

definition oid4vp_pass_check_projection :: "(string \<times> string \<times> string) list" where
  "oid4vp_pass_check_projection =
     [(''presentation.structure'', ''PASSED'', ''PRESENTATION_STRUCTURE_VALID''), (''presentation.proof'', ''PASSED'', ''PRESENTATION_PROOF_VALID''),
      (''credential.proof'', ''PASSED'', ''CREDENTIAL_PROOFS_VALID''), (''issuer.trust'', ''PASSED'', ''ISSUER_TRUST_VALID''),
      (''credential.status'', ''PASSED'', ''CREDENTIAL_STATUS_VALID''), (''holder.binding'', ''PASSED'', ''HOLDER_BINDING_VALID''),
      (''transaction.binding'', ''PASSED'', ''TRANSACTION_BINDING_VALID''), (''claim.constraints'', ''PASSED'', ''CLAIM_CONSTRAINTS_SATISFIED'')]"

definition projected_checks :: "(string \<times> string \<times> string) list \<Rightarrow> json" where
  "projected_checks ps = JArr (map (\<lambda>(i, out, c). JObj [(''check_id'', JStr i), (''outcome'', JStr out), (''code'', JStr c)]) ps)"

definition trusted_oid4vp_pass_fixture :: json where
  "trusted_oid4vp_pass_fixture = JObj [(''processing_status'', JStr ''COMPLETED''), (''decision'', JStr ''PASS''),
     (''decision_code'', JStr ''ALL_REQUIRED_CHECKS_PASSED''), (''valid'', JBool True), (''overall_result'', JStr ''PASS''),
     (''verification_method'', JStr ''jwt_vp''), (''verified_claims'', JNull), (''claim_results'', JArr []),
     (''canonical_result'', JObj [(''verification_id'', JStr ''verification:trusted-oid4vp-fixture''), (''decision'', JStr ''PASS''),
        (''valid'', JBool True), (''processing_status'', JStr ''COMPLETED''),
        (''input_digest'', JStr (''sha256:'' @ replicate 64 (CHR ''a''))),
        (''context'', JObj [(''transaction_id'', JStr ''transaction:trusted-oid4vp-fixture'')]),
        (''checks'', projected_checks oid4vp_pass_check_projection)])]"

text \<open>The environment names the producer and its digest; \<open>at\<close> is what the path leads to, if a file.\<close>

definition producer_names :: "string set" where
  "producer_names = {''marty-kms-positive-verifier-input'', ''marty-kms-positive-verifier-input.exe''}"

definition producer_checks :: "string option \<Rightarrow> string \<Rightarrow> bytes option \<Rightarrow> (bool \<times> string) list" where
  "producer_checks producer_path expected_digest program = (let p = (case producer_path of None \<Rightarrow> [] | Some p \<Rightarrow> p) in
     [(p \<noteq> [], ''KMS and wallet public input producer is required''),
      (fullmatch hex64_rx expected_digest, ''KMS and wallet public input producer digest is required''),
      (path_is_absolute p \<and> program \<noteq> None \<and> path_name p \<in> producer_names, ''KMS and wallet public input producer path is invalid''),
      (hexdigest (the program) = expected_digest, ''KMS and wallet public input producer digest changed'')])"

definition public_jwk_keys :: "string set" where "public_jwk_keys = {''kty'', ''crv'', ''x'', ''y'', ''kid'', ''alg''}"

definition public_input_checks :: "json \<Rightarrow> (bool \<times> string) list" where
  "public_input_checks v = (let key = obj_get v ''issuer_public_jwk''; presentation = obj_get v ''presentation'' in
     [(is_dict v \<and> obj_keys v = {''presentation'', ''issuer_public_jwk''}, ''positive runtime public input shape changed''),
      (is_dict key \<and> obj_keys key = public_jwk_keys, ''positive runtime input requires only public JWK fields''),
      (nonempty_str presentation, ''positive runtime presentation is required'')])"

definition positive_oid4vp_public_input :: "'w piped \<Rightarrow> (string \<Rightarrow> json result) \<Rightarrow> string option \<Rightarrow> string option \<Rightarrow> bytes option
    \<Rightarrow> ('w, json) io" where
  "positive_oid4vp_public_input cmd loads producer_path digest program =
     bindIO (liftIO (checks (producer_checks producer_path (case digest of None \<Rightarrow> [] | Some d \<Rightarrow> d) program))) (\<lambda>_.
     bindIO (run (\<lambda>args. cmd args []) [path_str (the producer_path)] ''produce fresh KMS and wallet public verifier input'') (\<lambda>encoded.
     bindIO (liftIO (require (length encoded \<le> 128 * 1024) ''positive runtime public input is too large'')) (\<lambda>_.
     bindIO (liftIO (loads encoded)) (\<lambda>v.
     bindIO (liftIO (checks (public_input_checks v))) (\<lambda>_. retIO v)))))"

definition gate_command :: "string \<Rightarrow> string list" where
  "gate_command reference = [''docker'', ''run'', ''--rm'', ''-i'', ''--network'', ''none'', reference, ''/usr/local/bin/marty-verifier-positive-gate'']"

definition require_oid4vp_rejection :: "'w piped \<Rightarrow> string \<Rightarrow> json \<Rightarrow> string list \<Rightarrow> ('w, unit) io" where
  "require_oid4vp_rejection cmd reference public_input expected_errors =
     bindIO (tryIO (cmd (gate_command reference) (json_dumps public_input)) (\<lambda>e. raiseIO
       (if is_OSError e \<or> e = TimeoutExpired then RuntimeError ''negative OID4VP runtime gate could not complete'' else e))) (\<lambda>(status, out, err).
     liftIO (require (status = 2 \<and> strip out = []
         \<and> strip err \<in> (\<lambda>m. ''positive OID4VP runtime gate failed: '' @ m) ` set expected_errors)
       ''negative OID4VP runtime did not demonstrate the expected verifier rejection''))"

definition positive_evidence_checks :: "json \<Rightarrow> (bool \<times> string) list" where
  "positive_evidence_checks evidence =
     [(is_dict evidence, ''positive OID4VP runtime evidence was not an object''),
      (obj_keys evidence = {''schema'', ''status'', ''decision'', ''verified_claims'', ''checks''}, ''positive OID4VP runtime evidence shape changed''),
      (obj_get evidence ''schema'' = JStr ''elevenid.credentials-verifier-positive-runtime/v1'', ''positive OID4VP runtime evidence schema changed''),
      (obj_get evidence ''status'' = JStr ''passed'' \<and> obj_get evidence ''decision'' = JStr ''PASS'', ''positive OID4VP runtime did not pass''),
      (py_eq (obj_get evidence ''verified_claims'') (JObj [(''email'', JStr ''runtime-gate@example.invalid'')]),
       ''positive OID4VP verified claim projection changed''),
      (py_eq (obj_get evidence ''checks'') (projected_checks oid4vp_pass_check_projection), ''positive OID4VP canonical check projection changed'')]"

text \<open>The presentation with the first character of the issuer JWT's signature replaced.\<close>

definition tampered :: "string \<Rightarrow> string result" where
  "tampered presentation = (let parts = split_on (CHR ''~'') presentation; jwt = split_on (CHR ''.'') (hd parts); sig = jwt ! 2 in
     bindE (require (length jwt = 3 \<and> sig \<noteq> []) ''positive runtime issuer JWT shape changed'') (\<lambda>_.
     let sig' = (if hd sig \<noteq> CHR ''A'' then CHR ''A'' else CHR ''B'') # tl sig in
     ret (join ''~'' (join ''.'' (jwt[2 := sig']) # tl parts))))"

definition tamper_errors :: "string list" where
  "tamper_errors = [''native verifier rejected the runtime presentation'', ''presentation proof did not pass'', ''credential proof did not pass'']"

definition private_jwk_errors :: "string list" where
  "private_jwk_errors = [''runtime gate requires only public JWK fields'']"

definition run_positive_oid4vp_gate :: "'w piped \<Rightarrow> (string \<Rightarrow> json result) \<Rightarrow> string option \<Rightarrow> string option \<Rightarrow> bytes option \<Rightarrow> string
    \<Rightarrow> ('w, json) io" where
  "run_positive_oid4vp_gate cmd loads producer_path digest program reference =
     bindIO (positive_oid4vp_public_input cmd loads producer_path digest program) (\<lambda>public_input.
     bindIO (run (\<lambda>args. cmd args (json_dumps public_input)) (gate_command reference)
       ''exercise exact-image positive OID4VP runtime gate'') (\<lambda>raw.
     bindIO (liftIO (loads raw)) (\<lambda>evidence.
     bindIO (liftIO (checks (positive_evidence_checks evidence))) (\<lambda>_.
     bindIO (liftIO (tampered (str_of (obj_get public_input ''presentation'')))) (\<lambda>presentation.
     bindIO (require_oid4vp_rejection cmd reference (set_key ''presentation'' (JStr presentation) public_input) tamper_errors) (\<lambda>_.
     bindIO (require_oid4vp_rejection cmd reference
       (set_key ''issuer_public_jwk'' (set_key ''d'' (JStr ''forbidden'') (obj_get public_input ''issuer_public_jwk'')) public_input)
       private_jwk_errors) (\<lambda>_. retIO evidence)))))))"

section \<open>The negative control\<close>

definition message_of :: "exn \<Rightarrow> string option" where
  "message_of e = (case e of ValueError m \<Rightarrow> Some m | RuntimeError m \<Rightarrow> Some m | _ \<Rightarrow> None)"

text \<open>
  What a run of the artifact test left: its exception, the session selection that exception carries,
  and the observation it wrote, if it wrote one.
\<close>

record run_attempt =
  at_error :: "exn option"
  at_selection :: "json option"
  at_observation :: "json result option"

definition expected_error :: "json \<Rightarrow> run_attempt \<Rightarrow> unit result" where
  "expected_error expected a = (case at_error a of
     None \<Rightarrow> raise (ValueError ''known-ineligible artifact unexpectedly passed'')
   | Some e \<Rightarrow> if is_RuntimeError e \<or> is_ValueError e
       then bindE (py_key expected ''message'') (\<lambda>m.
         case message_of e of None \<Rightarrow> raise (ValueError ''ineligible artifact failed for an unexpected reason'')
         | Some t \<Rightarrow> require (m = JStr t) ''ineligible artifact failed for an unexpected reason'')
       else raise e)"

definition observation_of :: "run_attempt \<Rightarrow> json result" where
  "observation_of a = (case at_observation a of
     None \<Rightarrow> raise (ValueError ''known failure omitted its sanitized runtime observation'')
   | Some r \<Rightarrow> bindE r (\<lambda>v. bindE (require (is_dict v) ''negative-control observation was invalid'') (\<lambda>_. ret v)))"

definition negative_control :: "json \<Rightarrow> json \<Rightarrow> json \<Rightarrow> json \<Rightarrow> json \<Rightarrow> string \<Rightarrow> string \<Rightarrow> json result" where
  "negative_control subject harness failure_id selection observation started_at completed_at =
     bindE (py_key observation ''checks'') (\<lambda>cs. bindE (py_key observation ''documented_differences'') (\<lambda>ds.
     bindE (py_key observation ''resolver_request_count'') (\<lambda>n. ret (JObj
       [(''schema'', JStr (evidence_schema rust_target)), (''classification'', JStr ''ElevenID-owned artifact negative control''),
        (''official_suite_invoked'', JBool False), (''official_suite_source_modified'', JBool False),
        (''status'', JStr ''expected_failure_observed''), (''release_clearance'', JStr ''blocked''),
        (''blockers'', JArr [JStr runtime_blocker]), (''subject'', subject), (''harness'', harness), (''failure_id'', failure_id),
        (''safe_session_selection'', selection), (''checks'', cs), (''documented_differences'', ds),
        (''resolver_request_count'', n), (''attempts'', JInt 1), (''started_at'', JStr started_at),
        (''completed_at'', JStr completed_at)]))))"

definition run_expected_failure :: "json \<Rightarrow> json \<Rightarrow> run_attempt \<Rightarrow> string \<Rightarrow> string \<Rightarrow> json result" where
  "run_expected_failure pin harness a started_at completed_at =
     bindE (py_key pin ''expected_failure'') (\<lambda>expected.
     bindE (session_selection (resample_reason pin) 0) (\<lambda>unsampled.
     bindE (expected_error expected a) (\<lambda>_. let selection = (case at_selection a of None \<Rightarrow> unsampled | Some s \<Rightarrow> s) in
     bindE (observation_of a) (\<lambda>v.
     bindE (require (blocked v) ''negative-control observation omitted the positive-runtime release blocker'') (\<lambda>_.
     bindE (iter_set (obj_get_default v ''documented_differences'' (JArr []))) (\<lambda>ds.
     bindE (py_key expected ''id'') (\<lambda>i.
     bindE (checks [(ds = {JStr privacy_difference_id, i}, ''negative-control observation contained an undocumented difference''),
       (py_eq (obj_get v ''safe_session_selection'') selection, ''negative-control observation changed safe session selection evidence'')]) (\<lambda>_.
     bindE (evidence_subject pin) (\<lambda>subject.
     negative_control subject harness i selection v started_at completed_at)))))))))"

end
