(* ===== verification/Artifact_Gate_Props.thy ===== *)
theory Artifact_Gate_Props
  imports Artifact_Gate Artifact_Evidence_Props Artifact_Load_Props
begin

text \<open>
  The gates tell right from wrong: the positive gate accepts an input and sees a one-character change
  of its signature refused, the governance document is closed and consistent with its digests, and the
  negative control observes exactly the known failure.
\<close>

section \<open>The tampered presentation\<close>

lemma join_Cons: "join sep (x # xs) = x @ (if xs = [] then [] else sep @ join sep xs)"
  by (cases xs) auto

lemma tampered_Inr:
  assumes "tampered p = Inr q"
  shows "\<exists>a c b. p = a @ c # b \<and> q = a @ (if c = CHR ''A'' then CHR ''B'' else CHR ''A'') # b
     \<and> CHR ''~'' \<notin> set a \<and> length (filter (\<lambda>x. x = CHR ''.'') a) = 2 \<and> last a = CHR ''.''"
proof -
  define h t where "h = hd (split_on (CHR ''~'') p)" and "t = tl (split_on (CHR ''~'') p)"
  then have p: "split_on (CHR ''~'') p = h # t" using split_on_nonempty by (metis list.collapse)
  define rest where "rest = (if t = [] then [] else ''~'' @ join ''~'' t)"
  have join_p: "p = h @ rest" using join_split_on [of "CHR ''~''" p] by (simp add: p join_Cons rest_def)
  from p have h: "CHR ''~'' \<notin> set h" using split_on_no_sep by (metis list.set_intros(1))
  from assms have len: "length (split_on (CHR ''.'') h) = 3" and sig: "split_on (CHR ''.'') h ! 2 \<noteq> []"
    and q: "q = join ''~'' (join ''.'' ((split_on (CHR ''.'') h)[2 := (if hd (split_on (CHR ''.'') h ! 2) \<noteq> CHR ''A'' then CHR ''A'' else CHR ''B'')
        # tl (split_on (CHR ''.'') h ! 2)]) # t)"
    by (auto simp: tampered_def p Let_def)
  from len obtain x y s where xys: "split_on (CHR ''.'') h = [x, y, s]"
    by (auto simp: length_Suc_conv numeral_3_eq_3)
  with sig obtain c s' where s: "s = c # s'" by (cases s) auto
  have "h = x @ ''.'' @ y @ ''.'' @ s" using join_split_on [of "CHR ''.''" h] by (simp add: xys)
  moreover have dots: "CHR ''.'' \<notin> set x" "CHR ''.'' \<notin> set y" using split_on_no_sep xys by (metis list.set_intros)+
  moreover from dots have "filter (\<lambda>z. z = CHR ''.'') x = []" "filter (\<lambda>z. z = CHR ''.'') y = []" by (auto simp: filter_empty_conv)
  ultimately show ?thesis using join_p q s xys h
    by (intro exI [of _ "x @ ''.'' @ y @ ''.''"] exI [of _ c] exI [of _ "s' @ rest"]) (auto simp: join_Cons rest_def)
qed

text \<open>
  The reference: from one state of the host to the next, the pinned producer printed the input, and
  the image refused a changed one the way its verifier does, with status 2, no output and one of the
  verifier's own messages.
\<close>

definition produced :: "'w piped \<Rightarrow> (string \<Rightarrow> json result) \<Rightarrow> string option \<Rightarrow> string option \<Rightarrow> bytes option \<Rightarrow> json \<Rightarrow> 'w \<Rightarrow> 'w \<Rightarrow> bool" where
  "produced cmd loads producer_path digest program v w w' \<longleftrightarrow> (\<exists>p b out err.
     producer_path = Some p \<and> path_is_absolute p
     \<and> (path_name p = ''marty-kms-positive-verifier-input'' \<or> path_name p = ''marty-kms-positive-verifier-input.exe'')
     \<and> program = Some b \<and> digest = Some (hexdigest b)
     \<and> cmd [path_str p] [] w = (Inr (0, out, err), w') \<and> length (strip out) \<le> 128 * 1024 \<and> loads (strip out) = Inr v
     \<and> is_dict v \<and> obj_keys v = {''presentation'', ''issuer_public_jwk''}
     \<and> obj_keys (obj_get v ''issuer_public_jwk'') = {''kty'', ''crv'', ''x'', ''y'', ''kid'', ''alg''})"

definition gate_run :: "string \<Rightarrow> string list" where
  "gate_run reference =
     [''docker'', ''run'', ''--rm'', ''-i'', ''--network'', ''none'', reference, ''/usr/local/bin/marty-verifier-positive-gate'']"

definition refused :: "'w piped \<Rightarrow> string \<Rightarrow> json \<Rightarrow> string list \<Rightarrow> 'w \<Rightarrow> 'w \<Rightarrow> bool" where
  "refused cmd reference bad messages w w' \<longleftrightarrow> (\<exists>out err m. cmd (gate_run reference) (json_dumps bad) w = (Inr (2, out, err), w')
     \<and> strip out = [] \<and> strip err = ''positive OID4VP runtime gate failed: '' @ m \<and> m \<in> set messages)"

lemma produced_by_input:
  assumes "positive_oid4vp_public_input cmd loads producer_path digest program w = (Inr v, w')"
  shows "produced cmd loads producer_path digest program v w w'"
proof -
  let ?digest = "case digest of None \<Rightarrow> [] | Some d \<Rightarrow> d"
  from assms obtain encoded where p: "list_all fst (producer_checks producer_path ?digest program)"
    and r: "run (\<lambda>args. cmd args []) [path_str (the producer_path)] ''produce fresh KMS and wallet public verifier input'' w = (Inr encoded, w')"
    and v: "length encoded \<le> 128 * 1024" "loads encoded = Inr v" "list_all fst (public_input_checks v)"
    unfolding positive_oid4vp_public_input_def bindIO_OK by auto
  from p obtain q b where q: "producer_path = Some q" "q \<noteq> []" "program = Some b" "fullmatch hex64_rx ?digest" "path_is_absolute q"
    "path_name q \<in> producer_names" "hexdigest b = ?digest"
    by (cases producer_path; cases program) (simp_all add: producer_checks_def Let_def)
  from q(4,7) have "digest = Some (hexdigest b)" by (cases digest) (simp_all add: fullmatch_hex64)
  moreover from run_Inr [OF r] obtain out err where "cmd [path_str (the producer_path)] [] w = (Inr (0, out, err), w')" "encoded = strip out"
    by auto
  ultimately show ?thesis
    using q(1,3,5,6) v by (auto simp: produced_def producer_names_def public_input_checks_def public_jwk_keys_def Let_def simp del: json_tests)
qed

lemma refused_by_rejection:
  assumes "require_oid4vp_rejection cmd reference bad messages w = (Inr u, w')"
  shows "refused cmd reference bad messages w w'"
  using assms by (auto simp: require_oid4vp_rejection_def refused_def gate_run_def gate_command_def bindIO_OK tryIO_OK split: if_splits)

text \<open>
  Claim C32. The positive gate discriminates: when it passes, the pinned producer printed a fresh
  public input, with public key members only; the image answered exactly this input with the expected
  evidence; then it refused, with status 2, no output and a message of its verifier, the same input with
  one character of the issuer JWT's signature changed, and last, as a private key, the same input with a
  private member added to its public key; and nothing else was run.
\<close>

theorem positive_gate_discriminates:
  "case run_positive_oid4vp_gate cmd loads producer_path digest program reference w of
     (Inl e, w') \<Rightarrow> True
   | (Inr evidence, w') \<Rightarrow> \<exists>v a c b out err w1 w2 w3.
       produced cmd loads producer_path digest program v w w1
       \<and> obj_get v ''presentation'' = JStr (a @ c # b)
       \<and> length (filter (\<lambda>x. x = CHR ''.'') a) = 2 \<and> last a = CHR ''.'' \<and> CHR ''~'' \<notin> set a
       \<and> cmd (gate_run reference) (json_dumps v) w1 = (Inr (0, out, err), w2) \<and> loads (strip out) = Inr evidence
       \<and> obj_keys evidence = {''schema'', ''status'', ''decision'', ''verified_claims'', ''checks''}
       \<and> obj_get evidence ''status'' = JStr ''passed'' \<and> obj_get evidence ''decision'' = JStr ''PASS''
       \<and> py_eq (obj_get evidence ''verified_claims'') (JObj [(''email'', JStr ''runtime-gate@example.invalid'')])
       \<and> py_eq (obj_get evidence ''checks'') (projected_checks oid4vp_pass_check_projection)
       \<and> refused cmd reference (set_key ''presentation'' (JStr (a @ (if c = CHR ''A'' then CHR ''B'' else CHR ''A'') # b)) v)
           [''native verifier rejected the runtime presentation'', ''presentation proof did not pass'', ''credential proof did not pass''] w2 w3
       \<and> refused cmd reference (set_key ''issuer_public_jwk'' (set_key ''d'' (JStr ''forbidden'') (obj_get v ''issuer_public_jwk'')) v)
           [''runtime gate requires only public JWK fields''] w3 w'"
proof (cases "run_positive_oid4vp_gate cmd loads producer_path digest program reference w")
  case (Pair r w')
  show ?thesis
  proof (cases r)
    case (Inr evidence)
    with Pair obtain v raw q w1 w2 w3
      where input: "positive_oid4vp_public_input cmd loads producer_path digest program w = (Inr v, w1)"
        and gate: "run (\<lambda>args. cmd args (json_dumps v)) (gate_command reference) ''exercise exact-image positive OID4VP runtime gate'' w1 = (Inr raw, w2)"
        and e: "loads raw = Inr evidence" "list_all fst (positive_evidence_checks evidence)"
        and q: "tampered (str_of (obj_get v ''presentation'')) = Inr q"
        and one: "require_oid4vp_rejection cmd reference (set_key ''presentation'' (JStr q) v) tamper_errors w2 = (Inr (), w3)"
        and two: "require_oid4vp_rejection cmd reference
          (set_key ''issuer_public_jwk'' (set_key ''d'' (JStr ''forbidden'') (obj_get v ''issuer_public_jwk'')) v) private_jwk_errors w3 = (Inr (), w')"
      unfolding run_positive_oid4vp_gate_def by (auto simp: bindIO_OK ex_unit)
    from run_Inr [OF gate] obtain out err where out: "cmd (gate_run reference) (json_dumps v) w1 = (Inr (0, out, err), w2)" "raw = strip out"
      unfolding gate_run_def gate_command_def by auto
    from tampered_Inr [OF q] obtain a c b where abc: "str_of (obj_get v ''presentation'') = a @ c # b"
      "q = a @ (if c = CHR ''A'' then CHR ''B'' else CHR ''A'') # b" "CHR ''~'' \<notin> set a"
      "length (filter (\<lambda>x. x = CHR ''.'') a) = 2" "last a = CHR ''.''" by blast
    from input have "list_all fst (public_input_checks v)" unfolding positive_oid4vp_public_input_def bindIO_OK by auto
    then have "is_str (obj_get v ''presentation'')"
      by (simp only: public_input_checks_def Let_def list.pred_inject fst_conv nonempty_str_def simp_thms)
    with abc(1) have pres: "obj_get v ''presentation'' = JStr (a @ c # b)" by (cases "obj_get v ''presentation''") simp_all
    from e(2) have ev: "obj_keys evidence = {''schema'', ''status'', ''decision'', ''verified_claims'', ''checks''}"
      "obj_get evidence ''status'' = JStr ''passed''" "obj_get evidence ''decision'' = JStr ''PASS''"
      "py_eq (obj_get evidence ''verified_claims'') (JObj [(''email'', JStr ''runtime-gate@example.invalid'')])"
      "py_eq (obj_get evidence ''checks'') (projected_checks oid4vp_pass_check_projection)"
      unfolding positive_evidence_checks_def list.pred_inject fst_conv by - (elim conjE, assumption)+
    note refusals = refused_by_rejection [OF one [unfolded abc(2) tamper_errors_def]] refused_by_rejection [OF two [unfolded private_jwk_errors_def]]
    show ?thesis
      using produced_by_input [OF input] pres abc(3-5) out(1) e(1) [unfolded out(2)] ev refusals
      unfolding Pair Inr prod.case sum.case
      by - (rule exI [of _ v], rule exI [of _ a], rule exI [of _ c], rule exI [of _ b], rule exI [of _ out], rule exI [of _ err],
        rule exI [of _ w1], rule exI [of _ w2], rule exI [of _ w3], intro conjI; assumption)
  qed (simp add: Pair)
qed

section \<open>The negative control\<close>

lemma known_failure_keys:
  "py_key known_failure ''message'' = Inr (JStr ''session transaction ID changed outside the approved compatibility correction'')"
  "py_key known_failure ''id'' = Inr (JStr known_failure_id)"
  by (simp_all add: known_failure_def py_key_def known_failure_id_def)

text \<open>A genuine run of the artifact test: the evidence it writes and the error it raises.\<close>

definition genuine_attempt :: "json \<Rightarrow> json \<Rightarrow> run_outcome \<Rightarrow> run_attempt" where
  "genuine_attempt pin evidence r = \<lparr>at_error = (case run_verdict r of Inl e \<Rightarrow> Some e | Inr u \<Rightarrow> None),
     at_selection = (case session_selection (resample_reason pin) (resampled r) of Inl e \<Rightarrow> None | Inr s \<Rightarrow> Some s),
     at_observation = Some (Inr evidence)\<rparr>"

lemma expected_error_genuine:
  "expected_error known_failure (genuine_attempt pin e r) = Inr u
     \<longleftrightarrow> set (differences r) \<subseteq> {privacy_difference_id, known_failure_id} \<and> known_failure_id \<in> set (differences r)"
  by (auto simp: expected_error_def genuine_attempt_def run_verdict_def require_def message_of_def known_failure_keys
      simp del: py_key_Inr)

text \<open>
  Claim C33. The negative control observes exactly the known failure: given what a genuine run of an
  ineligible release leaves, its evidence and its error, the control succeeds if and only if the
  differences the run recorded are the documented one and the known failure, no more and no fewer;
  any other outcome of the run, a success included, is an error.
\<close>

theorem negative_control_exact:
  "case run_evidence pin harness r of
     Inl e \<Rightarrow> True
   | Inr evidence \<Rightarrow>
       if py_key pin ''expected_failure'' = Inr known_failure \<and> obj_get pin ''schema'' = JStr rust_pin_schema
       then isOK (run_expected_failure pin harness (genuine_attempt pin evidence r) t0 t1)
         = (set (differences r) = {privacy_difference_id, known_failure_id})
       else True"
proof (cases "run_evidence pin harness r")
  case (Inr evidence)
  note f = run_evidence_fields [OF Inr]
  have default: "obj_get_default evidence k d = obj_get evidence k" "py_key evidence k = Inr (obj_get evidence k)"
    if "obj_get evidence k \<noteq> JNull" for k d
    using that by (auto simp: obj_get_def obj_get_default_def py_key_def split: json.splits option.splits)
  have dict: "is_dict evidence" using is_dict_get [of evidence "''checks''"] f(9) by auto
  from Inr obtain subject where subject: "evidence_subject pin = Inr subject" by (auto simp: run_evidence_def)
  let ?sel = "JObj [(''reason'', JStr (resample_reason pin)), (''resampled_unsafe_ids'', JInt (resampled r))]"
  have sel: "session_selection (resample_reason pin) (resampled r) = Inr ?sel" "isOK (session_selection (resample_reason pin) 0)"
    using f(1) by (simp_all add: session_selection_def require_def)
  have "py_eq (obj_get evidence ''safe_session_selection'') ?sel" unfolding f(10) by (rule py_eq_refl) simp
  moreover have iter: "iter_set (obj_get_default evidence ''documented_differences'' (JArr [])) = Inr (JStr ` set (differences r))"
    using default(1) [of "''documented_differences''"] f(11) by (simp add: iter_set_def py_iter_def list_all_iff set_hashable_def)
  moreover have "obj_get pin ''schema'' = JStr rust_pin_schema \<Longrightarrow> blocked evidence"
    using f(6,7) by (simp add: blocked_def rust_pin_schema_def transaction_pin_schema_def)
  moreover have "isOK (negative_control subject harness i ?sel evidence t0 t1)" for i
    using default(2) [of "''checks''"] default(2) [of "''documented_differences''"] default(2) [of "''resolver_request_count''"] f(9,11,12)
    by (simp add: negative_control_def del: py_key_Inr)
  moreover have obs: "observation_of (genuine_attempt pin evidence r) = Inr evidence"
    using dict by (simp add: observation_of_def genuine_attempt_def del: json_tests)
  moreover have "at_selection (genuine_attempt pin evidence r) = Some ?sel" by (simp add: genuine_attempt_def sel)
  moreover have "JStr ` D = {JStr x, JStr y} \<longleftrightarrow> D = {x, y}" for D x y
  proof -
    have "JStr ` D = JStr ` {x, y} \<longleftrightarrow> D = {x, y}" by (rule inj_image_eq_iff) (simp add: inj_def)
    then show ?thesis by simp
  qed
  ultimately show ?thesis
    using sel(2) subject expected_error_genuine [of pin evidence r]
    unfolding Inr sum.case run_expected_failure_def isOK_iff
    by (auto simp: known_failure_keys Let_def simp del: json_tests py_key_Inr)
qed simp

section \<open>The governance document\<close>

definition digest_bound :: "json \<Rightarrow> bool" where
  "digest_bound d = (canonical_digest (obj_get d ''content'') = Inr (str_of (obj_get d ''content_digest'')))"

definition ids_of :: "json list \<Rightarrow> json list" where "ids_of ds = map (\<lambda>d. obj_get d ''id'') ds"

definition policies_of :: "json \<Rightarrow> json list" where "policies_of g = arr_of (obj_get g ''policies'')"
definition trust_of :: "json \<Rightarrow> json list" where "trust_of g = arr_of (obj_get g ''trust_profiles'')"
definition clients_of :: "json \<Rightarrow> json list" where "clients_of g = arr_of (obj_get g ''clients'')"
definition purposes_of :: "json \<Rightarrow> (string \<times> json) list" where "purposes_of c = fields_of (obj_get c ''purposes'')"

definition purpose_resolves :: "json \<Rightarrow> string \<times> json \<Rightarrow> bool" where
  "purpose_resolves g = (\<lambda>(purpose, v). obj_get v ''policy_id'' \<in> set (ids_of (policies_of g))
     \<and> obj_get v ''trust_profile_id'' \<in> set (ids_of (trust_of g)))"

lemma versioned_Inr:
  "versioned organization i c = Inr d \<Longrightarrow> \<exists>digest. canonical_digest c = Inr digest \<and> d = JObj
     [(''organization_id'', JStr organization), (''id'', JStr i), (''version'', JStr ''1.0.0''),
      (''content_digest'', JStr digest), (''content'', c)]"
  by (auto simp: versioned_def)

lemma versioned_fields:
  "versioned organization i c = Inr d \<Longrightarrow> digest_bound d \<and> obj_get d ''id'' = JStr i \<and> obj_get d ''content'' = c"
  by (auto simp: digest_bound_def dest!: versioned_Inr)

lemma canonical_digest_OK: "canonical_digest v = Inr d \<Longrightarrow> no_nan v"
  by (auto simp: canonical_digest_def canonical_json_def split: if_splits)

text \<open>
  The governance document is closed: every policy and trust profile carries the canonical
  digest of its own content, every purpose of every client names a policy and a trust profile of the
  document, and the second and third client have only the purpose their key is for. The deliberately
  invalid variant always exists, is as consistent in its digests, and differs from the document in the
  required checks of the first policy alone.
\<close>

theorem governance_closed:
  "case build_governance pin api_key organization issuer_did vds_key oid4vp_key of
     Inl e \<Rightarrow> True
   | Inr g \<Rightarrow> list_all digest_bound (policies_of g @ trust_of g)
       \<and> list_all (\<lambda>c. list_all (purpose_resolves g) (purposes_of c)) (clients_of g)
       \<and> map (\<lambda>c. map fst (purposes_of c)) (clients_of g)
          = [[session_purpose, direct_purpose, vds_purpose]] @ (if vds_key = None then [] else [[vds_purpose]])
            @ (if oid4vp_key = None then [] else [[session_purpose, direct_purpose]])
       \<and> (case invalid_governance_missing_required_check g of
            Inl e \<Rightarrow> False
          | Inr g' \<Rightarrow> list_all digest_bound (policies_of g' @ trust_of g')
              \<and> obj_get (obj_get (hd (policies_of g')) ''content'') ''required_checks'' = JArr [JStr ''credential.proof'']
              \<and> obj_get (hd (policies_of g')) ''id'' = obj_get (hd (policies_of g)) ''id''
              \<and> tl (policies_of g') = tl (policies_of g) \<and> trust_of g' = trust_of g \<and> clients_of g' = clients_of g
              \<and> obj_get g' ''component'' = obj_get g ''component'')"
proof (cases "build_governance pin api_key organization issuer_did vds_key oid4vp_key")
  case (Inr g)
  then obtain image digest version p1 p2 t
    where v: "versioned organization ''policy:vds-artifact-integration'' (vds_policy_content image) = Inr p1"
        "versioned organization ''policy:oid4vp-artifact-integration'' (oid4vp_policy_content digest) = Inr p2"
        "versioned organization ''trust:vds-artifact-integration'' (trust_content issuer_did) = Inr t"
      and g: "g = JObj
       [(''component'', JObj [(''component_id'', JStr expected_component_id), (''version'', version), (''artifact_digest'', image),
          (''adapter_id'', JStr expected_adapter_id), (''adapter_version'', JStr ''1.0.0'')]),
        (''policies'', JArr [p1, p2]), (''trust_profiles'', JArr [t]),
        (''clients'', JArr (governance_clients api_key organization vds_key oid4vp_key))]"
    unfolding build_governance_def bindE_eq_Inr Inr_inject by blast
  have parts: "policies_of g = [p1, p2]" "trust_of g = [t]" "clients_of g = governance_clients api_key organization vds_key oid4vp_key"
    by (simp_all add: g policies_of_def trust_of_def clients_of_def)
  note fields = v [THEN versioned_fields]
  let ?c = "set_key ''required_checks'' (JArr [JStr ''credential.proof'']) (vds_policy_content image)"
  from versioned_Inr [OF v(1)] obtain d1 where d1: "canonical_digest (vds_policy_content image) = Inr d1"
    and p1: "p1 = JObj [(''organization_id'', JStr organization), (''id'', JStr ''policy:vds-artifact-integration''),
      (''version'', JStr ''1.0.0''), (''content_digest'', JStr d1), (''content'', vds_policy_content image)]" by blast
  have c: "?c = JObj [(''verifier_id'', JStr ''did:web:vds-verifier.integration.invalid''),
     (''presentation_definition_digest'', image), (''required_checks'', JArr [JStr ''credential.proof''])]"
    by (simp add: set_key_def vds_policy_content_def)
  from canonical_digest_OK [OF d1] have "no_nan image" by (simp add: vds_policy_content_def)
  then have "no_nan ?c" unfolding c by simp
  then obtain d where d: "canonical_digest ?c = Inr d" by (simp add: canonical_digest_def canonical_json_def)
  define p' where "p' = JObj [(''organization_id'', JStr organization), (''id'', JStr ''policy:vds-artifact-integration''),
      (''version'', JStr ''1.0.0''), (''content_digest'', JStr d), (''content'', ?c)]"
  have inv: "invalid_governance_missing_required_check g = Inr (set_key ''policies'' (JArr [p', p2]) g)"
    using d by (simp add: invalid_governance_missing_required_check_def g py_key_def first_of_def p1 Let_def
      set_key_def [of "''content''"] set_key_def [of "''content_digest''"] set_first_def p'_def vds_policy_content_def)
  have "purpose_resolves g x" if "x \<in> set all_purposes" for x
    using that fields by (auto simp: all_purposes_def purpose_policy_def purpose_resolves_def ids_of_def parts)
  then have "list_all (\<lambda>c. list_all (purpose_resolves g) (purposes_of c)) (clients_of g)"
    by (auto simp: parts governance_clients_def client_def purposes_of_def list_all_iff split: option.splits)
  moreover have "map (\<lambda>c. map fst (purposes_of c)) (clients_of g)
      = [[session_purpose, direct_purpose, vds_purpose]] @ (if vds_key = None then [] else [[vds_purpose]])
        @ (if oid4vp_key = None then [] else [[session_purpose, direct_purpose]])"
    by (simp add: parts governance_clients_def client_def purposes_of_def all_purposes_def session_purpose_def
      direct_purpose_def vds_purpose_def split: option.split)
  moreover have "digest_bound p'" using d by (simp add: digest_bound_def p'_def)
  ultimately show ?thesis
    using fields p'_def unfolding Inr sum.case inv
    by (simp add: parts c p1) (simp add: g set_key_def policies_of_def trust_of_def clients_of_def)
qed simp

end
