(* ===== verification/Eudi_Contract.thy ===== *)
theory Eudi_Contract
  imports Docker_Context
begin

text \<open>
  The environment contract of \<^verbatim>\<open>scripts/eudi_test_material.py\<close>: the origins, ports, names and
  store metadata an EUDI run needs, how a generated manifest is merged with externally
  provisioned material, and the environment a generation writes. The certificates and Java
  stores themselves are made and checked with the cryptography library and keytool and are
  not part of this theory. A manifest file is read by the parameter \<open>manifest_at\<close>: nothing
  when there is no file, otherwise what \<open>json.loads\<close> makes of it.
\<close>

section \<open>Names\<close>

definition schema_name :: string where "schema_name = ''elevenid.eudi-test-material/v1''"
definition oid4vp_trust_anchor_file_env :: string where
  "oid4vp_trust_anchor_file_env = ''EUDI_OID4VP_TRUST_ANCHOR_FILE''"
definition root_ca_file :: string where "root_ca_file = ''root-ca.pem''"
definition truststore_file :: string where "truststore_file = ''truststore.jks''"
definition eudi_keystore_file :: string where "eudi_keystore_file = ''keystore.jks''"
definition environment_file :: string where "environment_file = ''environment.json''"

definition oidf_runner_environment :: "string list" where
  "oidf_runner_environment = [''OIDF_RUNNER_TLS_MODE'', ''OIDF_RUNNER_TLS_KEY_FILE'', ''OIDF_RUNNER_TLS_CERT_FILE'',
     ''OIDF_RUNNER_TRUSTSTORE_FILE'', ''OIDF_RUNNER_TRUSTSTORE_PASSWORD'']"

definition material_path_variables :: "string list" where
  "material_path_variables = [''OIDF_TLS_CERT_DIR'', ''EUDI_VERIFIER_KEYSTORE_FILE'', oid4vp_trust_anchor_file_env]"

definition required_environment :: "string list" where
  "required_environment = [''OIDF_PUBLIC_BASE_URL'', ''OIDF_TLS_HOST_PORT'', ''OIDF_INTERNAL_TLS_PORT'',
     ''OIDF_CONFORMANCE_BRIDGE_ALIAS'', ''OIDF_TLS_CERT_DIR'', ''EUDI_VERIFIER_PUBLIC_URL'',
     ''EUDI_VERIFIER_TLS_HOST_PORT'', ''EUDI_WALLET_KIT_HOST_PORT'', ''EUDI_WALLET_KIT_URL'',
     oid4vp_trust_anchor_file_env, ''EUDI_VERIFIER_KEYSTORE_FILE'', ''EUDI_VERIFIER_KEYSTORE_TYPE'',
     ''EUDI_VERIFIER_KEYSTORE_PASSWORD'', ''EUDI_VERIFIER_KEYSTORE_ALIAS'', ''EUDI_VERIFIER_KEY_PASSWORD'',
     ''EUDI_VERIFIER_SIGNING_ALGORITHM'', ''EUDI_VERIFIER_CLIENT_ID_PREFIX'', ''EUDI_VERIFIER_ORIGINAL_CLIENT_ID'',
     ''EUDI_TLS_TRUSTSTORE_PASSWORD'', ''EUDI_TLS_TRUSTSTORE_ALIAS'']"

section \<open>Hosts, ports and origins\<close>

definition dns_label :: rx where
  "dns_label = Seq (Cls (\<lambda>c. is_lower c \<or> is_digit c))
     (opt (Seq (Rep 0 61 (Cls alnum_dash)) (Cls (\<lambda>c. is_lower c \<or> is_digit c))))"

text \<open>The look-ahead of \<open>DNS_NAME\<close> bounds the length: 253 characters and a final dot.\<close>

definition dns_rx :: rx where
  "dns_rx = seqs [Many 0 (Seq dns_label (Lit ''.'')), dns_label, opt (Lit ''.'')]"

definition is_dns_name :: "string \<Rightarrow> bool" where
  "is_dns_name s = (s \<noteq> [] \<and> (length s \<le> 253 \<or> length s = 254 \<and> last s = CHR ''.'') \<and> fullmatch dns_rx s)"

definition dns_name :: "string \<Rightarrow> string \<Rightarrow> string result" where
  "dns_name v field = (let normalized = rstrip_char (CHR ''.'') (py_lower (strip v)) in
     if \<not> is_dns_name normalized then raise (ValueError (field @ '' must be a valid DNS hostname''))
     else if is_ip_address normalized then raise (ValueError (field @ '' must be a DNS hostname, not an IP address''))
     else ret normalized)"

definition port_of :: "int \<Rightarrow> string \<Rightarrow> int result" where
  "port_of v field = (if \<not> (1 \<le> v \<and> v \<le> 65535) then raise (ValueError (field @ '' must be between 1 and 65535'')) else ret v)"

text \<open>\<open>urlparse(u).port\<close>, and its \<open>path\<close>, which loses the parameters of the last segment.\<close>

definition port_text :: "split_url \<Rightarrow> string" where
  "port_text u = (let hi = rpart_tail (CHR ''@'') (netloc u) in
     if mem (CHR ''['') hi then part_tail (CHR '':'') (part_tail (CHR '']'') (part_tail (CHR ''['') hi))
     else part_tail (CHR '':'') hi)"

definition url_port :: "split_url \<Rightarrow> int option result" where
  "url_port u = (let p = port_text u in
     if p = [] then ret None
     else if \<not> list_all is_digit p then raise (ValueError (''Port could not be cast to integer value as '' @ str_repr p))
     else if 65535 < decimal_value p then raise (ValueError ''Port out of range 0-65535'')
     else ret (Some (int (decimal_value p))))"

definition parsed_path :: "split_url \<Rightarrow> string" where
  "parsed_path u = (let p = path u; tail = after_last (CHR ''/'') p in
     take (length p - length tail) p @ before_first (CHR '';'') tail)"

definition set_text :: "string option \<Rightarrow> bool" where
  "set_text v = (case v of None \<Rightarrow> False | Some s \<Rightarrow> s \<noteq> [])"

definition bare_origin :: "split_url \<Rightarrow> bool" where
  "bare_origin u = (set_text (hostname u) \<and> \<not> set_text (username u) \<and> \<not> set_text (password u)
     \<and> query u = [] \<and> fragment u = [] \<and> (parsed_path u = [] \<or> parsed_path u = ''/''))"

text \<open>\<open>parsed.port or default\<close>\<close>

definition or_default :: "int option \<Rightarrow> int \<Rightarrow> int" where
  "or_default p d = (case p of None \<Rightarrow> d | Some n \<Rightarrow> if n = 0 then d else n)"

definition origin_text :: "string \<Rightarrow> string \<Rightarrow> int \<Rightarrow> int \<Rightarrow> string" where
  "origin_text sch host port d = (if port \<noteq> d then sch @ ''://'' @ host @ '':'' @ int_str port else sch @ ''://'' @ host)"

definition https_origin :: "string \<Rightarrow> string \<Rightarrow> (string \<times> string \<times> int) result" where
  "https_origin v field = bindE (urlsplit v) (\<lambda>parsed.
     if scheme parsed \<noteq> ''https'' \<or> \<not> bare_origin parsed
     then raise (ValueError (field @ '' must be an absolute HTTPS origin without credentials, path, query, or fragment''))
     else let host = py_lower (the (hostname parsed)) in
       bindE (url_port parsed) (\<lambda>p. let port = or_default p 443 in
         ret (origin_text ''https'' host port 443, host, port)))"

definition http_origin :: "string \<Rightarrow> string \<Rightarrow> (string \<times> string \<times> int) result" where
  "http_origin v field = bindE (urlsplit v) (\<lambda>parsed.
     if (scheme parsed \<noteq> ''http'' \<and> scheme parsed \<noteq> ''https'') \<or> \<not> bare_origin parsed
     then raise (ValueError (field @ '' must be an absolute HTTP(S) origin without credentials, path, query, or fragment''))
     else let host = py_lower (the (hostname parsed)); default_port = (if scheme parsed = ''https'' then 443 else 80) in
       bindE (url_port parsed) (\<lambda>p. let port = or_default p default_port in
         ret (origin_text (scheme parsed) host port default_port, host, port)))"

datatype curve = SECP256R1 | SECP384R1 | SECP521R1

definition expected_curve :: "string \<Rightarrow> curve result" where
  "expected_curve algorithm =
     (if algorithm = ''ES256'' then ret SECP256R1 else if algorithm = ''ES384'' then ret SECP384R1
      else if algorithm = ''ES512'' then ret SECP521R1
      else raise (ValueError ''EUDI verifier signing algorithm must be ES256, ES384, or ES512''))"

section \<open>The contract\<close>

record contract =
  gateway :: string
  gateway_host :: string
  gateway_port :: int
  verifier :: string
  verifier_host :: string
  verifier_port :: int
  wallet_kit :: string
  wallet_kit_port :: int

text \<open>\<open>environment[name]\<close>\<close>

definition env_item :: "environment \<Rightarrow> string \<Rightarrow> string result" where
  "env_item env name = (case map_of env name of None \<Rightarrow> raise (KeyError name) | Some v \<Rightarrow> ret v)"

definition expect_port :: "environment \<Rightarrow> string \<times> int \<Rightarrow> unit result" where
  "expect_port env = (\<lambda>(name, expected). bindE (env_item env name) (\<lambda>text.
     bindE (catchE (py_int text) (\<lambda>_. raise (ValueError (name @ '' must be an integer'')))) (\<lambda>actual.
       if actual \<noteq> expected then raise (ValueError (name @ '' must equal the port in its public URL'')) else ret ())))"

definition validate_environment_contract :: "environment \<Rightarrow> contract result" where
  "validate_environment_contract env = (let missing = filter (\<lambda>n. env_value env n = []) required_environment in
     if missing \<noteq> [] then raise (ValueError (''missing EUDI material environment: '' @ join '', '' missing))
     else bindE (https_origin (env_text_of env ''OIDF_PUBLIC_BASE_URL'') ''OIDF_PUBLIC_BASE_URL'') (\<lambda>(gw, gw_host, gw_port).
     bindE (https_origin (env_text_of env ''EUDI_VERIFIER_PUBLIC_URL'') ''EUDI_VERIFIER_PUBLIC_URL'') (\<lambda>(vf, vf_host, vf_port).
     bindE (http_origin (env_text_of env ''EUDI_WALLET_KIT_URL'') ''EUDI_WALLET_KIT_URL'') (\<lambda>(wk, _, wk_url_port).
     bindE (dns_name (env_text_of env ''OIDF_CONFORMANCE_BRIDGE_ALIAS'') ''OIDF_CONFORMANCE_BRIDGE_ALIAS'') (\<lambda>alias_host.
     if alias_host \<noteq> gw_host
     then raise (ValueError ''OIDF_CONFORMANCE_BRIDGE_ALIAS must equal the OIDF public hostname'')
     else bindE (mapE (expect_port env) [(''OIDF_TLS_HOST_PORT'', gw_port), (''OIDF_INTERNAL_TLS_PORT'', gw_port),
            (''EUDI_VERIFIER_TLS_HOST_PORT'', vf_port)]) (\<lambda>_.
     bindE (catchE (bindE (py_int (env_text_of env ''EUDI_WALLET_KIT_HOST_PORT'')) (\<lambda>n. port_of n ''wallet kit port''))
        (\<lambda>_. raise (ValueError ''EUDI_WALLET_KIT_HOST_PORT must be an integer between 1 and 65535''))) (\<lambda>wk_port.
     if wk_port \<noteq> wk_url_port
     then raise (ValueError ''EUDI_WALLET_KIT_HOST_PORT must equal the port in EUDI_WALLET_KIT_URL'')
     else if \<not> distinct [gw_port, vf_port, wk_port]
     then raise (ValueError ''EUDI and Marty published ports must be distinct'')
     else bindE (expected_curve (env_text_of env ''EUDI_VERIFIER_SIGNING_ALGORITHM'')) (\<lambda>_.
       if env_text_of env ''EUDI_VERIFIER_CLIENT_ID_PREFIX'' \<notin> {''pre-registered'', ''x509_san_dns'', ''x509_hash''}
       then raise (ValueError ''EUDI verifier client ID prefix is unsupported'')
       else ret \<lparr>gateway = gw, gateway_host = gw_host, gateway_port = gw_port,
                 verifier = vf, verifier_host = vf_host, verifier_port = vf_port,
                 wallet_kit = wk, wallet_kit_port = wk_port\<rparr>))))))))"

section \<open>Generated and external material\<close>

definition load_environment_manifest :: "(string \<Rightarrow> json result option) \<Rightarrow> string \<Rightarrow> (string \<times> environment) result" where
  "load_environment_manifest manifest_at dir = (let p = path_join dir environment_file in
     case manifest_at p of
       None \<Rightarrow> raise (ValueError (''EUDI material manifest is missing: '' @ p))
     | Some loaded \<Rightarrow> bindE loaded (\<lambda>document.
         if \<not> is_dict document then raise (ValueError ''EUDI material manifest must be a JSON object'')
         else let mode = obj_get document ''mode''; values = obj_get document ''environment'' in
           if obj_get document ''schema'' \<noteq> JStr schema_name then raise (ValueError ''unsupported EUDI material manifest'')
           else if is_list mode \<or> is_dict mode then raise TypeError
           else if mode \<notin> {JStr ''generated'', JStr ''external''} then raise (ValueError ''unsupported EUDI material manifest'')
           else if \<not> is_dict values \<or> list_ex (\<lambda>(k, v). \<not> is_str v) (fields_of values)
           then raise (ValueError ''EUDI material environment must contain string keys and values'')
           else ret (str_of mode, map (\<lambda>(k, v). (k, str_of v)) (fields_of values))))"

definition put_all :: "environment \<Rightarrow> environment \<Rightarrow> environment" where
  "put_all new env = foldl (\<lambda>e (k, v). put k v e) env new"

text \<open>\<open>environment.setdefault(name, generated[name])\<close>\<close>

definition default_from :: "environment \<Rightarrow> environment \<Rightarrow> string \<Rightarrow> environment result" where
  "default_from generated env name = bindE (env_item generated name) (\<lambda>v.
     ret (if map_of env name = None then put name v env else env))"

definition merged_material_environment ::
    "(string \<Rightarrow> json result option) \<Rightarrow> string \<Rightarrow> environment \<Rightarrow> (string \<times> environment) result" where
  "merged_material_environment manifest_at dir external = (let
       present = filter (\<lambda>n. env_value external n \<noteq> []) material_path_variables;
       declared = env_value external ''EUDI_TEST_MATERIAL_MODE''
     in if present \<noteq> [] \<and> length present \<noteq> length material_path_variables
        then raise (ValueError (''set external OIDF_TLS_CERT_DIR, EUDI_VERIFIER_KEYSTORE_FILE, and ''
               @ oid4vp_trust_anchor_file_env @ '' together, or none of them''))
        else if declared \<notin> {[], ''generated'', ''external''}
        then raise (ValueError ''EUDI_TEST_MATERIAL_MODE must be generated or external'')
        else if length present = length material_path_variables \<and> declared \<noteq> ''generated''
        then bindE (load_environment_manifest manifest_at dir) (\<lambda>(_, generated).
             bindE (foldE (default_from generated) external oidf_runner_environment) (\<lambda>env.
               ret (''external'', put ''EUDI_TEST_MATERIAL_MODE'' ''external'' env)))
        else bindE (load_environment_manifest manifest_at dir) (\<lambda>(mode, generated).
               ret (mode, put ''EUDI_TEST_MATERIAL_MODE'' mode (put_all generated external))))"

section \<open>What a generation declares\<close>

definition max_validity_hours :: int where "max_validity_hours = 168"

record ports = marty_port :: int  verifier_tls_port :: int  kit_port :: int

definition generation_request :: "string \<Rightarrow> ports \<Rightarrow> int \<Rightarrow> (string \<times> ports) result" where
  "generation_request host_arg p valid_hours =
     bindE (dns_name host_arg ''hostname'') (\<lambda>host.
     bindE (port_of (marty_port p) ''Marty port'') (\<lambda>m.
     bindE (port_of (verifier_tls_port p) ''verifier port'') (\<lambda>v.
     bindE (port_of (kit_port p) ''wallet kit port'') (\<lambda>k.
     if \<not> distinct [m, v, k] then raise (ValueError ''generated service ports must be distinct'')
     else if \<not> (1 \<le> valid_hours \<and> valid_hours \<le> max_validity_hours)
     then raise (ValueError (''validity must be between 1 and '' @ int_str max_validity_hours @ '' hours''))
     else ret (host, \<lparr>marty_port = m, verifier_tls_port = v, kit_port = k\<rparr>)))))"

record secrets =
  store_password :: string
  key_password :: string
  truststore_password :: string
  key_alias :: string

definition generated_environment :: "string \<Rightarrow> string \<Rightarrow> ports \<Rightarrow> secrets \<Rightarrow> environment" where
  "generated_environment output_dir host p s = (let root = path_join output_dir root_ca_file in
    [(''EUDI_TEST_MATERIAL_MODE'', ''generated''),
     (''EUDI_TEST_CA_FILE'', root),
     (''SSL_CERT_FILE'', root),
     (''OIDF_PUBLIC_BASE_URL'', ''https://'' @ host @ '':'' @ int_str (marty_port p)),
     (''OIDF_TLS_HOST_PORT'', int_str (marty_port p)),
     (''OIDF_INTERNAL_TLS_PORT'', int_str (marty_port p)),
     (''OIDF_CONFORMANCE_BRIDGE_ALIAS'', host),
     (''OIDF_TLS_CERT_DIR'', path_str output_dir),
     (''OIDF_MARTY_RESOLVE_IP'', ''127.0.0.1''),
     (''OIDF_RUNNER_TLS_MODE'', ''generated''),
     (''OIDF_RUNNER_TLS_KEY_FILE'', path_join output_dir ''oidf-runner-tls.key''),
     (''OIDF_RUNNER_TLS_CERT_FILE'', path_join output_dir ''oidf-runner-tls.crt''),
     (''OIDF_RUNNER_TRUSTSTORE_FILE'', path_join output_dir truststore_file),
     (''OIDF_RUNNER_TRUSTSTORE_PASSWORD'', truststore_password s),
     (''EUDI_VERIFIER_PUBLIC_URL'', ''https://'' @ host @ '':'' @ int_str (verifier_tls_port p)),
     (''EUDI_VERIFIER_TLS_HOST_PORT'', int_str (verifier_tls_port p)),
     (''EUDI_WALLET_KIT_HOST_PORT'', int_str (kit_port p)),
     (''EUDI_WALLET_KIT_URL'', ''http://127.0.0.1:'' @ int_str (kit_port p)),
     (oid4vp_trust_anchor_file_env, root),
     (''EUDI_VERIFIER_KEYSTORE_FILE'', path_join output_dir eudi_keystore_file),
     (''EUDI_VERIFIER_KEYSTORE_TYPE'', ''JKS''),
     (''EUDI_VERIFIER_KEYSTORE_PASSWORD'', store_password s),
     (''EUDI_VERIFIER_KEYSTORE_ALIAS'', key_alias s),
     (''EUDI_VERIFIER_KEY_PASSWORD'', key_password s),
     (''EUDI_VERIFIER_SIGNING_ALGORITHM'', ''ES512''),
     (''EUDI_VERIFIER_CLIENT_ID_PREFIX'', ''x509_san_dns''),
     (''EUDI_VERIFIER_ORIGINAL_CLIENT_ID'', host),
     (''EUDI_TLS_TRUSTSTORE_PASSWORD'', truststore_password s),
     (''EUDI_TLS_TRUSTSTORE_ALIAS'', ''elevenid-conformance-root'')])"

end
