(* ===== verification/Eudi_Contract_Props.thy ===== *)
theory Eudi_Contract_Props
  imports Eudi_Contract
begin

text \<open>
  What an accepted contract says, that generated material meets it, and which values win when
  generated and external material are merged.
\<close>

section \<open>Characters a pattern can consume\<close>

fun rx_over :: "(char \<Rightarrow> bool) \<Rightarrow> rx \<Rightarrow> bool" where
  "rx_over P (Lit l) = list_all P l"
| "rx_over P (LitI l) = False"
| "rx_over P (Cls Q) = (\<forall>c. Q c \<longrightarrow> P c)"
| "rx_over P (Seq a b) = (rx_over P a \<and> rx_over P b)"
| "rx_over P (Alt a b) = (rx_over P a \<and> rx_over P b)"
| "rx_over P (Rep m n r) = rx_over P r"
| "rx_over P (Many m r) = rx_over P r"
| "rx_over P (Grp n r) = rx_over P r"
| "rx_over P _ = True"

definition consumes :: "(char \<Rightarrow> bool) \<Rightarrow> (pos \<Rightarrow> pos list) \<Rightarrow> bool" where
  "consumes P f \<longleftrightarrow> (\<forall>p s g p' s' g'. (p', s', g') \<in> set (f (p, s, g)) \<longrightarrow> (\<exists>w. s = w @ s' \<and> list_all P w))"

lemma consumesD: "consumes P f \<Longrightarrow> (p', s', g') \<in> set (f (p, s, g)) \<Longrightarrow> \<exists>w. s = w @ s' \<and> list_all P w"
  unfolding consumes_def by blast

lemma consumes_rep: "consumes P f \<Longrightarrow> consumes P (rep_match f m n)"
proof (induction n arbitrary: m)
  case 0
  then show ?case by (simp add: consumes_def)
next
  case (Suc n)
  show ?case
    unfolding consumes_def
  proof (intro allI impI)
    fix p s g p' s' g'
    assume "(p', s', g') \<in> set (rep_match f m (Suc n) (p, s, g))"
    then consider p1 s1 g1 where "(p1, s1, g1) \<in> set (f (p, s, g))" "(p', s', g') \<in> set (rep_match f (m - 1) n (p1, s1, g1))"
      | "s' = s" by (auto split: if_splits)
    then show "\<exists>w. s = w @ s' \<and> list_all P w"
    proof cases
      case 1
      from consumesD [OF Suc.prems 1(1)] obtain a where a: "s = a @ s1" "list_all P a" by blast
      from consumesD [OF Suc.IH [OF Suc.prems] 1(2)] obtain b where b: "s1 = b @ s'" "list_all P b" by blast
      from a b show ?thesis by (intro exI [of _ "a @ b"]) simp
    qed simp
  qed
qed

lemma consumes_rmatch: "rx_over P r \<Longrightarrow> consumes P (rmatch r)"
proof (induction r)
  case (Lit l)
  then show ?case by (auto simp: consumes_def startswith_iff)
next
  case (Cls Q)
  then show ?case by (auto simp: consumes_def split: list.splits if_splits)
next
  case (Seq a b)
  then have ab: "consumes P (rmatch a)" "consumes P (rmatch b)" by simp_all
  show ?case
    unfolding consumes_def
  proof (intro allI impI)
    fix p s g p' s' g'
    assume "(p', s', g') \<in> set (rmatch (Seq a b) (p, s, g))"
    then obtain p1 s1 g1 where m: "(p1, s1, g1) \<in> set (rmatch a (p, s, g))" "(p', s', g') \<in> set (rmatch b (p1, s1, g1))"
      by auto
    from consumesD [OF ab(1) m(1)] obtain u where u: "s = u @ s1" "list_all P u" by blast
    from consumesD [OF ab(2) m(2)] obtain v where v: "s1 = v @ s'" "list_all P v" by blast
    from u v show "\<exists>w. s = w @ s' \<and> list_all P w" by (intro exI [of _ "u @ v"]) simp
  qed
next
  case (Alt a b)
  then have "consumes P (rmatch a)" "consumes P (rmatch b)" by simp_all
  note ab = consumesD [OF this(1)] consumesD [OF this(2)]
  show ?case
    unfolding consumes_def
  proof (intro allI impI)
    fix p s g p' s' g'
    assume "(p', s', g') \<in> set (rmatch (Alt a b) (p, s, g))"
    then consider "(p', s', g') \<in> set (rmatch a (p, s, g))" | "(p', s', g') \<in> set (rmatch b (p, s, g))" by auto
    then show "\<exists>w. s = w @ s' \<and> list_all P w"
    proof cases
      case 1
      then show ?thesis by (rule ab(1))
    next
      case 2
      then show ?thesis by (rule ab(2))
    qed
  qed
next
  case (Rep m n r)
  then have "consumes P (rep_match (rmatch r) m n)" by (simp add: consumes_rep)
  then show ?case by (simp add: consumes_def)
next
  case (Many m r)
  then have "consumes P (rep_match (rmatch r) m k)" for k by (simp add: consumes_rep)
  then show ?case by (simp add: consumes_def)
next
  case (Grp n r)
  then have "consumes P (rmatch r)" by simp
  then show ?case by (auto simp: consumes_def) blast
qed (simp_all add: consumes_def Let_def)

lemma fullmatch_over: "rx_over P r \<Longrightarrow> fullmatch r s \<Longrightarrow> list_all P s"
proof -
  assume r: "rx_over P r" and "fullmatch r s"
  then obtain p g where "(p, [], g) \<in> set (rmatch r (None, s, []))"
    by (auto simp: fullmatch_def list_ex_iff)
  from consumesD [OF consumes_rmatch [OF r] this] show ?thesis by auto
qed

definition net_host_char :: "char \<Rightarrow> bool" where
  "net_host_char c = (is_lower c \<or> is_digit c \<or> c = CHR ''-'' \<or> c = CHR ''.'')"

lemma is_dns_name_chars: "is_dns_name s \<Longrightarrow> list_all net_host_char s \<and> s \<noteq> []"
proof -
  assume s: "is_dns_name s"
  have "rx_over net_host_char dns_rx"
    by (simp add: dns_rx_def dns_label_def opt_def net_host_char_def alnum_dash_def)
  with s show ?thesis by (auto simp: is_dns_name_def intro: fullmatch_over)
qed

lemma dns_name_OK:
  "dns_name v field = Inr h \<longleftrightarrow>
     h = rstrip_char (CHR ''.'') (py_lower (strip v)) \<and> is_dns_name h \<and> \<not> is_ip_address h"
  by (auto simp: dns_name_def Let_def)

section \<open>Origins made of a host and a port\<close>

definition net_char :: "char \<Rightarrow> bool" where
  "net_char c = (net_host_char c \<or> c = CHR '':'')"

lemma net_char_plain:
  assumes "net_char c"
  shows "\<not> is_unsafe c" "\<not> netloc_end c" "c \<noteq> CHR ''[''" "c \<noteq> CHR '']''" "c \<noteq> CHR ''@''" "\<not> c0_or_space c"
proof -
  have "45 \<le> code c \<and> code c \<le> 58 \<and> code c \<noteq> 47 \<or> 97 \<le> code c \<and> code c \<le> 122"
    using assms by (auto simp: net_char_def net_host_char_def is_lower_def is_digit_def code_def)
  then show "\<not> is_unsafe c" "\<not> netloc_end c" "c \<noteq> CHR ''[''" "c \<noteq> CHR '']''" "c \<noteq> CHR ''@''" "\<not> c0_or_space c"
    by (auto simp: is_unsafe_def netloc_end_def c0_or_space_def code_def Let_def)
qed

lemma net_chars_plain:
  assumes "list_all net_char t"
  shows "filter (\<lambda>c. \<not> is_unsafe c) t = t" "takeWhile (\<lambda>c. \<not> netloc_end c) t = t"
    "CHR ''['' \<notin> set t" "CHR '']'' \<notin> set t" "CHR ''@'' \<notin> set t"
proof -
  have p: "\<And>c. c \<in> set t \<Longrightarrow> net_char c" using assms by (simp add: list_all_iff)
  show "filter (\<lambda>c. \<not> is_unsafe c) t = t" using p net_char_plain(1) by (simp add: filter_id_conv)
  show "takeWhile (\<lambda>c. \<not> netloc_end c) t = t" using p net_char_plain(2) by (simp add: takeWhile_eq_all_conv)
  show "CHR ''['' \<notin> set t" using p net_char_plain(3) by blast
  show "CHR '']'' \<notin> set t" using p net_char_plain(4) by blast
  show "CHR ''@'' \<notin> set t" using p net_char_plain(5) by blast
qed

definition web_scheme :: "string \<Rightarrow> bool" where
  "web_scheme s = (s = ''http'' \<or> s = ''https'')"

lemma urlsplit_net:
  assumes t: "list_all net_char t" and s: "web_scheme s"
  shows "urlsplit (s @ ''://'' @ t) = Inr \<lparr>scheme = s, netloc = t, path = [], query = [], fragment = []\<rparr>"
proof -
  have clean: "url_clean (s @ ''://'' @ t) = s @ CHR '':'' # ''//'' @ t"
    using s net_chars_plain(1) [OF t]
    by (auto simp: url_clean_def web_scheme_def c0_or_space_def is_unsafe_def code_def)
  have colon: "CHR '':'' \<notin> set s" using s by (auto simp: web_scheme_def)
  have pre: "part_head (CHR '':'') (s @ CHR '':'' # ''//'' @ t) = s"
     "part_tail (CHR '':'') (s @ CHR '':'' # ''//'' @ t) = ''//'' @ t"
    using part_append [OF colon] by simp_all
  have sch: "url_has_scheme (s @ CHR '':'' # ''//'' @ t)"
    using s unfolding url_has_scheme_def pre Let_def
    by (auto simp: web_scheme_def mem_def scheme_char_def is_alnum_def is_lower_def code_def)
  have low: "py_lower s = s"
    using s by (auto simp: web_scheme_def py_lower_def lower_char_def is_upper_def code_def)
  have net1: "url_net (''//'' @ t) = t"
    using net_chars_plain(2) [OF t] by (simp add: url_net_def startswith_def)
  have net2: "url_after_net (''//'' @ t) = []" unfolding url_after_net_def net1 by (simp add: startswith_def)
  have ok: "netloc_ok t" using net_chars_plain [OF t] by (simp add: netloc_ok_def mem_def)
  show ?thesis
    unfolding urlsplit_def Let_def clean url_after_scheme_def if_P [OF sch] pre net1 net2 low using ok
    by (simp add: part_head_def part_tail_def)
qed

lemma int_str_nat: "0 \<le> n \<Longrightarrow> int_str n = nat_digits (nat n)"
  by (simp add: int_str_def)

lemma digits_host: "list_all is_digit s \<Longrightarrow> list_all net_host_char s"
  by (auto simp: list_all_iff net_host_char_def)

lemma host_lower: "list_all net_host_char h \<Longrightarrow> py_lower h = h"
proof -
  have "net_host_char c \<Longrightarrow> lower_char c = c" for c
    by (auto simp: net_host_char_def lower_char_def is_lower_def is_digit_def code_def Let_def)
  then show "list_all net_host_char h \<Longrightarrow> py_lower h = h"
    by (auto simp: py_lower_def list_all_iff intro: map_idI)
qed

lemma host_no_colon: "list_all net_host_char h \<Longrightarrow> CHR '':'' \<notin> set h \<and> CHR ''%'' \<notin> set h"
proof -
  have "\<not> net_host_char (CHR '':'')" "\<not> net_host_char (CHR ''%'')"
    by (simp_all add: net_host_char_def is_lower_def is_digit_def code_def)
  then show "list_all net_host_char h \<Longrightarrow> CHR '':'' \<notin> set h \<and> CHR ''%'' \<notin> set h"
    by (auto simp: list_all_iff)
qed

lemma host_net:
  assumes h: "list_all net_host_char h" and n: "1 \<le> n" "n \<le> 65535"
  shows "list_all net_char (h @ '':'' @ int_str n)"
proof -
  have "list_all net_host_char (int_str n)" using n nat_digits_all_digits by (auto simp: int_str_nat intro: digits_host)
  with h show ?thesis by (auto simp: list_all_iff net_char_def)
qed

lemma parsed_host_port:
  assumes h: "list_all net_host_char h" "h \<noteq> []" and n: "1 \<le> n" "n \<le> 65535" and s: "web_scheme s"
  shows "\<exists>u. urlsplit (s @ ''://'' @ h @ '':'' @ int_str n) = Inr u \<and> scheme u = s \<and> bare_origin u
    \<and> hostname u = Some h \<and> url_port u = Inr (Some n)"
proof -
  let ?t = "h @ '':'' @ int_str n"
  let ?u = "\<lparr>scheme = s, netloc = ?t, path = [], query = [], fragment = []\<rparr>"
  have t: "list_all net_char ?t" using h n by (intro host_net)
  note plain = net_chars_plain [OF t]
  have split: "urlsplit (s @ ''://'' @ ?t) = Inr ?u" by (rule urlsplit_net [OF t s])
  have tail: "rpart_tail (CHR ''@'') ?t = ?t"
    using plain(5) by (simp add: rpart_tail_def after_last_def split_on_single)
  have nc: "CHR '':'' \<notin> set h" "CHR ''%'' \<notin> set h" using host_no_colon [OF h(1)] by simp_all
  have parts: "part_head (CHR '':'') ?t = h" "part_tail (CHR '':'') ?t = int_str n"
    using part_append [OF nc(1), of "int_str n"] by simp_all
  have br: "\<not> mem (CHR ''['') ?t" using plain(3) by (simp add: mem_def)
  have host: "hostname ?u = Some h"
    unfolding hostname_def Let_def split_url.simps tail if_not_P [OF br] parts
    using h by (simp add: part_absent [OF nc(2)] host_lower [OF h(1)])
  have digits: "int_str n \<noteq> []" "list_all is_digit (int_str n)" "decimal_value (int_str n) = nat n"
    using n by (simp_all add: int_str_nat nat_digits_all_digits decimal_value_digits)
  have port: "url_port ?u = Inr (Some n)"
    unfolding url_port_def port_text_def Let_def split_url.simps tail if_not_P [OF br] parts
    using n digits by simp
  have "bare_origin ?u"
    unfolding bare_origin_def host
    using h(2) plain(5) by (auto simp: set_text_def username_def password_def userinfo_def mem_def parsed_path_def
        after_last_def before_first_def)
  with split host port show ?thesis by (intro exI [of _ ?u]) simp
qed

lemma origin_of_host_port:
  assumes "list_all net_host_char h" "h \<noteq> []" "1 \<le> n" "n \<le> 65535"
  shows "https_origin (''https://'' @ h @ '':'' @ int_str n) field = Inr (origin_text ''https'' h n 443, h, n)"
    and "http_origin (''http://'' @ h @ '':'' @ int_str n) field = Inr (origin_text ''http'' h n 80, h, n)"
proof -
  from parsed_host_port [OF assms, of "''https''"] obtain u where
    u: "urlsplit (''https://'' @ h @ '':'' @ int_str n) = Inr u" "scheme u = ''https''" "bare_origin u"
      "hostname u = Some h" "url_port u = Inr (Some n)" by (auto simp: web_scheme_def)
  show "https_origin (''https://'' @ h @ '':'' @ int_str n) field = Inr (origin_text ''https'' h n 443, h, n)"
    unfolding https_origin_def u(1) using u assms by (simp add: host_lower or_default_def)
  from parsed_host_port [OF assms, of "''http''"] obtain v where
    v: "urlsplit (''http://'' @ h @ '':'' @ int_str n) = Inr v" "scheme v = ''http''" "bare_origin v"
      "hostname v = Some h" "url_port v = Inr (Some n)" by (auto simp: web_scheme_def)
  show "http_origin (''http://'' @ h @ '':'' @ int_str n) field = Inr (origin_text ''http'' h n 80, h, n)"
    unfolding http_origin_def v(1) using v assms by (simp add: host_lower or_default_def)
qed

section \<open>Numbers and names read back\<close>

lemma strip_nonspace: "list_all (\<lambda>c. \<not> is_space c) s \<Longrightarrow> strip s = s"
proof -
  have "list_all (\<lambda>c. \<not> is_space c) t \<Longrightarrow> dropWhile is_space t = t" for t
    by (cases t) auto
  then show "list_all (\<lambda>c. \<not> is_space c) s \<Longrightarrow> strip s = s" by (simp add: strip_def)
qed

lemma host_nonspace: "list_all net_host_char s \<Longrightarrow> list_all (\<lambda>c. \<not> is_space c) s"
proof -
  have "net_host_char c \<Longrightarrow> \<not> is_space c" for c
    by (auto simp: net_host_char_def is_space_def is_lower_def is_digit_def code_def Let_def)
  then show "list_all net_host_char s \<Longrightarrow> list_all (\<lambda>c. \<not> is_space c) s" by (auto simp: list_all_iff)
qed

lemma py_int_int_str: "0 \<le> n \<Longrightarrow> py_int (int_str n) = Inr n"
proof -
  assume n: "0 \<le> n"
  let ?d = "nat_digits (nat n)"
  have dg: "list_all is_digit ?d" by (rule nat_digits_all_digits)
  have st: "strip ?d = ?d" by (intro strip_nonspace host_nonspace digits_host dg)
  have no: "CHR ''-'' \<notin> set ?d" "CHR ''+'' \<notin> set ?d" "CHR ''_'' \<notin> set ?d"
    using dg by (auto simp: list_all_iff is_digit_def code_def)
  then have head: "\<not> startswith ?d ''-''" "\<not> startswith ?d ''+''" by (auto simp: startswith_iff)
  have "int_digits ?d" using dg no by (simp add: int_digits_def split_on_single)
  moreover have "filter is_digit ?d = ?d" using dg by (simp add: filter_id_conv list_all_iff)
  ultimately show ?thesis using n st head by (simp add: py_int_def int_str_nat decimal_value_digits Let_def)
qed

lemma rstrip_char_idem: "rstrip_char c (rstrip_char c s) = rstrip_char c s"
  by (simp add: rstrip_char_def)

lemma dns_name_idem: "dns_name v f = Inr h \<Longrightarrow> dns_name h g = Inr h"
  unfolding dns_name_OK
  by (metis host_lower host_nonspace is_dns_name_chars rstrip_char_idem strip_nonspace)

lemma strip_nonblank:
  assumes "c \<in> set s" and "\<not> is_space c"
  shows "strip s \<noteq> []"
proof
  assume "strip s = []"
  then have all: "\<forall>x\<in>set (dropWhile is_space s). is_space x"
    by (simp add: strip_def dropWhile_eq_Nil_conv)
  have "dropWhile is_space s = []"
  proof (rule ccontr)
    assume n: "dropWhile is_space s \<noteq> []"
    then have "hd (dropWhile is_space s) \<in> set (dropWhile is_space s)" by simp
    with all hd_dropWhile [OF n] show False by blast
  qed
  with assms show False by (simp add: dropWhile_eq_Nil_conv)
qed

lemma strip_join: "plain_name n \<Longrightarrow> \<not> is_space (last n) \<Longrightarrow> strip (path_join d n) \<noteq> []"
proof -
  assume n: "plain_name n" "\<not> is_space (last n)"
  have "path_join d n \<noteq> []" by (simp add: path_join_def path_str_def Let_def)
  then have "last (path_join d n) \<in> set (path_join d n)" by simp
  with n show ?thesis by (metis last_path_join strip_nonblank)
qed

lemma strip_absolute: "path_is_absolute d \<Longrightarrow> strip (path_str d) \<noteq> []"
proof -
  assume "path_is_absolute d"
  then have "CHR ''/'' \<in> set (path_root d)" by (auto simp: path_is_absolute_def path_root_def)
  then have "CHR ''/'' \<in> set (path_str d)" by (auto simp: path_str_def Let_def)
  then show ?thesis by (rule strip_nonblank) (simp add: is_space_def code_def Let_def)
qed

lemma strip_host: "list_all net_host_char h \<Longrightarrow> h \<noteq> [] \<Longrightarrow> strip h \<noteq> []"
  by (metis host_nonspace strip_nonspace)

lemma strip_int: "0 \<le> n \<Longrightarrow> strip (int_str n) \<noteq> []"
  by (intro strip_host) (simp_all add: int_str_nat digits_host nat_digits_all_digits)

lemma strip_url: "strip (CHR ''h'' # u) \<noteq> []"
  by (rule strip_nonblank [of "CHR ''h''"]) (simp_all add: is_space_def code_def Let_def)

section \<open>Generated material meets its own contract\<close>

lemma generation_request_OK:
  "generation_request a p hours = Inr (host, q) \<longleftrightarrow>
     dns_name a ''hostname'' = Inr host \<and> q = p \<and> 1 \<le> marty_port p \<and> marty_port p \<le> 65535
     \<and> 1 \<le> verifier_tls_port p \<and> verifier_tls_port p \<le> 65535 \<and> 1 \<le> kit_port p \<and> kit_port p \<le> 65535
     \<and> distinct [marty_port p, verifier_tls_port p, kit_port p] \<and> 1 \<le> hours \<and> hours \<le> max_validity_hours"
  by (cases p) (auto simp: generation_request_def port_of_def Let_def)

lemma generated_lookups:
  fixes dir host p s
  defines "env \<equiv> env_text_of (generated_environment dir host p s)"
  shows "env ''OIDF_PUBLIC_BASE_URL'' = ''https://'' @ host @ '':'' @ int_str (marty_port p)"
    "env ''OIDF_TLS_HOST_PORT'' = int_str (marty_port p)"
    "env ''OIDF_INTERNAL_TLS_PORT'' = int_str (marty_port p)"
    "env ''OIDF_CONFORMANCE_BRIDGE_ALIAS'' = host"
    "env ''OIDF_TLS_CERT_DIR'' = path_str dir"
    "env ''EUDI_VERIFIER_PUBLIC_URL'' = ''https://'' @ host @ '':'' @ int_str (verifier_tls_port p)"
    "env ''EUDI_VERIFIER_TLS_HOST_PORT'' = int_str (verifier_tls_port p)"
    "env ''EUDI_WALLET_KIT_HOST_PORT'' = int_str (kit_port p)"
    "env ''EUDI_WALLET_KIT_URL'' = ''http://127.0.0.1:'' @ int_str (kit_port p)"
    "env oid4vp_trust_anchor_file_env = path_join dir root_ca_file"
    "env ''EUDI_VERIFIER_KEYSTORE_FILE'' = path_join dir eudi_keystore_file"
    "env ''EUDI_VERIFIER_KEYSTORE_TYPE'' = ''JKS''"
    "env ''EUDI_VERIFIER_KEYSTORE_PASSWORD'' = store_password s"
    "env ''EUDI_VERIFIER_KEYSTORE_ALIAS'' = key_alias s"
    "env ''EUDI_VERIFIER_KEY_PASSWORD'' = key_password s"
    "env ''EUDI_VERIFIER_SIGNING_ALGORITHM'' = ''ES512''"
    "env ''EUDI_VERIFIER_CLIENT_ID_PREFIX'' = ''x509_san_dns''"
    "env ''EUDI_VERIFIER_ORIGINAL_CLIENT_ID'' = host"
    "env ''EUDI_TLS_TRUSTSTORE_PASSWORD'' = truststore_password s"
    "env ''EUDI_TLS_TRUSTSTORE_ALIAS'' = ''elevenid-conformance-root''"
  by (simp_all add: env_def env_text_of_def generated_environment_def Let_def oid4vp_trust_anchor_file_env_def)

lemma generated_required:
  assumes "path_is_absolute dir" "list_all net_host_char host" "host \<noteq> []"
    and "0 \<le> marty_port p" "0 \<le> verifier_tls_port p" "0 \<le> kit_port p"
    and "list_all (\<lambda>x. strip x \<noteq> []) [store_password s, key_password s, truststore_password s, key_alias s]"
  shows "filter (\<lambda>n. env_value (generated_environment dir host p s) n = []) required_environment = []"
proof -
  have lit: "strip ''JKS'' \<noteq> []" "strip ''ES512'' \<noteq> []" "strip ''x509_san_dns'' \<noteq> []" "strip ''elevenid-conformance-root'' \<noteq> []"
    by (simp_all add: strip_def is_space_def code_def Let_def)
  have files: "strip (path_join dir root_ca_file) \<noteq> []" "strip (path_join dir eudi_keystore_file) \<noteq> []"
    by (rule strip_join; simp add: plain_name_def root_ca_file_def eudi_keystore_file_def is_space_def code_def Let_def)+
  have secret: "strip (store_password s) \<noteq> []" "strip (key_password s) \<noteq> []" "strip (truststore_password s) \<noteq> []"
    "strip (key_alias s) \<noteq> []" using assms(7) by simp_all
  have url: "strip (''https://'' @ u) \<noteq> []" "strip (''http://127.0.0.1:'' @ u) \<noteq> []" for u
    by (simp_all add: strip_url)
  have "list_all (\<lambda>n. env_value (generated_environment dir host p s) n \<noteq> []) required_environment"
    unfolding required_environment_def list.pred_inject env_value_def generated_lookups
    by (intro conjI) (rule url files lit secret list.pred_inject(1) | rule strip_int, rule assms
      | rule strip_absolute, rule assms | rule strip_host, rule assms, rule assms)+
  then show ?thesis by (simp add: list_all_iff filter_empty_conv)
qed

lemma generated_ports:
  assumes "0 \<le> marty_port p" "0 \<le> verifier_tls_port p"
  shows "\<exists>us. mapE (expect_port (generated_environment dir host p s))
     [(''OIDF_TLS_HOST_PORT'', marty_port p), (''OIDF_INTERNAL_TLS_PORT'', marty_port p),
      (''EUDI_VERIFIER_TLS_HOST_PORT'', verifier_tls_port p)] = Inr us"
proof -
  have "env_item (generated_environment dir host p s) ''OIDF_TLS_HOST_PORT'' = Inr (int_str (marty_port p))"
    "env_item (generated_environment dir host p s) ''OIDF_INTERNAL_TLS_PORT'' = Inr (int_str (marty_port p))"
    "env_item (generated_environment dir host p s) ''EUDI_VERIFIER_TLS_HOST_PORT'' = Inr (int_str (verifier_tls_port p))"
    by (simp_all add: env_item_def generated_environment_def Let_def)
  with assms show ?thesis by (simp add: expect_port_def py_int_int_str)
qed

text \<open>
  Claim C39. Generated material always meets the contract that later runs are held to: whatever
  host name and ports a generation accepts, the environment it declares (in an absolute
  directory, with non-blank passwords and alias) passes the contract check, and the check reads
  back exactly that host and those ports as the gateway, verifier and wallet kit origins.
\<close>

theorem generated_meets_contract:
  "case generation_request host_arg p hours of
     Inl e \<Rightarrow> True
   | Inr (host, q) \<Rightarrow>
       if path_is_absolute dir
          \<and> list_all (\<lambda>x. strip x \<noteq> []) [store_password s, key_password s, truststore_password s, key_alias s]
       then validate_environment_contract (generated_environment dir host q s)
            = Inr \<lparr>gateway = origin_text ''https'' host (marty_port p) 443, gateway_host = host,
                 gateway_port = marty_port p,
                 verifier = origin_text ''https'' host (verifier_tls_port p) 443, verifier_host = host,
                 verifier_port = verifier_tls_port p,
                 wallet_kit = origin_text ''http'' ''127.0.0.1'' (kit_port p) 80, wallet_kit_port = kit_port p\<rparr>
       else True"
proof (cases "generation_request host_arg p hours")
  case (Inr r)
  obtain host q where r: "r = (host, q)" by (cases r)
  note ok = Inr [unfolded r generation_request_OK]
  then have q: "q = p" and d: "dns_name host_arg ''hostname'' = Inr host" by blast+
  have host: "list_all net_host_char host" "host \<noteq> []"
    using d is_dns_name_chars unfolding dns_name_OK by blast+
  have b: "1 \<le> marty_port p" "marty_port p \<le> 65535" "1 \<le> verifier_tls_port p" "verifier_tls_port p \<le> 65535"
    "1 \<le> kit_port p" "kit_port p \<le> 65535" using ok by blast+
  have z: "0 \<le> marty_port p" "0 \<le> verifier_tls_port p" "0 \<le> kit_port p" using b by linarith+
  have host_alias: "dns_name host ''OIDF_CONFORMANCE_BRIDGE_ALIAS'' = Inr host" using d by (rule dns_name_idem)
  have kit: "http_origin (''http://127.0.0.1:'' @ int_str (kit_port p)) ''EUDI_WALLET_KIT_URL''
      = Inr (origin_text ''http'' ''127.0.0.1'' (kit_port p) 80, ''127.0.0.1'', kit_port p)"
    using origin_of_host_port(2) [of "''127.0.0.1''", OF _ _ b(5,6)] by (simp add: net_host_char_def is_digit_def code_def)
  show ?thesis
  proof (cases "path_is_absolute dir
      \<and> list_all (\<lambda>x. strip x \<noteq> []) [store_password s, key_password s, truststore_password s, key_alias s]")
    case True
    then have c: "path_is_absolute dir"
      "list_all (\<lambda>x. strip x \<noteq> []) [store_password s, key_password s, truststore_password s, key_alias s]" by blast+
    note none = generated_required [OF c(1) host z c(2)]
    from generated_ports [OF z(1,2)] obtain us where us: "mapE (expect_port (generated_environment dir host p s))
     [(''OIDF_TLS_HOST_PORT'', marty_port p), (''OIDF_INTERNAL_TLS_PORT'', marty_port p),
      (''EUDI_VERIFIER_TLS_HOST_PORT'', verifier_tls_port p)] = Inr us" by blast
    have kp: "port_of (kit_port p) ''wallet kit port'' = Inr (kit_port p)" using b by (simp add: port_of_def)
    have dist: "distinct [marty_port p, verifier_tls_port p, kit_port p]" using ok by blast
    have curve: "expected_curve ''ES512'' = Inr SECP521R1" by (simp add: expected_curve_def)
    have "validate_environment_contract (generated_environment dir host p s)
            = Inr \<lparr>gateway = origin_text ''https'' host (marty_port p) 443, gateway_host = host,
                 gateway_port = marty_port p,
                 verifier = origin_text ''https'' host (verifier_tls_port p) 443, verifier_host = host,
                 verifier_port = verifier_tls_port p,
                 wallet_kit = origin_text ''http'' ''127.0.0.1'' (kit_port p) 80, wallet_kit_port = kit_port p\<rparr>"
      unfolding validate_environment_contract_def Let_def none generated_lookups
        origin_of_host_port(1) [OF host b(1,2)] origin_of_host_port(1) [OF host b(3,4)] kit bindE_simps prod.case host_alias
        us py_int_int_str [OF z(3)] kp catchE_simps curve
      using dist by simp
    then show ?thesis using True r q Inr by simp
  next
    case False
    then show ?thesis by (simp only: Inr r sum.case prod.case if_False)
  qed
qed simp

section \<open>Which values win\<close>

lemma map_of_put_all: "map_of (put_all new env) = map_of env ++ map_of (rev new)"
proof (induction new arbitrary: env)
  case (Cons kv new)
  obtain k v where kv: "kv = (k, v)" by (cases kv)
  have "map_of (put_all new (put k v env)) = (map_of env)(k \<mapsto> v) ++ map_of (rev new)"
    using Cons.IH by (simp add: map_of_put fun_upd_def)
  then show ?case by (simp add: put_all_def kv map_add_def fun_eq_iff split: option.split)
qed (simp add: put_all_def)

lemma default_from_OK:
  "default_from generated env name = Inr env' \<Longrightarrow>
     map_of generated name \<noteq> None \<and>
     map_of env' = (\<lambda>k. if k = name \<and> map_of env k = None then map_of generated k else map_of env k)"
  by (auto simp: default_from_def env_item_def map_of_put fun_eq_iff split: option.splits if_splits)

lemma defaults_OK:
  "foldE (default_from generated) env names = Inr env' \<Longrightarrow>
     map_of env' = (\<lambda>k. if k \<in> set names \<and> map_of env k = None then map_of generated k else map_of env k)"
proof (induction names arbitrary: env)
  case (Cons n names)
  from Cons.prems obtain e where e: "default_from generated env n = Inr e" "foldE (default_from generated) e names = Inr env'"
    by auto
  from default_from_OK [OF e(1)] Cons.IH [OF e(2)] show ?case by (auto simp: fun_eq_iff)
qed auto

definition external_material :: "environment \<Rightarrow> bool" where
  "external_material ext = (list_all (\<lambda>n. env_value ext n \<noteq> []) material_path_variables
     \<and> env_value ext ''EUDI_TEST_MATERIAL_MODE'' \<noteq> ''generated'')"

lemma length_filter_all: "length (filter P xs) = length xs \<longleftrightarrow> list_all P xs"
proof (induction xs)
  case (Cons x xs)
  have "length (filter P xs) \<le> length xs" by (rule length_filter_le)
  then have "length (filter P xs) \<noteq> Suc (length xs)" by linarith
  with Cons show ?case by auto
qed simp

lemma external_material_iff:
  "external_material ext \<longleftrightarrow>
     length (filter (\<lambda>n. env_value ext n \<noteq> []) material_path_variables) = length material_path_variables
     \<and> env_value ext ''EUDI_TEST_MATERIAL_MODE'' \<noteq> ''generated''"
  by (simp only: external_material_def length_filter_all)

text \<open>
  Whose values win. A merge succeeds only over a readable manifest, and then every
  variable of the result is decided: with complete external material the caller's values stand
  and only missing runner TLS variables come from the manifest, and the mode is external;
  otherwise every variable the manifest names has the manifest's value, so that no stale
  password or URL of the caller survives, and the mode is the manifest's.
\<close>

theorem merged_material_exact:
  "case merged_material_environment manifest_at dir ext of
     Inl e \<Rightarrow> True
   | Inr (mode, env) \<Rightarrow> \<exists>declared generated. load_environment_manifest manifest_at dir = Inr (declared, generated)
       \<and> mode = (if external_material ext then ''external'' else declared)
       \<and> map_of env = (\<lambda>k. if k = ''EUDI_TEST_MATERIAL_MODE'' then Some mode
            else if external_material ext
            then (if k \<in> set oidf_runner_environment \<and> map_of ext k = None then map_of generated k else map_of ext k)
            else (map_of ext ++ map_of (rev generated)) k)"
proof (cases "merged_material_environment manifest_at dir ext")
  case (Inr r)
  obtain mode env where r: "r = (mode, env)" by (cases r)
  note eq = Inr [unfolded r merged_material_environment_def Let_def if_raise_eq_Inr]
  show ?thesis
  proof (cases "external_material ext")
    case True
    from eq True obtain declared generated e where
      l: "load_environment_manifest manifest_at dir = Inr (declared, generated)"
      and e: "foldE (default_from generated) ext oidf_runner_environment = Inr e"
      and m: "mode = ''external''" "env = put ''EUDI_TEST_MATERIAL_MODE'' ''external'' e"
      by (auto simp: external_material_iff)
    show ?thesis using defaults_OK [OF e] l m True by (auto simp: Inr r map_of_put fun_eq_iff)
  next
    case False
    from eq False obtain generated where
      l: "load_environment_manifest manifest_at dir = Inr (mode, generated)"
      and m: "env = put ''EUDI_TEST_MATERIAL_MODE'' mode (put_all generated ext)"
      by (auto simp: external_material_iff split: if_splits)
    show ?thesis using l m False by (auto simp: Inr r map_of_put map_of_put_all fun_eq_iff)
  qed
qed simp

end
