(* ===== verification/Suite_Startup.thy ===== *)
theory Suite_Startup
  imports Eudi_Contract
begin

text \<open>
  \<^verbatim>\<open>scripts/official_suite_compose.py\<close>, before and around its commands: the environment of the
  child processes, the HAIP verifier certificate, the bind contract of a remote Docker daemon,
  the wait for the public EUDI endpoints, and the redacted diagnosis of a verifier that did not
  start. The record \<open>lifecycle\<close> holds what the script finds outside: the process environment, the
  files it only tests for (they stay as the command found them), child processes, the clock in
  nanoseconds, HTTP probes, and the functions of the two certificate scripts that rest on the
  cryptography library.
\<close>

section \<open>The outside\<close>

datatype answer = Status int | HttpError string

record 'w lifecycle =
  own_env :: environment
  root_dir :: string
  python_exe :: string
  resolve :: "string \<Rightarrow> string"
  is_regular :: "string \<Rightarrow> bool"
  manifest_at :: "string \<Rightarrow> json result option"
  loads_json :: "string \<Rightarrow> json result"
  float_int :: "string \<Rightarrow> int result"
  docker_cli :: "'w docker"
  child :: "string list \<Rightarrow> environment \<Rightarrow> ('w, int) io"
  capture :: "string list \<Rightarrow> environment \<Rightarrow> ('w, int \<times> string \<times> string) io"
  read_ascii :: "string \<Rightarrow> ('w, string) io"
  clock :: "'w \<Rightarrow> int"
  sleep_ns :: "int \<Rightarrow> ('w, unit) io"
  open_client :: "string \<Rightarrow> string list \<Rightarrow> string option \<Rightarrow> ('w, unit) io"
  fetch :: "string \<Rightarrow> ('w, answer) io"
  native_diagnostic :: "string \<Rightarrow> environment \<Rightarrow> ('w, unit) io"
  validate_stores :: "environment \<Rightarrow> ('w, unit) io"
  validate_verifier :: "string \<Rightarrow> environment result"
  validate_anchor :: "string \<Rightarrow> string \<Rightarrow> unit result"
  load_verifier :: "string \<Rightarrow> ('w, environment) io"
  issue_certificate :: "string \<Rightarrow> json \<Rightarrow> string \<Rightarrow> bool \<Rightarrow> ('w, json) io"

definition second_ns :: int where "second_ns = 1000000000"

section \<open>Projects\<close>

record projects = marty_project_name :: string  oidf_project_name :: string  eudi_project_name :: string

definition run_id_rx :: rx where
  "run_id_rx = Seq (Cls (\<lambda>c. is_lower c \<or> is_digit c))
     (opt (Seq (Rep 0 30 (Cls alnum_dash)) (Cls (\<lambda>c. is_lower c \<or> is_digit c))))"

definition project_names :: "string \<Rightarrow> projects result" where
  "project_names run_id =
     (if \<not> fullmatch run_id_rx run_id
      then raise (ValueError ''run id must use lowercase letters, digits, and internal hyphens'')
      else ret \<lparr>marty_project_name = ''marty-conformance-'' @ run_id, oidf_project_name = ''oidf-runner-'' @ run_id,
                eudi_project_name = ''eudi-reference-'' @ run_id\<rparr>)"

definition configure_project_environment :: "environment \<Rightarrow> projects \<Rightarrow> environment" where
  "configure_project_environment env ps = put_all
     [(''MARTY_CONFORMANCE_PROJECT'', marty_project_name ps), (''OIDF_CONFORMANCE_PROJECT'', oidf_project_name ps),
      (''EUDI_CONFORMANCE_PROJECT'', eudi_project_name ps)] env"

section \<open>The HAIP verifier certificate\<close>

definition certificate_env :: string where "certificate_env = ''VERIFIER_X509_CERT_PEM''"

definition anchor_text :: "'w lifecycle \<Rightarrow> string \<Rightarrow> ('w, string) io" where
  "anchor_text S p = tryIO (read_ascii S p) (\<lambda>e.
     if is_OSError e \<or> e = UnicodeError
     then raiseIO (ValueError (''cannot read HAIP request-object trust anchor: '' @ p)) else raiseIO e)"

definition configure_haip_environment ::
    "'w lifecycle \<Rightarrow> environment \<Rightarrow> string option \<Rightarrow> bool \<Rightarrow> bool \<Rightarrow> ('w, environment) io" where
  "configure_haip_environment S env material_dir require_trust validate_file = (let
       certificate = env_text_of env certificate_env;
       anchor = env_value env oid4vp_trust_anchor_file_env
     in if env_value env ''VERIFIER_SIGNING_KEY_PEM'' \<noteq> []
        then raiseIO (ValueError (''direct verifier signing-key input is unsupported; ''
               @ ''Marty signs as the issuer profile'' @ [squote] @ ''s DID''))
        else if strip certificate \<noteq> []
        then bindIO (liftIO (validate_verifier S certificate)) (\<lambda>validated.
          if anchor \<noteq> [] then
            (if validate_file then let p = resolve S anchor in
               bindIO (anchor_text S p) (\<lambda>pem.
               bindIO (liftIO (validate_anchor S certificate pem)) (\<lambda>_.
                 retIO (put_all (put oid4vp_trust_anchor_file_env p validated) env)))
             else retIO (put_all (put oid4vp_trust_anchor_file_env anchor validated) env))
          else if require_trust
          then raiseIO (ValueError (''HAIP EUDI runs require '' @ oid4vp_trust_anchor_file_env
                 @ ''; the TLS trust store is not a request-object trust policy''))
          else retIO (put_all validated env))
        else case material_dir of
          None \<Rightarrow> raiseIO (ValueError ''--haip requires external VERIFIER_X509_CERT_PEM or --haip-material'')
        | Some d \<Rightarrow> bindIO (load_verifier S (resolve S d)) (\<lambda>v. retIO (put_all v env)))"

section \<open>The environment of the children\<close>

definition cleanup_values :: "string \<Rightarrow> environment" where
  "cleanup_values dir =
    [(''EUDI_TEST_MATERIAL_MODE'', ''external''),
     (''OIDF_PUBLIC_BASE_URL'', ''https://cleanup.invalid:8443''),
     (''OIDF_TLS_HOST_PORT'', ''8443''),
     (''OIDF_INTERNAL_TLS_PORT'', ''8443''),
     (''OIDF_CONFORMANCE_BRIDGE_ALIAS'', ''cleanup.invalid''),
     (''OIDF_TLS_CERT_DIR'', dir),
     (oid4vp_trust_anchor_file_env, path_join dir root_ca_file),
     (''EUDI_VERIFIER_PUBLIC_URL'', ''https://cleanup.invalid:28091''),
     (''EUDI_VERIFIER_TLS_HOST_PORT'', ''28091''),
     (''EUDI_WALLET_KIT_HOST_PORT'', ''29090''),
     (''EUDI_WALLET_ATTESTER_JWKS_FILE'', path_join dir ''wallet-attester.jwks.json''),
     (''EUDI_VERIFIER_KEYSTORE_FILE'', path_join dir eudi_keystore_file),
     (''EUDI_VERIFIER_KEYSTORE_TYPE'', ''JKS''),
     (''EUDI_VERIFIER_KEYSTORE_PASSWORD'', ''unused-cleanup-value''),
     (''EUDI_VERIFIER_KEYSTORE_ALIAS'', ''unused-cleanup-value''),
     (''EUDI_VERIFIER_KEY_PASSWORD'', ''unused-cleanup-value''),
     (''EUDI_VERIFIER_SIGNING_ALGORITHM'', ''ES512''),
     (''EUDI_VERIFIER_CLIENT_ID_PREFIX'', ''x509_san_dns''),
     (''EUDI_VERIFIER_ORIGINAL_CLIENT_ID'', ''cleanup.invalid''),
     (''EUDI_TLS_TRUSTSTORE_PASSWORD'', ''unused-cleanup-value''),
     (''EUDI_TLS_TRUSTSTORE_ALIAS'', ''unused-cleanup-value'')]"

definition cleanup_eudi_environment :: "'w lifecycle \<Rightarrow> environment \<Rightarrow> string \<Rightarrow> environment" where
  "cleanup_eudi_environment S env material_dir = put_all (cleanup_values (resolve S material_dir)) env"

definition own_mode :: "environment \<Rightarrow> string" where
  "own_mode env = (let m = strip (case map_of env ''EUDI_TEST_MATERIAL_MODE'' of None \<Rightarrow> ''external'' | Some v \<Rightarrow> v)
     in if m = [] then ''external'' else m)"

definition caught :: "exn \<Rightarrow> bool" where
  "caught e = (is_OSError e \<or> is_ValueError e)"

definition eudi_values :: "'w lifecycle \<Rightarrow> string option \<Rightarrow> bool \<Rightarrow> environment \<Rightarrow> (string \<times> environment) result" where
  "eudi_values S eudi_material validate_eudi env = (case eudi_material of
     None \<Rightarrow> ret (own_mode env, env)
   | Some d \<Rightarrow> catchE (merged_material_environment (manifest_at S) (resolve S d) env) (\<lambda>e.
       if caught e \<and> \<not> validate_eudi then ret (''external'', cleanup_eudi_environment S env d) else raise e))"

definition inert_values :: "'w lifecycle \<Rightarrow> bool \<Rightarrow> string \<times> environment \<Rightarrow> (string \<times> environment) result" where
  "inert_values S unchecked = (\<lambda>(mode, env).
     if \<not> unchecked then ret (mode, env)
     else catchE (bindE (validate_environment_contract env) (\<lambda>_. ret (mode, env))) (\<lambda>e.
       if is_ValueError e
       then ret (''external'', cleanup_eudi_environment S env (root_dir S @ ''/conformance/eudi-material/cleanup''))
       else raise e))"

definition validate_environment :: "'w lifecycle \<Rightarrow> environment \<Rightarrow> ('w, unit) io" where
  "validate_environment S env =
     bindIO (liftIO (validate_environment_contract env)) (\<lambda>_. validate_stores S env)"

definition select_context :: "'w lifecycle \<Rightarrow> environment \<Rightarrow> ('w, environment) io" where
  "select_context S env = (let ctx = env_value env context_env in
     if ctx = [] then retIO env
     else bindIO (docker_command (docker_cli S) (own_env S) [''info'']) (\<lambda>_. retIO (put ''DOCKER_CONTEXT'' ctx env)))"

definition child_environment ::
    "'w lifecycle \<Rightarrow> bool \<Rightarrow> bool \<Rightarrow> string option \<Rightarrow> string option \<Rightarrow> bool \<Rightarrow> ('w, environment) io" where
  "child_environment S require_haip require_eudi haip_material eudi_material validate_eudi = (let
       needs_eudi = (require_eudi \<or> eudi_material \<noteq> None)
     in bindIO (liftIO (bindE (eudi_values S eudi_material validate_eudi (subprocess_environment (own_env S) (own_env S) False))
          (inert_values S (needs_eudi \<and> \<not> validate_eudi \<and> eudi_material = None)))) (\<lambda>(mode, env).
        bindIO (if needs_eudi then docker_endpoint_is_local (docker_cli S) (loads_json S) env else retIO True) (\<lambda>local_docker.
        if \<not> local_docker \<and> mode = ''generated''
        then raiseIO (ValueError (''generated EUDI material cannot be bind-mounted through a remote Docker context; ''
               @ ''run on the Docker host or provide externally provisioned material paths''))
        else bindIO (if needs_eudi \<and> validate_eudi
               then (if local_docker then validate_environment S env
                     else liftIO (bindE (validate_environment_contract env) (\<lambda>_. ret ())))
               else retIO ()) (\<lambda>_.
             bindIO (select_context S env) (\<lambda>env.
               if require_haip then configure_haip_environment S env haip_material require_eudi local_docker
               else retIO env)))))"

section \<open>Bind mounts through a remote daemon\<close>

text \<open>\<open>os.path.normpath\<close> on POSIX, where \<open>normcase\<close> is the identity.\<close>

definition norm_step :: "string \<Rightarrow> string list \<Rightarrow> string \<Rightarrow> string list" where
  "norm_step root parts c =
     (if c \<noteq> ''..'' \<or> (root = [] \<and> parts = []) \<or> (parts \<noteq> [] \<and> last parts = ''..'') then parts @ [c]
      else butlast parts)"

definition normpath :: "string \<Rightarrow> string" where
  "normpath s = (let root = path_root s; t = root @ join ''/'' (foldl (norm_step root) [] (path_parts s))
     in if t = [] then ''.'' else t)"

definition absolute_remote_path :: "string \<Rightarrow> string \<Rightarrow> string result" where
  "absolute_remote_path v field = (let normalized = strip v in
     if normalized = [] \<or> \<not> (path_is_absolute normalized \<or> windows_absolute normalized)
     then raise (ValueError (field @ '' must be an absolute path on the Docker daemon host'')) else ret normalized)"

definition mirrored_checkout :: "'w lifecycle \<Rightarrow> environment \<Rightarrow> string \<Rightarrow> string \<Rightarrow> unit result" where
  "mirrored_checkout S env field checkout =
     bindE (absolute_remote_path (env_text_of env field) field) (\<lambda>remote.
       if normpath remote \<noteq> normpath (resolve S checkout)
       then raise (ValueError (field @ '' must equal the client checkout path '' @ str_repr (resolve S checkout)
              @ ''; the current Compose files resolve repository binds before contacting the remote daemon''))
       else ret ())"

definition remote_ui_root :: string where "remote_ui_root = ''MARTY_CONFORMANCE_REMOTE_UI_ROOT''"
definition remote_oidf_root :: string where "remote_oidf_root = ''OIDF_CONFORMANCE_REMOTE_RUNNER_ROOT''"

definition remote_eudi_paths :: "string list" where
  "remote_eudi_paths = [''EUDI_CONFORMANCE_CONFIG_ROOT'', ''OIDF_TLS_CERT_DIR'', ''EUDI_VERIFIER_KEYSTORE_FILE'',
     oid4vp_trust_anchor_file_env, ''EUDI_WALLET_ATTESTER_JWKS_FILE'']"

record suite_args =
  action_arg :: string
  run_id_arg :: "string option"
  marty_ui :: string
  stack_manifest_arg :: "string option"
  release_ui_revision :: "string option"
  marty_prestarted :: bool
  oidf_runner :: "string option"
  oidf :: bool
  eudi :: bool
  marty_only :: bool
  didcomm_authcrypt :: bool
  eudi_material_arg :: "string option"
  haip :: bool
  haip_material_arg :: "string option"
  local_build :: bool
  retain_on_up_failure :: bool

definition validate_remote_bind_contract :: "'w lifecycle \<Rightarrow> suite_args \<Rightarrow> environment \<Rightarrow> unit result" where
  "validate_remote_bind_contract S a env =
     bindE (mirrored_checkout S env remote_ui_root (marty_ui a)) (\<lambda>_.
     bindE (if \<not> oidf a then ret () else case oidf_runner a of
         None \<Rightarrow> raise (ValueError ''--oidf requires --oidf-runner'')
       | Some r \<Rightarrow> mirrored_checkout S env remote_oidf_root r) (\<lambda>_.
     if \<not> eudi a then ret ()
     else bindE (mapE (\<lambda>n. absolute_remote_path (env_text_of env n) n) remote_eudi_paths) (\<lambda>_. ret ())))"

end
