(* ===== verification/Suite_Watch.thy ===== *)
theory Suite_Watch
  imports Suite_Startup
begin

text \<open>
  \<^verbatim>\<open>scripts/official_suite_compose.py\<close>, the two observers of a start: the bounded wait for the
  public EUDI endpoints, and the redacted diagnosis of a verifier that did not start.
\<close>

section \<open>Readiness of the EUDI endpoints\<close>

type_synonym name_urls = "(string \<times> string) list"

definition readiness_timeout :: "environment \<Rightarrow> int result" where
  "readiness_timeout env = (let t = (case map_of env ''EUDI_READINESS_TIMEOUT_SECONDS'' of None \<Rightarrow> ''120'' | Some v \<Rightarrow> v) in
     bindE (catchE (py_int t) (\<lambda>_. raise (ValueError ''EUDI_READINESS_TIMEOUT_SECONDS must be an integer''))) (\<lambda>n.
       if \<not> (5 \<le> n \<and> n \<le> 600) then raise (ValueError ''EUDI_READINESS_TIMEOUT_SECONDS must be between 5 and 600'')
       else ret n))"

definition wallet_kit_base :: "environment \<Rightarrow> string result" where
  "wallet_kit_base env = (if env_value env ''EUDI_WALLET_KIT_URL'' \<noteq> [] then ret (env_value env ''EUDI_WALLET_KIT_URL'')
     else bindE (env_item env ''EUDI_WALLET_KIT_HOST_PORT'') (\<lambda>p. ret (''http://127.0.0.1:'' @ p)))"

definition readiness_probes :: "environment \<Rightarrow> name_urls result" where
  "readiness_probes env =
     bindE (wallet_kit_base env) (\<lambda>kit.
     bindE (env_item env ''OIDF_PUBLIC_BASE_URL'') (\<lambda>gw.
     bindE (env_item env ''EUDI_VERIFIER_PUBLIC_URL'') (\<lambda>vf.
       ret [(''Marty public gateway'', gw @ ''/.well-known/openid-configuration''),
            (''EUDI verifier'', vf @ ''/swagger-ui''),
            (''EUDI wallet kit'', rstrip_char (CHR ''/'') kit @ ''/health'')])))"

definition readiness_ca :: "'w lifecycle \<Rightarrow> environment \<Rightarrow> string option" where
  "readiness_ca S env = (let ca = path_str (env_text_of env ''EUDI_TEST_CA_FILE'');
       candidate = path_join (path_str (env_text_of env ''OIDF_TLS_CERT_DIR'')) root_ca_file
     in if is_regular S ca then Some ca else if is_regular S candidate then Some candidate else None)"

text \<open>One pass over the endpoints still pending; \<open>pending.pop\<close>, \<open>failures[name] = ...\<close>.\<close>

definition drop_name :: "string \<Rightarrow> name_urls \<Rightarrow> name_urls" where
  "drop_name n xs = filter (\<lambda>(k, v). k \<noteq> n) xs"

definition probe_one :: "'w lifecycle \<Rightarrow> string \<times> string \<Rightarrow> name_urls \<times> name_urls \<Rightarrow> ('w, name_urls \<times> name_urls) io" where
  "probe_one S = (\<lambda>(name, u) (pending, failures). bindIO (fetch S u) (\<lambda>answer. retIO (case answer of
       Status s \<Rightarrow> if s < 400 then (drop_name name pending, drop_name name failures)
                   else (pending, put name (''HTTP '' @ int_str s @ '' from '' @ u) failures)
     | HttpError m \<Rightarrow> (pending, put name (u @ '': '' @ m) failures))))"

fun probe_round :: "'w lifecycle \<Rightarrow> name_urls \<Rightarrow> name_urls \<times> name_urls \<Rightarrow> ('w, name_urls \<times> name_urls) io" where
  "probe_round S [] st = retIO st"
| "probe_round S (p # ps) st = bindIO (probe_one S p st) (probe_round S ps)"

definition ready_round :: "'w lifecycle \<Rightarrow> name_urls \<times> name_urls \<Rightarrow> ('w, name_urls \<times> name_urls) io" where
  "ready_round S st = bindIO (probe_round S (fst st) st) (\<lambda>st'.
     if fst st' \<noteq> [] then bindIO (sleep_ns S second_ns) (\<lambda>_. retIO st') else retIO st')"

text \<open>\<open>while pending and time.monotonic() < deadline\<close>; the number of rounds is bounded by the fuel.\<close>

fun ready_loop :: "'w lifecycle \<Rightarrow> int \<Rightarrow> nat \<Rightarrow> name_urls \<times> name_urls \<Rightarrow> ('w, name_urls \<times> name_urls) io" where
  "ready_loop S deadline 0 st = retIO st"
| "ready_loop S deadline (Suc n) st = (\<lambda>w.
     if fst st \<noteq> [] \<and> clock S w < deadline
     then bindIO (ready_round S st) (ready_loop S deadline n) w
     else (Inr st, w))"

definition readiness_detail :: "name_urls \<times> name_urls \<Rightarrow> string" where
  "readiness_detail = (\<lambda>(pending, failures). join ''; '' (map (\<lambda>(n, u). n @ '': ''
     @ (case map_of failures n of None \<Rightarrow> u | Some m \<Rightarrow> m)) pending))"

definition reading_clock :: "'w lifecycle \<Rightarrow> ('w, int) io" where
  "reading_clock S = (\<lambda>w. (Inr (clock S w), w))"

definition wait_for_eudi_readiness :: "'w lifecycle \<Rightarrow> environment \<Rightarrow> ('w, unit) io" where
  "wait_for_eudi_readiness S env =
     bindIO (liftIO (readiness_timeout env)) (\<lambda>timeout.
     bindIO (liftIO (readiness_probes env)) (\<lambda>probes.
     bindIO (reading_clock S) (\<lambda>start.
     bindIO (open_client S (env_value env ''OIDF_MARTY_RESOLVE_IP'') (map snd probes) (readiness_ca S env)) (\<lambda>_.
     bindIO (ready_loop S (start + timeout * second_ns) (Suc (nat timeout)) (probes, [])) (\<lambda>st.
       if fst st \<noteq> []
       then raiseIO (ValueError (''EUDI services did not become ready within '' @ int_str timeout @ '' seconds: ''
              @ readiness_detail st))
       else retIO ())))))"

section \<open>The diagnosis of a verifier that did not start\<close>

definition any_text :: "char \<Rightarrow> bool" where "any_text c = (c \<noteq> CHR 0x0A)"

text \<open>A pattern of the code is a list of alternatives, some of them anchored at the start of a line.\<close>

record category = label_of :: string  anchored :: "rx list"  anywhere :: "rx list"

definition oom_head :: rx where
  "oom_head = seqs [opt (Seq (LitI ''caused by:'') (Many 1 (Cls is_space))), opt (LitI ''java.lang.''), LitI ''outofmemoryerror:'']"

definition oom_of :: "string list \<Rightarrow> rx" where
  "oom_of kinds = Seq oom_head (Seq (LitI '' '') (alts (map LitI kinds)))"

definition eudi_startup_patterns :: "category list" where
  "eudi_startup_patterns =
    [\<lparr>label_of = ''access-certificate-algorithm'', anchored = [], anywhere = [LitI ''nosuchalgorithmexception'',
        LitI ''curve not supported'', seqs [LitI ''signing'', Cls any_text, LitI ''algorithm'']]\<rparr>,
     \<lparr>label_of = ''access-certificate-client-id'', anchored = [], anywhere = [LitI ''original client id'',
        seqs [LitI ''not contained in'', Many 0 (Cls any_text), LitI ''subject alternative'']]\<rparr>,
     \<lparr>label_of = ''access-certificate-keystore'', anchored = [], anywhere = [
        seqs [LitI ''could not load '', opt (LitI ''the ''), LitI ''keystore''],
        seqs [LitI ''keystore'', Many 0 (Cls any_text), Alt (LitI ''not found'') (LitI ''failed'')]]\<rparr>,
     \<lparr>label_of = ''access-certificate-password'', anchored = [],
        anywhere = [LitI ''password was incorrect'', LitI ''unrecoverablekeyexception'']\<rparr>,
     \<lparr>label_of = ''application-startup'', anchored = [],
        anywhere = [LitI ''application run failed'', LitI ''beancreationexception'', LitI ''application failed to start'']\<rparr>,
     \<lparr>label_of = ''jvm-memory-exhaustion'', anchored = [oom_head],
        anywhere = [LitI ''unable to create native thread'', LitI ''cannot reserve'']\<rparr>,
     \<lparr>label_of = ''jvm-memory-direct-buffer'', anchored = [oom_of [''direct buffer memory'']], anywhere = []\<rparr>,
     \<lparr>label_of = ''jvm-memory-heap'', anchored = [oom_of [''java heap space'', ''gc overhead limit exceeded'']], anywhere = []\<rparr>,
     \<lparr>label_of = ''jvm-memory-metaspace'', anchored = [oom_of [''metaspace'', ''compressed class space'']], anywhere = []\<rparr>,
     \<lparr>label_of = ''jvm-memory-native-thread'', anchored = [], anywhere = [LitI ''unable to create native thread'']\<rparr>,
     \<lparr>label_of = ''jvm-memory-reservation'', anchored = [], anywhere = [LitI ''cannot reserve'']\<rparr>]"

fun after_newlines :: "string \<Rightarrow> string list" where
  "after_newlines [] = []"
| "after_newlines (c # cs) = (if c = CHR 0x0A then cs # after_newlines cs else after_newlines cs)"

definition line_starts :: "string \<Rightarrow> string list" where
  "line_starts t = t # after_newlines t"

definition in_category :: "string \<Rightarrow> category \<Rightarrow> bool" where
  "in_category t c = (list_ex (\<lambda>r. searches r t) (anywhere c)
     \<or> list_ex (\<lambda>l. list_ex (\<lambda>r. rmatch r (None, l, []) \<noteq> []) (anchored c)) (line_starts t))"

definition name_start :: "char \<Rightarrow> bool" where
  "name_start c = (is_lower c \<or> is_upper c \<or> c = CHR ''_'' \<or> c = CHR ''$'')"

definition java_name :: rx where
  "java_name = Seq (Cls name_start) (Many 0 (Cls (\<lambda>c. is_word c \<or> c = CHR ''$'')))"

definition eudi_root_exception :: rx where
  "eudi_root_exception = seqs [Lit ''Caused by:'', Many 1 (Cls is_space), Many 0 (Seq java_name (Lit ''.'')),
     Grp ''1'' (Seq java_name (Alt (Lit ''Exception'') (Lit ''Error''))),
     alts [Lit '':'', Cls (\<lambda>c. c = CHR 0x0A), Eot]]"

definition eudi_application_started :: rx where
  "eudi_application_started = seqs [WordB, Lit ''Started'', Many 1 (Cls is_space), Lit ''VerifierEndpointApplicationKt'', WordB]"

text \<open>\<open>re.sub(r"[^a-z0-9]+", "-", s)\<close>\<close>

fun slug :: "bool \<Rightarrow> string \<Rightarrow> string" where
  "slug skipping [] = []"
| "slug skipping (c # cs) = (if is_lower c \<or> is_digit c then c # slug False cs
     else if skipping then slug True cs else CHR ''-'' # slug True cs)"

definition root_exceptions :: "string \<Rightarrow> string list" where
  "root_exceptions t = concat (map (\<lambda>l. case rmatch eudi_root_exception (None, l, []) of
       [] \<Rightarrow> [] | m # _ \<Rightarrow> [''root-exception-'' @ strip_char (CHR ''-'') (slug False (py_lower (group m ''1'')))])
     (line_starts t))"

definition log_categories :: "string \<Rightarrow> string list" where
  "log_categories t = map label_of (filter (in_category t) eudi_startup_patterns) @ root_exceptions t
     @ (if searches eudi_application_started t then [''application-started-before-exit''] else [])"

text \<open>\<open>int(state["ExitCode"])\<close> and \<open>bool(state["OOMKilled"])\<close>, each kept once it was read.\<close>

definition json_to_int :: "'w lifecycle \<Rightarrow> json \<Rightarrow> int result" where
  "json_to_int S j = (case j of JInt i \<Rightarrow> ret i | JBool b \<Rightarrow> ret (if b then 1 else 0) | JFloat f \<Rightarrow> float_int S f
     | JStr s \<Rightarrow> py_int s | _ \<Rightarrow> raise TypeError)"

definition state_failure :: "exn \<Rightarrow> bool" where
  "state_failure e = (is_ValueError e \<or> e = TypeError \<or> (case e of KeyError _ \<Rightarrow> True | _ \<Rightarrow> False))"

record startup_report = exit_status :: "int option"  oom_state :: "bool option"  categories :: "string list"

definition read_state :: "'w lifecycle \<Rightarrow> string \<Rightarrow> startup_report result" where
  "read_state S out = (case bindE (loads_json S out) (\<lambda>state. bindE (py_key state ''ExitCode'') (\<lambda>c.
         bindE (json_to_int S c) (\<lambda>i. ret (state, i)))) of
     Inl e \<Rightarrow> if state_failure e then ret \<lparr>exit_status = None, oom_state = None, categories = [''state-unavailable'']\<rparr>
             else raise e
   | Inr (state, i) \<Rightarrow> (case py_key state ''OOMKilled'' of
       Inl e \<Rightarrow> if state_failure e then ret \<lparr>exit_status = Some i, oom_state = None, categories = [''state-unavailable'']\<rparr>
               else raise e
     | Inr k \<Rightarrow> ret \<lparr>exit_status = Some i, oom_state = Some (truthy k), categories = []\<rparr>))"

definition docker_capture :: "'w lifecycle \<Rightarrow> environment \<Rightarrow> string list \<Rightarrow> ('w, int \<times> string \<times> string) io" where
  "docker_capture S env argv =
     bindIO (docker_command (docker_cli S) (own_env S) argv) (\<lambda>cmd. capture S cmd env)"

definition inspect_verifier :: "'w lifecycle \<Rightarrow> environment \<Rightarrow> string \<Rightarrow> ('w, startup_report) io" where
  "inspect_verifier S env container =
     bindIO (docker_capture S env [''inspect'', ''--format'', ''{{json .State}}'', container]) (\<lambda>(status, out, err).
     bindIO (liftIO (if status = 0 then read_state S out
        else ret \<lparr>exit_status = None, oom_state = None, categories = [''state-unavailable'']\<rparr>)) (\<lambda>report.
     bindIO (docker_capture S env [''logs'', ''--tail'', ''250'', container]) (\<lambda>(status, out, err).
       retIO (report\<lparr>categories := categories report
          @ (if status = 0 then log_categories (out @ CHR 0x0A # err) else [''logs-unavailable''])\<rparr>))))"

definition unavailable_report :: startup_report where
  "unavailable_report = \<lparr>exit_status = None, oom_state = None, categories = [''container-unavailable'']\<rparr>"

text \<open>\<open>if len(ids) != 1\<close>\<close>

definition inspect_only :: "'w lifecycle \<Rightarrow> environment \<Rightarrow> int \<times> string \<times> string \<Rightarrow> ('w, startup_report) io" where
  "inspect_only S env = (\<lambda>(status, out, err). case (if status = 0 then split_ws out else []) of
       [container] \<Rightarrow> inspect_verifier S env container
     | _ \<Rightarrow> retIO unavailable_report)"

definition finish_report :: "startup_report \<Rightarrow> startup_report" where
  "finish_report report = (let
       listed = categories report @ (if oom_state report = Some True then [''container-oom-killed''] else [])
     in report\<lparr>categories := sort (remdups (if listed = [] then [''unclassified-startup-failure''] else listed))\<rparr>)"

definition emit_eudi_startup_diagnostic :: "'w lifecycle \<Rightarrow> string \<Rightarrow> environment \<Rightarrow> ('w, startup_report) io" where
  "emit_eudi_startup_diagnostic S proj env =
     bindIO (docker_capture S env [''ps'', ''--all'', ''--quiet'', ''--filter'', ''label=com.docker.compose.project='' @ proj,
        ''--filter'', ''label=com.docker.compose.service=eudi-verifier'']) (\<lambda>answer.
     bindIO (inspect_only S env answer) (\<lambda>report. retIO (finish_report report)))"

end
