(* ===== verification/Suite_Compose.thy ===== *)
theory Suite_Compose
  imports Suite_Watch
begin

text \<open>
  \<^verbatim>\<open>scripts/official_suite_compose.py\<close>: the commands of the three Compose projects, the
  certification of the issuer profile, and \<open>execute\<close>: projects start in order, a failed start stops
  what was started, every other action visits the projects in the reverse order. A deferred command
  (the code's \<open>lambda\<close>) is the result of building it.
\<close>

section \<open>Commands\<close>

definition run_child :: "'w lifecycle \<Rightarrow> string list \<Rightarrow> environment \<Rightarrow> bool \<Rightarrow> ('w, int) io" where
  "run_child S command env native_attestation =
     child S command (subprocess_environment (own_env S) env native_attestation)"

definition given :: "string option \<Rightarrow> bool" where
  "given v = (case v of None \<Rightarrow> False | Some s \<Rightarrow> s \<noteq> [])"

definition released_options :: "'w lifecycle \<Rightarrow> suite_args \<Rightarrow> string list result" where
  "released_options S a = (case stack_manifest_arg a of
     None \<Rightarrow> ret []
   | Some m \<Rightarrow> let manifest = resolve S m in
       if \<not> given (release_ui_revision a)
       then raise (ValueError ''released native stack requires the exact UI source revision'')
       else if path_parts manifest = [] then raise (ValueError (str_repr manifest @ '' has an empty name''))
       else ret [''--stack-manifest'', manifest, ''--stack-checksums'', path_join (path_parent manifest) ''SHA256SUMS'',
              ''--release-ui-revision'', the (release_ui_revision a)])"

definition launcher :: "'w lifecycle \<Rightarrow> suite_args \<Rightarrow> string" where
  "launcher S a = path_join (path_join (resolve S (marty_ui a)) ''scripts'') ''conformance_stack.py''"

definition marty_command :: "'w lifecycle \<Rightarrow> suite_args \<Rightarrow> projects \<Rightarrow> string \<Rightarrow> bool \<Rightarrow> bool \<Rightarrow> string list result" where
  "marty_command S a ps action include_haip resume =
     (if \<not> is_regular S (launcher S a)
      then raise (ValueError (''Marty conformance launcher is missing: '' @ launcher S a))
      else bindE (released_options S a) (\<lambda>released.
        ret ([python_exe S, launcher S a, ''--project'', marty_project_name ps] @ released
          @ (if include_haip then [''--haip''] else [])
          @ (if didcomm_authcrypt a then [''--didcomm-authcrypt''] else [])
          @ (if local_build a then [''--local-build''] else [])
          @ (if resume \<or> (marty_prestarted a \<and> action = ''up'') then [''--resume''] else [])
          @ [action])))"

definition compose_verbs :: "string \<Rightarrow> string list result" where
  "compose_verbs action =
     (if action = ''up'' then ret [''up'', ''--detach'', ''--wait'']
      else if action = ''down'' then ret [''down'', ''--volumes'', ''--remove-orphans'']
      else if action = ''ps'' then ret [''ps'']
      else if action = ''logs'' then ret [''logs'', ''--no-color'']
      else raise (KeyError action))"

definition binding_env :: string where "binding_env = ''MARTY_LOCAL_NATIVE_FUNCTIONAL_BINDING''"

definition oidf_command :: "'w lifecycle \<Rightarrow> suite_args \<Rightarrow> projects \<Rightarrow> string \<Rightarrow> string list result" where
  "oidf_command S a ps action = (case oidf_runner a of
     None \<Rightarrow> raise (ValueError ''--oidf requires --oidf-runner'')
   | Some r \<Rightarrow> bindE (if action = ''cache-check'' then ret [''cache-check''] else compose_verbs action) (\<lambda>verbs.
       ret ([python_exe S, root_dir S @ ''/scripts/oidf_runner_compose.py'', ''--runner'', resolve S r, ''--prebuilt'',
             ''--project'', oidf_project_name ps, ''--marty-project'', marty_project_name ps, ''--''] @ verbs
           @ (if action = ''up'' \<and> env_value (own_env S) binding_env \<noteq> [] then [''--pull'', ''never'', ''--no-build'']
              else []))))"

definition eudi_command :: "'w lifecycle \<Rightarrow> projects \<Rightarrow> string \<Rightarrow> string list result" where
  "eudi_command S ps action = bindE (compose_verbs action) (\<lambda>verbs.
     ret ([python_exe S, root_dir S @ ''/scripts/eudi_reference_compose.py'', ''--project'', eudi_project_name ps,
           ''--marty-project'', marty_project_name ps, ''--''] @ verbs))"

type_synonym deferred = "string \<times> string list result"

definition components :: "'w lifecycle \<Rightarrow> suite_args \<Rightarrow> projects \<Rightarrow> string \<Rightarrow> deferred list" where
  "components S a ps action = (let entries =
       [(''marty'', marty_command S a ps action (haip a \<and> action = ''up'') False)]
       @ (if oidf a then [(''oidf'', oidf_command S a ps action)] else [])
       @ (if eudi a then [(''eudi'', eudi_command S ps action)] else [])
     in if action \<noteq> ''up'' then rev entries else entries)"

section \<open>The identity and certificate of the issuer profile\<close>

definition identity_failed :: string where "identity_failed = ''issuer DID identity command failed''"

text \<open>What one answer of the identity command says: an identity, or why there is none yet.\<close>

definition read_identity :: "'w lifecycle \<Rightarrow> string \<Rightarrow> int \<times> string \<times> string \<Rightarrow> (string + json) result" where
  "read_identity S last_detail = (\<lambda>(status, out, err).
     if status = 0 then
       (case loads_json S out of
          Inl e \<Rightarrow> if e = JSONDecodeError then ret (Inl ''Marty issuer DID identity command returned invalid JSON'') else raise e
        | Inr identity \<Rightarrow>
            if is_dict identity \<and> is_str (obj_get identity ''issuer_did'') \<and> str_of (obj_get identity ''issuer_did'') \<noteq> []
               \<and> is_dict (obj_get identity ''public_jwk'')
            then ret (Inr identity) else ret (Inl ''Marty issuer DID identity command returned no public JWK''))
     else ret (Inl (if strip err \<noteq> [] then strip err else last_detail)))"

fun identity_loop :: "'w lifecycle \<Rightarrow> string list \<Rightarrow> environment \<Rightarrow> int \<Rightarrow> nat \<Rightarrow> string \<Rightarrow> ('w, json) io" where
  "identity_loop S command env deadline 0 last_detail =
     raiseIO (ValueError (''could not resolve Marty issuer DID: '' @ last_detail))"
| "identity_loop S command env deadline (Suc n) last_detail =
     bindIO (capture S command env) (\<lambda>answer.
     bindIO (liftIO (read_identity S last_detail answer)) (\<lambda>r. case r of
       Inr identity \<Rightarrow> retIO identity
     | Inl detail \<Rightarrow> bindIO (reading_clock S) (\<lambda>t.
         if deadline \<le> t then raiseIO (ValueError (''could not resolve Marty issuer DID: '' @ detail))
         else bindIO (sleep_ns S second_ns) (\<lambda>_. identity_loop S command env deadline n detail))))"

definition identity_seconds :: int where "identity_seconds = 30"

definition resolve_issuer_did_identity :: "'w lifecycle \<Rightarrow> suite_args \<Rightarrow> projects \<Rightarrow> environment \<Rightarrow> ('w, json) io" where
  "resolve_issuer_did_identity S a ps env =
     bindIO (liftIO (marty_command S a ps ''issuer-did-identity'' False False)) (\<lambda>command.
     bindIO (reading_clock S) (\<lambda>start.
       identity_loop S command env (start + identity_seconds * second_ns) (Suc (Suc (nat identity_seconds))) identity_failed))"

definition stage_haip_profile_certificate ::
    "'w lifecycle \<Rightarrow> suite_args \<Rightarrow> projects \<Rightarrow> environment \<Rightarrow> ('w, environment) io" where
  "stage_haip_profile_certificate S a ps env = (case haip_material_arg a of
     None \<Rightarrow> raiseIO (ValueError ''issuer-profile HAIP bootstrap requires --haip-material'')
   | Some material \<Rightarrow>
       bindIO (resolve_issuer_did_identity S a ps env) (\<lambda>identity.
       bindIO (liftIO (env_item env ''OIDF_PUBLIC_BASE_URL'')) (\<lambda>gateway_url.
       bindIO (issue_certificate S (resolve S material) (obj_get identity ''public_jwk'') gateway_url (eudi a \<or> oidf a)) (\<lambda>_.
         configure_haip_environment S env (Some material) (eudi a) True))))"

section \<open>Stopping\<close>

definition stop_one :: "'w lifecycle \<Rightarrow> environment \<Rightarrow> string list result \<Rightarrow> ('w, unit) io" where
  "stop_one S env down = tryIO (bindIO (liftIO down) (\<lambda>c. bindIO (run_child S c env False) (\<lambda>_. retIO ())))
     (\<lambda>e. if caught e then retIO () else raiseIO e)"

definition down_of :: "'w lifecycle \<Rightarrow> suite_args \<Rightarrow> projects \<Rightarrow> string \<Rightarrow> string list result" where
  "down_of S a ps name = (case map_of (components S a ps ''down'') name of None \<Rightarrow> raise (KeyError name) | Some c \<Rightarrow> c)"

fun stop_all :: "'w lifecycle \<Rightarrow> suite_args \<Rightarrow> projects \<Rightarrow> environment \<Rightarrow> string list \<Rightarrow> ('w, unit) io" where
  "stop_all S a ps env [] = retIO ()"
| "stop_all S a ps env (n # ns) = bindIO (stop_one S env (down_of S a ps n)) (\<lambda>_. stop_all S a ps env ns)"

text \<open>
  The code's explicit \<open>marty_include_haip=False\<close> builds the command that \<open>components\<close> already
  builds for \<open>down\<close>, so the two forms of the call are one.
\<close>

definition stop_started :: "'w lifecycle \<Rightarrow> suite_args \<Rightarrow> projects \<Rightarrow> environment \<Rightarrow> string list \<Rightarrow> ('w, unit) io" where
  "stop_started S a ps env names = stop_all S a ps env (rev names)"

text \<open>\<open>if not args.retain_on_up_failure: stop_started(...)\<close>\<close>

definition clean_up :: "'w lifecycle \<Rightarrow> suite_args \<Rightarrow> projects \<Rightarrow> environment \<Rightarrow> string list \<Rightarrow> ('w, unit) io" where
  "clean_up S a ps env names = (if retain_on_up_failure a then retIO () else stop_started S a ps env names)"

section \<open>Starting\<close>

text \<open>What \<open>execute\<close> does after the start of one project returned \<open>status\<close>.\<close>

definition diagnose :: "'w lifecycle \<Rightarrow> suite_args \<Rightarrow> projects \<Rightarrow> environment \<Rightarrow> string \<Rightarrow> ('w, unit) io" where
  "diagnose S a ps env name =
     bindIO (if name = ''marty'' \<and> stack_manifest_arg a \<noteq> None
             then native_diagnostic S (marty_project_name ps) env else retIO ()) (\<lambda>_.
       if name = ''eudi''
       then bindIO (emit_eudi_startup_diagnostic S (eudi_project_name ps) env) (\<lambda>_. retIO ()) else retIO ())"

definition await_eudi :: "'w lifecycle \<Rightarrow> suite_args \<Rightarrow> projects \<Rightarrow> environment \<Rightarrow> string list \<Rightarrow> ('w, unit) io" where
  "await_eudi S a ps env started = tryIO (wait_for_eudi_readiness S env) (\<lambda>e.
     if is_ValueError e then bindIO (clean_up S a ps env started) (\<lambda>_. raiseIO e) else raiseIO e)"

fun start_all :: "'w lifecycle \<Rightarrow> suite_args \<Rightarrow> projects \<Rightarrow> environment \<Rightarrow> string list \<Rightarrow> deferred list \<Rightarrow> ('w, int) io" where
  "start_all S a ps env started [] = retIO 0"
| "start_all S a ps env started ((name, command) # rest) =
     bindIO (liftIO command) (\<lambda>c.
     bindIO (run_child S c env (name = ''marty'')) (\<lambda>status.
       if status \<noteq> 0
       then bindIO (diagnose S a ps env name) (\<lambda>_.
            bindIO (clean_up S a ps env (started @ [name])) (\<lambda>_. retIO status))
       else bindIO (if name = ''eudi'' then await_eudi S a ps env (started @ [name]) else retIO ()) (\<lambda>_.
            start_all S a ps env (started @ [name]) rest)))"

text \<open>HAIP without an external certificate: Marty alone first, then certified and resumed.\<close>

definition bootstrap :: "'w lifecycle \<Rightarrow> suite_args \<Rightarrow> projects \<Rightarrow> environment \<Rightarrow> deferred list \<Rightarrow> ('w, int) io" where
  "bootstrap S a ps env selected =
     bindIO (liftIO (marty_command S a ps ''up'' False False)) (\<lambda>base.
     bindIO (run_child S base env True) (\<lambda>status.
       if status \<noteq> 0 then bindIO (clean_up S a ps env [''marty'']) (\<lambda>_. retIO status)
       else bindIO (tryIO (stage_haip_profile_certificate S a ps env) (\<lambda>e.
              if caught e then bindIO (clean_up S a ps env [''marty'']) (\<lambda>_. raiseIO e) else raiseIO e)) (\<lambda>env.
            bindIO (liftIO (marty_command S a ps ''up'' True True)) (\<lambda>resumed.
            bindIO (run_child S resumed env True) (\<lambda>status.
              if status \<noteq> 0 then bindIO (clean_up S a ps env [''marty'']) (\<lambda>_. retIO status)
              else start_all S a ps env [''marty''] (drop 1 selected))))))"

text \<open>The images of the official runner are checked before any project is created.\<close>

definition cache_missing :: "'w lifecycle \<Rightarrow> suite_args \<Rightarrow> projects \<Rightarrow> environment \<Rightarrow> ('w, bool) io" where
  "cache_missing S a ps env = (if oidf a \<and> env_value env binding_env \<noteq> []
     then bindIO (liftIO (oidf_command S a ps ''cache-check'')) (\<lambda>c.
          bindIO (run_child S c env False) (\<lambda>status. retIO (status \<noteq> 0)))
     else retIO False)"

definition bring_up :: "'w lifecycle \<Rightarrow> suite_args \<Rightarrow> projects \<Rightarrow> environment \<Rightarrow> ('w, int) io" where
  "bring_up S a ps env = (let selected = components S a ps ''up'' in
     bindIO (cache_missing S a ps env) (\<lambda>missing.
       if missing then retIO 1
       else if \<not> haip a then start_all S a ps env [] selected
       else if env_value env certificate_env \<noteq> []
       then bindIO (configure_haip_environment S env (haip_material_arg a) (eudi a) True) (\<lambda>env.
            start_all S a ps env [] selected)
       else bootstrap S a ps env selected))"

section \<open>The other actions, and the entry\<close>

fun visit_all :: "'w lifecycle \<Rightarrow> environment \<Rightarrow> deferred list \<Rightarrow> int \<Rightarrow> ('w, int) io" where
  "visit_all S env [] first_failure = retIO first_failure"
| "visit_all S env ((name, command) # rest) first_failure =
     bindIO (liftIO command) (\<lambda>c. bindIO (run_child S c env False) (\<lambda>status.
       visit_all S env rest (if first_failure = 0 then status else first_failure)))"

definition check_suite_args :: "suite_args \<Rightarrow> string result" where
  "check_suite_args a =
     (if \<not> given (run_id_arg a) then raise (ValueError ''--run-id, OFFICIAL_SUITE_RUN_ID, or GITHUB_RUN_ID is required'')
      else if marty_only a \<and> (oidf a \<or> eudi a \<or> haip a)
      then raise (ValueError ''--marty-only cannot be combined with --oidf, --eudi, or --haip'')
      else if haip a \<and> \<not> (oidf a \<or> eudi a) then raise (ValueError ''--haip requires --oidf or --eudi'')
      else if haip_material_arg a \<noteq> None \<and> \<not> haip a then raise (ValueError ''--haip-material requires --haip'')
      else if eudi_material_arg a \<noteq> None \<and> \<not> eudi a then raise (ValueError ''--eudi-material requires --eudi'')
      else if retain_on_up_failure a \<and> action_arg a \<noteq> ''up''
      then raise (ValueError ''--retain-on-up-failure is valid only for up'')
      else if \<not> (marty_only a \<or> oidf a \<or> eudi a)
      then raise (ValueError ''select --marty-only or at least one of --oidf or --eudi'')
      else ret (the (run_id_arg a)))"

definition remote_checks :: "'w lifecycle \<Rightarrow> suite_args \<Rightarrow> environment \<Rightarrow> unit result" where
  "remote_checks S a env = bindE (validate_remote_bind_contract S a env) (\<lambda>_.
     if action_arg a = ''up'' \<and> haip a \<and> env_value env certificate_env = []
     then raise (ValueError (''remote Docker HAIP startup requires an externally issued certificate for the configured ''
            @ ''issuer-profile DID key; in-run profile certification is local-runner only''))
     else ret ())"

definition execute :: "'w lifecycle \<Rightarrow> suite_args \<Rightarrow> ('w, int) io" where
  "execute S a =
     bindIO (liftIO (check_suite_args a)) (\<lambda>run_id.
     bindIO (liftIO (project_names run_id)) (\<lambda>ps.
     bindIO (child_environment S False (eudi a) (haip_material_arg a) (eudi_material_arg a) (action_arg a = ''up'')) (\<lambda>env0. let
       env = configure_project_environment env0 ps
     in bindIO (docker_endpoint_is_local (docker_cli S) (loads_json S) env) (\<lambda>local_docker.
        bindIO (liftIO (if local_docker then ret () else remote_checks S a env)) (\<lambda>_.
          if action_arg a \<noteq> ''up'' then visit_all S env (components S a ps (action_arg a)) 0
          else bring_up S a ps env)))))"

end
