(* ===== verification/Suite_Compose_Props.thy ===== *)
theory Suite_Compose_Props
  imports Suite_Compose
begin

text \<open>
  What a lifecycle command leaves running. The suite is recorded: every process it starts, whether
  its status or its output is wanted or it is the Docker command, and every endpoint it asks is an
  event, in order; \<open>Ran\<close> and \<open>Fetched\<close> keep the result.
\<close>

section \<open>A recorded suite\<close>

datatype event =
    Ran "string list" environment "int result"
  | Captured "string list" environment
  | Docker "string list" environment
  | Diagnosed string environment
  | Fetched string "answer result"

definition silent :: "('w, 'a) io \<Rightarrow> (event list \<times> 'w, 'a) io" where
  "silent m = (\<lambda>(l, w). case m w of (r, w') \<Rightarrow> (r, (l, w')))"

definition noting :: "event \<Rightarrow> ('w, 'a) io \<Rightarrow> (event list \<times> 'w, 'a) io" where
  "noting e m = (\<lambda>(l, w). case m w of (r, w') \<Rightarrow> (r, (l @ [e], w')))"

definition recording :: "'w lifecycle \<Rightarrow> (event list \<times> 'w) lifecycle" where
  "recording S = \<lparr>own_env = own_env S, root_dir = root_dir S, python_exe = python_exe S, resolve = resolve S,
     is_regular = is_regular S, manifest_at = manifest_at S, loads_json = loads_json S, float_int = float_int S,
     docker_cli = (\<lambda>args env (l, w). case docker_cli S args env w of (r, w') \<Rightarrow> (r, (l @ [Docker args env], w'))),
     child = (\<lambda>c e (l, w). case child S c e w of (r, w') \<Rightarrow> (r, (l @ [Ran c e r], w'))),
     capture = (\<lambda>c e. noting (Captured c e) (capture S c e)), read_ascii = (\<lambda>p. silent (read_ascii S p)),
     clock = (\<lambda>(l, w). clock S w), sleep_ns = (\<lambda>n. silent (sleep_ns S n)),
     open_client = (\<lambda>i us ca. silent (open_client S i us ca)),
     fetch = (\<lambda>u (l, w). case fetch S u w of (r, w') \<Rightarrow> (r, (l @ [Fetched u r], w'))),
     native_diagnostic = (\<lambda>p e. noting (Diagnosed p e) (native_diagnostic S p e)),
     validate_stores = (\<lambda>e. silent (validate_stores S e)), validate_verifier = validate_verifier S,
     validate_anchor = validate_anchor S, load_verifier = (\<lambda>p. silent (load_verifier S p)),
     issue_certificate = (\<lambda>d k g b. silent (issue_certificate S d k g b))\<rparr>"

lemma recording_pure [simp]:
  "own_env (recording S) = own_env S" "root_dir (recording S) = root_dir S" "python_exe (recording S) = python_exe S"
  "resolve (recording S) = resolve S" "is_regular (recording S) = is_regular S"
  "manifest_at (recording S) = manifest_at S" "loads_json (recording S) = loads_json S"
  "float_int (recording S) = float_int S" "validate_verifier (recording S) = validate_verifier S"
  "validate_anchor (recording S) = validate_anchor S"
  by (simp_all add: recording_def)

lemma recording_commands [simp]:
  "marty_command (recording S) a ps act h r = marty_command S a ps act h r"
  "oidf_command (recording S) a ps act = oidf_command S a ps act"
  "eudi_command (recording S) ps act = eudi_command S ps act"
  "components (recording S) a ps act = components S a ps act"
  "down_of (recording S) a ps n = down_of S a ps n"
  by (simp_all add: marty_command_def launcher_def released_options_def oidf_command_def eudi_command_def
      components_def down_of_def Let_def cong: option.case_cong)

fun is_ran :: "event \<Rightarrow> bool" where
  "is_ran (Ran _ _ _) = True"
| "is_ran _ = False"

definition runs :: "event list \<times> 'w \<Rightarrow> event list" where
  "runs w = filter is_ran (fst w)"

text \<open>An invariant of the record that looks only at the child processes run for their status.\<close>

definition quiet :: "(event list \<Rightarrow> bool) \<Rightarrow> bool" where
  "quiet I \<longleftrightarrow> (\<forall>l e. \<not> is_ran e \<longrightarrow> I l \<longrightarrow> I (l @ [e]))"

definition on_log :: "(event list \<Rightarrow> bool) \<Rightarrow> event list \<times> 'w \<Rightarrow> bool" where
  "on_log I w = I (fst w)"

lemma keeps_silent [intro]: "keeps (on_log I) (silent m)"
  by (auto simp: keeps_def on_log_def silent_def split: prod.splits)

lemma keeps_noting: "(\<And>l. I l \<Longrightarrow> I (l @ [e])) \<Longrightarrow> keeps (on_log I) (noting e m)"
  by (auto simp: keeps_def on_log_def noting_def split: prod.splits)

lemma quietD: "quiet I \<Longrightarrow> \<not> is_ran e \<Longrightarrow> I l \<Longrightarrow> I (l @ [e])"
  by (simp add: quiet_def)

lemma keeps_quiet_noting: "quiet I \<Longrightarrow> \<not> is_ran e \<Longrightarrow> keeps (on_log I) (noting e m)"
  by (rule keeps_noting, rule quietD)

lemma keeps_clock [intro]: "keeps (on_log I) (reading_clock (recording S))"
  by (simp add: keeps_def reading_clock_def)

lemma recording_silent [simp]:
  "capture (recording S) c e = noting (Captured c e) (capture S c e)" "read_ascii (recording S) p = silent (read_ascii S p)"
  "sleep_ns (recording S) n = silent (sleep_ns S n)" "open_client (recording S) i us ca = silent (open_client S i us ca)"
  "native_diagnostic (recording S) p e = noting (Diagnosed p e) (native_diagnostic S p e)"
  "validate_stores (recording S) e = silent (validate_stores S e)"
  "load_verifier (recording S) p = silent (load_verifier S p)"
  "issue_certificate (recording S) d k g b = silent (issue_certificate S d k g b)"
  by (simp_all add: recording_def)

lemma docker_noted: "run_docker (docker_cli (recording S)) args env = noting (Docker args env) (run_docker (docker_cli S) args env)"
  by (auto simp: run_docker_def recording_def noting_def fun_eq_iff split: prod.splits)

lemma keeps_case_prod: "(\<And>x y. keeps I (f x y)) \<Longrightarrow> keeps I (case p of (x, y) \<Rightarrow> f x y)"
  by (cases p) simp

text \<open>Operations that run no child for its status keep every such invariant.\<close>

named_theorems quiet_ops \<open>operations that start no child process for its status\<close>
lemmas [quiet_ops] = keeps_if keeps_basic keeps_bindIO keeps_tryIO keeps_case_prod keeps_silent keeps_clock keeps_quiet_noting

text \<open>The wait for the endpoints only fetches.\<close>

locale fetch_log =
  fixes I :: "event list \<Rightarrow> bool"
  assumes fetched: "I l \<Longrightarrow> I (l @ [Fetched u r])"
begin

lemma keeps_fetch: "keeps (on_log I) (fetch (recording S) u)"
proof -
  have "fetch (recording S) u = (\<lambda>(l, w). case fetch S u w of (r, w') \<Rightarrow> (r, (l @ [Fetched u r], w')))"
    by (simp add: recording_def)
  then show ?thesis using fetched by (simp add: keeps_def on_log_def split: prod.split)
qed

lemma keeps_wait: "keeps (on_log I) (wait_for_eudi_readiness (recording S) env)"
proof -
  have one: "keeps (on_log I) (probe_one (recording S) p st)" for p st
    unfolding probe_one_def by (auto intro!: quiet_ops keeps_fetch split: prod.split)
  have rd: "keeps (on_log I) (probe_round (recording S) xs st)" for xs st
    by (induction xs arbitrary: st) (auto intro!: quiet_ops one)
  have round1: "keeps (on_log I) (ready_round (recording S) st)" for st
    unfolding ready_round_def recording_silent by (auto intro!: quiet_ops rd)
  have loop: "keeps (on_log I) (ready_loop (recording S) d n st)" for d n st
  proof (induction n arbitrary: st)
    case (Suc n)
    have "keeps (on_log I) (bindIO (ready_round (recording S) st) (ready_loop (recording S) d n))"
      by (intro keeps_bindIO round1 Suc)
    then show ?case by (simp add: keeps_def)
  qed (auto intro!: quiet_ops)
  show ?thesis
    unfolding wait_for_eudi_readiness_def recording_silent by (auto intro!: quiet_ops loop simp del: ready_loop.simps)
qed

end

text \<open>A log in which only the children run for their status matter.\<close>

locale quiet_log =
  fixes I :: "event list \<Rightarrow> bool"
  assumes q: "quiet I"

sublocale quiet_log \<subseteq> fetch_log I
  by unfold_locales (rule quietD [OF q], simp_all)

context quiet_log begin

lemma keeps_docker_command: "keeps (on_log I) (docker_command (docker_cli (recording S)) env args)"
  unfolding docker_command_def Let_def docker_noted by (intro quiet_ops q) simp

lemma keeps_docker_local: "keeps (on_log I) (docker_endpoint_is_local (docker_cli (recording S)) loads env)"
  unfolding docker_endpoint_is_local_def selected_docker_endpoint_def Let_def docker_noted
  by (intro quiet_ops q) simp

lemma keeps_configure: "keeps (on_log I) (configure_haip_environment (recording S) env m b1 b2)"
  unfolding configure_haip_environment_def anchor_text_def Let_def recording_silent
  by (cases m) (auto intro!: quiet_ops)

lemma keeps_child_environment: "keeps (on_log I) (child_environment (recording S) b1 b2 h m v)"
  unfolding child_environment_def validate_environment_def select_context_def Let_def recording_silent
  by (auto intro!: quiet_ops keeps_docker_local keeps_docker_command keeps_configure)

lemma keeps_stage: "keeps (on_log I) (stage_haip_profile_certificate (recording S) a ps env)"
proof -
  have loop: "keeps (on_log I) (identity_loop (recording S) c env d n last_detail)" for c d n last_detail
    by (induction n arbitrary: last_detail) (auto intro!: quiet_ops q split: sum.split)
  show ?thesis
    unfolding stage_haip_profile_certificate_def resolve_issuer_did_identity_def recording_silent
    by (cases "haip_material_arg a") (auto intro!: quiet_ops loop keeps_configure simp del: identity_loop.simps)
qed

lemma keeps_capture: "keeps (on_log I) (docker_capture (recording S) env argv)"
  unfolding docker_capture_def recording_silent by (intro quiet_ops keeps_docker_command q) simp

lemma keeps_diagnose: "keeps (on_log I) (diagnose (recording S) a ps env name)"
  unfolding diagnose_def emit_eudi_startup_diagnostic_def inspect_only_def inspect_verifier_def Let_def recording_silent
  by (auto intro!: quiet_ops keeps_capture q split: list.split)

end

section \<open>The child processes of each step\<close>

definition ran_only :: "event list \<Rightarrow> event list \<Rightarrow> bool" where
  "ran_only cs l \<longleftrightarrow> filter is_ran l = cs"

interpretation ran: quiet_log "ran_only cs" for cs
  by unfold_locales (simp add: quiet_def ran_only_def)

text \<open>An operation that starts no child leaves the record of children alone.\<close>

lemma same_runs:
  assumes "\<And>cs. keeps (on_log (ran_only cs)) m" and "m w = (r, w')"
  shows "runs w' = runs w"
  using keepsD [OF assms(1) _ assms(2), of "runs w"] by (simp add: on_log_def ran_only_def runs_def)

lemma run_child_log:
  assumes "run_child (recording S) c env native w = (r, w')"
  shows "fst w' = fst w @ [Ran c (subprocess_environment (own_env S) env native) r]"
  using assms by (auto simp: run_child_def recording_def split: prod.splits)

lemma run_child_runs:
  assumes "run_child (recording S) c env native w = (r, w')"
  shows "runs w' = runs w @ [Ran c (subprocess_environment (own_env S) env native) r]"
  using assms by (auto simp: run_child_def recording_def runs_def split: prod.splits)

lemmas wait_runs = same_runs [OF ran.keeps_wait]

definition commands :: "event list \<Rightarrow> string list list" where
  "commands l = concat (map (\<lambda>e. case e of Ran c env r \<Rightarrow> [c] | _ \<Rightarrow> []) l)"

lemma commands_simps [simp]:
  "commands [] = []" "commands (l @ m) = commands l @ commands m" "commands [Ran c env r] = [c]"
  "commands (filter is_ran l) = commands l"
proof -
  show "commands (filter is_ran l) = commands l"
    by (induction l) (auto simp: commands_def split: event.split)
qed (simp_all add: commands_def)

definition issued :: "event list \<times> 'w \<Rightarrow> string list list" where
  "issued w = commands (runs w)"

lemma run_child_issued: "run_child (recording S) c env native w = (r, w') \<Longrightarrow> issued w' = issued w @ [c]"
  unfolding issued_def by (simp add: run_child_runs)

lemma same_issued: "(\<And>cs. keeps (on_log (ran_only cs)) m) \<Longrightarrow> m w = (r, w') \<Longrightarrow> issued w' = issued w"
  unfolding issued_def by (rule arg_cong [of _ _ commands], rule same_runs)

definition built :: "string list result \<Rightarrow> string list list" where
  "built r = (case r of Inl e \<Rightarrow> [] | Inr c \<Rightarrow> [c])"

lemma stop_one_issued:
  assumes "stop_one (recording S) env down w = (Inr u, w')"
  shows "issued w' = issued w @ built down"
proof (cases down)
  case (Inl e)
  with assms show ?thesis by (auto simp: stop_one_def tryIO_OK built_def split: if_splits)
next
  case (Inr c)
  obtain r w1 where r: "run_child (recording S) c env False w = (r, w1)"
    by (cases "run_child (recording S) c env False w") blast
  then have "w' = w1"
    using assms Inr by (cases r) (auto simp: stop_one_def tryIO_def bindIO_def split: if_splits)
  with r Inr show ?thesis by (simp add: run_child_issued built_def)
qed

lemma stop_all_issued:
  "stop_all (recording S) a ps env ns w = (Inr u, w') \<Longrightarrow>
     issued w' = issued w @ concat (map (\<lambda>n. built (down_of S a ps n)) ns)"
proof (induction ns arbitrary: w)
  case (Cons n ns)
  from Cons.prems obtain w1 where
    w1: "stop_one (recording S) env (down_of S a ps n) w = (Inr (), w1)" "stop_all (recording S) a ps env ns w1 = (Inr u, w')"
    by (auto simp: bindIO_OK)
  from stop_one_issued [OF w1(1)] Cons.IH [OF w1(2)] show ?case by simp
qed simp

definition downs :: "'w lifecycle \<Rightarrow> suite_args \<Rightarrow> projects \<Rightarrow> string list \<Rightarrow> string list list" where
  "downs S a ps names = (if retain_on_up_failure a then [] else concat (map (\<lambda>n. built (down_of S a ps n)) (rev names)))"

lemma clean_up_issued:
  "clean_up (recording S) a ps env names w = (Inr u, w') \<Longrightarrow> issued w' = issued w @ downs S a ps names"
  by (auto simp: clean_up_def stop_started_def downs_def dest: stop_all_issued split: if_splits)

lemma await_issued: "await_eudi (recording S) a ps env names w = (Inr u, w') \<Longrightarrow> issued w' = issued w"
  unfolding await_eudi_def tryIO_OK bindIO_OK
  by (auto dest: same_issued [OF ran.keeps_wait] simp: bindIO_OK split: if_splits)

text \<open>
  One project: its command was built and run; a failure ends the start with the clean-up of
  everything begun, a success goes on with the rest.
\<close>

lemma start_all_Cons:
  assumes "start_all (recording S) a ps env started ((name, command) # rest) w = (Inr c, w')"
  obtains cmd where "command = Inr cmd" "c \<noteq> 0" "issued w' = issued w @ cmd # downs S a ps (started @ [name])"
  | cmd w1 where "command = Inr cmd" "issued w1 = issued w @ [cmd]"
      "start_all (recording S) a ps env (started @ [name]) rest w1 = (Inr c, w')"
proof -
  from assms obtain cmd status w1 where cmd: "command = Inr cmd"
    and w1: "run_child (recording S) cmd env (name = ''marty'') w = (Inr status, w1)"
    and rest: "(if status \<noteq> 0
       then bindIO (diagnose (recording S) a ps env name) (\<lambda>_.
            bindIO (clean_up (recording S) a ps env (started @ [name])) (\<lambda>_. retIO status))
       else bindIO (if name = ''eudi'' then await_eudi (recording S) a ps env (started @ [name]) else retIO ()) (\<lambda>_.
            start_all (recording S) a ps env (started @ [name]) rest)) w1 = (Inr c, w')"
    by (auto simp only: start_all.simps bindIO_OK io_simps prod.inject)
  note i1 = run_child_issued [OF w1]
  show thesis
  proof (cases "status \<noteq> 0")
    case True
    from rest True obtain w2 w3 where w2: "diagnose (recording S) a ps env name w1 = (Inr (), w2)"
      and w3: "clean_up (recording S) a ps env (started @ [name]) w2 = (Inr (), w3)" and c: "c = status" "w' = w3"
      by (auto simp: bindIO_OK)
    have "issued w2 = issued w1" using w2 by (rule same_issued [OF ran.keeps_diagnose])
    with clean_up_issued [OF w3] i1 c True cmd show thesis by (intro that(1) [of cmd]) simp_all
  next
    case False
    from rest False obtain w2 where
      w2: "(if name = ''eudi'' then await_eudi (recording S) a ps env (started @ [name]) else retIO ()) w1 = (Inr (), w2)"
      and r: "start_all (recording S) a ps env (started @ [name]) rest w2 = (Inr c, w')"
      by (auto simp only: bindIO_OK if_False simp_thms)
    have "issued w2 = issued w1"
    proof (cases "name = ''eudi''")
      case True
      then show ?thesis using w2 by (intro await_issued) simp
    qed (use w2 in simp)
    with i1 cmd r show thesis by (intro that(2) [of cmd w2]) simp_all
  qed
qed

lemma start_all_issued:
  "start_all (recording S) a ps env started entries w = (Inr c, w') \<Longrightarrow>
     \<exists>begun rest cs. entries = begun @ rest \<and> map snd begun = map Inr cs
       \<and> issued w' = issued w @ cs @ (if c = 0 then [] else downs S a ps (started @ map fst begun))
       \<and> (c = 0 \<longrightarrow> rest = [])"
proof (induction entries arbitrary: started w)
  case Nil
  then show ?case by auto
next
  case (Cons entry entries)
  obtain name command where entry: "entry = (name, command)" by (cases entry)
  from Cons.prems [unfolded entry] show ?case
  proof (cases rule: start_all_Cons)
    case (1 cmd)
    then show ?thesis
      by (intro exI [of _ "[entry]"] exI [of _ entries] exI [of _ "[cmd]"]) (simp add: entry)
  next
    case (2 cmd w1)
    from Cons.IH [OF 2(3)] obtain begun rest cs where
      "entries = begun @ rest" "map snd begun = map Inr cs"
      "issued w' = issued w1 @ cs @ (if c = 0 then [] else downs S a ps ((started @ [name]) @ map fst begun))"
      "c = 0 \<longrightarrow> rest = []" by blast
    with 2 show ?thesis
      by (intro exI [of _ "entry # begun"] exI [of _ rest] exI [of _ "cmd # cs"]) (simp add: entry)
  qed
qed

section \<open>Starts and stops of a whole command\<close>

text \<open>The command \<open>c\<close> starts project \<open>n\<close>: as \<open>components\<close> builds it, or as the HAIP bootstrap does.\<close>

definition starts :: "'w lifecycle \<Rightarrow> suite_args \<Rightarrow> projects \<Rightarrow> string \<Rightarrow> string list \<Rightarrow> bool" where
  "starts S a ps n c \<longleftrightarrow> (n, Inr c) \<in> set (components S a ps ''up'')
     \<or> n = ''marty'' \<and> (\<exists>h r. marty_command S a ps ''up'' h r = Inr c)"

lemma components_up:
  "components S a ps ''up'' = (''marty'', marty_command S a ps ''up'' (haip a) False)
     # (if oidf a then [(''oidf'', oidf_command S a ps ''up'')] else [])
     @ (if eudi a then [(''eudi'', eudi_command S ps ''up'')] else [])"
  by (simp add: components_def Let_def)

lemma components_down:
  "map_of (components S a ps ''down'') n =
     (if n = ''marty'' then Some (marty_command S a ps ''down'' False False)
      else if n = ''oidf'' \<and> oidf a then Some (oidf_command S a ps ''down'')
      else if n = ''eudi'' \<and> eudi a then Some (eudi_command S ps ''down'') else None)"
  by (auto simp: components_def Let_def)

lemma components_names: "distinct (map fst (components S a ps ''up''))"
  by (simp add: components_up)

lemma components_hd: "hd (map fst (components S a ps ''up'')) = ''marty''"
  by (simp add: components_up)

lemma marty_command_OK: "isOK (marty_command S a ps act h r) \<longleftrightarrow> is_regular S (launcher S a) \<and> isOK (released_options S a)"
  by (cases "released_options S a") (auto simp: marty_command_def)

lemma starts_down: "starts S a ps n c \<Longrightarrow> isOK (down_of S a ps n)"
proof -
  assume "starts S a ps n c"
  then consider h r where "n = ''marty''" "marty_command S a ps ''up'' h r = Inr c"
    | "n = ''oidf''" "oidf a" "oidf_command S a ps ''up'' = Inr c"
    | "n = ''eudi''" "eudi a" "eudi_command S ps ''up'' = Inr c"
    by (auto simp: starts_def components_up split: if_splits)
  then show ?thesis
  proof cases
    case 1
    then have "isOK (marty_command S a ps ''up'' h r)" by (simp only: isOK_simps)
    then have "isOK (marty_command S a ps ''down'' False False)" by (simp only: marty_command_OK)
    with 1 show ?thesis by (simp add: down_of_def components_down)
  next
    case 2
    then show ?thesis
      by (auto simp: down_of_def components_down oidf_command_def compose_verbs_def split: option.splits)
  next
    case 3
    then show ?thesis by (simp add: down_of_def components_down eudi_command_def compose_verbs_def)
  qed
qed

lemma built_all: "list_all (\<lambda>x. isOK (f x)) xs \<Longrightarrow> map Inr (concat (map (\<lambda>x. built (f x)) xs)) = map f xs"
  by (induction xs) (auto simp: built_def isOK_iff)

lemma begun_starts:
  "set begun \<subseteq> set (components S a ps ''up'') \<Longrightarrow> map snd begun = map Inr cs \<Longrightarrow> list_all2 (starts S a ps) (map fst begun) cs"
proof (induction begun arbitrary: cs)
  case (Cons b begun)
  then obtain c cs' where "cs = c # cs'" "snd b = Inr c" "map snd begun = map Inr cs'" by (cases cs) auto
  moreover have "(fst b, snd b) \<in> set (components S a ps ''up'')" using Cons.prems(1) by simp
  ultimately show ?case using Cons.IH Cons.prems(1) by (simp add: starts_def)
qed simp

text \<open>The projects are started in the order of the components; a bootstrap starts Marty twice.\<close>

definition in_order :: "string list \<Rightarrow> string list \<Rightarrow> bool" where
  "in_order order names \<longleftrightarrow> prefix names order \<or> prefix names (''marty'' # order)"

lemma in_order_append:
  assumes "in_order order names" and d: "distinct order" and o: "order = remdups names @ new @ rest" and m: "hd order = ''marty''"
  shows "in_order order (names @ new)"
proof -
  from assms(1) consider "prefix names order" | zs where "names = ''marty'' # zs" "prefix zs order"
    by (auto simp: in_order_def prefix_Cons)
  then show ?thesis
  proof cases
    case 1
    then have "distinct names" using d by (auto simp: prefix_def)
    then have "order = names @ new @ rest" using o by (simp add: distinct_remdups_id)
    then show ?thesis by (simp add: in_order_def)
  next
    case (2 zs)
    show ?thesis
    proof (cases zs)
      case Nil
      then have "order = names @ new @ rest" using o 2 by simp
      then show ?thesis by (simp add: in_order_def)
    next
      case (Cons z zs')
      then have "''marty'' \<in> set zs" using 2(2) m by (auto simp: prefix_def)
      moreover have "distinct zs" using 2(2) d by (auto simp: prefix_def)
      ultimately have "order = zs @ new @ rest" using o 2(1) by (simp add: distinct_remdups_id)
      then show ?thesis using 2(1) by (simp add: in_order_def)
    qed
  qed
qed

definition torn_down :: "'w lifecycle \<Rightarrow> suite_args \<Rightarrow> projects \<Rightarrow> int \<Rightarrow> string list list \<Rightarrow> bool" where
  "torn_down S a ps c cmds \<longleftrightarrow> (\<exists>check names ups. cmds = check @ ups @ (if c = 0 then [] else downs S a ps (remdups names))
     \<and> (check = [] \<or> map Inr check = [oidf_command S a ps ''cache-check'']) \<and> list_all2 (starts S a ps) names ups
     \<and> in_order (map fst (components S a ps ''up'')) names
     \<and> (c = 0 \<longrightarrow> remdups names = map fst (components S a ps ''up'')))"

text \<open>Starting the selected projects one after the other, some of them after a bootstrap.\<close>

lemma remdups_disjoint: "set xs \<inter> set ys = {} \<Longrightarrow> remdups (xs @ ys) = remdups xs @ remdups ys"
  by (induction xs) auto

lemma start_all_torn:
  assumes r: "start_all (recording S) a ps env before entries w = (Inr c, w')"
    and e: "components S a ps ''up'' = pre @ entries" and b: "remdups names = before"
    and d: "before = map fst pre" and p: "list_all2 (starts S a ps) names ups" and w: "issued w = check @ ups"
    and check: "check = [] \<or> map Inr check = [oidf_command S a ps ''cache-check'']"
    and ord: "in_order (map fst (components S a ps ''up'')) names"
  shows "torn_down S a ps c (issued w')"
proof -
  from start_all_issued [OF r] obtain begun rest cs where
    b1: "entries = begun @ rest" "map snd begun = map Inr cs"
      "issued w' = issued w @ cs @ (if c = 0 then [] else downs S a ps (before @ map fst begun))"
    and all: "c = 0 \<longrightarrow> rest = []" by blast
  have "list_all2 (starts S a ps) (map fst begun) cs" using b1 e by (intro begun_starts) auto
  then have l: "list_all2 (starts S a ps) (names @ map fst begun) (ups @ cs)"
    using p by (intro list_all2_appendI)
  have dist: "distinct (map fst pre @ map fst begun)" using components_names [of S a ps] e b1(1) by auto
  then have disj: "set (map fst begun) \<inter> set names = {}"
    using b d by (metis distinct_append inf_commute set_remdups)
  have rd: "remdups (names @ map fst begun) = before @ map fst begun"
    using b d disj dist by (simp add: remdups_disjoint inf_commute distinct_remdups_id)
  moreover have "c = 0 \<longrightarrow> before @ map fst begun = map fst (components S a ps ''up'')"
    using all b1(1) d e by simp
  moreover have "in_order (map fst (components S a ps ''up'')) (names @ map fst begun)"
    using e b1(1) b d by (intro in_order_append [OF ord components_names _ components_hd, where rest = "map fst rest"]) simp
  ultimately show ?thesis using b1(3) l w check
    unfolding torn_down_def by (intro exI [of _ check] exI [of _ "names @ map fst begun"] exI [of _ "ups @ cs"]) simp
qed

lemma cache_missing_issued:
  assumes "cache_missing (recording S) a ps env w = (Inr b, w')" and "issued w = []"
  shows "issued w' = [] \<or> map Inr (issued w') = [oidf_command S a ps ''cache-check'']"
proof (cases "oidf a \<and> env_value env binding_env \<noteq> []")
  case True
  from assms(1) True obtain c r where "oidf_command S a ps ''cache-check'' = Inr c"
    "run_child (recording S) c env False w = (Inr r, w')"
    by (auto simp: cache_missing_def bindIO_OK)
  with assms(2) show ?thesis by (simp add: run_child_issued)
next
  case False
  with assms show ?thesis by (auto simp: cache_missing_def)
qed

lemma stage_failed:
  "tryIO m (\<lambda>e. if caught e then bindIO k (\<lambda>_. raiseIO e) else raiseIO e) w = (Inr x, w') \<Longrightarrow> m w = (Inr x, w')"
  by (auto simp: tryIO_OK bindIO_OK split: if_splits)

lemma bootstrap_torn:
  assumes r: "bootstrap (recording S) a ps env (components S a ps ''up'') w = (Inr c, w')"
    and check: "issued w = [] \<or> map Inr (issued w) = [oidf_command S a ps ''cache-check'']"
  shows "torn_down S a ps c (issued w')"
proof -
  from r obtain base s1 w1 where base: "marty_command S a ps ''up'' False False = Inr base"
    and w1: "run_child (recording S) base env True w = (Inr s1, w1)"
    and k1: "(if s1 \<noteq> 0 then bindIO (clean_up (recording S) a ps env [''marty'']) (\<lambda>_. retIO s1)
       else bindIO (tryIO (stage_haip_profile_certificate (recording S) a ps env) (\<lambda>e.
              if caught e then bindIO (clean_up (recording S) a ps env [''marty'']) (\<lambda>_. raiseIO e) else raiseIO e)) (\<lambda>env.
            bindIO (liftIO (marty_command S a ps ''up'' True True)) (\<lambda>resumed.
            bindIO (run_child (recording S) resumed env True) (\<lambda>status.
              if status \<noteq> 0 then bindIO (clean_up (recording S) a ps env [''marty'']) (\<lambda>_. retIO status)
              else start_all (recording S) a ps env [''marty''] (drop 1 (components S a ps ''up'')))))) w1 = (Inr c, w')"
    by (auto simp only: bootstrap_def bindIO_OK io_simps prod.inject recording_commands)
  have sb: "starts S a ps ''marty'' base" using base by (auto simp: starts_def)
  note i1 = run_child_issued [OF w1]
  show ?thesis
  proof (cases "s1 \<noteq> 0")
    case True
    with k1 obtain w2 where "clean_up (recording S) a ps env [''marty''] w1 = (Inr (), w2)" "c = s1" "w' = w2"
      by (auto simp: bindIO_OK)
    with i1 True check sb clean_up_issued show ?thesis
      unfolding torn_down_def
      by (intro exI [of _ "issued w"] exI [of _ "[''marty'']"] exI [of _ "[base]"]) (fastforce simp: components_up in_order_def)
  next
    case False
    with k1 obtain env2 w2 resumed s3 w3 where
      w2: "tryIO (stage_haip_profile_certificate (recording S) a ps env) (\<lambda>e.
              if caught e then bindIO (clean_up (recording S) a ps env [''marty'']) (\<lambda>_. raiseIO e) else raiseIO e) w1
            = (Inr env2, w2)"
      and resumed: "marty_command S a ps ''up'' True True = Inr resumed"
      and w3: "run_child (recording S) resumed env2 True w2 = (Inr s3, w3)"
      and k3: "(if s3 \<noteq> 0 then bindIO (clean_up (recording S) a ps env2 [''marty'']) (\<lambda>_. retIO s3)
              else start_all (recording S) a ps env2 [''marty''] (drop 1 (components S a ps ''up''))) w3 = (Inr c, w')"
      by (auto simp only: bindIO_OK io_simps prod.inject if_False simp_thms)
    have i2: "issued w2 = issued w1"
      using stage_failed [OF w2] by (rule same_issued [OF ran.keeps_stage])
    note i3 = run_child_issued [OF w3, unfolded i2 i1]
    have sr: "starts S a ps ''marty'' resumed" using resumed by (auto simp: starts_def)
    show ?thesis
    proof (cases "s3 \<noteq> 0")
      case True
      with k3 obtain w4 where w4: "clean_up (recording S) a ps env2 [''marty''] w3 = (Inr (), w4)" "c = s3" "w' = w4"
        by (auto simp: bindIO_OK)
      have "issued w' = issued w @ [base, resumed] @ downs S a ps [''marty'']"
        using clean_up_issued [OF w4(1)] i3 w4(3) by simp
      with True w4(2) check sb sr show ?thesis
        unfolding torn_down_def
        by (intro exI [of _ "issued w"] exI [of _ "[''marty'', ''marty'']"] exI [of _ "[base, resumed]"]) (simp add: components_up in_order_def)
    next
      case False
      then have k: "start_all (recording S) a ps env2 [''marty''] (drop 1 (components S a ps ''up'')) w3 = (Inr c, w')"
        using k3 by simp
      show ?thesis
        by (rule start_all_torn [OF k, where pre = "take 1 (components S a ps ''up'')" and names = "[''marty'', ''marty'']"
              and ups = "[base, resumed]" and check = "issued w"])
          (use check i3 sb sr in \<open>auto simp: components_up in_order_def\<close>)
    qed
  qed
qed

lemma bring_up_torn:
  assumes r: "bring_up (recording S) a ps env w = (Inr c, w')" and w: "issued w = []"
  shows "torn_down S a ps c (issued w')"
proof -
  let ?sel = "components S a ps ''up''"
  from r obtain missing w1 where w1: "cache_missing (recording S) a ps env w = (Inr missing, w1)"
    and k: "(if missing then retIO 1
       else if \<not> haip a then start_all (recording S) a ps env [] ?sel
       else if env_value env certificate_env \<noteq> []
       then bindIO (configure_haip_environment (recording S) env (haip_material_arg a) (eudi a) True) (\<lambda>env.
            start_all (recording S) a ps env [] ?sel)
       else bootstrap (recording S) a ps env ?sel) w1 = (Inr c, w')"
    by (auto simp only: bring_up_def Let_def bindIO_OK io_simps prod.inject recording_commands)
  note check = cache_missing_issued [OF w1 w]
  have plain: "torn_down S a ps c (issued w')" if "start_all (recording S) a ps e [] ?sel v = (Inr c, w')" "issued v = issued w1" for e v
    by (rule start_all_torn [OF that(1), where pre = "[]" and names = "[]" and ups = "[]" and check = "issued w1"])
      (use check that(2) in \<open>auto simp: in_order_def\<close>)
  consider "missing" | "\<not> missing" "\<not> haip a" | "\<not> missing" "haip a" "env_value env certificate_env \<noteq> []"
    | "\<not> missing" "haip a" "env_value env certificate_env = []" by blast
  then show ?thesis
  proof cases
    case 1
    with k have "c = 1" "w' = w1" by auto
    with check show ?thesis
      unfolding torn_down_def by (intro exI [of _ "issued w1"] exI [of _ "[]"]) (auto simp: downs_def in_order_def)
  next
    case 2
    with k plain show ?thesis by simp
  next
    case 3
    with k obtain e v where e: "configure_haip_environment (recording S) env (haip_material_arg a) (eudi a) True w1 = (Inr e, v)"
      "start_all (recording S) a ps e [] ?sel v = (Inr c, w')" by (auto simp: bindIO_OK)
    have "issued v = issued w1" using e(1) by (rule same_issued [OF ran.keeps_configure])
    with e(2) plain show ?thesis by blast
  next
    case 4
    with k have "bootstrap (recording S) a ps env ?sel w1 = (Inr c, w')" by simp
    then show ?thesis using check by (rule bootstrap_torn)
  qed
qed

section \<open>The other actions\<close>

definition statuses :: "event list \<Rightarrow> int list" where
  "statuses l = concat (map (\<lambda>e. case e of Ran c env r \<Rightarrow> (case r of Inr s \<Rightarrow> [s] | Inl _ \<Rightarrow> []) | _ \<Rightarrow> []) l)"

definition first_failure_of :: "int list \<Rightarrow> int" where
  "first_failure_of l = (case filter (\<lambda>s. s \<noteq> 0) l of [] \<Rightarrow> 0 | s # _ \<Rightarrow> s)"

lemma visit_all_runs:
  "visit_all (recording S) env entries first w = (Inr c, w') \<Longrightarrow>
     map Inr (issued w') = map Inr (issued w) @ map snd entries
     \<and> (\<exists>new. runs w' = runs w @ new \<and> c = (if first \<noteq> 0 then first else first_failure_of (statuses new)))"
proof (induction entries arbitrary: first w)
  case Nil
  then show ?case by (auto intro: exI [of _ "[]"] simp: statuses_def first_failure_of_def)
next
  case (Cons entry entries)
  obtain name command where entry: "entry = (name, command)" by (cases entry)
  from Cons.prems [unfolded entry] obtain cmd s w1 where cmd: "command = Inr cmd"
    and w1: "run_child (recording S) cmd env False w = (Inr s, w1)"
    and r: "visit_all (recording S) env entries (if first = 0 then s else first) w1 = (Inr c, w')"
    by (auto simp only: visit_all.simps bindIO_OK io_simps prod.inject)
  from Cons.IH [OF r] obtain new where
    i: "map Inr (issued w') = map Inr (issued w1) @ map snd entries" and
    n: "runs w' = runs w1 @ new"
      "c = (if (if first = 0 then s else first) \<noteq> 0 then (if first = 0 then s else first) else first_failure_of (statuses new))"
    by blast
  let ?ev = "Ran cmd (subprocess_environment (own_env S) env False) (Inr s :: int result)"
  have "runs w' = runs w @ (?ev # new)" using n(1) run_child_runs [OF w1] by simp
  moreover have "c = (if first \<noteq> 0 then first else first_failure_of (statuses (?ev # new)))"
    using n(2) by (auto simp: statuses_def first_failure_of_def)
  ultimately show ?case using i run_child_issued [OF w1] cmd entry by auto
qed

lemma execute_OK:
  assumes "execute (recording S) a ([], w) = (Inr c, w')"
  obtains ps env v where "project_names (the (run_id_arg a)) = Inr ps" "issued v = []" "runs v = []"
    "(if action_arg a \<noteq> ''up'' then visit_all (recording S) env (components S a ps (action_arg a)) 0
      else bring_up (recording S) a ps env) v = (Inr c, w')"
proof -
  from assms obtain run_id ps env0 w1 local_docker w2 where
    args: "check_suite_args a = Inr run_id" and ps: "project_names run_id = Inr ps"
    and w1: "child_environment (recording S) False (eudi a) (haip_material_arg a) (eudi_material_arg a)
        (action_arg a = ''up'') ([], w) = (Inr env0, w1)"
    and w2: "docker_endpoint_is_local (docker_cli (recording S)) (loads_json S) (configure_project_environment env0 ps) w1
        = (Inr local_docker, w2)"
    and k: "(if action_arg a \<noteq> ''up''
        then visit_all (recording S) (configure_project_environment env0 ps) (components S a ps (action_arg a)) 0
        else bring_up (recording S) a ps (configure_project_environment env0 ps)) w2 = (Inr c, w')"
    by (auto simp only: execute_def Let_def bindIO_OK io_simps prod.inject recording_pure recording_commands)
  have id: "run_id = the (run_id_arg a)" using args by (auto simp: check_suite_args_def split: if_splits)
  have "runs w2 = runs w1" using w2 by (rule same_runs [OF ran.keeps_docker_local])
  also have "\<dots> = runs ([], w)" using w1 by (rule same_runs [OF ran.keeps_child_environment])
  finally have r: "runs w2 = []" by (simp add: runs_def)
  then have "issued w2 = []" by (simp add: issued_def)
  with id ps r k show thesis by (intro that) auto
qed

text \<open>
  Claim C34. Teardown and inspection visit everything. Every action other than up, when it
  returns, has run the command of every selected project, in the reverse of the order in which
  up starts them, whatever the earlier ones returned, and it returns the first failing status.
\<close>

theorem teardown_visits_all:
  "case execute (recording S) a ([], w) of
     (Inl e, w') \<Rightarrow> True
   | (Inr c, w') \<Rightarrow>
       if action_arg a = ''up'' then True
       else \<exists>ps. project_names (the (run_id_arg a)) = Inr ps
         \<and> map Inr (issued w') = map snd (components S a ps (action_arg a))
         \<and> map fst (components S a ps (action_arg a)) = rev (map fst (components S a ps ''up''))
         \<and> c = first_failure_of (statuses (runs w'))"
proof -
  obtain r w' where Pair: "execute (recording S) a ([], w) = (r, w')"
    by (cases "execute (recording S) a ([], w)") blast
  show ?thesis
  proof (cases r)
    case (Inr c)
    show ?thesis
    proof (cases "action_arg a = ''up''")
      case False
      from Pair Inr obtain ps env v where ps: "project_names (the (run_id_arg a)) = Inr ps" and v: "issued v = []" "runs v = []"
        and k: "(if action_arg a \<noteq> ''up'' then visit_all (recording S) env (components S a ps (action_arg a)) 0
            else bring_up (recording S) a ps env) v = (Inr c, w')"
        by (auto elim: execute_OK)
      from k False have "visit_all (recording S) env (components S a ps (action_arg a)) 0 v = (Inr c, w')" by simp
      from visit_all_runs [OF this] v
      have "map Inr (issued w') = map snd (components S a ps (action_arg a))" "c = first_failure_of (statuses (runs w'))"
        by auto
      moreover have "map fst (components S a ps (action_arg a)) = rev (map fst (components S a ps ''up''))"
        using False by (simp add: components_def Let_def)
      ultimately show ?thesis using Pair Inr False ps by auto
    qed (simp add: Pair Inr)
  qed (simp add: Pair)
qed

end
