(* ===== verification/Suite_Watch_Props.thy ===== *)
theory Suite_Watch_Props
  imports Suite_Watch
begin

text \<open>
  The wait ends by its deadline and not by its fuel, and the diagnosis publishes nothing but
  category names.
\<close>

section \<open>The deadline\<close>

text \<open>What \<open>time.monotonic\<close> and \<open>time.sleep\<close> promise: no step turns the clock back, a sleep lasts.\<close>

definition timed :: "'w lifecycle \<Rightarrow> bool" where
  "timed S \<longleftrightarrow> (\<forall>n w. clock S w + n \<le> clock S (snd (sleep_ns S n w)))
     \<and> (\<forall>u w. clock S w \<le> clock S (snd (fetch S u w)))
     \<and> (\<forall>c e w. clock S w \<le> clock S (snd (capture S c e w)))"

lemma timedD:
  assumes "timed S"
  shows "sleep_ns S n w = (r, w') \<Longrightarrow> clock S w + n \<le> clock S w'"
    and "fetch S u w = (r1, w') \<Longrightarrow> clock S w \<le> clock S w'"
    and "capture S c e w = (r2, w') \<Longrightarrow> clock S w \<le> clock S w'"
  using assms unfolding timed_def by (metis snd_conv)+

lemma probe_round_timed:
  "timed S \<Longrightarrow> probe_round S xs st w = (Inr st', w') \<Longrightarrow> clock S w \<le> clock S w'"
proof (induction xs arbitrary: st w)
  case (Cons x xs)
  from Cons.prems(2) obtain st1 w1 where w1: "probe_one S x st w = (Inr st1, w1)" "probe_round S xs st1 w1 = (Inr st', w')"
    by (auto simp: bindIO_OK)
  obtain name u pending failures where n: "x = (name, u)" "st = (pending, failures)" by (cases x; cases st)
  from w1(1) obtain y where "fetch S u w = (Inr y, w1)" by (auto simp: n probe_one_def bindIO_OK)
  then have "clock S w \<le> clock S w1" by (rule timedD(2) [OF Cons.prems(1)])
  with Cons.IH [OF Cons.prems(1) w1(2)] show ?case by simp
qed simp

lemma ready_round_timed:
  assumes "timed S" and "ready_round S st w = (Inr st', w')"
  shows "fst st' = [] \<or> clock S w + second_ns \<le> clock S w'"
proof -
  from assms(2) obtain w1 where w1: "probe_round S (fst st) st w = (Inr st', w1)"
    and w': "fst st' = [] \<or> (\<exists>u. sleep_ns S second_ns w1 = (Inr u, w'))"
    by (auto simp: ready_round_def bindIO_OK split: if_splits)
  have "clock S w \<le> clock S w1" using w1 by (rule probe_round_timed [OF assms(1)])
  with w' show ?thesis using timedD(1) [OF assms(1)] by force
qed

lemma ready_loop_done: "fst st = [] \<or> deadline \<le> clock S w \<Longrightarrow> ready_loop S deadline n st w = (Inr st, w)"
  by (cases n) auto

lemma ready_loop_deadline:
  assumes t: "timed S"
  shows "deadline \<le> clock S w + int n * second_ns \<Longrightarrow> ready_loop S deadline n st w = (Inr st', w') \<Longrightarrow>
     fst st' = [] \<or> deadline \<le> clock S w'"
proof (induction n arbitrary: st w)
  case (Suc n)
  show ?case
  proof (cases "fst st = [] \<or> deadline \<le> clock S w")
    case True
    then show ?thesis using Suc.prems(2) by (simp add: ready_loop_done del: ready_loop.simps)
  next
    case False
    with Suc.prems(2) obtain st1 w1 where r: "ready_round S st w = (Inr st1, w1)"
      and l: "ready_loop S deadline n st1 w1 = (Inr st', w')" by (auto simp: bindIO_OK)
    from ready_round_timed [OF t r] consider "fst st1 = []" | "clock S w + second_ns \<le> clock S w1" by blast
    then show ?thesis
    proof cases
      case 1
      then show ?thesis using l by (simp add: ready_loop_done)
    next
      case 2
      have "deadline \<le> clock S w1 + int n * second_ns" using Suc.prems(1) 2 by (simp add: algebra_simps)
      then show ?thesis using l by (rule Suc.IH)
    qed
  qed
qed auto

text \<open>
  Claim C37. The wait for readiness is bounded by its deadline: with a clock that never runs
  backwards and sleeps that last, the rounds allowed always suffice, so when the loop ends either
  nothing is pending or the configured number of seconds has really passed.
\<close>

theorem readiness_ends_at_deadline:
  assumes "timed S"
  shows "case ready_loop S (clock S w + timeout * second_ns) (Suc (nat timeout)) st w of
     (Inl e, w') \<Rightarrow> True
   | (Inr st', w') \<Rightarrow> fst st' = [] \<or> clock S w + timeout * second_ns \<le> clock S w'"
proof -
  have n: "clock S w + timeout * second_ns \<le> clock S w + int (Suc (nat timeout)) * second_ns"
    by (simp add: second_ns_def)
  obtain r w' where l: "ready_loop S (clock S w + timeout * second_ns) (Suc (nat timeout)) st w = (r, w')"
    by (cases "ready_loop S (clock S w + timeout * second_ns) (Suc (nat timeout)) st w") blast
  show ?thesis
  proof (cases r)
    case (Inr st')
    from ready_loop_deadline [OF assms n l [unfolded Inr]] show ?thesis unfolding l Inr by simp
  qed (simp add: l del: ready_loop.simps)
qed

text \<open>A world that is only its clock; every endpoint answers 503.\<close>

definition clock_suite :: "int lifecycle" where
  "clock_suite = \<lparr>own_env = [], root_dir = ''/r'', python_exe = ''py'', resolve = (\<lambda>p. p), is_regular = (\<lambda>_. True),
     manifest_at = (\<lambda>_. None), loads_json = (\<lambda>_. Inl JSONDecodeError), float_int = (\<lambda>_. Inr 0),
     docker_cli = (\<lambda>args env w. ((0, []), w)), child = (\<lambda>c e. retIO 0), capture = (\<lambda>c e. retIO (1, [], [])),
     read_ascii = (\<lambda>_. retIO []), clock = (\<lambda>w. w), sleep_ns = (\<lambda>n w. (Inr (), w + n)),
     open_client = (\<lambda>_ _ _. retIO ()), fetch = (\<lambda>u. retIO (Status 503)), native_diagnostic = (\<lambda>_ _. retIO ()),
     validate_stores = (\<lambda>_. retIO ()), validate_verifier = (\<lambda>_. Inr []), validate_anchor = (\<lambda>_ _. Inr ()),
     load_verifier = (\<lambda>_. retIO []), issue_certificate = (\<lambda>_ _ _ _. retIO JNull)\<rparr>"

lemma clock_suite_timed: "timed clock_suite"
  by (simp add: timed_def clock_suite_def)

lemma readiness_ends_at_deadline_witness:
  "case ready_loop clock_suite (clock clock_suite 0 + 5 * second_ns) (Suc (nat 5)) ([(''a'', ''b'')], []) 0 of
     (Inl e, w') \<Rightarrow> True
   | (Inr st', w') \<Rightarrow> fst st' = [] \<or> clock clock_suite 0 + 5 * second_ns \<le> clock clock_suite w'"
  by (rule readiness_ends_at_deadline [OF clock_suite_timed])

section \<open>The published diagnosis\<close>

definition closed_labels :: "string list" where
  "closed_labels = map label_of eudi_startup_patterns @ [''application-started-before-exit'', ''container-oom-killed'',
     ''container-unavailable'', ''logs-unavailable'', ''state-unavailable'', ''unclassified-startup-failure'']"

definition slug_char :: "char \<Rightarrow> bool" where
  "slug_char c = (is_lower c \<or> is_digit c \<or> c = CHR ''-'')"

definition public_category :: "string \<Rightarrow> bool" where
  "public_category c = (c \<in> set closed_labels
     \<or> (startswith c ''root-exception-'' \<and> list_all slug_char (drop (length ''root-exception-'') c)))"

lemma slug_chars: "list_all slug_char (slug b s)"
  by (induction b s rule: slug.induct) (auto simp: slug_char_def)

lemma strip_char_all: "list_all P s \<Longrightarrow> list_all P (strip_char c s)"
  unfolding strip_char_def rstrip_char_def list_all_iff by (auto dest!: set_dropWhileD)

lemma root_exceptions_public: "list_all public_category (root_exceptions t)"
  unfolding root_exceptions_def list_all_iff
  by (auto simp: public_category_def startswith_def slug_chars strip_char_all split: list.splits)

lemma log_categories_public: "list_all public_category (log_categories t)"
  unfolding log_categories_def list_all_append
  using root_exceptions_public by (auto simp: list_all_iff public_category_def closed_labels_def)

lemma fixed_public:
  "public_category ''application-started-before-exit''" "public_category ''container-oom-killed''"
  "public_category ''container-unavailable''" "public_category ''logs-unavailable''" "public_category ''state-unavailable''"
  "public_category ''unclassified-startup-failure''"
  by (simp_all add: public_category_def closed_labels_def)

lemma read_state_public: "read_state S out = Inr r \<Longrightarrow> list_all public_category (categories r)"
  using fixed_public by (auto simp: read_state_def split: sum.splits if_splits)

lemma inspect_public: "inspect_verifier S env c w = (Inr r, w') \<Longrightarrow> list_all public_category (categories r)"
  using fixed_public log_categories_public
  by (auto simp: inspect_verifier_def bindIO_OK split: if_splits dest!: read_state_public)

lemma inspect_only_public: "inspect_only S env answer w = (Inr r, w') \<Longrightarrow> list_all public_category (categories r)"
  using fixed_public inspect_public
  by (auto simp: inspect_only_def unavailable_report_def split: list.splits if_splits prod.splits)

text \<open>
  Claim C38. The published diagnosis of a failed verifier is closed: whatever its logs contain,
  the categories reported are not empty, sorted without repetition, and each of them is one of
  the fixed names or \<open>root-exception-\<close> followed only by lower-case letters, digits and hyphens.
\<close>

theorem startup_diagnostic_closed:
  "case emit_eudi_startup_diagnostic S proj env w of
     (Inl e, w') \<Rightarrow> True
   | (Inr report, w') \<Rightarrow> categories report \<noteq> [] \<and> sorted (categories report) \<and> distinct (categories report)
       \<and> list_all public_category (categories report)"
proof -
  obtain r w' where e: "emit_eudi_startup_diagnostic S proj env w = (r, w')"
    by (cases "emit_eudi_startup_diagnostic S proj env w") blast
  show ?thesis
  proof (cases r)
    case (Inr report)
    from e [unfolded Inr] obtain answer w1 found where
      found: "inspect_only S env answer w1 = (Inr found, w')" and report: "report = finish_report found"
      by (auto simp: emit_eudi_startup_diagnostic_def bindIO_OK)
    define named where "named = categories found @ (if oom_state found = Some True then [''container-oom-killed''] else [])"
    have cats: "categories report = sort (remdups (if named = [] then [''unclassified-startup-failure''] else named))"
      by (simp add: report finish_report_def named_def)
    have "list_all public_category (categories found)" using found by (rule inspect_only_public)
    then have "list_all public_category (if named = [] then [''unclassified-startup-failure''] else named)"
      using named_def fixed_public by simp
    moreover have "set (categories report) \<noteq> {}" unfolding cats by simp
    then have "categories report \<noteq> []" by (metis set_empty)
    ultimately show ?thesis unfolding e Inr using cats by (simp add: list_all_iff)
  qed (simp add: e)
qed

end
