(* ===== verification/Suite_Start_Props.thy ===== *)
theory Suite_Start_Props
  imports Suite_Compose_Props Suite_Watch_Props
begin

text \<open>
  What a start that returned 0 has shown, why the identity command is asked often enough, and a
  start that is not undone.
\<close>

section \<open>A successful start\<close>

definition answered :: "event list \<Rightarrow> string \<Rightarrow> event list \<times> 'w \<Rightarrow> bool" where
  "answered L u w \<longleftrightarrow> (\<exists>post s. fst w = L @ post \<and> s < 400 \<and> Fetched u (Inr (Status s)) \<in> set post)"

definition covered :: "event list \<Rightarrow> name_urls \<Rightarrow> name_urls \<times> name_urls \<Rightarrow> event list \<times> 'w \<Rightarrow> bool" where
  "covered L probes st w \<longleftrightarrow> set (fst st) \<subseteq> set probes
     \<and> (\<forall>p\<in>set probes. p \<in> set (fst st) \<or> answered L (snd p) w)"

lemma fetch_record:
  assumes "fetch (recording S) u w = (r, w')"
  shows "fst w' = fst w @ [Fetched u r]"
  using assms by (auto simp: recording_def split: prod.splits)

lemma answered_grows: "answered L u w \<Longrightarrow> fst w' = fst w @ l \<Longrightarrow> answered L u w'"
  unfolding answered_def by (metis Un_iff append.assoc set_append)

lemma probe_one_covered:
  assumes d: "distinct (map fst probes)" and p: "p \<in> set probes" and c: "covered L probes st w" and L: "prefix L (fst w)"
    and r: "probe_one (recording S) p st w = (Inr st', w')"
  shows "covered L probes st' w' \<and> prefix L (fst w')"
proof -
  obtain name u pending failures where n: "p = (name, u)" "st = (pending, failures)" by (cases p; cases st)
  from r obtain x where x: "fetch (recording S) u w = (Inr x, w')"
    and st': "st' = (case x of
       Status s \<Rightarrow> if s < 400 then (drop_name name pending, drop_name name failures)
                   else (pending, put name (''HTTP '' @ int_str s @ '' from '' @ u) failures)
     | HttpError m \<Rightarrow> (pending, put name (u @ '': '' @ m) failures))"
    by (auto simp: n probe_one_def bindIO_OK)
  note log = fetch_record [OF x]
  from L log obtain mid where mid: "fst w' = L @ mid @ [Fetched u (Inr x)]" by (auto simp: prefix_def)
  have grow: "answered L v w \<Longrightarrow> answered L v w'" for v
    by (rule answered_grows [OF _ log])
  have "covered L probes st' w'"
  proof (cases "\<exists>s. x = Status s \<and> s < 400")
    case True
    then have st'': "fst st' = drop_name name pending" using st' by auto
    have now: "answered L u w'" using True mid unfolding answered_def by force
    show ?thesis
      unfolding covered_def
    proof (intro conjI ballI)
      show "set (fst st') \<subseteq> set probes" using c st'' by (auto simp: covered_def n drop_name_def)
      fix q assume q: "q \<in> set probes"
      show "q \<in> set (fst st') \<or> answered L (snd q) w'"
      proof (cases "fst q = name")
        case True
        then have "q = p" using d p q n by (metis eq_key_imp_eq_value fst_conv prod.collapse)
        then show ?thesis using now n by simp
      next
        case False
        then show ?thesis using c q grow st'' by (auto simp: covered_def n drop_name_def)
      qed
    qed
  next
    case False
    then have "fst st' = pending" using st' by (auto split: answer.splits)
    then show ?thesis using c grow by (auto simp: covered_def n)
  qed
  with mid show ?thesis by simp
qed

lemma probe_round_covered:
  assumes d: "distinct (map fst probes)"
  shows "set xs \<subseteq> set probes \<Longrightarrow> covered L probes st w \<Longrightarrow> prefix L (fst w) \<Longrightarrow>
     probe_round (recording S) xs st w = (Inr st', w') \<Longrightarrow> covered L probes st' w' \<and> prefix L (fst w')"
proof (induction xs arbitrary: st w)
  case (Cons x xs)
  from Cons.prems(4) obtain st1 w1 where w1: "probe_one (recording S) x st w = (Inr st1, w1)"
    "probe_round (recording S) xs st1 w1 = (Inr st', w')" by (auto simp: bindIO_OK)
  from probe_one_covered [OF d _ Cons.prems(2,3) w1(1)] Cons.prems(1)
  have "covered L probes st1 w1 \<and> prefix L (fst w1)" by simp
  with Cons.IH [of st1 w1] w1(2) Cons.prems(1) show ?case by simp
qed auto

lemma silent_log: "silent m w = (r, w') \<Longrightarrow> fst w' = fst w"
  by (auto simp: silent_def split: prod.splits)

lemma covered_log: "fst w' = fst w \<Longrightarrow> covered L probes st w \<Longrightarrow> covered L probes st w'"
  by (simp add: covered_def answered_def)

lemma ready_loop_covered:
  assumes d: "distinct (map fst probes)"
  shows "covered L probes st w \<Longrightarrow> prefix L (fst w) \<Longrightarrow>
     ready_loop (recording S) deadline n st w = (Inr st', w') \<Longrightarrow> covered L probes st' w' \<and> prefix L (fst w')"
proof (induction n arbitrary: st w)
  case (Suc n)
  show ?case
  proof (cases "fst st \<noteq> [] \<and> clock (recording S) w < deadline")
    case True
    with Suc.prems(3) obtain st1 w1 st2 w2 where w1: "probe_round (recording S) (fst st) st w = (Inr st1, w1)"
      and w2: "(if fst st1 \<noteq> [] then bindIO (sleep_ns (recording S) second_ns) (\<lambda>_. retIO st1) else retIO st1) w1 = (Inr st2, w2)"
      and r: "ready_loop (recording S) deadline n st2 w2 = (Inr st', w')"
      by (auto simp only: ready_loop.simps if_True simp_thms ready_round_def bindIO_assoc bindIO_OK)
    have sub: "set (fst st) \<subseteq> set probes" using Suc.prems(1) by (simp add: covered_def)
    from probe_round_covered [OF d sub Suc.prems(1,2) w1] have c1: "covered L probes st1 w1" "prefix L (fst w1)" by blast+
    have "st2 = st1 \<and> fst w2 = fst w1"
    proof (cases "fst st1 \<noteq> []")
      case True
      with w2 obtain u where u: "silent (sleep_ns S second_ns) w1 = (Inr u, w2)" "st2 = st1"
        by (simp add: bindIO_OK) blast
      then show ?thesis by (auto dest: silent_log)
    qed (use w2 in simp)
    with c1 Suc.IH [OF _ _ r] show ?thesis by (metis covered_log)
  next
    case False
    then show ?thesis using Suc.prems by auto
  qed
qed auto

definition all_answered :: "name_urls \<Rightarrow> event list \<Rightarrow> bool" where
  "all_answered probes l \<longleftrightarrow> list_all (\<lambda>(name, u). list_ex (\<lambda>e. case e of Fetched v (Inr (Status s)) \<Rightarrow> v = u \<and> s < 400 | _ \<Rightarrow> False) l) probes"

lemma wait_answered:
  assumes "wait_for_eudi_readiness (recording S) env w = (Inr u, w')"
  shows "\<exists>probes post. readiness_probes env = Inr probes \<and> fst w' = fst w @ post \<and> all_answered probes post"
proof -
  from assms obtain timeout probes start w1 v1 st w2 where probes: "readiness_probes env = Inr probes"
    and w1: "silent (open_client S (env_value env ''OIDF_MARTY_RESOLVE_IP'') (map snd probes) (readiness_ca (recording S) env)) w
        = (Inr v1, w1)"
    and l: "ready_loop (recording S) (start + timeout * second_ns) (Suc (nat timeout)) (probes, []) w1 = (Inr st, w2)"
    and e: "fst st = []" "w' = w2"
    by (auto simp: wait_for_eudi_readiness_def bindIO_OK reading_clock_def simp del: ready_loop.simps split: if_splits)
  have d: "distinct (map fst probes)" using probes by (auto simp: readiness_probes_def)
  have "covered (fst w) probes (probes, []) w1" "prefix (fst w) (fst w1)"
    using silent_log [OF w1] by (simp_all add: covered_def)
  from ready_loop_covered [OF d this l] e have "\<forall>p\<in>set probes. answered (fst w) (snd p) w'" "prefix (fst w) (fst w')"
    by (auto simp: covered_def)
  then obtain post where post: "fst w' = fst w @ post" and a: "\<forall>p\<in>set probes. answered (fst w) (snd p) w'"
    by (auto simp: prefix_def)
  have "all_answered probes post"
    unfolding all_answered_def list_all_iff
  proof (intro ballI, clarify)
    fix name u
    assume "(name, u) \<in> set probes"
    with a obtain s where "s < 400" "Fetched u (Inr (Status s)) \<in> set post" using post by (fastforce simp: answered_def)
    then show "list_ex (\<lambda>e. case e of Fetched v (Inr (Status s)) \<Rightarrow> v = u \<and> s < 400 | _ \<Rightarrow> False) post"
      by (auto simp: list_ex_iff intro: bexI [of _ "Fetched u (Inr (Status s))"])
  qed
  with probes post show ?thesis by blast
qed

text \<open>Every child so far returned 0.\<close>

definition all_zero :: "event list \<times> 'w \<Rightarrow> bool" where
  "all_zero w \<longleftrightarrow> list_all (\<lambda>e. case e of Ran c env r \<Rightarrow> r = Inr 0 | _ \<Rightarrow> True) (runs w)"

text \<open>The last project's start, its environment, and the answers that followed.\<close>

definition eudi_ready :: "'w lifecycle \<Rightarrow> projects \<Rightarrow> event list \<Rightarrow> bool" where
  "eudi_ready S ps l \<longleftrightarrow> (\<exists>before cmd env post probes. l = before @ Ran cmd env (Inr 0) # post
     \<and> eudi_command S ps ''up'' = Inr cmd \<and> readiness_probes env = Inr probes \<and> all_answered probes post)"

lemma readiness_probes_child: "readiness_probes (subprocess_environment own env False) = readiness_probes env"
proof -
  have m: "map_of (subprocess_environment own env False) k = map_of env k" if "k \<notin> github_auth_keys" for k
    using that map_of_filter_keys [of "\<lambda>k. k \<notin> github_auth_keys" env k]
    by (simp add: subprocess_environment_def Let_def)
  show ?thesis
    unfolding readiness_probes_def wallet_kit_base_def env_item_def env_value_def env_text_of_def
    by (simp add: m github_auth_keys_def)
qed

lemma await_ready:
  assumes "await_eudi (recording S) a ps env names w = (Inr u, w')"
  shows "\<exists>probes post. readiness_probes env = Inr probes \<and> fst w' = fst w @ post \<and> all_answered probes post"
proof -
  from assms have "wait_for_eudi_readiness (recording S) env w = (Inr u, w')"
    unfolding await_eudi_def by (auto simp: tryIO_OK bindIO_OK split: if_splits)
  then show ?thesis by (rule wait_answered)
qed

lemma start_all_success:
  "start_all (recording S) a ps env started entries w = (Inr 0, w') \<Longrightarrow> all_zero w \<Longrightarrow>
     all_zero w' \<and> (entries \<noteq> [] \<and> last entries = (''eudi'', eudi_command S ps ''up'') \<longrightarrow> eudi_ready S ps (fst w'))"
proof (induction entries arbitrary: started w)
  case (Cons entry rest)
  obtain name command where entry: "entry = (name, command)" by (cases entry)
  from Cons.prems(1) [unfolded entry] obtain cmd status w1 where cmd: "command = Inr cmd"
    and w1: "run_child (recording S) cmd env (name = ''marty'') w = (Inr status, w1)"
    and k: "(if status \<noteq> 0
       then bindIO (diagnose (recording S) a ps env name) (\<lambda>_.
            bindIO (clean_up (recording S) a ps env (started @ [name])) (\<lambda>_. retIO status))
       else bindIO (if name = ''eudi'' then await_eudi (recording S) a ps env (started @ [name]) else retIO ()) (\<lambda>_.
            start_all (recording S) a ps env (started @ [name]) rest)) w1 = (Inr 0, w')"
    by (auto simp only: start_all.simps bindIO_OK io_simps prod.inject)
  have z: "status = 0"
  proof (rule ccontr)
    assume "status \<noteq> 0"
    with k show False by (auto simp: bindIO_OK)
  qed
  with k obtain w2 where
    w2: "(if name = ''eudi'' then await_eudi (recording S) a ps env (started @ [name]) else retIO ()) w1 = (Inr (), w2)"
    and r: "start_all (recording S) a ps env (started @ [name]) rest w2 = (Inr 0, w')"
    by (auto simp only: bindIO_OK if_False simp_thms)
  have same: "runs w2 = runs w1"
  proof (cases "name = ''eudi''")
    case True
    then have "wait_for_eudi_readiness (recording S) env w1 = (Inr (), w2)"
      using w2 unfolding await_eudi_def by (auto simp: tryIO_OK bindIO_OK split: if_splits)
    then show ?thesis by (rule wait_runs)
  qed (use w2 in simp)
  then have z2: "all_zero w2" using Cons.prems(2) run_child_runs [OF w1] z by (simp add: all_zero_def)
  note ih = Cons.IH [OF r z2]
  show ?case
  proof (cases "rest = []")
    case True
    have w': "w' = w2" using r True by simp
    have "eudi_ready S ps (fst w')" if last: "entry = (''eudi'', eudi_command S ps ''up'')"
    proof -
      have n: "name = ''eudi''" "eudi_command S ps ''up'' = Inr cmd" using last entry cmd by auto
      have aw: "await_eudi (recording S) a ps env (started @ [name]) w1 = (Inr (), w2)" using w2 n(1) by simp
      from await_ready [OF aw] obtain probes post where
        p: "readiness_probes env = Inr probes" "fst w2 = fst w1 @ post" "all_answered probes post" by blast
      have "fst w' = fst w @ Ran cmd (subprocess_environment (own_env S) env False) (Inr 0) # post"
        using p(2) run_child_log [OF w1] w' z n(1) by simp
      with p n show ?thesis unfolding eudi_ready_def by (metis readiness_probes_child)
    qed
    with ih True show ?thesis by simp
  qed (use ih in simp)
qed simp

lemma last_component:
  assumes "eudi a"
  shows "last (components S a ps ''up'') = (''eudi'', eudi_command S ps ''up'')"
    and "drop 1 (components S a ps ''up'') \<noteq> []" and "last (drop 1 (components S a ps ''up'')) = (''eudi'', eudi_command S ps ''up'')"
  using assms by (simp_all add: components_up)

lemma start_all_zeros:
  assumes "start_all (recording S) a ps env names entries w = (Inr 0, w')" "all_zero w"
    and "eudi a \<longrightarrow> entries \<noteq> [] \<and> last entries = (''eudi'', eudi_command S ps ''up'')"
  shows "all_zero w' \<and> (eudi a \<longrightarrow> eudi_ready S ps (fst w'))"
  using start_all_success [OF assms(1,2)] assms(3) by blast

lemma run_child_zeros: "run_child (recording S) c env b w = (Inr 0, w') \<Longrightarrow> all_zero w \<Longrightarrow> all_zero w'"
  by (simp add: all_zero_def run_child_runs)

lemma same_zeros: "runs w' = runs w \<Longrightarrow> all_zero w \<Longrightarrow> all_zero w'"
  by (simp add: all_zero_def)

lemma bootstrap_success:
  assumes r: "bootstrap (recording S) a ps env (components S a ps ''up'') w = (Inr 0, w')" and z: "all_zero w"
  shows "all_zero w' \<and> (eudi a \<longrightarrow> eudi_ready S ps (fst w'))"
proof -
  from r obtain base s1 w1 where w1: "run_child (recording S) base env True w = (Inr s1, w1)"
    and k1: "(if s1 \<noteq> 0 then bindIO (clean_up (recording S) a ps env [''marty'']) (\<lambda>_. retIO s1)
       else bindIO (tryIO (stage_haip_profile_certificate (recording S) a ps env) (\<lambda>e.
              if caught e then bindIO (clean_up (recording S) a ps env [''marty'']) (\<lambda>_. raiseIO e) else raiseIO e)) (\<lambda>env.
            bindIO (liftIO (marty_command S a ps ''up'' True True)) (\<lambda>resumed.
            bindIO (run_child (recording S) resumed env True) (\<lambda>status.
              if status \<noteq> 0 then bindIO (clean_up (recording S) a ps env [''marty'']) (\<lambda>_. retIO status)
              else start_all (recording S) a ps env [''marty''] (drop 1 (components S a ps ''up'')))))) w1 = (Inr 0, w')"
    by (auto simp only: bootstrap_def bindIO_OK io_simps prod.inject recording_commands)
  have s1: "s1 = 0"
  proof (rule ccontr)
    assume "s1 \<noteq> 0"
    with k1 show False by (auto simp: bindIO_OK)
  qed
  with k1 obtain env2 w2 resumed s3 w3 where
    w2: "tryIO (stage_haip_profile_certificate (recording S) a ps env) (\<lambda>e.
              if caught e then bindIO (clean_up (recording S) a ps env [''marty'']) (\<lambda>_. raiseIO e) else raiseIO e) w1
            = (Inr env2, w2)"
    and w3: "run_child (recording S) resumed env2 True w2 = (Inr s3, w3)"
    and k3: "(if s3 \<noteq> 0 then bindIO (clean_up (recording S) a ps env2 [''marty'']) (\<lambda>_. retIO s3)
              else start_all (recording S) a ps env2 [''marty''] (drop 1 (components S a ps ''up''))) w3 = (Inr 0, w')"
    by (auto simp only: bindIO_OK io_simps prod.inject if_False simp_thms)
  have s3: "s3 = 0"
  proof (rule ccontr)
    assume "s3 \<noteq> 0"
    with k3 show False by (auto simp: bindIO_OK)
  qed
  have "runs w2 = runs w1" using stage_failed [OF w2] by (rule same_runs [OF ran.keeps_stage])
  then have "all_zero w3"
    using run_child_zeros w3 [unfolded s3] w1 [unfolded s1] z by (blast intro: same_zeros)
  moreover have "start_all (recording S) a ps env2 [''marty''] (drop 1 (components S a ps ''up'')) w3 = (Inr 0, w')"
    using k3 s3 by simp
  ultimately show ?thesis
    by (intro start_all_zeros) (auto simp only: last_component(2,3) simp_thms)
qed

lemma bring_up_success:
  assumes r: "bring_up (recording S) a ps env w = (Inr 0, w')" and z: "all_zero w"
  shows "all_zero w' \<and> (eudi a \<longrightarrow> eudi_ready S ps (fst w'))"
proof -
  let ?sel = "components S a ps ''up''"
  have sel: "eudi a \<longrightarrow> ?sel \<noteq> [] \<and> last ?sel = (''eudi'', eudi_command S ps ''up'')"
    using last_component(1) by (auto simp: components_up)
  from r obtain missing w1 where w1: "cache_missing (recording S) a ps env w = (Inr missing, w1)"
    and k: "(if missing then retIO 1
       else if \<not> haip a then start_all (recording S) a ps env [] ?sel
       else if env_value env certificate_env \<noteq> []
       then bindIO (configure_haip_environment (recording S) env (haip_material_arg a) (eudi a) True) (\<lambda>env.
            start_all (recording S) a ps env [] ?sel)
       else bootstrap (recording S) a ps env ?sel) w1 = (Inr 0, w')"
    by (auto simp only: bring_up_def Let_def bindIO_OK io_simps prod.inject recording_commands)
  have m: "\<not> missing"
  proof
    assume "missing"
    with k show False by simp
  qed
  have z1: "all_zero w1"
  proof (cases "oidf a \<and> env_value env binding_env \<noteq> []")
    case True
    with w1 m obtain c where "run_child (recording S) c env False w = (Inr 0, w1)"
      by (auto simp: cache_missing_def bindIO_OK)
    then show ?thesis using z by (rule run_child_zeros)
  next
    case False
    with w1 z show ?thesis by (auto simp: cache_missing_def)
  qed
  consider "\<not> haip a" | "haip a" "env_value env certificate_env \<noteq> []" | "haip a" "env_value env certificate_env = []" by blast
  then show ?thesis
  proof cases
    case 1
    with k m have "start_all (recording S) a ps env [] ?sel w1 = (Inr 0, w')" by simp
    then show ?thesis using z1 sel by (rule start_all_zeros)
  next
    case 2
    with k m obtain e v where e: "configure_haip_environment (recording S) env (haip_material_arg a) (eudi a) True w1 = (Inr e, v)"
      "start_all (recording S) a ps e [] ?sel v = (Inr 0, w')" by (auto simp: bindIO_OK)
    have "runs v = runs w1" using e(1) by (rule same_runs [OF ran.keeps_configure])
    then have "all_zero v" using z1 by (rule same_zeros)
    with e(2) show ?thesis using sel by (rule start_all_zeros)
  next
    case 3
    with k m have "bootstrap (recording S) a ps env ?sel w1 = (Inr 0, w')" by simp
    then show ?thesis using z1 by (rule bootstrap_success)
  qed
qed

text \<open>
  Claim C16. A successful start is complete. When up returns 0, no child ran but the optional
  check of the runner's images and the commands that start the selected projects, all of them, each
  returned 0, and with EUDI the three public endpoints named by the very environment the EUDI
  project was started with have each answered below 400 after that start.
\<close>

theorem successful_up_complete:
  "case execute (recording S) a ([], w) of
     (Inl e, w') \<Rightarrow> True
   | (Inr c, w') \<Rightarrow>
       if action_arg a = ''up'' \<and> c = 0
       then \<exists>ps check names ups. project_names (the (run_id_arg a)) = Inr ps
         \<and> issued w' = check @ ups
         \<and> (check = [] \<or> map Inr check = [oidf_command S a ps ''cache-check''])
         \<and> list_all2 (starts S a ps) names ups
         \<and> remdups names = map fst (components S a ps ''up'')
         \<and> all_zero w'
         \<and> (if eudi a then eudi_ready S ps (fst w') else True)
       else True"
proof -
  obtain r w' where Pair: "execute (recording S) a ([], w) = (r, w')"
    by (cases "execute (recording S) a ([], w)") blast
  show ?thesis
  proof (cases r)
    case (Inr c)
    show ?thesis
    proof (cases "action_arg a = ''up'' \<and> c = 0")
      case True
      obtain ps env v where ps: "project_names (the (run_id_arg a)) = Inr ps" and v: "issued v = []" and v2: "runs v = []"
        and k: "(if action_arg a \<noteq> ''up'' then visit_all (recording S) env (components S a ps (action_arg a)) 0
            else bring_up (recording S) a ps env) v = (Inr c, w')"
        by (rule execute_OK [OF Pair [unfolded Inr]])
      from k True have up: "bring_up (recording S) a ps env v = (Inr 0, w')" by simp
      from bring_up_torn [OF up v, unfolded torn_down_def] obtain check names ups where
        t: "issued w' = check @ ups @ (if (0 :: int) = 0 then [] else downs S a ps (remdups names))"
          "check = [] \<or> map Inr check = [oidf_command S a ps ''cache-check'']" "list_all2 (starts S a ps) names ups"
          "in_order (map fst (components S a ps ''up'')) names"
          "(0 :: int) = 0 \<longrightarrow> remdups names = map fst (components S a ps ''up'')"
        by (elim exE conjE) (rule that, assumption+)
      have "all_zero v" using v2 by (simp add: all_zero_def)
      from bring_up_success [OF up this] have z: "all_zero w'" "if eudi a then eudi_ready S ps (fst w') else True" by simp_all
      have body: "\<exists>ps check names ups. project_names (the (run_id_arg a)) = Inr ps
         \<and> issued w' = check @ ups
         \<and> (check = [] \<or> map Inr check = [oidf_command S a ps ''cache-check''])
         \<and> list_all2 (starts S a ps) names ups
         \<and> remdups names = map fst (components S a ps ''up'')
         \<and> all_zero w'
         \<and> (if eudi a then eudi_ready S ps (fst w') else True)"
        using t ps z by (intro exI [of _ ps] exI [of _ check] exI [of _ names] exI [of _ ups] conjI) simp_all
      show ?thesis unfolding Pair Inr prod.case sum.case if_P [OF True] by (rule body)
    qed (use Pair Inr in auto)
  qed (simp add: Pair)
qed

section \<open>The identity of the issuer profile\<close>

text \<open>
  With the fuel of the code's deadline, more fuel changes nothing: the loop has returned, or
  raised because its deadline passed.
\<close>

lemma identity_loop_fuel:
  assumes t: "timed S"
  shows "deadline \<le> clock S w + int k * second_ns \<Longrightarrow>
     identity_loop S command env deadline (Suc (k + m)) d w = identity_loop S command env deadline (Suc k) d w"
proof (induction k arbitrary: d w)
  case 0
  obtain r w1 where c: "capture S command env w = (r, w1)" by (cases "capture S command env w") blast
  have "deadline \<le> clock S w1" using timedD(3) [OF t c] 0 by simp
  with c show ?case
    by (cases r) (auto simp: bindIO_def reading_clock_def split: sum.splits)
next
  case (Suc k)
  obtain r w1 where c: "capture S command env w = (r, w1)" by (cases "capture S command env w") blast
  obtain u w2 where s: "sleep_ns S second_ns w1 = (u, w2)" by (cases "sleep_ns S second_ns w1") blast
  have "clock S w + second_ns \<le> clock S w2" using timedD(3) [OF t c] timedD(1) [OF t s] by simp
  then have "deadline \<le> clock S w2 + int k * second_ns" using Suc.prems by (simp add: algebra_simps)
  note ih = Suc.IH [OF this]
  have unf: "identity_loop S command env deadline (Suc n) d w = (case r of Inl e \<Rightarrow> (Inl e, w1)
      | Inr answer \<Rightarrow> (case read_identity S d answer of Inl e \<Rightarrow> (Inl e, w1)
        | Inr (Inr identity) \<Rightarrow> (Inr identity, w1)
        | Inr (Inl detail) \<Rightarrow> if deadline \<le> clock S w1
            then (Inl (ValueError (''could not resolve Marty issuer DID: '' @ detail)), w1)
            else (case u of Inl e \<Rightarrow> (Inl e, w2) | Inr _ \<Rightarrow> identity_loop S command env deadline n detail w2)))" for n
    using c s by (auto simp: bindIO_def reading_clock_def split: sum.splits)
  show ?case
    unfolding unf [of "Suc k"] unf [of "Suc k + m"] using ih
    by (simp del: identity_loop.simps split: sum.split)
qed

section \<open>What is not undone\<close>

text \<open>
  A command that cannot be built is found only when its turn comes: with \<open>--oidf\<close> but no runner
  checkout, Marty has been started and is not stopped.
\<close>

lemma missing_runner_leaves_marty:
  assumes "oidf a" "oidf_runner a = None" "\<not> haip a" "env_value env binding_env = []"
    and "marty_command S a ps ''up'' False False = Inr cmd"
    and "run_child S cmd env True w = (Inr 0, w')"
  shows "bring_up S a ps env w = (Inl (ValueError ''--oidf requires --oidf-runner''), w')"
  using assms by (simp add: bring_up_def cache_missing_def components_up oidf_command_def bindIO_def)

end
