(* ===== verification/Eudi_Reference.thy ===== *)
theory Eudi_Reference
  imports Suite_Compose Py_Regex_Lang
begin

text \<open>
  \<^verbatim>\<open>scripts/eudi_reference_compose.py\<close>: the checked invocation of the EUDI reference project, the
  counterpart of the official runner's in Docker_Context; and the fit between the two tools and the
  lifecycle command that calls them.
\<close>

definition eudi_project :: rx where
  "eudi_project = Seq (Lit ''eudi-reference'')
     (opt (seqs [Lit ''-'', Cls (\<lambda>c. is_lower c \<or> is_digit c), Rep 0 46 (Cls alnum_dash)]))"

record reference_args =
  reference_project :: string
  reference_marty :: "string option"
  reference_arguments :: "string list"

definition check_reference_args :: "reference_args \<Rightarrow> (string \<times> string list) result" where
  "check_reference_args a = (case reference_marty a of
     None \<Rightarrow> raise (SystemExit ''--marty-project or MARTY_CONFORMANCE_PROJECT is required'')
   | Some m \<Rightarrow>
       if m = [] then raise (SystemExit ''--marty-project or MARTY_CONFORMANCE_PROJECT is required'')
       else if \<not> fullmatch marty_project m
       then raise (SystemExit ''--marty-project must be an isolated marty-conformance-<run-id> project'')
       else if \<not> fullmatch eudi_project (reference_project a)
       then raise (SystemExit ''--project must be eudi-reference or eudi-reference-<run-id>'')
       else let args = (case reference_arguments a of x # xs \<Rightarrow> if x = ''--'' then xs else x # xs | [] \<Rightarrow> [])
         in if args = [] then raise (SystemExit ''pass a docker compose command, for example: -- up --detach'')
            else ret (m, args))"

definition remote_reference_paths :: "string list" where
  "remote_reference_paths = [''EUDI_CONFORMANCE_CONFIG_ROOT'', ''OIDF_TLS_CERT_DIR'', ''EUDI_VERIFIER_KEYSTORE_FILE'']"

definition remote_reference :: "environment \<Rightarrow> unit result" where
  "remote_reference env =
     (if map_of env ''EUDI_TEST_MATERIAL_MODE'' = Some ''generated''
      then raise (SystemExit (''generated EUDI material is local to this host and cannot be bind-mounted ''
             @ ''through a remote Docker context''))
      else bindE (mapE (\<lambda>name. daemon_absolute (env_text_of env name) name) remote_reference_paths) (\<lambda>_. ret ()))"

definition reference_main :: "'w docker \<Rightarrow> (string \<Rightarrow> json result) \<Rightarrow> bool \<Rightarrow> string \<Rightarrow> environment \<Rightarrow> reference_args
    \<Rightarrow> ('w, int) io" where
  "reference_main docker loads compose_present root own a =
     bindIO (liftIO (check_reference_args a)) (\<lambda>(m, args). let compose = root @ ''/conformance/eudi-reference.compose.yml'' in
     if \<not> compose_present then raiseIO (SystemExit (''EUDI reference Compose file is missing: '' @ compose))
     else bindIO (docker_endpoint_is_local docker loads own) (\<lambda>here.
          bindIO (liftIO (if here then ret () else remote_reference own)) (\<lambda>_.
          bindIO (docker_command docker own [''network'', ''inspect'', m @ ''_oidf-runner'']) (\<lambda>inspect.
          bindIO (run_docker docker inspect own) (\<lambda>(status, _).
          if status \<noteq> 0 then raiseIO (SystemExit (''Marty TLS bridge does not exist: '' @ m @ ''_oidf-runner''))
          else bindIO (docker_command docker own ([''compose'', ''--project-name'', reference_project a, ''--file'', compose] @ args)) (\<lambda>cmd.
               bindIO (run_docker docker cmd (bridge_environment own m)) (\<lambda>(status, _). retIO status)))))))"

section \<open>The projects of a run are accepted by the tools\<close>

lemma run_id_lang:
  assumes "fullmatch run_id_rx s"
  obtains c t where "s = c # t" "is_lower c \<or> is_digit c" "length t \<le> 31" "list_all alnum_dash t"
    "t = [] \<or> (\<exists>m d. t = m @ [d] \<and> length m \<le> 30 \<and> list_all alnum_dash m \<and> (is_lower d \<or> is_digit d))"
proof -
  have "plain run_id_rx" by (simp add: run_id_rx_def opt_def)
  with assms have "lang run_id_rx s" by (simp add: fullmatch_lang)
  then obtain c t where s: "s = c # t" "is_lower c \<or> is_digit c"
    and t: "t = [] \<or> (\<exists>m d. t = m @ [d] \<and> length m \<le> 30 \<and> list_all alnum_dash m \<and> (is_lower d \<or> is_digit d))"
    unfolding run_id_rx_def lang_Cls_Seq lang_opt by (auto simp: lang_Rep_Cls simp del: lang.simps(5))
  have "length t \<le> 31 \<and> list_all alnum_dash t" using t by (auto simp: alnum_dash_def)
  with s t show thesis using that by blast
qed

lemma tool_projects:
  assumes "fullmatch run_id_rx s"
  shows "fullmatch marty_project (''marty-conformance-'' @ s)" "fullmatch oidf_project (''oidf-runner-'' @ s)"
    "fullmatch eudi_project (''eudi-reference-'' @ s)"
proof -
  from run_id_lang [OF assms] obtain c t where s: "s = c # t" "is_lower c \<or> is_digit c" "length t \<le> 31" "list_all alnum_dash t"
    and t: "t = [] \<or> (\<exists>m d. t = m @ [d] \<and> length m \<le> 30 \<and> list_all alnum_dash m \<and> (is_lower d \<or> is_digit d))" .
  have p: "plain marty_project" "plain oidf_project" "plain eudi_project"
    by (simp_all add: marty_project_def oidf_project_def eudi_project_def opt_def)
  have tail: "lang (seqs [Lit ''-'', Cls (\<lambda>c. is_lower c \<or> is_digit c), Rep 0 46 (Cls alnum_dash)]) (CHR ''-'' # s)"
    using s by (auto simp: lang_Rep_Cls lang_Cls_Seq lang_Lit_Seq simp del: lang.simps)
  let ?rx = "Seq (Rep 0 46 (Cls alnum_dash)) (Cls (\<lambda>c. is_lower c \<or> is_digit c))"
  have "lang (opt ?rx) t"
  proof (cases "t = []")
    case False
    with t obtain m d where m: "t = m @ [d]" "length m \<le> 30" "list_all alnum_dash m" "is_lower d \<or> is_digit d" by blast
    have "lang (Rep 0 46 (Cls alnum_dash)) m" using m(2,3) by (simp add: lang_Rep_Cls del: lang.simps)
    moreover have "lang (Cls (\<lambda>c. is_lower c \<or> is_digit c)) [d]" using m(4) by simp
    ultimately have "lang ?rx t" unfolding lang.simps(3) m(1) by blast
    then show ?thesis unfolding lang_opt by blast
  qed (simp add: lang_opt)
  then have "lang (Seq (Cls (\<lambda>c. is_lower c \<or> is_digit c)) (opt ?rx)) s"
    unfolding lang_Cls_Seq s(1) using s(2) by blast
  then have "lang marty_project (''marty-conformance-'' @ s)"
    unfolding marty_project_def seqs.simps lang_Lit_Seq by blast
  moreover have "lang oidf_project (''oidf-runner-'' @ s)" "lang eudi_project (''eudi-reference-'' @ s)"
    unfolding oidf_project_def eudi_project_def lang_Lit_Seq lang_opt using tail by auto
  ultimately show "fullmatch marty_project (''marty-conformance-'' @ s)" "fullmatch oidf_project (''oidf-runner-'' @ s)"
    "fullmatch eudi_project (''eudi-reference-'' @ s)" using p by (simp_all only: fullmatch_lang)
qed

text \<open>
  Claim C36. The lifecycle command and the tools it calls agree: for every run id the lifecycle
  accepts, the project names it derives and the arguments it hands on for any of its four actions
  pass the argument checks of the official runner tool and of the EUDI reference tool, so that
  neither refuses a teardown because of a name or a command the lifecycle derived.
\<close>

theorem derived_projects_accepted:
  "case project_names run_id of
     Inl e \<Rightarrow> True
   | Inr ps \<Rightarrow> case compose_verbs action of
       Inl e \<Rightarrow> True
     | Inr verbs \<Rightarrow>
         check_runner_args \<lparr>runner = checkout, prebuilt = True, project = oidf_project_name ps,
            marty = Some (marty_project_name ps), arguments = ''--'' # verbs\<rparr> = Inr (marty_project_name ps, verbs)
         \<and> check_reference_args \<lparr>reference_project = eudi_project_name ps, reference_marty = Some (marty_project_name ps),
            reference_arguments = ''--'' # verbs\<rparr> = Inr (marty_project_name ps, verbs)"
proof (cases "project_names run_id")
  case (Inr ps)
  then have id: "fullmatch run_id_rx run_id" and
    ps: "ps = \<lparr>marty_project_name = ''marty-conformance-'' @ run_id, oidf_project_name = ''oidf-runner-'' @ run_id,
                eudi_project_name = ''eudi-reference-'' @ run_id\<rparr>"
    by (auto simp: project_names_def split: if_splits)
  have "compose_verbs action = Inr verbs \<Longrightarrow> verbs \<noteq> []" for verbs
    by (auto simp: compose_verbs_def split: if_splits)
  with Inr tool_projects [OF id] show ?thesis
    by (auto simp: ps check_runner_args_def check_reference_args_def split: sum.split)
qed simp

end
