(* ===== verification/Mdoc_Audit.thy ===== *)
theory Mdoc_Audit
  imports Py_Glob Py_Hash Py_Json Py_Url Write_Once
begin

text \<open>
  \<^verbatim>\<open>scripts/oidf_mdoc_binding_audit.py\<close>: the session transcripts of an official export, the bindings
  that Marty logged, and the report that compares them by digest. An export is the sorted list of the
  archives found, each with its sorted member names and what \<open>json.loads\<close> makes of a member; the
  log is its text.
\<close>

section \<open>Patterns\<close>

definition hex_group :: "string \<Rightarrow> string \<Rightarrow> rx" where
  "hex_group key name = Seq (Lit (key @ ''='')) (Grp name (Rep 64 64 (Cls is_lhex)))"

definition truth_group :: "string \<Rightarrow> string \<Rightarrow> rx" where
  "truth_group key name = Seq (Lit (key @ ''='')) (Grp name (Alt (Lit ''True'') (Lit ''False'')))"

definition flow_binding :: rx where
  "flow_binding = seqs [Lit ''OID4VP mdoc binding '', hex_group ''flow_instance_sha256'' ''flow'', Lit '' '',
     hex_group ''transcript_sha256'' ''transcript'', Lit '' '', hex_group ''client_id_sha256'' ''client_id'', Lit '' '',
     hex_group ''nonce_sha256'' ''nonce'', Lit '' '', hex_group ''response_uri_sha256'' ''response_uri'', Lit '' '',
     Lit ''response_key_thumbprint_sha256='', Grp ''response_key'' (Alt (Rep 64 64 (Cls is_lhex)) (Lit ''none'')), Lit '' '',
     hex_group ''presentation_sha256'' ''presentation'']"

definition policy_binding :: rx where
  "policy_binding = seqs [Lit ''mDoc verification binding '', hex_group ''transcript_sha256'' ''transcript'', Lit '' '',
     hex_group ''device_response_sha256'' ''device_response'', Lit '' '', truth_group ''issuer_signature_valid'' ''issuer_signature'',
     Lit '' '', truth_group ''issuer_trusted'' ''issuer_trusted'', Lit '' '',
     truth_group ''device_authentication_valid'' ''device_authentication'']"

definition flow_path :: rx where
  "flow_path = seqs [Lit ''/v1/flows/instances/'', Grp ''1'' (Many 1 (Cls (\<lambda>c. c \<noteq> CHR ''/''))), Lit ''/submit'', Eos]"

section \<open>Digests and base64\<close>

definition text_digest :: "string \<Rightarrow> string" where
  "text_digest s = hexdigest (utf8 s)"

text \<open>
  \<open>binascii.a2b_base64\<close> in its lenient mode, behind \<open>urlsafe_b64decode\<close>: characters outside the
  alphabet are skipped, padding that completes a group ends the text, and a group left open is an
  error. The state is the position in the group, the bits not yet written and the padding seen.
\<close>

definition b64_value :: "char \<Rightarrow> nat option" where
  "b64_value c = (if is_upper c then Some (code c - 65) else if is_lower c then Some (code c - 71)
     else if is_digit c then Some (code c + 4)
     else if c = CHR ''+'' \<or> c = CHR ''-'' then Some 62
     else if c = CHR ''/'' \<or> c = CHR ''_'' then Some 63 else None)"

fun b64_scan :: "nat \<Rightarrow> nat \<Rightarrow> nat \<Rightarrow> string \<Rightarrow> bytes result" where
  "b64_scan pos left pads [] = (if pos = 0 then ret [] else raise (ValueError ''Incorrect padding''))"
| "b64_scan pos left pads (c # cs) =
     (if c = CHR ''='' then
        (if pos < 2 then b64_scan pos left pads cs
         else if 4 \<le> pos + (pads + 1) then ret [] else b64_scan pos left (pads + 1) cs)
      else case b64_value c of
        None \<Rightarrow> b64_scan pos left pads cs
      | Some v \<Rightarrow>
          if pos = 0 then b64_scan 1 v 0 cs
          else if pos = 1 then bindE (b64_scan 2 (v mod 16) 0 cs) (\<lambda>bs. ret (word_of_nat (left * 4 + v div 16) # bs))
          else if pos = 2 then bindE (b64_scan 3 (v mod 4) 0 cs) (\<lambda>bs. ret (word_of_nat (left * 16 + v div 4) # bs))
          else bindE (b64_scan 0 0 0 cs) (\<lambda>bs. ret (word_of_nat (left * 64 + v) # bs)))"

definition decode_b64 :: "string \<Rightarrow> bytes result" where
  "decode_b64 s = (if \<not> list_all (\<lambda>c. code c < 128) s
     then raise (ValueError ''string argument should contain only ASCII characters'')
     else b64_scan 0 0 0 (s @ replicate ((4 - length s mod 4) mod 4) (CHR ''='')))"

definition b64_digest :: "string \<Rightarrow> string result" where
  "b64_digest s = bindE (decode_b64 s) (\<lambda>b. ret (hexdigest b))"

section \<open>The official modules\<close>

type_synonym archive = "string list \<times> (string \<Rightarrow> json result)"

record official =
  test_name :: string
  flow_digest :: string
  o_transcript :: string
  o_client_id :: string
  o_nonce :: string
  o_response_uri :: string
  o_response_key :: string
  o_presentation :: string
  o_device_response :: string

definition transcript_record :: "json \<Rightarrow> bool" where
  "transcript_record r = (is_dict r \<and> is_str (obj_get r ''session_transcript_b64'') \<and> is_dict (obj_get r ''session_transcript_input''))"

definition set_string :: "json \<Rightarrow> bool" where
  "set_string v = (is_str v \<and> str_of v \<noteq> [])"

text \<open>\<open>_official_presentation\<close>: the records are taken one after the other until one has the shape.\<close>

definition single_presentation :: "json \<Rightarrow> string option" where
  "single_presentation v = (case v of
     JObj [(k, JArr [JStr s])] \<Rightarrow> if s \<noteq> [] then Some s else None
   | _ \<Rightarrow> None)"

fun official_presentation :: "json list \<Rightarrow> string \<Rightarrow> string result" where
  "official_presentation [] name = raise (ValueError (name @ '' has no one-query/one-presentation mdoc response''))"
| "official_presentation (r # rs) name = bindE (py_get r ''vp_token'' JNull) (\<lambda>v.
     case single_presentation v of Some s \<Rightarrow> ret s | None \<Rightarrow> official_presentation rs name)"

text \<open>The schemes whose last path segment \<open>urlparse\<close> strips of its parameters.\<close>

definition params_schemes :: "string list" where
  "params_schemes = [[], ''ftp'', ''hdl'', ''prospero'', ''http'', ''https'', ''shttp'', ''rtsp'', ''rtsps'', ''rtspu'',
     ''sip'', ''sips'', ''mms'', ''sftp'', ''tel'']"

definition uri_path :: "split_url \<Rightarrow> string" where
  "uri_path u = (let p = path u; tail = after_last (CHR ''/'') p in
     if scheme u \<notin> set params_schemes then p
     else take (length p - length tail) p @ before_first (CHR '';'') tail)"

definition submitted_flow :: "string \<Rightarrow> string \<Rightarrow> string result" where
  "submitted_flow name uri = bindE (urlsplit uri) (\<lambda>u. case search flow_path (uri_path u) of
     None \<Rightarrow> raise (ValueError (name @ '' response URI does not identify a Marty flow''))
   | Some m \<Rightarrow> ret (group m ''1''))"

definition response_key_of :: "string \<Rightarrow> json \<Rightarrow> string result" where
  "response_key_of name v =
     (if is_list v \<or> is_dict v then raise TypeError
      else if v = JNull \<or> v = JStr ''<null>'' then ret ''none''
      else if is_str v then b64_digest (str_of v)
      else raise (ValueError (name @ '' has an invalid response-key thumbprint'')))"

definition official_module :: "string \<Rightarrow> json \<Rightarrow> json list \<Rightarrow> json \<Rightarrow> official result" where
  "official_module name payload records r = (let inputs = obj_get r ''session_transcript_input'';
       client_id = obj_get inputs ''client_id''; nonce = obj_get inputs ''nonce''; response_uri = obj_get inputs ''response_uri''
     in if \<not> (set_string client_id \<and> set_string nonce \<and> set_string response_uri)
        then raise (ValueError (name @ '' has an incomplete official session transcript input''))
        else bindE (submitted_flow name (str_of response_uri)) (\<lambda>flow.
        bindE (response_key_of name (obj_get inputs ''jwkThumbprint_b64'')) (\<lambda>response_key.
        bindE (py_get payload ''testInfo'' (JObj [])) (\<lambda>test_info.
        bindE (py_get test_info ''testName'' JNull) (\<lambda>tn.
        if \<not> set_string tn then raise (ValueError (name @ '' has no official test name''))
        else bindE (official_presentation records name) (\<lambda>presentation.
        bindE (b64_digest (str_of (obj_get r ''session_transcript_b64''))) (\<lambda>transcript.
        bindE (b64_digest presentation) (\<lambda>device_response.
          ret \<lparr>test_name = str_of tn, flow_digest = text_digest flow, o_transcript = transcript,
               o_client_id = text_digest (str_of client_id), o_nonce = text_digest (str_of nonce),
               o_response_uri = text_digest (str_of response_uri), o_response_key = response_key,
               o_presentation = text_digest presentation, o_device_response = device_response\<rparr>))))))))"

definition member_module :: "(string \<Rightarrow> json result) \<Rightarrow> string \<Rightarrow> official option result" where
  "member_module read name =
     (if \<not> endswith name ''.json'' \<or> \<not> startswith name ''test-log-'' then ret None
      else bindE (read name) (\<lambda>payload.
        bindE (py_get payload ''results'' (JArr [])) (\<lambda>results.
        bindE (py_iter results) (\<lambda>records. case find transcript_record records of
            None \<Rightarrow> ret None
          | Some r \<Rightarrow> bindE (official_module name payload records r) (\<lambda>m. ret (Some m))))))"

definition official_modules :: "archive result list \<Rightarrow> official list result" where
  "official_modules exports = (case exports of
     [export] \<Rightarrow> bindE export (\<lambda>(names, read).
       bindE (mapE (member_module read) (sort names)) (\<lambda>ms. let modules = map the (filter (\<lambda>m. m \<noteq> None) ms) in
         if modules = [] then raise (ValueError ''official OIDF export contains no mdoc session transcripts'') else ret modules))
   | _ \<Rightarrow> raise (ValueError (''expected exactly one official OIDF export, found '' @ int_str (int (length exports)))))"

section \<open>The product's bindings\<close>

record binding =
  r_transcript :: string
  r_client_id :: string
  r_nonce :: string
  r_response_uri :: string
  r_response_key :: string
  r_presentation :: string

definition match_binding :: "pos \<Rightarrow> binding" where
  "match_binding m = \<lparr>r_transcript = group m ''transcript'', r_client_id = group m ''client_id'', r_nonce = group m ''nonce'',
     r_response_uri = group m ''response_uri'', r_response_key = group m ''response_key'', r_presentation = group m ''presentation''\<rparr>"

definition map_binding :: "(string \<times> binding) list \<Rightarrow> pos \<Rightarrow> (string \<times> binding) list result" where
  "map_binding d m = bind_once (ValueError ''one Marty flow emitted conflicting mdoc binding diagnostics'')
     (group m ''flow'') (match_binding m) d"

definition runtime_bindings :: "string \<Rightarrow> ((string \<times> binding) list \<times> (string \<times> string) list) result" where
  "runtime_bindings log = bindE (foldE map_binding [] (finditer flow_binding log)) (\<lambda>flows.
     ret (flows, map (\<lambda>m. (group m ''transcript'', group m ''device_response'')) (finditer policy_binding log)))"

section \<open>The report\<close>

definition audit_fields :: "string list" where
  "audit_fields = [''transcript'', ''client_id'', ''nonce'', ''response_uri'', ''response_key'', ''presentation'', ''device_response'']"

definition binding_matches :: "official \<Rightarrow> binding \<Rightarrow> bool \<Rightarrow> (string \<times> bool) list" where
  "binding_matches o_mod r forwarded =
     [(''transcript'', o_transcript o_mod = r_transcript r), (''client_id'', o_client_id o_mod = r_client_id r),
      (''nonce'', o_nonce o_mod = r_nonce r), (''response_uri'', o_response_uri o_mod = r_response_uri r),
      (''response_key'', o_response_key o_mod = r_response_key r), (''presentation'', o_presentation o_mod = r_presentation r),
      (''device_response'', forwarded)]"

definition negative_test :: "official \<Rightarrow> bool" where
  "negative_test o_mod = occurs_in ''invalid-session-transcript'' (test_name o_mod)"

record verdict = v_matches :: "(string \<times> bool) list"  v_forwarded :: bool  v_status :: string

definition verdict_of :: "(string \<times> binding) list \<Rightarrow> (string \<times> string) list \<Rightarrow> official \<Rightarrow> verdict" where
  "verdict_of flows policies o_mod = (case map_of flows (flow_digest o_mod) of
     None \<Rightarrow> \<lparr>v_matches = map (\<lambda>f. (f, False)) audit_fields, v_forwarded = False, v_status = ''runtime-binding-unavailable''\<rparr>
   | Some r \<Rightarrow> let forwarded = ((r_transcript r, o_device_response o_mod) \<in> set policies);
         matches = binding_matches o_mod r forwarded;
         all_match = list_all snd matches
       in \<lparr>v_matches = matches, v_forwarded = forwarded,
           v_status = (if all_match = (\<not> negative_test o_mod) \<and> forwarded then ''expected-binding-observed''
                       else ''unexpected-binding-observed'')\<rparr>)"

definition audit_row :: "official \<Rightarrow> verdict \<Rightarrow> json" where
  "audit_row o_mod v = JObj [(''test_name'', JStr (test_name o_mod)),
     (''expectation'', JStr (if negative_test o_mod then ''reject-mismatched-session-transcript''
                             else ''accept-matching-session-transcript'')),
     (''binding_matches'', JObj (map (\<lambda>(f, b). (f, JBool b)) (v_matches v))),
     (''product_transcript_forwarded'', JBool (v_forwarded v)),
     (''status'', JStr (v_status v))]"

definition mdoc_audit :: "archive result list \<Rightarrow> string \<Rightarrow> json result" where
  "mdoc_audit exports log = bindE (official_modules exports) (\<lambda>modules.
     bindE (runtime_bindings log) (\<lambda>(flows, policies).
       ret (JObj [(''schema'', JStr ''elevenid.oidf-mdoc-binding-audit/v1''), (''source_policy'', JStr ''unmodified''),
         (''modules'', JArr (map (\<lambda>m. audit_row m (verdict_of flows policies m)) modules))])))"

end
