(* ===== verification/Mdoc_Audit_Props.thy ===== *)
theory Mdoc_Audit_Props
  imports Mdoc_Audit
begin

text \<open>What a status of the audit says, and that the report holds no value of a credential.\<close>

interpretation binding_table: write_once map_binding "\<lambda>m. True" "\<lambda>m. (group m ''flow'', match_binding m)"
  by unfold_locales (auto simp: map_binding_def bind_once_Inr)

text \<open>The status as a specification: what was logged for the module's flow decides it.\<close>

definition logged_binding :: "string \<Rightarrow> string \<Rightarrow> binding \<Rightarrow> bool" where
  "logged_binding log flow r \<longleftrightarrow> (\<exists>m\<in>set (finditer flow_binding log). group m ''flow'' = flow \<and> match_binding m = r)"

definition same_binding :: "official \<Rightarrow> binding \<Rightarrow> bool" where
  "same_binding o_mod r = (o_transcript o_mod = r_transcript r \<and> o_client_id o_mod = r_client_id r
     \<and> o_nonce o_mod = r_nonce r \<and> o_response_uri o_mod = r_response_uri r
     \<and> o_response_key o_mod = r_response_key r \<and> o_presentation o_mod = r_presentation r)"

definition forwarded_in :: "string \<Rightarrow> binding \<Rightarrow> official \<Rightarrow> bool" where
  "forwarded_in log r o_mod = list_ex (\<lambda>m. group m ''transcript'' = r_transcript r \<and> group m ''device_response'' = o_device_response o_mod)
     (finditer policy_binding log)"

lemma runtime_bindings_OK:
  assumes "runtime_bindings log = Inr (flows, policies)"
  shows "map_of flows flow = Some r \<longleftrightarrow> logged_binding log flow r"
    and "(t, d) \<in> set policies \<longleftrightarrow> list_ex (\<lambda>m. group m ''transcript'' = t \<and> group m ''device_response'' = d) (finditer policy_binding log)"
proof -
  from assms have f: "foldE map_binding [] (finditer flow_binding log) = Inr flows"
    and p: "policies = map (\<lambda>m. (group m ''transcript'', group m ''device_response'')) (finditer policy_binding log)"
    by (auto simp: runtime_bindings_def)
  show "map_of flows flow = Some r \<longleftrightarrow> logged_binding log flow r"
    using binding_table.run_from [OF f] by (auto simp: logged_binding_def)
  show "(t, d) \<in> set policies \<longleftrightarrow> list_ex (\<lambda>m. group m ''transcript'' = t \<and> group m ''device_response'' = d) (finditer policy_binding log)"
    by (auto simp: p list_ex_iff)
qed

lemma expected_status:
  assumes "runtime_bindings log = Inr (flows, policies)"
  shows "v_status (verdict_of flows policies o_mod) = ''expected-binding-observed'' \<longleftrightarrow>
     (\<exists>r. logged_binding log (flow_digest o_mod) r \<and> forwarded_in log r o_mod
        \<and> same_binding o_mod r = (\<not> negative_test o_mod))"
proof (cases "map_of flows (flow_digest o_mod)")
  case None
  then have "\<not> logged_binding log (flow_digest o_mod) r" for r
    using runtime_bindings_OK(1) [OF assms, of "flow_digest o_mod" r] by simp
  then show ?thesis by (simp add: verdict_of_def None)
next
  case (Some r)
  have r: "logged_binding log (flow_digest o_mod) r' \<longleftrightarrow> r' = r" for r'
    using runtime_bindings_OK(1) [OF assms, of "flow_digest o_mod" r'] Some by auto
  have f: "(r_transcript r, o_device_response o_mod) \<in> set policies \<longleftrightarrow> forwarded_in log r o_mod"
    unfolding forwarded_in_def by (rule runtime_bindings_OK(2) [OF assms])
  have m: "list_all snd (binding_matches o_mod r b) \<longleftrightarrow> same_binding o_mod r \<and> b" for b
    by (auto simp: binding_matches_def same_binding_def)
  show ?thesis unfolding verdict_of_def Some option.case Let_def f m verdict.simps r by auto
qed

text \<open>The rows' texts are test names and the audit's own words; everything else is a truth value.\<close>

definition row_closed :: "json \<Rightarrow> bool" where
  "row_closed row = (case row of
     JObj [(k1, JStr n), (k2, JStr e), (k3, JObj ms), (k4, JBool fw), (k5, JStr st)] \<Rightarrow>
       [k1, k2, k3, k4, k5] = [''test_name'', ''expectation'', ''binding_matches'', ''product_transcript_forwarded'', ''status'']
       \<and> e \<in> {''reject-mismatched-session-transcript'', ''accept-matching-session-transcript''}
       \<and> map fst ms = audit_fields \<and> list_all (\<lambda>(f, v). is_bool v) ms
       \<and> st \<in> {''runtime-binding-unavailable'', ''expected-binding-observed'', ''unexpected-binding-observed''}
   | _ \<Rightarrow> False)"

lemma audit_row_closed: "row_closed (audit_row o_mod (verdict_of flows policies o_mod))"
  by (cases "map_of flows (flow_digest o_mod)")
    (auto simp: row_closed_def audit_row_def verdict_of_def binding_matches_def audit_fields_def is_bool_def Let_def)

text \<open>
  Claim C40. The mdoc audit says what the log shows. An audit that returns has one closed row per
  official session transcript, in the export's order, and a row is marked as expected exactly when
  the log holds a binding of the module's own flow whose transcript the verification policy
  received together with the official device response, and that binding agrees with the
  official digests in all six fields for an ordinary test, and does not for the negative test.
\<close>

theorem mdoc_audit_exact:
  "case mdoc_audit exports log of
     Inl e \<Rightarrow> True
   | Inr report \<Rightarrow> \<exists>modules. official_modules exports = Inr modules
       \<and> length (arr_of (obj_get report ''modules'')) = length modules
       \<and> list_all row_closed (arr_of (obj_get report ''modules''))
       \<and> list_all2 (\<lambda>m row. obj_get row ''test_name'' = JStr (test_name m)
           \<and> (obj_get row ''status'' = JStr ''expected-binding-observed'')
              = (\<exists>r. logged_binding log (flow_digest m) r \<and> forwarded_in log r m \<and> same_binding m r = (\<not> negative_test m)))
         modules (arr_of (obj_get report ''modules''))"
proof (cases "mdoc_audit exports log")
  case (Inr report)
  then obtain modules flows policies where m: "official_modules exports = Inr modules"
    and rt: "runtime_bindings log = Inr (flows, policies)"
    and report: "report = JObj [(''schema'', JStr ''elevenid.oidf-mdoc-binding-audit/v1''), (''source_policy'', JStr ''unmodified''),
         (''modules'', JArr (map (\<lambda>m. audit_row m (verdict_of flows policies m)) modules))]"
    by (auto simp: mdoc_audit_def)
  have rows: "arr_of (obj_get report ''modules'') = map (\<lambda>m. audit_row m (verdict_of flows policies m)) modules"
    by (simp add: report)
  have row: "obj_get (audit_row m v) ''test_name'' = JStr (test_name m)" "obj_get (audit_row m v) ''status'' = JStr (v_status v)"
    for m v by (simp_all add: audit_row_def)
  have l2: "list_all2 (\<lambda>m row. obj_get row ''test_name'' = JStr (test_name m)
           \<and> (obj_get row ''status'' = JStr ''expected-binding-observed'')
              = (\<exists>r. logged_binding log (flow_digest m) r \<and> forwarded_in log r m \<and> same_binding m r = (\<not> negative_test m)))
         modules (arr_of (obj_get report ''modules''))"
    unfolding rows by (simp add: list.rel_map list_all2_same row expected_status [OF rt])
  have "list_all row_closed (arr_of (obj_get report ''modules''))"
    unfolding rows list.pred_map by (simp add: list_all_iff audit_row_closed)
  with m l2 show ?thesis unfolding Inr by (auto simp: rows)
qed simp

end
