(* ===== verification/Suite_Teardown.thy ===== *)
theory Suite_Teardown
  imports Suite_Compose_Props
begin

text \<open>
  What a failed start leaves running, whether \<open>up\<close> returns the failure or raises: the lemmas
  \<open>..._raises\<close> follow the exceptions through the steps as those of \<open>Suite_Compose_Props\<close> follow
  the statuses.
\<close>

section \<open>Exceptions of each step\<close>

lemma stop_one_raises:
  assumes "stop_one (recording S) env down w = (Inl e, w')"
  shows "\<not> caught e \<and> issued w' = issued w @ built down"
proof (cases down)
  case (Inl x)
  with assms show ?thesis by (auto simp: stop_one_def tryIO_raises bindIO_raises built_def split: if_splits)
next
  case (Inr c)
  obtain r w1 where r: "run_child (recording S) c env False w = (r, w1)"
    by (cases "run_child (recording S) c env False w") blast
  then have "w' = w1 \<and> \<not> caught e"
    using assms Inr by (cases r) (auto simp: stop_one_def tryIO_def bindIO_def split: if_splits)
  with r Inr show ?thesis by (simp add: run_child_issued built_def)
qed

lemma stop_all_raises:
  "stop_all (recording S) a ps env ns w = (Inl e, w') \<Longrightarrow>
     \<not> caught e \<and> (\<exists>some. issued w' = issued w @ some \<and> prefix some (concat (map (\<lambda>n. built (down_of S a ps n)) ns)))"
proof (induction ns arbitrary: w)
  case (Cons n ns)
  from Cons.prems consider "stop_one (recording S) env (down_of S a ps n) w = (Inl e, w')"
    | w1 where "stop_one (recording S) env (down_of S a ps n) w = (Inr (), w1)" "stop_all (recording S) a ps env ns w1 = (Inl e, w')"
    by (auto simp: bindIO_raises)
  then show ?case
  proof cases
    case 1
    from stop_one_raises [OF this] show ?thesis by auto
  next
    case 2
    from Cons.IH [OF 2(2)] stop_one_issued [OF 2(1)] show ?thesis by auto
  qed
qed simp

lemma clean_up_raises:
  assumes "clean_up (recording S) a ps env names w = (Inl e, w')"
  shows "\<not> caught e \<and> (\<exists>some. issued w' = issued w @ some \<and> prefix some (downs S a ps names))"
  using assms stop_all_raises by (fastforce simp: clean_up_def stop_started_def downs_def split: if_splits)

definition last_result :: "event list \<times> 'w \<Rightarrow> int result option" where
  "last_result w = (case rev (runs w) of Ran c env r # _ \<Rightarrow> Some r | _ \<Rightarrow> None)"

lemma run_child_result: "run_child (recording S) c env native w = (r, w') \<Longrightarrow> last_result w' = Some r"
  by (simp add: last_result_def run_child_runs)

lemma same_result: "(\<And>cs. keeps (on_log (ran_only cs)) m) \<Longrightarrow> m w = (r, w') \<Longrightarrow> last_result w' = last_result w"
  unfolding last_result_def by (drule (1) same_runs) simp

lemma diagnose_raises:
  "diagnose (recording S) a ps env name w = (Inl e, w') \<Longrightarrow> name = ''eudi'' \<or> name = ''marty'' \<and> stack_manifest_arg a \<noteq> None"
  by (auto simp only: diagnose_def bindIO_raises io_simps prod.inject sum.distinct if_False split: if_splits)

section \<open>The steps of a start\<close>

text \<open>
  What the code leaves as it is when it raises \<open>e\<close>, as one sees it in the record: the last
  command could not be run; the start failed and its diagnosis raised; the next project's command
  cannot be built; the wait for the endpoints raised \<open>OSError\<close>, where only \<open>ValueError\<close> is
  handled; or \<open>e\<close> is neither of the two exceptions that any handler names, and the clean-up, if it
  was begun, may itself have been cut short.
\<close>

definition unhandled :: "'w lifecycle \<Rightarrow> suite_args \<Rightarrow> projects \<Rightarrow> exn \<Rightarrow> string list \<Rightarrow> string list list \<Rightarrow> event list \<times> 'w \<Rightarrow> bool" where
  "unhandled S a ps e names ends w \<longleftrightarrow>
     ends = [] \<and> last_result w = Some (Inl e)
   \<or> ends = [] \<and> names \<noteq> [] \<and> (last names = ''eudi'' \<or> last names = ''marty'' \<and> stack_manifest_arg a \<noteq> None)
       \<and> (\<exists>s. s \<noteq> 0 \<and> last_result w = Some (Inr s))
   \<or> ends = [] \<and> (\<exists>n rest. drop (length (remdups names)) (components S a ps ''up'') = (n, Inl e) # rest)
   \<or> ends = [] \<and> names \<noteq> [] \<and> last names = ''eudi'' \<and> is_OSError e
   \<or> \<not> caught e \<and> prefix ends (downs S a ps (remdups names))"

definition start_record :: "'w lifecycle \<Rightarrow> suite_args \<Rightarrow> projects \<Rightarrow> string list list \<Rightarrow> string list \<Rightarrow> string list list \<Rightarrow> bool" where
  "start_record S a ps check names ups \<longleftrightarrow> (check = [] \<or> map Inr check = [oidf_command S a ps ''cache-check''])
     \<and> list_all2 (starts S a ps) names ups \<and> in_order (map fst (components S a ps ''up'')) names"

definition broken_off :: "'w lifecycle \<Rightarrow> suite_args \<Rightarrow> projects \<Rightarrow> exn \<Rightarrow> event list \<times> 'w \<Rightarrow> bool" where
  "broken_off S a ps e w \<longleftrightarrow> (\<exists>check names ups ends. issued w = check @ ups @ ends \<and> start_record S a ps check names ups
     \<and> (ends = downs S a ps (remdups names) \<or> unhandled S a ps e names ends w))"

lemma await_raises:
  assumes "await_eudi (recording S) a ps env names w = (Inl e, w')"
  shows "issued w' = issued w @ downs S a ps names \<or> issued w' = issued w \<and> (is_OSError e \<or> \<not> caught e)
     \<or> \<not> caught e \<and> (\<exists>some. issued w' = issued w @ some \<and> prefix some (downs S a ps names))"
proof -
  from assms obtain x v where wait: "wait_for_eudi_readiness (recording S) env w = (Inl x, v)"
    and k: "(if is_ValueError x then bindIO (clean_up (recording S) a ps env names) (\<lambda>_. raiseIO x) else raiseIO x) v = (Inl e :: unit result, w')"
    unfolding await_eudi_def tryIO_raises by blast
  have v: "issued v = issued w" using wait by (rule same_issued [OF ran.keeps_wait])
  show ?thesis
  proof (cases "is_ValueError x")
    case True
    with k consider "clean_up (recording S) a ps env names v = (Inl e, w')"
      | "clean_up (recording S) a ps env names v = (Inr (), w')"
      by (auto simp: bindIO_raises)
    then show ?thesis
    proof cases
      case 1
      from clean_up_raises [OF this] v show ?thesis by simp
    next
      case 2
      from clean_up_issued [OF this] v show ?thesis by simp
    qed
  next
    case False
    with k v show ?thesis by (auto simp: caught_def)
  qed
qed

lemma start_step:
  assumes "start_record S a ps check names ups" and "components S a ps ''up'' = pre @ (name, Inr cmd) # rest"
    and "remdups names = map fst pre"
  shows "start_record S a ps check (names @ [name]) (ups @ [cmd]) \<and> remdups (names @ [name]) = map fst pre @ [name]"
proof -
  have "name \<notin> set (map fst pre)" using components_names [of S a ps] assms(2) by auto
  then have n: "name \<notin> set names" using assms(3) by (metis set_remdups)
  have "starts S a ps name cmd" using assms(2) by (auto simp: starts_def)
  moreover have rd: "remdups (names @ [name]) = map fst pre @ [name]" using n assms(3) by (simp add: remdups_disjoint)
  moreover have "in_order (map fst (components S a ps ''up'')) (names @ [name])"
    using assms(1) by (intro in_order_append [OF _ components_names _ components_hd, where rest = "map fst rest"])
      (simp_all add: start_record_def assms(2,3))
  ultimately show ?thesis using assms(1)
    by (simp add: start_record_def list_all2_appendI)
qed

lemma start_all_raises:
  "start_all (recording S) a ps env (map fst pre) entries w = (Inl e, w') \<Longrightarrow> components S a ps ''up'' = pre @ entries
     \<Longrightarrow> remdups names = map fst pre \<Longrightarrow> start_record S a ps check names ups \<Longrightarrow> issued w = check @ ups \<Longrightarrow> broken_off S a ps e w'"
proof (induction entries arbitrary: pre names ups w)
  case (Cons entry rest)
  obtain name command where entry: "entry = (name, command)" by (cases entry)
  show ?case
  proof (cases command)
    case (Inl x)
    with Cons.prems(1) have "x = e" "w' = w" by (simp_all add: entry)
    moreover have "drop (length (remdups names)) (components S a ps ''up'') = (name, Inl x) # rest"
      using Cons.prems(2,3) Inl entry by simp
    ultimately have "unhandled S a ps e names [] w'" unfolding unhandled_def by blast
    with Cons.prems(4,5) \<open>w' = w\<close> show ?thesis
      unfolding broken_off_def by (intro exI [of _ check] exI [of _ names] exI [of _ ups] exI [of _ "[]"]) simp
  next
    case (Inr cmd)
    obtain r w1 where w1: "run_child (recording S) cmd env (name = ''marty'') w = (r, w1)"
      by (cases "run_child (recording S) cmd env (name = ''marty'') w") blast
    have step: "start_record S a ps check (names @ [name]) (ups @ [cmd])" "remdups (names @ [name]) = map fst pre @ [name]"
      using start_step [OF Cons.prems(4) _ Cons.prems(3)] Cons.prems(2) Inr entry by auto
    have i1: "issued w1 = check @ ups @ [cmd]" using run_child_issued [OF w1] Cons.prems(5) by simp
    have stop: "broken_off S a ps e w'" if "issued w' = check @ (ups @ [cmd]) @ ends"
        "ends = downs S a ps (remdups (names @ [name])) \<or> unhandled S a ps e (names @ [name]) ends w'" for ends
      using that step(1) unfolding broken_off_def by blast
    show ?thesis
    proof (cases r)
      case (Inl x)
      with Cons.prems(1) w1 \<open>command = Inr cmd\<close> have "x = e" "w' = w1" by (auto simp: entry bindIO_def)
      then show ?thesis using run_child_result [OF w1] Inl i1
        by (intro stop [of "[]"]) (simp_all add: unhandled_def)
    next
      case (Inr s)
      have k: "(if s \<noteq> 0
         then bindIO (diagnose (recording S) a ps env name) (\<lambda>_.
              bindIO (clean_up (recording S) a ps env (map fst pre @ [name])) (\<lambda>_. retIO s))
         else bindIO (if name = ''eudi'' then await_eudi (recording S) a ps env (map fst pre @ [name]) else retIO ()) (\<lambda>_.
              start_all (recording S) a ps env (map fst pre @ [name]) rest)) w1 = (Inl e, w')"
        using Cons.prems(1) w1 Inr \<open>command = Inr cmd\<close> by (simp add: entry bindIO_def)
      show ?thesis
      proof (cases "s \<noteq> 0")
        case True
        with k consider "diagnose (recording S) a ps env name w1 = (Inl e, w')"
          | w2 where "diagnose (recording S) a ps env name w1 = (Inr (), w2)"
              "clean_up (recording S) a ps env (map fst pre @ [name]) w2 = (Inl e, w')"
          by (auto simp: bindIO_raises)
        then show ?thesis
        proof cases
          case 1
          have "last_result w' = Some (Inr s)" "issued w' = issued w1"
            using same_result [OF ran.keeps_diagnose 1] run_child_result [OF w1] Inr same_issued [OF ran.keeps_diagnose 1] by simp_all
          with i1 diagnose_raises [OF 1] True show ?thesis by (intro stop [of "[]"]) (auto simp: unhandled_def)
        next
          case 2
          from clean_up_raises [OF 2(2)] same_issued [OF ran.keeps_diagnose 2(1)] i1 step(2) obtain ends where
            "\<not> caught e" "issued w' = check @ (ups @ [cmd]) @ ends" "prefix ends (downs S a ps (remdups (names @ [name])))" by auto
          then show ?thesis by (intro stop [of ends]) (simp_all add: unhandled_def)
        qed
      next
        case False
        with k consider "name = ''eudi''" "await_eudi (recording S) a ps env (map fst pre @ [name]) w1 = (Inl e, w')"
          | w2 where "(if name = ''eudi'' then await_eudi (recording S) a ps env (map fst pre @ [name]) else retIO ()) w1 = (Inr (), w2)"
              "start_all (recording S) a ps env (map fst pre @ [name]) rest w2 = (Inl e, w')"
          by (auto simp: bindIO_raises split: if_splits)
        then show ?thesis
        proof cases
          case 1
          from await_raises [OF 1(2)] i1 step(2) obtain ends where "issued w' = check @ (ups @ [cmd]) @ ends"
            "ends = downs S a ps (remdups (names @ [name])) \<or> ends = [] \<and> is_OSError e
             \<or> \<not> caught e \<and> prefix ends (downs S a ps (remdups (names @ [name])))" by auto
          with 1(1) show ?thesis by (intro stop [of ends]) (auto simp: unhandled_def)
        next
          case 2
          have i2: "issued w2 = check @ ups @ [cmd]"
            using 2(1) i1 by (auto dest: await_issued split: if_splits)
          show ?thesis
            by (rule Cons.IH [of "pre @ [entry]" w2 "names @ [name]" "ups @ [cmd]"])
              (use 2(2) step i2 Cons.prems(2) entry in simp_all)
        qed
      qed
    qed
  qed
qed simp

lemma cache_missing_raises:
  assumes "cache_missing (recording S) a ps env w = (Inl e, w')" and "issued w = []"
  shows "issued w' = [] \<or> map Inr (issued w') = [oidf_command S a ps ''cache-check'']"
proof -
  from assms(1) consider "w' = w"
    | c r where "oidf_command S a ps ''cache-check'' = Inr c" "run_child (recording S) c env False w = (r, w')"
    by (auto simp: cache_missing_def bindIO_raises split: if_splits)
  then show ?thesis using assms(2) by cases (simp_all add: run_child_issued)
qed

lemma broken_before:
  assumes "check = [] \<or> map Inr check = [oidf_command S a ps ''cache-check'']" and "issued w = check"
  shows "broken_off S a ps e w"
  unfolding broken_off_def
  by (rule exI [of _ check], rule exI [of _ "[]"], rule exI [of _ "[]"], rule exI [of _ "[]"])
    (use assms in \<open>simp add: start_record_def downs_def in_order_def\<close>)

lemma stage_raises:
  fixes m :: "(event list \<times> 'w, 'a) io"
  assumes "tryIO m (\<lambda>e. if caught e then bindIO (clean_up (recording S) a ps env names) (\<lambda>_. raiseIO e) else raiseIO e) w = (Inl e, w')"
    and "\<And>cs. keeps (on_log (ran_only cs)) m"
  shows "issued w' = issued w @ downs S a ps names
     \<or> \<not> caught e \<and> (\<exists>some. issued w' = issued w @ some \<and> prefix some (downs S a ps names))"
proof -
  from assms(1) obtain x v where m: "m w = (Inl x, v)"
    and k: "(if caught x then bindIO (clean_up (recording S) a ps env names) (\<lambda>_. raiseIO x) else raiseIO x) v = (Inl e :: 'a result, w')"
    unfolding tryIO_raises by blast
  have v: "issued v = issued w" using m by (rule same_issued [OF assms(2)])
  show ?thesis
  proof (cases "caught x")
    case True
    with k consider "clean_up (recording S) a ps env names v = (Inl e, w')"
      | "clean_up (recording S) a ps env names v = (Inr (), w')"
      by (auto simp: bindIO_raises)
    then show ?thesis
    proof cases
      case 1
      from clean_up_raises [OF this] v show ?thesis by simp
    next
      case 2
      from clean_up_issued [OF this] v show ?thesis by simp
    qed
  next
    case False
    with k v show ?thesis by auto
  qed
qed

lemma bootstrap_raises:
  assumes r: "bootstrap (recording S) a ps env (components S a ps ''up'') w = (Inl e, w')"
    and check: "check = [] \<or> map Inr check = [oidf_command S a ps ''cache-check'']" and w: "issued w = check"
  shows "broken_off S a ps e w'"
proof (cases "marty_command S a ps ''up'' False False")
  case (Inl x)
  with r have "w' = w" by (simp add: bootstrap_def)
  with w check show ?thesis by (intro broken_before) simp_all
next
  case (Inr base)
  have one: "start_record S a ps check [''marty''] [base]"
    using check Inr by (auto simp: start_record_def starts_def components_up in_order_def)
  have stop: "broken_off S a ps e w'" if "issued w' = check @ ups @ ends" "start_record S a ps check names ups"
      "ends = downs S a ps (remdups names) \<or> unhandled S a ps e names ends w'" for ups names ends
    using that unfolding broken_off_def by blast
  obtain r1 w1 where w1: "run_child (recording S) base env True w = (r1, w1)"
    by (cases "run_child (recording S) base env True w") blast
  have i1: "issued w1 = check @ [base]" using run_child_issued [OF w1] w by simp
  show ?thesis
  proof (cases r1)
    case (Inl x)
    with r w1 Inr have "x = e" "w' = w1" by (auto simp: bootstrap_def bindIO_def)
    then show ?thesis using run_child_result [OF w1] Inl i1 one
      by (intro stop [of "[base]" "[]" "[''marty'']"]) (simp_all add: unhandled_def)
  next
    case (Inr s1)
    let ?rest = "\<lambda>env. bindIO (liftIO (marty_command S a ps ''up'' True True)) (\<lambda>resumed.
            bindIO (run_child (recording S) resumed env True) (\<lambda>status.
              if status \<noteq> 0 then bindIO (clean_up (recording S) a ps env [''marty'']) (\<lambda>_. retIO status)
              else start_all (recording S) a ps env [''marty''] (drop 1 (components S a ps ''up''))))"
    let ?stage = "tryIO (stage_haip_profile_certificate (recording S) a ps env) (\<lambda>e.
       if caught e then bindIO (clean_up (recording S) a ps env [''marty'']) (\<lambda>_. raiseIO e) else raiseIO e)"
    have k: "(if s1 \<noteq> 0 then bindIO (clean_up (recording S) a ps env [''marty'']) (\<lambda>_. retIO s1)
       else bindIO ?stage ?rest) w1 = (Inl e, w')"
      using r by (simp only: bootstrap_def recording_commands \<open>marty_command S a ps ''up'' False False = Inr base\<close> bindIO_simps
          bindIO_Inr [where m = "run_child (recording S) base env True", OF w1 [unfolded Inr]])
    have partial: "broken_off S a ps e w'" if "\<not> caught e" "issued w' = check @ ups @ some" "prefix some (downs S a ps [''marty''])"
      "start_record S a ps check names ups" "remdups names = [''marty'']" for ups some names
      using that by (intro stop [of ups some names]) (simp_all add: unhandled_def)
    show ?thesis
    proof (cases "s1 \<noteq> 0")
      case True
      with k have "clean_up (recording S) a ps env [''marty''] w1 = (Inl e, w')" by (simp add: bindIO_raises)
      from clean_up_raises [OF this] i1 obtain some where "\<not> caught e" "issued w' = check @ [base] @ some"
        "prefix some (downs S a ps [''marty''])" by auto
      then show ?thesis using one by (rule partial) simp
    next
      case False
      then have "bindIO ?stage ?rest w1 = (Inl e, w')" using k by (simp only: if_False)
      then consider "?stage w1 = (Inl e, w')" | env2 w2 where "?stage w1 = (Inr env2, w2)" "?rest env2 w2 = (Inl e, w')"
        unfolding bindIO_raises [of ?stage ?rest] by blast
      then show ?thesis
      proof cases
        case 1
        from stage_raises [OF 1 ran.keeps_stage] i1 consider "issued w' = check @ [base] @ downs S a ps [''marty'']"
          | some where "\<not> caught e" "issued w' = check @ [base] @ some" "prefix some (downs S a ps [''marty''])" by auto
        then show ?thesis
        proof cases
          case 1
          then show ?thesis using one by (rule stop) simp
        next
          case b: 2
          then show ?thesis using one by (rule partial) simp
        qed
      next
        case 2
        have i2: "issued w2 = check @ [base]"
          using stage_failed [OF 2(1)] i1 by (simp add: same_issued [OF ran.keeps_stage])
        have "isOK (marty_command S a ps ''up'' True True)"
          using \<open>marty_command S a ps ''up'' False False = Inr base\<close> by (metis marty_command_OK isOK_simps(2))
        then obtain resumed where resumed: "marty_command S a ps ''up'' True True = Inr resumed" by (auto simp: isOK_iff)
        have two: "start_record S a ps check [''marty'', ''marty''] [base, resumed]"
          using one resumed by (auto simp: start_record_def starts_def components_up in_order_def)
        obtain r3 w3 where w3: "run_child (recording S) resumed env2 True w2 = (r3, w3)"
          by (cases "run_child (recording S) resumed env2 True w2") blast
        have i3: "issued w3 = check @ [base, resumed]" using run_child_issued [OF w3] i2 by simp
        show ?thesis
        proof (cases r3)
          case (Inl x)
          with 2(2) w3 resumed have "x = e" "w' = w3" by (auto simp: bindIO_def)
          then show ?thesis using run_child_result [OF w3] Inl i3 two
            by (intro stop [of "[base, resumed]" "[]" "[''marty'', ''marty'']"]) (simp_all add: unhandled_def)
        next
          case (Inr s3)
          have k3: "(if s3 \<noteq> 0 then bindIO (clean_up (recording S) a ps env2 [''marty'']) (\<lambda>_. retIO s3)
              else start_all (recording S) a ps env2 [''marty''] (drop 1 (components S a ps ''up''))) w3 = (Inl e, w')"
            using 2(2) by (simp only: resumed bindIO_simps bindIO_Inr [where m = "run_child (recording S) resumed env2 True", OF w3 [unfolded Inr]])
          show ?thesis
          proof (cases "s3 \<noteq> 0")
            case True
            with k3 have "clean_up (recording S) a ps env2 [''marty''] w3 = (Inl e, w')" by (simp add: bindIO_raises)
            from clean_up_raises [OF this] i3 obtain some where "\<not> caught e" "issued w' = check @ [base, resumed] @ some"
              "prefix some (downs S a ps [''marty''])" by auto
            then show ?thesis using two by (rule partial) simp
          next
            case False
            with k3 show ?thesis
              by (intro start_all_raises [where pre = "take 1 (components S a ps ''up'')" and names = "[''marty'', ''marty'']"
                    and ups = "[base, resumed]" and check = check and w = w3
                    and entries = "drop 1 (components S a ps ''up'')"])
                (use i3 two in \<open>simp_all add: components_up\<close>)
          qed
        qed
      qed
    qed
  qed
qed

lemma bring_up_raises:
  assumes r: "bring_up (recording S) a ps env w = (Inl e, w')" and w: "issued w = []"
  shows "broken_off S a ps e w'"
proof -
  let ?sel = "components S a ps ''up''"
  let ?rest = "\<lambda>missing. if missing then retIO 1
       else if \<not> haip a then start_all (recording S) a ps env [] ?sel
       else if env_value env certificate_env \<noteq> []
       then bindIO (configure_haip_environment (recording S) env (haip_material_arg a) (eudi a) True) (\<lambda>env.
            start_all (recording S) a ps env [] ?sel)
       else bootstrap (recording S) a ps env ?sel"
  from r consider "cache_missing (recording S) a ps env w = (Inl e, w')"
    | missing w1 where "cache_missing (recording S) a ps env w = (Inr missing, w1)" "?rest missing w1 = (Inl e, w')"
    unfolding bring_up_def Let_def recording_commands bindIO_raises [of "cache_missing (recording S) a ps env"] by blast
  then show ?thesis
  proof cases
    case 1
    from cache_missing_raises [OF 1 w] show ?thesis by (rule broken_before) simp
  next
    case 2
    note check = cache_missing_issued [OF 2(1) w]
    have plain: "broken_off S a ps e w'" if "start_all (recording S) a ps f [] ?sel v = (Inl e, w')" "issued v = issued w1" for f v
      by (rule start_all_raises [where pre = "[]" and names = "[]" and ups = "[]" and check = "issued w1" and w = v and env = f])
        (use that check in \<open>simp_all add: start_record_def in_order_def\<close>)
    consider "missing" | "\<not> missing" "\<not> haip a" | "\<not> missing" "haip a" "env_value env certificate_env \<noteq> []"
      | "\<not> missing" "haip a" "env_value env certificate_env = []" by blast
    then show ?thesis
    proof cases
      case 1
      with 2(2) show ?thesis by simp
    next
      case a: 2
      with 2(2) plain show ?thesis by simp
    next
      case 3
      with 2(2) consider "configure_haip_environment (recording S) env (haip_material_arg a) (eudi a) True w1 = (Inl e, w')"
        | f v where "configure_haip_environment (recording S) env (haip_material_arg a) (eudi a) True w1 = (Inr f, v)"
            "start_all (recording S) a ps f [] ?sel v = (Inl e, w')"
        by (auto simp: bindIO_raises)
      then show ?thesis
      proof cases
        case 1
        have "issued w' = issued w1" using 1 by (rule same_issued [OF ran.keeps_configure])
        with check show ?thesis by (intro broken_before) simp_all
      next
        case b: 2
        have "issued v = issued w1" using b(1) by (rule same_issued [OF ran.keeps_configure])
        with b(2) plain show ?thesis by blast
      qed
    next
      case 4
      with 2(2) have "bootstrap (recording S) a ps env ?sel w1 = (Inl e, w')" by simp
      then show ?thesis using check by (rule bootstrap_raises) simp
    qed
  qed
qed

section \<open>The whole command\<close>

lemma execute_raises:
  assumes "execute (recording S) a ([], w) = (Inl e, w')" and up: "action_arg a = ''up''"
  shows "issued w' = [] \<or> (\<exists>ps. project_names (the (run_id_arg a)) = Inr ps \<and> broken_off S a ps e w')"
proof -
  let ?child = "child_environment (recording S) False (eudi a) (haip_material_arg a) (eudi_material_arg a) (action_arg a = ''up'')"
  let ?docker = "\<lambda>env. docker_endpoint_is_local (docker_cli (recording S)) (loads_json S) env"
  let ?go = "\<lambda>ps env local_docker. bindIO (liftIO (if local_docker then ret () else remote_checks (recording S) a env))
       (\<lambda>_. bring_up (recording S) a ps env)"
  from assms consider "issued w' = []" | run_id ps where "check_suite_args a = Inr run_id" "project_names run_id = Inr ps"
      "bindIO ?child (\<lambda>env0. let env = configure_project_environment env0 ps in bindIO (?docker env) (?go ps env)) ([], w) = (Inl e, w')"
    by (cases "check_suite_args a"; cases "project_names (projr (check_suite_args a))")
      (auto simp: execute_def issued_def runs_def)
  then show ?thesis
  proof cases
    case (2 run_id ps)
    have id: "run_id = the (run_id_arg a)" using 2(1) by (auto simp: check_suite_args_def split: if_splits)
    from 2(3) consider "?child ([], w) = (Inl e, w')"
      | env0 w1 where "?child ([], w) = (Inr env0, w1)"
          "?docker (configure_project_environment env0 ps) w1 = (Inl e, w')"
      | env0 w1 here w2 where "?child ([], w) = (Inr env0, w1)"
          "?docker (configure_project_environment env0 ps) w1 = (Inr here, w2)"
          "?go ps (configure_project_environment env0 ps) here w2 = (Inl e, w')"
      unfolding Let_def bindIO_raises [of ?child] bindIO_raises [of "?docker _"] by blast
    then show ?thesis
    proof cases
      case 1
      from same_issued [OF ran.keeps_child_environment 1] show ?thesis by (simp add: issued_def runs_def)
    next
      case a: 2
      from same_issued [OF ran.keeps_docker_local a(2)] same_issued [OF ran.keeps_child_environment a(1)]
      show ?thesis by (simp add: issued_def runs_def)
    next
      case b: 3
      have i: "issued w2 = []"
        using same_issued [OF ran.keeps_docker_local b(2)] same_issued [OF ran.keeps_child_environment b(1)]
        by (simp add: issued_def runs_def)
      from b(3) consider "w' = w2" | "bring_up (recording S) a ps (configure_project_environment env0 ps) w2 = (Inl e, w')"
        by (auto simp: bindIO_raises)
      then show ?thesis
      proof cases
        case 1
        with i show ?thesis by simp
      next
        case 2
        from bring_up_raises [OF this i] \<open>project_names run_id = Inr ps\<close> id show ?thesis by auto
      qed
    qed
  qed simp
qed

text \<open>Every project that was begun has its teardown command, the last begun first.\<close>

definition torn :: "'w lifecycle \<Rightarrow> suite_args \<Rightarrow> projects \<Rightarrow> string list \<Rightarrow> string list list \<Rightarrow> bool" where
  "torn S a ps names ends \<longleftrightarrow> map Inr ends = map (down_of S a ps) (rev (remdups names))"

lemma torn_downs:
  assumes "list_all2 (starts S a ps) names ups" and "\<not> retain_on_up_failure a"
  shows "torn S a ps names (downs S a ps (remdups names))"
proof -
  have "list_all (\<lambda>n. isOK (down_of S a ps n)) names"
    using assms(1) by (induction rule: list_all2_induct) (simp_all add: starts_down)
  then have "list_all (\<lambda>n. isOK (down_of S a ps n)) (rev (remdups names))" by (simp add: list_all_iff)
  then show ?thesis using assms(2) by (simp add: torn_def downs_def built_all)
qed

text \<open>
  Claim C15. A failed start leaves nothing behind, but for what no handler covers. When up does
  not return 0 and its projects are not to be retained, the commands it ran are: at most the check
  of the official runner's images, then the starts of projects in their fixed order, Marty twice
  when it is bootstrapped, and then teardowns. When a failing status is returned, and when the
  certification of a bootstrapped Marty raises \<open>OSError\<close> or \<open>ValueError\<close> or the wait for the
  endpoints raises \<open>ValueError\<close>, these are exactly one teardown command for every project begun,
  the failing one included, in the reverse order. Otherwise the exception is one of the five kinds
  of \<open>unhandled\<close>.
\<close>

theorem failed_up_torn_down:
  "case execute (recording S) a ([], w) of (r, w') \<Rightarrow>
     if action_arg a = ''up'' \<and> r \<noteq> Inr 0 \<and> \<not> retain_on_up_failure a
     then (case project_names (the (run_id_arg a)) of
         Inl x \<Rightarrow> issued w' = []
       | Inr ps \<Rightarrow> \<exists>check names ups ends. issued w' = check @ ups @ ends
           \<and> (check = [] \<or> map Inr check = [oidf_command S a ps ''cache-check''])
           \<and> list_all2 (starts S a ps) names ups
           \<and> in_order (map fst (components S a ps ''up'')) names
           \<and> (case r of Inr c \<Rightarrow> torn S a ps names ends
              | Inl e \<Rightarrow> torn S a ps names ends \<or> unhandled S a ps e names ends w'))
     else True"
proof -
  obtain r w' where Pair: "execute (recording S) a ([], w) = (r, w')"
    by (cases "execute (recording S) a ([], w)") blast
  let ?order = "\<lambda>ps. map fst (components S a ps ''up'')"
  let ?body = "\<lambda>ps check names ups ends. issued w' = check @ ups @ ends
     \<and> (check = [] \<or> map Inr check = [oidf_command S a ps ''cache-check''])
     \<and> list_all2 (starts S a ps) names ups \<and> in_order (?order ps) names
     \<and> (case r of Inr c \<Rightarrow> torn S a ps names ends | Inl e \<Rightarrow> torn S a ps names ends \<or> unhandled S a ps e names ends w')"
  show ?thesis
  proof (cases "action_arg a = ''up'' \<and> r \<noteq> Inr 0 \<and> \<not> retain_on_up_failure a")
    case True
    then have up: "action_arg a = ''up''" and keep: "\<not> retain_on_up_failure a" by simp_all
    have "(case project_names (the (run_id_arg a)) of Inl x \<Rightarrow> issued w' = [] | Inr ps \<Rightarrow> \<exists>check names ups ends. ?body ps check names ups ends)"
    proof (cases r)
      case (Inr c)
      obtain ps env v where ps: "project_names (the (run_id_arg a)) = Inr ps" and v: "issued v = []"
        and k: "(if action_arg a \<noteq> ''up'' then visit_all (recording S) env (components S a ps (action_arg a)) 0
            else bring_up (recording S) a ps env) v = (Inr c, w')"
        by (rule execute_OK [OF Pair [unfolded Inr]])
      from k up have "bring_up (recording S) a ps env v = (Inr c, w')" by simp
      from bring_up_torn [OF this v, unfolded torn_down_def] obtain check names ups where
        t: "issued w' = check @ ups @ (if c = 0 then [] else downs S a ps (remdups names))"
          "check = [] \<or> map Inr check = [oidf_command S a ps ''cache-check'']" "list_all2 (starts S a ps) names ups"
          "in_order (?order ps) names" by (elim exE conjE) (rule that, assumption+)
      have "?body ps check names ups (downs S a ps (remdups names))"
        using t torn_downs [OF t(3) keep] True Inr by simp
      then show ?thesis unfolding ps sum.case by (intro exI)
    next
      case (Inl e)
      from execute_raises [OF Pair [unfolded Inl] up]
      consider "issued w' = []" | ps where "project_names (the (run_id_arg a)) = Inr ps" "broken_off S a ps e w'" by blast
      then show ?thesis
      proof cases
        case 1
        have "?body ps [] [] [] []" for ps using 1 Inl by (simp add: torn_def in_order_def)
        then have "\<exists>check names ups ends. ?body ps check names ups ends" for ps by (intro exI)
        then show ?thesis using 1 by (simp only: sum.case split: sum.split) simp
      next
        case (2 ps)
        from 2(2) [unfolded broken_off_def start_record_def] obtain check names ups ends where
          t: "issued w' = check @ ups @ ends" "check = [] \<or> map Inr check = [oidf_command S a ps ''cache-check'']"
            "list_all2 (starts S a ps) names ups" "in_order (?order ps) names"
            "ends = downs S a ps (remdups names) \<or> unhandled S a ps e names ends w'"
          by (elim exE conjE) (rule that, assumption+)
        have "?body ps check names ups ends" using t torn_downs [OF t(3) keep] Inl by auto
        then show ?thesis unfolding 2(1) sum.case by (intro exI)
      qed
    qed
    then show ?thesis unfolding Pair prod.case if_P [OF True] .
  next
    case False
    show ?thesis unfolding Pair prod.case if_not_P [OF False] by simp
  qed
qed

end
