(* ===== verification/Suite_Credentials.thy ===== *)
theory Suite_Credentials
  imports Suite_Compose_Props Suite_Watch_Props Eudi_Contract_Props
begin

text \<open>
  Which processes of a lifecycle command can read a GitHub credential. The record of
  \<open>Suite_Compose_Props\<close> names every process that the lifecycle script starts itself or through
  \<^verbatim>\<open>scripts/docker_context.py\<close>, with its environment.
\<close>

section \<open>Environments without a credential\<close>

definition token_free :: "environment \<Rightarrow> bool" where
  "token_free env = list_all (\<lambda>k. map_of env k = None)
     [''GH_TOKEN'', ''GITHUB_TOKEN'', ''GH_ENTERPRISE_TOKEN'', ''GITHUB_ENTERPRISE_TOKEN'']"





text \<open>The one credential handed on: as \<open>GH_TOKEN\<close>, the first of two that the process itself has.\<close>

definition launcher_token :: "environment \<Rightarrow> environment \<Rightarrow> bool" where
  "launcher_token own env \<longleftrightarrow>
     map_of env ''GH_TOKEN'' = Some (if env_text_of own ''GH_TOKEN'' \<noteq> [] then env_text_of own ''GH_TOKEN''
                                     else env_text_of own ''GITHUB_TOKEN'')
     \<and> list_all (\<lambda>k. map_of env k = None) [''GITHUB_TOKEN'', ''GH_ENTERPRISE_TOKEN'', ''GITHUB_ENTERPRISE_TOKEN'']"


section \<open>Computations that confine credentials and yield clean environments\<close>











section \<open>The claim on one process\<close>

definition marty_up :: "'w lifecycle \<Rightarrow> suite_args \<Rightarrow> string list \<Rightarrow> bool" where
  "marty_up S a c \<longleftrightarrow> (\<exists>ps h r. project_names (the (run_id_arg a)) = Inr ps \<and> marty_command S a ps ''up'' h r = Inr c)"

text \<open>\<open>docker_command\<close> asks about the selected context without an environment of its own.\<close>

definition context_query :: "environment \<Rightarrow> string list \<Rightarrow> bool" where
  "context_query own args \<longleftrightarrow> env_value own context_env \<noteq> []
     \<and> args = [''docker'', ''context'', ''inspect'', env_value own context_env]"

definition confined :: "'w lifecycle \<Rightarrow> suite_args \<Rightarrow> event \<Rightarrow> bool" where
  "confined S a e = (case e of
     Ran c env r \<Rightarrow> token_free env \<or> marty_up S a c \<and> launcher_token (own_env S) env
   | Captured c env \<Rightarrow> token_free env
   | Docker args env \<Rightarrow> token_free env \<or> env = own_env S \<and> context_query (own_env S) args
   | Diagnosed p env \<Rightarrow> token_free env
   | Fetched u r \<Rightarrow> True)"

definition all_confined :: "'w lifecycle \<Rightarrow> suite_args \<Rightarrow> event list \<Rightarrow> bool" where
  "all_confined S a = list_all (confined S a)"







interpretation confined: fetch_log "all_confined S a" for S a
  by unfold_locales (simp add: all_confined_def confined_def)

section \<open>The environment of the children\<close>











section \<open>Every step of a lifecycle command\<close>















end
