(* ===== verification/Spec2Isabelle.thy ===== *)
theory Spec2Isabelle
  imports Release_Absent_Props Release_Lineage Release_Probe_Props Stack_Env Stack_Release_Props Suite_Checkout Docker_Context Runner_Hosts Evidence_Contracts_Props Evidence_Sanitize Conformance_Run_Props Conformance_Diagnostics_Props Evidence_Review_Props Sd_Jwt_Audit_Props Review_Crypto_Props Review_Viewer_Props Artifact_Tar_Props Artifact_Pin_Props Artifact_Evidence_Props Artifact_Sbom_Props Artifact_Contract_Props Artifact_Oci_Props Artifact_Load_Props Artifact_Candidate_Props Artifact_Gate_Props Eudi_Contract_Props Suite_Start_Props Eudi_Reference Mdoc_Audit_Props Suite_Teardown Suite_Credentials
begin

text \<open>
  The verification library of the integration-test repository: a model of the Python programs
  under \<^verbatim>\<open>src/scripts\<close> that decide what may be released, what an official conformance
  result means, and what evidence may become public.

  \<^bold>\<open>The program.\<close> The scripts are started by CI one after another and meet in files. A release is
  guarded by \<^verbatim>\<open>check_release_absent.py\<close>, \<^verbatim>\<open>check_release_lineage.py\<close> and \<^verbatim>\<open>probe_release_lookup.py\<close>
  against the hosting API. A stack under test is pinned and rendered by \<^verbatim>\<open>official_stack_release.py\<close>
  and \<^verbatim>\<open>render_stack_env.py\<close>; an official suite is pinned by \<^verbatim>\<open>official_suite_checkout.py\<close> and
  \<^verbatim>\<open>official_suite_updates.py\<close>. \<^verbatim>\<open>official_suite_compose.py\<close> starts and stops the Compose projects of a
  run through \<^verbatim>\<open>oidf_runner_compose.py\<close> and \<^verbatim>\<open>eudi_reference_compose.py\<close>. \<^verbatim>\<open>oidf_conformance.py\<close> drives the official runner through
  \<^verbatim>\<open>oidf_runner_compose.py\<close>, \<^verbatim>\<open>docker_context.py\<close> and the host aliases, reads its exports back and
  writes hash-bound evidence. \<^verbatim>\<open>sanitize_official_evidence.py\<close> turns evidence into the public
  summary, with the closed contracts of the assessment and diagnostic scripts;
  \<^verbatim>\<open>official_review_crypto.py\<close> and \<^verbatim>\<open>official_review_delivery.py\<close> hand private material to human
  reviewers. \<^verbatim>\<open>credentials_verifier_artifact.py\<close> pins, inspects and compares the verifier images
  (oracle, rejected release, candidate, transaction) and clears a transaction for release.

  \<^bold>\<open>Conventions.\<close> A Python function is a HOL function of the same name (without leading underscore);
  one that may raise returns \<open>'a result = exn + 'a\<close>; one that talks to the outside is an \<open>io\<close>
  computation over a world that is a type parameter. JSON values are the datatype \<open>json\<close> with
  Python's equality, truth, \<open>get\<close>, subscript, \<open>str\<close> and iteration. Strings are lists of the
  characters up to code 255. Loops are structural recursion, \<open>foldE\<close>/\<open>mapE\<close>, or \<open>function\<close>s with a
  termination proof. Fuel appears in the length guards written at \<open>finditer_from\<close> and
  \<open>rmatch (Many ...)\<close>, which Py_Regex_Lang shows to be enough, and in the two polling loops of the
  lifecycle, \<open>ready_loop\<close> and \<open>identity_loop\<close>: one round more than the deadline has seconds, which
  \<open>readiness_ends_at_deadline\<close> and \<open>identity_loop_fuel\<close> show to be enough for a clock that never runs
  backwards. Sets of the code are \<open>set\<close>s or
  lists without repetition.

  \<^bold>\<open>The base.\<close> Prelude (exceptions, results, traversals, dictionaries as association lists), Py_Str,
  Py_Json, Py_Regex (a backtracking matcher) and Py_Regex_Lang (its language), Py_Url, Py_Hash
  (SHA-256 on words), Py_IO (worlds, invariants, request costs, weakest preconditions), Py_Files
  (hosts of files), Py_Glob. The interfaces are locales: the release client of Release_Absent_Props,
  Write_Once (dictionaries written once per key), Keyed_Loop (loops that refuse repeated keys and
  exceeded totals) and fetch_log, quiet_log (invariants of a recorded suite), each interpreted on the model's own definitions.

  \<^bold>\<open>The components.\<close>
  \<^item> Release_Absent, Release_Lineage, Release_Probe (with \<open>_Props\<close>): the three release guards; exact
    results, no writes, bounded requests, deletion of the own draft only.
  \<^item> Stack_Env, Stack_Release, Suite_Checkout: rendering, pins, verification of a stack release and
    of a suite checkout; only digest-pinned images, only rechecked bytes.
  \<^item> Docker_Context, Runner_Hosts: where the runner runs and which names it resolves.
  \<^item> Conformance_Config, Conformance_Plan, Conformance_Diagnostics, Conformance_Evidence,
    Conformance_Run: preconditions, reading of plans and exports, diagnostics, evidence inventory
    and the run itself; exit code 0 needs complete live coverage and a clean pinned runner, and
    recorded coverage is accepted again; each hook starts exactly for the module and interaction
    the runner announced, and every value of a published failure is traced to the log field or the
    exported document it was read from.
  \<^item> Evidence_Contracts, Evidence_Sanitize, Evidence_Review, Evidence_Summary, Sd_Jwt_Audit: closed
    contracts, redaction (with non-interference), review requests (each export in the one receipt is
    hashed to the digest it names), the public summary, the audit (its flows, its rows and their
    stages read off the log, and every official failure among them).
  \<^item> Mdoc_Audit: the audit of the mdoc session transcripts; a row is marked as expected exactly when
    the logged binding of its own flow agrees with the official digests and was forwarded to the
    verification policy with the official device response.
  \<^item> Review_Crypto, Review_Delivery, Review_Viewer: the encryption tool, packing and opening.
  \<^item> Artifact_Tar, Artifact_Files, Artifact_Pin, Artifact_Sbom, Artifact_Evidence: the tar scan, reads
    under interference, pins, SBOMs and clearance.
  \<^item> Artifact_Contract, Artifact_Oci, Artifact_Load: the runtime contract of an image, the inspection
    of a saved OCI archive (index, manifest, configuration, layers: every blob read is bound to its
    digest and a layer's expansion is bounded) and its loading into Docker, where a failure at any
    step removes the tag the attempt made.
  \<^item> Artifact_Candidate, Artifact_Gate: the candidate's staged evidence, whose attestations and inputs
    are shown to name one source and one digest, each read from its own file, and the runtime gates,
    shown to accept a positive run only with every expected outcome, the rejection of a verifier's
    status and message among them, and a negative control only for its exact failure.
  \<^item> Eudi_Contract, Suite_Startup, Suite_Watch, Suite_Compose, Eudi_Reference: the environment contract
    of EUDI material and the lifecycle command \<^verbatim>\<open>official_suite_compose.py\<close>. The suite is recorded
    (Suite_Compose_Props): every process the command starts itself or through
    \<^verbatim>\<open>docker_context.py\<close>, with its environment, and every HTTP answer is an event of a list. Generated
    material meets its own contract; a start that fails, by a status or by an exception that a
    handler names, tears down what it began in reverse order, and Suite_Teardown lists the failures
    that no handler covers; a successful one started everything and saw the EUDI endpoints answer;
    every other action visits every project; GitHub credentials reach the Marty launcher and, which
    the code does not mean to do, the query of the selected Docker context only (Suite_Credentials;
    the keytool processes of the material check are outside the record and inherit them too); the
    wait ends at its deadline; the published diagnosis is closed; and the tools the lifecycle calls
    accept what it hands them.
  Each \<open>_Props\<close> theory holds the lemmas of its component and the properties; a claim's text names
  its id.

  \<^bold>\<open>Parameters.\<close> Code outside the repository is an argument: the HTTP opener, \<open>subprocess.run\<close>,
  \<open>json.loads\<close>, the archive libraries, Docker, git and gh, clocks and random values. What a theorem
  needs of them is a hypothesis of the theorem.

  \<^bold>\<open>Not modelled.\<close> Argument parsing and printing; browser automation, key generation and the HTTP
  servers of the fixture scripts; the scripts the manifest lists as not modelled; the tests, the
  Kotlin and Rust harnesses, Compose files and workflows. File modes and partial writes are left out
  where a component's note says so.
\<close>

end
